(* ===== verification/Cara_Prelude.thy ===== *)
theory Cara_Prelude
  imports Complex_Main "HOL-Library.Char_ord" "HOL-Library.List_Lexorder" "HOL-Library.Sublist"
begin

text \<open>
  Shared vocabulary of the development: the Go types the program is written in
  (\<open>int64\<close> with its wrap-around, \<open>time.Time\<close> and \<open>time.Duration\<close> with the saturating
  \<open>Sub\<close>), the standard-library functions the modelled code calls (\<open>strconv.FormatInt\<close>,
  \<open>strings.Join\<close>, the \<open>%q\<close> verb), the error values of \<open>internal/store\<close>, and the
  generic lemmas on lists and options that the component proofs share.
\<close>

named_theorems wrap_simps "evaluation of the wrap-around of int64 and of time differences"
named_theorems mutate_defs "unfolding rules of the status mutations"
named_theorems status_frame "fields a status mutation leaves alone"

subsection \<open>Machine integers and time\<close>

definition max_int64 :: int where "max_int64 = 2 ^ 63 - 1"
definition min_int64 :: int where "min_int64 = - (2 ^ 63)"

definition wrap64 :: "int \<Rightarrow> int" where
  "wrap64 x = (x + 2 ^ 63) mod 2 ^ 64 - 2 ^ 63"

abbreviation in_int64 :: "int \<Rightarrow> bool" where
  "in_int64 x \<equiv> min_int64 \<le> x \<and> x \<le> max_int64"

lemma wrap64_id [wrap_simps]: "in_int64 x \<Longrightarrow> wrap64 x = x"
  by (simp add: wrap64_def max_int64_def min_int64_def)

lemma wrap64_range: "in_int64 (wrap64 x)"
proof -
  have "0 \<le> (x + 2 ^ 63) mod 2 ^ 64" "(x + 2 ^ 63) mod 2 ^ 64 < (2 ^ 64 :: int)"
    by simp_all
  then show ?thesis by (simp add: wrap64_def max_int64_def min_int64_def)
qed

lemma wrap64_succ: "min_int64 \<le> x \<Longrightarrow> x < max_int64 \<Longrightarrow> wrap64 (x + 1) = x + 1"
  by (rule wrap64_id) (simp add: max_int64_def min_int64_def)

lemma wrap64_add_left [simp]: "wrap64 (wrap64 x + y) = wrap64 (x + y)"
  by (simp add: wrap64_def mod_simps algebra_simps)

text \<open>
  Times are nanoseconds since the Unix epoch. The zero \<open>time.Time\<close> is the first of
  January of the year 1. \<open>Time.Sub\<close> saturates at the ends of \<open>int64\<close>, so the age of a
  zero time is the largest duration rather than a wrapped one.
\<close>

type_synonym time = int
type_synonym duration = int

definition time_zero :: time where "time_zero = - 62135596800 * 10 ^ 9"

definition time_Sub :: "time \<Rightarrow> time \<Rightarrow> duration" where
  "time_Sub t u = max min_int64 (min max_int64 (t - u))"

definition time_Second :: duration where "time_Second = 10 ^ 9"
definition time_Minute :: duration where "time_Minute = 60 * time_Second"
definition time_Hour :: duration where "time_Hour = 60 * time_Minute"

lemmas duration_defs = time_Second_def time_Minute_def time_Hour_def

lemma time_Sub_range: "in_int64 (time_Sub t u)"
  by (simp add: time_Sub_def max_int64_def min_int64_def)

lemma time_Sub_less_iff [wrap_simps]:
  "min_int64 < d \<Longrightarrow> d \<le> max_int64 \<Longrightarrow> time_Sub t u < d \<longleftrightarrow> t - u < d"
  by (auto simp: time_Sub_def max_def min_def max_int64_def min_int64_def)

lemma time_Sub_mono: "t \<le> t' \<Longrightarrow> time_Sub t u \<le> time_Sub t' u"
  by (auto simp: time_Sub_def)

subsection \<open>Decimal rendering\<close>

definition digit_char :: "nat \<Rightarrow> char" where
  "digit_char d = char_of (48 + d)"

fun show_nat :: "nat \<Rightarrow> string" where
  "show_nat n = (if n < 10 then [digit_char n] else show_nat (n div 10) @ [digit_char (n mod 10)])"

declare show_nat.simps [simp del]

definition FormatInt :: "int \<Rightarrow> string" where
  "FormatInt i = (if i < 0 then ''-'' @ show_nat (nat (- i)) else show_nat (nat i))"

lemma show_nat_nonempty [simp]: "show_nat n \<noteq> []"
  by (subst show_nat.simps) simp

lemma of_char_digit [simp]: "d < 10 \<Longrightarrow> (of_char (digit_char d) :: nat) = 48 + d"
  by (simp add: digit_char_def)

lemma set_show_nat: "c \<in> set (show_nat n) \<Longrightarrow> \<exists>d<10. c = digit_char d"
proof (induction n rule: show_nat.induct)
  case (1 n)
  show ?case
  proof (cases "n < 10")
    case True
    with "1.prems" show ?thesis by (auto simp: show_nat.simps [of n])
  next
    case False
    with "1.prems" consider "c \<in> set (show_nat (n div 10))" | "c = digit_char (n mod 10)"
      by (auto simp: show_nat.simps [of n])
    then show ?thesis
    proof cases
      case 1
      with "1.IH" False show ?thesis by blast
    next
      case 2
      then show ?thesis by (intro exI [of _ "n mod 10"]) simp
    qed
  qed
qed

subsection \<open>Strings\<close>

fun strings_Join :: "string list \<Rightarrow> string \<Rightarrow> string" where
  "strings_Join [] sep = []"
| "strings_Join [x] sep = x"
| "strings_Join (x # xs) sep = x @ sep @ strings_Join xs sep"

text \<open>
  The \<open>%q\<close> verb, for the printable ASCII strings that resource names are: the string
  between double quotes, with quotes and backslashes escaped.
\<close>

definition quote_char :: "char \<Rightarrow> string" where
  "quote_char c = (if c = CHR 0x22 \<or> c = CHR 0x5C then [CHR 0x5C, c] else [c])"

definition go_quote :: "string \<Rightarrow> string" where
  "go_quote s = CHR 0x22 # concat (map quote_char s) @ [CHR 0x22]"

lemma strings_Join_eq_Nil: "strings_Join xs sep = [] \<Longrightarrow> \<forall>x \<in> set xs. x \<noteq> [] \<Longrightarrow> xs = []"
  by (induction xs sep rule: strings_Join.induct) auto

subsection \<open>Errors of internal/store\<close>

text \<open>
  The sentinel errors of \<open>internal/store/interface.go\<close>. Each carries the text that the
  code appends after the sentinel, and \<open>WrappedError\<close> is a \<open>%w\<close> behind further text;
  \<open>error_text\<close> is what \<open>err.Error()\<close> gives.
\<close>

datatype store_error =
    ErrNotFound string
  | ErrAlreadyExists string
  | ErrWrongNode string
  | ErrConflictState string
  | ErrVersionConflict string
  | ErrStaleAssignment string
  | FinalizationBlockedError string string
  | DatabaseError string
  | WrappedError string store_error

definition wrapped :: "string \<Rightarrow> string \<Rightarrow> string" where
  "wrapped sentinel detail = (if detail = [] then sentinel else sentinel @ '': '' @ detail)"

fun error_text :: "store_error \<Rightarrow> string" where
  "error_text (ErrNotFound d) = wrapped ''resource not found'' d"
| "error_text (ErrAlreadyExists d) = wrapped ''resource already exists'' d"
| "error_text (ErrWrongNode d) = wrapped ''the token was issued for another Node'' d"
| "error_text (ErrConflictState d) = wrapped ''operation conflicts with current resource state'' d"
| "error_text (ErrVersionConflict d) = wrapped ''resource version conflict'' d"
| "error_text (ErrStaleAssignment d) = wrapped ''stale assignment fence'' d"
| "error_text (FinalizationBlockedError n r) = ''project '' @ go_quote n @ '' cannot be finalized: '' @ r"
| "error_text (DatabaseError d) = d"
| "error_text (WrappedError pre e) = pre @ '': '' @ error_text e"

text \<open>\<open>errors.Is\<close> against a sentinel. A finalization refusal also matches the conflict sentinel.\<close>

fun is_not_found :: "store_error \<Rightarrow> bool" where
  "is_not_found (ErrNotFound _) = True"
| "is_not_found (WrappedError _ e) = is_not_found e"
| "is_not_found _ = False"

fun is_already_exists :: "store_error \<Rightarrow> bool" where
  "is_already_exists (ErrAlreadyExists _) = True"
| "is_already_exists (WrappedError _ e) = is_already_exists e"
| "is_already_exists _ = False"

fun is_wrong_node :: "store_error \<Rightarrow> bool" where
  "is_wrong_node (ErrWrongNode _) = True"
| "is_wrong_node (WrappedError _ e) = is_wrong_node e"
| "is_wrong_node _ = False"

fun is_stale :: "store_error \<Rightarrow> bool" where
  "is_stale (ErrStaleAssignment _) = True"
| "is_stale (WrappedError _ e) = is_stale e"
| "is_stale _ = False"

fun is_version_conflict :: "store_error \<Rightarrow> bool" where
  "is_version_conflict (ErrVersionConflict _) = True"
| "is_version_conflict (WrappedError _ e) = is_version_conflict e"
| "is_version_conflict _ = False"

fun is_conflict_state :: "store_error \<Rightarrow> bool" where
  "is_conflict_state (ErrConflictState _) = True"
| "is_conflict_state (FinalizationBlockedError _ _) = True"
| "is_conflict_state (WrappedError _ e) = is_conflict_state e"
| "is_conflict_state _ = False"

type_synonym 'a result = "store_error + 'a"

subsection \<open>Lists and options\<close>

text \<open>Go's \<open>for i := range xs \<dots> return &xs[i]\<close>: the first element that satisfies a test.\<close>

lemma find_append: "List.find P (xs @ ys) = (case List.find P xs of None \<Rightarrow> List.find P ys | Some x \<Rightarrow> Some x)"
  by (induction xs) auto

lemma find_SomeD: "List.find P xs = Some x \<Longrightarrow> x \<in> set xs \<and> P x"
  by (induction xs) (auto split: if_splits)

lemma find_NoneD: "List.find P xs = None \<Longrightarrow> x \<in> set xs \<Longrightarrow> \<not> P x"
  by (induction xs) (auto split: if_splits)

text \<open>An assignment through the pointer that such a loop returned: update the first match only.\<close>

fun update_first :: "('a \<Rightarrow> bool) \<Rightarrow> ('a \<Rightarrow> 'a) \<Rightarrow> 'a list \<Rightarrow> 'a list" where
  "update_first P f [] = []"
| "update_first P f (x # xs) = (if P x then f x # xs else x # update_first P f xs)"

lemma length_update_first [simp]: "length (update_first P f xs) = length xs"
  by (induction xs) auto

lemma map_update_first: "(\<And>x. g (f x) = g x) \<Longrightarrow> map g (update_first P f xs) = map g xs"
  by (induction xs) auto

lemma set_update_first: "y \<in> set (update_first P f xs) \<Longrightarrow> y \<in> set xs \<or> (\<exists>x \<in> set xs. P x \<and> y = f x)"
  by (induction xs) (auto split: if_splits)

lemma update_first_keeps: "x \<in> set xs \<Longrightarrow> \<not> P x \<Longrightarrow> x \<in> set (update_first P f xs)"
  by (induction xs) auto

lemma update_first_hit: "x \<in> set xs \<Longrightarrow> P x \<Longrightarrow> \<exists>y \<in> set xs. P y \<and> f y \<in> set (update_first P f xs)"
  by (induction xs) auto

lemma update_first_id: "List.find P xs = None \<Longrightarrow> update_first P f xs = xs"
  by (induction xs) (auto split: if_splits)

lemma find_update_first:
  "(\<And>x. P x \<Longrightarrow> P (f x)) \<Longrightarrow> List.find P (update_first P f xs) = map_option f (List.find P xs)"
  by (induction xs) auto

end
