(* ===== verification/Conditions.thy ===== *)
theory Conditions
  imports Cara_Prelude
begin

text \<open>
  The condition lists of \<open>api/v1/condition.go\<close>: the condition types, statuses and
  reasons, and the operations every writer of a status goes through, \<open>UpsertCondition\<close>,
  \<open>RemoveConditions\<close> and \<open>IsMaintenanceActive\<close>. A Go string enum is a datatype with the
  named constants and one constructor for any other string a client may send.
\<close>

datatype ConditionStatus =
    ConditionTrue | ConditionFalse | ConditionUnknown
  | ConditionStatusOther string

datatype ConditionType =
    ConditionTypeReady
  | ConditionTypePhase
  | ConditionTypeTerminatingAt
  | ConditionTypeTerminationBlocked
  | ConditionTypeFinalizationBlocked
  | ConditionTypeNotReadyAt
  | ConditionTypeMaintenance
  | ConditionTypeRecoveryBlocked
  | ConditionTypeSchedulingBlocked
  | ConditionTypeTeardownBlocked
  | ConditionTypeRecovering
  | ConditionTypeRecoveryExhausted
  | ConditionTypeTakeoverRequired
  | ConditionTypeRescheduleExhausted
  | ConditionTypeBackupActive
  | ConditionTypeBackupFailing
  | ConditionTypeDataRestored
  | ConditionTypeSpecApplied
  | ConditionTypeDiskPressure
  | ConditionTypeMemoryPressure
  | ConditionTypeOther string

definition ReasonNoAcceptedBackup :: string where
  "ReasonNoAcceptedBackup = ''NoAcceptedBackup''"
definition ReasonBackupAccepted :: string where
  "ReasonBackupAccepted = ''BackupAccepted''"
definition ReasonSpecUpdatePending :: string where
  "ReasonSpecUpdatePending = ''UpdatePending''"
definition ReasonSpecApplied :: string where
  "ReasonSpecApplied = ''Applied''"

record Condition =
  cond_Type :: ConditionType
  cond_Status :: ConditionStatus
  cond_LastHeartbeatTime :: time
  cond_LastTransitionTime :: time
  cond_Reason :: string
  cond_Message :: string

text \<open>A composite literal that leaves \<open>LastHeartbeatTime\<close> out, as every writer's does.\<close>

definition condition_lit :: "ConditionType \<Rightarrow> ConditionStatus \<Rightarrow> string \<Rightarrow> string \<Rightarrow> time \<Rightarrow> Condition" where
  "condition_lit ty st reason message t =
     \<lparr>cond_Type = ty, cond_Status = st, cond_LastHeartbeatTime = time_zero,
      cond_LastTransitionTime = t, cond_Reason = reason, cond_Message = message\<rparr>"

definition MaintenanceStaleAfter :: duration where
  "MaintenanceStaleAfter = 30 * time_Minute"

fun IsMaintenanceActive :: "Condition list \<Rightarrow> time \<Rightarrow> bool" where
  "IsMaintenanceActive [] now = False"
| "IsMaintenanceActive (c # cs) now =
     (if cond_Type c \<noteq> ConditionTypeMaintenance then IsMaintenanceActive cs now
      else if cond_Status c \<noteq> ConditionTrue then False
      else time_Sub now (cond_LastTransitionTime c) < MaintenanceStaleAfter)"

definition same_content :: "Condition \<Rightarrow> Condition \<Rightarrow> bool" where
  "same_content c d \<longleftrightarrow> cond_Status c = cond_Status d \<and> cond_Reason c = cond_Reason d
     \<and> cond_Message c = cond_Message d"

fun UpsertCondition :: "Condition list \<Rightarrow> Condition \<Rightarrow> bool \<Rightarrow> Condition list" where
  "UpsertCondition [] cond transitioned = [cond]"
| "UpsertCondition (c # cs) cond transitioned =
     (if cond_Type c \<noteq> cond_Type cond then c # UpsertCondition cs cond transitioned
      else (if \<not> transitioned \<and> same_content c cond
            then cond\<lparr>cond_LastTransitionTime := cond_LastTransitionTime c,
                      cond_LastHeartbeatTime := cond_LastHeartbeatTime c\<rparr>
            else cond) # cs)"

definition RemoveConditions :: "Condition list \<Rightarrow> ConditionType list \<Rightarrow> Condition list" where
  "RemoveConditions cs types = filter (\<lambda>c. cond_Type c \<notin> set types) cs"

definition find_condition :: "ConditionType \<Rightarrow> Condition list \<Rightarrow> Condition option" where
  "find_condition t cs = List.find (\<lambda>c. cond_Type c = t) cs"

text \<open>Well-formed lists carry each type once; every writer keeps them so.\<close>

definition conditions_wf :: "Condition list \<Rightarrow> bool" where
  "conditions_wf cs \<longleftrightarrow> distinct (map cond_Type cs)"

subsection \<open>UpsertCondition\<close>

lemma set_types_Upsert:
  "set (map cond_Type (UpsertCondition cs cond tr)) = insert (cond_Type cond) (set (map cond_Type cs))"
  by (induction cs cond tr rule: UpsertCondition.induct) auto

lemma conditions_wf_Upsert [simp]: "conditions_wf cs \<Longrightarrow> conditions_wf (UpsertCondition cs cond tr)"
  using set_types_Upsert
  by (induction cs cond tr rule: UpsertCondition.induct) (force simp: conditions_wf_def)+

lemma find_Upsert_other [simp]:
  "t \<noteq> cond_Type cond \<Longrightarrow> find_condition t (UpsertCondition cs cond tr) = find_condition t cs"
  by (induction cs cond tr rule: UpsertCondition.induct) (auto simp: find_condition_def)

lemma find_Upsert_same:
  "find_condition (cond_Type cond) (UpsertCondition cs cond tr) =
     Some (case find_condition (cond_Type cond) cs of
             None \<Rightarrow> cond
           | Some c \<Rightarrow> if \<not> tr \<and> same_content c cond
                      then cond\<lparr>cond_LastTransitionTime := cond_LastTransitionTime c,
                                cond_LastHeartbeatTime := cond_LastHeartbeatTime c\<rparr>
                      else cond)"
  by (induction cs cond tr rule: UpsertCondition.induct) (auto simp: find_condition_def)

text \<open>Re-asserting what is already stored changes nothing, whatever time it carries.\<close>

lemma Upsert_reassert:
  assumes "find_condition (cond_Type cond) cs = Some c" and "same_content c cond"
  shows "UpsertCondition cs cond False = cs"
  using assms
proof (induction cs)
  case Nil
  then show ?case by (simp add: find_condition_def)
next
  case (Cons d ds)
  show ?case
  proof (cases "cond_Type d = cond_Type cond")
    case True
    with Cons.prems have "same_content d cond" by (simp add: find_condition_def)
    with True show ?thesis by (simp add: same_content_def)
  next
    case False
    with Cons show ?thesis by (simp add: find_condition_def)
  qed
qed

lemma Upsert_idem:
  "UpsertCondition (UpsertCondition cs cond tr) (cond\<lparr>cond_LastTransitionTime := t\<rparr>) False
     = UpsertCondition cs cond tr"
proof -
  let ?c = "cond\<lparr>cond_LastTransitionTime := t\<rparr>"
  obtain d where d: "find_condition (cond_Type ?c) (UpsertCondition cs cond tr) = Some d"
    and "same_content d ?c"
    using find_Upsert_same [of cond cs tr] by (auto simp: same_content_def split: option.splits if_splits)
  then show ?thesis by (rule Upsert_reassert)
qed

subsection \<open>RemoveConditions\<close>

lemma find_filter_type:
  "find_condition t (filter Q cs) = find_condition t cs" if "\<And>c. cond_Type c = t \<Longrightarrow> Q c"
  using that by (induction cs) (auto simp: find_condition_def)

lemma find_Remove [simp]:
  "find_condition t (RemoveConditions cs ts) = (if t \<in> set ts then None else find_condition t cs)"
proof (cases "t \<in> set ts")
  case True
  then show ?thesis by (auto simp: find_condition_def RemoveConditions_def find_None_iff)
next
  case False
  then show ?thesis by (simp add: RemoveConditions_def find_filter_type)
qed

lemma conditions_wf_Remove [simp]: "conditions_wf cs \<Longrightarrow> conditions_wf (RemoveConditions cs ts)"
  by (simp add: conditions_wf_def RemoveConditions_def distinct_map_filter)

lemma conditions_wf_filter [simp]: "conditions_wf cs \<Longrightarrow> conditions_wf (filter Q cs)"
  by (simp add: conditions_wf_def distinct_map_filter)

lemma conditions_wf_Nil [simp]: "conditions_wf []"
  by (simp add: conditions_wf_def)

lemma find_condition_mem:
  "conditions_wf cs \<Longrightarrow> c \<in> set cs \<Longrightarrow> find_condition (cond_Type c) cs = Some c"
  by (induction cs) (auto simp: conditions_wf_def find_condition_def rev_image_eqI)

subsection \<open>The condition list as a map\<close>

text \<open>
  What the writers rely on: reading a type back after it was written or removed.
\<close>

locale condition_map =
  fixes upsert :: "'l \<Rightarrow> Condition \<Rightarrow> bool \<Rightarrow> 'l"
    and remove :: "'l \<Rightarrow> ConditionType list \<Rightarrow> 'l"
    and look :: "ConditionType \<Rightarrow> 'l \<Rightarrow> Condition option"
    and invar :: "'l \<Rightarrow> bool"
  assumes look_upsert_other: "t \<noteq> cond_Type c \<Longrightarrow> look t (upsert l c tr) = look t l"
    and look_upsert_transitioned: "look (cond_Type c) (upsert l c True) = Some c"
    and look_upsert_content:
      "\<exists>d. look (cond_Type c) (upsert l c tr) = Some d \<and> same_content d c \<and> cond_Type d = cond_Type c"
    and look_remove: "look t (remove l ts) = (if t \<in> set ts then None else look t l)"
    and invar_upsert: "invar l \<Longrightarrow> invar (upsert l c tr)"
    and invar_remove: "invar l \<Longrightarrow> invar (remove l ts)"
begin

text \<open>The two-step write of every release: drop the outage conditions, record the transition.\<close>

lemma release_conditions:
  assumes "cond_Type c \<notin> set ts" and "invar l"
  shows "invar (upsert (remove l ts) c tr)"
    and "t \<in> set ts \<Longrightarrow> look t (upsert (remove l ts) c tr) = None"
    and "t \<notin> set ts \<Longrightarrow> t \<noteq> cond_Type c \<Longrightarrow> look t (upsert (remove l ts) c tr) = look t l"
proof -
  show "invar (upsert (remove l ts) c tr)" using assms by (simp add: invar_upsert invar_remove)
  show "look t (upsert (remove l ts) c tr) = None" if "t \<in> set ts"
    using that assms look_upsert_other [of t c "remove l ts" tr] by (auto simp: look_remove)
  show "look t (upsert (remove l ts) c tr) = look t l" if "t \<notin> set ts" "t \<noteq> cond_Type c"
    using that by (simp add: look_upsert_other look_remove)
qed

end

interpretation conds: condition_map UpsertCondition RemoveConditions find_condition conditions_wf
proof unfold_locales
  fix c :: Condition and l tr
  show "\<exists>d. find_condition (cond_Type c) (UpsertCondition l c tr) = Some d \<and> same_content d c
          \<and> cond_Type d = cond_Type c"
    by (auto simp: find_Upsert_same same_content_def split: option.splits)
qed (auto simp: find_Upsert_same split: option.splits)

end
