(* ===== verification/Api_Types.thy ===== *)
theory Api_Types
  imports Conditions
begin

text \<open>
  The resource types of \<open>api/v1\<close> (\<open>types.go\<close>, \<open>node_types.go\<close>, \<open>node_tier.go\<close>,
  \<open>project_types.go\<close>) as records, and their pure accessors: sizes and the resources they
  book, backup strategies, node tiers. A nil slice and an empty one are the same list (every
  slice field is \<open>omitempty\<close>), a pointer is an option, a Go map a partial function. The
  JSON-schema methods are not modelled.
\<close>

subsection \<open>types.go\<close>

record TypeMeta =
  tm_APIVersion :: string
  tm_Kind :: string

record ObjectMeta =
  meta_Name :: string
  meta_UID :: string
  meta_Namespace :: string
  meta_ResourceVersion :: int
  meta_SpecRevision :: int
  meta_Labels :: "string \<rightharpoonup> string"
  meta_Annotations :: "string \<rightharpoonup> string"
  meta_CreatedAt :: time
  meta_UpdatedAt :: time

type_synonym ResourceList = "string \<rightharpoonup> string"

subsection \<open>node_types.go\<close>

datatype NetworkMode = NetworkModeDirect | NetworkModeDERP | NetworkModeOther string

datatype OverlayStatus =
    OverlayStatusOnline | OverlayStatusOffline | OverlayStatusUnknown | OverlayStatusOther string

record NodeThroughput =
  nt_Download :: string
  nt_Upload :: string
  nt_LastTestTime :: time

record NodeNetworkStatus =
  nn_OverlayIP :: string
  nn_OverlayStatus :: OverlayStatus
  nn_DNSName :: string
  nn_Mode :: NetworkMode
  nn_AgentPort :: int
  nn_Throughput :: NodeThroughput

datatype NodeState = NodeStateReady | NodeStateNotReady | NodeStateDraining | NodeStateOther string

definition NodeState_IsValid :: "NodeState \<Rightarrow> bool" where
  "NodeState_IsValid s = (case s of
       NodeStateReady \<Rightarrow> True | NodeStateNotReady \<Rightarrow> True | NodeStateDraining \<Rightarrow> True
     | NodeStateOther _ \<Rightarrow> False)"

record NodeInfo =
  ni_KernelVersion :: string
  ni_OSImage :: string
  ni_AgentVersion :: string

record NodeSpec =
  nsp_Hostname :: string
  nsp_Unschedulable :: bool

record NodeStatus =
  ns_State :: NodeState
  ns_Network :: NodeNetworkStatus
  ns_Capacity :: ResourceList
  ns_Allocatable :: ResourceList
  ns_Info :: NodeInfo
  ns_LastHeartbeat :: time
  ns_Conditions :: "Condition list"

record Node =
  node_TypeMeta :: TypeMeta
  node_Meta :: ObjectMeta
  node_Spec :: NodeSpec
  node_Status :: NodeStatus

subsection \<open>node_tier.go\<close>

definition LabelNodeTier :: string where "LabelNodeTier = ''cara.io/tier''"

datatype NodeTier = NodeTierPrimary | NodeTierBackup | NodeTierOther string

definition DefaultNodeTier :: NodeTier where "DefaultNodeTier = NodeTierBackup"

text \<open>The conversion \<open>NodeTier(s)\<close> of a label value.\<close>

definition NodeTier_of :: "string \<Rightarrow> NodeTier" where
  "NodeTier_of s = (if s = ''primary'' then NodeTierPrimary
                    else if s = ''backup'' then NodeTierBackup else NodeTierOther s)"

definition NodeTier_IsValid :: "NodeTier \<Rightarrow> bool" where
  "NodeTier_IsValid t \<longleftrightarrow> t = NodeTierPrimary \<or> t = NodeTierBackup"

definition ValidateNodeLabels :: "(string \<rightharpoonup> string) \<Rightarrow> string option" where
  "ValidateNodeLabels labels = (case labels LabelNodeTier of
       None \<Rightarrow> None
     | Some tier \<Rightarrow>
         if \<not> NodeTier_IsValid (NodeTier_of tier)
         then Some (''label '' @ LabelNodeTier @ '' must be '' @ go_quote ''primary'' @ '' or ''
                    @ go_quote ''backup'' @ '', got '' @ go_quote tier)
         else None)"

text \<open>A missing key of a Go map reads as the empty string.\<close>

definition map_get :: "(string \<rightharpoonup> string) \<Rightarrow> string \<Rightarrow> string" where
  "map_get m k = (case m k of None \<Rightarrow> '''' | Some v \<Rightarrow> v)"

definition NodeTierFromLabels :: "(string \<rightharpoonup> string) \<Rightarrow> NodeTier" where
  "NodeTierFromLabels labels =
     (let tier = NodeTier_of (map_get labels LabelNodeTier)
      in if NodeTier_IsValid tier then tier else DefaultNodeTier)"

definition EffectiveTier :: "Node \<Rightarrow> NodeTier" where
  "EffectiveTier n = NodeTierFromLabels (meta_Labels (node_Meta n))"

subsection \<open>project_types.go: phases and assignment history\<close>

datatype ProjectPhase =
    ProjectPhasePending
  | ProjectPhaseScheduled
  | ProjectPhaseRunning
  | ProjectPhaseFailed
  | ProjectPhaseTerminating
  | ProjectPhaseTerminated
  | ProjectPhaseOther string

abbreviation ProjectPhaseEmpty :: ProjectPhase where
  "ProjectPhaseEmpty \<equiv> ProjectPhaseOther ''''"

fun ProjectPhase_IsValid :: "ProjectPhase \<Rightarrow> bool" where
  "ProjectPhase_IsValid (ProjectPhaseOther _) = False"
| "ProjectPhase_IsValid _ = True"

text \<open>The underlying string of a phase, as the \<open>%s\<close> verb prints it, and the conversion back.\<close>

fun phase_text :: "ProjectPhase \<Rightarrow> string" where
  "phase_text ProjectPhasePending = ''Pending''"
| "phase_text ProjectPhaseScheduled = ''Scheduled''"
| "phase_text ProjectPhaseRunning = ''Running''"
| "phase_text ProjectPhaseFailed = ''Failed''"
| "phase_text ProjectPhaseTerminating = ''Terminating''"
| "phase_text ProjectPhaseTerminated = ''Terminated''"
| "phase_text (ProjectPhaseOther s) = s"

definition phase_of :: "string \<Rightarrow> ProjectPhase" where
  "phase_of s =
     (case List.find (\<lambda>p. phase_text p = s)
             [ProjectPhasePending, ProjectPhaseScheduled, ProjectPhaseRunning, ProjectPhaseFailed,
              ProjectPhaseTerminating, ProjectPhaseTerminated] of
        Some p \<Rightarrow> p | None \<Rightarrow> ProjectPhaseOther s)"

datatype AssignmentHistory =
    AssignmentHistoryNeverAssigned
  | AssignmentHistoryKnown
  | AssignmentHistoryUnknown
  | AssignmentHistoryOther string

fun AssignmentHistory_IsValid :: "AssignmentHistory \<Rightarrow> bool" where
  "AssignmentHistory_IsValid (AssignmentHistoryOther _) = False"
| "AssignmentHistory_IsValid _ = True"

fun history_text :: "AssignmentHistory \<Rightarrow> string" where
  "history_text AssignmentHistoryNeverAssigned = ''NeverAssigned''"
| "history_text AssignmentHistoryKnown = ''Known''"
| "history_text AssignmentHistoryUnknown = ''Unknown''"
| "history_text (AssignmentHistoryOther s) = s"

lemma phase_text_of [simp]: "phase_text (phase_of s) = s"
  by (auto simp: phase_of_def)

lemma phase_of_text: "ProjectPhase_IsValid p \<Longrightarrow> phase_of (phase_text p) = p"
  by (cases p) (auto simp: phase_of_def)

subsection \<open>project_types.go: the spec\<close>

record SecretKeySelector =
  sks_Name :: string
  sks_Key :: string

record EnvVarSource =
  evs_SecretKeyRef :: "SecretKeySelector option"

record EnvVar =
  env_Name :: string
  env_Value :: string
  env_ValueFrom :: "EnvVarSource option"

record VolumeMount =
  vm_Name :: string
  vm_MountPath :: string

record ServiceDef =
  svc_Name :: string
  svc_Image :: string
  svc_Command :: "string list"
  svc_Env :: "EnvVar list"
  svc_VolumeMounts :: "VolumeMount list"

datatype VolumeType = VolumeTypeManaged | VolumeTypeEphemeral | VolumeTypeOther string

fun volume_type_text :: "VolumeType \<Rightarrow> string" where
  "volume_type_text VolumeTypeManaged = ''Managed''"
| "volume_type_text VolumeTypeEphemeral = ''Ephemeral''"
| "volume_type_text (VolumeTypeOther s) = s"

datatype VolumeOnMissing = VolumeOnMissingInitializeEmpty | VolumeOnMissingOther string

record VolumeDef =
  vol_Name :: string
  vol_Type :: VolumeType

datatype IngressScope = IngressScopeInternal | IngressScopeOther string

record IngressTarget =
  it_Service :: string
  it_Port :: int

record IngressAccess =
  ia_Scope :: IngressScope

record IngressDef =
  ing_Name :: string
  ing_Host :: string
  ing_Target :: IngressTarget
  ing_Access :: IngressAccess

datatype BackupStrategy =
    BackupStrategyOffline | BackupStrategyPostgresDifferential | BackupStrategyOther string

definition PostgresDifferentialImage :: string where
  "PostgresDifferentialImage = ''ghcr.io/nycu-sdc/cara-postgres:16''"
definition PostgresDifferentialDataPath :: string where
  "PostgresDifferentialDataPath = ''/var/lib/postgresql/data''"

definition MinRetainFull :: int where "MinRetainFull = 1"
definition MaxRetainFull :: int where "MaxRetainFull = 12"
definition DefaultRetainFull :: int where "DefaultRetainFull = 4"

record BackupItem =
  bi_Volume :: string
  bi_Strategy :: BackupStrategy
  bi_RetainFull :: "int option"

definition EffectiveRetainFull :: "BackupItem \<Rightarrow> int" where
  "EffectiveRetainFull i = (case bi_RetainFull i of None \<Rightarrow> DefaultRetainFull | Some n \<Rightarrow> n)"

record ProjectBackupConfig =
  pbc_Interval :: string
  pbc_OnMissing :: VolumeOnMissing
  pbc_Items :: "BackupItem list"

datatype ProjectSize = ProjectSizeSmall | ProjectSizeMedium | ProjectSizeLarge | ProjectSizeOther string

abbreviation ProjectSizeEmpty :: ProjectSize where
  "ProjectSizeEmpty \<equiv> ProjectSizeOther ''''"

fun size_text :: "ProjectSize \<Rightarrow> string" where
  "size_text ProjectSizeSmall = ''Small''"
| "size_text ProjectSizeMedium = ''Medium''"
| "size_text ProjectSizeLarge = ''Large''"
| "size_text (ProjectSizeOther s) = s"

definition DefaultProjectSize :: ProjectSize where
  "DefaultProjectSize = ProjectSizeMedium"

record ResourceRequests =
  rr_CPUMilli :: int
  rr_MemoryBytes :: int

fun projectSizeRequests :: "ProjectSize \<Rightarrow> ResourceRequests option" where
  "projectSizeRequests ProjectSizeSmall = Some \<lparr>rr_CPUMilli = 500, rr_MemoryBytes = 512 * 2 ^ 20\<rparr>"
| "projectSizeRequests ProjectSizeMedium = Some \<lparr>rr_CPUMilli = 1000, rr_MemoryBytes = 2 * 2 ^ 30\<rparr>"
| "projectSizeRequests ProjectSizeLarge = Some \<lparr>rr_CPUMilli = 2000, rr_MemoryBytes = 4 * 2 ^ 30\<rparr>"
| "projectSizeRequests (ProjectSizeOther _) = None"

definition ProjectSize_IsValid :: "ProjectSize \<Rightarrow> bool" where
  "ProjectSize_IsValid s \<longleftrightarrow> projectSizeRequests s \<noteq> None"

definition Requests :: "ProjectSize \<Rightarrow> ResourceRequests" where
  "Requests s = (case projectSizeRequests s of
       Some r \<Rightarrow> r
     | None \<Rightarrow> (case projectSizeRequests DefaultProjectSize of
          Some r \<Rightarrow> r | None \<Rightarrow> \<lparr>rr_CPUMilli = 0, rr_MemoryBytes = 0\<rparr>))"

record ProjectSpec =
  spec_Size :: ProjectSize
  spec_Services :: "ServiceDef list"
  spec_Volumes :: "VolumeDef list"
  spec_Backup :: "ProjectBackupConfig option"
  spec_Ingress :: "IngressDef list"
  spec_ExpireAt :: "time option"
  spec_RestartedAt :: "time option"

definition EffectiveSize :: "ProjectSpec \<Rightarrow> ProjectSize" where
  "EffectiveSize s = (if spec_Size s = ProjectSizeEmpty then DefaultProjectSize else spec_Size s)"

definition BackupStrategyFor :: "ProjectSpec \<Rightarrow> string \<Rightarrow> BackupStrategy" where
  "BackupStrategyFor s volume = (case spec_Backup s of
       None \<Rightarrow> BackupStrategyOffline
     | Some b \<Rightarrow> (case List.find (\<lambda>i. bi_Volume i = volume) (pbc_Items b) of
          None \<Rightarrow> BackupStrategyOffline | Some i \<Rightarrow> bi_Strategy i))"

definition backup_items :: "ProjectSpec \<Rightarrow> BackupItem list" where
  "backup_items s = (case spec_Backup s of None \<Rightarrow> [] | Some b \<Rightarrow> pbc_Items b)"

fun same_items :: "BackupItem list \<Rightarrow> BackupItem list \<Rightarrow> bool" where
  "same_items (a # as) (b # bs) =
     (if bi_Volume a \<noteq> bi_Volume b \<or> bi_Strategy a \<noteq> bi_Strategy b then False
      else if (bi_RetainFull a = None) \<noteq> (bi_RetainFull b = None) then False
      else if bi_RetainFull a \<noteq> None \<and> the (bi_RetainFull a) \<noteq> the (bi_RetainFull b) then False
      else same_items as bs)"
| "same_items _ _ = True"

definition SameBackupItems :: "ProjectSpec \<Rightarrow> ProjectSpec \<Rightarrow> bool" where
  "SameBackupItems a b = (if length (backup_items a) \<noteq> length (backup_items b) then False
     else same_items (backup_items a) (backup_items b))"

definition HasPostgresDifferential :: "ProjectSpec \<Rightarrow> bool" where
  "HasPostgresDifferential s = list_ex
     (\<lambda>v. vol_Type v = VolumeTypeManaged
        \<and> BackupStrategyFor s (vol_Name v) = BackupStrategyPostgresDifferential) (spec_Volumes s)"

definition HasManagedVolume :: "ProjectSpec \<Rightarrow> bool" where
  "HasManagedVolume s = list_ex (\<lambda>v. vol_Type v = VolumeTypeManaged) (spec_Volumes s)"

lemma SameBackupItems_iff: "SameBackupItems a b \<longleftrightarrow> backup_items a = backup_items b"
proof -
  have "length xs = length ys \<Longrightarrow> same_items xs ys \<longleftrightarrow> xs = ys" for xs ys :: "BackupItem list"
    by (induction xs ys rule: list_induct2) (auto split: if_splits)
  then show ?thesis by (auto simp: SameBackupItems_def)
qed

lemma Requests_simps [simp]:
  "Requests ProjectSizeSmall = \<lparr>rr_CPUMilli = 500, rr_MemoryBytes = 536870912\<rparr>"
  "Requests ProjectSizeMedium = \<lparr>rr_CPUMilli = 1000, rr_MemoryBytes = 2147483648\<rparr>"
  "Requests ProjectSizeLarge = \<lparr>rr_CPUMilli = 2000, rr_MemoryBytes = 4294967296\<rparr>"
  "Requests (ProjectSizeOther s) = \<lparr>rr_CPUMilli = 1000, rr_MemoryBytes = 2147483648\<rparr>"
  by (simp_all add: Requests_def DefaultProjectSize_def)

lemma Requests_bounds:
  "500 \<le> rr_CPUMilli (Requests s)" "rr_CPUMilli (Requests s) \<le> 2000"
  "2 ^ 29 \<le> rr_MemoryBytes (Requests s)" "rr_MemoryBytes (Requests s) \<le> 2 ^ 32"
  by (cases s; simp)+

lemma Requests_EffectiveSize: "Requests (EffectiveSize s) = Requests (spec_Size s)"
  by (cases "spec_Size s") (auto simp: EffectiveSize_def DefaultProjectSize_def)

end
