(* ===== verification/Recovery.thy ===== *)
theory Recovery
  imports Api_Types
begin

text \<open>
  The status half of \<open>api/v1/project_types.go\<close>: backup and recovery state, cleanup
  obligations with the rules about which of them still bind a Node, and the Project record
  itself. A nil \<open>*ProjectRecoveryStatus\<close> or \<open>*ProjectBackupStatus\<close> receiver is \<open>None\<close>; a
  write through the pointer \<open>FindObligation\<close> returns is \<open>update_first\<close> on the list. The
  obligation list refines a map from assignments to obligations: the locale
  \<open>obligation_ledger\<close> states that contract and the interpretation proves it of the code.
\<close>

subsection \<open>Backup status\<close>

record BackupCompletionItem =
  bci_Volume :: string
  bci_Stanza :: string
  bci_Label :: string
  bci_Type :: string

record BackupCompletion =
  bc_BackupID :: string
  bc_NodeRef :: string
  bc_AssignmentGeneration :: int
  bc_AcceptedAt :: time
  bc_ManifestKey :: string
  bc_Items :: "BackupCompletionItem list"

record StanzaRecord =
  st_Name :: string
  st_Volume :: string
  st_RecordedAt :: time

record ProjectBackupStatus =
  pbs_Stanzas :: "StanzaRecord list"
  pbs_Completions :: "BackupCompletion list"

definition MaxBackupCompletions :: nat where "MaxBackupCompletions = 20"

definition BackupManifestKey :: "string \<Rightarrow> string \<Rightarrow> string" where
  "BackupManifestKey projectUID backupID =
     ''cara/v2/projects/'' @ projectUID @ ''/generations/'' @ backupID @ ''/manifest.json''"

definition Completion :: "ProjectBackupStatus option \<Rightarrow> string \<Rightarrow> BackupCompletion option" where
  "Completion b backupID = (case b of None \<Rightarrow> None
     | Some s \<Rightarrow> List.find (\<lambda>c. bc_BackupID c = backupID) (pbs_Completions s))"

definition LastCompletion :: "ProjectBackupStatus option \<Rightarrow> BackupCompletion option" where
  "LastCompletion b = (case b of None \<Rightarrow> None
     | Some s \<Rightarrow> if length (pbs_Completions s) = 0 then None
                else Some (pbs_Completions s ! (length (pbs_Completions s) - 1)))"

definition StanzaName :: "string \<Rightarrow> string \<Rightarrow> string" where
  "StanzaName projectUID volume = projectUID @ ''-'' @ volume"

definition HasStanza :: "ProjectBackupStatus option \<Rightarrow> string \<Rightarrow> bool" where
  "HasStanza b name = (case b of None \<Rightarrow> False
     | Some s \<Rightarrow> list_ex (\<lambda>r. st_Name r = name) (pbs_Stanzas s))"

subsection \<open>Assignments, evidence and obligations\<close>

record AssignmentIdentity =
  ai_ProjectUID :: string
  ai_NodeName :: string
  ai_AssignmentGeneration :: int

record WorkloadStoppedEvidence =
  wse_Assignment :: AssignmentIdentity
  wse_ObservedAt :: time

record ManagedDataQuarantinedEvidence =
  mdq_ObservedAt :: time

record ResourcesRemovedEvidence =
  rre_ObservedAt :: time

record CommittedBackup =
  cb_BackupID :: string
  cb_Assignment :: AssignmentIdentity
  cb_CommittedAt :: time

datatype ReleaseAuthorizationKind =
    ReleaseByWorkloadStopped
  | ReleaseByDeletion
  | ReleaseByProviderFencing
  | ReleaseByOperatorOverride
  | ReleaseByGraceExpired
  | ReleaseByLeaseExpired

fun release_text :: "ReleaseAuthorizationKind \<Rightarrow> string" where
  "release_text ReleaseByWorkloadStopped = ''WorkloadStopped''"
| "release_text ReleaseByDeletion = ''Deletion''"
| "release_text ReleaseByProviderFencing = ''ProviderFencing''"
| "release_text ReleaseByOperatorOverride = ''OperatorOverride''"
| "release_text ReleaseByGraceExpired = ''GraceExpired''"
| "release_text ReleaseByLeaseExpired = ''LeaseExpired''"

record CleanupObligation =
  ob_Assignment :: AssignmentIdentity
  ob_ReleasedAt :: time
  ob_ReleaseAuthorization :: ReleaseAuthorizationKind
  ob_ResourcesRemoved :: "ResourcesRemovedEvidence option"
  ob_ManagedDataOwed :: bool
  ob_ManagedDataQuarantined :: "ManagedDataQuarantinedEvidence option"

definition Resolved :: "CleanupObligation \<Rightarrow> bool" where
  "Resolved ob \<longleftrightarrow> ob_ResourcesRemoved ob \<noteq> None"

definition DataOutstanding :: "CleanupObligation \<Rightarrow> bool" where
  "DataOutstanding ob \<longleftrightarrow> ob_ManagedDataOwed ob \<and> ob_ManagedDataQuarantined ob = None"

definition PermitsAssignment :: "CleanupObligation \<Rightarrow> bool" where
  "PermitsAssignment ob =
     (if Resolved ob then True
      else case ob_ReleaseAuthorization ob of
        ReleaseByProviderFencing \<Rightarrow> True
      | ReleaseByOperatorOverride \<Rightarrow> True
      | ReleaseByGraceExpired \<Rightarrow> True
      | _ \<Rightarrow> False)"

record ProjectRecoveryStatus =
  rec_RescheduleAttempts :: int
  rec_LastAttemptAt :: "time option"
  rec_HealthySince :: "time option"
  rec_HealthySinceGeneration :: int
  rec_PreferredNode :: string
  rec_WorkloadStopped :: "WorkloadStoppedEvidence option"
  rec_CleanupObligations :: "CleanupObligation list"
  rec_CommittedBackup :: "CommittedBackup option"

definition recovery_zero :: ProjectRecoveryStatus where
  "recovery_zero = \<lparr>rec_RescheduleAttempts = 0, rec_LastAttemptAt = None, rec_HealthySince = None,
     rec_HealthySinceGeneration = 0, rec_PreferredNode = '''', rec_WorkloadStopped = None,
     rec_CleanupObligations = [], rec_CommittedBackup = None\<rparr>"

definition obligations :: "ProjectRecoveryStatus option \<Rightarrow> CleanupObligation list" where
  "obligations r = (case r of None \<Rightarrow> [] | Some s \<Rightarrow> rec_CleanupObligations s)"

definition CommittedBackupID :: "ProjectRecoveryStatus option \<Rightarrow> string" where
  "CommittedBackupID r = (case r of None \<Rightarrow> ''''
     | Some s \<Rightarrow> (case rec_CommittedBackup s of None \<Rightarrow> '''' | Some b \<Rightarrow> cb_BackupID b))"

definition FindObligation :: "ProjectRecoveryStatus option \<Rightarrow> AssignmentIdentity \<Rightarrow> CleanupObligation option" where
  "FindObligation r a = (case r of None \<Rightarrow> None
     | Some s \<Rightarrow> List.find (\<lambda>ob. ob_Assignment ob = a) (rec_CleanupObligations s))"

text \<open>A write through the pointer \<open>FindObligation\<close> returned.\<close>

definition modify_obligation ::
  "AssignmentIdentity \<Rightarrow> (CleanupObligation \<Rightarrow> CleanupObligation) \<Rightarrow> ProjectRecoveryStatus \<Rightarrow> ProjectRecoveryStatus" where
  "modify_obligation a f r =
     r\<lparr>rec_CleanupObligations := update_first (\<lambda>ob. ob_Assignment ob = a) f (rec_CleanupObligations r)\<rparr>"

definition AddObligation ::
  "ProjectRecoveryStatus \<Rightarrow> AssignmentIdentity \<Rightarrow> time \<Rightarrow> ReleaseAuthorizationKind \<Rightarrow> ProjectRecoveryStatus" where
  "AddObligation r a releasedAt authorization =
     (if FindObligation (Some r) a \<noteq> None then r
      else r\<lparr>rec_CleanupObligations := rec_CleanupObligations r @
              [\<lparr>ob_Assignment = a, ob_ReleasedAt = releasedAt, ob_ReleaseAuthorization = authorization,
                ob_ResourcesRemoved = None, ob_ManagedDataOwed = False, ob_ManagedDataQuarantined = None\<rparr>]\<rparr>)"

definition OverrideRelease ::
  "ProjectRecoveryStatus \<Rightarrow> AssignmentIdentity \<Rightarrow> time \<Rightarrow> ProjectRecoveryStatus" where
  "OverrideRelease r a releasedAt =
     (if FindObligation (Some r) a \<noteq> None
      then modify_obligation a (\<lambda>ob. ob\<lparr>ob_ReleaseAuthorization := ReleaseByOperatorOverride\<rparr>) r
      else AddObligation r a releasedAt ReleaseByOperatorOverride)"

definition OweManagedData :: "ProjectRecoveryStatus \<Rightarrow> AssignmentIdentity \<Rightarrow> ProjectRecoveryStatus" where
  "OweManagedData r a =
     (if FindObligation (Some r) a \<noteq> None
      then modify_obligation a (\<lambda>ob. ob\<lparr>ob_ManagedDataOwed := True\<rparr>) r else r)"

definition NodesOwingCleanup :: "ProjectRecoveryStatus option \<Rightarrow> string list" where
  "NodesOwingCleanup r = (case r of None \<Rightarrow> []
     | Some s \<Rightarrow> map (\<lambda>ob. ai_NodeName (ob_Assignment ob))
          (filter (\<lambda>ob. \<not> Resolved ob \<or> DataOutstanding ob) (rec_CleanupObligations s)))"

definition BlockingObligation :: "ProjectRecoveryStatus option \<Rightarrow> CleanupObligation option" where
  "BlockingObligation r = (case r of None \<Rightarrow> None
     | Some s \<Rightarrow> List.find (\<lambda>ob. \<not> PermitsAssignment ob) (rec_CleanupObligations s))"

definition ResourcesRemovedFor :: "ProjectRecoveryStatus option \<Rightarrow> string \<Rightarrow> int \<Rightarrow> bool" where
  "ResourcesRemovedFor r node generation = (case r of None \<Rightarrow> False
     | Some s \<Rightarrow> (case List.find (\<lambda>ob. ai_NodeName (ob_Assignment ob) = node
                          \<and> ai_AssignmentGeneration (ob_Assignment ob) = generation) (rec_CleanupObligations s) of
          None \<Rightarrow> False | Some ob \<Rightarrow> Resolved ob))"

definition WorkloadStoppedFor :: "ProjectRecoveryStatus option \<Rightarrow> AssignmentIdentity \<Rightarrow> bool" where
  "WorkloadStoppedFor r a = (case r of None \<Rightarrow> False
     | Some s \<Rightarrow> (case rec_WorkloadStopped s of None \<Rightarrow> False | Some e \<Rightarrow> wse_Assignment e = a))"

definition ClearHealthyWindow :: "ProjectRecoveryStatus option \<Rightarrow> ProjectRecoveryStatus option" where
  "ClearHealthyWindow r = (case r of None \<Rightarrow> None
     | Some s \<Rightarrow> Some (s\<lparr>rec_HealthySince := None, rec_HealthySinceGeneration := 0\<rparr>))"

definition ClearForNewAssignment :: "ProjectRecoveryStatus option \<Rightarrow> ProjectRecoveryStatus option" where
  "ClearForNewAssignment r = (case r of None \<Rightarrow> None
     | Some s \<Rightarrow> ClearHealthyWindow (Some (s\<lparr>rec_WorkloadStopped := None\<rparr>)))"

subsection \<open>Project status and Project\<close>

record ProjectStatus =
  ps_Phase :: ProjectPhase
  ps_NodeRef :: string
  ps_AssignmentGeneration :: int
  ps_AssignmentHistory :: AssignmentHistory
  ps_FailedNodes :: "string list"
  ps_Conditions :: "Condition list"
  ps_ObservedSpecRevision :: int
  ps_Recovery :: "ProjectRecoveryStatus option"
  ps_Backup :: "ProjectBackupStatus option"

definition InitialProjectStatus :: ProjectStatus where
  "InitialProjectStatus = \<lparr>ps_Phase = ProjectPhasePending, ps_NodeRef = '''', ps_AssignmentGeneration = 0,
     ps_AssignmentHistory = AssignmentHistoryNeverAssigned, ps_FailedNodes = [], ps_Conditions = [],
     ps_ObservedSpecRevision = 0, ps_Recovery = None, ps_Backup = None\<rparr>"

text \<open>\<open>EnsureRecovery\<close> allocates the pointer; the mutation then goes through it.\<close>

definition EnsureRecovery :: "ProjectStatus \<Rightarrow> ProjectRecoveryStatus" where
  "EnsureRecovery s = (case ps_Recovery s of None \<Rightarrow> recovery_zero | Some r \<Rightarrow> r)"

record Project =
  prj_TypeMeta :: TypeMeta
  prj_Meta :: ObjectMeta
  prj_Spec :: ProjectSpec
  prj_Status :: ProjectStatus

datatype TakeoverOutcome = TakeoverReleased | TakeoverObligationOverridden

record TakeoverAuditRecord =
  ta_RequestID :: string
  ta_Namespace :: string
  ta_ProjectName :: string
  ta_Assignment :: AssignmentIdentity
  ta_Evidence :: string
  ta_Outcome :: TakeoverOutcome
  ta_Caller :: string
  ta_Note :: string
  ta_CreatedAt :: time

record CleanupTask =
  ct_Namespace :: string
  ct_ProjectName :: string
  ct_Assignment :: AssignmentIdentity
  ct_ReleaseAuthorization :: ReleaseAuthorizationKind

definition DefaultNamespace :: string where "DefaultNamespace = ''default''"

definition CleanupTasksFor :: "Project \<Rightarrow> string \<Rightarrow> CleanupTask list" where
  "CleanupTasksFor p node =
     (if ps_Recovery (prj_Status p) = None \<or> ps_NodeRef (prj_Status p) = node then []
      else let ns = (if meta_Namespace (prj_Meta p) = '''' then DefaultNamespace else meta_Namespace (prj_Meta p))
           in map (\<lambda>ob. \<lparr>ct_Namespace = ns, ct_ProjectName = meta_Name (prj_Meta p),
                         ct_Assignment = ob_Assignment ob,
                         ct_ReleaseAuthorization = ob_ReleaseAuthorization ob\<rparr>)
                (filter (\<lambda>ob. \<not> ((Resolved ob \<and> \<not> DataOutstanding ob)
                               \<or> ai_NodeName (ob_Assignment ob) \<noteq> node
                               \<or> ai_ProjectUID (ob_Assignment ob) \<noteq> meta_UID (prj_Meta p)))
                   (obligations (ps_Recovery (prj_Status p)))))"

subsection \<open>The obligation list as a map from assignments\<close>

definition obligation_new :: "AssignmentIdentity \<Rightarrow> time \<Rightarrow> ReleaseAuthorizationKind \<Rightarrow> CleanupObligation" where
  "obligation_new a t k = \<lparr>ob_Assignment = a, ob_ReleasedAt = t, ob_ReleaseAuthorization = k,
     ob_ResourcesRemoved = None, ob_ManagedDataOwed = False, ob_ManagedDataQuarantined = None\<rparr>"

definition obligation_ids :: "ProjectRecoveryStatus option \<Rightarrow> AssignmentIdentity list" where
  "obligation_ids r = map ob_Assignment (obligations r)"

definition ledger_wf :: "ProjectRecoveryStatus option \<Rightarrow> bool" where
  "ledger_wf r \<longleftrightarrow> distinct (obligation_ids r)"

lemma obligations_simps [simp]:
  "obligations None = []" "obligations (Some r) = rec_CleanupObligations r"
  "rec_CleanupObligations recovery_zero = []"
  by (simp_all add: obligations_def recovery_zero_def)

lemma obligations_EnsureRecovery [simp]: "rec_CleanupObligations (EnsureRecovery s) = obligations (ps_Recovery s)"
  by (simp add: EnsureRecovery_def split: option.split)

lemma FindObligation_obligations:
  "FindObligation r a = List.find (\<lambda>ob. ob_Assignment ob = a) (obligations r)"
  by (simp add: FindObligation_def split: option.split)

lemma FindObligation_EnsureRecovery [simp]:
  "FindObligation (Some (EnsureRecovery s)) a = FindObligation (ps_Recovery s) a"
  by (simp add: FindObligation_obligations)

lemma FindObligation_mem: "FindObligation r a = Some ob \<Longrightarrow> ob \<in> set (obligations r) \<and> ob_Assignment ob = a"
  by (auto simp: FindObligation_obligations dest: find_SomeD)

lemma FindObligation_None_iff: "FindObligation r a = None \<longleftrightarrow> a \<notin> set (obligation_ids r)"
  by (auto simp: FindObligation_obligations find_None_iff obligation_ids_def)

lemma FindObligation_of_mem:
  "ledger_wf r \<Longrightarrow> ob \<in> set (obligations r) \<Longrightarrow> FindObligation r (ob_Assignment ob) = Some ob"
proof -
  assume wf: "ledger_wf r" and ob: "ob \<in> set (obligations r)"
  then obtain ob' where f: "FindObligation r (ob_Assignment ob) = Some ob'"
    using FindObligation_None_iff [of r "ob_Assignment ob"] by (force simp: obligation_ids_def)
  then have "ob' \<in> set (obligations r)" "ob_Assignment ob' = ob_Assignment ob"
    using FindObligation_mem [OF f] by auto
  with wf ob have "ob' = ob"
    by (auto simp: ledger_wf_def obligation_ids_def distinct_map dest: inj_onD)
  with f show ?thesis by simp
qed

lemma modify_obligation_obligations [simp]:
  "rec_CleanupObligations (modify_obligation a f r) =
     update_first (\<lambda>ob. ob_Assignment ob = a) f (rec_CleanupObligations r)"
  by (simp add: modify_obligation_def)

lemma obligations_AddObligation:
  "rec_CleanupObligations (AddObligation r a t k) =
     (if FindObligation (Some r) a = None then rec_CleanupObligations r @ [obligation_new a t k]
      else rec_CleanupObligations r)"
  by (simp add: AddObligation_def obligation_new_def)

lemma find_AddObligation:
  "FindObligation (Some (AddObligation r a t k)) b =
     (if b = a \<and> FindObligation (Some r) a = None then Some (obligation_new a t k)
      else FindObligation (Some r) b)"
  by (auto simp: FindObligation_obligations obligations_AddObligation find_append obligation_new_def
           split: option.splits)

lemma find_update_first_other:
  "b \<noteq> a \<Longrightarrow> (\<And>ob. ob_Assignment (f ob) = ob_Assignment ob) \<Longrightarrow>
   List.find (\<lambda>ob. ob_Assignment ob = b) (update_first (\<lambda>ob. ob_Assignment ob = a) f xs)
     = List.find (\<lambda>ob. ob_Assignment ob = b) xs"
  by (induction xs) auto

lemma find_modify_obligation:
  assumes "\<And>ob. ob_Assignment (f ob) = ob_Assignment ob"
  shows "FindObligation (Some (modify_obligation a f r)) b =
     (if b = a then map_option f (FindObligation (Some r) a) else FindObligation (Some r) b)"
  using assms
  by (simp add: FindObligation_obligations find_update_first find_update_first_other)

lemma obligation_ids_modify:
  assumes "\<And>ob. ob_Assignment (f ob) = ob_Assignment ob"
  shows "obligation_ids (Some (modify_obligation a f r)) = obligation_ids (Some r)"
  using assms by (simp add: obligation_ids_def map_update_first)

lemma obligation_ids_Add:
  "obligation_ids (Some (AddObligation r a t k)) =
     (if FindObligation (Some r) a = None then obligation_ids (Some r) @ [a] else obligation_ids (Some r))"
  by (simp add: obligation_ids_def obligations_AddObligation obligation_new_def)

lemma obligation_ids_Override:
  "obligation_ids (Some (OverrideRelease r a t)) =
     (if FindObligation (Some r) a = None then obligation_ids (Some r) @ [a] else obligation_ids (Some r))"
  by (auto simp: OverrideRelease_def obligation_ids_modify obligation_ids_Add)

lemma obligation_ids_Owe [simp]: "obligation_ids (Some (OweManagedData r a)) = obligation_ids (Some r)"
  by (simp add: OweManagedData_def obligation_ids_modify)

lemma find_OverrideRelease:
  "FindObligation (Some (OverrideRelease r a t)) b =
     (if b = a
      then Some (case FindObligation (Some r) a of
                   None \<Rightarrow> obligation_new a t ReleaseByOperatorOverride
                 | Some ob \<Rightarrow> ob\<lparr>ob_ReleaseAuthorization := ReleaseByOperatorOverride\<rparr>)
      else FindObligation (Some r) b)"
  by (auto simp: OverrideRelease_def find_modify_obligation find_AddObligation)

lemma find_OweManagedData:
  "FindObligation (Some (OweManagedData r a)) b =
     (if b = a then map_option (\<lambda>ob. ob\<lparr>ob_ManagedDataOwed := True\<rparr>) (FindObligation (Some r) a)
      else FindObligation (Some r) b)"
  by (auto simp: OweManagedData_def find_modify_obligation)

lemmas find_obligation_simps = find_AddObligation find_OverrideRelease find_OweManagedData

text \<open>
  The contract the release paths rely on: an assignment is recorded once, the first release
  stands, and nothing but the assignment it names is touched.
\<close>

locale obligation_ledger =
  fixes look :: "'r \<Rightarrow> AssignmentIdentity \<Rightarrow> CleanupObligation option"
    and add :: "'r \<Rightarrow> AssignmentIdentity \<Rightarrow> time \<Rightarrow> ReleaseAuthorizationKind \<Rightarrow> 'r"
    and override :: "'r \<Rightarrow> AssignmentIdentity \<Rightarrow> time \<Rightarrow> 'r"
    and owe :: "'r \<Rightarrow> AssignmentIdentity \<Rightarrow> 'r"
  assumes look_add: "look (add r a t k) b =
        (if b = a \<and> look r a = None then Some (obligation_new a t k) else look r b)"
    and look_override: "look (override r a t) b =
        (if b = a then Some (case look r a of None \<Rightarrow> obligation_new a t ReleaseByOperatorOverride
             | Some ob \<Rightarrow> ob\<lparr>ob_ReleaseAuthorization := ReleaseByOperatorOverride\<rparr>) else look r b)"
    and look_owe: "look (owe r a) b =
        (if b = a then map_option (\<lambda>ob. ob\<lparr>ob_ManagedDataOwed := True\<rparr>) (look r a) else look r b)"
begin

lemma recorded_stays:
  "look r b \<noteq> None \<Longrightarrow> look (add r a t k) b \<noteq> None"
  "look r b \<noteq> None \<Longrightarrow> look (override r a t) b \<noteq> None"
  "look r b \<noteq> None \<Longrightarrow> look (owe r a) b \<noteq> None"
  by (auto simp: look_add look_override look_owe)

lemma add_records: "look (add r a t k) a \<noteq> None"
  by (auto simp: look_add)

lemma override_records: "look (override r a t) a \<noteq> None"
  by (auto simp: look_override)

text \<open>Evidence is never lost by a later release of the same assignment.\<close>

lemma evidence_kept:
  assumes "look r b = Some ob" and "Resolved ob"
  shows "\<exists>ob'. look (add r a t k) b = Some ob' \<and> Resolved ob'"
    and "\<exists>ob'. look (override r a t) b = Some ob' \<and> Resolved ob'"
    and "\<exists>ob'. look (owe r a) b = Some ob' \<and> Resolved ob'"
  using assms by (auto simp: look_add look_override look_owe Resolved_def)

end

interpretation ledger: obligation_ledger
  "\<lambda>r a. FindObligation (Some r) a" AddObligation OverrideRelease OweManagedData
  by unfold_locales (simp_all add: find_obligation_simps)

subsection \<open>What the other operations leave alone\<close>

lemma obligations_Clear [simp]:
  "obligations (ClearHealthyWindow r) = obligations r"
  "obligations (ClearForNewAssignment r) = obligations r"
  by (simp_all add: ClearHealthyWindow_def ClearForNewAssignment_def split: option.split)

lemma BlockingObligation_None_iff:
  "BlockingObligation r = None \<longleftrightarrow> (\<forall>ob \<in> set (obligations r). PermitsAssignment ob)"
  by (auto simp: BlockingObligation_def find_None_iff split: option.split)

lemma NodesOwingCleanup_iff:
  "n \<in> set (NodesOwingCleanup r) \<longleftrightarrow>
     (\<exists>ob \<in> set (obligations r). ai_NodeName (ob_Assignment ob) = n \<and> (\<not> Resolved ob \<or> DataOutstanding ob))"
  by (cases r) (auto simp: NodesOwingCleanup_def)

lemma Resolved_PermitsAssignment: "Resolved ob \<Longrightarrow> PermitsAssignment ob"
  by (simp add: PermitsAssignment_def)

lemma WorkloadStoppedFor_ClearForNewAssignment [simp]: "\<not> WorkloadStoppedFor (ClearForNewAssignment r) a"
  by (simp add: WorkloadStoppedFor_def ClearForNewAssignment_def ClearHealthyWindow_def split: option.split)

lemma LastCompletion_last:
  "LastCompletion (Some s) = (if pbs_Completions s = [] then None else Some (last (pbs_Completions s)))"
  by (simp add: LastCompletion_def last_conv_nth)

end
