(* ===== verification/Lifecycle.thy ===== *)
theory Lifecycle
  imports Recovery
begin

text \<open>
  The rules of the Project lifecycle: who may make which phase transition
  (\<open>api/v1/phase_transition.go\<close>), when a record may be deleted (\<open>api/v1/finalization.go\<close>),
  which spec changes an assigned Project refuses (\<open>api/v1/spec_update.go\<close>), and the
  validation of names and namespaces (\<open>api/v1/validation.go\<close>). A function that returns an
  empty string for success returns the empty list here; an \<open>error\<close> result is an option.
\<close>

subsection \<open>phase_transition.go\<close>

datatype PhaseWriter =
    WriterAdmission
  | WriterDeleteAPI
  | WriterScheduler
  | WriterRescheduler
  | WriterFailedRescheduler
  | WriterOperatorTakeover
  | WriterAgent

fun phaseTransitions :: "PhaseWriter \<Rightarrow> (ProjectPhase \<times> ProjectPhase) list" where
  "phaseTransitions WriterAdmission = [(ProjectPhaseEmpty, ProjectPhasePending)]"
| "phaseTransitions WriterDeleteAPI =
     [(ProjectPhasePending, ProjectPhaseTerminating),
      (ProjectPhaseScheduled, ProjectPhaseTerminating),
      (ProjectPhaseRunning, ProjectPhaseTerminating),
      (ProjectPhaseFailed, ProjectPhaseTerminating)]"
| "phaseTransitions WriterScheduler = [(ProjectPhasePending, ProjectPhaseScheduled)]"
| "phaseTransitions WriterRescheduler =
     [(ProjectPhaseScheduled, ProjectPhasePending), (ProjectPhaseRunning, ProjectPhasePending)]"
| "phaseTransitions WriterFailedRescheduler = [(ProjectPhaseFailed, ProjectPhasePending)]"
| "phaseTransitions WriterOperatorTakeover =
     [(ProjectPhaseScheduled, ProjectPhasePending), (ProjectPhaseRunning, ProjectPhasePending)]"
| "phaseTransitions WriterAgent =
     [(ProjectPhaseScheduled, ProjectPhaseRunning),
      (ProjectPhaseScheduled, ProjectPhaseFailed),
      (ProjectPhaseRunning, ProjectPhaseFailed),
      (ProjectPhaseTerminating, ProjectPhaseTerminated)]"

definition agentReassertable :: "ProjectPhase list" where
  "agentReassertable = [ProjectPhaseRunning, ProjectPhaseFailed, ProjectPhaseTerminated]"

definition PhaseTransitionAllowed :: "PhaseWriter \<Rightarrow> ProjectPhase \<Rightarrow> ProjectPhase \<Rightarrow> bool" where
  "PhaseTransitionAllowed writer from to =
     (if from = to then writer = WriterAgent \<and> to \<in> set agentReassertable
      else (from, to) \<in> set (phaseTransitions writer))"

lemmas transition_defs = PhaseTransitionAllowed_def agentReassertable_def

lemma scheduler_transition: "PhaseTransitionAllowed WriterScheduler p ProjectPhaseScheduled \<longleftrightarrow> p = ProjectPhasePending"
  by (auto simp: transition_defs)

lemma rescheduler_transition:
  "PhaseTransitionAllowed WriterRescheduler p ProjectPhasePending
     \<longleftrightarrow> p = ProjectPhaseScheduled \<or> p = ProjectPhaseRunning"
  by (auto simp: transition_defs)

lemma takeover_transition:
  "PhaseTransitionAllowed WriterOperatorTakeover p ProjectPhasePending
     \<longleftrightarrow> p = ProjectPhaseScheduled \<or> p = ProjectPhaseRunning"
  by (auto simp: transition_defs)

lemma failed_transition:
  "PhaseTransitionAllowed WriterFailedRescheduler p ProjectPhasePending \<longleftrightarrow> p = ProjectPhaseFailed"
  by (auto simp: transition_defs)

lemma delete_transition:
  "PhaseTransitionAllowed WriterDeleteAPI p ProjectPhaseTerminating
     \<longleftrightarrow> p \<in> {ProjectPhasePending, ProjectPhaseScheduled, ProjectPhaseRunning, ProjectPhaseFailed}"
  by (auto simp: transition_defs)

lemma agent_transition:
  "PhaseTransitionAllowed WriterAgent p q \<longleftrightarrow>
     (p, q) \<in> {(ProjectPhaseScheduled, ProjectPhaseRunning), (ProjectPhaseScheduled, ProjectPhaseFailed),
        (ProjectPhaseRunning, ProjectPhaseFailed), (ProjectPhaseTerminating, ProjectPhaseTerminated),
        (ProjectPhaseRunning, ProjectPhaseRunning), (ProjectPhaseFailed, ProjectPhaseFailed),
        (ProjectPhaseTerminated, ProjectPhaseTerminated)}"
  by (auto simp: transition_defs)

lemmas writer_transitions = scheduler_transition rescheduler_transition takeover_transition
  failed_transition delete_transition agent_transition

subsection \<open>finalization.go\<close>

definition AwaitsFinalization :: "ProjectStatus \<Rightarrow> bool" where
  "AwaitsFinalization s \<longleftrightarrow> ps_Phase s = ProjectPhaseTerminated
     \<or> (ps_Phase s = ProjectPhaseTerminating \<and> ps_NodeRef s = '''')"

definition unresolvedObligations :: "ProjectRecoveryStatus option \<Rightarrow> string list" where
  "unresolvedObligations r = (case r of None \<Rightarrow> []
     | Some s \<Rightarrow> sort (map (\<lambda>ob. ''node '' @ ai_NodeName (ob_Assignment ob)
                         @ '' generation '' @ FormatInt (ai_AssignmentGeneration (ob_Assignment ob)))
                    (filter (\<lambda>ob. \<not> Resolved ob) (rec_CleanupObligations s))))"

text \<open>The cases that refuse before the obligation list is looked at; empty when none does.\<close>

definition finalization_case_blocker :: "ProjectStatus \<Rightarrow> string" where
  "finalization_case_blocker s =
     (if \<not> AwaitsFinalization s then
        (if ps_Phase s = ProjectPhaseTerminating
         then ''project is Terminating on node '' @ ps_NodeRef s @ '', which has not reported it Terminated''
         else ''project is '' @ phase_text (ps_Phase s) @ '', not Terminated'')
      else if ps_Phase s = ProjectPhaseTerminated then
        (if \<not> ResourcesRemovedFor (ps_Recovery s) (ps_NodeRef s) (ps_AssignmentGeneration s)
         then ''node '' @ ps_NodeRef s @ '' has not recorded ResourcesRemoved for generation ''
              @ FormatInt (ps_AssignmentGeneration s)
         else '''')
      else case ps_AssignmentHistory s of
        AssignmentHistoryNeverAssigned \<Rightarrow>
          (if ps_AssignmentGeneration s \<noteq> 0
           then ''assignment history is NeverAssigned but the generation is '' @ FormatInt (ps_AssignmentGeneration s)
           else '''')
      | AssignmentHistoryKnown \<Rightarrow>
          (if ps_Recovery s = None \<or> length (obligations (ps_Recovery s)) = 0
           then ''project was assigned before, but no cleanup obligation records where'' else '''')
      | h \<Rightarrow> ''assignment history is '' @ history_text h
              @ '', so nothing proves which Nodes may hold resources'')"

definition FinalizationBlocker :: "Project \<Rightarrow> string" where
  "FinalizationBlocker p =
     (let s = prj_Status p; why = finalization_case_blocker s; pending = unresolvedObligations (ps_Recovery s)
      in if why \<noteq> '''' then why
         else if length pending > 0 then ''waiting for ResourcesRemoved from '' @ strings_Join pending '', ''
         else '''')"

definition ImmediateDeletionBlocker :: "Project \<Rightarrow> string" where
  "ImmediateDeletionBlocker p =
     (let s = prj_Status p in
      if ps_Phase s \<noteq> ProjectPhasePending \<and> ps_Phase s \<noteq> ProjectPhaseFailed
      then ''project is '' @ phase_text (ps_Phase s)
      else if ps_AssignmentHistory s \<noteq> AssignmentHistoryNeverAssigned
      then ''assignment history is '' @ history_text (ps_AssignmentHistory s)
      else if ps_NodeRef s \<noteq> '''' then ''project is assigned to node '' @ ps_NodeRef s
      else if ps_AssignmentGeneration s \<noteq> 0
      then ''project is at assignment generation '' @ FormatInt (ps_AssignmentGeneration s)
      else if ps_Recovery s \<noteq> None \<and> length (obligations (ps_Recovery s)) > 0
      then ''project has cleanup obligations''
      else '''')"

lemma unresolvedObligations_Nil_iff:
  "unresolvedObligations r = [] \<longleftrightarrow> (\<forall>ob \<in> set (obligations r). Resolved ob)"
proof -
  have "sort xs = [] \<longleftrightarrow> xs = []" for xs :: "string list"
    by (metis set_empty set_sort)
  then show ?thesis by (auto simp: unresolvedObligations_def filter_empty_conv split: option.split)
qed

text \<open>What the cases before the obligation list require.\<close>

definition finalization_evidence :: "ProjectStatus \<Rightarrow> bool" where
  "finalization_evidence s \<longleftrightarrow>
     (ps_Phase s = ProjectPhaseTerminated
        \<and> ResourcesRemovedFor (ps_Recovery s) (ps_NodeRef s) (ps_AssignmentGeneration s)
      \<or> ps_Phase s = ProjectPhaseTerminating \<and> ps_NodeRef s = ''''
        \<and> (ps_AssignmentHistory s = AssignmentHistoryNeverAssigned \<and> ps_AssignmentGeneration s = 0
           \<or> ps_AssignmentHistory s = AssignmentHistoryKnown \<and> obligations (ps_Recovery s) \<noteq> []))"

lemma finalization_case_Nil_iff: "finalization_case_blocker s = '''' \<longleftrightarrow> finalization_evidence s"
proof (cases "AwaitsFinalization s")
  case False
  then show ?thesis
    by (simp add: finalization_case_blocker_def finalization_evidence_def AwaitsFinalization_def)
next
  case True
  show ?thesis
  proof (cases "ps_Phase s = ProjectPhaseTerminated")
    case True
    then show ?thesis
      by (simp add: finalization_case_blocker_def finalization_evidence_def AwaitsFinalization_def)
  next
    case False
    with True show ?thesis
      by (cases "ps_AssignmentHistory s"; cases "ps_Recovery s")
        (simp_all add: finalization_case_blocker_def finalization_evidence_def AwaitsFinalization_def)
  qed
qed

lemma FinalizationBlocker_Nil_iff:
  "FinalizationBlocker p = '''' \<longleftrightarrow>
     finalization_evidence (prj_Status p) \<and> (\<forall>ob \<in> set (obligations (ps_Recovery (prj_Status p))). Resolved ob)"
  by (simp add: FinalizationBlocker_def Let_def finalization_case_Nil_iff unresolvedObligations_Nil_iff)

lemma ImmediateDeletionBlocker_Nil_iff:
  "ImmediateDeletionBlocker p = '''' \<longleftrightarrow>
     (let s = prj_Status p in
      (ps_Phase s = ProjectPhasePending \<or> ps_Phase s = ProjectPhaseFailed)
      \<and> ps_AssignmentHistory s = AssignmentHistoryNeverAssigned \<and> ps_NodeRef s = ''''
      \<and> ps_AssignmentGeneration s = 0 \<and> obligations (ps_Recovery s) = [])"
  by (cases "ps_Recovery (prj_Status p)") (simp_all add: ImmediateDeletionBlocker_def Let_def)

subsection \<open>spec_update.go\<close>

record SpecChangeRefusal =
  scr_Field :: string
  scr_Message :: string

definition refusal_text :: "SpecChangeRefusal \<Rightarrow> string" where
  "refusal_text r = scr_Field r @ '': '' @ scr_Message r"

text \<open>\<open>nextTypes\<close>: the map built by the first loop, in which a later volume of a name wins.\<close>

definition next_types :: "VolumeDef list \<Rightarrow> string \<rightharpoonup> VolumeType" where
  "next_types vs = fold (\<lambda>v m. m(vol_Name v \<mapsto> vol_Type v)) vs Map.empty"

fun check_volumes :: "(string \<rightharpoonup> VolumeType) \<Rightarrow> VolumeDef list \<Rightarrow> SpecChangeRefusal option" where
  "check_volumes types [] = None"
| "check_volumes types (v # vs) = (case types (vol_Name v) of
       None \<Rightarrow> Some \<lparr>scr_Field = ''spec.volumes'',
                 scr_Message = ''volume '' @ go_quote (vol_Name v) @ '' cannot be removed while the Project is assigned to a Node''\<rparr>
     | Some t \<Rightarrow>
         if t \<noteq> vol_Type v
         then Some \<lparr>scr_Field = ''spec.volumes'',
                 scr_Message = ''volume '' @ go_quote (vol_Name v) @ '' cannot change type from ''
                   @ volume_type_text (vol_Type v) @ '' to '' @ volume_type_text t\<rparr>
         else check_volumes types vs)"

definition CheckAssignedSpecChange :: "ProjectSpec \<Rightarrow> ProjectSpec \<Rightarrow> SpecChangeRefusal option" where
  "CheckAssignedSpecChange old new =
     (if EffectiveSize old \<noteq> EffectiveSize new
      then Some \<lparr>scr_Field = ''spec.size'',
             scr_Message = ''cannot change from '' @ size_text (EffectiveSize old) @ '' to ''
               @ size_text (EffectiveSize new)
               @ '' while the Project is assigned to a Node; delete and recreate it to resize''\<rparr>
      else case check_volumes (next_types (spec_Volumes new)) (spec_Volumes old) of
        Some r \<Rightarrow> Some r
      | None \<Rightarrow>
          if \<not> SameBackupItems old new
          then Some \<lparr>scr_Field = ''spec.backup.items'',
                 scr_Message = ''cannot change after the Project is created''\<rparr>
          else None)"

lemma check_volumes_None_iff:
  "check_volumes types vs = None \<longleftrightarrow> (\<forall>v \<in> set vs. types (vol_Name v) = Some (vol_Type v))"
  by (induction vs) (auto split: option.split)

lemma next_types_fold:
  "fold (\<lambda>v m. m(vol_Name v \<mapsto> vol_Type v)) vs m k = Some t \<Longrightarrow>
     m k = Some t \<or> (\<exists>v \<in> set vs. vol_Name v = k \<and> vol_Type v = t)"
  by (induction vs arbitrary: m) (fastforce split: if_splits)+

lemma next_types_mem: "next_types vs k = Some t \<Longrightarrow> \<exists>v \<in> set vs. vol_Name v = k \<and> vol_Type v = t"
  unfolding next_types_def by (drule next_types_fold) simp

lemma CheckAssigned_None_iff:
  "CheckAssignedSpecChange old new = None \<longleftrightarrow>
     EffectiveSize old = EffectiveSize new
     \<and> (\<forall>v \<in> set (spec_Volumes old). next_types (spec_Volumes new) (vol_Name v) = Some (vol_Type v))
     \<and> backup_items old = backup_items new"
  using check_volumes_None_iff [of "next_types (spec_Volumes new)" "spec_Volumes old"]
  by (cases "check_volumes (next_types (spec_Volumes new)) (spec_Volumes old)")
    (auto simp: CheckAssignedSpecChange_def SameBackupItems_iff)

subsection \<open>validation.go\<close>

definition lower_alnum :: "char \<Rightarrow> bool" where
  "lower_alnum c \<longleftrightarrow> (CHR ''a'' \<le> c \<and> c \<le> CHR ''z'') \<or> (CHR ''0'' \<le> c \<and> c \<le> CHR ''9'')"

definition name_char :: "char \<Rightarrow> bool" where
  "name_char c \<longleftrightarrow> lower_alnum c \<or> c = CHR ''.'' \<or> c = CHR ''-''"

text \<open>
  \<open>nameRegexp\<close>: one alphanumeric, and optionally up to 251 name characters followed by
  one alphanumeric.
\<close>

definition nameRegexp_match :: "string \<Rightarrow> bool" where
  "nameRegexp_match s = (case s of
       [] \<Rightarrow> False
     | c # cs \<Rightarrow> lower_alnum c \<and>
         (cs = [] \<or> length (butlast cs) \<le> 251 \<and> list_all name_char (butlast cs) \<and> lower_alnum (last cs)))"

definition truncate_string :: "string \<Rightarrow> nat \<Rightarrow> string" where
  "truncate_string s maxLen = (if length s \<le> maxLen then s else take maxLen s @ ''...'')"

definition ValidateName :: "string \<Rightarrow> string option" where
  "ValidateName name =
     (if name = '''' then Some ''name must not be empty''
      else if length name > 253
      then Some (''name '' @ go_quote (truncate_string name 20) @ '' is '' @ FormatInt (int (length name))
                 @ '' characters long: must be no more than 253 characters'')
      else if \<not> nameRegexp_match name
      then Some (''name '' @ go_quote (truncate_string name 40)
                 @ '' is invalid: must consist of lowercase alphanumeric characters, hyphens (-) or dots (.), and must start and end with an alphanumeric character'')
      else None)"

definition ValidateNamespace :: "string \<Rightarrow> string option" where
  "ValidateNamespace ns =
     (if ns \<noteq> '''' \<and> ns \<noteq> DefaultNamespace
      then Some (''namespace support lands post-1.0; omit the field or use '' @ go_quote DefaultNamespace)
      else None)"

lemma lower_alnum_name_char [simp]: "lower_alnum c \<Longrightarrow> name_char c"
  by (simp add: name_char_def)

lemma ValidateName_None_iff:
  "ValidateName s = None \<longleftrightarrow>
     s \<noteq> [] \<and> length s \<le> 253 \<and> list_all name_char s \<and> lower_alnum (hd s) \<and> lower_alnum (last s)"
proof (cases s)
  case Nil
  then show ?thesis by (simp add: ValidateName_def)
next
  case (Cons c cs)
  show ?thesis
  proof (cases cs rule: rev_cases)
    case Nil
    with Cons show ?thesis by (auto simp: ValidateName_def nameRegexp_match_def)
  next
    case (snoc ds d)
    with Cons show ?thesis by (auto simp: ValidateName_def nameRegexp_match_def)
  qed
qed

end
