(* ===== verification/Project_Store.thy ===== *)
theory Project_Store
  imports Lifecycle
begin

text \<open>
  The Project half of \<open>internal/store/postgres/store.go\<close>. The table is the list of its rows, a
  row has the columns the statements name, and a statement is a filter, a map or an append on that
  list; a statement is atomic, as is a transaction that locks the row it reads. Everything between
  two statements of one operation is where other sessions may write: a compare-and-swap attempt
  takes an \<open>interference\<close>, the writes of other sessions at each gap, and the time of its own write.
  The UIDs \<open>newUID\<close> returned so far are a ghost list. Database and marshalling faults are not
  modelled, and \<open>resource_version\<close> is unbounded.
\<close>

subsection \<open>The table\<close>

datatype Topic = TopicProjectCreated | TopicProjectUpdated | TopicNodeCreated | TopicNodeUpdated

record row =
  row_namespace :: string
  row_name :: string
  row_uid :: string
  row_phase :: string
  row_spec :: ProjectSpec
  row_status :: ProjectStatus
  row_conditions_key :: bool
  row_labels :: "string \<rightharpoonup> string"
  row_annotations :: "string \<rightharpoonup> string"
  row_created_at :: time
  row_updated_at :: time
  row_resource_version :: int
  row_spec_revision :: int

record db =
  db_rows :: "row list"
  db_audit :: "TakeoverAuditRecord list"
  db_events :: "(Topic \<times> string) list"
  db_uids :: "string list"

text \<open>
  The status column is a JSON object: \<open>conditions\<close> is \<open>omitempty\<close>, so a marshalled status has
  the key exactly when the list is not empty, while \<open>jsonb_set\<close> always leaves one.
\<close>

type_synonym json_status = "ProjectStatus \<times> bool"

definition marshal_status :: "ProjectStatus \<Rightarrow> json_status" where
  "marshal_status s = (s, ps_Conditions s \<noteq> [])"

definition stored_status :: "row \<Rightarrow> json_status" where
  "stored_status r = (row_status r, row_conditions_key r)"

definition set_status :: "json_status \<Rightarrow> time \<Rightarrow> row \<Rightarrow> row" where
  "set_status js now r = r\<lparr>row_status := fst js, row_conditions_key := snd js, row_updated_at := now,
     row_resource_version := row_resource_version r + 1\<rparr>"

definition named :: "string \<Rightarrow> string \<Rightarrow> row \<Rightarrow> bool" where
  "named ns name r \<longleftrightarrow> row_namespace r = ns \<and> row_name r = name"

definition sql_update :: "(row \<Rightarrow> bool) \<Rightarrow> (row \<Rightarrow> row) \<Rightarrow> db \<Rightarrow> db \<times> nat" where
  "sql_update W f d = (d\<lparr>db_rows := map (\<lambda>r. if W r then f r else r) (db_rows d)\<rparr>,
                       length (filter W (db_rows d)))"

definition sql_delete :: "(row \<Rightarrow> bool) \<Rightarrow> db \<Rightarrow> db \<times> nat" where
  "sql_delete W d = (d\<lparr>db_rows := filter (\<lambda>r. \<not> W r) (db_rows d)\<rparr>, length (filter W (db_rows d)))"

definition publish :: "Topic \<Rightarrow> string \<Rightarrow> db \<Rightarrow> db" where
  "publish topic name d = d\<lparr>db_events := db_events d @ [(topic, name)]\<rparr>"

definition project_msg :: "string \<Rightarrow> string" where
  "project_msg name = ''project '' @ go_quote name"

definition APIVersion :: string where "APIVersion = ''caravanserai/v1''"
definition kindProject :: string where "kindProject = ''Project''"

subsection \<open>Create, read, list\<close>

definition CreateProject :: "string \<Rightarrow> time \<Rightarrow> Project \<Rightarrow> db \<Rightarrow> db \<times> Project result" where
  "CreateProject uid now project d =
     (let m = prj_Meta project;
          ns = (if meta_Namespace m = '''' then DefaultNamespace else meta_Namespace m);
          m' = m\<lparr>meta_CreatedAt := now, meta_UpdatedAt := now, meta_UID := uid, meta_Namespace := ns\<rparr>;
          d' = d\<lparr>db_uids := db_uids d @ [uid]\<rparr>
      in if list_ex (\<lambda>r. named ns (meta_Name m) r \<or> row_uid r = uid) (db_rows d)
         then (d', Inl (ErrAlreadyExists ''''))
         else (publish TopicProjectCreated (meta_Name m)
                 (d'\<lparr>db_rows := db_rows d @
                    [\<lparr>row_namespace = ns, row_name = meta_Name m, row_uid = uid,
                      row_phase = phase_text (ps_Phase (prj_Status project)), row_spec = prj_Spec project,
                      row_status = fst (marshal_status (prj_Status project)),
                      row_conditions_key = snd (marshal_status (prj_Status project)),
                      row_labels = meta_Labels m, row_annotations = meta_Annotations m,
                      row_created_at = now, row_updated_at = now,
                      row_resource_version = 1, row_spec_revision = 1\<rparr>]\<rparr>),
               Inr (project\<lparr>prj_Meta := m'\<lparr>meta_ResourceVersion := 1, meta_SpecRevision := 1\<rparr>\<rparr>)))"

definition scanProject :: "row \<Rightarrow> Project" where
  "scanProject r =
     \<lparr>prj_TypeMeta = \<lparr>tm_APIVersion = APIVersion, tm_Kind = kindProject\<rparr>,
      prj_Meta = \<lparr>meta_Name = row_name r, meta_UID = row_uid r, meta_Namespace = row_namespace r,
        meta_ResourceVersion = row_resource_version r, meta_SpecRevision = row_spec_revision r,
        meta_Labels = row_labels r, meta_Annotations = row_annotations r,
        meta_CreatedAt = row_created_at r, meta_UpdatedAt = row_updated_at r\<rparr>,
      prj_Spec = row_spec r, prj_Status = row_status r\<rparr>"

definition row_at :: "db \<Rightarrow> string \<Rightarrow> row option" where
  "row_at d name = List.find (named DefaultNamespace name) (db_rows d)"

definition GetProject :: "db \<Rightarrow> string \<Rightarrow> Project result" where
  "GetProject d name = (case row_at d name of
       None \<Rightarrow> Inl (ErrNotFound '''') | Some r \<Rightarrow> Inr (scanProject r))"

definition ListProjects :: "db \<Rightarrow> Project list" where
  "ListProjects d = map scanProject (filter (\<lambda>r. row_namespace r = DefaultNamespace) (db_rows d))"

definition ListProjectsByPhase :: "db \<Rightarrow> ProjectPhase \<Rightarrow> Project list" where
  "ListProjectsByPhase d phase = map scanProject
     (filter (\<lambda>r. row_namespace r = DefaultNamespace \<and> row_phase r = phase_text phase) (db_rows d))"

definition ListProjectsByPhases :: "db \<Rightarrow> ProjectPhase list \<Rightarrow> Project list" where
  "ListProjectsByPhases d phases = (if length phases = 0 then []
     else map scanProject (filter (\<lambda>r. row_namespace r = DefaultNamespace
            \<and> row_phase r \<in> set (map phase_text phases)) (db_rows d)))"

text \<open>\<open>nodeRef\<close> is \<open>omitempty\<close>: an empty one is no key, and comparing NULL selects nothing.\<close>

definition ListProjectsByNodeRef :: "db \<Rightarrow> string \<Rightarrow> ProjectPhase list \<Rightarrow> Project list" where
  "ListProjectsByNodeRef d nodeRef phases = (if length phases = 0 then []
     else map scanProject (filter (\<lambda>r. row_namespace r = DefaultNamespace
            \<and> row_phase r \<in> set (map phase_text phases)
            \<and> ps_NodeRef (row_status r) \<noteq> '''' \<and> ps_NodeRef (row_status r) = nodeRef) (db_rows d)))"

definition ListProjectsOwingCleanup :: "db \<Rightarrow> string \<Rightarrow> Project list" where
  "ListProjectsOwingCleanup d nodeName = map scanProject
     (filter (\<lambda>r. row_namespace r = DefaultNamespace
        \<and> list_ex (\<lambda>ob. ai_NodeName (ob_Assignment ob) = nodeName) (obligations (ps_Recovery (row_status r))))
      (db_rows d))"

subsection \<open>Whole-row writes\<close>

definition UpdateProject :: "time \<Rightarrow> Project \<Rightarrow> db \<Rightarrow> db \<times> unit result" where
  "UpdateProject now project d =
     (let m = prj_Meta project;
          ns = (if meta_Namespace m = '''' then DefaultNamespace else meta_Namespace m);
          js = marshal_status (prj_Status project);
          (d', n) = sql_update (named ns (meta_Name m))
             (\<lambda>r. (set_status js now r)
                \<lparr>row_phase := phase_text (ps_Phase (prj_Status project)), row_spec := prj_Spec project,
                 row_labels := meta_Labels m, row_annotations := meta_Annotations m\<rparr>) d
      in if n = 0 then (d', Inl (ErrNotFound (project_msg (meta_Name m)))) else (d', Inr ()))"

definition DeleteProject :: "string \<Rightarrow> db \<Rightarrow> db \<times> unit result" where
  "DeleteProject name d =
     (let (d', n) = sql_delete (named DefaultNamespace name) d
      in if n = 0 then (d', Inl (ErrNotFound (project_msg name))) else (d', Inr ()))"

definition stale_lifetime :: "string \<Rightarrow> string \<Rightarrow> store_error" where
  "stale_lifetime name uid = ErrStaleAssignment (project_msg name @ '' is no longer lifetime '' @ uid)"

text \<open>The transaction locks the row, so it is one step; \<open>attach\<close> is nil in production.\<close>

definition finalizeProject :: "string \<Rightarrow> string \<Rightarrow> (Project \<Rightarrow> string) \<Rightarrow> db \<Rightarrow> db \<times> unit result" where
  "finalizeProject name uid blocker d =
     (case GetProject d name of
        Inl _ \<Rightarrow> (d, Inl (ErrNotFound (project_msg name)))
      | Inr project \<Rightarrow>
          if meta_UID (prj_Meta project) \<noteq> uid then (d, Inl (stale_lifetime name uid))
          else if blocker project \<noteq> '''' then (d, Inl (FinalizationBlockedError name (blocker project)))
          else (fst (sql_delete (\<lambda>r. named DefaultNamespace name r \<and> row_uid r = uid) d), Inr ()))"

definition FinalizeProject :: "string \<Rightarrow> string \<Rightarrow> (Project \<Rightarrow> string) \<Rightarrow> db \<Rightarrow> db \<times> unit result" where
  "FinalizeProject name uid blocker d = finalizeProject name uid blocker d"

subsection \<open>Single-statement status writes\<close>

definition classifyProjectNoOp :: "db \<Rightarrow> string \<Rightarrow> unit result" where
  "classifyProjectNoOp d name = (case GetProject d name of
       Inr _ \<Rightarrow> Inr () | Inl _ \<Rightarrow> Inl (ErrNotFound (project_msg name)))"

text \<open>The columns a status write sets: status, promoted phase, \<open>updated_at\<close>, version.\<close>

definition commit_row :: "ProjectStatus \<Rightarrow> time \<Rightarrow> row \<Rightarrow> row" where
  "commit_row status now r = (set_status (marshal_status status) now r)\<lparr>row_phase := phase_text (ps_Phase status)\<rparr>"

definition UpdateProjectStatus :: "time \<Rightarrow> string \<Rightarrow> ProjectStatus \<Rightarrow> db \<Rightarrow> db \<times> unit result" where
  "UpdateProjectStatus now name status d =
     (let (d', n) = sql_update (\<lambda>r. named DefaultNamespace name r \<and> stored_status r \<noteq> marshal_status status)
            (commit_row status now) d
      in if n = 0 then (d', classifyProjectNoOp d' name)
         else (publish TopicProjectUpdated name d', Inr ()))"

definition conditionsExcludingType :: "ConditionType \<Rightarrow> ProjectStatus \<Rightarrow> Condition list" where
  "conditionsExcludingType ty s = filter (\<lambda>c. cond_Type c \<noteq> ty) (ps_Conditions s)"

definition patched_status :: "Condition \<Rightarrow> row \<Rightarrow> json_status" where
  "patched_status condition r =
     ((row_status r)\<lparr>ps_Conditions := conditionsExcludingType (cond_Type condition) (row_status r) @ [condition]\<rparr>, True)"

definition cleared_status :: "ConditionType \<Rightarrow> row \<Rightarrow> json_status" where
  "cleared_status ty r = ((row_status r)\<lparr>ps_Conditions := conditionsExcludingType ty (row_status r)\<rparr>, True)"

definition PatchProjectCondition :: "time \<Rightarrow> string \<Rightarrow> Condition \<Rightarrow> db \<Rightarrow> db \<times> unit result" where
  "PatchProjectCondition now name condition d =
     (let (d', n) = sql_update (\<lambda>r. named DefaultNamespace name r \<and> stored_status r \<noteq> patched_status condition r)
            (\<lambda>r. set_status (patched_status condition r) now r) d
      in if n = 0 then (d', classifyProjectNoOp d' name)
         else (publish TopicProjectUpdated name d', Inr ()))"

definition ClearProjectCondition :: "time \<Rightarrow> string \<Rightarrow> ConditionType \<Rightarrow> db \<Rightarrow> db \<times> unit result" where
  "ClearProjectCondition now name conditionType d =
     (let (d', n) = sql_update (\<lambda>r. named DefaultNamespace name r \<and> stored_status r \<noteq> cleared_status conditionType r)
            (\<lambda>r. set_status (cleared_status conditionType r) now r) d
      in if n = 0 then (d', classifyProjectNoOp d' name)
         else (publish TopicProjectUpdated name d', Inr ()))"

subsection \<open>Assignment fences\<close>

record AssignmentRef =
  ref_UID :: string
  ref_NodeRef :: string
  ref_Generation :: int

definition assignmentFenceWHERE :: "AssignmentRef \<Rightarrow> row \<Rightarrow> bool" where
  "assignmentFenceWHERE ref r \<longleftrightarrow> row_uid r = ref_UID ref
     \<and> ps_NodeRef (row_status r) = ref_NodeRef ref
     \<and> ps_AssignmentGeneration (row_status r) = ref_Generation ref"

definition fenceMatches :: "AssignmentRef \<Rightarrow> Project \<Rightarrow> bool" where
  "fenceMatches ref p \<longleftrightarrow> meta_UID (prj_Meta p) = ref_UID ref
     \<and> ps_NodeRef (prj_Status p) = ref_NodeRef ref
     \<and> ps_AssignmentGeneration (prj_Status p) = ref_Generation ref"

definition assignmentIdentity :: "AssignmentRef \<Rightarrow> AssignmentIdentity" where
  "assignmentIdentity ref = \<lparr>ai_ProjectUID = ref_UID ref, ai_NodeName = ref_NodeRef ref,
     ai_AssignmentGeneration = ref_Generation ref\<rparr>"

definition classifyFencedConditionMiss :: "db \<Rightarrow> string \<Rightarrow> AssignmentRef \<Rightarrow> unit result" where
  "classifyFencedConditionMiss d name ref = (case GetProject d name of
       Inr p \<Rightarrow> if fenceMatches ref p then Inr () else Inl (ErrStaleAssignment (project_msg name))
     | Inl _ \<Rightarrow> Inl (ErrNotFound (project_msg name)))"

definition PatchProjectConditionFenced ::
  "time \<Rightarrow> string \<Rightarrow> AssignmentRef \<Rightarrow> Condition \<Rightarrow> db \<Rightarrow> db \<times> unit result" where
  "PatchProjectConditionFenced now name ref condition d =
     (let (d', n) = sql_update (\<lambda>r. named DefaultNamespace name r \<and> assignmentFenceWHERE ref r
              \<and> stored_status r \<noteq> patched_status condition r)
            (\<lambda>r. set_status (patched_status condition r) now r) d
      in if n = 0 then (d', classifyFencedConditionMiss d' name ref)
         else (publish TopicProjectUpdated name d', Inr ()))"

definition ClearProjectConditionFenced ::
  "time \<Rightarrow> string \<Rightarrow> AssignmentRef \<Rightarrow> ConditionType \<Rightarrow> db \<Rightarrow> db \<times> unit result" where
  "ClearProjectConditionFenced now name ref conditionType d =
     (let (d', n) = sql_update (\<lambda>r. named DefaultNamespace name r \<and> assignmentFenceWHERE ref r
              \<and> stored_status r \<noteq> cleared_status conditionType r)
            (\<lambda>r. set_status (cleared_status conditionType r) now r) d
      in if n = 0 then (d', classifyFencedConditionMiss d' name ref)
         else (publish TopicProjectUpdated name d', Inr ()))"

subsection \<open>Compare-and-swap loops\<close>

record interference =
  it_load :: "db \<Rightarrow> db"
  it_mutate :: "db \<Rightarrow> db"
  it_swap :: "db \<Rightarrow> db"
  it_classify :: "db \<Rightarrow> db"
  it_now :: time

definition maxStatusUpdateAttempts :: nat where "maxStatusUpdateAttempts = 3"

definition attempts :: "(nat \<Rightarrow> interference) \<Rightarrow> interference list" where
  "attempts sched = map sched [0..<maxStatusUpdateAttempts]"

definition quiet :: "time \<Rightarrow> nat \<Rightarrow> interference" where
  "quiet now _ = \<lparr>it_load = id, it_mutate = id, it_swap = id, it_classify = id, it_now = now\<rparr>"

text \<open>
  A closure sees the snapshot's metadata and a copy of its status; it may query the store
  (\<open>ReleaseAssignment\<close> does), and the variables it sets in its caller are the second
  component of its result.
\<close>

type_synonym 'x closure = "db \<Rightarrow> ObjectMeta \<Rightarrow> ProjectStatus \<Rightarrow> (ProjectStatus \<times> 'x) result"

definition statusEqual :: "ProjectStatus \<Rightarrow> ProjectStatus \<Rightarrow> bool" where
  "statusEqual a b \<longleftrightarrow> marshal_status a = marshal_status b"

text \<open>
  The read-mutate-swap loop, over the load, the guarded update and the classification of a miss
  that its three users differ in. The result says whether a write was committed.
\<close>

fun status_cas_loop ::
  "(db \<Rightarrow> Project result) \<Rightarrow> (int \<Rightarrow> ProjectStatus \<Rightarrow> time \<Rightarrow> db \<Rightarrow> db \<times> nat) \<Rightarrow> (db \<Rightarrow> store_error)
   \<Rightarrow> 'x closure \<Rightarrow> store_error \<Rightarrow> interference list \<Rightarrow> db \<Rightarrow> db \<times> (bool \<times> 'x) result" where
  "status_cas_loop load swap classify mutate lastConflict [] d = (d, Inl lastConflict)"
| "status_cas_loop load swap classify mutate lastConflict (it # its) d =
     (let d0 = it_load it d in
      case load d0 of
        Inl e \<Rightarrow> (d0, Inl e)
      | Inr project \<Rightarrow>
          let d1 = it_mutate it d0 in
          case mutate d1 (prj_Meta project) (prj_Status project) of
            Inl e \<Rightarrow> (d1, Inl e)
          | Inr (next, x) \<Rightarrow>
              if statusEqual (prj_Status project) next then (d1, Inr (False, x))
              else let d2 = it_swap it d1;
                       (d3, n) = swap (meta_ResourceVersion (prj_Meta project)) next (it_now it) d2
                   in if n \<noteq> 0 then (d3, Inr (True, x))
                      else let d4 = it_classify it d3; e = classify d4
                           in if is_version_conflict e
                              then status_cas_loop load swap classify mutate e its d4
                              else (d4, Inl e))"

text \<open>What \<open>lastConflict\<close> is before the first attempt; three attempts always overwrite it.\<close>

definition no_conflict :: store_error where "no_conflict = ErrVersionConflict ''''"

definition publish_committed :: "string \<Rightarrow> db \<times> (bool \<times> 'x) result \<Rightarrow> db \<times> 'x result" where
  "publish_committed name res = (case res of
       (d, Inl e) \<Rightarrow> (d, Inl e)
     | (d, Inr (committed, x)) \<Rightarrow> (if committed then publish TopicProjectUpdated name d else d, Inr x))"

definition swap_where :: "(row \<Rightarrow> bool) \<Rightarrow> string \<Rightarrow> int \<Rightarrow> ProjectStatus \<Rightarrow> time \<Rightarrow> db \<Rightarrow> db \<times> nat" where
  "swap_where extra name expectedVersion status now d =
     sql_update (\<lambda>r. named DefaultNamespace name r \<and> row_resource_version r = expectedVersion \<and> extra r)
       (commit_row status now) d"

paragraph \<open>By version only\<close>

definition loadProjectStatus :: "string \<Rightarrow> db \<Rightarrow> Project result" where
  "loadProjectStatus name d = (case GetProject d name of
       Inl _ \<Rightarrow> Inl (ErrNotFound (project_msg name)) | Inr p \<Rightarrow> Inr p)"

definition swapProjectStatus :: "string \<Rightarrow> int \<Rightarrow> ProjectStatus \<Rightarrow> time \<Rightarrow> db \<Rightarrow> db \<times> nat" where
  "swapProjectStatus name = swap_where (\<lambda>_. True) name"

definition classifyStatusUpdateMiss :: "string \<Rightarrow> db \<Rightarrow> store_error" where
  "classifyStatusUpdateMiss name d = (case GetProject d name of
       Inr _ \<Rightarrow> ErrVersionConflict (project_msg name)
     | Inl _ \<Rightarrow> ErrNotFound (project_msg name))"

definition retryProjectStatusUpdate ::
  "(nat \<Rightarrow> interference) \<Rightarrow> string \<Rightarrow> 'x closure \<Rightarrow> db \<Rightarrow> db \<times> (bool \<times> 'x) result" where
  "retryProjectStatusUpdate sched name mutate d =
     status_cas_loop (loadProjectStatus name) (swapProjectStatus name) (classifyStatusUpdateMiss name)
       mutate no_conflict (attempts sched) d"

definition UpdateProjectStatusWithRetry ::
  "(nat \<Rightarrow> interference) \<Rightarrow> string \<Rightarrow> 'x closure \<Rightarrow> db \<Rightarrow> db \<times> 'x result" where
  "UpdateProjectStatusWithRetry sched name mutate d =
     publish_committed name (retryProjectStatusUpdate sched name mutate d)"

paragraph \<open>Fenced by the assignment\<close>

definition loadFenced :: "AssignmentRef \<Rightarrow> string \<Rightarrow> db \<Rightarrow> Project result" where
  "loadFenced ref name d = (case GetProject d name of
       Inl _ \<Rightarrow> Inl (ErrNotFound (project_msg name))
     | Inr p \<Rightarrow> if \<not> fenceMatches ref p then Inl (ErrStaleAssignment (project_msg name)) else Inr p)"

definition swapProjectStatusFenced ::
  "AssignmentRef \<Rightarrow> string \<Rightarrow> int \<Rightarrow> ProjectStatus \<Rightarrow> time \<Rightarrow> db \<Rightarrow> db \<times> nat" where
  "swapProjectStatusFenced ref name = swap_where (assignmentFenceWHERE ref) name"

definition classifyFencedSwapMiss :: "AssignmentRef \<Rightarrow> string \<Rightarrow> db \<Rightarrow> store_error" where
  "classifyFencedSwapMiss ref name d = (case GetProject d name of
       Inr p \<Rightarrow> if fenceMatches ref p then ErrVersionConflict (project_msg name)
               else ErrStaleAssignment (project_msg name)
     | Inl _ \<Rightarrow> ErrNotFound (project_msg name))"

definition reportProjectStatusFenced ::
  "(nat \<Rightarrow> interference) \<Rightarrow> string \<Rightarrow> AssignmentRef \<Rightarrow> 'x closure \<Rightarrow> db \<Rightarrow> db \<times> 'x result" where
  "reportProjectStatusFenced sched name ref mutate d =
     publish_committed name
       (status_cas_loop (loadFenced ref name) (swapProjectStatusFenced ref name)
          (classifyFencedSwapMiss ref name) mutate no_conflict (attempts sched) d)"

paragraph \<open>Pinned to one lifetime\<close>

definition loadForUID :: "string \<Rightarrow> string \<Rightarrow> db \<Rightarrow> Project result" where
  "loadForUID uid name d = (case GetProject d name of
       Inl _ \<Rightarrow> Inl (ErrNotFound (project_msg name))
     | Inr p \<Rightarrow> if meta_UID (prj_Meta p) \<noteq> uid then Inl (stale_lifetime name uid) else Inr p)"

definition swapProjectStatusForUID ::
  "string \<Rightarrow> string \<Rightarrow> int \<Rightarrow> ProjectStatus \<Rightarrow> time \<Rightarrow> db \<Rightarrow> db \<times> nat" where
  "swapProjectStatusForUID uid name = swap_where (\<lambda>r. row_uid r = uid) name"

definition classifyUIDSwapMiss :: "string \<Rightarrow> string \<Rightarrow> db \<Rightarrow> store_error" where
  "classifyUIDSwapMiss uid name d = (case GetProject d name of
       Inr p \<Rightarrow> if meta_UID (prj_Meta p) = uid then ErrVersionConflict (project_msg name)
               else ErrStaleAssignment (project_msg name)
     | Inl _ \<Rightarrow> ErrNotFound (project_msg name))"

definition updateProjectStatusForUID ::
  "(nat \<Rightarrow> interference) \<Rightarrow> string \<Rightarrow> string \<Rightarrow> 'x closure \<Rightarrow> db \<Rightarrow> db \<times> 'x result" where
  "updateProjectStatusForUID sched name uid mutate d =
     publish_committed name
       (status_cas_loop (loadForUID uid name) (swapProjectStatusForUID uid name)
          (classifyUIDSwapMiss uid name) mutate no_conflict (attempts sched) d)"

text \<open>A closure that only reads and writes the status.\<close>

definition on_status :: "(ProjectStatus \<Rightarrow> ProjectStatus result) \<Rightarrow> unit closure" where
  "on_status f d meta s = (case f s of Inl e \<Rightarrow> Inl e | Inr s' \<Rightarrow> Inr (s', ()))"

definition ReportProjectStatusFenced ::
  "(nat \<Rightarrow> interference) \<Rightarrow> string \<Rightarrow> AssignmentRef \<Rightarrow> (ProjectStatus \<Rightarrow> ProjectStatus result)
   \<Rightarrow> db \<Rightarrow> db \<times> unit result" where
  "ReportProjectStatusFenced sched name ref mutate d = reportProjectStatusFenced sched name ref (on_status mutate) d"

definition UpdateProjectStatusForUID ::
  "(nat \<Rightarrow> interference) \<Rightarrow> string \<Rightarrow> string \<Rightarrow> 'x closure \<Rightarrow> db \<Rightarrow> db \<times> 'x result" where
  "UpdateProjectStatusForUID sched name uid mutate d = updateProjectStatusForUID sched name uid mutate d"

end
