(* ===== verification/Store_CAS.thy ===== *)
theory Store_CAS
  imports Project_Store
begin

text \<open>
  What the compare-and-swap loops of the store guarantee. \<open>db_wf\<close> is the table's integrity (primary
  key, unique UID, promoted phase column), \<open>evolves\<close> what any session does to it: versions only
  grow, equal versions of one lifetime mean equal rows, and a UID is never issued twice. The locale
  \<open>status_cas\<close> is the interface \<open>projectStatusCAS\<close>; its extension \<open>pinned_cas\<close> adds that the swap
  re-asserts the lifetime, and there every loop is linearizable under any such interference.
\<close>

definition row_key :: "row \<Rightarrow> string \<times> string" where
  "row_key r = (row_namespace r, row_name r)"

definition row_wf :: "row \<Rightarrow> bool" where
  "row_wf r \<longleftrightarrow> row_phase r = phase_text (ps_Phase (row_status r))
     \<and> 1 \<le> row_resource_version r
     \<and> (ps_Conditions (row_status r) \<noteq> [] \<longrightarrow> row_conditions_key r)"

definition db_wf :: "db \<Rightarrow> bool" where
  "db_wf d \<longleftrightarrow> distinct (map row_key (db_rows d)) \<and> distinct (map row_uid (db_rows d))
     \<and> set (map row_uid (db_rows d)) \<subseteq> set (db_uids d) \<and> (\<forall>r \<in> set (db_rows d). row_wf r)"

definition successor :: "row \<Rightarrow> row \<Rightarrow> bool" where
  "successor r r' \<longleftrightarrow> row_uid r' = row_uid r \<and> row_key r' = row_key r
     \<and> row_resource_version r \<le> row_resource_version r'
     \<and> (row_resource_version r = row_resource_version r' \<longrightarrow> r' = r)"

definition evolves :: "db \<Rightarrow> db \<Rightarrow> bool" where
  "evolves d d' \<longleftrightarrow> set (db_uids d) \<subseteq> set (db_uids d')
     \<and> (\<forall>r' \<in> set (db_rows d'). row_uid r' \<in> set (db_uids d) \<longrightarrow> (\<exists>r \<in> set (db_rows d). successor r r'))"

definition rely :: "(db \<Rightarrow> db) set \<Rightarrow> bool" where
  "rely F \<longleftrightarrow> (\<forall>f \<in> F. \<forall>d. db_wf d \<longrightarrow> db_wf (f d) \<and> evolves d (f d))"

definition env_reach :: "(db \<Rightarrow> db) set \<Rightarrow> db \<Rightarrow> db \<Rightarrow> bool" where
  "env_reach F = (\<lambda>x y. \<exists>f \<in> F. y = f x)\<^sup>*\<^sup>*"

definition interferences :: "interference list \<Rightarrow> (db \<Rightarrow> db) set" where
  "interferences its = (\<Union>it \<in> set its. {it_load it, it_mutate it, it_swap it, it_classify it})"

text \<open>
  Linearizability: a committed write happened atomically at one instant of the run. The row the
  closure was decided on is the row the swap replaced, so the closure's guards held at that
  instant, whatever other sessions did before, between and after. A run that wrote nothing left
  the table to the environment; if it reports success, the closure asked for no change of a row
  that was there.
\<close>

definition linearized ::
  "(db \<Rightarrow> db) set \<Rightarrow> (row \<Rightarrow> bool) \<Rightarrow> string \<Rightarrow> 'x closure \<Rightarrow> db \<Rightarrow> db \<Rightarrow> (bool \<times> 'x) result \<Rightarrow> bool" where
  "linearized F extra name mutate d d' res = (case res of
       Inl e \<Rightarrow> env_reach F d d'
     | Inr (False, x) \<Rightarrow>
         (\<exists>dl r. env_reach F d dl \<and> env_reach F dl d' \<and> row_at dl name = Some r \<and> extra r
            \<and> mutate d' (prj_Meta (scanProject r)) (row_status r) = Inr (row_status r, x))
     | Inr (True, x) \<Rightarrow>
         (\<exists>dm ds r status now. env_reach F d dm \<and> env_reach F dm ds
            \<and> row_at dm name = Some r \<and> row_at ds name = Some r \<and> extra r \<and> status \<noteq> row_status r
            \<and> mutate dm (prj_Meta (scanProject r)) (row_status r) = Inr (status, x)
            \<and> d' = fst (swap_where extra name (row_resource_version r) status now ds)
            \<and> row_at d' name = Some (commit_row status now r)))"

subsection \<open>Successors and evolution\<close>

lemma successor_refl [simp]: "successor r r"
  by (simp add: successor_def)

lemma successor_trans: "successor r s \<Longrightarrow> successor s t \<Longrightarrow> successor r t"
  by (auto simp: successor_def)

lemma evolves_refl [simp]: "evolves d d"
  unfolding evolves_def by (meson successor_refl subset_refl)

lemma evolves_trans: "evolves d e \<Longrightarrow> evolves e f \<Longrightarrow> evolves d f"
proof -
  assume de: "evolves d e" and ef: "evolves e f"
  have "\<exists>r \<in> set (db_rows d). successor r t" if t: "t \<in> set (db_rows f)" "row_uid t \<in> set (db_uids d)" for t
  proof -
    obtain s where s: "s \<in> set (db_rows e)" "successor s t"
      using t de ef by (auto simp: evolves_def)
    then have "row_uid s \<in> set (db_uids d)" using t(2) by (auto simp: successor_def)
    with s de obtain r where "r \<in> set (db_rows d)" "successor r s" by (auto simp: evolves_def)
    with s(2) show ?thesis by (blast intro: successor_trans)
  qed
  moreover have "set (db_uids d) \<subseteq> set (db_uids f)" using de ef by (auto simp: evolves_def)
  ultimately show ?thesis by (simp add: evolves_def)
qed

lemma row_at_mem: "row_at d name = Some r \<Longrightarrow> r \<in> set (db_rows d) \<and> named DefaultNamespace name r"
  by (auto simp: row_at_def dest: find_SomeD)

lemma row_at_of_mem:
  assumes "db_wf d" "r \<in> set (db_rows d)" "named DefaultNamespace name r"
  shows "row_at d name = Some r"
proof -
  obtain s where s: "row_at d name = Some s"
    using assms by (cases "row_at d name") (auto simp: row_at_def find_None_iff)
  from row_at_mem [OF this] assms(3) have "s \<in> set (db_rows d)" "row_key s = row_key r"
    by (auto simp: named_def row_key_def)
  with assms(1,2) have "s = r" by (auto simp: db_wf_def distinct_map dest: inj_onD)
  with s show ?thesis by simp
qed

lemma same_uid_same_row:
  "db_wf d \<Longrightarrow> r \<in> set (db_rows d) \<Longrightarrow> s \<in> set (db_rows d) \<Longrightarrow> row_uid r = row_uid s \<Longrightarrow> r = s"
  by (auto simp: db_wf_def distinct_map dest: inj_onD)

lemma named_of_key: "row_key r = row_key s \<Longrightarrow> named ns name r = named ns name s"
  by (simp add: row_key_def named_def)

lemma row_at_successor:
  assumes "db_wf d" "evolves d e" "row_at e name = Some s" "row_uid s \<in> set (db_uids d)"
  obtains r where "row_at d name = Some r" "successor r s"
proof -
  obtain r where r: "r \<in> set (db_rows d)" "successor r s"
    using assms row_at_mem [of e name s] by (auto simp: evolves_def)
  then have "named DefaultNamespace name r"
    using row_at_mem [OF assms(3)] named_of_key [of r s] by (auto simp: successor_def)
  with r assms(1) show ?thesis by (auto intro: that row_at_of_mem)
qed

text \<open>The sandwich: one lifetime at one version before and after is one row throughout.\<close>

lemma row_unchanged_between:
  assumes wf: "db_wf d" "db_wf e" and ev: "evolves d e" "evolves e f"
    and r: "row_at d name = Some r" and s: "row_at f name = Some s"
    and eq: "row_uid s = row_uid r" "row_resource_version s = row_resource_version r"
  shows "s = r \<and> row_at e name = Some r"
proof -
  have known: "row_uid s \<in> set (db_uids d)" "row_uid s \<in> set (db_uids e)"
    using row_at_mem [OF r] wf(1) ev(1) eq(1) by (auto simp: db_wf_def evolves_def)
  obtain m where m: "row_at e name = Some m" "successor m s"
    using row_at_successor [OF wf(2) ev(2) s known(2)] .
  have "row_uid m \<in> set (db_uids d)" using m(2) known(1) by (simp add: successor_def)
  then obtain r' where "row_at d name = Some r'" "successor r' m"
    using row_at_successor [OF wf(1) ev(1) m(1)] by blast
  with r have "successor r m" by simp
  with m eq show ?thesis by (auto simp: successor_def)
qed

subsection \<open>Statements\<close>

lemma named_commit_row [simp]: "named ns name (commit_row s now r) = named ns name r"
  by (simp add: named_def commit_row_def set_status_def)

lemma find_map_update:
  "(\<And>r. P (f r) = P r) \<Longrightarrow>
   List.find P (map (\<lambda>r. if W r then f r else r) xs) =
     map_option (\<lambda>r. if W r then f r else r) (List.find P xs)"
  by (induction xs) auto

lemma row_at_sql_update:
  assumes "\<And>r. named DefaultNamespace name (f r) = named DefaultNamespace name r"
  shows "row_at (fst (sql_update W f d)) name = map_option (\<lambda>r. if W r then f r else r) (row_at d name)"
  using assms by (simp add: row_at_def sql_update_def find_map_update)

lemma sql_update_evolves:
  assumes f: "\<And>r. row_uid (f r) = row_uid r" "\<And>r. row_key (f r) = row_key r"
      "\<And>r. row_resource_version (f r) = row_resource_version r + 1"
  shows "evolves d (fst (sql_update W f d))"
proof -
  have "successor r (f r)" for r using f by (simp add: successor_def)
  then show ?thesis
    by (auto simp: evolves_def sql_update_def split: if_splits) (blast intro: successor_refl)+
qed

lemma sql_update_wf:
  assumes f: "\<And>r. row_uid (f r) = row_uid r" "\<And>r. row_key (f r) = row_key r"
    and wf: "\<And>r. r \<in> set (db_rows d) \<Longrightarrow> W r \<Longrightarrow> row_wf r \<Longrightarrow> row_wf (f r)" and d: "db_wf d"
  shows "db_wf (fst (sql_update W f d))"
proof -
  define g where "g = (\<lambda>r. if W r then f r else r)"
  have "row_uid \<circ> g = row_uid" "row_key \<circ> g = row_key" using f by (auto simp: g_def)
  moreover have "\<forall>r \<in> set (db_rows d). row_wf (g r)" using wf d by (auto simp: db_wf_def g_def)
  moreover have "fst (sql_update W f d) = d\<lparr>db_rows := map g (db_rows d)\<rparr>"
    by (simp add: sql_update_def g_def)
  moreover have "set (map row_uid (map g (db_rows d))) \<subseteq> set (db_uids d)"
    using d \<open>row_uid \<circ> g = row_uid\<close> by (simp only: map_map db_wf_def)
  ultimately show ?thesis using d by (simp add: db_wf_def image_comp)
qed

lemma sql_delete_ok:
  "evolves d (fst (sql_delete W d))" "db_wf d \<Longrightarrow> db_wf (fst (sql_delete W d))"
proof -
  show "evolves d (fst (sql_delete W d))"
    by (auto simp: evolves_def sql_delete_def) (meson successor_refl)
  show "db_wf d \<Longrightarrow> db_wf (fst (sql_delete W d))"
    by (auto simp: db_wf_def sql_delete_def distinct_map_filter)
qed

lemma publish_ok [simp]:
  "db_rows (publish t n d) = db_rows d" "db_uids (publish t n d) = db_uids d" "db_audit (publish t n d) = db_audit d"
  "row_at (publish t n d) name = row_at d name"
  "evolves e (publish t n d) = evolves e d" "evolves (publish t n d) e = evolves d e" "db_wf (publish t n d) = db_wf d"
  by (simp_all add: publish_def row_at_def evolves_def db_wf_def)

lemma commit_row_simps [simp]:
  "row_uid (commit_row s now r) = row_uid r" "row_key (commit_row s now r) = row_key r"
  "row_resource_version (commit_row s now r) = row_resource_version r + 1"
  "row_status (commit_row s now r) = s" "row_spec (commit_row s now r) = row_spec r"
  "row_spec_revision (commit_row s now r) = row_spec_revision r"
  "row_wf r \<Longrightarrow> row_wf (commit_row s now r)"
  by (auto simp: commit_row_def set_status_def marshal_status_def row_key_def row_wf_def)

lemma swap_where_ok:
  "evolves d (fst (swap_where extra name v s now d))"
  "db_wf d \<Longrightarrow> db_wf (fst (swap_where extra name v s now d))"
  unfolding swap_where_def by (rule sql_update_evolves sql_update_wf; simp)+

lemma swap_where_hit:
  assumes "db_wf d"
  shows "snd (swap_where extra name v s now d) \<noteq> 0 \<longleftrightarrow>
     (\<exists>r. row_at d name = Some r \<and> row_resource_version r = v \<and> extra r)"
proof -
  have "(\<exists>r \<in> set (db_rows d). row_resource_version r = v \<and> named DefaultNamespace name r \<and> extra r)
      \<longleftrightarrow> (\<exists>r. row_at d name = Some r \<and> row_resource_version r = v \<and> extra r)"
    using assms row_at_mem [of d name] by (blast intro: row_at_of_mem)
  then show ?thesis by (simp add: swap_where_def sql_update_def filter_empty_conv)
qed

lemma swap_where_miss:
  "snd (swap_where extra name v s now d) = 0 \<Longrightarrow> fst (swap_where extra name v s now d) = d"
  by (cases d) (auto simp: swap_where_def sql_update_def filter_empty_conv intro!: map_idI)

lemma row_at_swap_where:
  "row_at d name = Some r \<Longrightarrow> row_resource_version r = v \<Longrightarrow> extra r \<Longrightarrow>
   row_at (fst (swap_where extra name v s now d)) name = Some (commit_row s now r)"
  using row_at_mem [of d name r] by (auto simp: swap_where_def row_at_sql_update)

lemma linearized_commitI:
  "env_reach F d dm \<Longrightarrow> env_reach F dm ds \<Longrightarrow> row_at dm name = Some r \<Longrightarrow> row_at ds name = Some r \<Longrightarrow>
   extra r \<Longrightarrow> status \<noteq> row_status r \<Longrightarrow>
   mutate dm (prj_Meta (scanProject r)) (row_status r) = Inr (status, x) \<Longrightarrow>
   d' = fst (swap_where extra name (row_resource_version r) status now ds) \<Longrightarrow>
   row_at d' name = Some (commit_row status now r) \<Longrightarrow>
   linearized F extra name mutate d d' (Inr (True, x))"
  unfolding linearized_def by (simp, blast)

subsection \<open>Interference\<close>

lemma env_reach_refl [simp]: "env_reach F d d"
  by (simp add: env_reach_def)

lemma env_reach_step: "f \<in> F \<Longrightarrow> env_reach F d e \<Longrightarrow> env_reach F d (f e)"
  unfolding env_reach_def by (rule rtranclp.rtrancl_into_rtrancl) blast+

lemma env_reach_trans: "env_reach F d e \<Longrightarrow> env_reach F e f \<Longrightarrow> env_reach F d f"
  unfolding env_reach_def by (rule rtranclp_trans)

lemma env_reach_ok:
  assumes "rely F" "env_reach F d e" "db_wf d"
  shows "db_wf e \<and> evolves d e"
  using assms(2) unfolding env_reach_def
proof (induction rule: rtranclp_induct)
  case base
  with assms(3) show ?case by simp
next
  case (step y z)
  with assms(1) show ?case unfolding rely_def by (blast intro: evolves_trans)
qed

lemma rely_Cons: "rely (interferences (it # its)) \<Longrightarrow> rely (interferences its)"
  by (auto simp: rely_def interferences_def)

lemma env_reach_mono: "env_reach F d e \<Longrightarrow> F \<subseteq> G \<Longrightarrow> env_reach G d e"
  unfolding env_reach_def by (erule rtranclp_mono [THEN predicate2D, rotated]) blast

lemma interferences_mem [simp]:
  "it_load it \<in> interferences (it # its)" "it_mutate it \<in> interferences (it # its)"
  "it_swap it \<in> interferences (it # its)" "it_classify it \<in> interferences (it # its)"
  by (simp_all add: interferences_def)

lemma interferences_Cons: "interferences its \<subseteq> interferences (it # its)"
  by (auto simp: interferences_def)

subsection \<open>The interface of the loops\<close>

locale status_cas =
  fixes name :: string
    and load :: "db \<Rightarrow> Project result"
    and extra :: "row \<Rightarrow> bool"
    and classify :: "db \<Rightarrow> store_error"
  assumes load_Inr: "load d = Inr p \<longleftrightarrow> (\<exists>r. row_at d name = Some r \<and> extra r \<and> p = scanProject r)"
    and classify_conflict: "is_version_conflict (classify d) \<longleftrightarrow> (\<exists>r. row_at d name = Some r \<and> extra r)"
    and load_not_conflict: "load d = Inl e \<Longrightarrow> \<not> is_version_conflict e"
begin

abbreviation loop where "loop \<equiv> status_cas_loop load (swap_where extra name) classify"

text \<open>
  With nobody else writing, one attempt decides: the loop is the sequential read-mutate-write.
\<close>

definition sequential :: "'x closure \<Rightarrow> time \<Rightarrow> db \<Rightarrow> db \<times> (bool \<times> 'x) result" where
  "sequential mutate now d = (case load d of
       Inl e \<Rightarrow> (d, Inl e)
     | Inr p \<Rightarrow> (case mutate d (prj_Meta p) (prj_Status p) of
          Inl e \<Rightarrow> (d, Inl e)
        | Inr (next, x) \<Rightarrow>
            if statusEqual (prj_Status p) next then (d, Inr (False, x))
            else (fst (swap_where extra name (meta_ResourceVersion (prj_Meta p)) next now d), Inr (True, x))))"

lemma loop_quiet:
  assumes "db_wf d"
  shows "loop mutate lc (attempts (quiet now)) d = sequential mutate now d"
proof -
  have cons: "attempts (quiet now) = quiet now 0 # map (quiet now) [Suc 0, Suc (Suc 0)]"
    by (simp add: attempts_def maxStatusUpdateAttempts_def upt_rec numeral_3_eq_3)
  show ?thesis
  proof (cases "load d")
    case (Inl e)
    then show ?thesis unfolding cons by (simp add: sequential_def quiet_def)
  next
    case load: (Inr p)
    then obtain r where r: "row_at d name = Some r" "extra r" "p = scanProject r" by (auto simp: load_Inr)
    then have "0 < snd (swap_where extra name (meta_ResourceVersion (prj_Meta p)) nx now d)" for nx
      using swap_where_hit [OF assms] by (auto simp: scanProject_def)
    with load show ?thesis
      unfolding cons by (simp add: sequential_def quiet_def Let_def prod.case_eq_if split: sum.split)
  qed
qed

text \<open>
  What a run of the loop can amount to: it follows the environment, and either stops on an error,
  finds nothing to change, or makes one swap, decided on a snapshot loaded before.
\<close>

definition outcome :: "(db \<Rightarrow> db) set \<Rightarrow> 'x closure \<Rightarrow> db \<Rightarrow> db \<Rightarrow> (bool \<times> 'x) result \<Rightarrow> bool" where
  "outcome F mutate d d' res = (case res of
       Inl e \<Rightarrow> env_reach F d d'
     | Inr (committed, x) \<Rightarrow>
         (\<exists>dl dm p next. env_reach F d dl \<and> env_reach F dl dm \<and> load dl = Inr p
            \<and> mutate dm (prj_Meta p) (prj_Status p) = Inr (next, x)
            \<and> (if committed
               then next \<noteq> prj_Status p \<and> (\<exists>ds now. env_reach F dm ds
                  \<and> snd (swap_where extra name (meta_ResourceVersion (prj_Meta p)) next now ds) \<noteq> 0
                  \<and> d' = fst (swap_where extra name (meta_ResourceVersion (prj_Meta p)) next now ds))
               else next = prj_Status p \<and> d' = dm)))"

lemma outcome_commitI:
  "env_reach F d dl \<Longrightarrow> env_reach F dl dm \<Longrightarrow> env_reach F dm ds \<Longrightarrow> load dl = Inr p \<Longrightarrow>
   mutate dm (prj_Meta p) (prj_Status p) = Inr (next_s, x) \<Longrightarrow> next_s \<noteq> prj_Status p \<Longrightarrow>
   sw = swap_where extra name (meta_ResourceVersion (prj_Meta p)) next_s now ds \<Longrightarrow> snd sw \<noteq> 0 \<Longrightarrow>
   outcome F mutate d (fst sw) (Inr (True, x))"
  unfolding outcome_def by (simp, blast)

lemma outcome_mono:
  assumes "outcome F mutate e d' res" "F \<subseteq> G" "env_reach G d e"
  shows "outcome G mutate d d' res"
proof (cases res)
  case (Inl err)
  with assms show ?thesis by (auto simp: outcome_def intro: env_reach_trans env_reach_mono)
next
  case (Inr cx)
  obtain committed x where "cx = (committed, x)" by force
  with Inr assms(1) obtain dl dm p nx where o: "env_reach F e dl" "env_reach F dl dm" "load dl = Inr p"
      "mutate dm (prj_Meta p) (prj_Status p) = Inr (nx, x)"
      "if committed
       then nx \<noteq> prj_Status p \<and> (\<exists>ds now. env_reach F dm ds
          \<and> snd (swap_where extra name (meta_ResourceVersion (prj_Meta p)) nx now ds) \<noteq> 0
          \<and> d' = fst (swap_where extra name (meta_ResourceVersion (prj_Meta p)) nx now ds))
       else nx = prj_Status p \<and> d' = dm"
    by (auto simp: outcome_def)
  have G: "env_reach G d dl" "env_reach G dl dm" "\<And>ds. env_reach F dm ds \<Longrightarrow> env_reach G dm ds"
    using o(1,2) assms(2,3) by (auto intro: env_reach_trans env_reach_mono)
  show ?thesis
  proof (cases committed)
    case True
    with o(5) obtain ds now where "env_reach F dm ds" "nx \<noteq> prj_Status p"
      "snd (swap_where extra name (meta_ResourceVersion (prj_Meta p)) nx now ds) \<noteq> 0"
      "d' = fst (swap_where extra name (meta_ResourceVersion (prj_Meta p)) nx now ds)" by auto
    with True Inr \<open>cx = (committed, x)\<close> show ?thesis
      using outcome_commitI [where mutate = mutate, OF G(1,2) G(3) o(3,4)] by simp
  next
    case False
    with o G Inr \<open>cx = (committed, x)\<close> show ?thesis by (auto simp: outcome_def)
  qed
qed

lemma statusEqual_iff [simp]: "statusEqual a b \<longleftrightarrow> a = b"
  by (auto simp: statusEqual_def marshal_status_def)

lemma loop_outcome:
  "loop mutate lc its d = (d', res) \<Longrightarrow> outcome (interferences its) mutate d d' res"
proof (induction its arbitrary: d lc)
  case Nil
  then show ?case by (auto simp: outcome_def)
next
  case (Cons it its)
  let ?F = "interferences (it # its)"
  define d0 d1 d2 where "d0 = it_load it d" and "d1 = it_mutate it d0" and "d2 = it_swap it d1"
  have R: "env_reach ?F d d0" "env_reach ?F d0 d1" "env_reach ?F d1 d2" "env_reach ?F d2 (it_classify it d2)"
    by (simp_all add: d0_def d1_def d2_def env_reach_step)
  then have R': "env_reach ?F d d1" "env_reach ?F d (it_classify it d2)" by (meson env_reach_trans)+
  show ?case
  proof (cases "load d0")
    case (Inl e)
    with Cons.prems R show ?thesis by (auto simp: outcome_def d0_def)
  next
    case load: (Inr p)
    show ?thesis
    proof (cases "mutate d1 (prj_Meta p) (prj_Status p)")
      case (Inl e)
      with Cons.prems R' load show ?thesis by (auto simp: outcome_def d0_def d1_def)
    next
      case mut: (Inr nx)
      obtain next_s x where nx: "nx = (next_s, x)" by force
      define sw where "sw = swap_where extra name (meta_ResourceVersion (prj_Meta p)) next_s (it_now it) d2"
      define d4 where "d4 = it_classify it d2"
      have run: "(d', res) = (if next_s = prj_Status p then (d1, Inr (False, x))
          else if snd sw \<noteq> 0 then (fst sw, Inr (True, x))
          else let d4 = it_classify it (fst sw) in
            if is_version_conflict (classify d4) then loop mutate (classify d4) its d4
            else (d4, Inl (classify d4)))"
        using Cons.prems load mut nx
        by (auto simp: d0_def d1_def d2_def sw_def prod.case_eq_if Let_def)
      consider "next_s = prj_Status p" | "next_s \<noteq> prj_Status p" "snd sw \<noteq> 0"
        | "next_s \<noteq> prj_Status p" "snd sw = 0" "fst sw = d2"
        using swap_where_miss sw_def by blast
      then show ?thesis
      proof cases
        case 1
        with run R load mut nx show ?thesis by (auto simp: outcome_def)
      next
        case 2
        then have "d' = fst sw" "res = Inr (True, x)" using run by simp_all
        with 2 show ?thesis
          using outcome_commitI [where mutate = mutate, OF R(1-3) load _ _ sw_def] mut nx by simp
      next
        case 3
        with run have "(d', res) = (if is_version_conflict (classify d4) then loop mutate (classify d4) its d4
            else (d4, Inl (classify d4)))" by (simp add: d4_def Let_def)
        moreover have "outcome ?F mutate d d4 (Inl (classify d4))" using R' by (simp add: outcome_def d4_def)
        moreover have ?thesis if "loop mutate (classify d4) its d4 = (d', res)"
          using outcome_mono [OF Cons.IH [OF that] interferences_Cons] R'(2) by (simp add: d4_def)
        ultimately show ?thesis by (metis Pair_inject)
      qed
    qed
  qed
qed

end

locale pinned_cas = status_cas +
  fixes uid :: string
  assumes pinned: "extra r \<Longrightarrow> row_uid r = uid"
begin

lemma loop_linearized:
  assumes "loop mutate lc its d = (d', res)" and "rely (interferences its)" and "db_wf d"
  shows "linearized (interferences its) extra name mutate d d' res"
proof (cases res)
  case (Inl e)
  with loop_outcome [OF assms(1)] show ?thesis by (simp add: outcome_def linearized_def)
next
  case (Inr cx)
  let ?F = "interferences its"
  obtain committed x where cx: "cx = (committed, x)" by force
  from loop_outcome [OF assms(1)] Inr cx
  obtain dl dm p nx where o: "env_reach ?F d dl" "env_reach ?F dl dm" "load dl = Inr p"
      "mutate dm (prj_Meta p) (prj_Status p) = Inr (nx, x)"
      "if committed
       then nx \<noteq> prj_Status p \<and> (\<exists>ds now. env_reach ?F dm ds
          \<and> snd (swap_where extra name (meta_ResourceVersion (prj_Meta p)) nx now ds) \<noteq> 0
          \<and> d' = fst (swap_where extra name (meta_ResourceVersion (prj_Meta p)) nx now ds))
       else nx = prj_Status p \<and> d' = dm"
    by (auto simp: outcome_def)
  from o(3) obtain r where r: "row_at dl name = Some r" "extra r" "p = scanProject r" by (auto simp: load_Inr)
  have v: "prj_Status p = row_status r" "meta_ResourceVersion (prj_Meta p) = row_resource_version r"
    using r by (simp_all add: scanProject_def)
  show ?thesis
  proof (cases committed)
    case False
    with o r v Inr cx show ?thesis by (auto simp: linearized_def)
  next
    case True
    with o(5) v obtain ds now where sw: "env_reach ?F dm ds" "nx \<noteq> row_status r"
      "snd (swap_where extra name (row_resource_version r) nx now ds) \<noteq> 0"
      "d' = fst (swap_where extra name (row_resource_version r) nx now ds)" by auto
    have wl: "db_wf dl" using env_reach_ok assms(2,3) o(1) by blast
    then have wm: "db_wf dm" "evolves dl dm" using env_reach_ok [OF assms(2) o(2)] by auto
    then have ws: "db_wf ds" "evolves dm ds" using env_reach_ok [OF assms(2) sw(1)] by auto
    obtain s where s: "row_at ds name = Some s" "row_resource_version s = row_resource_version r" "extra s"
      using sw(3) swap_where_hit [OF ws(1)] by blast
    have "s = r \<and> row_at dm name = Some r"
      using row_unchanged_between [OF wl wm(1) wm(2) ws(2) r(1) s(1)] s(2) pinned [OF s(3)] pinned [OF r(2)]
      by simp
    moreover have "env_reach ?F d dm" using o(1,2) by (rule env_reach_trans)
    moreover have "row_at d' name = Some (commit_row nx now r)"
      using sw(4) s calculation by (simp add: row_at_swap_where)
    ultimately show ?thesis
      using True Inr cx sw s o(4) r v linearized_commitI [of ?F d dm ds name r extra nx mutate x d' now]
      by simp
  qed
qed

end

subsection \<open>The three loops\<close>

lemma GetProject_iff [simp]:
  "GetProject d name = Inr p \<longleftrightarrow> (\<exists>r. row_at d name = Some r \<and> p = scanProject r)"
  "GetProject d name = Inl e \<longleftrightarrow> row_at d name = None \<and> e = ErrNotFound ''''"
  by (auto simp: GetProject_def split: option.splits)

lemma scanProject_simps [simp]:
  "meta_UID (prj_Meta (scanProject r)) = row_uid r" "prj_Status (scanProject r) = row_status r"
  "prj_Spec (scanProject r) = row_spec r"
  "meta_ResourceVersion (prj_Meta (scanProject r)) = row_resource_version r"
  "meta_SpecRevision (prj_Meta (scanProject r)) = row_spec_revision r"
  "meta_Name (prj_Meta (scanProject r)) = row_name r"
  "meta_Namespace (prj_Meta (scanProject r)) = row_namespace r"
  by (simp_all add: scanProject_def)

lemma fenceMatches_scan [simp]: "fenceMatches ref (scanProject r) = assignmentFenceWHERE ref r"
  by (simp add: fenceMatches_def assignmentFenceWHERE_def)

lemmas cas_defs = loadProjectStatus_def loadFenced_def loadForUID_def stale_lifetime_def
  classifyStatusUpdateMiss_def classifyFencedSwapMiss_def classifyUIDSwapMiss_def GetProject_def

interpretation version_only: status_cas name "loadProjectStatus name" "\<lambda>_. True" "classifyStatusUpdateMiss name"
  for name
  by unfold_locales (auto simp: cas_defs split: option.splits)

interpretation fenced: pinned_cas name "loadFenced ref name" "assignmentFenceWHERE ref"
    "classifyFencedSwapMiss ref name" "ref_UID ref"
  for name ref
proof unfold_locales
  show "assignmentFenceWHERE ref r \<Longrightarrow> row_uid r = ref_UID ref" for r
    by (simp add: assignmentFenceWHERE_def)
qed (auto simp: cas_defs split: option.splits if_splits)

interpretation lifetime: pinned_cas name "loadForUID uid name" "\<lambda>r. row_uid r = uid"
    "classifyUIDSwapMiss uid name" uid
  for name uid
  by unfold_locales (auto simp: cas_defs split: option.splits if_splits)

subsection \<open>The loops with nobody else writing\<close>

definition write_status :: "string \<Rightarrow> ProjectStatus \<Rightarrow> time \<Rightarrow> db \<Rightarrow> db" where
  "write_status name status now d =
     publish TopicProjectUpdated name (fst (sql_update (named DefaultNamespace name) (commit_row status now) d))"

definition apply_closure :: "'x closure \<Rightarrow> string \<Rightarrow> time \<Rightarrow> row \<Rightarrow> db \<Rightarrow> db \<times> 'x result" where
  "apply_closure mutate name now r d =
     (case mutate d (prj_Meta (scanProject r)) (row_status r) of
        Inl e \<Rightarrow> (d, Inl e)
      | Inr (status, x) \<Rightarrow>
          if status = row_status r then (d, Inr x) else (write_status name status now d, Inr x))"

lemma swap_where_named:
  assumes "db_wf d" "row_at d name = Some r" "extra r"
  shows "fst (swap_where extra name (row_resource_version r) status now d) =
         fst (sql_update (named DefaultNamespace name) (commit_row status now) d)"
proof -
  have "(named DefaultNamespace name s \<and> row_resource_version s = row_resource_version r \<and> extra s)
      = named DefaultNamespace name s" if "s \<in> set (db_rows d)" for s
    using row_at_of_mem [OF assms(1) that, of name] assms(2,3) by auto
  then show ?thesis by (auto simp: swap_where_def sql_update_def intro!: map_cong)
qed

context status_cas
begin

lemma sequential_apply:
  assumes "db_wf d" "row_at d name = Some r" "extra r"
  shows "publish_committed name (sequential mutate now d) = apply_closure mutate name now r d"
proof -
  have "load d = Inr (scanProject r)" using assms by (simp add: load_Inr)
  then show ?thesis
    using swap_where_named [where extra = extra, OF assms]
    by (auto simp: sequential_def apply_closure_def publish_committed_def write_status_def split: sum.split)
qed

end

lemmas loop_run_defs = reportProjectStatusFenced_def updateProjectStatusForUID_def
  UpdateProjectStatusWithRetry_def retryProjectStatusUpdate_def
  swapProjectStatusFenced_def swapProjectStatusForUID_def swapProjectStatus_def

lemma with_retry_quiet:
  assumes "db_wf d"
  shows "UpdateProjectStatusWithRetry (quiet now) name mutate d = (case row_at d name of
       None \<Rightarrow> (d, Inl (ErrNotFound (project_msg name)))
     | Some r \<Rightarrow> apply_closure mutate name now r d)"
proof (cases "row_at d name")
  case None
  then show ?thesis unfolding loop_run_defs version_only.loop_quiet [OF assms]
    by (simp add: version_only.sequential_def cas_defs publish_committed_def)
next
  case (Some r)
  then show ?thesis unfolding loop_run_defs version_only.loop_quiet [OF assms]
    by (simp add: version_only.sequential_apply [OF assms])
qed

lemma fenced_quiet:
  assumes "db_wf d"
  shows "reportProjectStatusFenced (quiet now) name ref mutate d = (case row_at d name of
       None \<Rightarrow> (d, Inl (ErrNotFound (project_msg name)))
     | Some r \<Rightarrow> if assignmentFenceWHERE ref r then apply_closure mutate name now r d
                else (d, Inl (ErrStaleAssignment (project_msg name))))"
proof (cases "\<exists>r. row_at d name = Some r \<and> assignmentFenceWHERE ref r")
  case False
  then show ?thesis unfolding loop_run_defs fenced.loop_quiet [OF assms]
    by (auto simp: fenced.sequential_def cas_defs publish_committed_def split: option.split)
next
  case True
  then show ?thesis unfolding loop_run_defs fenced.loop_quiet [OF assms]
    by (auto simp: fenced.sequential_apply [OF assms])
qed

lemma for_uid_quiet:
  assumes "db_wf d"
  shows "updateProjectStatusForUID (quiet now) name uid mutate d = (case row_at d name of
       None \<Rightarrow> (d, Inl (ErrNotFound (project_msg name)))
     | Some r \<Rightarrow> if row_uid r = uid then apply_closure mutate name now r d
                else (d, Inl (stale_lifetime name uid)))"
proof (cases "\<exists>r. row_at d name = Some r \<and> row_uid r = uid")
  case False
  then show ?thesis unfolding loop_run_defs lifetime.loop_quiet [OF assms]
    by (auto simp: lifetime.sequential_def cas_defs publish_committed_def split: option.split)
next
  case True
  then show ?thesis unfolding loop_run_defs lifetime.loop_quiet [OF assms]
    by (auto simp: lifetime.sequential_apply [OF assms])
qed

lemmas loop_quiet = with_retry_quiet fenced_quiet for_uid_quiet

lemma row_at_write_status:
  "row_at d name = Some r \<Longrightarrow> row_at (write_status name status now d) name = Some (commit_row status now r)"
  using row_at_mem [of d name r] by (simp add: write_status_def row_at_sql_update)

lemma write_status_ok:
  "evolves d (write_status name status now d)" "db_wf d \<Longrightarrow> db_wf (write_status name status now d)"
  unfolding write_status_def by (simp_all add: sql_update_evolves sql_update_wf)

lemma row_at_write_status_other:
  "other \<noteq> name \<Longrightarrow> row_at (write_status name status now d) other = row_at d other"
proof -
  assume "other \<noteq> name"
  then have "List.find (named DefaultNamespace other)
      (map (\<lambda>r. if named DefaultNamespace name r then commit_row status now r else r) xs)
      = List.find (named DefaultNamespace other) xs" for xs
    by (induction xs) (auto simp: named_def commit_row_def set_status_def)
  then show ?thesis by (simp add: write_status_def row_at_def sql_update_def)
qed

lemma apply_closure_ok:
  "evolves d (fst (apply_closure mutate name now r d))"
  "db_wf d \<Longrightarrow> db_wf (fst (apply_closure mutate name now r d))"
  by (auto simp: apply_closure_def write_status_ok split: sum.split)

end
