(* ===== verification/Store_Ops.thy ===== *)
theory Store_Ops
  imports Store_CAS
begin

text \<open>
  The Project writes that ride on the loops: the evidence and backup reports an assigned Agent
  makes, the spec changes, and the operator's takeover
  (\<open>internal/store/postgres/store.go\<close>). The closure of each report is a definition of its own; the
  report runs it in the loop the code runs it in. The lemmas give each closure's effect on every
  branch and what it leaves alone.
\<close>

subsection \<open>Reports of the assigned Agent\<close>

definition workloadStoppedPhases :: "ProjectPhase list" where
  "workloadStoppedPhases = [ProjectPhaseScheduled, ProjectPhaseRunning, ProjectPhaseFailed, ProjectPhaseTerminating]"

definition workload_stopped :: "string \<Rightarrow> AssignmentIdentity \<Rightarrow> time \<Rightarrow> ProjectStatus \<Rightarrow> ProjectStatus result" where
  "workload_stopped name evidence observedAt status =
     (if ps_Phase status \<notin> set workloadStoppedPhases
      then Inl (ErrConflictState (project_msg name @ '' is '' @ phase_text (ps_Phase status) @
        ''; workload-stopped evidence is accepted only while Scheduled, Running, Failed or Terminating''))
      else if WorkloadStoppedFor (ps_Recovery status) evidence then Inr status
      else Inr (status\<lparr>ps_Recovery := Some ((EnsureRecovery status)
             \<lparr>rec_WorkloadStopped := Some \<lparr>wse_Assignment = evidence, wse_ObservedAt = observedAt\<rparr>\<rparr>)\<rparr>))"

definition RecordWorkloadStopped ::
  "(nat \<Rightarrow> interference) \<Rightarrow> string \<Rightarrow> AssignmentRef \<Rightarrow> time \<Rightarrow> db \<Rightarrow> db \<times> unit result" where
  "RecordWorkloadStopped sched name ref observedAt d =
     ReportProjectStatusFenced sched name ref (workload_stopped name (assignmentIdentity ref) observedAt) d"

definition committedBackupPhases :: "ProjectPhase list" where
  "committedBackupPhases = [ProjectPhaseScheduled, ProjectPhaseRunning, ProjectPhaseFailed]"

definition committed_backup ::
  "string \<Rightarrow> AssignmentRef \<Rightarrow> string \<Rightarrow> time \<Rightarrow> ProjectStatus \<Rightarrow> ProjectStatus result" where
  "committed_backup name ref backupID committedAt status =
     (if ps_Phase status \<notin> set committedBackupPhases
      then Inl (ErrConflictState (project_msg name @ '' is '' @ phase_text (ps_Phase status) @
        ''; a backup is committed only while Scheduled, Running or Failed''))
      else if CommittedBackupID (ps_Recovery status) = backupID then Inr status
      else Inr (status\<lparr>ps_Recovery := Some ((EnsureRecovery status)
             \<lparr>rec_CommittedBackup := Some \<lparr>cb_BackupID = backupID, cb_Assignment = assignmentIdentity ref,
                cb_CommittedAt = committedAt\<rparr>\<rparr>)\<rparr>))"

definition RecordCommittedBackup ::
  "(nat \<Rightarrow> interference) \<Rightarrow> string \<Rightarrow> AssignmentRef \<Rightarrow> string \<Rightarrow> time \<Rightarrow> db \<Rightarrow> db \<times> unit result" where
  "RecordCommittedBackup sched name ref backupID committedAt d =
     ReportProjectStatusFenced sched name ref (committed_backup name ref backupID committedAt) d"

definition stanzaPhases :: "ProjectPhase list" where
  "stanzaPhases = [ProjectPhaseScheduled, ProjectPhaseRunning]"

definition backup_zero :: ProjectBackupStatus where
  "backup_zero = \<lparr>pbs_Stanzas = [], pbs_Completions = []\<rparr>"

definition ensure_backup :: "ProjectStatus \<Rightarrow> ProjectBackupStatus" where
  "ensure_backup s = (case ps_Backup s of None \<Rightarrow> backup_zero | Some b \<Rightarrow> b)"

definition record_stanza ::
  "string \<Rightarrow> AssignmentRef \<Rightarrow> string \<Rightarrow> time \<Rightarrow> ProjectStatus \<Rightarrow> ProjectStatus result" where
  "record_stanza name ref volume observedAt status =
     (let stanza = StanzaName (ref_UID ref) volume in
      if ps_Phase status \<notin> set stanzaPhases
      then Inl (ErrConflictState (project_msg name @ '' is '' @ phase_text (ps_Phase status) @
        ''; stanzas are recorded only while Scheduled or Running''))
      else if HasStanza (ps_Backup status) stanza then Inr status
      else Inr (status\<lparr>ps_Backup := Some ((ensure_backup status)
             \<lparr>pbs_Stanzas := pbs_Stanzas (ensure_backup status)
                @ [\<lparr>st_Name = stanza, st_Volume = volume, st_RecordedAt = observedAt\<rparr>]\<rparr>)\<rparr>))"

definition RecordStanza ::
  "(nat \<Rightarrow> interference) \<Rightarrow> string \<Rightarrow> AssignmentRef \<Rightarrow> string \<Rightarrow> time \<Rightarrow> db \<Rightarrow> db \<times> unit result" where
  "RecordStanza sched name ref volume observedAt d =
     ReportProjectStatusFenced sched name ref (record_stanza name ref volume observedAt) d"

definition backupActive :: "Condition list \<Rightarrow> bool" where
  "backupActive conds = (case List.find (\<lambda>c. cond_Type c = ConditionTypeBackupActive) conds of
       None \<Rightarrow> False | Some c \<Rightarrow> cond_Status c = ConditionTrue)"

definition backup_completion ::
  "string \<Rightarrow> AssignmentRef \<Rightarrow> BackupCompletion \<Rightarrow> ProjectStatus \<Rightarrow> ProjectStatus result" where
  "backup_completion name ref completion status =
     (if Completion (ps_Backup status) (bc_BackupID completion) \<noteq> None then Inr status
      else if ps_NodeRef status \<noteq> ref_NodeRef ref \<or> ps_AssignmentGeneration status \<noteq> ref_Generation ref
      then Inl (ErrStaleAssignment (project_msg name @ '' is not assigned to '' @ ref_NodeRef ref @
        '' at generation '' @ FormatInt (ref_Generation ref)))
      else if ps_Phase status \<noteq> ProjectPhaseRunning
      then Inl (ErrConflictState (project_msg name @ '' is '' @ phase_text (ps_Phase status) @
        ''; backups are accepted only while Running''))
      else
        let completion' = completion\<lparr>bc_NodeRef := ref_NodeRef ref, bc_AssignmentGeneration := ref_Generation ref\<rparr>;
            cs = pbs_Completions (ensure_backup status) @ [completion'];
            cs' = (if length cs > MaxBackupCompletions then drop (length cs - MaxBackupCompletions) cs else cs)
        in Inr (status\<lparr>ps_Backup := Some ((ensure_backup status)\<lparr>pbs_Completions := cs'\<rparr>),
                ps_Conditions := UpsertCondition (ps_Conditions status)
                  (condition_lit ConditionTypeBackupActive ConditionTrue ReasonBackupAccepted
                     ''A backup of this Project has been accepted'' (bc_AcceptedAt completion'))
                  (\<not> backupActive (ps_Conditions status))\<rparr>))"

definition RecordBackupCompletion ::
  "(nat \<Rightarrow> interference) \<Rightarrow> string \<Rightarrow> AssignmentRef \<Rightarrow> BackupCompletion \<Rightarrow> db \<Rightarrow> db \<times> unit result" where
  "RecordBackupCompletion sched name ref completion d =
     updateProjectStatusForUID sched name (ref_UID ref) (on_status (backup_completion name ref completion)) d"

definition resources_removed :: "string \<Rightarrow> AssignmentIdentity \<Rightarrow> time \<Rightarrow> ProjectStatus \<Rightarrow> ProjectStatus result" where
  "resources_removed name evidence observedAt status =
     (case FindObligation (ps_Recovery status) evidence of
        None \<Rightarrow> Inl (ErrStaleAssignment (project_msg name))
      | Some obligation \<Rightarrow>
          if Resolved obligation then Inr status
          else Inr (status\<lparr>ps_Recovery := map_option (modify_obligation evidence
                 (\<lambda>ob. ob\<lparr>ob_ResourcesRemoved := Some \<lparr>rre_ObservedAt = observedAt\<rparr>\<rparr>)) (ps_Recovery status)\<rparr>))"

definition RecordResourcesRemoved ::
  "(nat \<Rightarrow> interference) \<Rightarrow> string \<Rightarrow> AssignmentRef \<Rightarrow> time \<Rightarrow> db \<Rightarrow> db \<times> unit result" where
  "RecordResourcesRemoved sched name owner observedAt d =
     updateProjectStatusForUID sched name (ref_UID owner)
       (on_status (resources_removed name (assignmentIdentity owner) observedAt)) d"

definition managed_data_quarantined ::
  "string \<Rightarrow> AssignmentIdentity \<Rightarrow> time \<Rightarrow> ProjectStatus \<Rightarrow> ProjectStatus result" where
  "managed_data_quarantined name evidence observedAt status =
     (case FindObligation (ps_Recovery status) evidence of
        None \<Rightarrow> Inl (ErrStaleAssignment (project_msg name))
      | Some obligation \<Rightarrow>
          if ob_ManagedDataQuarantined obligation \<noteq> None then Inr status
          else Inr (status\<lparr>ps_Recovery := map_option (modify_obligation evidence
                 (\<lambda>ob. ob\<lparr>ob_ManagedDataQuarantined := Some \<lparr>mdq_ObservedAt = observedAt\<rparr>\<rparr>)) (ps_Recovery status)\<rparr>))"

definition RecordManagedDataQuarantined ::
  "(nat \<Rightarrow> interference) \<Rightarrow> string \<Rightarrow> AssignmentRef \<Rightarrow> time \<Rightarrow> db \<Rightarrow> db \<times> unit result" where
  "RecordManagedDataQuarantined sched name owner observedAt d =
     updateProjectStatusForUID sched name (ref_UID owner)
       (on_status (managed_data_quarantined name (assignmentIdentity owner) observedAt)) d"

record SpecAppliedReport =
  sar_Revision :: int
  sar_Applied :: bool
  sar_Reason :: string
  sar_Message :: string
  sar_At :: time

definition spec_applied_transitioned :: "Condition list \<Rightarrow> ConditionStatus \<Rightarrow> bool" where
  "spec_applied_transitioned conds st =
     fold (\<lambda>c t. if cond_Type c = ConditionTypeSpecApplied then cond_Status c \<noteq> st else t) conds True"

definition spec_applied ::
  "string \<Rightarrow> SpecAppliedReport \<Rightarrow> ObjectMeta \<Rightarrow> ProjectStatus \<Rightarrow> ProjectStatus result" where
  "spec_applied name report meta status =
     (if ps_Phase status \<notin> {ProjectPhaseScheduled, ProjectPhaseRunning, ProjectPhaseFailed}
      then Inl (ErrConflictState (project_msg name @ '' is '' @ phase_text (ps_Phase status) @
        ''; only an assigned, live Project reports its spec''))
      else if sar_Revision report > meta_SpecRevision meta
      then Inl (ErrConflictState (project_msg name @ '': spec revision '' @ FormatInt (sar_Revision report) @
        '' is newer than the Project's '' @ FormatInt (meta_SpecRevision meta)))
      else
        let status' = (if sar_Applied report \<and> sar_Revision report > ps_ObservedSpecRevision status
                       then status\<lparr>ps_ObservedSpecRevision := sar_Revision report\<rparr> else status)
        in if sar_Revision report \<noteq> meta_SpecRevision meta then Inr status'
           else
             let cond = (if sar_Applied report
                   then condition_lit ConditionTypeSpecApplied ConditionTrue ReasonSpecApplied
                          (''spec revision '' @ FormatInt (sar_Revision report) @ '' runs on every service'') (sar_At report)
                   else condition_lit ConditionTypeSpecApplied ConditionFalse (sar_Reason report)
                          (sar_Message report) (sar_At report))
             in Inr (status'\<lparr>ps_Conditions := UpsertCondition (ps_Conditions status') cond
                       (spec_applied_transitioned (ps_Conditions status') (cond_Status cond))\<rparr>))"

definition RecordSpecApplied ::
  "(nat \<Rightarrow> interference) \<Rightarrow> string \<Rightarrow> AssignmentRef \<Rightarrow> SpecAppliedReport \<Rightarrow> db \<Rightarrow> db \<times> unit result" where
  "RecordSpecApplied sched name ref report d =
     reportProjectStatusFenced sched name ref
       (\<lambda>_ meta status. case spec_applied name report meta status of
          Inl e \<Rightarrow> Inl e | Inr s \<Rightarrow> Inr (s, ())) d"

subsection \<open>Spec changes\<close>

definition specUpdatablePhases :: "ProjectPhase list" where
  "specUpdatablePhases = [ProjectPhasePending, ProjectPhaseScheduled, ProjectPhaseRunning, ProjectPhaseFailed]"

definition spec_change_status :: "time \<Rightarrow> bool \<Rightarrow> int \<Rightarrow> ProjectStatus \<Rightarrow> ProjectStatus" where
  "spec_change_status now specChanged revision s =
     (let cs = RemoveConditions (ps_Conditions s) [ConditionTypeRescheduleExhausted]
      in s\<lparr>ps_FailedNodes := [],
           ps_Conditions := (if specChanged
             then UpsertCondition cs (condition_lit ConditionTypeSpecApplied ConditionFalse ReasonSpecUpdatePending
                    (''spec revision '' @ FormatInt revision @ '' is not running yet'') now) True
             else cs)\<rparr>)"

definition changeSpec :: "time \<Rightarrow> string \<Rightarrow> (Project \<Rightarrow> Project result) \<Rightarrow> db \<Rightarrow> db \<times> Project result" where
  "changeSpec now name change d =
     (case GetProject d name of
        Inl _ \<Rightarrow> (d, Inl (ErrNotFound (project_msg name)))
      | Inr current \<Rightarrow>
          if ps_Phase (prj_Status current) \<notin> set specUpdatablePhases
          then (d, Inl (ErrConflictState (project_msg name @ '' is '' @ phase_text (ps_Phase (prj_Status current)) @
                  ''; its spec can no longer change'')))
          else case change current of
            Inl e \<Rightarrow> (d, Inl e)
          | Inr next \<Rightarrow>
              let specChanged = (prj_Spec current \<noteq> prj_Spec next);
                  revision = (if specChanged then wrap64 (meta_SpecRevision (prj_Meta current) + 1)
                              else meta_SpecRevision (prj_Meta current));
                  status = spec_change_status now specChanged revision (prj_Status current);
                  d' = fst (sql_update (named (meta_Namespace (prj_Meta current)) name)
                         (\<lambda>r. (set_status (marshal_status status) now r)
                            \<lparr>row_spec := prj_Spec next, row_labels := meta_Labels (prj_Meta next),
                             row_annotations := meta_Annotations (prj_Meta next), row_spec_revision := revision\<rparr>) d);
                  stored = next\<lparr>prj_Status := status,
                             prj_Meta := (prj_Meta next)\<lparr>meta_SpecRevision := revision, meta_UpdatedAt := now,
                               meta_ResourceVersion := meta_ResourceVersion (prj_Meta current) + 1\<rparr>\<rparr>
              in (publish TopicProjectUpdated name d', Inr stored))"

definition spec_update :: "Project \<Rightarrow> Project \<Rightarrow> Project result" where
  "spec_update project current =
     (let name = meta_Name (prj_Meta project) in
      if \<not> SameBackupItems (prj_Spec current) (prj_Spec project)
      then Inl (ErrConflictState (project_msg name @
             '': spec.backup.items cannot change after the Project is created''))
      else
        let refusal = (if ps_NodeRef (prj_Status current) \<noteq> ''''
                       then CheckAssignedSpecChange (prj_Spec current) (prj_Spec project) else None)
        in case refusal of
             Some r \<Rightarrow> Inl (ErrConflictState (project_msg name @ '': '' @ refusal_text r))
           | None \<Rightarrow>
               Inr (current\<lparr>prj_Spec := (if spec_RestartedAt (prj_Spec project) = None
                        then (prj_Spec project)\<lparr>spec_RestartedAt := spec_RestartedAt (prj_Spec current)\<rparr>
                        else prj_Spec project),
                      prj_Meta := (prj_Meta current)\<lparr>meta_Labels := meta_Labels (prj_Meta project),
                        meta_Annotations := meta_Annotations (prj_Meta project)\<rparr>\<rparr>))"

definition UpdateProjectSpec :: "time \<Rightarrow> Project \<Rightarrow> db \<Rightarrow> db \<times> Project result" where
  "UpdateProjectSpec now project d =
     (case changeSpec now (meta_Name (prj_Meta project)) (spec_update project) d of
        (d', Inl e) \<Rightarrow> (d', Inl e)
      | (d', Inr stored) \<Rightarrow>
          (d', Inr (project\<lparr>
             prj_Meta := (prj_Meta project)\<lparr>meta_Namespace := meta_Namespace (prj_Meta stored),
               meta_ResourceVersion := meta_ResourceVersion (prj_Meta stored),
               meta_SpecRevision := meta_SpecRevision (prj_Meta stored)\<rparr>,
             prj_Spec := (prj_Spec project)\<lparr>spec_RestartedAt := spec_RestartedAt (prj_Spec stored)\<rparr>\<rparr>)))"

definition RestartProject :: "time \<Rightarrow> string \<Rightarrow> time \<Rightarrow> db \<Rightarrow> db \<times> Project result" where
  "RestartProject now name restartedAt d =
     changeSpec now name (\<lambda>current. Inr (current\<lparr>prj_Spec := (prj_Spec current)\<lparr>spec_RestartedAt := Some restartedAt\<rparr>\<rparr>)) d"

subsection \<open>Operator takeover\<close>

record TakeoverAudit =
  tau_RequestID :: string
  tau_Caller :: string
  tau_Note :: string

definition takeover_marked :: "Condition list \<Rightarrow> bool" where
  "takeover_marked cs = list_ex (\<lambda>c. cond_Type c = ConditionTypeTakeoverRequired \<and> cond_Status c = ConditionTrue) cs"

definition outage_types :: "ConditionType list" where
  "outage_types = [ConditionTypeNotReadyAt, ConditionTypeTerminatingAt, ConditionTypeTakeoverRequired]"

definition applyOperatorTakeover ::
  "ProjectStatus \<Rightarrow> AssignmentIdentity \<Rightarrow> time \<Rightarrow> (ProjectStatus \<times> TakeoverOutcome) result" where
  "applyOperatorTakeover status assignment now =
     (if ps_AssignmentGeneration status \<noteq> ai_AssignmentGeneration assignment
      then Inl (ErrStaleAssignment (''generation '' @ FormatInt (ai_AssignmentGeneration assignment) @ '' is not the latest''))
      else if ps_NodeRef status = ''''
      then (let o' = FindObligation (ps_Recovery status) assignment in
        if ps_Phase status \<noteq> ProjectPhasePending \<or> o' = None
        then Inl (ErrStaleAssignment ''no released assignment to take over'')
        else if PermitsAssignment (the o')
        then Inl (ErrConflictState ''the assignment is not blocking the project'')
        else Inr (status\<lparr>ps_Recovery := map_option (\<lambda>r. OverrideRelease r assignment now) (ps_Recovery status)\<rparr>,
                  TakeoverObligationOverridden))
      else if ps_NodeRef status \<noteq> ai_NodeName assignment
      then Inl (ErrStaleAssignment ''project is assigned to another node'')
      else if \<not> PhaseTransitionAllowed WriterOperatorTakeover (ps_Phase status) ProjectPhasePending
      then Inl (ErrConflictState (''project is '' @ phase_text (ps_Phase status)))
      else if \<not> takeover_marked (ps_Conditions status)
      then Inl (ErrConflictState ''project is not marked TakeoverRequired'')
      else
        let transitioned = (ps_Phase status \<noteq> ProjectPhasePending)
        in Inr (status\<lparr>ps_Phase := ProjectPhasePending, ps_NodeRef := '''',
                  ps_Recovery := Some (OverrideRelease (EnsureRecovery status) assignment now),
                  ps_Conditions := UpsertCondition (RemoveConditions (ps_Conditions status) outage_types)
                    (condition_lit ConditionTypePhase ConditionTrue ''OperatorTakeover''
                      ''An operator took over without proof the workload stopped; project released for rescheduling'' now)
                    transitioned\<rparr>, TakeoverReleased))"

text \<open>The status and record \<open>TakeoverProject\<close> builds from a snapshot, before it commits them.\<close>

definition takeover_decision ::
  "string \<Rightarrow> AssignmentRef \<Rightarrow> TakeoverAudit \<Rightarrow> time \<Rightarrow> Project \<Rightarrow> (ProjectStatus \<times> TakeoverAuditRecord) result" where
  "takeover_decision name ref audit now project =
     (let assignment = assignmentIdentity ref;
          evidence = (if WorkloadStoppedFor (ps_Recovery (prj_Status project)) assignment
                      then release_text ReleaseByWorkloadStopped else ''None'')
      in case applyOperatorTakeover (prj_Status project) assignment now of
           Inl e \<Rightarrow> Inl (WrappedError (project_msg name) e)
         | Inr (next, outcome) \<Rightarrow>
             Inr (if HasManagedVolume (prj_Spec project)
                  then next\<lparr>ps_Recovery := map_option (\<lambda>r. OweManagedData r assignment) (ps_Recovery next)\<rparr>
                  else next,
                  \<lparr>ta_RequestID = tau_RequestID audit, ta_Namespace = DefaultNamespace, ta_ProjectName = name,
                   ta_Assignment = assignment, ta_Evidence = evidence, ta_Outcome = outcome,
                   ta_Caller = tau_Caller audit, ta_Note = tau_Note audit, ta_CreatedAt = now\<rparr>))"

definition takeoverByRequestID :: "db \<Rightarrow> string \<Rightarrow> TakeoverAuditRecord option" where
  "takeoverByRequestID d requestID = List.find (\<lambda>a. ta_RequestID a = requestID) (db_audit d)"

text \<open>
  \<open>commitTakeover\<close>: insert and update are one transaction; on a miss both are rolled back, and
  the classification reads the table afterwards.
\<close>

definition commitTakeover ::
  "interference \<Rightarrow> string \<Rightarrow> int \<Rightarrow> string \<Rightarrow> ProjectStatus \<Rightarrow> TakeoverAuditRecord \<Rightarrow> db \<Rightarrow> db \<times> unit result" where
  "commitTakeover it name expectedVersion uid status record' d =
     (if takeoverByRequestID d (ta_RequestID record') \<noteq> None
      then (d, Inl (ErrVersionConflict (''takeover request '' @ go_quote (ta_RequestID record'))))
      else let (d', n) = swapProjectStatusForUID uid name expectedVersion status (ta_CreatedAt record') d
           in if n = 0 then let d'' = it_classify it d in (d'', Inl (classifyUIDSwapMiss uid name d''))
              else (d'\<lparr>db_audit := db_audit d' @ [record']\<rparr>, Inr ()))"

fun takeover_loop ::
  "string \<Rightarrow> AssignmentRef \<Rightarrow> TakeoverAudit \<Rightarrow> store_error \<Rightarrow> interference list \<Rightarrow> db
   \<Rightarrow> db \<times> (TakeoverAuditRecord \<times> bool) result" where
  "takeover_loop name ref audit lastConflict [] d = (d, Inl lastConflict)"
| "takeover_loop name ref audit lastConflict (it # its) d =
     (let d0 = it_load it d in
      case takeoverByRequestID d0 (tau_RequestID audit) of
        Some prior \<Rightarrow>
          if ta_ProjectName prior \<noteq> name \<or> ta_Assignment prior \<noteq> assignmentIdentity ref
          then (d0, Inl (ErrConflictState ''request ID belongs to another takeover''))
          else (d0, Inr (prior, True))
      | None \<Rightarrow>
          let d1 = it_mutate it d0 in
          case GetProject d1 name of
            Inl _ \<Rightarrow> (d1, Inl (ErrNotFound (project_msg name)))
          | Inr project \<Rightarrow>
              if meta_UID (prj_Meta project) \<noteq> ref_UID ref then (d1, Inl (stale_lifetime name (ref_UID ref)))
              else case takeover_decision name ref audit (it_now it) project of
                Inl e \<Rightarrow> (d1, Inl e)
              | Inr (next, record') \<Rightarrow>
                  case commitTakeover it name (meta_ResourceVersion (prj_Meta project)) (ref_UID ref) next record'
                         (it_swap it d1) of
                    (d2, Inr _) \<Rightarrow> (publish TopicProjectUpdated name d2, Inr (record', False))
                  | (d2, Inl e) \<Rightarrow> if is_version_conflict e then takeover_loop name ref audit e its d2
                                   else (d2, Inl e))"

definition TakeoverProject ::
  "(nat \<Rightarrow> interference) \<Rightarrow> string \<Rightarrow> AssignmentRef \<Rightarrow> TakeoverAudit \<Rightarrow> db
   \<Rightarrow> db \<times> (TakeoverAuditRecord \<times> bool) result" where
  "TakeoverProject sched name ref audit d = takeover_loop name ref audit no_conflict (attempts sched) d"

definition ListTakeoverAudit :: "db \<Rightarrow> string \<Rightarrow> TakeoverAuditRecord list" where
  "ListTakeoverAudit d name = sort_key ta_CreatedAt
     (filter (\<lambda>a. ta_Namespace a = DefaultNamespace \<and> ta_ProjectName a = name) (db_audit d))"

subsection \<open>Evidence is recorded once\<close>

text \<open>The obligation a report names gets the evidence; every other one, and the rest of the status, stay.\<close>

lemma resources_removed_effect:
  assumes "resources_removed name a t s = Inr s'"
  shows "\<exists>ob. FindObligation (ps_Recovery s) a = Some ob"
    and "s\<lparr>ps_Recovery := ps_Recovery s'\<rparr> = s'"
    and "FindObligation (ps_Recovery s') b =
       (if b = a then map_option (\<lambda>ob. if Resolved ob then ob
            else ob\<lparr>ob_ResourcesRemoved := Some \<lparr>rre_ObservedAt = t\<rparr>\<rparr>) (FindObligation (ps_Recovery s) a)
        else FindObligation (ps_Recovery s) b)"
    and "obligation_ids (ps_Recovery s') = obligation_ids (ps_Recovery s)"
proof -
  obtain r ob where r: "ps_Recovery s = Some r" and ob: "FindObligation (Some r) a = Some ob"
    using assms by (cases "ps_Recovery s") (auto simp: resources_removed_def FindObligation_def split: option.splits)
  then show "\<exists>ob. FindObligation (ps_Recovery s) a = Some ob" by simp
  have s': "s' = (if Resolved ob then s else s\<lparr>ps_Recovery := Some (modify_obligation a
              (\<lambda>ob. ob\<lparr>ob_ResourcesRemoved := Some \<lparr>rre_ObservedAt = t\<rparr>\<rparr>) r)\<rparr>)"
    using assms r ob by (auto simp: resources_removed_def)
  then show "s\<lparr>ps_Recovery := ps_Recovery s'\<rparr> = s'" by simp
  show "FindObligation (ps_Recovery s') b =
       (if b = a then map_option (\<lambda>ob. if Resolved ob then ob
            else ob\<lparr>ob_ResourcesRemoved := Some \<lparr>rre_ObservedAt = t\<rparr>\<rparr>) (FindObligation (ps_Recovery s) a)
        else FindObligation (ps_Recovery s) b)"
    using r ob s' by (auto simp: find_modify_obligation)
  show "obligation_ids (ps_Recovery s') = obligation_ids (ps_Recovery s)"
    using r s' by (auto simp: obligation_ids_modify)
qed

lemma managed_data_effect:
  assumes "managed_data_quarantined name a t s = Inr s'"
  shows "\<exists>ob. FindObligation (ps_Recovery s) a = Some ob"
    and "s\<lparr>ps_Recovery := ps_Recovery s'\<rparr> = s'"
    and "FindObligation (ps_Recovery s') b =
       (if b = a then map_option (\<lambda>ob. if ob_ManagedDataQuarantined ob \<noteq> None then ob
            else ob\<lparr>ob_ManagedDataQuarantined := Some \<lparr>mdq_ObservedAt = t\<rparr>\<rparr>) (FindObligation (ps_Recovery s) a)
        else FindObligation (ps_Recovery s) b)"
    and "obligation_ids (ps_Recovery s') = obligation_ids (ps_Recovery s)"
proof -
  obtain r ob where r: "ps_Recovery s = Some r" and ob: "FindObligation (Some r) a = Some ob"
    using assms by (cases "ps_Recovery s") (auto simp: managed_data_quarantined_def FindObligation_def split: option.splits)
  then show "\<exists>ob. FindObligation (ps_Recovery s) a = Some ob" by simp
  have s': "s' = (if ob_ManagedDataQuarantined ob \<noteq> None then s else s\<lparr>ps_Recovery := Some (modify_obligation a
              (\<lambda>ob. ob\<lparr>ob_ManagedDataQuarantined := Some \<lparr>mdq_ObservedAt = t\<rparr>\<rparr>) r)\<rparr>)"
    using assms r ob by (auto simp: managed_data_quarantined_def)
  then show "s\<lparr>ps_Recovery := ps_Recovery s'\<rparr> = s'" by simp
  show "FindObligation (ps_Recovery s') b =
       (if b = a then map_option (\<lambda>ob. if ob_ManagedDataQuarantined ob \<noteq> None then ob
            else ob\<lparr>ob_ManagedDataQuarantined := Some \<lparr>mdq_ObservedAt = t\<rparr>\<rparr>) (FindObligation (ps_Recovery s) a)
        else FindObligation (ps_Recovery s) b)"
    using r ob s' by (auto simp: find_modify_obligation)
  show "obligation_ids (ps_Recovery s') = obligation_ids (ps_Recovery s)"
    using r s' by (auto simp: obligation_ids_modify)
qed

lemma workload_stopped_effect:
  assumes "workload_stopped name a t s = Inr s'"
  shows "s\<lparr>ps_Recovery := ps_Recovery s'\<rparr> = s'" "WorkloadStoppedFor (ps_Recovery s') a"
    "obligations (ps_Recovery s') = obligations (ps_Recovery s)"
    "ps_Phase s \<in> set workloadStoppedPhases" "ps_Phase s' = ps_Phase s"
    "ps_Recovery s' \<noteq> None"
  using assms by (auto simp: workload_stopped_def WorkloadStoppedFor_def split: if_splits option.splits)

text \<open>
  A report repeated with any other time changes nothing: a retry or a restarted Agent does not move
  the first observation.
\<close>

lemma reports_idempotent:
  "workload_stopped name a t s = Inr s' \<Longrightarrow> workload_stopped name a t' s' = Inr s'"
  "resources_removed name a t s = Inr s' \<Longrightarrow> resources_removed name a t' s' = Inr s'"
  "managed_data_quarantined name a t s = Inr s' \<Longrightarrow> managed_data_quarantined name a t' s' = Inr s'"
proof -
  show "workload_stopped name a t s = Inr s' \<Longrightarrow> workload_stopped name a t' s' = Inr s'"
    using workload_stopped_effect(2,4,5) [of name a t s s'] by (simp add: workload_stopped_def [of name a t' s'])
  show "resources_removed name a t' s' = Inr s'" if r: "resources_removed name a t s = Inr s'"
  proof -
    obtain ob where "FindObligation (ps_Recovery s) a = Some ob" using resources_removed_effect(1) [OF r] by blast
    with resources_removed_effect(3) [OF r, of a]
    obtain ob' where "FindObligation (ps_Recovery s') a = Some ob'" "Resolved ob'"
      by (cases "Resolved ob") (simp_all add: Resolved_def)
    then show ?thesis by (simp add: resources_removed_def)
  qed
  show "managed_data_quarantined name a t' s' = Inr s'" if r: "managed_data_quarantined name a t s = Inr s'"
  proof -
    obtain ob where "FindObligation (ps_Recovery s) a = Some ob" using managed_data_effect(1) [OF r] by blast
    with managed_data_effect(3) [OF r, of a]
    obtain ob' where "FindObligation (ps_Recovery s') a = Some ob'" "ob_ManagedDataQuarantined ob' \<noteq> None"
      by (cases "ob_ManagedDataQuarantined ob") simp_all
    then show ?thesis by (simp add: managed_data_quarantined_def)
  qed
qed

subsection \<open>Backup completions\<close>

definition completions :: "ProjectStatus \<Rightarrow> BackupCompletion list" where
  "completions s = pbs_Completions (ensure_backup s)"

lemma Completion_None_iff:
  "Completion (ps_Backup s) i = None \<longleftrightarrow> i \<notin> bc_BackupID ` set (completions s)"
  by (auto simp: Completion_def completions_def ensure_backup_def backup_zero_def find_None_iff split: option.splits)

text \<open>The newest completion is always kept, in order, and at most \<open>MaxBackupCompletions\<close> of them.\<close>

lemma backup_completion_effect:
  assumes "backup_completion name ref c s = Inr s'" and "Completion (ps_Backup s) (bc_BackupID c) = None"
  shows "completions s' = drop (length (completions s) + 1 - MaxBackupCompletions)
           (completions s @ [c\<lparr>bc_NodeRef := ref_NodeRef ref, bc_AssignmentGeneration := ref_Generation ref\<rparr>])"
    and "ps_Phase s = ProjectPhaseRunning" "ps_NodeRef s = ref_NodeRef ref"
      "ps_AssignmentGeneration s = ref_Generation ref"
    and "backupActive (ps_Conditions s')"
    and "s\<lparr>ps_Backup := ps_Backup s', ps_Conditions := ps_Conditions s'\<rparr> = s'"
proof -
  define cs where "cs = completions s @ [c\<lparr>bc_NodeRef := ref_NodeRef ref, bc_AssignmentGeneration := ref_Generation ref\<rparr>]"
  define cond where "cond = condition_lit ConditionTypeBackupActive ConditionTrue ReasonBackupAccepted
                     ''A backup of this Project has been accepted'' (bc_AcceptedAt c)"
  have cond: "cond_Type cond = ConditionTypeBackupActive" "cond_Status cond = ConditionTrue"
    by (simp_all add: cond_def condition_lit_def)
  show guards: "ps_Phase s = ProjectPhaseRunning" "ps_NodeRef s = ref_NodeRef ref"
      "ps_AssignmentGeneration s = ref_Generation ref"
    using assms by (simp_all add: backup_completion_def split: if_splits)
  have s': "s' = s\<lparr>ps_Backup := Some ((ensure_backup s)\<lparr>pbs_Completions :=
                (if length cs > MaxBackupCompletions then drop (length cs - MaxBackupCompletions) cs else cs)\<rparr>),
              ps_Conditions := UpsertCondition (ps_Conditions s) cond (\<not> backupActive (ps_Conditions s))\<rparr>"
    using assms guards unfolding backup_completion_def Let_def cs_def cond_def completions_def
    by (simp del: drop_append split del: if_split)
  show "completions s' = drop (length (completions s) + 1 - MaxBackupCompletions)
           (completions s @ [c\<lparr>bc_NodeRef := ref_NodeRef ref, bc_AssignmentGeneration := ref_Generation ref\<rparr>])"
    unfolding s' completions_def [of "s\<lparr>ps_Backup := _, ps_Conditions := _\<rparr>"] ensure_backup_def [of "s\<lparr>ps_Backup := _, ps_Conditions := _\<rparr>"]
    by (simp add: cs_def)
  show "backupActive (ps_Conditions s')"
    using find_Upsert_same [of cond "ps_Conditions s"] cond unfolding s'
    by (auto simp: backupActive_def find_condition_def [symmetric] split: option.splits)
  show "s\<lparr>ps_Backup := ps_Backup s', ps_Conditions := ps_Conditions s'\<rparr> = s'" unfolding s' by simp
qed

lemma length_completions:
  assumes "backup_completion name ref c s = Inr s'" and "length (completions s) \<le> MaxBackupCompletions"
  shows "length (completions s') \<le> MaxBackupCompletions"
proof (cases "Completion (ps_Backup s) (bc_BackupID c) = None")
  case True
  then show ?thesis using backup_completion_effect(1) [OF assms(1)] assms(2) by simp
next
  case False
  with assms show ?thesis by (simp add: backup_completion_def)
qed

lemma distinct_completions:
  assumes "backup_completion name ref c s = Inr s'" and "distinct (map bc_BackupID (completions s))"
  shows "distinct (map bc_BackupID (completions s'))"
proof (cases "Completion (ps_Backup s) (bc_BackupID c) = None")
  case True
  then have "bc_BackupID c \<notin> bc_BackupID ` set (completions s)" by (simp add: Completion_None_iff)
  then show ?thesis
    using backup_completion_effect(1) [OF assms(1) True] assms(2)
    by (simp add: drop_map [symmetric] distinct_drop del: drop_append)
next
  case False
  with assms show ?thesis by (simp add: backup_completion_def)
qed

subsection \<open>Takeover is decided once and atomically\<close>

definition takeover_outcome ::
  "(db \<Rightarrow> db) set \<Rightarrow> string \<Rightarrow> AssignmentRef \<Rightarrow> TakeoverAudit \<Rightarrow> db \<Rightarrow> db
   \<Rightarrow> (TakeoverAuditRecord \<times> bool) result \<Rightarrow> bool" where
  "takeover_outcome F name ref audit d d' res = (case res of
       Inl e \<Rightarrow> env_reach F d d'
     | Inr (rec', True) \<Rightarrow> env_reach F d d' \<and> takeoverByRequestID d' (tau_RequestID audit) = Some rec'
          \<and> ta_ProjectName rec' = name \<and> ta_Assignment rec' = assignmentIdentity ref
     | Inr (rec', False) \<Rightarrow> (\<exists>ds r status now. env_reach F d ds \<and> row_at ds name = Some r
          \<and> row_uid r = ref_UID ref \<and> takeoverByRequestID ds (tau_RequestID audit) = None
          \<and> takeover_decision name ref audit now (scanProject r) = Inr (status, rec')
          \<and> d' = publish TopicProjectUpdated name
                   ((fst (sql_update (named DefaultNamespace name) (commit_row status now) ds))
                      \<lparr>db_audit := db_audit ds @ [rec']\<rparr>)))"

lemma takeover_outcome_mono:
  assumes "takeover_outcome F name ref audit e d' res" "F \<subseteq> G" "env_reach G d e"
  shows "takeover_outcome G name ref audit d d' res"
proof -
  have G: "env_reach F e x \<Longrightarrow> env_reach G d x" for x
    using assms(2,3) by (blast intro: env_reach_trans env_reach_mono)
  show ?thesis
    using assms(1) unfolding takeover_outcome_def
    by (auto split: sum.splits bool.splits prod.splits dest: G)
qed

lemma takeover_decision_record:
  "takeover_decision name ref audit now p = Inr (s, rec') \<Longrightarrow>
   ta_RequestID rec' = tau_RequestID audit \<and> ta_ProjectName rec' = name
   \<and> ta_Assignment rec' = assignmentIdentity ref \<and> ta_CreatedAt rec' = now"
  by (auto simp: takeover_decision_def Let_def split: sum.splits prod.splits if_splits)

lemma commitTakeover_cases:
  assumes wf: "db_wf d" "rely {f}" and r: "row_at d name = Some r" "row_uid r = uid"
    and dec: "takeover_decision name ref audit now (scanProject r) = Inr (s, rec')"
    and uid: "uid = ref_UID ref"
    and run: "commitTakeover it name (row_resource_version r) uid s rec' (f d) = (d', res)"
  shows "case res of
      Inl e \<Rightarrow> d' = f d \<or> d' = it_classify it (f d)
    | Inr _ \<Rightarrow> row_at (f d) name = Some r \<and> takeoverByRequestID (f d) (tau_RequestID audit) = None
        \<and> d' = (fst (sql_update (named DefaultNamespace name) (commit_row s now) (f d)))
                  \<lparr>db_audit := db_audit (f d) @ [rec']\<rparr>"
proof -
  have w: "db_wf (f d)" "evolves d (f d)" using wf by (auto simp: rely_def)
  let ?sw = "swap_where (\<lambda>r. row_uid r = uid) name (row_resource_version r) s now (f d)"
  note rec' = takeover_decision_record [OF dec]
  show ?thesis
  proof (cases "takeoverByRequestID (f d) (tau_RequestID audit) = None \<and> snd ?sw \<noteq> 0")
    case True
    then obtain q where q: "row_at (f d) name = Some q" "row_resource_version q = row_resource_version r" "row_uid q = uid"
      using swap_where_hit [OF w(1), of "\<lambda>r. row_uid r = uid" name "row_resource_version r" s now] by auto
    have "q = r"
      using row_unchanged_between [OF wf(1) wf(1) evolves_refl w(2) r(1) q(1)] q r(2) by simp
    then have at: "row_at (f d) name = Some r" using q(1) by simp
    have "commitTakeover it name (row_resource_version r) uid s rec' (f d)
        = ((fst ?sw)\<lparr>db_audit := db_audit (fst ?sw) @ [rec']\<rparr>, Inr ())"
      using True rec' by (simp add: commitTakeover_def swapProjectStatusForUID_def prod.case_eq_if)
    moreover have "db_audit (fst ?sw) = db_audit (f d)" by (simp add: swap_where_def sql_update_def)
    moreover have "fst ?sw = fst (sql_update (named DefaultNamespace name) (commit_row s now) (f d))"
      using swap_where_named [OF w(1) at, of "\<lambda>r. row_uid r = uid"] r(2) by simp
    ultimately show ?thesis using run at True by auto
  next
    case False
    with run rec' show ?thesis
      by (auto simp: commitTakeover_def swapProjectStatusForUID_def prod.case_eq_if Let_def split: if_splits)
  qed
qed

lemma takeover_loop_outcome:
  "takeover_loop name ref audit lc its d = (d', res) \<Longrightarrow> rely (interferences its) \<Longrightarrow> db_wf d \<Longrightarrow>
   takeover_outcome (interferences its) name ref audit d d' res"
proof (induction its arbitrary: d lc)
  case Nil
  then show ?case by (auto simp: takeover_outcome_def)
next
  case (Cons it its)
  let ?F = "interferences (it # its)"
  define d0 d1 d2 where "d0 = it_load it d" and "d1 = it_mutate it d0" and "d2 = it_swap it d1"
  have R: "env_reach ?F d d0" "env_reach ?F d d1" "env_reach ?F d d2" "env_reach ?F d (it_classify it d2)"
    by (simp_all add: d0_def d1_def d2_def env_reach_step)
  have w1: "db_wf d1" using env_reach_ok [OF Cons.prems(2) R(2) Cons.prems(3)] by simp
  have rely2: "rely {it_swap it}" using Cons.prems(2) by (simp add: rely_def)
  show ?case
  proof (cases "takeoverByRequestID d0 (tau_RequestID audit)")
    case (Some prior)
    with Cons.prems(1) R(1) show ?thesis
      by (auto simp: takeover_outcome_def d0_def [symmetric] Let_def split: if_splits)
  next
    case none: None
    show ?thesis
    proof (cases "\<exists>r s rec'. row_at d1 name = Some r \<and> row_uid r = ref_UID ref
        \<and> takeover_decision name ref audit (it_now it) (scanProject r) = Inr (s, rec')")
      case False
      with Cons.prems(1) none R(2) show ?thesis
        by (auto simp: takeover_outcome_def d0_def [symmetric] d1_def [symmetric] Let_def GetProject_def
            split: if_splits option.splits sum.splits)
    next
      case True
      then obtain r s rec' where r: "row_at d1 name = Some r" "row_uid r = ref_UID ref"
        and dec: "takeover_decision name ref audit (it_now it) (scanProject r) = Inr (s, rec')" by blast
      obtain d3 cres where c: "commitTakeover it name (row_resource_version r) (ref_UID ref) s rec' (it_swap it d1) = (d3, cres)"
        by force
      have run: "(d', res) = (case cres of Inr _ \<Rightarrow> (publish TopicProjectUpdated name d3, Inr (rec', False))
          | Inl e \<Rightarrow> if is_version_conflict e then takeover_loop name ref audit e its d3 else (d3, Inl e))"
        using Cons.prems(1) none r dec c
        by (simp add: d0_def [symmetric] d1_def [symmetric] Let_def GetProject_def split: sum.splits)
      note cc = commitTakeover_cases [OF w1 rely2 r dec refl c]
      show ?thesis
      proof (cases cres)
        case (Inr u)
        have "takeover_outcome ?F name ref audit d (publish TopicProjectUpdated name d3) (Inr (rec', False))"
          using cc Inr r R(3) dec unfolding takeover_outcome_def d2_def by simp blast
        with Inr run show ?thesis by simp
      next
        case (Inl e)
        then have R3: "env_reach ?F d d3" using cc R(3,4) by (auto simp: d2_def)
        then have w3: "db_wf d3" using env_reach_ok [OF Cons.prems(2) R3 Cons.prems(3)] by simp
        show ?thesis
        proof (cases "is_version_conflict e")
          case True
          with Inl run have "takeover_loop name ref audit e its d3 = (d', res)" by simp
          from Cons.IH [OF this rely_Cons [OF Cons.prems(2)] w3] show ?thesis
            by (rule takeover_outcome_mono [OF _ interferences_Cons R3])
        next
          case False
          with Inl run R3 show ?thesis by (simp add: takeover_outcome_def)
        qed
      qed
    qed
  qed
qed

end
