(* ===== verification/Adapter.thy ===== *)
theory Adapter
  imports Store_Ops
begin

text \<open>
  \<open>internal/server/adapter/project.go\<close>: the Project writes of the controllers. Each closure is a
  definition of its own (\<open>schedule_status\<close>, \<open>release_status\<close>, \<open>move_failed_status\<close> and the
  condition marks), and each adapter method runs its closure in the loop the code names: by version
  only (\<open>UpdateProjectStatusWithRetry\<close>) or pinned to the lifetime (\<open>UpdateProjectStatusForUID\<close>). The
  time a closure captured, \<open>now\<close>, is an argument; the time of the write is the schedule's.
\<close>

subsection \<open>Views\<close>

record ConditionSnapshot =
  csn_Type :: ConditionType
  csn_Reason :: string
  csn_LastTransitionTime :: time

record ProjectSnapshot =
  snap_Name :: string
  snap_UID :: string
  snap_Phase :: ProjectPhase
  snap_NodeRef :: string
  snap_AssignmentGeneration :: int
  snap_Size :: ProjectSize
  snap_FailedNodes :: "string list"
  snap_Conditions :: "ConditionSnapshot list"

record ProjectPlacement =
  pl_Size :: ProjectSize
  pl_ExcludedNodes :: "string list"

definition condition_snapshot :: "Condition \<Rightarrow> ConditionSnapshot" where
  "condition_snapshot c = \<lparr>csn_Type = cond_Type c, csn_Reason = cond_Reason c,
     csn_LastTransitionTime = cond_LastTransitionTime c\<rparr>"

definition snapshotOf :: "Project \<Rightarrow> ProjectSnapshot" where
  "snapshotOf p =
     \<lparr>snap_Name = meta_Name (prj_Meta p), snap_UID = meta_UID (prj_Meta p), snap_Phase = ps_Phase (prj_Status p),
      snap_NodeRef = ps_NodeRef (prj_Status p),
      snap_AssignmentGeneration = ps_AssignmentGeneration (prj_Status p),
      snap_Size = spec_Size (prj_Spec p), snap_FailedNodes = ps_FailedNodes (prj_Status p),
      snap_Conditions = map condition_snapshot (ps_Conditions (prj_Status p))\<rparr>"

definition ListProjectNamesByPhase :: "db \<Rightarrow> ProjectPhase \<Rightarrow> string list" where
  "ListProjectNamesByPhase d phase = map (\<lambda>p. meta_Name (prj_Meta p)) (ListProjectsByPhase d phase)"

definition GetProjectPhase :: "db \<Rightarrow> string \<Rightarrow> (ProjectPhase \<times> string) result" where
  "GetProjectPhase d name = (case GetProject d name of
       Inl e \<Rightarrow> Inl e | Inr p \<Rightarrow> Inr (ps_Phase (prj_Status p), ps_NodeRef (prj_Status p)))"

definition GetProjectPlacement :: "db \<Rightarrow> string \<Rightarrow> ProjectPlacement result" where
  "GetProjectPlacement d name = (case GetProject d name of
       Inl e \<Rightarrow> Inl e
     | Inr p \<Rightarrow> Inr \<lparr>pl_Size = spec_Size (prj_Spec p),
         pl_ExcludedNodes = ps_FailedNodes (prj_Status p) @ NodesOwingCleanup (ps_Recovery (prj_Status p))\<rparr>)"

definition list_snapshots_by_node :: "db \<Rightarrow> string \<Rightarrow> ProjectPhase list \<Rightarrow> ProjectSnapshot list" where
  "list_snapshots_by_node d nodeRef phases = map snapshotOf (ListProjectsByNodeRef d nodeRef phases)"

definition GetProjectSnapshot :: "db \<Rightarrow> string \<Rightarrow> ProjectSnapshot result" where
  "GetProjectSnapshot d name = (case GetProject d name of Inl e \<Rightarrow> Inl e | Inr p \<Rightarrow> Inr (snapshotOf p))"

subsection \<open>Assigning\<close>

definition schedule_status :: "string \<Rightarrow> string \<Rightarrow> time \<Rightarrow> ProjectStatus \<Rightarrow> ProjectStatus result" where
  "schedule_status name nodeRef now status =
     (if ps_Phase status = ProjectPhaseScheduled \<and> ps_NodeRef status = nodeRef then Inr status
      else if \<not> PhaseTransitionAllowed WriterScheduler (ps_Phase status) ProjectPhaseScheduled
      then Inl (ErrConflictState (project_msg name @ '' is '' @ phase_text (ps_Phase status) @ '' on node '' @
             go_quote (ps_NodeRef status) @ ''; only a Pending project can be assigned''))
      else case BlockingObligation (ps_Recovery status) of
        Some o' \<Rightarrow> Inl (ErrConflictState (''node '' @ ai_NodeName (ob_Assignment o') @
             '' has not removed the resources of generation '' @ FormatInt (ai_AssignmentGeneration (ob_Assignment o')) @
             '' (released by '' @ release_text (ob_ReleaseAuthorization o') @ '')''))
      | None \<Rightarrow>
          if nodeRef \<in> set (NodesOwingCleanup (ps_Recovery status))
          then Inl (ErrConflictState (''node '' @ nodeRef @ '' still owes cleanup for this project''))
          else
            let generation = wrap64 (ps_AssignmentGeneration status + 1)
            in Inr (status\<lparr>ps_AssignmentGeneration := generation,
                 ps_AssignmentHistory := AssignmentHistoryKnown,
                 ps_Recovery := ClearForNewAssignment (ps_Recovery status),
                 ps_Phase := ProjectPhaseScheduled,
                 ps_NodeRef := nodeRef,
                 ps_Conditions := UpsertCondition
                   (RemoveConditions (ps_Conditions status) [ConditionTypeSchedulingBlocked])
                   (condition_lit ConditionTypePhase ConditionTrue ''Scheduled''
                      (''Assigned to node '' @ nodeRef @ '' as generation '' @ FormatInt generation) now) True\<rparr>))"

definition SetProjectScheduled ::
  "(nat \<Rightarrow> interference) \<Rightarrow> time \<Rightarrow> string \<Rightarrow> string \<Rightarrow> db \<Rightarrow> db \<times> unit result" where
  "SetProjectScheduled sched now name nodeRef d =
     UpdateProjectStatusWithRetry sched name (on_status (schedule_status name nodeRef now)) d"

definition scheduling_blocked :: "string \<Rightarrow> string \<Rightarrow> time \<Rightarrow> ProjectStatus \<Rightarrow> ProjectStatus result" where
  "scheduling_blocked reason message now status =
     (if ps_Phase status \<noteq> ProjectPhasePending then Inr status
      else Inr (status\<lparr>ps_Conditions := UpsertCondition (ps_Conditions status)
             (condition_lit ConditionTypeSchedulingBlocked ConditionTrue reason message now) False\<rparr>))"

definition SetSchedulingBlocked ::
  "(nat \<Rightarrow> interference) \<Rightarrow> time \<Rightarrow> string \<Rightarrow> string \<Rightarrow> string \<Rightarrow> db \<Rightarrow> db \<times> unit result" where
  "SetSchedulingBlocked sched now name reason message d =
     UpdateProjectStatusWithRetry sched name (on_status (scheduling_blocked reason message now)) d"

definition set_phase :: "ProjectPhase \<Rightarrow> string \<Rightarrow> string \<Rightarrow> time \<Rightarrow> ProjectStatus \<Rightarrow> ProjectStatus result" where
  "set_phase phase reason message now status =
     (let transitioned = (ps_Phase status \<noteq> phase)
      in Inr (status\<lparr>ps_Phase := phase,
            ps_Recovery := (if phase = ProjectPhaseFailed then ClearHealthyWindow (ps_Recovery status)
                            else ps_Recovery status),
            ps_Conditions := UpsertCondition (ps_Conditions status)
              (condition_lit ConditionTypePhase ConditionTrue reason message now) transitioned\<rparr>))"

definition SetProjectPhase ::
  "(nat \<Rightarrow> interference) \<Rightarrow> time \<Rightarrow> string \<Rightarrow> ProjectPhase \<Rightarrow> string \<Rightarrow> string \<Rightarrow> db \<Rightarrow> db \<times> unit result" where
  "SetProjectPhase sched now name phase reason message d =
     UpdateProjectStatusWithRetry sched name (on_status (set_phase phase reason message now)) d"

subsection \<open>Finalization\<close>

definition adapter_FinalizeProject :: "string \<Rightarrow> string \<Rightarrow> db \<Rightarrow> db \<times> unit result" where
  "adapter_FinalizeProject name uid d = FinalizeProject name uid FinalizationBlocker d"

definition finalization_blocked :: "string \<Rightarrow> time \<Rightarrow> ProjectStatus \<Rightarrow> ProjectStatus result" where
  "finalization_blocked reason now status =
     (if \<not> AwaitsFinalization status then Inr status
      else Inr (status\<lparr>ps_Conditions := UpsertCondition (ps_Conditions status)
             (condition_lit ConditionTypeFinalizationBlocked ConditionTrue ''CleanupPending''
                (''Record kept: '' @ reason) now) False\<rparr>))"

definition SetFinalizationBlocked ::
  "(nat \<Rightarrow> interference) \<Rightarrow> time \<Rightarrow> string \<Rightarrow> string \<Rightarrow> string \<Rightarrow> db \<Rightarrow> db \<times> unit result" where
  "SetFinalizationBlocked sched now name uid reason d =
     UpdateProjectStatusForUID sched name uid (on_status (finalization_blocked reason now)) d"

subsection \<open>Releasing\<close>

definition snapshot_assignment :: "ProjectSnapshot \<Rightarrow> AssignmentIdentity" where
  "snapshot_assignment p = \<lparr>ai_ProjectUID = snap_UID p, ai_NodeName = snap_NodeRef p,
     ai_AssignmentGeneration = snap_AssignmentGeneration p\<rparr>"

definition takeover_required :: "string \<Rightarrow> time \<Rightarrow> ProjectStatus \<Rightarrow> ProjectStatus" where
  "takeover_required message now status =
     status\<lparr>ps_Conditions := UpsertCondition (ps_Conditions status)
        (condition_lit ConditionTypeTakeoverRequired ConditionTrue ''WorkloadStopUnconfirmed'' message now) False\<rparr>"

text \<open>The part both release paths share: the obligation, and the data owed with it.\<close>

definition released_recovery ::
  "ProjectStatus \<Rightarrow> AssignmentIdentity \<Rightarrow> time \<Rightarrow> ReleaseAuthorizationKind \<Rightarrow> bool \<Rightarrow> ProjectRecoveryStatus" where
  "released_recovery status assignment now authorization hasManaged =
     (let r = AddObligation (EnsureRecovery status) assignment now authorization
      in if hasManaged then OweManagedData r assignment else r)"

definition release_status ::
  "bool \<Rightarrow> ProjectSnapshot \<Rightarrow> time \<Rightarrow> bool closure" where
  "release_status graceExpiredRelease p now d meta status =
     (let assignment = snapshot_assignment p in
      if ps_NodeRef status \<noteq> snap_NodeRef p \<or> ps_AssignmentGeneration status \<noteq> snap_AssignmentGeneration p
      then Inl (ErrStaleAssignment (project_msg (snap_Name p) @ '' no longer holds node '' @ snap_NodeRef p @
             '' generation '' @ FormatInt (snap_AssignmentGeneration p)))
      else if \<not> PhaseTransitionAllowed WriterRescheduler (ps_Phase status) ProjectPhasePending
      then Inl (ErrConflictState (project_msg (snap_Name p) @ '' is '' @ phase_text (ps_Phase status)))
      else case GetProject d (snap_Name p) of
        Inl e \<Rightarrow> Inl e
      | Inr project \<Rightarrow>
          let hasManaged = HasManagedVolume (prj_Spec project);
              stopped = WorkloadStoppedFor (ps_Recovery status) assignment;
              hasBackup = (CommittedBackupID (ps_Recovery status) \<noteq> '''' \<or> LastCompletion (ps_Backup status) \<noteq> None);
              grace = (\<not> stopped \<and> graceExpiredRelease \<and> (\<not> hasManaged \<or> hasBackup));
              released = (stopped \<or> grace);
              authorization = (if grace then ReleaseByGraceExpired else ReleaseByWorkloadStopped);
              reason = (if grace
                then ''Node stayed NotReady past its grace period; project released for rescheduling''
                else ''Node went NotReady and confirmed the workload stopped; project released for rescheduling'')
          in if \<not> released
             then Inr (takeover_required (''Node '' @ snap_NodeRef p @ '' is NotReady and has not confirmed generation '' @
                    FormatInt (snap_AssignmentGeneration p) @ '' stopped; '' @
                    ''the project stays assigned to it until the node returns or the takeover is authorized'') now status, False)
             else Inr (status\<lparr>ps_Phase := ProjectPhasePending, ps_NodeRef := '''',
                    ps_Recovery := Some (released_recovery status assignment now authorization hasManaged),
                    ps_Conditions := UpsertCondition (RemoveConditions (ps_Conditions status) outage_types)
                      (condition_lit ConditionTypePhase ConditionTrue ''NodeNotReady'' reason now)
                      (ps_Phase status \<noteq> ProjectPhasePending)\<rparr>, True))"

definition ReleaseAssignment ::
  "(nat \<Rightarrow> interference) \<Rightarrow> bool \<Rightarrow> time \<Rightarrow> ProjectSnapshot \<Rightarrow> db \<Rightarrow> db \<times> bool result" where
  "ReleaseAssignment sched graceExpiredRelease now p d =
     UpdateProjectStatusForUID sched (snap_Name p) (snap_UID p) (release_status graceExpiredRelease p now) d"

definition move_failed_status :: "ProjectSnapshot \<Rightarrow> string \<Rightarrow> time \<Rightarrow> bool closure" where
  "move_failed_status p message now d meta status =
     (let assignment = snapshot_assignment p in
      if \<not> PhaseTransitionAllowed WriterFailedRescheduler (ps_Phase status) ProjectPhasePending
         \<or> ps_NodeRef status \<noteq> snap_NodeRef p \<or> ps_AssignmentGeneration status \<noteq> snap_AssignmentGeneration p
      then Inr (status, False)
      else if \<not> WorkloadStoppedFor (ps_Recovery status) assignment
      then Inr (takeover_required (''Failed on node '' @ snap_NodeRef p @ '', which has not confirmed generation '' @
             FormatInt (snap_AssignmentGeneration p) @ '' stopped; '' @
             ''the project stays assigned to it until the stop is confirmed or the takeover is authorized'') now status, False)
      else case GetProject d (snap_Name p) of
        Inl e \<Rightarrow> Inl e
      | Inr project \<Rightarrow>
          Inr (status\<lparr>ps_FailedNodes := (if snap_NodeRef p \<in> set (ps_FailedNodes status) then ps_FailedNodes status
                                   else ps_FailedNodes status @ [snap_NodeRef p]),
                 ps_Phase := ProjectPhasePending, ps_NodeRef := '''',
                 ps_Recovery := Some (released_recovery status assignment now ReleaseByWorkloadStopped
                                        (HasManagedVolume (prj_Spec project))),
                 ps_Conditions := UpsertCondition (RemoveConditions (ps_Conditions status) outage_types)
                   (condition_lit ConditionTypePhase ConditionTrue ''RescheduledAfterFailure'' message now) True\<rparr>, True))"

definition MoveFailedProject ::
  "(nat \<Rightarrow> interference) \<Rightarrow> time \<Rightarrow> ProjectSnapshot \<Rightarrow> string \<Rightarrow> db \<Rightarrow> db \<times> bool result" where
  "MoveFailedProject sched now p message d =
     UpdateProjectStatusForUID sched (snap_Name p) (snap_UID p) (move_failed_status p message now) d"

subsection \<open>Outage conditions\<close>

definition IsOutageCondition :: "ConditionType \<Rightarrow> bool" where
  "IsOutageCondition t \<longleftrightarrow> t \<in> {ConditionTypeNotReadyAt, ConditionTypeTerminatingAt,
     ConditionTypeTakeoverRequired, ConditionTypeTerminationBlocked}"

definition clear_clocks :: "string \<Rightarrow> time \<Rightarrow> ProjectStatus \<Rightarrow> ProjectStatus result" where
  "clear_clocks nodeRef notAfter status =
     (if ps_NodeRef status \<noteq> nodeRef then Inr status
      else Inr (status\<lparr>ps_Conditions := filter
             (\<lambda>c. \<not> (IsOutageCondition (cond_Type c) \<and> \<not> cond_LastTransitionTime c > notAfter))
             (ps_Conditions status)\<rparr>))"

definition ClearRescheduleClocks ::
  "(nat \<Rightarrow> interference) \<Rightarrow> string \<Rightarrow> string \<Rightarrow> time \<Rightarrow> db \<Rightarrow> db \<times> unit result" where
  "ClearRescheduleClocks sched name nodeRef notAfter d =
     UpdateProjectStatusWithRetry sched name (on_status (clear_clocks nodeRef notAfter)) d"

definition terminating_at :: "time \<Rightarrow> ProjectStatus \<Rightarrow> ProjectStatus result" where
  "terminating_at t status = Inr (status\<lparr>ps_Conditions := UpsertCondition (ps_Conditions status)
     (condition_lit ConditionTypeTerminatingAt ConditionTrue ''NodeNotReady''
        ''Node went NotReady while project was Terminating; termination timeout clock started'' t) True\<rparr>)"

definition SetTerminatingAt :: "(nat \<Rightarrow> interference) \<Rightarrow> string \<Rightarrow> time \<Rightarrow> db \<Rightarrow> db \<times> unit result" where
  "SetTerminatingAt sched name t d = UpdateProjectStatusWithRetry sched name (on_status (terminating_at t)) d"

definition not_ready_at :: "time \<Rightarrow> ProjectStatus \<Rightarrow> ProjectStatus result" where
  "not_ready_at t status = Inr (status\<lparr>ps_Conditions := UpsertCondition (ps_Conditions status)
     (condition_lit ConditionTypeNotReadyAt ConditionTrue ''NodeNotReady''
        ''Node went NotReady while project was Running; running grace period clock started'' t) True\<rparr>)"

definition SetNotReadyAt :: "(nat \<Rightarrow> interference) \<Rightarrow> string \<Rightarrow> time \<Rightarrow> db \<Rightarrow> db \<times> unit result" where
  "SetNotReadyAt sched name t d = UpdateProjectStatusWithRetry sched name (on_status (not_ready_at t)) d"

definition termination_blocked :: "string \<Rightarrow> time \<Rightarrow> ProjectStatus \<Rightarrow> ProjectStatus result" where
  "termination_blocked nodeRef t status =
     (if ps_Phase status \<noteq> ProjectPhaseTerminating then Inr status
      else Inr (status\<lparr>ps_Conditions := UpsertCondition (ps_Conditions status)
             (condition_lit ConditionTypeTerminationBlocked ConditionTrue ''NodeNotReady''
               (''Node '' @ nodeRef @ '' has been NotReady past the termination timeout; '' @
                ''the project is kept until the node returns and confirms its resources are removed'') t) True\<rparr>))"

definition SetTerminationBlocked :: "(nat \<Rightarrow> interference) \<Rightarrow> string \<Rightarrow> string \<Rightarrow> time \<Rightarrow> db \<Rightarrow> db \<times> unit result" where
  "SetTerminationBlocked sched name nodeRef t d =
     UpdateProjectStatusWithRetry sched name (on_status (termination_blocked nodeRef t)) d"

subsection \<open>Failed Projects\<close>

definition ClearFailedNodes :: "(nat \<Rightarrow> interference) \<Rightarrow> string \<Rightarrow> db \<Rightarrow> db \<times> unit result" where
  "ClearFailedNodes sched name d =
     UpdateProjectStatusWithRetry sched name (on_status (\<lambda>s. Inr (s\<lparr>ps_FailedNodes := []\<rparr>))) d"

definition reschedule_exhausted :: "string \<Rightarrow> time \<Rightarrow> ProjectStatus \<Rightarrow> ProjectStatus result" where
  "reschedule_exhausted message now status =
     (if ps_Phase status \<noteq> ProjectPhaseFailed then Inr status
      else Inr (status\<lparr>ps_Conditions := UpsertCondition (ps_Conditions status)
             (condition_lit ConditionTypeRescheduleExhausted ConditionTrue ''RetriesExhausted'' message now) False\<rparr>))"

definition SetRescheduleExhausted ::
  "(nat \<Rightarrow> interference) \<Rightarrow> time \<Rightarrow> string \<Rightarrow> string \<Rightarrow> db \<Rightarrow> db \<times> unit result" where
  "SetRescheduleExhausted sched now name message d =
     UpdateProjectStatusWithRetry sched name (on_status (reschedule_exhausted message now)) d"

end
