(* ===== verification/Spec_Validation.thy ===== *)
theory Spec_Validation
  imports Lifecycle
begin

text \<open>
  The validation of a Project spec in \<open>internal/server/handler/project/handler.go\<close>
  (\<open>validateProjectSpecFor\<close> and the functions it calls). A validation error carries the field and
  the message; the offending value the library also records is left out. The rules report the first
  violation in source order, so a check is an option and a sequence of checks is \<open>first_error\<close>. Go's
  \<open>time.ParseDuration\<close>, which computes fractions in floating point, is the argument \<open>parseDuration\<close>.
\<close>

datatype api_error =
    ValidationError string string
  | StoreError store_error
  | ErrForbidden string
  | ErrOperatorUnauthorized
  | ErrInvalidJoinToken
  | ErrServiceNotConfigured string

fun first_error :: "'e option list \<Rightarrow> 'e option" where
  "first_error [] = None"
| "first_error (None # es) = first_error es"
| "first_error (Some e # es) = Some e"

definition fail_if :: "bool \<Rightarrow> string \<Rightarrow> string \<Rightarrow> api_error option" where
  "fail_if b field msg = (if b then Some (ValidationError field msg) else None)"

lemma first_error_None_iff [simp]: "first_error es = None \<longleftrightarrow> (\<forall>e \<in> set es. e = None)"
  by (induction es rule: first_error.induct) auto

lemma case_error_None_iff [simp]:
  "(case x of Some e \<Rightarrow> Some e | None \<Rightarrow> y) = None \<longleftrightarrow> x = None \<and> y = None"
  "(case z of None \<Rightarrow> None | Some a \<Rightarrow> Some (f a)) = None \<longleftrightarrow> z = None"
  by (simp_all split: option.split)

lemma fail_if_None [simp]: "fail_if b f m = None \<longleftrightarrow> \<not> b"
  by (simp add: fail_if_def)

subsection \<open>Environment variables\<close>

definition validateEnvVar :: "string \<Rightarrow> EnvVar \<Rightarrow> api_error option" where
  "validateEnvVar svcName env =
     (if env_Name env = '''' then Some (ValidationError ''spec.services[].env[].name''
            (''service '' @ svcName @ '': each env var must have a non-empty name''))
      else case env_ValueFrom env of
        None \<Rightarrow> None
      | Some src \<Rightarrow>
          if env_Value env \<noteq> '''' then Some (ValidationError ''spec.services[].env[]''
            (''service '' @ svcName @ '', env '' @ env_Name env @ '': value and valueFrom are mutually exclusive''))
          else case evs_SecretKeyRef src of
            None \<Rightarrow> Some (ValidationError ''spec.services[].env[].valueFrom''
              (''service '' @ svcName @ '', env '' @ env_Name env @ '': valueFrom requires secretKeyRef''))
          | Some ref \<Rightarrow>
              if sks_Name ref = '''' \<or> sks_Key ref = ''''
              then Some (ValidationError ''spec.services[].env[].valueFrom.secretKeyRef''
                (''service '' @ svcName @ '', env '' @ env_Name env @
                 '': secretKeyRef.name and secretKeyRef.key must both be non-empty''))
              else None)"

text \<open>\<open>strings.Cut(s, "=")\<close>, the ASCII part of \<open>strings.Fields\<close>, and the value pattern.\<close>

fun cut_eq :: "string \<Rightarrow> (string \<times> string) option" where
  "cut_eq [] = None"
| "cut_eq (c # cs) = (if c = CHR ''='' then Some ([], cs)
     else case cut_eq cs of None \<Rightarrow> None | Some (a, b) \<Rightarrow> Some (c # a, b))"

definition ascii_space :: "char \<Rightarrow> bool" where
  "ascii_space c \<longleftrightarrow> c \<in> {CHR '' '', CHR 0x09, CHR 0x0A, CHR 0x0B, CHR 0x0C, CHR 0x0D}"

fun fields_acc :: "string \<Rightarrow> string \<Rightarrow> string list" where
  "fields_acc acc [] = (if acc = [] then [] else [rev acc])"
| "fields_acc acc (c # cs) =
     (if ascii_space c then (if acc = [] then fields_acc [] cs else rev acc # fields_acc [] cs)
      else fields_acc (c # acc) cs)"

definition strings_Fields :: "string \<Rightarrow> string list" where
  "strings_Fields s = fields_acc [] s"

definition initdbSettings :: "string list" where
  "initdbSettings = [''--encoding'', ''--locale'', ''--lc-collate'', ''--lc-ctype'', ''--lc-messages'',
     ''--lc-monetary'', ''--lc-numeric'', ''--lc-time'', ''--locale-provider'', ''--icu-locale'',
     ''--auth'', ''--auth-host'', ''--auth-local'', ''--wal-segsize'']"

definition initdb_value_char :: "char \<Rightarrow> bool" where
  "initdb_value_char c \<longleftrightarrow> (CHR ''A'' \<le> c \<and> c \<le> CHR ''Z'') \<or> (CHR ''a'' \<le> c \<and> c \<le> CHR ''z'')
     \<or> (CHR ''0'' \<le> c \<and> c \<le> CHR ''9'') \<or> c \<in> {CHR ''_'', CHR ''.'', CHR ''@'', CHR ''-''}"

definition initdbValue_match :: "string \<Rightarrow> bool" where
  "initdbValue_match s \<longleftrightarrow> s \<noteq> [] \<and> list_all initdb_value_char s"

definition allowedInitdbArg :: "string \<Rightarrow> bool" where
  "allowedInitdbArg arg =
     (if arg = ''-k'' \<or> arg = ''--data-checksums'' then True
      else case cut_eq arg of
        None \<Rightarrow> False
      | Some (name, value) \<Rightarrow> name \<in> set initdbSettings \<and> initdbValue_match value)"

definition postgres_env_error :: "string \<Rightarrow> string \<Rightarrow> EnvVar \<Rightarrow> api_error option" where
  "postgres_env_error svcName volume env =
     (let pre = ''service '' @ svcName @ '' uses PostgresDifferential volume '' @ volume @ '', so '' in
      if env_Name env \<notin> {''PGDATA'', ''POSTGRES_INITDB_WALDIR'', ''POSTGRES_INITDB_ARGS''} then None
      else if env_ValueFrom env \<noteq> None
      then Some (ValidationError ''spec.services[].env[].valueFrom'' (pre @ env_Name env @
             '' must be a literal value that can be checked when the Project is applied''))
      else if env_Name env = ''PGDATA''
      then fail_if (env_Value env \<noteq> PostgresDifferentialDataPath) ''spec.services[].env[].value''
             (pre @ ''PGDATA must be '' @ go_quote PostgresDifferentialDataPath @ '' or unset'')
      else if env_Name env = ''POSTGRES_INITDB_WALDIR''
      then Some (ValidationError ''spec.services[].env[].name'' (pre @ ''the WAL directory cannot be moved out of it''))
      else case List.find (\<lambda>arg. \<not> allowedInitdbArg arg) (strings_Fields (env_Value env)) of
        None \<Rightarrow> None
      | Some arg \<Rightarrow> Some (ValidationError ''spec.services[].env[].value''
          (pre @ ''POSTGRES_INITDB_ARGS may only contain '' @
           ''-k, --data-checksums or --NAME=VALUE for a supported setting, written out in full ('' @
           go_quote arg @ '' is not)'')))"

definition validatePostgresDifferentialEnv :: "ServiceDef \<Rightarrow> string \<Rightarrow> api_error option" where
  "validatePostgresDifferentialEnv svc volume =
     first_error (map (postgres_env_error (svc_Name svc) volume) (svc_Env svc))"

subsection \<open>Backup items\<close>

definition mount_error :: "string \<Rightarrow> string \<Rightarrow> ServiceDef \<Rightarrow> VolumeMount \<Rightarrow> api_error option" where
  "mount_error volume postgresImage svc vm = first_error
     [fail_if (svc_Image svc \<noteq> postgresImage) ''spec.services[].image''
        (''service '' @ svc_Name svc @ '' mounts PostgresDifferential volume '' @ volume @
         '', so its image must be '' @ go_quote postgresImage),
      fail_if (vm_MountPath vm \<noteq> PostgresDifferentialDataPath) ''spec.services[].volumeMounts[].mountPath''
        (''service '' @ svc_Name svc @ '' mounts PostgresDifferential volume '' @ volume @
         '', so it must be mounted at '' @ go_quote PostgresDifferentialDataPath),
      validatePostgresDifferentialEnv svc volume]"

definition mounts_of :: "ProjectSpec \<Rightarrow> string \<Rightarrow> (ServiceDef \<times> VolumeMount) list" where
  "mounts_of spec volume = filter (\<lambda>(svc, vm). vm_Name vm = volume)
     (concat (map (\<lambda>svc. map (Pair svc) (svc_VolumeMounts svc)) (spec_Services spec)))"

definition validatePostgresDifferentialMount :: "ProjectSpec \<Rightarrow> string \<Rightarrow> string \<Rightarrow> api_error option" where
  "validatePostgresDifferentialMount spec volume postgresImage =
     (let mounts = mounts_of spec volume in
      case first_error (map (\<lambda>(svc, vm). mount_error volume postgresImage svc vm) mounts) of
        Some e \<Rightarrow> Some e
      | None \<Rightarrow>
          if length mounts = 1 then None
          else if length mounts = 0 then Some (ValidationError ''spec.backup.items[].volume''
                 (''PostgresDifferential volume '' @ volume @ '' is not mounted by any service''))
          else Some (ValidationError ''spec.backup.items[].volume''
                 (''PostgresDifferential volume '' @ volume @ '' must be mounted by exactly one service, found '' @
                  show_nat (length mounts) @ '' ('' @
                  strings_Join (map (\<lambda>(svc, vm). svc_Name svc) mounts) '', '' @ '')'')))"

definition item_strategy_error :: "ProjectSpec \<Rightarrow> string \<Rightarrow> BackupItem \<Rightarrow> api_error option" where
  "item_strategy_error spec postgresImage item =
     (let v = bi_Volume item in
      case bi_Strategy item of
        BackupStrategyOffline \<Rightarrow>
          fail_if (bi_RetainFull item \<noteq> None) ''spec.backup.items[].retainFull''
            (''backup item '' @ v @ '': retainFull applies only to strategy '' @ go_quote ''PostgresDifferential'')
      | BackupStrategyPostgresDifferential \<Rightarrow> first_error
          [fail_if (EffectiveRetainFull item < MinRetainFull \<or> EffectiveRetainFull item > MaxRetainFull)
             ''spec.backup.items[].retainFull''
             (''backup item '' @ v @ '': retainFull must be between '' @ FormatInt MinRetainFull @ '' and '' @ FormatInt MaxRetainFull),
           validatePostgresDifferentialMount spec v postgresImage]
      | BackupStrategyOther _ \<Rightarrow> Some (ValidationError ''spec.backup.items[].strategy''
          (''backup item '' @ v @ '': strategy must be '' @ go_quote ''Offline'' @ '' or '' @ go_quote ''PostgresDifferential'')))"

fun backup_item_errors ::
  "ProjectSpec \<Rightarrow> string set \<Rightarrow> string set \<Rightarrow> string \<Rightarrow> string list \<Rightarrow> BackupItem list \<Rightarrow> api_error option" where
  "backup_item_errors spec volumeNames managedVolumes postgresImage seen [] = None"
| "backup_item_errors spec volumeNames managedVolumes postgresImage seen (item # items) =
     (let v = bi_Volume item; f = ''spec.backup.items[].volume'' in
      if v = '''' then Some (ValidationError f ''each backup item must name a volume'')
      else if v \<notin> volumeNames then Some (ValidationError f (''backup item references undeclared volume '' @ v))
      else if v \<notin> managedVolumes
      then Some (ValidationError f (''backup item '' @ v @ '': only a Managed volume can have a backup strategy''))
      else if v \<in> set seen then Some (ValidationError f (''duplicate backup item for volume '' @ v))
      else case item_strategy_error spec postgresImage item of
        Some e \<Rightarrow> Some e
      | None \<Rightarrow> backup_item_errors spec volumeNames managedVolumes postgresImage (v # seen) items)"

definition validateBackupItems ::
  "ProjectSpec \<Rightarrow> BackupItem list \<Rightarrow> string set \<Rightarrow> string set \<Rightarrow> string \<Rightarrow> api_error option" where
  "validateBackupItems spec items volumeNames managedVolumes postgresImage =
     (case backup_item_errors spec volumeNames managedVolumes postgresImage [] items of
        Some e \<Rightarrow> Some e
      | None \<Rightarrow>
          if HasPostgresDifferential spec
          then first_error (map (\<lambda>vol. fail_if (vol_Type vol = VolumeTypeManaged
                 \<and> BackupStrategyFor spec (vol_Name vol) \<noteq> BackupStrategyPostgresDifferential) ''spec.backup.items''
                 (''Managed volume '' @ vol_Name vol @ '' would be backed up offline, but a Project using '' @
                  go_quote ''PostgresDifferential'' @ '' cannot mix strategies yet; give every Managed volume strategy '' @
                  go_quote ''PostgresDifferential'')) (spec_Volumes spec))
          else None)"

subsection \<open>The whole spec\<close>

definition service_error :: "ServiceDef \<Rightarrow> api_error option" where
  "service_error svc = first_error
     (fail_if (svc_Name svc = '''') ''spec.services[].name'' ''each service must have a non-empty name''
      # fail_if (svc_Image svc = '''') ''spec.services[].image'' (''service '' @ svc_Name svc @ '': image is required'')
      # map (validateEnvVar (svc_Name svc)) (svc_Env svc))"

fun volume_errors :: "string list \<Rightarrow> VolumeDef list \<Rightarrow> api_error option" where
  "volume_errors seen [] = None"
| "volume_errors seen (vol # vols) =
     (if vol_Name vol = ''''
      then Some (ValidationError ''spec.volumes[].name'' ''each volume must have a non-empty name'')
      else if vol_Name vol \<in> set seen
      then Some (ValidationError ''spec.volumes[].name'' (''duplicate volume name: '' @ vol_Name vol))
      else case vol_Type vol of
        VolumeTypeOther _ \<Rightarrow> Some (ValidationError ''spec.volumes[].type''
          (''volume '' @ vol_Name vol @ '': type must be '' @ go_quote ''Managed'' @ '' or '' @ go_quote ''Ephemeral''))
      | _ \<Rightarrow> volume_errors (vol_Name vol # seen) vols)"

definition backup_errors :: "(string \<Rightarrow> duration option) \<Rightarrow> ProjectSpec \<Rightarrow> string \<Rightarrow> api_error option" where
  "backup_errors parseDuration spec postgresImage = (case spec_Backup spec of
       None \<Rightarrow> None
     | Some b \<Rightarrow> first_error
         [fail_if (\<not> HasManagedVolume spec) ''spec.backup''
            (''spec.backup requires at least one volume with type '' @ go_quote ''Managed''),
          fail_if (case parseDuration (pbc_Interval b) of None \<Rightarrow> True | Some d \<Rightarrow> d \<le> 0) ''spec.backup.interval''
            (''spec.backup.interval must be a positive duration such as '' @ go_quote ''168h'' @ '' or '' @ go_quote ''1h''),
          fail_if (pbc_OnMissing b \<noteq> VolumeOnMissingOther '''' \<and> pbc_OnMissing b \<noteq> VolumeOnMissingInitializeEmpty)
            ''spec.backup.onMissing'' (''spec.backup.onMissing must be '' @ go_quote ''InitializeEmpty''),
          validateBackupItems spec (pbc_Items b) (set (map vol_Name (spec_Volumes spec)))
            (set (map vol_Name (filter (\<lambda>v. vol_Type v = VolumeTypeManaged) (spec_Volumes spec)))) postgresImage])"

definition volume_mount_errors :: "ProjectSpec \<Rightarrow> api_error option" where
  "volume_mount_errors spec = first_error (concat (map (\<lambda>svc. concat (map (\<lambda>vm.
       [fail_if (vm_Name vm \<notin> set (map vol_Name (spec_Volumes spec))) ''spec.services[].volumeMounts[].name''
          (''service '' @ svc_Name svc @ '': volumeMount references undeclared volume '' @ vm_Name vm),
        fail_if (vm_MountPath vm = '''') ''spec.services[].volumeMounts[].mountPath''
          (''service '' @ svc_Name svc @ '': volumeMount '' @ vm_Name vm @ '' must have a non-empty mountPath'')])
       (svc_VolumeMounts svc))) (spec_Services spec)))"

fun ingress_errors :: "string set \<Rightarrow> string list \<Rightarrow> IngressDef list \<Rightarrow> api_error option" where
  "ingress_errors serviceNames seen [] = None"
| "ingress_errors serviceNames seen (ing # ings) =
     (if ing_Name ing = ''''
      then Some (ValidationError ''spec.ingress[].name'' ''each ingress entry must have a non-empty name'')
      else if ing_Name ing \<in> set seen
      then Some (ValidationError ''spec.ingress[].name'' (''duplicate ingress name: '' @ ing_Name ing))
      else if it_Service (ing_Target ing) \<notin> serviceNames
      then Some (ValidationError ''spec.ingress[].target.service''
        (''ingress '' @ ing_Name ing @ '': target service '' @ it_Service (ing_Target ing) @ '' does not exist in spec.services''))
      else if it_Port (ing_Target ing) \<le> 0
      then Some (ValidationError ''spec.ingress[].target.port''
        (''ingress '' @ ing_Name ing @ '': target port must be greater than 0''))
      else if ia_Scope (ing_Access ing) \<noteq> IngressScopeOther '''' \<and> ia_Scope (ing_Access ing) \<noteq> IngressScopeInternal
      then Some (ValidationError ''spec.ingress[].access.scope''
        (''ingress '' @ ing_Name ing @ '': only '' @ go_quote ''Internal'' @ '' scope is supported''))
      else ingress_errors serviceNames (ing_Name ing # seen) ings)"

definition validateProjectSpecFor ::
  "(string \<Rightarrow> duration option) \<Rightarrow> ProjectSpec \<Rightarrow> string \<Rightarrow> api_error option" where
  "validateProjectSpecFor parseDuration spec postgresImage = first_error
     ([fail_if (length (spec_Services spec) = 0) ''spec.services'' ''spec.services must contain at least one service'',
       fail_if (spec_Size spec \<noteq> ProjectSizeEmpty \<and> \<not> ProjectSize_IsValid (spec_Size spec)) ''spec.size''
         (''spec.size must be one of '' @ go_quote ''Small'' @ '', '' @ go_quote ''Medium'' @ '', '' @ go_quote ''Large'')]
      @ map service_error (spec_Services spec)
      @ [volume_errors [] (spec_Volumes spec),
         backup_errors parseDuration spec postgresImage,
         volume_mount_errors spec,
         ingress_errors (set (map svc_Name (spec_Services spec))) [] (spec_Ingress spec)])"

definition validateProjectSpec :: "(string \<Rightarrow> duration option) \<Rightarrow> ProjectSpec \<Rightarrow> api_error option" where
  "validateProjectSpec parseDuration spec = validateProjectSpecFor parseDuration spec PostgresDifferentialImage"

subsection \<open>What an accepted spec satisfies\<close>

lemma volume_errors_None_iff:
  "volume_errors seen vols = None \<longleftrightarrow>
     (\<forall>v \<in> set vols. vol_Name v \<noteq> '''' \<and> (vol_Type v = VolumeTypeManaged \<or> vol_Type v = VolumeTypeEphemeral))
     \<and> distinct (map vol_Name vols) \<and> set (map vol_Name vols) \<inter> set seen = {}"
  by (induction seen vols rule: volume_errors.induct) (auto split: VolumeType.splits)

definition ingress_ok :: "string set \<Rightarrow> IngressDef \<Rightarrow> bool" where
  "ingress_ok serviceNames ing \<longleftrightarrow> ing_Name ing \<noteq> '''' \<and> it_Service (ing_Target ing) \<in> serviceNames
     \<and> it_Port (ing_Target ing) > 0
     \<and> (ia_Scope (ing_Access ing) = IngressScopeOther '''' \<or> ia_Scope (ing_Access ing) = IngressScopeInternal)"

lemma ingress_errors_None_iff:
  "ingress_errors serviceNames seen ings = None \<longleftrightarrow>
     (\<forall>i \<in> set ings. ingress_ok serviceNames i)
     \<and> distinct (map ing_Name ings) \<and> set (map ing_Name ings) \<inter> set seen = {}"
  by (induction serviceNames seen ings rule: ingress_errors.induct) (auto simp: ingress_ok_def)

lemma backup_item_errors_None_iff:
  "backup_item_errors spec vs ms img seen items = None \<longleftrightarrow>
     (\<forall>i \<in> set items. bi_Volume i \<noteq> '''' \<and> bi_Volume i \<in> vs \<and> bi_Volume i \<in> ms
        \<and> item_strategy_error spec img i = None)
     \<and> distinct (map bi_Volume items) \<and> set (map bi_Volume items) \<inter> set seen = {}"
proof (induction items arbitrary: seen)
  case Nil
  show ?case by simp
next
  case (Cons i items)
  show ?case using Cons.IH [of "bi_Volume i # seen"] by (auto simp: Let_def)
qed

definition env_ok :: "EnvVar \<Rightarrow> bool" where
  "env_ok env \<longleftrightarrow> env_Name env \<noteq> '''' \<and> (case env_ValueFrom env of None \<Rightarrow> True
     | Some src \<Rightarrow> env_Value env = '''' \<and> (\<exists>ref. evs_SecretKeyRef src = Some ref \<and> sks_Name ref \<noteq> '''' \<and> sks_Key ref \<noteq> ''''))"

lemma validateEnvVar_None_iff: "validateEnvVar s env = None \<longleftrightarrow> env_ok env"
  by (auto simp: validateEnvVar_def env_ok_def split: option.splits)

lemma service_error_None_iff:
  "service_error svc = None \<longleftrightarrow> svc_Name svc \<noteq> '''' \<and> svc_Image svc \<noteq> '''' \<and> (\<forall>e \<in> set (svc_Env svc). env_ok e)"
  by (auto simp: service_error_def validateEnvVar_None_iff)

definition mounts_ok :: "ProjectSpec \<Rightarrow> bool" where
  "mounts_ok spec \<longleftrightarrow> (\<forall>svc \<in> set (spec_Services spec). \<forall>vm \<in> set (svc_VolumeMounts svc).
     vm_Name vm \<in> vol_Name ` set (spec_Volumes spec) \<and> vm_MountPath vm \<noteq> '''')"

lemma volume_mount_errors_None_iff: "volume_mount_errors spec = None \<longleftrightarrow> mounts_ok spec"
  by (simp add: volume_mount_errors_def mounts_ok_def)

text \<open>An environment that leaves the database where its volume is.\<close>

definition postgres_env_ok :: "EnvVar \<Rightarrow> bool" where
  "postgres_env_ok env \<longleftrightarrow>
     (env_Name env = ''PGDATA'' \<longrightarrow> env_ValueFrom env = None \<and> env_Value env = PostgresDifferentialDataPath)
     \<and> env_Name env \<noteq> ''POSTGRES_INITDB_WALDIR''
     \<and> (env_Name env = ''POSTGRES_INITDB_ARGS'' \<longrightarrow> env_ValueFrom env = None
          \<and> (\<forall>arg \<in> set (strings_Fields (env_Value env)). allowedInitdbArg arg))"

lemma postgres_env_error_None_iff: "postgres_env_error s v env = None \<longleftrightarrow> postgres_env_ok env"
proof -
  have "List.find (\<lambda>arg. \<not> allowedInitdbArg arg) xs = None \<longleftrightarrow> (\<forall>arg \<in> set xs. allowedInitdbArg arg)" for xs
    by (auto simp: find_None_iff)
  then show ?thesis
    by (cases "env_Name env = ''PGDATA''"; cases "env_Name env = ''POSTGRES_INITDB_WALDIR''";
        cases "env_Name env = ''POSTGRES_INITDB_ARGS''")
       (auto simp: postgres_env_error_def postgres_env_ok_def Let_def)
qed

definition postgres_mount_ok :: "ProjectSpec \<Rightarrow> string \<Rightarrow> string \<Rightarrow> bool" where
  "postgres_mount_ok spec volume img \<longleftrightarrow> (\<exists>svc vm. mounts_of spec volume = [(svc, vm)]
     \<and> svc_Image svc = img \<and> vm_MountPath vm = PostgresDifferentialDataPath
     \<and> (\<forall>e \<in> set (svc_Env svc). postgres_env_ok e))"

lemma validatePostgresDifferentialMount_None_iff:
  "validatePostgresDifferentialMount spec volume img = None \<longleftrightarrow> postgres_mount_ok spec volume img"
proof -
  have m: "mount_error volume img svc vm = None \<longleftrightarrow> svc_Image svc = img
      \<and> vm_MountPath vm = PostgresDifferentialDataPath \<and> (\<forall>e \<in> set (svc_Env svc). postgres_env_ok e)" for svc vm
    by (auto simp: mount_error_def validatePostgresDifferentialEnv_def postgres_env_error_None_iff)
  show ?thesis
  proof (cases "mounts_of spec volume")
    case Nil
    then show ?thesis by (simp add: validatePostgresDifferentialMount_def postgres_mount_ok_def)
  next
    case (Cons x xs)
    then show ?thesis
      by (cases xs; cases x)
         (auto simp: validatePostgresDifferentialMount_def postgres_mount_ok_def Let_def m)
  qed
qed

definition item_ok :: "ProjectSpec \<Rightarrow> string \<Rightarrow> BackupItem \<Rightarrow> bool" where
  "item_ok spec img item \<longleftrightarrow> (case bi_Strategy item of
       BackupStrategyOffline \<Rightarrow> bi_RetainFull item = None
     | BackupStrategyPostgresDifferential \<Rightarrow>
         MinRetainFull \<le> EffectiveRetainFull item \<and> EffectiveRetainFull item \<le> MaxRetainFull
         \<and> postgres_mount_ok spec (bi_Volume item) img
     | BackupStrategyOther _ \<Rightarrow> False)"

lemma item_strategy_error_None_iff: "item_strategy_error spec img item = None \<longleftrightarrow> item_ok spec img item"
  by (auto simp: item_strategy_error_def item_ok_def Let_def validatePostgresDifferentialMount_None_iff
      split: BackupStrategy.split)

definition managed_names :: "ProjectSpec \<Rightarrow> string set" where
  "managed_names spec = vol_Name ` {v \<in> set (spec_Volumes spec). vol_Type v = VolumeTypeManaged}"

definition backup_ok :: "(string \<Rightarrow> duration option) \<Rightarrow> ProjectSpec \<Rightarrow> string \<Rightarrow> bool" where
  "backup_ok parseDuration spec img \<longleftrightarrow> (case spec_Backup spec of None \<Rightarrow> True
     | Some b \<Rightarrow> managed_names spec \<noteq> {}
         \<and> (\<exists>t > 0. parseDuration (pbc_Interval b) = Some t)
         \<and> (pbc_OnMissing b = VolumeOnMissingOther '''' \<or> pbc_OnMissing b = VolumeOnMissingInitializeEmpty)
         \<and> (\<forall>i \<in> set (pbc_Items b). bi_Volume i \<noteq> '''' \<and> bi_Volume i \<in> managed_names spec \<and> item_ok spec img i)
         \<and> distinct (map bi_Volume (pbc_Items b))
         \<and> (HasPostgresDifferential spec \<longrightarrow>
              (\<forall>v \<in> managed_names spec. BackupStrategyFor spec v = BackupStrategyPostgresDifferential)))"

lemma backup_errors_None_iff: "backup_errors parseDuration spec img = None \<longleftrightarrow> backup_ok parseDuration spec img"
proof (cases "spec_Backup spec")
  case None
  then show ?thesis by (simp add: backup_errors_def backup_ok_def)
next
  case (Some b)
  have "HasManagedVolume spec \<longleftrightarrow> managed_names spec \<noteq> {}"
    by (auto simp: HasManagedVolume_def managed_names_def list_ex_iff)
  moreover have "(case parseDuration (pbc_Interval b) of None \<Rightarrow> True | Some d \<Rightarrow> d \<le> 0)
      \<longleftrightarrow> \<not> (\<exists>t > 0. parseDuration (pbc_Interval b) = Some t)"
    by (cases "parseDuration (pbc_Interval b)") (auto simp: not_less [symmetric])
  moreover have "validateBackupItems spec (pbc_Items b) (set (map vol_Name (spec_Volumes spec)))
      (set (map vol_Name (filter (\<lambda>v. vol_Type v = VolumeTypeManaged) (spec_Volumes spec)))) img = None
    \<longleftrightarrow> (\<forall>i \<in> set (pbc_Items b). bi_Volume i \<noteq> '''' \<and> bi_Volume i \<in> managed_names spec \<and> item_ok spec img i)
         \<and> distinct (map bi_Volume (pbc_Items b))
         \<and> (HasPostgresDifferential spec \<longrightarrow>
              (\<forall>v \<in> managed_names spec. BackupStrategyFor spec v = BackupStrategyPostgresDifferential))"
  proof -
    have "set (map vol_Name (filter (\<lambda>v. vol_Type v = VolumeTypeManaged) (spec_Volumes spec))) = managed_names spec"
      by (auto simp: managed_names_def)
    moreover have "managed_names spec \<subseteq> set (map vol_Name (spec_Volumes spec))"
      by (auto simp: managed_names_def)
    moreover have "(\<forall>v \<in> set (spec_Volumes spec). vol_Type v = VolumeTypeManaged \<longrightarrow>
          BackupStrategyFor spec (vol_Name v) = BackupStrategyPostgresDifferential)
        \<longleftrightarrow> (\<forall>v \<in> managed_names spec. BackupStrategyFor spec v = BackupStrategyPostgresDifferential)"
      by (auto simp: managed_names_def)
    ultimately show ?thesis
      unfolding validateBackupItems_def
      by (auto simp: backup_item_errors_None_iff item_strategy_error_None_iff)
  qed
  ultimately show ?thesis using Some by (simp add: backup_errors_def backup_ok_def)
qed

definition spec_ok :: "(string \<Rightarrow> duration option) \<Rightarrow> ProjectSpec \<Rightarrow> string \<Rightarrow> bool" where
  "spec_ok parseDuration spec img \<longleftrightarrow>
     spec_Services spec \<noteq> [] \<and> (spec_Size spec = ProjectSizeEmpty \<or> ProjectSize_IsValid (spec_Size spec))
     \<and> (\<forall>svc \<in> set (spec_Services spec). svc_Name svc \<noteq> '''' \<and> svc_Image svc \<noteq> '''' \<and> (\<forall>e \<in> set (svc_Env svc). env_ok e))
     \<and> (\<forall>v \<in> set (spec_Volumes spec). vol_Name v \<noteq> ''''
          \<and> (vol_Type v = VolumeTypeManaged \<or> vol_Type v = VolumeTypeEphemeral))
     \<and> distinct (map vol_Name (spec_Volumes spec))
     \<and> backup_ok parseDuration spec img \<and> mounts_ok spec
     \<and> (\<forall>i \<in> set (spec_Ingress spec). ingress_ok (svc_Name ` set (spec_Services spec)) i)
     \<and> distinct (map ing_Name (spec_Ingress spec))"

text \<open>C40: The validator accepts a Project spec exactly when it satisfies the declarative contract:
  services named and with an image, environment variables with one source, volumes named once and
  of a known type, a backup policy that has something to back up and one strategy per Managed
  volume, every \<open>PostgresDifferential\<close> volume mounted by exactly one service on the required img
  at the data path with nothing in its environment that moves the data, mounts and ingress targets
  that exist.\<close>

theorem validateProjectSpecFor_iff:
  "validateProjectSpecFor parseDuration spec img = None \<longleftrightarrow> spec_ok parseDuration spec img"
  unfolding validateProjectSpecFor_def spec_ok_def
  by (auto simp: service_error_None_iff volume_errors_None_iff backup_errors_None_iff
      volume_mount_errors_None_iff ingress_errors_None_iff)

subsection \<open>Arguments passed to initdb\<close>

lemma cut_eq_SomeD: "cut_eq s = Some (a, b) \<Longrightarrow> s = a @ CHR ''='' # b"
  by (induction s arbitrary: a) (auto split: if_splits option.splits prod.splits)

definition shell_safe :: "char \<Rightarrow> bool" where
  "shell_safe c \<longleftrightarrow> initdb_value_char c \<or> c = CHR ''=''"

lemma initdbSettings_safe: "s \<in> set initdbSettings \<Longrightarrow> list_all initdb_value_char s"
  by (auto simp: initdbSettings_def initdb_value_char_def)

lemma allowedInitdbArg_parts:
  assumes "allowedInitdbArg arg"
  shows "list_all shell_safe arg" and "take 5 arg \<noteq> ''--wal'' \<or> take 14 arg = ''--wal-segsize=''"
    and "take 2 arg \<noteq> ''-X''"
proof -
  consider "arg = ''-k''" | "arg = ''--data-checksums''"
    | n v where "arg = n @ CHR ''='' # v" "n \<in> set initdbSettings" "initdbValue_match v"
    using assms by (auto simp: allowedInitdbArg_def dest: cut_eq_SomeD split: if_splits option.splits)
  note cases = this
  from cases show "list_all shell_safe arg"
  proof cases
    case 3
    then show ?thesis
      using initdbSettings_safe [OF 3(2)]
      by (auto simp: shell_safe_def initdbValue_match_def list_all_iff)
  qed (simp_all add: shell_safe_def initdb_value_char_def)
  from cases show "take 5 arg \<noteq> ''--wal'' \<or> take 14 arg = ''--wal-segsize=''"
    by cases (auto simp: initdbSettings_def)
  from cases show "take 2 arg \<noteq> ''-X''" by cases (auto simp: initdbSettings_def)
qed

text \<open>An argument the validator lets through to \<open>initdb\<close> holds no character the shell treats
  specially, and is not (a prefix of) an option that moves the write-ahead log.\<close>

theorem allowedInitdbArg_safe:
  "allowedInitdbArg arg \<Longrightarrow> list_all shell_safe arg
     \<and> (take 5 arg \<noteq> ''--wal'' \<or> take 14 arg = ''--wal-segsize='') \<and> take 2 arg \<noteq> ''-X''"
  using allowedInitdbArg_parts by blast

end
