(* ===== verification/Project_Handlers.thy ===== *)
theory Project_Handlers
  imports Adapter Spec_Validation
begin

text \<open>
  The HTTP handlers of Projects (\<open>internal/server/handler/project/handler.go\<close> and
  \<open>takeover.go\<close>), the authorization rules they rest on (\<open>internal/server/authz/authz.go\<close>) and the
  mapping of errors to status codes (\<open>internal/server/handler/errors.go\<close>). A handler takes the
  caller, the path values and the decoded body (\<open>Inl\<close> is the decoder's error text) and the store,
  and gives the store and the response. Between two store calls of one handler other sessions may
  write: \<open>gap\<close> arguments are those writes. Logging and tracing are left out.
\<close>

subsection \<open>Callers and authorization\<close>

datatype APITokenKind = APITokenKindNode | APITokenKindUser | APITokenKindOther string

fun token_kind_text :: "APITokenKind \<Rightarrow> string" where
  "token_kind_text APITokenKindNode = ''node''"
| "token_kind_text APITokenKindUser = ''user''"
| "token_kind_text (APITokenKindOther s) = s"

record Principal =
  pr_Kind :: APITokenKind
  pr_Name :: string

definition Principal_String :: "Principal \<Rightarrow> string" where
  "Principal_String p = token_kind_text (pr_Kind p) @ '':'' @ pr_Name p"

definition IsAdmin :: "Principal \<Rightarrow> bool" where
  "IsAdmin p \<longleftrightarrow> pr_Kind p = APITokenKindUser"

definition RequireAdmin :: "Principal option \<Rightarrow> api_error option" where
  "RequireAdmin caller = (case caller of
       None \<Rightarrow> Some ErrOperatorUnauthorized
     | Some p \<Rightarrow> if \<not> IsAdmin p then Some (ErrForbidden (Principal_String p @ '' may not do this'')) else None)"

definition RequireFenceOwner :: "Principal option \<Rightarrow> string \<Rightarrow> api_error option" where
  "RequireFenceOwner caller fenceNode = (case caller of
       None \<Rightarrow> None
     | Some p \<Rightarrow> if pr_Kind p \<noteq> APITokenKindNode \<or> pr_Name p = fenceNode then None
                else Some (ErrForbidden (''node '' @ pr_Name p @
                       '' presented an assignment fence for node '' @ go_quote fenceNode)))"

definition AssignedTo :: "Project \<Rightarrow> string \<Rightarrow> bool" where
  "AssignedTo p node \<longleftrightarrow> ps_NodeRef (prj_Status p) = node"

definition NodeMayRead :: "Project \<Rightarrow> string \<Rightarrow> bool" where
  "NodeMayRead p node \<longleftrightarrow> AssignedTo p node \<or> length (CleanupTasksFor p node) > 0"

definition env_references :: "string \<Rightarrow> EnvVar \<Rightarrow> bool" where
  "env_references secret env = (case env_ValueFrom env of None \<Rightarrow> False
     | Some src \<Rightarrow> (case evs_SecretKeyRef src of None \<Rightarrow> False | Some ref \<Rightarrow> sks_Name ref = secret))"

definition references :: "Project \<Rightarrow> string \<Rightarrow> bool" where
  "references p secret = list_ex (\<lambda>svc. list_ex (env_references secret) (svc_Env svc)) (spec_Services (prj_Spec p))"

datatype decision = allow | deny string | hide string

definition ownNode :: "string \<Rightarrow> string \<Rightarrow> decision" where
  "ownNode node name = (if name \<noteq> node
     then deny (''node '' @ node @ '' may act only for itself, not node '' @ go_quote name) else allow)"

definition readableProject :: "db \<Rightarrow> string \<Rightarrow> string \<Rightarrow> decision" where
  "readableProject d node name = (case GetProject d name of
       Inl _ \<Rightarrow> allow
     | Inr p \<Rightarrow> if \<not> NodeMayRead p node
               then hide (''project '' @ go_quote (meta_Name (prj_Meta p)) @ '' is neither assigned to node '' @ node @
                      '' nor owes it cleanup'')
               else allow)"

definition usedSecret :: "db \<Rightarrow> string \<Rightarrow> string \<Rightarrow> decision" where
  "usedSecret d node secret =
     (if list_ex (\<lambda>p. AssignedTo p node \<and> references p secret) (ListProjects d) then allow
      else deny (''secret '' @ go_quote secret @ '' is not referenced by any project assigned to node '' @ node))"

subsection \<open>Responses\<close>

datatype 'a response = Respond nat 'a | Problem api_error

text \<open>The status the mapping gives an error; \<open>None\<close> leaves it to the library's fallback.\<close>

definition NewProblemMapping :: "api_error \<Rightarrow> nat option" where
  "NewProblemMapping e = (case e of
       StoreError se \<Rightarrow>
         if is_not_found se then Some 404
         else if is_wrong_node se then Some 403
         else if is_already_exists se then Some 409
         else if is_conflict_state se then Some 409
         else if is_version_conflict se then Some 409
         else if is_stale se then Some 409
         else None
     | ErrOperatorUnauthorized \<Rightarrow> Some 401
     | ErrInvalidJoinToken \<Rightarrow> Some 401
     | ErrServiceNotConfigured _ \<Rightarrow> Some 503
     | ErrForbidden _ \<Rightarrow> Some 403
     | ValidationError _ _ \<Rightarrow> None)"

definition not_found_problem :: "string \<Rightarrow> 'a response" where
  "not_found_problem name = Problem (StoreError (WrappedError (''project not found: '' @ name) (ErrNotFound '''')))"

definition recreated_problem :: "string \<Rightarrow> 'a response" where
  "recreated_problem name = Problem (StoreError (WrappedError
     (''project '' @ name @ '' was deleted and recreated during this request; retry to delete the new one'')
     (ErrConflictState '''')))"

subsection \<open>Create, update, restart, list\<close>

definition created_status :: "time \<Rightarrow> ProjectSpec \<Rightarrow> ProjectStatus" where
  "created_status now spec =
     (let s = InitialProjectStatus;
          cs = RemoveConditions (ps_Conditions s) [ConditionTypeBackupActive]
      in s\<lparr>ps_Conditions := (if HasPostgresDifferential spec
             then cs @ [condition_lit ConditionTypeBackupActive ConditionFalse ReasonNoAcceptedBackup
                    ''No PostgresDifferential backup of this Project has been accepted yet'' now]
             else cs)\<rparr>)"

definition createProject ::
  "(string \<Rightarrow> duration option) \<Rightarrow> string \<Rightarrow> string \<Rightarrow> time \<Rightarrow> string + Project \<Rightarrow> db \<Rightarrow> db \<times> Project response" where
  "createProject parseDuration postgresImage uid now body d =
     (case body of
        Inl err \<Rightarrow> (d, Problem (ValidationError ''body'' (''invalid request body: '' @ err)))
      | Inr project \<Rightarrow>
          let m = prj_Meta project; name = meta_Name m in
          if name = '''' then (d, Problem (ValidationError ''metadata.name'' ''metadata.name is required''))
          else case ValidateName name of
            Some e \<Rightarrow> (d, Problem (ValidationError ''metadata.name'' e))
          | None \<Rightarrow> (case ValidateNamespace (meta_Namespace m) of
              Some e \<Rightarrow> (d, Problem (ValidationError ''metadata.namespace'' e))
            | None \<Rightarrow> (case validateProjectSpecFor parseDuration (prj_Spec project) postgresImage of
                Some e \<Rightarrow> (d, Problem e)
              | None \<Rightarrow>
                  let ns = (if meta_Namespace m = '''' then DefaultNamespace else meta_Namespace m);
                      project' = project\<lparr>prj_Meta := m\<lparr>meta_Namespace := ns\<rparr>,
                                   prj_Status := created_status now (prj_Spec project)\<rparr>
                  in case CreateProject uid now project' d of
                       (d', Inl e) \<Rightarrow> (d', Problem (StoreError (WrappedError (''project already exists: '' @ name) e)))
                     | (d', Inr created) \<Rightarrow>
                         (d', Respond 201 (created\<lparr>prj_TypeMeta := \<lparr>tm_APIVersion = APIVersion, tm_Kind = kindProject\<rparr>\<rparr>)))))"

definition update_precheck :: "db \<Rightarrow> string \<Rightarrow> Project \<Rightarrow> api_error option" where
  "update_precheck d name project = (case GetProject d name of
       Inl _ \<Rightarrow> None
     | Inr current \<Rightarrow>
         if \<not> SameBackupItems (prj_Spec current) (prj_Spec project)
         then Some (ValidationError ''spec.backup.items''
            ''spec.backup.items cannot change after the Project is created; in-place changes of backup strategy or retainFull are not supported'')
         else if ps_NodeRef (prj_Status current) \<noteq> ''''
         then (case CheckAssignedSpecChange (prj_Spec current) (prj_Spec project) of
                 None \<Rightarrow> None | Some r \<Rightarrow> Some (ValidationError (scr_Field r) (scr_Message r)))
         else None)"

definition updateProject ::
  "(string \<Rightarrow> duration option) \<Rightarrow> string \<Rightarrow> time \<Rightarrow> (db \<Rightarrow> db) \<Rightarrow> (db \<Rightarrow> db) \<Rightarrow> string \<Rightarrow> string + Project \<Rightarrow> db
   \<Rightarrow> db \<times> Project response" where
  "updateProject parseDuration postgresImage now gap1 gap2 name body d =
     (case body of
        Inl err \<Rightarrow> (d, Problem (ValidationError ''body'' (''invalid request body: '' @ err)))
      | Inr project0 \<Rightarrow>
          let m0 = prj_Meta project0 in
          if meta_Name m0 \<noteq> '''' \<and> meta_Name m0 \<noteq> name
          then (d, Problem (ValidationError ''metadata.name'' (''metadata.name '' @ go_quote (meta_Name m0) @
                 '' does not match URL path '' @ go_quote name)))
          else case ValidateNamespace (meta_Namespace m0) of
            Some e \<Rightarrow> (d, Problem (ValidationError ''metadata.namespace'' e))
          | None \<Rightarrow>
              let ns = (if meta_Namespace m0 = '''' then DefaultNamespace else meta_Namespace m0);
                  project = project0\<lparr>prj_Meta := m0\<lparr>meta_Name := name, meta_Namespace := ns\<rparr>\<rparr>
              in case validateProjectSpecFor parseDuration (prj_Spec project) postgresImage of
                   Some e \<Rightarrow> (d, Problem e)
                 | None \<Rightarrow> (case update_precheck d name project of
                     Some e \<Rightarrow> (d, Problem e)
                   | None \<Rightarrow> (case UpdateProjectSpec now project (gap1 d) of
                       (d1, Inl e) \<Rightarrow> (d1, if is_not_found e then not_found_problem name else Problem (StoreError e))
                     | (d1, Inr _) \<Rightarrow>
                         let d2 = gap2 d1 in
                         (d2, case GetProject d2 name of
                                Inl e \<Rightarrow> Problem (StoreError e) | Inr updated \<Rightarrow> Respond 200 updated))))"

definition restartProject :: "time \<Rightarrow> string \<Rightarrow> db \<Rightarrow> db \<times> Project response" where
  "restartProject now name d = (case RestartProject now name now d of
       (d', Inl e) \<Rightarrow> (d', if is_not_found e then not_found_problem name else Problem (StoreError e))
     | (d', Inr project) \<Rightarrow> (d', Respond 200
          (project\<lparr>prj_TypeMeta := \<lparr>tm_APIVersion = APIVersion, tm_Kind = kindProject\<rparr>\<rparr>)))"

definition listProjects :: "string list \<Rightarrow> string \<Rightarrow> db \<Rightarrow> Project list response" where
  "listProjects phaseValues nodeRefFilter d =
     (let projects = (case phaseValues of
            [] \<Rightarrow> ListProjects d
          | [p] \<Rightarrow> ListProjectsByPhase d (phase_of p)
          | _ \<Rightarrow> ListProjectsByPhases d (map phase_of phaseValues))
      in Respond 200 (if nodeRefFilter \<noteq> '''' then filter (\<lambda>p. ps_NodeRef (prj_Status p) = nodeRefFilter) projects
                      else projects))"

definition getProject :: "string \<Rightarrow> db \<Rightarrow> Project response" where
  "getProject name d = (case GetProject d name of
       Inl e \<Rightarrow> if is_not_found e then not_found_problem name else Problem (StoreError e)
     | Inr p \<Rightarrow> Respond 200 p)"

subsection \<open>Delete\<close>

definition mark_terminating :: "string \<Rightarrow> string \<Rightarrow> time \<Rightarrow> ProjectStatus \<Rightarrow> ProjectStatus result" where
  "mark_terminating name uid now status =
     (if ps_Phase status = ProjectPhaseTerminating \<or> ps_Phase status = ProjectPhaseTerminated then Inr status
      else if \<not> PhaseTransitionAllowed WriterDeleteAPI (ps_Phase status) ProjectPhaseTerminating
      then Inl (ErrConflictState (project_msg name @ '' is '' @ phase_text (ps_Phase status) @
             ''; it cannot enter Terminating from there''))
      else Inr (status\<lparr>ps_Phase := ProjectPhaseTerminating,
             ps_Recovery := (if ps_NodeRef status \<noteq> ''''
               then Some (AddObligation (EnsureRecovery status)
                      \<lparr>ai_ProjectUID = uid, ai_NodeName = ps_NodeRef status,
                       ai_AssignmentGeneration = ps_AssignmentGeneration status\<rparr> now ReleaseByDeletion)
               else ps_Recovery status)\<rparr>))"

definition terminate_project ::
  "(nat \<Rightarrow> interference) \<Rightarrow> time \<Rightarrow> string \<Rightarrow> Project \<Rightarrow> db \<Rightarrow> db \<times> unit response" where
  "terminate_project sched now name project d =
     (if ps_Phase (prj_Status project) = ProjectPhaseTerminating \<or> ps_Phase (prj_Status project) = ProjectPhaseTerminated
      then (d, Respond 202 ())
      else
        let uid = meta_UID (prj_Meta project) in
        case UpdateProjectStatusForUID sched name uid (on_status (mark_terminating name uid now)) d of
          (d', Inr _) \<Rightarrow> (d', Respond 202 ())
        | (d', Inl e) \<Rightarrow>
            (d', if is_not_found e then not_found_problem name
                 else if is_stale e then recreated_problem name
                 else Problem (StoreError e)))"

definition deleteProject ::
  "(nat \<Rightarrow> interference) \<Rightarrow> (db \<Rightarrow> db) \<Rightarrow> (db \<Rightarrow> db) \<Rightarrow> time \<Rightarrow> string \<Rightarrow> bool \<Rightarrow> db \<Rightarrow> db \<times> unit response" where
  "deleteProject sched gap1 gap2 now name force d =
     (case GetProject d name of
        Inl e \<Rightarrow> (d, if is_not_found e then not_found_problem name else Problem (StoreError e))
      | Inr project \<Rightarrow>
          let d1 = gap1 d in
          if force
          then (case DeleteProject name d1 of
                  (d2, Inl e) \<Rightarrow> (d2, if is_not_found e then not_found_problem name else Problem (StoreError e))
                | (d2, Inr _) \<Rightarrow> (d2, Respond 204 ()))
          else if ImmediateDeletionBlocker project = ''''
          then (case FinalizeProject name (meta_UID (prj_Meta project)) ImmediateDeletionBlocker d1 of
                  (d2, Inr _) \<Rightarrow> (d2, Respond 204 ())
                | (d2, Inl e) \<Rightarrow>
                    if is_not_found e then (d2, not_found_problem name)
                    else if is_stale e then (d2, recreated_problem name)
                    else if is_conflict_state e
                    then let d3 = gap2 d2 in
                      (case GetProject d3 name of
                         Inl ge \<Rightarrow> (d3, if is_not_found ge then not_found_problem name else Problem (StoreError ge))
                       | Inr current \<Rightarrow>
                           if meta_UID (prj_Meta current) \<noteq> meta_UID (prj_Meta project) then (d3, recreated_problem name)
                           else terminate_project sched now name current d3)
                    else (d2, Problem (StoreError e)))
          else terminate_project sched now name project d1)"

subsection \<open>Reports of an Agent\<close>

record fence_request =
  fr_UID :: string
  fr_NodeRef :: string
  fr_AssignmentGeneration :: "int option"

definition fence_ref :: "fence_request \<Rightarrow> AssignmentRef" where
  "fence_ref f = \<lparr>ref_UID = fr_UID f, ref_NodeRef = fr_NodeRef f,
     ref_Generation = (case fr_AssignmentGeneration f of None \<Rightarrow> 0 | Some g \<Rightarrow> g)\<rparr>"

text \<open>
  The check every fenced request makes: a complete fence, that the caller may present. \<open>what\<close> is the
  text that says what was asked for; \<open>resolveFence\<close>, \<open>decodeEvidenceFence\<close> and the inlined copies of
  it differ in nothing else.
\<close>

definition check_fence :: "string \<Rightarrow> Principal option \<Rightarrow> string \<Rightarrow> fence_request \<Rightarrow> api_error + AssignmentRef" where
  "check_fence what caller name f =
     (if fr_UID f = '''' \<or> fr_NodeRef f = '''' \<or> fr_AssignmentGeneration f = None
      then Inl (StoreError (ErrStaleAssignment (project_msg name @ '': '' @ what)))
      else case RequireFenceOwner caller (fr_NodeRef f) of
        Some e \<Rightarrow> Inl e
      | None \<Rightarrow> Inr (fence_ref f))"

definition resolveFence :: "Principal option \<Rightarrow> string \<Rightarrow> fence_request \<Rightarrow> api_error + AssignmentRef" where
  "resolveFence = check_fence ''request is missing an assignment fence''"

definition decodeEvidenceFence ::
  "Principal option \<Rightarrow> string \<Rightarrow> string + fence_request \<Rightarrow> api_error + AssignmentRef" where
  "decodeEvidenceFence caller name body = (case body of
       Inl err \<Rightarrow> Inl (ValidationError ''body'' (''invalid request body: '' @ err))
     | Inr f \<Rightarrow> check_fence ''evidence requires a complete assignment fence'' caller name f)"

definition writeEvidenceResult :: "string \<Rightarrow> db \<times> unit result \<Rightarrow> db \<times> unit response" where
  "writeEvidenceResult name res = (case res of
       (d, Inl e) \<Rightarrow> (d, if is_not_found e then not_found_problem name else Problem (StoreError e))
     | (d, Inr _) \<Rightarrow> (d, Respond 204 ()))"

record statusPatchRequest =
  spr_Phase :: ProjectPhase
  spr_Reason :: string
  spr_Message :: string
  spr_Fence :: fence_request

definition patch_status_mutate :: "string \<Rightarrow> statusPatchRequest \<Rightarrow> time \<Rightarrow> ProjectStatus \<Rightarrow> ProjectStatus result" where
  "patch_status_mutate name req observedAt status =
     (if \<not> PhaseTransitionAllowed WriterAgent (ps_Phase status) (spr_Phase req)
      then Inl (ErrConflictState (project_msg name @ '' is '' @ phase_text (ps_Phase status) @
             ''; an Agent cannot report it '' @ phase_text (spr_Phase req)))
      else if spr_Phase req = ProjectPhaseTerminated \<and> ps_Phase status \<noteq> ProjectPhaseTerminated
        \<and> \<not> ResourcesRemovedFor (ps_Recovery status) (ps_NodeRef status) (ps_AssignmentGeneration status)
      then Inl (ErrConflictState (project_msg name @ '': node '' @ ps_NodeRef status @
             '' has not recorded ResourcesRemoved for generation '' @ FormatInt (ps_AssignmentGeneration status)))
      else
        let transitioned = (ps_Phase status \<noteq> spr_Phase req);
            status' = status\<lparr>ps_Phase := spr_Phase req,
              ps_Recovery := (if spr_Phase req = ProjectPhaseFailed then ClearHealthyWindow (ps_Recovery status)
                              else ps_Recovery status)\<rparr>
        in if spr_Reason req = '''' \<and> spr_Message req = '''' then Inr status'
           else Inr (status'\<lparr>ps_Conditions := UpsertCondition (ps_Conditions status')
                  (condition_lit ConditionTypePhase ConditionTrue (spr_Reason req) (spr_Message req) observedAt)
                  transitioned\<rparr>))"

definition patchStatus ::
  "(nat \<Rightarrow> interference) \<Rightarrow> time \<Rightarrow> Principal option \<Rightarrow> string \<Rightarrow> string + statusPatchRequest \<Rightarrow> db \<Rightarrow> db \<times> unit response" where
  "patchStatus sched observedAt caller name body d = (case body of
       Inl err \<Rightarrow> (d, Problem (ValidationError ''body'' (''invalid request body: '' @ err)))
     | Inr req \<Rightarrow>
         if spr_Phase req = ProjectPhaseEmpty then (d, Problem (ValidationError ''phase'' ''phase is required''))
         else if \<not> ProjectPhase_IsValid (spr_Phase req)
         then (d, Problem (ValidationError ''phase'' (''invalid phase '' @ phase_text (spr_Phase req) @
                '': must be one of Pending, Scheduled, Running, Failed, Terminating, Terminated'')))
         else case resolveFence caller name (spr_Fence req) of
           Inl e \<Rightarrow> (d, Problem e)
         | Inr ref \<Rightarrow> writeEvidenceResult name
             (ReportProjectStatusFenced sched name ref (patch_status_mutate name req observedAt) d))"

record specAppliedRequest =
  sapr_Fence :: fence_request
  sapr_SpecRevision :: int
  sapr_Applied :: bool
  sapr_Reason :: string
  sapr_Message :: string

definition putSpecApplied ::
  "(nat \<Rightarrow> interference) \<Rightarrow> time \<Rightarrow> Principal option \<Rightarrow> string \<Rightarrow> string + specAppliedRequest \<Rightarrow> db \<Rightarrow> db \<times> unit response" where
  "putSpecApplied sched now caller name body d = (case body of
       Inl err \<Rightarrow> (d, Problem (ValidationError ''body'' (''invalid request body: '' @ err)))
     | Inr req \<Rightarrow>
         if sapr_SpecRevision req < 1
         then (d, Problem (ValidationError ''specRevision'' ''specRevision must be at least 1''))
         else if \<not> sapr_Applied req \<and> sapr_Reason req = ''''
         then (d, Problem (ValidationError ''reason'' ''reason is required when applied is false''))
         else case resolveFence caller name (sapr_Fence req) of
           Inl e \<Rightarrow> (d, Problem e)
         | Inr ref \<Rightarrow> writeEvidenceResult name (RecordSpecApplied sched name ref
             \<lparr>sar_Revision = sapr_SpecRevision req, sar_Applied = sapr_Applied req, sar_Reason = sapr_Reason req,
              sar_Message = sapr_Message req, sar_At = now\<rparr> d))"

subsection \<open>Agent-writable conditions\<close>

definition agentWritableConditions :: "ConditionType list" where
  "agentWritableConditions = [ConditionTypeMaintenance, ConditionTypeRecoveryBlocked, ConditionTypeTeardownBlocked,
     ConditionTypeBackupFailing, ConditionTypeDataRestored]"

definition not_writable :: "string \<Rightarrow> api_error" where
  "not_writable condType = ValidationError ''type'' (''condition type '' @ go_quote condType @ '' is not agent-writable'')"

record conditionPatchRequest =
  cpr_Status :: ConditionStatus
  cpr_Reason :: string
  cpr_Message :: string
  cpr_Fence :: fence_request

definition patchCondition ::
  "time \<Rightarrow> Principal option \<Rightarrow> string \<Rightarrow> ConditionType \<Rightarrow> string \<Rightarrow> string + conditionPatchRequest \<Rightarrow> db \<Rightarrow> db \<times> unit response" where
  "patchCondition now caller name condType condText body d =
     (if condType \<notin> set agentWritableConditions then (d, Problem (not_writable condText))
      else case body of
        Inl err \<Rightarrow> (d, Problem (ValidationError ''body'' (''invalid request body: '' @ err)))
      | Inr req \<Rightarrow>
          if cpr_Status req \<notin> {ConditionTrue, ConditionFalse, ConditionUnknown}
          then (d, Problem (ValidationError ''status'' (''status must be '' @ go_quote ''True'' @ '', '' @
                 go_quote ''False'' @ '', or '' @ go_quote ''Unknown'')))
          else case resolveFence caller name (cpr_Fence req) of
            Inl e \<Rightarrow> (d, Problem e)
          | Inr ref \<Rightarrow> writeEvidenceResult name (PatchProjectConditionFenced now name ref
              \<lparr>cond_Type = condType, cond_Status = cpr_Status req, cond_LastHeartbeatTime = now,
               cond_LastTransitionTime = now, cond_Reason = cpr_Reason req, cond_Message = cpr_Message req\<rparr> d))"

text \<open>The generation parameter is a query string: absent, not a number, or an \<open>int64\<close>.\<close>

definition deleteCondition ::
  "time \<Rightarrow> Principal option \<Rightarrow> string \<Rightarrow> ConditionType \<Rightarrow> string \<Rightarrow> string \<Rightarrow> string \<Rightarrow> (unit + int) option \<Rightarrow> db \<Rightarrow> db \<times> unit response" where
  "deleteCondition now caller name condType condText uid nodeRef generation d =
     (if condType \<notin> set agentWritableConditions then (d, Problem (not_writable condText))
      else case generation of
        Some (Inl _) \<Rightarrow> (d, Problem (ValidationError ''assignmentGeneration'' ''assignmentGeneration must be an integer''))
      | _ \<Rightarrow>
          let g = (case generation of Some (Inr n) \<Rightarrow> Some n | _ \<Rightarrow> None) in
          case resolveFence caller name \<lparr>fr_UID = uid, fr_NodeRef = nodeRef, fr_AssignmentGeneration = g\<rparr> of
            Inl e \<Rightarrow> (d, Problem e)
          | Inr ref \<Rightarrow> writeEvidenceResult name (ClearProjectConditionFenced now name ref condType d))"

subsection \<open>Evidence and backups\<close>

definition put_evidence ::
  "(AssignmentRef \<Rightarrow> db \<Rightarrow> db \<times> unit result) \<Rightarrow> Principal option \<Rightarrow> string \<Rightarrow> string + fence_request \<Rightarrow> db \<Rightarrow> db \<times> unit response" where
  "put_evidence record_op caller name body d = (case decodeEvidenceFence caller name body of
       Inl e \<Rightarrow> (d, Problem e)
     | Inr ref \<Rightarrow> writeEvidenceResult name (record_op ref d))"

definition putWorkloadStopped ::
  "(nat \<Rightarrow> interference) \<Rightarrow> time \<Rightarrow> Principal option \<Rightarrow> string \<Rightarrow> string + fence_request \<Rightarrow> db \<Rightarrow> db \<times> unit response" where
  "putWorkloadStopped sched now caller name =
     put_evidence (\<lambda>ref. RecordWorkloadStopped sched name ref now) caller name"

definition putManagedDataQuarantined ::
  "(nat \<Rightarrow> interference) \<Rightarrow> time \<Rightarrow> Principal option \<Rightarrow> string \<Rightarrow> string + fence_request \<Rightarrow> db \<Rightarrow> db \<times> unit response" where
  "putManagedDataQuarantined sched now caller name =
     put_evidence (\<lambda>ref. RecordManagedDataQuarantined sched name ref now) caller name"

definition putResourcesRemoved ::
  "(nat \<Rightarrow> interference) \<Rightarrow> time \<Rightarrow> Principal option \<Rightarrow> string \<Rightarrow> string + fence_request \<Rightarrow> db \<Rightarrow> db \<times> unit response" where
  "putResourcesRemoved sched now caller name =
     put_evidence (\<lambda>ref. RecordResourcesRemoved sched name ref now) caller name"

definition hasManagedVolume :: "ProjectSpec \<Rightarrow> string \<Rightarrow> bool" where
  "hasManagedVolume spec volume = list_ex (\<lambda>v. vol_Name v = volume \<and> vol_Type v = VolumeTypeManaged) (spec_Volumes spec)"

definition postgres_volume :: "ProjectSpec \<Rightarrow> string \<Rightarrow> bool" where
  "postgres_volume spec volume \<longleftrightarrow>
     \<not> (BackupStrategyFor spec volume \<noteq> BackupStrategyPostgresDifferential \<or> \<not> hasManagedVolume spec volume)"

record stanzaRequest =
  str_Fence :: fence_request
  str_Volume :: string

definition putStanza ::
  "(nat \<Rightarrow> interference) \<Rightarrow> (db \<Rightarrow> db) \<Rightarrow> time \<Rightarrow> Principal option \<Rightarrow> string \<Rightarrow> string + stanzaRequest \<Rightarrow> db \<Rightarrow> db \<times> unit response" where
  "putStanza sched gap now caller name body d = (case body of
       Inl err \<Rightarrow> (d, Problem (ValidationError ''body'' (''invalid request body: '' @ err)))
     | Inr req \<Rightarrow> (case check_fence ''a stanza requires a complete assignment fence'' caller name (str_Fence req) of
         Inl e \<Rightarrow> (d, Problem e)
       | Inr ref \<Rightarrow> (case GetProject d name of
           Inl e \<Rightarrow> writeEvidenceResult name (d, Inl e)
         | Inr project \<Rightarrow>
             if \<not> postgres_volume (prj_Spec project) (str_Volume req)
             then (d, Problem (ValidationError ''volume'' (''volume '' @ str_Volume req @
                    '' is not a PostgresDifferential volume of project '' @ name)))
             else writeEvidenceResult name (RecordStanza sched name ref (str_Volume req) now (gap d)))))"

text \<open>\<open>^[0-9]{8}T[0-9]{6}Z-[0-9a-f]{8}$\<close>\<close>

definition is_digit :: "char \<Rightarrow> bool" where "is_digit c \<longleftrightarrow> CHR ''0'' \<le> c \<and> c \<le> CHR ''9''"
definition is_hex :: "char \<Rightarrow> bool" where "is_hex c \<longleftrightarrow> is_digit c \<or> (CHR ''a'' \<le> c \<and> c \<le> CHR ''f'')"

definition backupIDPattern_match :: "string \<Rightarrow> bool" where
  "backupIDPattern_match s \<longleftrightarrow> length s = 25
     \<and> list_all is_digit (take 8 s) \<and> s ! 8 = CHR ''T'' \<and> list_all is_digit (take 6 (drop 9 s))
     \<and> s ! 15 = CHR ''Z'' \<and> s ! 16 = CHR ''-'' \<and> list_all is_hex (drop 17 s)"

record completionRequest =
  cmr_Fence :: fence_request
  cmr_Items :: "BackupCompletionItem list"

fun completion_item_errors :: "ProjectSpec \<Rightarrow> string \<Rightarrow> string \<Rightarrow> nat \<Rightarrow> BackupCompletionItem list \<Rightarrow> api_error option" where
  "completion_item_errors spec name uid i [] = None"
| "completion_item_errors spec name uid i (item # items) =
     (let field = ''items['' @ show_nat i @ '']'' in
      if \<not> postgres_volume spec (bci_Volume item)
      then Some (ValidationError (field @ ''.volume'') (''volume '' @ bci_Volume item @
             '' is not a PostgresDifferential volume of project '' @ name))
      else if bci_Stanza item \<noteq> StanzaName uid (bci_Volume item)
      then Some (ValidationError (field @ ''.stanza'') ''not the stanza of this lifetime's volume'')
      else if bci_Label item = '''' then Some (ValidationError (field @ ''.label'') ''a backup label is required'')
      else if bci_Type item \<noteq> ''full'' \<and> bci_Type item \<noteq> ''diff''
      then Some (ValidationError (field @ ''.type'') ''must be full or diff'')
      else completion_item_errors spec name uid (Suc i) items)"

definition putBackupCompletion ::
  "(nat \<Rightarrow> interference) \<Rightarrow> (db \<Rightarrow> db) \<Rightarrow> time \<Rightarrow> Principal option \<Rightarrow> string \<Rightarrow> string \<Rightarrow> string + completionRequest \<Rightarrow> db
   \<Rightarrow> db \<times> unit response" where
  "putBackupCompletion sched gap now caller name backupID body d = (case body of
       Inl err \<Rightarrow> (d, Problem (ValidationError ''body'' (''invalid request body: '' @ err)))
     | Inr req \<Rightarrow> (case check_fence ''a backup completion requires a complete assignment fence'' caller name (cmr_Fence req) of
         Inl e \<Rightarrow> (d, Problem e)
       | Inr ref \<Rightarrow>
           if \<not> backupIDPattern_match backupID then (d, Problem (ValidationError ''backupID'' ''not a backup ID''))
           else case GetProject d name of
             Inl e \<Rightarrow> writeEvidenceResult name (d, Inl e)
           | Inr project \<Rightarrow>
               if length (cmr_Items req) = 0
               then (d, Problem (ValidationError ''items'' ''a backup completion lists at least one item''))
               else case completion_item_errors (prj_Spec project) name (ref_UID ref) 0 (cmr_Items req) of
                 Some e \<Rightarrow> (d, Problem e)
               | None \<Rightarrow> writeEvidenceResult name (RecordBackupCompletion sched name ref
                   \<lparr>bc_BackupID = backupID, bc_NodeRef = '''', bc_AssignmentGeneration = 0, bc_AcceptedAt = now,
                    bc_ManifestKey = BackupManifestKey (ref_UID ref) backupID, bc_Items = cmr_Items req\<rparr> (gap d))))"

record committedBackupRequest =
  cbr_Fence :: fence_request
  cbr_BackupID :: string

definition putCommittedBackup ::
  "(nat \<Rightarrow> interference) \<Rightarrow> time \<Rightarrow> Principal option \<Rightarrow> string \<Rightarrow> string + committedBackupRequest \<Rightarrow> db \<Rightarrow> db \<times> unit response" where
  "putCommittedBackup sched now caller name body d = (case body of
       Inl err \<Rightarrow> (d, Problem (ValidationError ''body'' (''invalid request body: '' @ err)))
     | Inr req \<Rightarrow>
         if \<not> backupIDPattern_match (cbr_BackupID req)
         then (d, Problem (ValidationError ''backupID'' ''backupID is not a valid backup generation''))
         else case resolveFence caller name (cbr_Fence req) of
           Inl e \<Rightarrow> (d, Problem e)
         | Inr ref \<Rightarrow> writeEvidenceResult name (RecordCommittedBackup sched name ref (cbr_BackupID req) now d))"

text \<open>The cleanup listing of \<open>internal/server/handler/node/handler.go\<close>, which reads Projects only.\<close>

definition listCleanupObligations :: "string \<Rightarrow> db \<Rightarrow> CleanupTask list response" where
  "listCleanupObligations name d =
     Respond 200 (concat (map (\<lambda>p. CleanupTasksFor p name) (ListProjectsOwingCleanup d name)))"

subsection \<open>Takeover\<close>

definition maxTakeoverNoteLength :: nat where "maxTakeoverNoteLength = 1024"

record takeoverRequest =
  tr_Fence :: fence_request
  tr_RequestID :: string
  tr_Note :: string

definition operatorCaller :: "Principal option \<Rightarrow> string" where
  "operatorCaller caller = (case caller of None \<Rightarrow> ''unknown'' | Some p \<Rightarrow> Principal_String p)"

definition postTakeover ::
  "(nat \<Rightarrow> interference) \<Rightarrow> Principal option \<Rightarrow> string \<Rightarrow> string + takeoverRequest \<Rightarrow> db
   \<Rightarrow> db \<times> (TakeoverAuditRecord \<times> bool) response" where
  "postTakeover sched caller name body d = (case RequireAdmin caller of
       Some e \<Rightarrow> (d, Problem e)
     | None \<Rightarrow> (case body of
         Inl err \<Rightarrow> (d, Problem (ValidationError ''body'' (''invalid request body: '' @ err)))
       | Inr req \<Rightarrow>
           if tr_RequestID req = '''' then (d, Problem (ValidationError ''requestID'' ''requestID is required''))
           else if length (tr_Note req) > maxTakeoverNoteLength then (d, Problem (ValidationError ''note'' ''note is too long''))
           else if fr_UID (tr_Fence req) = '''' \<or> fr_NodeRef (tr_Fence req) = '''' \<or> fr_AssignmentGeneration (tr_Fence req) = None
           then (d, Problem (StoreError (ErrStaleAssignment (project_msg name @
                  '': takeover requires a complete assignment fence''))))
           else case TakeoverProject sched name (fence_ref (tr_Fence req))
                  \<lparr>tau_RequestID = tr_RequestID req, tau_Caller = operatorCaller caller, tau_Note = tr_Note req\<rparr> d of
             (d', Inl e) \<Rightarrow> (d', Problem (StoreError e))
           | (d', Inr (record', replayed)) \<Rightarrow> (d', Respond 200 (record', replayed))))"

definition getTakeoverAudit :: "Principal option \<Rightarrow> string \<Rightarrow> db \<Rightarrow> TakeoverAuditRecord list response" where
  "getTakeoverAudit caller name d = (case RequireAdmin caller of
       Some e \<Rightarrow> Problem e | None \<Rightarrow> Respond 200 (ListTakeoverAudit d name))"

end
