(* ===== verification/Ownership.thy ===== *)
theory Ownership
  imports Lifecycle
begin

text \<open>
  The abstract specification of who owns a Project: a state machine over the phase, the assigned
  Node, the assignment generation and the list of cleanup obligations, with a ghost list of every
  assignment ever granted. \<open>own_step\<close> has one rule per kind of ownership change, \<open>own_inv\<close> is its
  invariant, and the consequences at the end are what the server's writes have to deliver; the
  theory \<open>Server_System\<close> shows that they do. The numbered conjuncts of the invariant say that
  generations count grants, that the obligation list together with the current assignment is
  complete, and that a live assignment was only granted when every earlier one permitted it.
\<close>

record ownership =
  own_Phase :: ProjectPhase
  own_Node :: string
  own_Gen :: int
  own_Hist :: AssignmentHistory
  own_Obls :: "CleanupObligation list"
  own_Granted :: "AssignmentIdentity list"

abbreviation live_phase :: "ProjectPhase \<Rightarrow> bool" where
  "live_phase p \<equiv> p = ProjectPhaseScheduled \<or> p = ProjectPhaseRunning \<or> p = ProjectPhaseFailed"

abbreviation ending_phase :: "ProjectPhase \<Rightarrow> bool" where
  "ending_phase p \<equiv> p = ProjectPhaseTerminating \<or> p = ProjectPhaseTerminated"

definition ob_ids :: "CleanupObligation list \<Rightarrow> AssignmentIdentity set" where
  "ob_ids obs = ob_Assignment ` set obs"

definition clean_on :: "string \<Rightarrow> CleanupObligation \<Rightarrow> bool" where
  "clean_on node ob \<longleftrightarrow> (ai_NodeName (ob_Assignment ob) = node \<longrightarrow> Resolved ob \<and> \<not> DataOutstanding ob)"

definition current_of :: "string \<Rightarrow> ownership \<Rightarrow> AssignmentIdentity" where
  "current_of uid o' = \<lparr>ai_ProjectUID = uid, ai_NodeName = own_Node o', ai_AssignmentGeneration = own_Gen o'\<rparr>"

definition fresh_obligation :: "AssignmentIdentity \<Rightarrow> CleanupObligation \<Rightarrow> bool" where
  "fresh_obligation a ob \<longleftrightarrow> ob_Assignment ob = a \<and> ob_ResourcesRemoved ob = None"

text \<open>What may happen to a recorded obligation: evidence is added, the release is overridden.\<close>

definition improves :: "CleanupObligation \<Rightarrow> CleanupObligation \<Rightarrow> bool" where
  "improves ob ob' \<longleftrightarrow> ob_Assignment ob' = ob_Assignment ob \<and> (Resolved ob \<longrightarrow> Resolved ob')
     \<and> (PermitsAssignment ob \<longrightarrow> PermitsAssignment ob')
     \<and> (Resolved ob \<and> \<not> DataOutstanding ob \<longrightarrow> Resolved ob' \<and> \<not> DataOutstanding ob')"

inductive own_step :: "string \<Rightarrow> ownership \<Rightarrow> ownership \<Rightarrow> bool" for uid :: string where
  own_grant: "\<lbrakk>own_Phase x = ProjectPhasePending; node \<noteq> ''''; own_Gen x < max_int64;
      \<forall>ob \<in> set (own_Obls x). PermitsAssignment ob; \<forall>ob \<in> set (own_Obls x). clean_on node ob;
      y = x\<lparr>own_Phase := ProjectPhaseScheduled, own_Node := node, own_Gen := own_Gen x + 1,
            own_Hist := AssignmentHistoryKnown,
            own_Granted := own_Granted x @ [\<lparr>ai_ProjectUID = uid, ai_NodeName = node,
                                             ai_AssignmentGeneration = own_Gen x + 1\<rparr>]\<rparr>\<rbrakk>
    \<Longrightarrow> own_step uid x y"
| own_release: "\<lbrakk>live_phase (own_Phase x); fresh_obligation (current_of uid x) ob;
      y = x\<lparr>own_Phase := ProjectPhasePending, own_Node := '''', own_Obls := own_Obls x @ [ob]\<rparr>\<rbrakk>
    \<Longrightarrow> own_step uid x y"
| own_terminate: "\<lbrakk>own_Phase x = ProjectPhasePending \<or> live_phase (own_Phase x);
      own_Node x \<noteq> '''' \<longrightarrow> (\<exists>ob. fresh_obligation (current_of uid x) ob \<and> obs = own_Obls x @ [ob]);
      own_Node x = '''' \<longrightarrow> obs = own_Obls x;
      y = x\<lparr>own_Phase := ProjectPhaseTerminating, own_Obls := obs\<rparr>\<rbrakk>
    \<Longrightarrow> own_step uid x y"
| own_report: "\<lbrakk>live_phase (own_Phase x); live_phase phase; PhaseTransitionAllowed WriterAgent (own_Phase x) phase;
      y = x\<lparr>own_Phase := phase\<rparr>\<rbrakk> \<Longrightarrow> own_step uid x y"
| own_terminated: "\<lbrakk>own_Phase x = ProjectPhaseTerminating; ob \<in> set (own_Obls x); Resolved ob;
      ai_NodeName (ob_Assignment ob) = own_Node x; ai_AssignmentGeneration (ob_Assignment ob) = own_Gen x;
      y = x\<lparr>own_Phase := ProjectPhaseTerminated\<rparr>\<rbrakk>
    \<Longrightarrow> own_step uid x y"
| own_evidence: "\<lbrakk>list_all2 improves (own_Obls x) obs; y = x\<lparr>own_Obls := obs\<rparr>\<rbrakk> \<Longrightarrow> own_step uid x y"

inductive_cases own_stepE: "own_step uid x y"

definition numbered :: "string \<Rightarrow> AssignmentIdentity list \<Rightarrow> bool" where
  "numbered uid g \<longleftrightarrow> (\<forall>i < length g. ai_ProjectUID (g ! i) = uid \<and> ai_NodeName (g ! i) \<noteq> ''''
     \<and> ai_AssignmentGeneration (g ! i) = int i + 1)"

definition own_inv :: "string \<Rightarrow> ownership \<Rightarrow> bool" where
  "own_inv uid x \<longleftrightarrow>
     numbered uid (own_Granted x) \<and> own_Gen x = int (length (own_Granted x))
     \<and> distinct (map ob_Assignment (own_Obls x)) \<and> ob_ids (own_Obls x) \<subseteq> set (own_Granted x)
     \<and> (own_Phase x = ProjectPhasePending \<or> live_phase (own_Phase x) \<or> ending_phase (own_Phase x))
     \<and> (own_Phase x = ProjectPhasePending \<longrightarrow> own_Node x = '''' \<and> set (own_Granted x) \<subseteq> ob_ids (own_Obls x))
     \<and> (live_phase (own_Phase x) \<longrightarrow> own_Granted x \<noteq> [] \<and> last (own_Granted x) = current_of uid x
          \<and> own_Node x \<noteq> ''''
          \<and> ob_ids (own_Obls x) = set (butlast (own_Granted x))
          \<and> (\<forall>ob \<in> set (own_Obls x). PermitsAssignment ob \<and> clean_on (own_Node x) ob))
     \<and> (ending_phase (own_Phase x) \<longrightarrow> set (own_Granted x) \<subseteq> ob_ids (own_Obls x)
          \<and> (own_Node x \<noteq> '''' \<longrightarrow> own_Granted x \<noteq> [] \<and> last (own_Granted x) = current_of uid x))
     \<and> (own_Phase x = ProjectPhaseTerminated \<longrightarrow>
          (\<exists>ob \<in> set (own_Obls x). ob_Assignment ob = current_of uid x \<and> Resolved ob))
     \<and> (own_Hist x = AssignmentHistoryNeverAssigned \<longrightarrow> own_Granted x = [])"

definition own_initial :: ownership where
  "own_initial = \<lparr>own_Phase = ProjectPhasePending, own_Node = '''', own_Gen = 0,
     own_Hist = AssignmentHistoryNeverAssigned, own_Obls = [], own_Granted = []\<rparr>"

subsection \<open>Grants are numbered\<close>

lemma numbered_Nil [simp]: "numbered uid []"
  by (simp add: numbered_def)

lemma numbered_append:
  "numbered uid (g @ [a]) \<longleftrightarrow> numbered uid g \<and> ai_ProjectUID a = uid \<and> ai_NodeName a \<noteq> ''''
     \<and> ai_AssignmentGeneration a = int (length g) + 1"
  by (auto simp: numbered_def nth_append less_Suc_eq)

lemma numbered_mem:
  "numbered uid g \<Longrightarrow> a \<in> set g \<Longrightarrow> ai_ProjectUID a = uid \<and> ai_NodeName a \<noteq> ''''
     \<and> 1 \<le> ai_AssignmentGeneration a \<and> ai_AssignmentGeneration a \<le> int (length g)"
  by (auto simp: numbered_def in_set_conv_nth)

lemma numbered_inj:
  assumes "numbered uid g" "a \<in> set g" "b \<in> set g" "ai_AssignmentGeneration a = ai_AssignmentGeneration b"
  shows "a = b"
  using assms by (auto simp: numbered_def in_set_conv_nth)

lemma numbered_distinct: "numbered uid g \<Longrightarrow> distinct g"
  by (auto simp: numbered_def distinct_conv_nth) (metis add_right_cancel of_nat_eq_iff)

lemma numbered_last_notin: "numbered uid g \<Longrightarrow> g \<noteq> [] \<Longrightarrow> last g \<notin> set (butlast g)"
  using numbered_distinct [of uid g] by (metis append_butlast_last_id distinct.simps(2) distinct_append disjoint_iff list.set_intros(1))

lemma set_last_butlast: "g \<noteq> [] \<Longrightarrow> set g = insert (last g) (set (butlast g))"
  by (metis Un_insert_right append_butlast_last_id list.simps(15) empty_set set_append sup_bot_right)

subsection \<open>Obligations\<close>

lemma improves_ids: "list_all2 improves obs obs' \<Longrightarrow> map ob_Assignment obs' = map ob_Assignment obs"
  by (induction rule: list_all2_induct) (auto simp: improves_def)

lemma improves_ob_ids: "list_all2 improves obs obs' \<Longrightarrow> ob_ids obs' = ob_ids obs"
  by (metis improves_ids list.set_map ob_ids_def)

lemma improves_all:
  assumes "list_all2 improves obs obs'" "\<forall>ob \<in> set obs. P ob" "\<And>ob ob'. improves ob ob' \<Longrightarrow> P ob \<Longrightarrow> P ob'"
  shows "\<forall>ob \<in> set obs'. P ob"
  using assms(1,2) by (induction rule: list_all2_induct) (auto intro: assms(3))

lemma improves_ex:
  assumes "list_all2 improves obs obs'" "ob \<in> set obs"
  shows "\<exists>ob' \<in> set obs'. improves ob ob'"
  using assms by (induction rule: list_all2_induct) auto

lemma improves_permits_clean:
  "improves ob ob' \<Longrightarrow> PermitsAssignment ob \<and> clean_on n ob \<Longrightarrow> PermitsAssignment ob' \<and> clean_on n ob'"
  by (auto simp: improves_def clean_on_def)

lemma ob_ids_append [simp]: "ob_ids (obs @ [ob]) = insert (ob_Assignment ob) (ob_ids obs)"
  by (simp add: ob_ids_def)

subsection \<open>The invariant\<close>

lemma own_inv_initial: "own_inv uid own_initial"
  by (simp add: own_inv_def own_initial_def ob_ids_def)

text \<open>A fresh obligation for the current assignment of a live Project completes the list.\<close>

lemma own_add_obligation:
  assumes "own_inv uid x" "live_phase (own_Phase x)" "fresh_obligation (current_of uid x) ob"
  shows "ob_ids (own_Obls x @ [ob]) = set (own_Granted x)"
    and "distinct (map ob_Assignment (own_Obls x @ [ob]))"
proof -
  have g: "own_Granted x \<noteq> []" "last (own_Granted x) = current_of uid x"
    "ob_ids (own_Obls x) = set (butlast (own_Granted x))" "numbered uid (own_Granted x)"
    "distinct (map ob_Assignment (own_Obls x))"
    using assms(1,2) by (auto simp: own_inv_def)
  have a: "ob_Assignment ob = last (own_Granted x)" using assms(3) g(2) by (simp add: fresh_obligation_def)
  show "ob_ids (own_Obls x @ [ob]) = set (own_Granted x)"
    using g(3) a set_last_butlast [OF g(1)] by simp
  have "last (own_Granted x) \<notin> ob_ids (own_Obls x)" using numbered_last_notin [OF g(4,1)] g(3) by simp
  then show "distinct (map ob_Assignment (own_Obls x @ [ob]))" using g(5) a by (auto simp: ob_ids_def)
qed

lemma own_inv_grant:
  assumes "own_inv uid x" "own_Phase x = ProjectPhasePending" "node \<noteq> ''''"
    "\<forall>ob \<in> set (own_Obls x). PermitsAssignment ob" "\<forall>ob \<in> set (own_Obls x). clean_on node ob"
  shows "own_inv uid (x\<lparr>own_Phase := ProjectPhaseScheduled, own_Node := node, own_Gen := own_Gen x + 1,
            own_Hist := AssignmentHistoryKnown,
            own_Granted := own_Granted x @ [\<lparr>ai_ProjectUID = uid, ai_NodeName = node,
                                             ai_AssignmentGeneration = own_Gen x + 1\<rparr>]\<rparr>)"
  using assms by (auto simp: own_inv_def numbered_append current_of_def)

lemma own_inv_release:
  assumes "own_inv uid x" "live_phase (own_Phase x)" "fresh_obligation (current_of uid x) ob"
  shows "own_inv uid (x\<lparr>own_Phase := ProjectPhasePending, own_Node := '''', own_Obls := own_Obls x @ [ob]\<rparr>)"
  using assms(1) own_add_obligation [OF assms] unfolding own_inv_def by simp

lemma own_inv_terminate:
  assumes "own_inv uid x" "own_Phase x = ProjectPhasePending \<or> live_phase (own_Phase x)"
    "own_Node x \<noteq> '''' \<longrightarrow> (\<exists>ob. fresh_obligation (current_of uid x) ob \<and> obs = own_Obls x @ [ob])"
    "own_Node x = '''' \<longrightarrow> obs = own_Obls x"
  shows "own_inv uid (x\<lparr>own_Phase := ProjectPhaseTerminating, own_Obls := obs\<rparr>)"
proof (cases "own_Node x = ''''")
  case True
  then have "own_Phase x = ProjectPhasePending" using assms(1,2) by (auto simp: own_inv_def)
  with True assms show ?thesis by (simp add: own_inv_def)
next
  case False
  then have live: "live_phase (own_Phase x)" using assms(1,2) by (auto simp: own_inv_def)
  from False assms(3) obtain ob where ob: "fresh_obligation (current_of uid x) ob" "obs = own_Obls x @ [ob]" by blast
  have "last (own_Granted x) = current_of uid x" "own_Granted x \<noteq> []"
    using assms(1) live by (auto simp: own_inv_def)
  then show ?thesis
    using assms(1) own_add_obligation [OF assms(1) live ob(1)] ob(2) unfolding own_inv_def current_of_def by simp
qed

lemma own_inv_evidence:
  assumes "own_inv uid x" "list_all2 improves (own_Obls x) obs"
  shows "own_inv uid (x\<lparr>own_Obls := obs\<rparr>)"
proof -
  have "\<forall>ob \<in> set obs. PermitsAssignment ob \<and> clean_on (own_Node x) ob" if "live_phase (own_Phase x)"
  proof (rule improves_all [OF assms(2)])
    show "\<forall>ob \<in> set (own_Obls x). PermitsAssignment ob \<and> clean_on (own_Node x) ob"
      using that assms(1) unfolding own_inv_def by blast
  qed (rule improves_permits_clean)
  moreover have "\<exists>ob \<in> set obs. ob_Assignment ob = current_of uid x \<and> Resolved ob"
    if T: "own_Phase x = ProjectPhaseTerminated"
  proof -
    have "\<exists>ob \<in> set (own_Obls x). ob_Assignment ob = current_of uid x \<and> Resolved ob"
      using assms(1) T unfolding own_inv_def by simp
    then obtain ob where "ob \<in> set (own_Obls x)" "ob_Assignment ob = current_of uid x" "Resolved ob" by blast
    with improves_ex [OF assms(2)] show ?thesis unfolding improves_def by metis
  qed
  ultimately show ?thesis
    using assms(1) improves_ids [OF assms(2)] improves_ob_ids [OF assms(2)]
    unfolding own_inv_def by (simp add: current_of_def)
qed

lemma own_inv_terminated:
  assumes "own_inv uid x" "own_Phase x = ProjectPhaseTerminating" "ob \<in> set (own_Obls x)" "Resolved ob"
    "ai_NodeName (ob_Assignment ob) = own_Node x" "ai_AssignmentGeneration (ob_Assignment ob) = own_Gen x"
  shows "own_inv uid (x\<lparr>own_Phase := ProjectPhaseTerminated\<rparr>)"
proof -
  have "ob_Assignment ob \<in> set (own_Granted x)" "numbered uid (own_Granted x)"
    using assms(1,3) by (auto simp: own_inv_def ob_ids_def)
  then have "ob_Assignment ob = current_of uid x"
    using numbered_mem assms(5,6) by (auto simp: current_of_def)
  with assms(1-4) show ?thesis by (auto simp: own_inv_def current_of_def)
qed

lemma own_inv_step: "own_step uid x y \<Longrightarrow> own_inv uid x \<Longrightarrow> own_inv uid y"
proof (induction rule: own_step.induct)
  case (own_grant x node y)
  then show ?case using own_inv_grant by simp
next
  case (own_release x ob y)
  then show ?case using own_inv_release by simp
next
  case (own_terminate x obs y)
  then show ?case using own_inv_terminate by simp
next
  case (own_report x phase y)
  then show ?case by (auto simp: own_inv_def current_of_def)
next
  case (own_terminated x ob y)
  then show ?case using own_inv_terminated by simp
next
  case (own_evidence x obs y)
  then show ?case using own_inv_evidence by simp
qed

subsection \<open>What the invariant gives\<close>

text \<open>Every assignment ever granted is the current one or is on the list.\<close>

lemma own_complete:
  assumes "own_inv uid x" "a \<in> set (own_Granted x)"
  shows "a \<in> ob_ids (own_Obls x) \<or> (live_phase (own_Phase x) \<and> a = current_of uid x)"
  using assms set_last_butlast [of "own_Granted x"] unfolding own_inv_def by (cases "own_Granted x = []") auto

lemma own_single_owner:
  assumes "own_inv uid x" "live_phase (own_Phase x)" "a \<in> set (own_Granted x)" "a \<noteq> current_of uid x"
  shows "\<exists>ob \<in> set (own_Obls x). ob_Assignment ob = a \<and> PermitsAssignment ob"
proof -
  obtain ob where "ob \<in> set (own_Obls x)" "ob_Assignment ob = a"
    using own_complete [OF assms(1,3)] assms(4) unfolding ob_ids_def by blast
  moreover have "\<forall>ob \<in> set (own_Obls x). PermitsAssignment ob"
    using assms(1,2) unfolding own_inv_def by blast
  ultimately show ?thesis by blast
qed

lemma own_finalizable:
  assumes "own_inv uid x" "ending_phase (own_Phase x)" "\<forall>ob \<in> set (own_Obls x). Resolved ob"
  shows "\<forall>a \<in> set (own_Granted x). \<exists>ob \<in> set (own_Obls x). ob_Assignment ob = a \<and> Resolved ob"
proof
  fix a assume "a \<in> set (own_Granted x)"
  then have "a \<in> ob_ids (own_Obls x)" using assms(1,2) unfolding own_inv_def by blast
  then show "\<exists>ob \<in> set (own_Obls x). ob_Assignment ob = a \<and> Resolved ob" using assms(3) unfolding ob_ids_def by blast
qed

text \<open>A step changes the phase only as some writer of the transition table may.\<close>

lemma own_step_phase:
  "own_step uid x y \<Longrightarrow> own_Phase y = own_Phase x \<or> (\<exists>w. PhaseTransitionAllowed w (own_Phase x) (own_Phase y))"
  by (induction rule: own_step.induct) (auto simp: writer_transitions; metis writer_transitions insert_iff)+

text \<open>The history of grants only grows, so a lost assignment never becomes current again.\<close>

lemma own_step_granted: "own_step uid x y \<Longrightarrow> \<exists>g. own_Granted y = own_Granted x @ g"
  by (induction rule: own_step.induct) auto

lemma own_step_lost:
  assumes "own_step uid x y" "own_inv uid x" "a \<in> set (own_Granted x)" "own_Node x \<noteq> ai_NodeName a \<or> own_Gen x \<noteq> ai_AssignmentGeneration a"
  shows "own_Node y \<noteq> ai_NodeName a \<or> own_Gen y \<noteq> ai_AssignmentGeneration a"
proof -
  have "1 \<le> ai_AssignmentGeneration a" "ai_AssignmentGeneration a \<le> own_Gen x" "ai_NodeName a \<noteq> ''''"
    using assms(2,3) numbered_mem [of uid "own_Granted x" a] by (auto simp: own_inv_def)
  with assms(1,4) show ?thesis by (induction rule: own_step.induct) auto
qed

end
