(* ===== verification/Closure_Refinement.thy ===== *)
theory Closure_Refinement
  imports Project_Handlers Ownership
begin

text \<open>
  Every status mutation of the server refines the ownership state machine: seen through
  \<open>ownership_of\<close>, a closure either changes nothing or makes one of its steps. The lemmas marked
  \<open>status_frame\<close> are the mutations that leave ownership alone.
\<close>

definition ownership_of :: "ProjectStatus \<Rightarrow> AssignmentIdentity list \<Rightarrow> ownership" where
  "ownership_of s g = \<lparr>own_Phase = ps_Phase s, own_Node = ps_NodeRef s, own_Gen = ps_AssignmentGeneration s,
     own_Hist = ps_AssignmentHistory s, own_Obls = obligations (ps_Recovery s), own_Granted = g\<rparr>"

definition keeps_ownership :: "ProjectStatus \<Rightarrow> ProjectStatus \<Rightarrow> bool" where
  "keeps_ownership s s' \<longleftrightarrow> ps_Phase s' = ps_Phase s \<and> ps_NodeRef s' = ps_NodeRef s
     \<and> ps_AssignmentGeneration s' = ps_AssignmentGeneration s \<and> ps_AssignmentHistory s' = ps_AssignmentHistory s
     \<and> obligations (ps_Recovery s') = obligations (ps_Recovery s)"

text \<open>The assignments granted so far, after a write that may have granted one more.\<close>

definition granted_after :: "string \<Rightarrow> ProjectStatus \<Rightarrow> ProjectStatus \<Rightarrow> AssignmentIdentity list \<Rightarrow> AssignmentIdentity list" where
  "granted_after uid s s' g = (if ps_AssignmentGeneration s' = ps_AssignmentGeneration s then g
     else g @ [\<lparr>ai_ProjectUID = uid, ai_NodeName = ps_NodeRef s', ai_AssignmentGeneration = ps_AssignmentGeneration s'\<rparr>])"

definition refines :: "string \<Rightarrow> ProjectStatus \<Rightarrow> ProjectStatus \<Rightarrow> bool" where
  "refines uid s s' \<longleftrightarrow> (\<forall>g. own_inv uid (ownership_of s g) \<longrightarrow>
     ownership_of s' (granted_after uid s s' g) = ownership_of s g
     \<or> own_step uid (ownership_of s g) (ownership_of s' (granted_after uid s s' g)))"

lemma ownership_simps [simp]:
  "own_Phase (ownership_of s g) = ps_Phase s" "own_Node (ownership_of s g) = ps_NodeRef s"
  "own_Gen (ownership_of s g) = ps_AssignmentGeneration s" "own_Hist (ownership_of s g) = ps_AssignmentHistory s"
  "own_Obls (ownership_of s g) = obligations (ps_Recovery s)" "own_Granted (ownership_of s g) = g"
  by (simp_all add: ownership_of_def)

lemma keeps_refines: "keeps_ownership s s' \<Longrightarrow> refines uid s s'"
  by (simp add: refines_def keeps_ownership_def granted_after_def ownership_of_def)

lemma keeps_refl [simp]: "keeps_ownership s s" "refines uid s s"
  by (simp_all add: keeps_ownership_def keeps_refines)

lemma refines_inv: "refines uid s s' \<Longrightarrow> own_inv uid (ownership_of s g) \<Longrightarrow>
    own_inv uid (ownership_of s' (granted_after uid s s' g))"
  unfolding refines_def by (metis own_inv_step)

subsection \<open>Mutations that leave ownership alone\<close>

lemma condition_marks_keep [status_frame]:
  "scheduling_blocked reason message now s = Inr s' \<Longrightarrow> keeps_ownership s s'"
  "finalization_blocked reason now s = Inr s' \<Longrightarrow> keeps_ownership s s'"
  "clear_clocks node t s = Inr s' \<Longrightarrow> keeps_ownership s s'"
  "terminating_at t s = Inr s' \<Longrightarrow> keeps_ownership s s'"
  "not_ready_at t s = Inr s' \<Longrightarrow> keeps_ownership s s'"
  "termination_blocked node t s = Inr s' \<Longrightarrow> keeps_ownership s s'"
  "reschedule_exhausted message now s = Inr s' \<Longrightarrow> keeps_ownership s s'"
  unfolding scheduling_blocked_def finalization_blocked_def clear_clocks_def terminating_at_def
    not_ready_at_def termination_blocked_def reschedule_exhausted_def keeps_ownership_def
  by (auto split: if_splits)

lemma takeover_required_keep [status_frame]: "keeps_ownership s (takeover_required m now s)"
  by (simp add: keeps_ownership_def takeover_required_def)

lemma workload_stopped_keep [status_frame]:
  "workload_stopped name a t s = Inr s' \<Longrightarrow> keeps_ownership s s'"
  by (auto simp: workload_stopped_def keeps_ownership_def split: if_splits)

lemma backup_reports_keep [status_frame]:
  "committed_backup name ref b t s = Inr s' \<Longrightarrow> keeps_ownership s s'"
  "record_stanza name ref v t s = Inr s' \<Longrightarrow> keeps_ownership s s'"
  "backup_completion name ref c s = Inr s' \<Longrightarrow> keeps_ownership s s'"
  unfolding committed_backup_def record_stanza_def backup_completion_def Let_def keeps_ownership_def
  by (auto split: if_splits)

lemma spec_reports_keep [status_frame]:
  "spec_applied name report meta s = Inr s' \<Longrightarrow> keeps_ownership s s'"
  "keeps_ownership s (spec_change_status now changed rev' s)"
  unfolding spec_applied_def spec_change_status_def Let_def keeps_ownership_def
  by (auto split: if_splits)

lemma conditions_keep [status_frame]:
  "keeps_ownership s (s\<lparr>ps_Conditions := cs\<rparr>)" "keeps_ownership s (s\<lparr>ps_FailedNodes := ns\<rparr>)"
  by (simp_all add: keeps_ownership_def)

subsection \<open>Granting\<close>

lemma schedule_status_cases:
  assumes "schedule_status name node now s = Inr s'"
  obtains (reassert) "s' = s" "ps_Phase s = ProjectPhaseScheduled" "ps_NodeRef s = node"
  | (grant) "ps_Phase s = ProjectPhasePending"
      "\<forall>ob \<in> set (obligations (ps_Recovery s)). PermitsAssignment ob"
      "\<forall>ob \<in> set (obligations (ps_Recovery s)). clean_on node ob"
      "ps_Phase s' = ProjectPhaseScheduled" "ps_NodeRef s' = node"
      "ps_AssignmentGeneration s' = wrap64 (ps_AssignmentGeneration s + 1)"
      "ps_AssignmentHistory s' = AssignmentHistoryKnown"
      "ps_Recovery s' = ClearForNewAssignment (ps_Recovery s)"
proof (cases "ps_Phase s = ProjectPhaseScheduled \<and> ps_NodeRef s = node")
  case True
  with assms reassert show ?thesis by (simp add: schedule_status_def)
next
  case False
  have p: "ps_Phase s = ProjectPhasePending"
    using assms False by (auto simp: schedule_status_def scheduler_transition split: if_splits)
  have b: "BlockingObligation (ps_Recovery s) = None"
    using assms False by (auto simp: schedule_status_def split: if_splits option.splits)
  have n: "node \<notin> set (NodesOwingCleanup (ps_Recovery s))"
    using assms False b by (auto simp: schedule_status_def split: if_splits)
  have c: "\<forall>ob \<in> set (obligations (ps_Recovery s)). clean_on node ob"
    using n by (auto simp: NodesOwingCleanup_iff clean_on_def)
  show ?thesis
    by (rule grant) (use assms False p b n c BlockingObligation_None_iff in
        \<open>auto simp: schedule_status_def scheduler_transition Let_def\<close>)
qed

lemma schedule_refines:
  assumes "schedule_status name node now s = Inr s'" "node \<noteq> ''''" "ps_AssignmentGeneration s < max_int64"
  shows "refines uid s s'"
  using assms(1)
proof (cases rule: schedule_status_cases)
  case reassert
  then show ?thesis by simp
next
  case grant
  show ?thesis unfolding refines_def
  proof (intro allI impI disjI2)
    fix g assume inv: "own_inv uid (ownership_of s g)"
    then have "0 \<le> ps_AssignmentGeneration s" by (simp add: own_inv_def)
    then have "ps_AssignmentGeneration s' = ps_AssignmentGeneration s + 1"
      using grant(6) assms(3) wrap64_succ [of "ps_AssignmentGeneration s"] by (simp add: min_int64_def)
    then show "own_step uid (ownership_of s g) (ownership_of s' (granted_after uid s s' g))"
      using grant assms(2,3)
      by (intro own_step.own_grant [where node = node]) (simp_all add: ownership_of_def granted_after_def)
  qed
qed

subsection \<open>Releasing\<close>

lemma update_first_snoc:
  "(\<And>x. x \<in> set xs \<Longrightarrow> \<not> P x) \<Longrightarrow> P y \<Longrightarrow> update_first P f (xs @ [y]) = xs @ [f y]"
  by (induction xs) auto

lemma owe_after_add:
  assumes "FindObligation (Some r) a = None"
  shows "rec_CleanupObligations (OweManagedData (AddObligation r a t k) a) =
     rec_CleanupObligations r @ [(obligation_new a t k)\<lparr>ob_ManagedDataOwed := True\<rparr>]"
proof -
  have "\<not> ob_Assignment ob = a" if "ob \<in> set (rec_CleanupObligations r)" for ob
    using assms that by (auto simp: FindObligation_None_iff obligation_ids_def)
  then have "update_first (\<lambda>ob. ob_Assignment ob = a) f (rec_CleanupObligations r @ [obligation_new a t k])
      = rec_CleanupObligations r @ [f (obligation_new a t k)]" for f
    by (intro update_first_snoc) (auto simp: obligation_new_def)
  then show ?thesis
    using assms by (simp add: OweManagedData_def find_AddObligation obligations_AddObligation)
qed

lemma fresh_obligation_new: "fresh_obligation a (obligation_new a t k)"
    "fresh_obligation a ((obligation_new a t k)\<lparr>ob_ManagedDataOwed := b\<rparr>)"
  by (simp_all add: fresh_obligation_def obligation_new_def)

lemma live_not_recorded:
  assumes "own_inv uid (ownership_of s g)" "live_phase (ps_Phase s)"
  shows "FindObligation (ps_Recovery s) (current_of uid (ownership_of s g)) = None"
proof -
  have "g \<noteq> []" "numbered uid g" "last g = current_of uid (ownership_of s g)"
    "ob_ids (obligations (ps_Recovery s)) = set (butlast g)"
    using assms unfolding own_inv_def by auto
  then have "current_of uid (ownership_of s g) \<notin> ob_ids (obligations (ps_Recovery s))"
    using numbered_last_notin [of uid g] by simp
  then show ?thesis by (simp add: FindObligation_None_iff obligation_ids_def ob_ids_def)
qed

text \<open>A write that clears the assignment of a live Project and records it is a release.\<close>

lemma release_refines:
  assumes "live_phase (ps_Phase s)" "ps_Phase s' = ProjectPhasePending" "ps_NodeRef s' = ''''"
    "ps_AssignmentGeneration s' = ps_AssignmentGeneration s" "ps_AssignmentHistory s' = ps_AssignmentHistory s"
    "\<And>a. a = \<lparr>ai_ProjectUID = uid, ai_NodeName = ps_NodeRef s, ai_AssignmentGeneration = ps_AssignmentGeneration s\<rparr> \<Longrightarrow>
       FindObligation (ps_Recovery s) a = None \<Longrightarrow>
       \<exists>ob. fresh_obligation a ob \<and> obligations (ps_Recovery s') = obligations (ps_Recovery s) @ [ob]"
  shows "refines uid s s'"
  unfolding refines_def
proof (intro allI impI disjI2)
  fix g assume inv: "own_inv uid (ownership_of s g)"
  have "current_of uid (ownership_of s g) =
      \<lparr>ai_ProjectUID = uid, ai_NodeName = ps_NodeRef s, ai_AssignmentGeneration = ps_AssignmentGeneration s\<rparr>"
    by (simp add: current_of_def)
  with assms(6) live_not_recorded [OF inv assms(1)] obtain ob
    where "fresh_obligation (current_of uid (ownership_of s g)) ob"
      "obligations (ps_Recovery s') = obligations (ps_Recovery s) @ [ob]" by metis
  then show "own_step uid (ownership_of s g) (ownership_of s' (granted_after uid s s' g))"
    using assms(1-5) by (intro own_step.own_release [where ob = ob]) (simp_all add: ownership_of_def granted_after_def)
qed

lemma released_recovery_fresh:
  assumes "FindObligation (ps_Recovery s) a = None"
  shows "\<exists>ob. fresh_obligation a ob \<and>
     rec_CleanupObligations (released_recovery s a now k m) = obligations (ps_Recovery s) @ [ob]"
proof -
  have "FindObligation (Some (EnsureRecovery s)) a = None" using assms by simp
  from owe_after_add [OF this, of now k] this show ?thesis
    by (auto simp: released_recovery_def Let_def obligations_AddObligation intro: fresh_obligation_new)
qed

lemma release_status_cases:
  assumes "release_status grace p now d meta s = Inr (s', released)"
  obtains (kept) "\<not> released" "keeps_ownership s s'"
  | (released) k m cs where "released" "ps_NodeRef s = snap_NodeRef p" "ps_AssignmentGeneration s = snap_AssignmentGeneration p"
      "ps_Phase s = ProjectPhaseScheduled \<or> ps_Phase s = ProjectPhaseRunning"
      "s' = s\<lparr>ps_Phase := ProjectPhasePending, ps_NodeRef := '''',
              ps_Recovery := Some (released_recovery s (snapshot_assignment p) now k m), ps_Conditions := cs\<rparr>"
      "k = ReleaseByWorkloadStopped \<and> WorkloadStoppedFor (ps_Recovery s) (snapshot_assignment p)
         \<or> k = ReleaseByGraceExpired \<and> grace"
      "\<exists>project. GetProject d (snap_Name p) = Inr project \<and> m = HasManagedVolume (prj_Spec project)"
proof -
  have g: "ps_NodeRef s = snap_NodeRef p" "ps_AssignmentGeneration s = snap_AssignmentGeneration p"
      "ps_Phase s = ProjectPhaseScheduled \<or> ps_Phase s = ProjectPhaseRunning"
    using assms by (auto simp: release_status_def Let_def rescheduler_transition split: if_splits)
  obtain r where r: "row_at d (snap_Name p) = Some r"
    using assms g by (cases "row_at d (snap_Name p)")
      (auto simp: release_status_def Let_def rescheduler_transition GetProject_def)
  let ?stopped = "WorkloadStoppedFor (ps_Recovery s) (snapshot_assignment p)"
  let ?k = "if ?stopped then ReleaseByWorkloadStopped else ReleaseByGraceExpired"
  note run = assms [unfolded release_status_def Let_def GetProject_def r, simplified g(1,2), simplified]
  have "released \<and> (?stopped \<or> grace) \<and> s' = s\<lparr>ps_Phase := ProjectPhasePending, ps_NodeRef := '''',
      ps_Recovery := Some (released_recovery s (snapshot_assignment p) now ?k (HasManagedVolume (row_spec r))),
      ps_Conditions := ps_Conditions s'\<rparr> \<or> \<not> released \<and> (\<exists>m. s' = takeover_required m now s)"
    using run g(1,2) by (cases ?stopped) (auto split: if_splits)
  then show ?thesis
  proof
    assume *: "released \<and> (?stopped \<or> grace) \<and> s' = s\<lparr>ps_Phase := ProjectPhasePending, ps_NodeRef := '''',
      ps_Recovery := Some (released_recovery s (snapshot_assignment p) now ?k (HasManagedVolume (row_spec r))),
      ps_Conditions := ps_Conditions s'\<rparr>"
    show ?thesis
      by (rule released [OF _ g conjunct2 [OF conjunct2 [OF *]]]) (use * r in auto)
  next
    assume "\<not> released \<and> (\<exists>m. s' = takeover_required m now s)"
    then show ?thesis using kept takeover_required_keep by blast
  qed
qed

lemma release_status_refines:
  assumes "release_status grace p now d meta s = Inr (s', released)" "snap_UID p = uid"
  shows "refines uid s s'"
  using assms(1)
proof (cases rule: release_status_cases)
  case kept
  then show ?thesis by (simp add: keeps_refines)
next
  case (released k m cs)
  have a: "snapshot_assignment p = \<lparr>ai_ProjectUID = uid, ai_NodeName = ps_NodeRef s,
      ai_AssignmentGeneration = ps_AssignmentGeneration s\<rparr>"
    using released(2,3) assms(2) by (simp add: snapshot_assignment_def)
  show ?thesis
    by (rule release_refines) (use released released_recovery_fresh [of s] a in auto)
qed

lemma move_failed_cases:
  assumes "move_failed_status p message now d meta s = Inr (s', moved)"
  obtains (kept) "\<not> moved" "keeps_ownership s s'"
  | (moved) m cs fs where "moved" "ps_NodeRef s = snap_NodeRef p" "ps_AssignmentGeneration s = snap_AssignmentGeneration p"
      "ps_Phase s = ProjectPhaseFailed" "WorkloadStoppedFor (ps_Recovery s) (snapshot_assignment p)"
      "s' = s\<lparr>ps_FailedNodes := fs, ps_Phase := ProjectPhasePending, ps_NodeRef := '''',
              ps_Recovery := Some (released_recovery s (snapshot_assignment p) now ReleaseByWorkloadStopped m),
              ps_Conditions := cs\<rparr>"
      "snap_NodeRef p \<in> set fs"
proof (cases moved)
  case False
  then have "s' = s \<or> (\<exists>m. s' = takeover_required m now s)"
    using assms by (auto simp: move_failed_status_def Let_def split: if_splits sum.splits)
  with False show ?thesis using kept takeover_required_keep by (metis keeps_refl(1))
next
  case True
  have g: "ps_NodeRef s = snap_NodeRef p" "ps_AssignmentGeneration s = snap_AssignmentGeneration p"
      "ps_Phase s = ProjectPhaseFailed" "WorkloadStoppedFor (ps_Recovery s) (snapshot_assignment p)"
    using assms True by (auto simp: move_failed_status_def Let_def failed_transition split: if_splits)
  obtain project where p: "GetProject d (snap_Name p) = Inr project"
    using assms g by (cases "GetProject d (snap_Name p)")
      (auto simp: move_failed_status_def Let_def failed_transition)
  show ?thesis
    by (rule moved [where fs = "ps_FailedNodes s'" and m = "HasManagedVolume (prj_Spec project)"
          and cs = "ps_Conditions s'"])
      (use assms g p True in \<open>auto simp: move_failed_status_def Let_def failed_transition split: if_splits\<close>)
qed

lemma move_failed_refines:
  assumes "move_failed_status p message now d meta s = Inr (s', moved)" "snap_UID p = uid"
  shows "refines uid s s'"
  using assms(1)
proof (cases rule: move_failed_cases)
  case kept
  then show ?thesis by (simp add: keeps_refines)
next
  case (moved m cs fs)
  have a: "snapshot_assignment p = \<lparr>ai_ProjectUID = uid, ai_NodeName = ps_NodeRef s,
      ai_AssignmentGeneration = ps_AssignmentGeneration s\<rparr>"
    using moved(2,3) assms(2) by (simp add: snapshot_assignment_def)
  show ?thesis
    by (rule release_refines) (use moved released_recovery_fresh [of s] a in auto)
qed

subsection \<open>Evidence and overrides\<close>

lemma improves_refl: "improves ob ob"
  by (simp add: improves_def)

lemma improves_update_first:
  assumes "\<And>ob. ob \<in> set obs \<Longrightarrow> ob_Assignment ob = a \<Longrightarrow> improves ob (f ob)"
  shows "list_all2 improves obs (update_first (\<lambda>ob. ob_Assignment ob = a) f obs)"
  using assms by (induction obs) (auto simp: improves_refl list_all2_same)

lemma evidence_refines:
  assumes "ps_Phase s' = ps_Phase s" "ps_NodeRef s' = ps_NodeRef s"
    "ps_AssignmentGeneration s' = ps_AssignmentGeneration s" "ps_AssignmentHistory s' = ps_AssignmentHistory s"
    "list_all2 improves (obligations (ps_Recovery s)) (obligations (ps_Recovery s'))"
  shows "refines uid s s'"
  unfolding refines_def
  using assms by (auto simp: granted_after_def ownership_of_def intro!: own_step.own_evidence)

lemma resources_removed_refines:
  assumes "resources_removed name a t s = Inr s'"
  shows "refines uid s s'"
proof -
  obtain r ob where r: "ps_Recovery s = Some r" "FindObligation (Some r) a = Some ob"
    using assms by (cases "ps_Recovery s") (auto simp: resources_removed_def FindObligation_def split: option.splits)
  have "list_all2 improves (rec_CleanupObligations r) (rec_CleanupObligations (modify_obligation a
              (\<lambda>ob. ob\<lparr>ob_ResourcesRemoved := Some \<lparr>rre_ObservedAt = t\<rparr>\<rparr>) r))"
    unfolding modify_obligation_obligations
    by (rule improves_update_first) (auto simp: improves_def Resolved_def DataOutstanding_def PermitsAssignment_def)
  then show ?thesis
    using assms r by (cases "Resolved ob") (auto simp: resources_removed_def intro!: evidence_refines)
qed

lemma managed_data_refines:
  assumes "managed_data_quarantined name a t s = Inr s'"
  shows "refines uid s s'"
proof -
  obtain r ob where r: "ps_Recovery s = Some r" "FindObligation (Some r) a = Some ob"
    using assms by (cases "ps_Recovery s") (auto simp: managed_data_quarantined_def FindObligation_def split: option.splits)
  have "list_all2 improves (rec_CleanupObligations r) (rec_CleanupObligations (modify_obligation a
              (\<lambda>ob. ob\<lparr>ob_ManagedDataQuarantined := Some \<lparr>mdq_ObservedAt = t\<rparr>\<rparr>) r))"
    unfolding modify_obligation_obligations
    by (rule improves_update_first) (auto simp: improves_def Resolved_def DataOutstanding_def PermitsAssignment_def)
  then show ?thesis
    using assms r by (cases "ob_ManagedDataQuarantined ob")
      (auto simp: managed_data_quarantined_def intro!: evidence_refines)
qed

subsection \<open>Takeover\<close>

lemma takeover_cases:
  assumes "applyOperatorTakeover s a now = Inr (s', outcome)"
  obtains (overridden) r ob where "ps_Phase s = ProjectPhasePending" "ps_NodeRef s = ''''"
      "ps_Recovery s = Some r" "FindObligation (Some r) a = Some ob" "\<not> PermitsAssignment ob"
      "s' = s\<lparr>ps_Recovery := Some (OverrideRelease r a now)\<rparr>" "outcome = TakeoverObligationOverridden"
  | (released) cs where "ps_Phase s = ProjectPhaseScheduled \<or> ps_Phase s = ProjectPhaseRunning"
      "ps_NodeRef s = ai_NodeName a" "ps_AssignmentGeneration s = ai_AssignmentGeneration a" "ps_NodeRef s \<noteq> ''''"
      "takeover_marked (ps_Conditions s)"
      "s' = s\<lparr>ps_Phase := ProjectPhasePending, ps_NodeRef := '''',
             ps_Recovery := Some (OverrideRelease (EnsureRecovery s) a now), ps_Conditions := cs\<rparr>"
      "outcome = TakeoverReleased"
proof (cases "ps_NodeRef s = ''''")
  case True
  with assms obtain r ob where "ps_Recovery s = Some r" "FindObligation (Some r) a = Some ob"
    by (cases "ps_Recovery s") (auto simp: applyOperatorTakeover_def Let_def FindObligation_def split: if_splits)
  with True assms show ?thesis
    by (intro overridden [of r ob]) (auto simp: applyOperatorTakeover_def Let_def split: if_splits)
next
  case False
  with assms show ?thesis
    by (intro released [of "ps_Conditions s'"])
       (auto simp: applyOperatorTakeover_def Let_def takeover_transition split: if_splits)
qed

text \<open>The status a takeover commits: the override, and the data owed with it.\<close>

definition taken_over :: "bool \<Rightarrow> AssignmentIdentity \<Rightarrow> ProjectStatus \<Rightarrow> ProjectStatus" where
  "taken_over m a s = (if m then s\<lparr>ps_Recovery := map_option (\<lambda>r. OweManagedData r a) (ps_Recovery s)\<rparr> else s)"

lemma override_owed_improves:
  assumes "FindObligation (Some r) a = Some ob" "\<not> PermitsAssignment ob" "ledger_wf (Some r)"
  shows "list_all2 improves (rec_CleanupObligations r)
     (obligations (ps_Recovery (taken_over m a (s\<lparr>ps_Recovery := Some (OverrideRelease r a now)\<rparr>))))"
proof -
  let ?P = "\<lambda>ob. ob_Assignment ob = a"
  let ?f = "\<lambda>ob. ob\<lparr>ob_ReleaseAuthorization := ReleaseByOperatorOverride\<rparr>"
  let ?g = "\<lambda>ob. ob\<lparr>ob_ManagedDataOwed := True\<rparr>"
  have only: "ob' = ob" if "ob' \<in> set (rec_CleanupObligations r)" "ob_Assignment ob' = a" for ob'
    using FindObligation_of_mem [OF assms(3), of ob'] that assms(1) by simp
  have nr: "\<not> Resolved ob" using assms(2) Resolved_PermitsAssignment by blast
  have imp: "improves ob (?f ob)" "improves ob (?g (?f ob))"
    using nr by (auto simp: improves_def Resolved_def DataOutstanding_def PermitsAssignment_def)
  have twice: "update_first ?P ?g (update_first ?P ?f xs) = update_first ?P (\<lambda>ob. ?g (?f ob)) xs" for xs
    by (induction xs) auto
  have obs: "obligations (ps_Recovery (taken_over m a (s\<lparr>ps_Recovery := Some (OverrideRelease r a now)\<rparr>))) =
     update_first ?P (if m then \<lambda>ob. ?g (?f ob) else ?f) (rec_CleanupObligations r)"
    using assms(1) by (simp add: taken_over_def OverrideRelease_def OweManagedData_def find_modify_obligation twice)
  show ?thesis unfolding obs by (rule improves_update_first) (use only imp in auto)
qed

lemma takeover_refines:
  assumes "applyOperatorTakeover s a now = Inr (s', outcome)" "ai_ProjectUID a = uid"
  shows "refines uid s (taken_over m a s')"
  using assms(1)
proof (cases rule: takeover_cases)
  case (overridden r ob)
  show ?thesis unfolding refines_def
  proof (intro allI impI)
    fix g assume "own_inv uid (ownership_of s g)"
    then have "ledger_wf (Some r)" using overridden(3) by (simp add: own_inv_def ledger_wf_def obligation_ids_def)
    note imp = override_owed_improves [OF overridden(4,5) this, where m = m and s = s and now = now]
    have "refines uid s (taken_over m a s')"
      by (rule evidence_refines) (use imp overridden in \<open>auto simp: taken_over_def\<close>)
    with \<open>own_inv uid (ownership_of s g)\<close>
    show "ownership_of (taken_over m a s') (granted_after uid s (taken_over m a s') g) = ownership_of s g
      \<or> own_step uid (ownership_of s g) (ownership_of (taken_over m a s') (granted_after uid s (taken_over m a s') g))"
      by (simp add: refines_def)
  qed
next
  case (released cs)
  have a: "a = \<lparr>ai_ProjectUID = uid, ai_NodeName = ps_NodeRef s, ai_AssignmentGeneration = ps_AssignmentGeneration s\<rparr>"
    using released(2,3) assms(2) by (cases a) simp
  have fresh: "\<exists>ob. fresh_obligation a ob \<and>
      obligations (ps_Recovery (taken_over m a s')) = obligations (ps_Recovery s) @ [ob]"
    if "FindObligation (ps_Recovery s) a = None"
  proof -
    have n: "FindObligation (Some (EnsureRecovery s)) a = None" using that by simp
    then have "OverrideRelease (EnsureRecovery s) a now = AddObligation (EnsureRecovery s) a now ReleaseByOperatorOverride"
      by (simp add: OverrideRelease_def)
    with owe_after_add [OF n, of now ReleaseByOperatorOverride] n released(6) show ?thesis
      by (auto simp: taken_over_def obligations_AddObligation intro: fresh_obligation_new)
  qed
  show ?thesis
  proof (rule release_refines)
    show "\<exists>ob. fresh_obligation b ob \<and> obligations (ps_Recovery (taken_over m a s')) = obligations (ps_Recovery s) @ [ob]"
      if "b = \<lparr>ai_ProjectUID = uid, ai_NodeName = ps_NodeRef s, ai_AssignmentGeneration = ps_AssignmentGeneration s\<rparr>"
        "FindObligation (ps_Recovery s) b = None" for b
      using that fresh a by simp
  qed (use released(1,6) in \<open>auto simp: taken_over_def\<close>)
qed

subsection \<open>Deleting and reporting\<close>

lemma mark_terminating_cases:
  assumes "mark_terminating name uid now s = Inr s'"
  obtains (already) "s' = s" "ending_phase (ps_Phase s)"
  | (marked) "ps_Phase s = ProjectPhasePending \<or> live_phase (ps_Phase s)"
      "s' = s\<lparr>ps_Phase := ProjectPhaseTerminating,
             ps_Recovery := (if ps_NodeRef s \<noteq> ''''
               then Some (AddObligation (EnsureRecovery s)
                      \<lparr>ai_ProjectUID = uid, ai_NodeName = ps_NodeRef s,
                       ai_AssignmentGeneration = ps_AssignmentGeneration s\<rparr> now ReleaseByDeletion)
               else ps_Recovery s)\<rparr>"
proof (cases "ending_phase (ps_Phase s)")
  case True
  with assms already show ?thesis by (auto simp: mark_terminating_def)
next
  case False
  then have t: "PhaseTransitionAllowed WriterDeleteAPI (ps_Phase s) ProjectPhaseTerminating"
    using assms by (auto simp: mark_terminating_def split: if_splits)
  show ?thesis
    by (rule marked) (use assms False t in \<open>auto simp: mark_terminating_def delete_transition\<close>)
qed

lemma mark_terminating_refines:
  assumes "mark_terminating name uid now s = Inr s'"
  shows "refines uid s s'"
  using assms
proof (cases rule: mark_terminating_cases)
  case already
  then show ?thesis by simp
next
  case marked
  show ?thesis unfolding refines_def
  proof (intro allI impI disjI2)
    fix g assume inv: "own_inv uid (ownership_of s g)"
    let ?a = "current_of uid (ownership_of s g)"
    have a: "?a = \<lparr>ai_ProjectUID = uid, ai_NodeName = ps_NodeRef s, ai_AssignmentGeneration = ps_AssignmentGeneration s\<rparr>"
      by (simp add: current_of_def)
    have fresh: "\<exists>ob. fresh_obligation ?a ob \<and> obligations (ps_Recovery s') = obligations (ps_Recovery s) @ [ob]"
      if "ps_NodeRef s \<noteq> ''''"
    proof -
      have "live_phase (ps_Phase s)" using that marked(1) inv by (auto simp: own_inv_def)
      from live_not_recorded [OF inv this] have "FindObligation (Some (EnsureRecovery s)) ?a = None" by simp
      then show ?thesis using that marked(2) a by (auto simp: obligations_AddObligation intro: fresh_obligation_new)
    qed
    show "own_step uid (ownership_of s g) (ownership_of s' (granted_after uid s s' g))"
      by (rule own_step.own_terminate [where obs = "obligations (ps_Recovery s')"])
         (use marked fresh in \<open>simp_all add: ownership_of_def granted_after_def\<close>)
  qed
qed

lemma patch_status_cases:
  assumes "patch_status_mutate name req t s = Inr s'"
  obtains (report) "live_phase (ps_Phase s)" "live_phase (spr_Phase req)"
      "PhaseTransitionAllowed WriterAgent (ps_Phase s) (spr_Phase req)" "ps_Phase s' = spr_Phase req" "ps_NodeRef s' = ps_NodeRef s"
      "ps_AssignmentGeneration s' = ps_AssignmentGeneration s" "ps_AssignmentHistory s' = ps_AssignmentHistory s"
      "obligations (ps_Recovery s') = obligations (ps_Recovery s)"
  | (terminated) "ps_Phase s = ProjectPhaseTerminated \<or> ps_Phase s = ProjectPhaseTerminating
        \<and> ResourcesRemovedFor (ps_Recovery s) (ps_NodeRef s) (ps_AssignmentGeneration s)"
      "ps_Phase s' = ProjectPhaseTerminated" "ps_NodeRef s' = ps_NodeRef s"
      "ps_AssignmentGeneration s' = ps_AssignmentGeneration s" "ps_AssignmentHistory s' = ps_AssignmentHistory s"
      "obligations (ps_Recovery s') = obligations (ps_Recovery s)"
proof -
  have allowed: "PhaseTransitionAllowed WriterAgent (ps_Phase s) (spr_Phase req)"
    using assms by (auto simp: patch_status_mutate_def split: if_splits)
  have same: "ps_Phase s' = spr_Phase req" "ps_NodeRef s' = ps_NodeRef s"
      "ps_AssignmentGeneration s' = ps_AssignmentGeneration s" "ps_AssignmentHistory s' = ps_AssignmentHistory s"
      "obligations (ps_Recovery s') = obligations (ps_Recovery s)"
    using assms by (auto simp: patch_status_mutate_def Let_def split: if_splits)
  show ?thesis
  proof (cases "spr_Phase req = ProjectPhaseTerminated")
    case True
    then have "ps_Phase s = ProjectPhaseTerminated \<or> ps_Phase s = ProjectPhaseTerminating
        \<and> ResourcesRemovedFor (ps_Recovery s) (ps_NodeRef s) (ps_AssignmentGeneration s)"
      using assms allowed by (auto simp: patch_status_mutate_def transition_defs split: if_splits)
    with True same show ?thesis using terminated by simp
  next
    case False
    then have "live_phase (ps_Phase s)" "live_phase (spr_Phase req)"
      using allowed by (auto simp: transition_defs split: if_splits)
    with same allowed show ?thesis using report by simp
  qed
qed

lemma ResourcesRemovedFor_mem:
  "ResourcesRemovedFor r node gen \<Longrightarrow> \<exists>ob \<in> set (obligations r). Resolved ob
     \<and> ai_NodeName (ob_Assignment ob) = node \<and> ai_AssignmentGeneration (ob_Assignment ob) = gen"
  by (auto simp: ResourcesRemovedFor_def split: option.splits dest: find_SomeD)

lemma patch_status_refines:
  assumes "patch_status_mutate name req t s = Inr s'"
  shows "refines uid s s'"
  using assms
proof (cases rule: patch_status_cases)
  case report
  then show ?thesis unfolding refines_def
    by (auto simp: ownership_of_def granted_after_def intro!: own_step.own_report [where phase = "spr_Phase req"])
next
  case terminated
  then consider "ps_Phase s = ProjectPhaseTerminated" | ob where "ps_Phase s = ProjectPhaseTerminating"
      "ob \<in> set (obligations (ps_Recovery s))" "Resolved ob" "ai_NodeName (ob_Assignment ob) = ps_NodeRef s"
      "ai_AssignmentGeneration (ob_Assignment ob) = ps_AssignmentGeneration s"
    using ResourcesRemovedFor_mem by blast
  then show ?thesis
  proof cases
    case 1
    with terminated show ?thesis by (intro keeps_refines) (simp add: keeps_ownership_def)
  next
    case 2
    with terminated show ?thesis unfolding refines_def
      by (auto simp: ownership_of_def granted_after_def intro!: own_step.own_terminated [where ob = ob])
  qed
qed

lemma created_initial: "ownership_of (created_status now spec) [] = own_initial"
  by (simp add: ownership_of_def created_status_def own_initial_def InitialProjectStatus_def Let_def)

end
