(* ===== verification/Server_System.thy ===== *)
theory Server_System
  imports Closure_Refinement
begin

text \<open>
  The server as a transition system: \<open>server_op\<close> has one rule per write of the API handlers and of
  the controllers' adapter, each with the operation itself on its right-hand side. The ghost
  component counts the assignments each lifetime was granted. The operations run with nobody else
  writing in between; that this loses nothing for the fenced and the lifetime-pinned loops is what
  \<open>Store_CAS\<close> proves. Left out are the writes no production code calls
  (\<open>UpdateProject\<close>, \<open>UpdateProjectStatus\<close>, \<open>SetProjectPhase\<close> and the unfenced condition writes).
\<close>

type_synonym grants = "string \<Rightarrow> AssignmentIdentity list"

definition row_of_uid :: "db \<Rightarrow> string \<Rightarrow> row option" where
  "row_of_uid d u = List.find (\<lambda>r. row_uid r = u) (db_rows d)"

definition track :: "db \<Rightarrow> db \<Rightarrow> grants \<Rightarrow> grants" where
  "track d d' G = (\<lambda>u. case (row_of_uid d u, row_of_uid d' u) of
       (Some r, Some r') \<Rightarrow> granted_after u (row_status r) (row_status r') (G u)
     | _ \<Rightarrow> G u)"

definition sys_inv :: "db \<Rightarrow> grants \<Rightarrow> bool" where
  "sys_inv d G \<longleftrightarrow> db_wf d
     \<and> (\<forall>r \<in> set (db_rows d). own_inv (row_uid r) (ownership_of (row_status r) (G (row_uid r))))
     \<and> (\<forall>u. u \<notin> set (db_uids d) \<longrightarrow> G u = [])"

text \<open>What one operation does to the table: old rows move by a refined write, new ones are born fresh.\<close>

definition server_writes :: "db \<Rightarrow> db \<Rightarrow> bool" where
  "server_writes d d' \<longleftrightarrow> evolves d d' \<and> db_wf d'
     \<and> (\<forall>r' \<in> set (db_rows d').
          (\<exists>r \<in> set (db_rows d). row_uid r' = row_uid r \<and> refines (row_uid r) (row_status r) (row_status r'))
          \<or> (row_uid r' \<notin> set (db_uids d) \<and> (\<exists>now spec. row_status r' = created_status now spec)))"

inductive server_op :: "bool \<Rightarrow> db \<Rightarrow> db \<Rightarrow> bool" for grace :: bool where
  op_create: "uid \<notin> set (db_uids d) \<Longrightarrow> server_op grace d (fst (createProject parse img uid now body d))"
| op_update: "server_op grace d (fst (updateProject parse img now id id name body d))"
| op_restart: "server_op grace d (fst (restartProject now name d))"
| op_delete: "server_op grace d (fst (deleteProject (quiet t) id id now name force d))"
| op_patchStatus: "server_op grace d (fst (patchStatus (quiet t) now caller name req d))"
| op_putSpecApplied: "server_op grace d (fst (putSpecApplied (quiet t) now caller name sreq d))"
| op_patchCondition: "server_op grace d (fst (patchCondition now caller name ty txt creq d))"
| op_deleteCondition: "server_op grace d (fst (deleteCondition now caller name ty txt u n gen d))"
| op_putWorkloadStopped: "server_op grace d (fst (putWorkloadStopped (quiet t) now caller name freq d))"
| op_putResourcesRemoved: "server_op grace d (fst (putResourcesRemoved (quiet t) now caller name freq d))"
| op_putManagedDataQuarantined: "server_op grace d (fst (putManagedDataQuarantined (quiet t) now caller name freq d))"
| op_putStanza: "server_op grace d (fst (putStanza (quiet t) id now caller name streq d))"
| op_putBackupCompletion: "server_op grace d (fst (putBackupCompletion (quiet t) id now caller name b breq d))"
| op_putCommittedBackup: "server_op grace d (fst (putCommittedBackup (quiet t) now caller name cbreq d))"
| op_postTakeover: "server_op grace d (fst (postTakeover (quiet t) caller name treq d))"
| op_schedule: "node \<noteq> '''' \<Longrightarrow> (\<And>r. row_at d name = Some r \<Longrightarrow> ps_AssignmentGeneration (row_status r) < max_int64) \<Longrightarrow>
    server_op grace d (fst (SetProjectScheduled (quiet t) now name node d))"
| op_schedulingBlocked: "server_op grace d (fst (SetSchedulingBlocked (quiet t) now name reason message d))"
| op_finalize: "server_op grace d (fst (adapter_FinalizeProject name uid d))"
| op_finalizationBlocked: "server_op grace d (fst (SetFinalizationBlocked (quiet t) now name uid reason d))"
| op_release: "server_op grace d (fst (ReleaseAssignment (quiet t) grace now p d))"
| op_moveFailed: "server_op grace d (fst (MoveFailedProject (quiet t) now p message d))"
| op_clearClocks: "server_op grace d (fst (ClearRescheduleClocks (quiet t) name node notAfter d))"
| op_terminatingAt: "server_op grace d (fst (SetTerminatingAt (quiet t) name now d))"
| op_notReadyAt: "server_op grace d (fst (SetNotReadyAt (quiet t) name now d))"
| op_terminationBlocked: "server_op grace d (fst (SetTerminationBlocked (quiet t) name node now d))"
| op_clearFailedNodes: "server_op grace d (fst (ClearFailedNodes (quiet t) name d))"
| op_rescheduleExhausted: "server_op grace d (fst (SetRescheduleExhausted (quiet t) now name message d))"

definition empty_db :: db where
  "empty_db = \<lparr>db_rows = [], db_audit = [], db_events = [], db_uids = []\<rparr>"

inductive reachable :: "bool \<Rightarrow> db \<Rightarrow> grants \<Rightarrow> bool" for grace :: bool where
  reach_init: "reachable grace empty_db (\<lambda>_. [])"
| reach_step: "reachable grace d G \<Longrightarrow> server_op grace d d' \<Longrightarrow> reachable grace d' (track d d' G)"

inductive_cases reachableE: "reachable grace d G"

subsection \<open>Writes of one statement\<close>

lemma server_writes_refl: "db_wf d \<Longrightarrow> server_writes d d"
  by (auto simp: server_writes_def intro: keeps_refl(2))

lemma server_writes_publish [simp]: "server_writes d (publish t n d') = server_writes d d'"
  by (simp add: server_writes_def)

lemma server_writes_audit [simp]: "server_writes d (d'\<lparr>db_audit := x\<rparr>) = server_writes d d'"
  by (simp add: server_writes_def db_wf_def evolves_def)

lemma server_writes_update:
  assumes "db_wf d" "\<And>r. row_uid (f r) = row_uid r" "\<And>r. row_key (f r) = row_key r"
    "\<And>r. row_resource_version (f r) = row_resource_version r + 1"
    "\<And>r. r \<in> set (db_rows d) \<Longrightarrow> W r \<Longrightarrow> row_wf r \<Longrightarrow> row_wf (f r)"
    "\<And>r. r \<in> set (db_rows d) \<Longrightarrow> W r \<Longrightarrow> refines (row_uid r) (row_status r) (row_status (f r))"
  shows "server_writes d (fst (sql_update W f d))"
proof -
  have "db_wf (fst (sql_update W f d))" by (rule sql_update_wf) (use assms(1-5) in auto)
  moreover have "evolves d (fst (sql_update W f d))" by (rule sql_update_evolves) (use assms(2-4) in auto)
  moreover have "\<exists>r \<in> set (db_rows d). row_uid r' = row_uid r \<and> refines (row_uid r) (row_status r) (row_status r')"
    if "r' \<in> set (db_rows (fst (sql_update W f d)))" for r'
  proof -
    obtain r where r: "r \<in> set (db_rows d)" "r' = (if W r then f r else r)"
      using \<open>r' \<in> _\<close> by (auto simp: sql_update_def)
    show ?thesis by (rule bexI [OF _ r(1)]) (use r assms(2,6) in auto)
  qed
  ultimately show ?thesis by (auto simp: server_writes_def)
qed

lemma server_writes_delete: "db_wf d \<Longrightarrow> server_writes d (fst (sql_delete W d))"
  using sql_delete_ok [of d W] unfolding server_writes_def
  by (auto simp: sql_delete_def intro: keeps_refl(2))

lemma server_writes_apply:
  assumes "db_wf d" "row_at d name = Some r"
    "\<And>s' x. mutate d (prj_Meta (scanProject r)) (row_status r) = Inr (s', x) \<Longrightarrow> refines (row_uid r) (row_status r) s'"
  shows "server_writes d (fst (apply_closure mutate name now r d))"
proof (cases "mutate d (prj_Meta (scanProject r)) (row_status r)")
  case (Inl e)
  then show ?thesis using assms(1) by (simp add: apply_closure_def server_writes_refl)
next
  case (Inr sx)
  obtain s' x where sx: "sx = (s', x)" by force
  have "server_writes d (fst (sql_update (named DefaultNamespace name) (commit_row s' now) d))"
  proof (rule server_writes_update)
    fix q assume "q \<in> set (db_rows d)" "named DefaultNamespace name q"
    then have "q = r" using row_at_of_mem [OF assms(1)] assms(2) by auto
    then show "refines (row_uid q) (row_status q) (row_status (commit_row s' now q))"
      using assms(3) Inr sx by simp
  qed (simp_all add: assms(1))
  with Inr sx assms(1) show ?thesis by (auto simp: apply_closure_def write_status_def server_writes_refl)
qed

subsection \<open>Writes of the loops\<close>

lemma writes_with_retry:
  assumes "db_wf d"
    "\<And>r s' x. row_at d name = Some r \<Longrightarrow>
       mutate d (prj_Meta (scanProject r)) (row_status r) = Inr (s', x) \<Longrightarrow> refines (row_uid r) (row_status r) s'"
  shows "server_writes d (fst (UpdateProjectStatusWithRetry (quiet t) name mutate d))"
  unfolding with_retry_quiet [OF assms(1)]
  using assms by (auto simp: server_writes_refl intro: server_writes_apply split: option.split)

lemma writes_fenced:
  assumes "db_wf d"
    "\<And>r s' x. row_at d name = Some r \<Longrightarrow> assignmentFenceWHERE ref r \<Longrightarrow>
       mutate d (prj_Meta (scanProject r)) (row_status r) = Inr (s', x) \<Longrightarrow> refines (row_uid r) (row_status r) s'"
  shows "server_writes d (fst (reportProjectStatusFenced (quiet t) name ref mutate d))"
  unfolding fenced_quiet [OF assms(1)]
  using assms by (auto simp: server_writes_refl intro: server_writes_apply split: option.split)

lemma writes_for_uid:
  assumes "db_wf d"
    "\<And>r s' x. row_at d name = Some r \<Longrightarrow> row_uid r = uid \<Longrightarrow>
       mutate d (prj_Meta (scanProject r)) (row_status r) = Inr (s', x) \<Longrightarrow> refines (row_uid r) (row_status r) s'"
  shows "server_writes d (fst (updateProjectStatusForUID (quiet t) name uid mutate d))"
  unfolding for_uid_quiet [OF assms(1)]
  using assms by (auto simp: server_writes_refl intro: server_writes_apply split: option.split)

lemma fst_case_result [simp]:
  "fst (case x of (d, Inl e) \<Rightarrow> (d, f d e) | (d, Inr y) \<Rightarrow> (d, g d y)) = fst x"
  by (simp split: prod.split sum.split)

lemma on_status_Inr: "on_status f d m s = Inr (s', x) \<longleftrightarrow> f s = Inr s'"
  by (auto simp: on_status_def split: sum.splits)

subsection \<open>Writes of the adapter\<close>

lemma writes_adapter_marks:
  assumes "db_wf d"
  shows "server_writes d (fst (SetSchedulingBlocked (quiet t) now name reason message d))"
    "server_writes d (fst (ClearRescheduleClocks (quiet t) name node notAfter d))"
    "server_writes d (fst (SetTerminatingAt (quiet t) name now d))"
    "server_writes d (fst (SetNotReadyAt (quiet t) name now d))"
    "server_writes d (fst (SetTerminationBlocked (quiet t) name node now d))"
    "server_writes d (fst (ClearFailedNodes (quiet t) name d))"
    "server_writes d (fst (SetRescheduleExhausted (quiet t) now name message d))"
    "server_writes d (fst (SetFinalizationBlocked (quiet t) now name uid reason d))"
  unfolding SetSchedulingBlocked_def ClearRescheduleClocks_def SetTerminatingAt_def SetNotReadyAt_def
    SetTerminationBlocked_def ClearFailedNodes_def SetRescheduleExhausted_def SetFinalizationBlocked_def
    UpdateProjectStatusForUID_def
  by (rule writes_with_retry writes_for_uid, rule assms, rule keeps_refines,
      auto simp: on_status_Inr intro: status_frame)+

lemma writes_SetProjectScheduled:
  assumes "db_wf d" "node \<noteq> ''''" "\<And>r. row_at d name = Some r \<Longrightarrow> ps_AssignmentGeneration (row_status r) < max_int64"
  shows "server_writes d (fst (SetProjectScheduled (quiet t) now name node d))"
  unfolding SetProjectScheduled_def
  by (rule writes_with_retry [OF assms(1)]) (use assms(2,3) schedule_refines in \<open>auto simp: on_status_Inr\<close>)

lemma writes_ReleaseAssignment:
  assumes "db_wf d"
  shows "server_writes d (fst (ReleaseAssignment (quiet t) grace now p d))"
  unfolding ReleaseAssignment_def UpdateProjectStatusForUID_def
  by (rule writes_for_uid [OF assms], erule release_status_refines, erule sym)

lemma writes_MoveFailedProject:
  assumes "db_wf d"
  shows "server_writes d (fst (MoveFailedProject (quiet t) now p message d))"
  unfolding MoveFailedProject_def UpdateProjectStatusForUID_def
  by (rule writes_for_uid [OF assms], erule move_failed_refines, erule sym)

lemma writes_finalize: "db_wf d \<Longrightarrow> server_writes d (fst (finalizeProject name uid blocker d))"
  by (auto simp: finalizeProject_def server_writes_refl server_writes_delete split: sum.split)

subsection \<open>Writes of the Agent reports\<close>

lemma fst_writeEvidenceResult [simp]: "fst (writeEvidenceResult name res) = fst res"
  by (cases res) (auto simp: writeEvidenceResult_def split: sum.split)

lemma writes_reports:
  assumes "db_wf d"
  shows "server_writes d (fst (RecordWorkloadStopped (quiet t) name ref now d))"
    "server_writes d (fst (RecordCommittedBackup (quiet t) name ref b now d))"
    "server_writes d (fst (RecordStanza (quiet t) name ref v now d))"
    "server_writes d (fst (RecordBackupCompletion (quiet t) name ref c d))"
    "server_writes d (fst (RecordSpecApplied (quiet t) name ref report d))"
  unfolding RecordWorkloadStopped_def RecordCommittedBackup_def RecordStanza_def RecordBackupCompletion_def
    RecordSpecApplied_def ReportProjectStatusFenced_def
  by (rule writes_fenced writes_for_uid, rule assms, rule keeps_refines,
      auto simp: on_status_Inr intro: status_frame split: sum.splits)+

lemma writes_evidence:
  assumes "db_wf d"
  shows "server_writes d (fst (RecordResourcesRemoved (quiet t) name ref now d))"
    "server_writes d (fst (RecordManagedDataQuarantined (quiet t) name ref now d))"
    "server_writes d (fst (ReportProjectStatusFenced (quiet t) name ref (patch_status_mutate name req now) d))"
  unfolding RecordResourcesRemoved_def RecordManagedDataQuarantined_def ReportProjectStatusFenced_def
  by (rule writes_fenced writes_for_uid, rule assms,
      auto simp: on_status_Inr intro: resources_removed_refines managed_data_refines patch_status_refines)+

lemma set_status_simps [simp]:
  "row_uid (set_status js now r) = row_uid r" "row_key (set_status js now r) = row_key r"
  "row_status (set_status js now r) = fst js"
  by (simp_all add: set_status_def row_key_def)

lemma writes_conditions:
  assumes "db_wf d"
  shows "server_writes d (fst (PatchProjectConditionFenced now name ref c d))"
    "server_writes d (fst (ClearProjectConditionFenced now name ref ty d))"
proof -
  have "server_writes d (fst (sql_update W (\<lambda>r. set_status (patched_status c r) now r) d))" for W
    by (rule server_writes_update [OF assms])
       (auto simp: patched_status_def row_wf_def set_status_def row_key_def intro: keeps_refines status_frame)
  moreover have "server_writes d (fst (sql_update W (\<lambda>r. set_status (cleared_status ty r) now r) d))" for W
    by (rule server_writes_update [OF assms])
       (auto simp: cleared_status_def row_wf_def set_status_def row_key_def intro: keeps_refines status_frame)
  ultimately show "server_writes d (fst (PatchProjectConditionFenced now name ref c d))"
    "server_writes d (fst (ClearProjectConditionFenced now name ref ty d))"
    by (simp_all add: PatchProjectConditionFenced_def ClearProjectConditionFenced_def prod.case_eq_if)
qed

subsection \<open>Writes of the other handlers\<close>

lemma writes_changeSpec:
  assumes "db_wf d"
  shows "server_writes d (fst (changeSpec now name change d))"
proof -
  have "server_writes d (fst (sql_update (named DefaultNamespace name)
      (\<lambda>q. (set_status (marshal_status (spec_change_status now b v (row_status r))) now q)
         \<lparr>row_spec := sp, row_labels := la, row_annotations := an, row_spec_revision := v\<rparr>) d))"
    if "row_at d name = Some r" for r b v sp la an
  proof (rule server_writes_update [OF assms])
    fix q assume "q \<in> set (db_rows d)" "named DefaultNamespace name q"
    then have "q = r" using row_at_of_mem [OF assms] that by auto
    then show "refines (row_uid q) (row_status q) (row_status
        ((set_status (marshal_status (spec_change_status now b v (row_status r))) now q)
         \<lparr>row_spec := sp, row_labels := la, row_annotations := an, row_spec_revision := v\<rparr>))"
      by (simp add: set_status_def marshal_status_def keeps_refines spec_reports_keep)
  next
    fix q assume "q \<in> set (db_rows d)" "named DefaultNamespace name q" "row_wf q"
    then have "q = r" using row_at_of_mem [OF assms] that by auto
    with \<open>row_wf q\<close> show "row_wf ((set_status (marshal_status (spec_change_status now b v (row_status r))) now q)
         \<lparr>row_spec := sp, row_labels := la, row_annotations := an, row_spec_revision := v\<rparr>)"
      using spec_reports_keep(2) [of "row_status r" now b v]
      by (simp add: row_wf_def set_status_def marshal_status_def keeps_ownership_def)
  qed (simp_all add: set_status_def row_key_def)
  moreover have "row_namespace r = DefaultNamespace" if "row_at d name = Some r" for r
    using row_at_mem [OF that] by (simp add: named_def)
  ultimately show ?thesis
    using assms(1) by (auto simp: changeSpec_def GetProject_def Let_def server_writes_refl split: option.split sum.split)
qed

lemma writes_UpdateProjectSpec:
  "db_wf d \<Longrightarrow> server_writes d (fst (UpdateProjectSpec now project d))"
  by (simp add: UpdateProjectSpec_def writes_changeSpec)

lemma writes_updateProject:
  "db_wf d \<Longrightarrow> server_writes d (fst (updateProject parse img now id id name body d))"
  unfolding updateProject_def Let_def
  by (auto simp: server_writes_refl writes_UpdateProjectSpec split: sum.split option.split)

lemma writes_restartProject: "db_wf d \<Longrightarrow> server_writes d (fst (restartProject now name d))"
  by (simp add: restartProject_def RestartProject_def writes_changeSpec)

lemma writes_terminate:
  assumes "db_wf d"
  shows "server_writes d (fst (terminate_project (quiet t) now name project d))"
proof -
  let ?uid = "meta_UID (prj_Meta project)"
  have "server_writes d (fst (updateProjectStatusForUID (quiet t) name ?uid (on_status (mark_terminating name ?uid now)) d))"
    by (rule writes_for_uid [OF assms]) (auto simp: on_status_Inr intro: mark_terminating_refines)
  then show ?thesis
    using assms by (auto simp: terminate_project_def UpdateProjectStatusForUID_def Let_def server_writes_refl
        split: prod.split sum.split)
qed

lemma writes_deleteProject:
  assumes "db_wf d"
  shows "server_writes d (fst (deleteProject (quiet t) id id now name force d))"
proof -
  have del: "server_writes d (fst (DeleteProject name d))"
    using server_writes_delete [OF assms] by (auto simp: DeleteProject_def prod.case_eq_if)
  have fin: "fst (finalizeProject name uid b d) = d" if "finalizeProject name uid b d = (d2, Inl e)" for uid b d2 e
    using that by (auto simp: finalizeProject_def split: sum.splits if_splits)
  show ?thesis
    using del fin writes_finalize [OF assms, of name] writes_terminate [OF assms, of t now name] assms
    by (auto simp: deleteProject_def FinalizeProject_def Let_def server_writes_refl not_found_problem_def
        split: prod.splits sum.splits) (metis fst_conv)+
qed

text \<open>A row inserted under a UID never issued before does not disturb any lifetime.\<close>

lemma evolves_insert:
  assumes "uid \<notin> set (db_uids d)"
  shows "evolves d (d\<lparr>db_uids := db_uids d @ [uid]\<rparr>)"
    and "row_uid r = uid \<Longrightarrow> evolves d (d\<lparr>db_uids := db_uids d @ [uid], db_rows := db_rows d @ [r]\<rparr>)"
  using assms unfolding evolves_def by (auto; meson successor_refl)+

lemma writes_createProject:
  assumes "db_wf d" "uid \<notin> set (db_uids d)"
  shows "server_writes d (fst (createProject parse img uid now body d))"
proof -
  have "server_writes d (fst (CreateProject uid now p d))" if "prj_Status p = created_status now spec" for p spec
  proof (cases "list_ex (\<lambda>r. named (if meta_Namespace (prj_Meta p) = '''' then DefaultNamespace
      else meta_Namespace (prj_Meta p)) (meta_Name (prj_Meta p)) r \<or> row_uid r = uid) (db_rows d)")
    case True
    with assms show ?thesis
      by (auto simp: CreateProject_def Let_def server_writes_def db_wf_def evolves_insert intro: keeps_refl(2))
  next
    case False
    with assms that show ?thesis
      by (auto simp: CreateProject_def Let_def server_writes_def db_wf_def row_wf_def marshal_status_def row_key_def
          named_def list_ex_iff evolves_insert(2) intro: keeps_refl(2))
  qed
  note create = this
  show ?thesis
  proof (cases body)
    case (Inl err)
    with assms(1) show ?thesis by (simp add: createProject_def server_writes_refl)
  next
    case (Inr p)
    define p' where "p' = p\<lparr>prj_Meta := (prj_Meta p)\<lparr>meta_Namespace :=
        (if meta_Namespace (prj_Meta p) = '''' then DefaultNamespace else meta_Namespace (prj_Meta p))\<rparr>,
      prj_Status := created_status now (prj_Spec p)\<rparr>"
    have "server_writes d (fst (CreateProject uid now p' d))" by (rule create) (simp add: p'_def)
    then show ?thesis
      using assms(1) Inr unfolding createProject_def Let_def p'_def
      by (cases "meta_Namespace (prj_Meta p) = ''''") (simp_all add: server_writes_refl split: option.split)
  qed
qed

lemma quiet_reach:
  assumes "env_reach (interferences (attempts (quiet t))) d e"
  shows "e = d"
  using assms unfolding env_reach_def
proof (induction rule: rtranclp_induct)
  case (step y z)
  then show ?case by (auto simp: interferences_def attempts_def quiet_def split: if_splits)
qed simp

lemma quiet_rely: "rely (interferences (attempts (quiet t)))"
  by (auto simp: rely_def interferences_def attempts_def quiet_def)

lemma takeover_decision_taken:
  assumes "takeover_decision name ref audit now p = Inr (s, rec')"
  shows "\<exists>s' outcome. applyOperatorTakeover (prj_Status p) (assignmentIdentity ref) now = Inr (s', outcome)
     \<and> s = taken_over (HasManagedVolume (prj_Spec p)) (assignmentIdentity ref) s'"
  using assms by (auto simp: takeover_decision_def taken_over_def Let_def split: sum.splits prod.splits if_splits)

lemma writes_TakeoverProject:
  assumes "db_wf d"
  shows "server_writes d (fst (TakeoverProject (quiet t) name ref audit d))"
proof -
  obtain d' res where run: "TakeoverProject (quiet t) name ref audit d = (d', res)" by force
  have o: "takeover_outcome (interferences (attempts (quiet t))) name ref audit d d' res"
    by (rule takeover_loop_outcome) (use run assms quiet_rely in \<open>auto simp: TakeoverProject_def\<close>)
  consider "d' = d" | r s now rec' where "row_at d name = Some r" "row_uid r = ref_UID ref"
      "takeover_decision name ref audit now (scanProject r) = Inr (s, rec')"
      "d' = publish TopicProjectUpdated name ((fst (sql_update (named DefaultNamespace name) (commit_row s now) d))
                      \<lparr>db_audit := db_audit d @ [rec']\<rparr>)"
    using o quiet_reach unfolding takeover_outcome_def
    by (auto split: sum.splits bool.splits prod.splits) (metis quiet_reach)+
  then show ?thesis
  proof cases
    case 1
    with run assms show ?thesis by (simp add: server_writes_refl)
  next
    case (2 r s now rec')
    obtain s' outcome where t: "applyOperatorTakeover (row_status r) (assignmentIdentity ref) now = Inr (s', outcome)"
      "s = taken_over (HasManagedVolume (row_spec r)) (assignmentIdentity ref) s'"
      using takeover_decision_taken [OF 2(3)] by auto
    have "refines (row_uid r) (row_status r) s"
      unfolding t(2) by (rule takeover_refines [OF t(1)]) (simp add: assignmentIdentity_def 2(2))
    then have "server_writes d (fst (sql_update (named DefaultNamespace name) (commit_row s now) d))"
      by (intro server_writes_update [OF assms]) (use row_at_of_mem [OF assms] 2(1) in auto)
    with 2(4) run show ?thesis by simp
  qed
qed

subsection \<open>Every operation is such a write\<close>

lemma fst_put_evidence:
  "fst (put_evidence f caller name body d) = d \<or> (\<exists>ref. fst (put_evidence f caller name body d) = fst (f ref d))"
  by (auto simp: put_evidence_def split: sum.split)

lemma writes_put_evidence:
  "db_wf d \<Longrightarrow> (\<And>ref. server_writes d (fst (f ref d))) \<Longrightarrow> server_writes d (fst (put_evidence f caller name body d))"
  using fst_put_evidence [of f caller name body d] by (auto simp: server_writes_refl)

lemma writes_agent_handlers:
  assumes "db_wf d"
  shows "server_writes d (fst (patchStatus (quiet t) now caller name req d))"
    "server_writes d (fst (putSpecApplied (quiet t) now caller name sreq d))"
    "server_writes d (fst (patchCondition now caller name ty txt creq d))"
    "server_writes d (fst (deleteCondition now caller name ty txt u n gen d))"
    "server_writes d (fst (putStanza (quiet t) id now caller name streq d))"
    "server_writes d (fst (putBackupCompletion (quiet t) id now caller name b breq d))"
    "server_writes d (fst (putCommittedBackup (quiet t) now caller name cbreq d))"
    "server_writes d (fst (postTakeover (quiet t) caller name treq d))"
proof -
  note w = writes_reports [OF assms] writes_evidence [OF assms] writes_conditions [OF assms]
    writes_TakeoverProject [OF assms] server_writes_refl [OF assms]
  show "server_writes d (fst (patchStatus (quiet t) now caller name req d))"
    by (simp add: patchStatus_def w split: sum.split)
  show "server_writes d (fst (putSpecApplied (quiet t) now caller name sreq d))"
    by (simp add: putSpecApplied_def w split: sum.split)
  show "server_writes d (fst (patchCondition now caller name ty txt creq d))"
    by (simp add: patchCondition_def w split: sum.split)
  show "server_writes d (fst (deleteCondition now caller name ty txt u n gen d))"
    by (simp add: deleteCondition_def Let_def w split: sum.split option.split)
  show "server_writes d (fst (putStanza (quiet t) id now caller name streq d))"
    by (simp add: putStanza_def w split: sum.split)
  show "server_writes d (fst (putBackupCompletion (quiet t) id now caller name b breq d))"
    by (simp add: putBackupCompletion_def w split: sum.split option.split)
  show "server_writes d (fst (putCommittedBackup (quiet t) now caller name cbreq d))"
    by (simp add: putCommittedBackup_def w split: sum.split)
  have "fst (postTakeover (quiet t) caller name treq d) = d
      \<or> (\<exists>ref audit. fst (postTakeover (quiet t) caller name treq d) = fst (TakeoverProject (quiet t) name ref audit d))"
    by (auto simp: postTakeover_def split: sum.split option.split prod.split) (metis fst_conv)+
  then show "server_writes d (fst (postTakeover (quiet t) caller name treq d))" using w(11,12) by auto
qed

lemma server_op_writes: "server_op grace d d' \<Longrightarrow> db_wf d \<Longrightarrow> server_writes d d'"
proof (induction rule: server_op.induct)
  case (op_create uid d parse img now body)
  then show ?case by (simp add: writes_createProject)
next
  case (op_schedule node d name t now)
  then show ?case by (intro writes_SetProjectScheduled) auto
next
  case (op_putWorkloadStopped d t now caller name freq)
  then show ?case by (simp add: putWorkloadStopped_def writes_put_evidence writes_reports)
next
  case (op_putResourcesRemoved d t now caller name freq)
  then show ?case by (simp add: putResourcesRemoved_def writes_put_evidence writes_evidence)
next
  case (op_putManagedDataQuarantined d t now caller name freq)
  then show ?case by (simp add: putManagedDataQuarantined_def writes_put_evidence writes_evidence)
next
  case (op_finalize d name uid)
  then show ?case by (simp add: adapter_FinalizeProject_def FinalizeProject_def writes_finalize)
qed (simp_all add: writes_updateProject writes_restartProject writes_deleteProject writes_agent_handlers
      writes_adapter_marks writes_ReleaseAssignment writes_MoveFailedProject)

lemma row_of_uid_mem:
  "db_wf d \<Longrightarrow> r \<in> set (db_rows d) \<Longrightarrow> row_of_uid d (row_uid r) = Some r"
proof -
  assume wf: "db_wf d" and r: "r \<in> set (db_rows d)"
  then obtain s where s: "row_of_uid d (row_uid r) = Some s"
    by (cases "row_of_uid d (row_uid r)") (auto simp: row_of_uid_def find_None_iff)
  then have "s \<in> set (db_rows d)" "row_uid s = row_uid r" by (auto simp: row_of_uid_def dest: find_SomeD)
  with same_uid_same_row [OF wf _ r] s show ?thesis by auto
qed

lemma row_of_uid_None: "db_wf d \<Longrightarrow> u \<notin> set (db_uids d) \<Longrightarrow> row_of_uid d u = None"
  by (auto simp: row_of_uid_def find_None_iff db_wf_def)

lemma sys_inv_step:
  assumes "sys_inv d G" "server_writes d d'"
  shows "sys_inv d' (track d d' G)"
proof -
  have wf: "db_wf d" "db_wf d'" "set (db_uids d) \<subseteq> set (db_uids d')"
    using assms by (auto simp: sys_inv_def server_writes_def evolves_def)
  have "own_inv (row_uid r') (ownership_of (row_status r') (track d d' G (row_uid r')))"
    if r': "r' \<in> set (db_rows d')" for r'
  proof -
    note at' = row_of_uid_mem [OF wf(2) r']
    consider r where "r \<in> set (db_rows d)" "row_uid r' = row_uid r" "refines (row_uid r) (row_status r) (row_status r')"
      | now spec where "row_uid r' \<notin> set (db_uids d)" "row_status r' = created_status now spec"
      using assms(2) r' unfolding server_writes_def by blast
    then show ?thesis
    proof cases
      case 1
      then have "own_inv (row_uid r) (ownership_of (row_status r) (G (row_uid r)))"
        using assms(1) by (simp add: sys_inv_def)
      from refines_inv [OF 1(3) this] show ?thesis
        using 1(2) at' row_of_uid_mem [OF wf(1) 1(1)] by (simp add: track_def)
    next
      case 2
      then have "G (row_uid r') = []" using assms(1) by (simp add: sys_inv_def)
      moreover have "row_of_uid d (row_uid r') = None" using row_of_uid_None [OF wf(1) 2(1)] .
      ultimately show ?thesis using 2(2) created_initial own_inv_initial by (simp add: track_def)
    qed
  qed
  moreover have "track d d' G u = []" if "u \<notin> set (db_uids d')" for u
  proof -
    have "u \<notin> set (db_uids d)" using that wf(3) by blast
    with row_of_uid_None [OF wf(1)] assms(1) show ?thesis by (simp add: track_def sys_inv_def)
  qed
  ultimately show ?thesis using wf(2) by (simp add: sys_inv_def)
qed

lemma reachable_inv: "reachable grace d G \<Longrightarrow> sys_inv d G"
proof (induction rule: reachable.induct)
  case reach_init
  then show ?case by (simp add: sys_inv_def empty_db_def db_wf_def)
next
  case (reach_step d G d')
  then have "db_wf d" by (simp add: sys_inv_def)
  with reach_step show ?case using sys_inv_step server_op_writes by blast
qed

subsection \<open>Runs, and assignments that were lost\<close>

inductive run :: "bool \<Rightarrow> db \<Rightarrow> db \<Rightarrow> bool" for grace :: bool where
  run_refl: "run grace d d"
| run_step: "run grace d e \<Longrightarrow> server_op grace e f \<Longrightarrow> run grace d f"

text \<open>The assignment is the current one of its Project: the fence of its holder matches a stored row.\<close>

definition holds :: "db \<Rightarrow> AssignmentIdentity \<Rightarrow> bool" where
  "holds d a = list_ex (\<lambda>r. row_uid r = ai_ProjectUID a \<and> ps_NodeRef (row_status r) = ai_NodeName a
     \<and> ps_AssignmentGeneration (row_status r) = ai_AssignmentGeneration a) (db_rows d)"

lemma refines_lost:
  assumes "refines uid s s'" "own_inv uid (ownership_of s g)" "a \<in> set g"
    "ps_NodeRef s \<noteq> ai_NodeName a \<or> ps_AssignmentGeneration s \<noteq> ai_AssignmentGeneration a"
  shows "ps_NodeRef s' \<noteq> ai_NodeName a \<or> ps_AssignmentGeneration s' \<noteq> ai_AssignmentGeneration a"
proof -
  let ?y = "ownership_of s' (granted_after uid s s' g)"
  consider "?y = ownership_of s g" | "own_step uid (ownership_of s g) ?y"
    using assms(1,2) unfolding refines_def by blast
  then show ?thesis
  proof cases
    case 1
    then have "own_Node ?y = ps_NodeRef s" "own_Gen ?y = ps_AssignmentGeneration s" by (metis ownership_simps(2,3))+
    with assms(4) show ?thesis by simp
  next
    case 2
    from own_step_lost [OF this assms(2), of a] assms(3,4) show ?thesis by simp
  qed
qed

lemma granted_known: "sys_inv d G \<Longrightarrow> a \<in> set (G u) \<Longrightarrow> u \<in> set (db_uids d)"
  by (cases "u \<in> set (db_uids d)") (auto simp: sys_inv_def)

lemma lost_step:
  assumes inv: "sys_inv d G" and w: "server_writes d d'"
    and a: "a \<in> set (G (ai_ProjectUID a))" and lost: "\<not> holds d a"
  shows "\<not> holds d' a"
proof
  assume "holds d' a"
  then obtain r' where r': "r' \<in> set (db_rows d')" "row_uid r' = ai_ProjectUID a"
    "ps_NodeRef (row_status r') = ai_NodeName a" "ps_AssignmentGeneration (row_status r') = ai_AssignmentGeneration a"
    by (auto simp: holds_def list_ex_iff)
  then obtain r where r: "r \<in> set (db_rows d)" "row_uid r' = row_uid r" "refines (row_uid r) (row_status r) (row_status r')"
    using w granted_known [OF inv a] unfolding server_writes_def by metis
  then have "own_inv (row_uid r) (ownership_of (row_status r) (G (row_uid r)))" using inv by (simp add: sys_inv_def)
  moreover have "ps_NodeRef (row_status r) \<noteq> ai_NodeName a \<or> ps_AssignmentGeneration (row_status r) \<noteq> ai_AssignmentGeneration a"
    using lost r r'(2) by (auto simp: holds_def list_ex_iff)
  moreover have "a \<in> set (G (row_uid r))" using a r(2) r'(2) by simp
  ultimately show False using refines_lost [OF r(3)] r'(3,4) by blast
qed

lemma track_mono: "a \<in> set (G u) \<Longrightarrow> a \<in> set (track d d' G u)"
  by (auto simp: track_def granted_after_def split: option.split)

lemma lost_run:
  assumes "run grace d d'" "reachable grace d G" "a \<in> set (G (ai_ProjectUID a))" "\<not> holds d a"
  shows "\<exists>G'. reachable grace d' G' \<and> a \<in> set (G' (ai_ProjectUID a)) \<and> \<not> holds d' a"
  using assms
proof (induction rule: run.induct)
  case (run_step d e f)
  then obtain G' where G': "reachable grace e G'" "a \<in> set (G' (ai_ProjectUID a))" "\<not> holds e a" by blast
  have inv: "sys_inv e G'" by (rule reachable_inv [OF G'(1)])
  have w: "server_writes e f" using server_op_writes [OF run_step.hyps(2)] inv by (simp add: sys_inv_def)
  show ?case
    using reach_step [OF G'(1) run_step.hyps(2)] track_mono [of a G' "ai_ProjectUID a" e f, OF G'(2)]
      lost_step [OF inv w G'(2,3)] by blast
qed blast

lemma reachable_row:
  assumes "reachable grace d G" "row_at d name = Some r"
  shows "own_inv (row_uid r) (ownership_of (row_status r) (G (row_uid r)))" "db_wf d"
  using reachable_inv [OF assms(1)] row_at_mem [OF assms(2)] by (auto simp: sys_inv_def)

end
