(* ===== verification/Demo_Trace.thy ===== *)
theory Demo_Trace
  imports Server_System
begin

text \<open>
  One Project's life on the model, for the witnesses: created, assigned to a Node, reported Running,
  moved to a second Node after the first confirmed its stop and removed its resources, deleted,
  cleaned up and reported Terminated. Every state is the previous one with an operation applied, so
  all of them are reachable.
\<close>

definition demo_meta :: "string \<Rightarrow> ObjectMeta" where
  "demo_meta name = \<lparr>meta_Name = name, meta_UID = '''', meta_Namespace = '''', meta_ResourceVersion = 0,
     meta_SpecRevision = 0, meta_Labels = (\<lambda>_. None), meta_Annotations = (\<lambda>_. None),
     meta_CreatedAt = time_zero, meta_UpdatedAt = time_zero\<rparr>"

definition demo_spec :: ProjectSpec where
  "demo_spec = \<lparr>spec_Size = ProjectSizeSmall,
     spec_Services = [\<lparr>svc_Name = ''app'', svc_Image = ''nginx'', svc_Command = [], svc_Env = [], svc_VolumeMounts = []\<rparr>],
     spec_Volumes = [], spec_Backup = None, spec_Ingress = [], spec_ExpireAt = None, spec_RestartedAt = None\<rparr>"

definition demo_project :: Project where
  "demo_project = \<lparr>prj_TypeMeta = \<lparr>tm_APIVersion = APIVersion, tm_Kind = kindProject\<rparr>, prj_Meta = demo_meta ''web'',
     prj_Spec = demo_spec, prj_Status = InitialProjectStatus\<rparr>"

definition demo_fence :: "string \<Rightarrow> int \<Rightarrow> fence_request" where
  "demo_fence node g = \<lparr>fr_UID = ''u1'', fr_NodeRef = node, fr_AssignmentGeneration = Some g\<rparr>"

definition demo_report :: "ProjectPhase \<Rightarrow> string \<Rightarrow> int \<Rightarrow> statusPatchRequest" where
  "demo_report phase node g = \<lparr>spr_Phase = phase, spr_Reason = '''', spr_Message = '''', spr_Fence = demo_fence node g\<rparr>"

definition demo_snapshot :: "string \<Rightarrow> int \<Rightarrow> ProjectSnapshot" where
  "demo_snapshot node g = \<lparr>snap_Name = ''web'', snap_UID = ''u1'', snap_Phase = ProjectPhaseRunning, snap_NodeRef = node,
     snap_AssignmentGeneration = g, snap_Size = ProjectSizeSmall, snap_FailedNodes = [], snap_Conditions = []\<rparr>"

definition demo_created :: db where
  "demo_created = fst (createProject (\<lambda>_. None) ''pg'' ''u1'' 100 (Inr demo_project) empty_db)"

definition demo_scheduled :: db where
  "demo_scheduled = fst (SetProjectScheduled (quiet 101) 101 ''web'' ''n1'' demo_created)"

definition demo_running :: db where
  "demo_running = fst (patchStatus (quiet 102) 102 None ''web'' (Inr (demo_report ProjectPhaseRunning ''n1'' 1)) demo_scheduled)"

definition demo_stopped :: db where
  "demo_stopped = fst (putWorkloadStopped (quiet 103) 103 None ''web'' (Inr (demo_fence ''n1'' 1)) demo_running)"

definition demo_released :: db where
  "demo_released = fst (ReleaseAssignment (quiet 104) False 104 (demo_snapshot ''n1'' 1) demo_stopped)"

definition demo_removed :: db where
  "demo_removed = fst (putResourcesRemoved (quiet 105) 105 None ''web'' (Inr (demo_fence ''n1'' 1)) demo_released)"

definition demo_moved :: db where
  "demo_moved = fst (SetProjectScheduled (quiet 106) 106 ''web'' ''n2'' demo_removed)"

definition demo_terminating :: db where
  "demo_terminating = fst (deleteProject (quiet 107) id id 107 ''web'' False demo_moved)"

definition demo_cleaned :: db where
  "demo_cleaned = fst (putResourcesRemoved (quiet 108) 108 None ''web'' (Inr (demo_fence ''n2'' 2)) demo_terminating)"

definition demo_terminated :: db where
  "demo_terminated = fst (patchStatus (quiet 109) 109 None ''web'' (Inr (demo_report ProjectPhaseTerminated ''n2'' 2)) demo_cleaned)"

text \<open>The grants along a run, newest state first.\<close>

fun grants_along :: "db list \<Rightarrow> grants" where
  "grants_along (d' # d # ds) = track d d' (grants_along (d # ds))"
| "grants_along _ = (\<lambda>_. [])"

lemma reach_along:
  "reachable grace d (grants_along (d # ds)) \<Longrightarrow> server_op grace d d' \<Longrightarrow> reachable grace d' (grants_along (d' # d # ds))"
  by (simp add: reach_step)

abbreviation "run_created \<equiv> [demo_created, empty_db]"
abbreviation "run_scheduled \<equiv> demo_scheduled # run_created"
abbreviation "run_running \<equiv> demo_running # run_scheduled"
abbreviation "run_stopped \<equiv> demo_stopped # run_running"
abbreviation "run_released \<equiv> demo_released # run_stopped"
abbreviation "run_removed \<equiv> demo_removed # run_released"
abbreviation "run_moved \<equiv> demo_moved # run_removed"
abbreviation "run_terminating \<equiv> demo_terminating # run_moved"
abbreviation "run_cleaned \<equiv> demo_cleaned # run_terminating"
abbreviation "run_terminated \<equiv> demo_terminated # run_cleaned"

definition below_max :: "string \<Rightarrow> db \<Rightarrow> bool" where
  "below_max name d = (case row_at d name of None \<Rightarrow> True | Some r \<Rightarrow> ps_AssignmentGeneration (row_status r) < max_int64)"

lemma op_schedule_below:
  "node \<noteq> '''' \<Longrightarrow> below_max name d \<Longrightarrow> server_op grace d (fst (SetProjectScheduled (quiet t) now name node d))"
  by (rule op_schedule) (simp_all add: below_max_def)

lemma demo_ops:
  "server_op False empty_db demo_created" "server_op False demo_created demo_scheduled"
  "server_op False demo_scheduled demo_running" "server_op False demo_running demo_stopped"
  "server_op False demo_stopped demo_released" "server_op False demo_released demo_removed"
  "server_op False demo_removed demo_moved" "server_op False demo_moved demo_terminating"
  "server_op False demo_terminating demo_cleaned" "server_op False demo_cleaned demo_terminated"
proof -
  have below: "below_max ''web'' demo_created" "below_max ''web'' demo_removed" by code_simp+
  show "server_op False empty_db demo_created"
    unfolding demo_created_def by (rule op_create) (simp add: empty_db_def)
  show "server_op False demo_created demo_scheduled"
    unfolding demo_scheduled_def by (rule op_schedule_below) (simp_all add: below)
  show "server_op False demo_removed demo_moved"
    unfolding demo_moved_def by (rule op_schedule_below) (simp_all add: below)
  show "server_op False demo_scheduled demo_running" unfolding demo_running_def by (rule op_patchStatus)
  show "server_op False demo_running demo_stopped" unfolding demo_stopped_def by (rule op_putWorkloadStopped)
  show "server_op False demo_stopped demo_released" unfolding demo_released_def by (rule op_release)
  show "server_op False demo_released demo_removed" unfolding demo_removed_def by (rule op_putResourcesRemoved)
  show "server_op False demo_moved demo_terminating" unfolding demo_terminating_def by (rule op_delete)
  show "server_op False demo_terminating demo_cleaned" unfolding demo_cleaned_def by (rule op_putResourcesRemoved)
  show "server_op False demo_cleaned demo_terminated" unfolding demo_terminated_def by (rule op_patchStatus)
qed

lemma demo_reachable:
  "reachable False demo_created (grants_along run_created)"
  "reachable False demo_running (grants_along run_running)"
  "reachable False demo_moved (grants_along run_moved)"
  "reachable False demo_terminated (grants_along run_terminated)"
proof -
  have "reachable False empty_db (grants_along [empty_db])" by (simp add: reach_init)
  note c = reach_along [OF this demo_ops(1)]
  note s = reach_along [OF c demo_ops(2)]
  note r = reach_along [OF s demo_ops(3)]
  note m = reach_along [OF reach_along [OF reach_along [OF reach_along [OF r demo_ops(4)] demo_ops(5)] demo_ops(6)] demo_ops(7)]
  note t = reach_along [OF reach_along [OF reach_along [OF m demo_ops(8)] demo_ops(9)] demo_ops(10)]
  show "reachable False demo_created (grants_along run_created)" by (rule c)
  show "reachable False demo_running (grants_along run_running)" by (rule r)
  show "reachable False demo_moved (grants_along run_moved)" by (rule m)
  show "reachable False demo_terminated (grants_along run_terminated)" by (rule t)
qed

end
