(* ===== verification/Concurrency.thy ===== *)
theory Concurrency
  imports Demo_Trace
begin

text \<open>
  What the store promises when other sessions write in between. The interference of \<open>Store_CAS\<close> is
  any function that does to the table what a server operation may do (\<open>rely\<close>), and every server
  operation is one. Under it the fenced and the lifetime-pinned writes are atomic; from that follow
  the guarantees of the operations built on them: the release of an assignment, the takeover, the
  repeated report. The write by version only, \<open>UpdateProjectStatusWithRetry\<close>, is not atomic across a
  deletion and recreation, which the last theorem shows on a concrete schedule.
\<close>

subsection \<open>Interference\<close>

lemma rely_of_ops: "(\<And>d f. f \<in> F \<Longrightarrow> server_op grace d (f d)) \<Longrightarrow> rely F"
  unfolding rely_def using server_op_writes by (meson server_writes_def)

lemma rely_mono: "rely F \<Longrightarrow> E \<subseteq> F \<Longrightarrow> rely E"
  by (auto simp: rely_def)

lemma rely_id: "rely F \<Longrightarrow> rely (insert id F)"
  by (auto simp: rely_def)

lemma interferences_attempts:
  "interferences (attempts sched) = (\<Union>i < maxStatusUpdateAttempts.
     {it_load (sched i), it_mutate (sched i), it_swap (sched i), it_classify (sched i)})"
  by (auto simp: interferences_def attempts_def)

text \<open>
  Every operation of the server keeps the table well-formed and leaves other sessions what they
  rely on. Unique names and UIDs and the promoted phase column are preserved, the version of a
  lifetime only grows and two equal versions are the same row, and a UID never comes back.
\<close>

theorem server_operations_evolve:
  assumes "server_op grace d d'" and "db_wf d"
  shows "db_wf d' \<and> evolves d d'"
  using server_op_writes [OF assms] by (simp add: server_writes_def)

subsection \<open>Atomic writes\<close>

text \<open>
  C6: a fenced report is atomic. Whatever other sessions write between its statements, a report that
  commits does so at one instant at which the stored row carries the presented fence and is the very
  row the report was computed from; a report that changes nothing or fails leaves no trace of its own.
\<close>

theorem fenced_report_linearizable:
  assumes "rely (interferences (attempts sched))" and "db_wf d"
  shows "\<exists>e res. reportProjectStatusFenced sched name ref mutate d = publish_committed name (e, res)
     \<and> linearized (interferences (attempts sched)) (assignmentFenceWHERE ref) name mutate d e res"
proof -
  obtain e res where run: "status_cas_loop (loadFenced ref name) (swapProjectStatusFenced ref name)
          (classifyFencedSwapMiss ref name) mutate no_conflict (attempts sched) d = (e, res)" by force
  then show ?thesis
    using fenced.loop_linearized [of ref name mutate no_conflict "attempts sched" d e res] assms
    by (auto simp: reportProjectStatusFenced_def swapProjectStatusFenced_def)
qed

text \<open>A controller stamps a condition just before the first swap of a report.\<close>

definition stamp :: "db \<Rightarrow> db" where
  "stamp d = fst (SetNotReadyAt (quiet 50) ''web'' 50 d)"

definition demo_race :: "nat \<Rightarrow> interference" where
  "demo_race i = (quiet 60 i)\<lparr>it_swap := (if i = 0 then stamp else id)\<rparr>"

lemma rely_demo_race: "rely (interferences (attempts demo_race))"
proof -
  have "rely {stamp}"
    by (rule rely_of_ops [where grace = False]) (simp add: stamp_def server_op.op_notReadyAt)
  then show ?thesis
    by (rule rely_mono [OF rely_id]) (auto simp: interferences_attempts demo_race_def quiet_def split: if_splits)
qed

lemma demo_wf: "db_wf demo_created" "db_wf demo_running"
  using reachable_inv [OF demo_reachable(1)] reachable_inv [OF demo_reachable(2)] by (simp_all add: sys_inv_def)

definition demo_ref :: AssignmentRef where
  "demo_ref = \<lparr>ref_UID = ''u1'', ref_NodeRef = ''n1'', ref_Generation = 1\<rparr>"

definition demo_stop :: "unit closure" where
  "demo_stop = on_status (workload_stopped ''web'' (assignmentIdentity demo_ref) 9)"

theorem fenced_report_linearizable_witness:
  "snd (reportProjectStatusFenced demo_race ''web'' demo_ref demo_stop demo_running) = Inr ()
   \<and> (\<exists>e res. reportProjectStatusFenced demo_race ''web'' demo_ref demo_stop demo_running = publish_committed ''web'' (e, res)
        \<and> linearized (interferences (attempts demo_race)) (assignmentFenceWHERE demo_ref) ''web'' demo_stop demo_running e res)"
proof
  show "snd (reportProjectStatusFenced demo_race ''web'' demo_ref demo_stop demo_running) = Inr ()" by code_simp
qed (rule fenced_report_linearizable [OF rely_demo_race demo_wf(2)])

lemma for_uid_linearized:
  assumes "rely (interferences (attempts sched))" and "db_wf d"
  obtains e res where "updateProjectStatusForUID sched name uid mutate d = publish_committed name (e, res)"
    "linearized (interferences (attempts sched)) (\<lambda>r. row_uid r = uid) name mutate d e res"
proof -
  obtain e res where run: "status_cas_loop (loadForUID uid name) (swapProjectStatusForUID uid name)
          (classifyUIDSwapMiss uid name) mutate no_conflict (attempts sched) d = (e, res)" by force
  then show ?thesis
    using lifetime.loop_linearized [of uid name mutate no_conflict "attempts sched" d e res] assms
    by (intro that) (auto simp: updateProjectStatusForUID_def swapProjectStatusForUID_def)
qed

text \<open>
  C7: a write pinned to one lifetime is atomic, whatever other sessions write in between, a deletion
  and recreation under the same name included: it commits only on the lifetime it was asked for.
\<close>

theorem lifetime_write_linearizable:
  assumes "rely (interferences (attempts sched))" and "db_wf d"
  shows "\<exists>e res. updateProjectStatusForUID sched name uid mutate d = publish_committed name (e, res)
     \<and> linearized (interferences (attempts sched)) (\<lambda>r. row_uid r = uid) name mutate d e res"
  using for_uid_linearized [OF assms] by metis

theorem lifetime_write_linearizable_witness:
  "snd (updateProjectStatusForUID demo_race ''web'' ''u1'' demo_stop demo_running) = Inr ()
   \<and> (\<exists>e res. updateProjectStatusForUID demo_race ''web'' ''u1'' demo_stop demo_running = publish_committed ''web'' (e, res)
        \<and> linearized (interferences (attempts demo_race)) (\<lambda>r. row_uid r = ''u1'') ''web'' demo_stop demo_running e res)"
proof
  show "snd (updateProjectStatusForUID demo_race ''web'' ''u1'' demo_stop demo_running) = Inr ()" by code_simp
qed (rule lifetime_write_linearizable [OF rely_demo_race demo_wf(2)])

text \<open>What a committed or a void run means, with the notification of the commit.\<close>

lemma lifetime_write_cases:
  assumes "rely (interferences (attempts sched))" "db_wf d"
    "updateProjectStatusForUID sched name uid mutate d = (d', Inr x)"
  obtains (void) dl r where "env_reach (interferences (attempts sched)) d d'" "row_at dl name = Some r" "row_uid r = uid"
      "mutate d' (prj_Meta (scanProject r)) (row_status r) = Inr (row_status r, x)"
  | (commit) dm ds r status now where "env_reach (interferences (attempts sched)) d dm"
      "env_reach (interferences (attempts sched)) dm ds" "row_at dm name = Some r" "row_at ds name = Some r"
      "row_uid r = uid" "status \<noteq> row_status r"
      "mutate dm (prj_Meta (scanProject r)) (row_status r) = Inr (status, x)"
      "row_at d' name = Some (commit_row status now r)"
proof -
  obtain e res where lin: "(d', Inr x) = publish_committed name (e, res)"
    "linearized (interferences (attempts sched)) (\<lambda>r. row_uid r = uid) name mutate d e res"
    using for_uid_linearized [OF assms(1,2), of name uid mutate] assms(3) by metis
  then obtain b where b: "res = Inr (b, x)" "d' = (if b then publish TopicProjectUpdated name e else e)"
    by (auto simp: publish_committed_def split: sum.splits)
  show ?thesis
  proof (cases b)
    case True
    with lin(2) b commit show ?thesis by (auto simp: linearized_def)
  next
    case False
    with lin(2) b void show ?thesis by (auto simp: linearized_def intro: env_reach_trans)
  qed
qed

subsection \<open>Releasing an assignment\<close>

lemma find_released_recovery:
  "\<exists>ob. FindObligation (Some (released_recovery s a now k m)) a = Some ob \<and> (ob_ManagedDataOwed ob \<or> \<not> m)"
proof -
  have "FindObligation (Some (AddObligation (EnsureRecovery s) a now k)) a \<noteq> None"
    by (simp add: find_AddObligation)
  then show ?thesis by (auto simp: released_recovery_def Let_def find_OweManagedData)
qed

lemma release_granted:
  assumes "release_status grace p now d meta s = Inr (s', True)" "row_at d (snap_Name p) = Some r"
  shows "ps_NodeRef s = snap_NodeRef p" "ps_AssignmentGeneration s = snap_AssignmentGeneration p"
    "ps_Phase s = ProjectPhaseScheduled \<or> ps_Phase s = ProjectPhaseRunning"
    "WorkloadStoppedFor (ps_Recovery s) (snapshot_assignment p)
      \<or> grace \<and> (\<not> HasManagedVolume (row_spec r) \<or> CommittedBackupID (ps_Recovery s) \<noteq> '''' \<or> LastCompletion (ps_Backup s) \<noteq> None)"
    "ps_Phase s' = ProjectPhasePending" "ps_NodeRef s' = ''''"
    "\<exists>ob. FindObligation (ps_Recovery s') (snapshot_assignment p) = Some ob
        \<and> (ob_ManagedDataOwed ob \<or> \<not> HasManagedVolume (row_spec r))"
proof -
  show g: "ps_NodeRef s = snap_NodeRef p" "ps_AssignmentGeneration s = snap_AssignmentGeneration p"
      "ps_Phase s = ProjectPhaseScheduled \<or> ps_Phase s = ProjectPhaseRunning"
    using assms by (auto simp: release_status_def Let_def rescheduler_transition split: if_splits)
  note run = assms(1) [unfolded release_status_def Let_def GetProject_def assms(2), simplified g(1,2), simplified]
  show "WorkloadStoppedFor (ps_Recovery s) (snapshot_assignment p)
      \<or> grace \<and> (\<not> HasManagedVolume (row_spec r) \<or> CommittedBackupID (ps_Recovery s) \<noteq> '''' \<or> LastCompletion (ps_Backup s) \<noteq> None)"
    using run by (auto split: if_splits)
  obtain k cs where s': "s' = s\<lparr>ps_Phase := ProjectPhasePending, ps_NodeRef := '''',
      ps_Recovery := Some (released_recovery s (snapshot_assignment p) now k (HasManagedVolume (row_spec r))),
      ps_Conditions := cs\<rparr>"
    using run by (auto split: if_splits)
  show "ps_Phase s' = ProjectPhasePending" "ps_NodeRef s' = ''''" unfolding s' by simp_all
  show "\<exists>ob. FindObligation (ps_Recovery s') (snapshot_assignment p) = Some ob
        \<and> (ob_ManagedDataOwed ob \<or> \<not> HasManagedVolume (row_spec r))"
    unfolding s' using find_released_recovery by simp
qed

text \<open>
  C5: an assignment is released only with authority. When \<open>ReleaseAssignment\<close> reports a release, there
  was one instant at which the stored row was the lifetime, Node and generation of the caller's
  snapshot, the Project was Scheduled or Running, and either that assignment's \<open>WorkloadStopped\<close>
  evidence was on record, or grace releases were enabled and a Project with managed data had a backup
  to restore from. The same write makes the Project Pending without a Node and records the obligation
  of the old Node, with the managed data owed as the spec of that very row says.
\<close>

theorem release_only_with_authority:
  assumes "rely (interferences (attempts sched))" and "db_wf d"
    and "ReleaseAssignment sched grace now p d = (d', Inr True)"
  shows "\<exists>ds r q. env_reach (interferences (attempts sched)) d ds \<and> row_at ds (snap_Name p) = Some r
     \<and> row_uid r = snap_UID p \<and> ps_NodeRef (row_status r) = snap_NodeRef p
     \<and> ps_AssignmentGeneration (row_status r) = snap_AssignmentGeneration p
     \<and> (ps_Phase (row_status r) = ProjectPhaseScheduled \<or> ps_Phase (row_status r) = ProjectPhaseRunning)
     \<and> (WorkloadStoppedFor (ps_Recovery (row_status r)) (snapshot_assignment p)
        \<or> grace \<and> (\<not> HasManagedVolume (row_spec r) \<or> CommittedBackupID (ps_Recovery (row_status r)) \<noteq> ''''
                  \<or> LastCompletion (ps_Backup (row_status r)) \<noteq> None))
     \<and> row_at d' (snap_Name p) = Some q \<and> row_uid q = row_uid r
     \<and> ps_Phase (row_status q) = ProjectPhasePending \<and> ps_NodeRef (row_status q) = ''''
     \<and> (\<exists>ob. FindObligation (ps_Recovery (row_status q)) (snapshot_assignment p) = Some ob
          \<and> (ob_ManagedDataOwed ob \<or> \<not> HasManagedVolume (row_spec r)))"
proof -
  note run = assms(3) [unfolded ReleaseAssignment_def UpdateProjectStatusForUID_def]
  show ?thesis
    using assms(1,2) run
  proof (cases rule: lifetime_write_cases)
    case (void dl r)
    then obtain q where "row_at d' (snap_Name p) = Some q"
      by (cases "row_at d' (snap_Name p)") (auto simp: release_status_def Let_def GetProject_def split: if_splits)
    from release_granted(3,5) [OF void(4) this] show ?thesis by auto
  next
    case (commit dm ds r status t)
    note e = env_reach_trans [OF commit(1,2)]
    from release_granted [OF commit(7,3)] e commit(4,5,8) show ?thesis
      by (intro exI [of _ ds] exI [of _ r] exI [of _ "commit_row status t r"]) simp
  qed
qed

theorem release_only_with_authority_witness:
  "snd (ReleaseAssignment demo_race False 104 (demo_snapshot ''n1'' 1) demo_stopped) = Inr True
   \<and> (\<exists>q. row_at (fst (ReleaseAssignment demo_race False 104 (demo_snapshot ''n1'' 1) demo_stopped)) ''web'' = Some q
        \<and> ps_Phase (row_status q) = ProjectPhasePending)"
proof -
  have run: "snd (ReleaseAssignment demo_race False 104 (demo_snapshot ''n1'' 1) demo_stopped) = Inr True" by code_simp
  have wf: "db_wf demo_stopped" using server_op_writes [OF demo_ops(4) demo_wf(2)] by (simp add: server_writes_def)
  have n: "snap_Name (demo_snapshot ''n1'' 1) = ''web''" by (simp add: demo_snapshot_def)
  from run have "ReleaseAssignment demo_race False 104 (demo_snapshot ''n1'' 1) demo_stopped
      = (fst (ReleaseAssignment demo_race False 104 (demo_snapshot ''n1'' 1) demo_stopped), Inr True)" by (metis prod.collapse)
  from release_only_with_authority [OF rely_demo_race wf this] run n show ?thesis by auto
qed

subsection \<open>Takeover\<close>

lemma takeover_run:
  assumes "rely (interferences (attempts sched))" "db_wf d" "TakeoverProject sched name ref audit d = (d', res)"
  shows "takeover_outcome (interferences (attempts sched)) name ref audit d d' res"
  using takeover_loop_outcome assms by (simp add: TakeoverProject_def)

lemma attempts_Cons: "attempts sched = sched 0 # map sched [1, 2]"
  by (simp add: attempts_def maxStatusUpdateAttempts_def upt_rec numeral_2_eq_2)

text \<open>
  C8: a takeover is decided once, and atomically. A takeover that commits does so at one instant at which
  no earlier takeover had its request ID and the stored row is the lifetime it names; the status change
  and the audit record are one write. A repetition of the request, under any interference since, writes
  nothing and returns the record of the first.
\<close>

theorem takeover_atomic_and_replayed:
  assumes "rely (interferences (attempts sched))" and "db_wf d"
    and "TakeoverProject sched name ref audit d = (d', Inr (rec', b))"
  shows "takeover_outcome (interferences (attempts sched)) name ref audit d d' (Inr (rec', b))
     \<and> TakeoverProject (quiet t) name ref audit d' = (d', Inr (rec', True))"
proof -
  note o = takeover_run [OF assms]
  have "takeoverByRequestID d' (tau_RequestID audit) = Some rec' \<and> ta_ProjectName rec' = name
      \<and> ta_Assignment rec' = assignmentIdentity ref"
  proof (cases b)
    case True
    with o show ?thesis by (simp add: takeover_outcome_def)
  next
    case False
    with o obtain ds r s now where c: "takeoverByRequestID ds (tau_RequestID audit) = None"
        "takeover_decision name ref audit now (scanProject r) = Inr (s, rec')" "db_audit d' = db_audit ds @ [rec']"
      by (auto simp: takeover_outcome_def)
    from takeover_decision_record [OF c(2)] c(1,3) show ?thesis
      by (auto simp: takeoverByRequestID_def find_append split: option.splits)
  qed
  with o show ?thesis
    unfolding TakeoverProject_def attempts_Cons by (simp add: quiet_def)
qed

definition demo_marked :: db where
  "demo_marked = fst (ReleaseAssignment (quiet 103) False 103 (demo_snapshot ''n1'' 1) demo_running)"

definition demo_audit :: TakeoverAudit where
  "demo_audit = \<lparr>tau_RequestID = ''req-1'', tau_Caller = ''admin/ops'', tau_Note = ''host lost''\<rparr>"

lemma demo_marked_op: "server_op False demo_running demo_marked"
  unfolding demo_marked_def by (rule op_release)

theorem takeover_atomic_and_replayed_witness:
  "\<exists>rec'. snd (TakeoverProject demo_race ''web'' demo_ref demo_audit demo_marked) = Inr (rec', False)
     \<and> ta_Outcome rec' = TakeoverReleased
     \<and> snd (TakeoverProject (quiet 70) ''web'' demo_ref demo_audit
            (fst (TakeoverProject demo_race ''web'' demo_ref demo_audit demo_marked))) = Inr (rec', True)"
proof -
  have wf: "db_wf demo_marked" using server_op_writes [OF demo_marked_op demo_wf(2)] by (simp add: server_writes_def)
  have "case snd (TakeoverProject demo_race ''web'' demo_ref demo_audit demo_marked) of
      Inl e \<Rightarrow> False | Inr (rec', b) \<Rightarrow> ta_Outcome rec' = TakeoverReleased \<and> \<not> b" by code_simp
  then obtain d' rec' where run: "TakeoverProject demo_race ''web'' demo_ref demo_audit demo_marked = (d', Inr (rec', False))"
    "ta_Outcome rec' = TakeoverReleased"
    by (cases "TakeoverProject demo_race ''web'' demo_ref demo_audit demo_marked") (auto split: sum.splits)
  from takeover_atomic_and_replayed [OF rely_demo_race wf run(1), of 70] run show ?thesis by simp
qed

text \<open>
  C36: a Failed Project cannot be taken over. \<open>MoveFailedProject\<close> marks a Failed Project whose Node has not
  confirmed the stop as \<open>TakeoverRequired\<close>, with the message that it stays assigned until the takeover
  is authorized; but in every reachable state the takeover of a Failed Project's assignment is refused
  as a conflict and changes nothing, marked or not.
\<close>

theorem failed_takeover_refused:
  assumes "reachable grace d G" and "row_at d name = Some r" and "ps_Phase (row_status r) = ProjectPhaseFailed"
    and "assignmentFenceWHERE ref r" and "takeoverByRequestID d (tau_RequestID audit) = None"
  shows "fst (TakeoverProject (quiet t) name ref audit d) = d
     \<and> (\<exists>e. snd (TakeoverProject (quiet t) name ref audit d) = Inl e \<and> is_conflict_state e)"
proof -
  have n: "ps_NodeRef (row_status r) \<noteq> ''''" using reachable_row(1) [OF assms(1,2)] assms(3) by (simp add: own_inv_def)
  have "takeover_decision name ref audit t (scanProject r) =
      Inl (WrappedError (project_msg name) (ErrConflictState (''project is '' @ phase_text ProjectPhaseFailed)))"
    using n assms(3,4) by (simp add: takeover_decision_def Let_def applyOperatorTakeover_def takeover_transition
        assignmentIdentity_def assignmentFenceWHERE_def)
  with assms(2,4,5) show ?thesis
    unfolding TakeoverProject_def attempts_Cons
    by (simp add: quiet_def GetProject_def assignmentFenceWHERE_def)
qed

definition demo_failed :: db where
  "demo_failed = fst (patchStatus (quiet 110) 110 None ''web'' (Inr (demo_report ProjectPhaseFailed ''n1'' 1)) demo_running)"

definition demo_failed_marked :: db where
  "demo_failed_marked = fst (MoveFailedProject (quiet 111) 111 (demo_snapshot ''n1'' 1) ''moved'' demo_failed)"

lemma demo_failed_reachable:
  "reachable False demo_failed_marked (grants_along (demo_failed_marked # demo_failed # run_running))"
proof -
  have "server_op False demo_running demo_failed" unfolding demo_failed_def by (rule op_patchStatus)
  moreover have "server_op False demo_failed demo_failed_marked" unfolding demo_failed_marked_def by (rule op_moveFailed)
  ultimately show ?thesis using reach_along demo_reachable(2) by blast
qed

theorem failed_takeover_refused_witness:
  "\<exists>r. row_at demo_failed_marked ''web'' = Some r \<and> takeover_marked (ps_Conditions (row_status r))
     \<and> (\<exists>e. snd (TakeoverProject (quiet 120) ''web'' demo_ref demo_audit demo_failed_marked) = Inl e \<and> is_conflict_state e)"
proof -
  have c: "case row_at demo_failed_marked ''web'' of None \<Rightarrow> False
      | Some r \<Rightarrow> ps_Phase (row_status r) = ProjectPhaseFailed \<and> assignmentFenceWHERE demo_ref r
          \<and> takeover_marked (ps_Conditions (row_status r))"
    "takeoverByRequestID demo_failed_marked (tau_RequestID demo_audit) = None" by code_simp+
  then obtain r where r: "row_at demo_failed_marked ''web'' = Some r" "ps_Phase (row_status r) = ProjectPhaseFailed"
    "assignmentFenceWHERE demo_ref r" "takeover_marked (ps_Conditions (row_status r))" by (auto split: option.splits)
  from failed_takeover_refused [OF demo_failed_reachable r(1-3) c(2), of 120] r show ?thesis by blast
qed

subsection \<open>Evidence\<close>

text \<open>
  evidence is recorded once. After a Node's \<open>ResourcesRemoved\<close> report was accepted, the obligation
  it names is resolved, every other obligation of the Project is as it was, and a repetition of the
  report with any later observation time is accepted and changes nothing: the first observation stays.
\<close>

theorem resources_removed_recorded_once:
  assumes "db_wf d" and "RecordResourcesRemoved (quiet t) name owner at1 d = (d', Inr ())"
  shows "RecordResourcesRemoved (quiet t2) name owner at2 d' = (d', Inr ())
     \<and> (\<exists>r r' ob. row_at d name = Some r \<and> row_at d' name = Some r' \<and> row_uid r' = ref_UID owner
          \<and> FindObligation (ps_Recovery (row_status r')) (assignmentIdentity owner) = Some ob \<and> Resolved ob
          \<and> obligation_ids (ps_Recovery (row_status r')) = obligation_ids (ps_Recovery (row_status r))
          \<and> list_all (\<lambda>b. b = assignmentIdentity owner \<or> FindObligation (ps_Recovery (row_status r')) b
                 = FindObligation (ps_Recovery (row_status r)) b) (obligation_ids (ps_Recovery (row_status r))))"
proof -
  let ?a = "assignmentIdentity owner"
  obtain r s' where r: "row_at d name = Some r" "row_uid r = ref_UID owner" "resources_removed name ?a at1 (row_status r) = Inr s'"
    "d' = (if s' = row_status r then d else write_status name s' t d)"
    using assms(2) unfolding RecordResourcesRemoved_def for_uid_quiet [OF assms(1)]
    by (auto simp: apply_closure_def on_status_def split: option.splits if_splits sum.splits)
  have wf: "db_wf d'" using assms(1) r(4) by (simp add: write_status_ok)
  obtain r' where r': "row_at d' name = Some r'" "row_uid r' = ref_UID owner" "row_status r' = s'"
    using r row_at_write_status [OF r(1), of s' t] by (cases "s' = row_status r") auto
  note eff = resources_removed_effect [OF r(3)]
  obtain ob where ob: "FindObligation (ps_Recovery s') ?a = Some ob" "Resolved ob"
    using eff(1) eff(3) [of ?a] by (auto simp: Resolved_def split: if_splits)
  have "RecordResourcesRemoved (quiet t2) name owner at2 d' = (d', Inr ())"
    using r' reports_idempotent(2) [OF r(3), of at2] unfolding RecordResourcesRemoved_def for_uid_quiet [OF wf]
    by (simp add: apply_closure_def on_status_def)
  moreover have "list_all (\<lambda>b. b = ?a \<or> FindObligation (ps_Recovery s') b = FindObligation (ps_Recovery (row_status r)) b)
      (obligation_ids (ps_Recovery (row_status r)))" using eff(3) by (simp add: list_all_iff)
  ultimately show ?thesis using r(1) r' ob eff(4) by blast
qed

subsection \<open>The write by version only\<close>

text \<open>A run in which the Project is deleted by force, created again, and restarted a few times.\<close>

definition demo_restarts :: "db \<Rightarrow> db" where
  "demo_restarts d = fold (\<lambda>t d. fst (restartProject t ''web'' d)) [200, 201, 202, 203, 204] d"

definition demo_recreate :: "db \<Rightarrow> db" where
  "demo_recreate d = demo_restarts (fst (createProject (\<lambda>_. None) ''pg'' ''u2'' 120 (Inr demo_project)
     (fst (deleteProject (quiet 119) id id 119 ''web'' True d))))"

definition demo_aba :: "nat \<Rightarrow> interference" where
  "demo_aba i = (quiet 210 i)\<lparr>it_swap := (if i = 0 then demo_recreate else id)\<rparr>"

text \<open>
  \<open>UpdateProjectStatusWithRetry\<close> compares the version only, so the scheduler's assignment can land on
  another lifetime. Here the first lifetime, released by Node n1, is force-deleted and recreated
  between the scheduler's read and its swap, and the new lifetime happens to reach the same version: the
  swap succeeds and stores the first lifetime's status under the new UID. The new lifetime, never
  assigned before, is at generation 2 and owes the cleanup of an assignment of the deleted one.
\<close>

theorem schedule_crosses_lifetimes:
  "run False demo_removed (demo_recreate demo_removed)
   \<and> (let (d', res) = SetProjectScheduled demo_aba 210 ''web'' ''n2'' demo_removed in
      res = Inr () \<and> (case row_at d' ''web'' of None \<Rightarrow> False | Some r \<Rightarrow>
        row_uid r = ''u2'' \<and> ps_AssignmentGeneration (row_status r) = 2
        \<and> obligation_ids (ps_Recovery (row_status r))
            = [\<lparr>ai_ProjectUID = ''u1'', ai_NodeName = ''n1'', ai_AssignmentGeneration = 1\<rparr>]))"
proof
  have fresh: "''u2'' \<notin> set (db_uids (fst (deleteProject (quiet 119) id id 119 ''web'' True demo_removed)))" by code_simp
  have restarts: "run False d (fold (\<lambda>t d. fst (restartProject t ''web'' d)) ts e)" if "run False d e" for d e ts
    using that by (induction ts arbitrary: e) (auto intro: run_step op_restart)
  show "run False demo_removed (demo_recreate demo_removed)"
    unfolding demo_recreate_def demo_restarts_def
    by (intro restarts run_step [OF run_step [OF run_refl op_delete] op_create [OF fresh]])
qed code_simp

end
