(* ===== verification/Node_Store.thy ===== *)
theory Node_Store
  imports Project_Store
begin

text \<open>
  Nodes and pre-auth keys. First the Node half of \<open>internal/store/postgres/store.go\<close> and its
  pre-auth keys, as statements on the rows of the two tables; then the Node adapter of the
  controllers (\<open>internal/server/adapter/node.go\<close>) and the health controller
  (\<open>internal/server/controller/node_health.go\<close>). Where one operation makes two statements, the writes
  of other sessions in between are an argument.
\<close>

subsection \<open>Tables\<close>

record nrow =
  nr_namespace :: string
  nr_name :: string
  nr_uid :: string
  nr_phase :: string
  nr_spec :: NodeSpec
  nr_status :: NodeStatus
  nr_labels :: "string \<rightharpoonup> string"
  nr_annotations :: "string \<rightharpoonup> string"
  nr_created_at :: time
  nr_updated_at :: time
  nr_resource_version :: int

text \<open>The key states are strings; \<open>used_by_ip\<close> and \<open>used_at\<close> are filled when a key is consumed.\<close>

definition PreAuthKeyStateActive :: string where "PreAuthKeyStateActive = ''active''"
definition PreAuthKeyStateUsed :: string where "PreAuthKeyStateUsed = ''used''"

record PreAuthKey =
  pk_KeyHash :: string
  pk_KeyPrefix :: string
  pk_CaraNodeName :: string
  pk_Expiration :: time
  pk_State :: string
  pk_UsedByIP :: string
  pk_UsedAt :: time
  pk_IssuedBy :: string

record cluster =
  cl_nodes :: "nrow list"
  cl_keys :: "PreAuthKey list"
  cl_events :: "(Topic \<times> string) list"

fun state_text :: "NodeState \<Rightarrow> string" where
  "state_text NodeStateReady = ''Ready''"
| "state_text NodeStateNotReady = ''NotReady''"
| "state_text NodeStateDraining = ''Draining''"
| "state_text (NodeStateOther s) = s"

definition kindNode :: string where "kindNode = ''Node''"

definition node_msg :: "string \<Rightarrow> string" where
  "node_msg name = ''node '' @ go_quote name"

definition publish_node :: "Topic \<Rightarrow> string \<Rightarrow> cluster \<Rightarrow> cluster" where
  "publish_node topic name c = c\<lparr>cl_events := cl_events c @ [(topic, name)]\<rparr>"

definition node_at :: "cluster \<Rightarrow> string \<Rightarrow> nrow option" where
  "node_at c name = List.find (\<lambda>r. nr_name r = name) (cl_nodes c)"

text \<open>\<open>UPDATE \<dots> WHERE kind = 'Node' AND name = $n\<close>, and how many rows it hit.\<close>

definition update_nodes :: "string \<Rightarrow> (nrow \<Rightarrow> nrow) \<Rightarrow> cluster \<Rightarrow> cluster \<times> nat" where
  "update_nodes name f c = (c\<lparr>cl_nodes := map (\<lambda>r. if nr_name r = name then f r else r) (cl_nodes c)\<rparr>,
     length (filter (\<lambda>r. nr_name r = name) (cl_nodes c)))"

subsection \<open>Node operations of the store\<close>

definition CreateNode :: "string \<Rightarrow> time \<Rightarrow> Node \<Rightarrow> cluster \<Rightarrow> cluster \<times> Node result" where
  "CreateNode uid now node c =
     (let m = node_Meta node in
      if list_ex (\<lambda>r. nr_namespace r = DefaultNamespace \<and> nr_name r = meta_Name m \<or> nr_uid r = uid) (cl_nodes c)
      then (c, Inl (ErrAlreadyExists ''''))
      else (publish_node TopicNodeCreated (meta_Name m)
              (c\<lparr>cl_nodes := cl_nodes c @
                 [\<lparr>nr_namespace = DefaultNamespace, nr_name = meta_Name m, nr_uid = uid,
                   nr_phase = state_text (ns_State (node_Status node)), nr_spec = node_Spec node,
                   nr_status = node_Status node, nr_labels = meta_Labels m, nr_annotations = meta_Annotations m,
                   nr_created_at = now, nr_updated_at = now, nr_resource_version = 1\<rparr>]\<rparr>),
            Inr (node\<lparr>node_Meta := m\<lparr>meta_CreatedAt := now, meta_UpdatedAt := now, meta_UID := uid,
                   meta_Namespace := DefaultNamespace, meta_ResourceVersion := 1\<rparr>\<rparr>)))"

definition scanNode :: "nrow \<Rightarrow> Node" where
  "scanNode r =
     \<lparr>node_TypeMeta = \<lparr>tm_APIVersion = APIVersion, tm_Kind = kindNode\<rparr>,
      node_Meta = \<lparr>meta_Name = nr_name r, meta_UID = nr_uid r, meta_Namespace = nr_namespace r,
        meta_ResourceVersion = nr_resource_version r, meta_SpecRevision = 0, meta_Labels = nr_labels r,
        meta_Annotations = nr_annotations r, meta_CreatedAt = nr_created_at r, meta_UpdatedAt = nr_updated_at r\<rparr>,
      node_Spec = nr_spec r, node_Status = nr_status r\<rparr>"

definition GetNode :: "cluster \<Rightarrow> string \<Rightarrow> Node result" where
  "GetNode c name = (case node_at c name of
       None \<Rightarrow> Inl (ErrNotFound '''') | Some r \<Rightarrow> Inr (scanNode r))"

definition ListNodes :: "cluster \<Rightarrow> Node list" where
  "ListNodes c = map scanNode (cl_nodes c)"

definition UpdateNode :: "time \<Rightarrow> Node \<Rightarrow> cluster \<Rightarrow> cluster \<times> unit result" where
  "UpdateNode now node c =
     (let m = node_Meta node;
          (c', n) = update_nodes (meta_Name m)
            (\<lambda>r. r\<lparr>nr_phase := state_text (ns_State (node_Status node)), nr_spec := node_Spec node,
                   nr_status := node_Status node, nr_labels := meta_Labels m, nr_annotations := meta_Annotations m,
                   nr_updated_at := now, nr_resource_version := nr_resource_version r + 1\<rparr>) c
      in if n = 0 then (c', Inl (ErrNotFound (node_msg (meta_Name m)))) else (c', Inr ()))"

definition UpdateNodeSpec :: "time \<Rightarrow> Node \<Rightarrow> cluster \<Rightarrow> cluster \<times> unit result" where
  "UpdateNodeSpec now node c =
     (let m = node_Meta node;
          (c', n) = update_nodes (meta_Name m)
            (\<lambda>r. r\<lparr>nr_spec := node_Spec node, nr_labels := meta_Labels m, nr_annotations := meta_Annotations m,
                   nr_updated_at := now, nr_resource_version := nr_resource_version r + 1\<rparr>) c
      in if n = 0 then (c', Inl (ErrNotFound (node_msg (meta_Name m))))
         else (publish_node TopicNodeUpdated (meta_Name m) c', Inr ()))"

definition DeleteNode :: "string \<Rightarrow> cluster \<Rightarrow> cluster \<times> unit result" where
  "DeleteNode name c =
     (let n = length (filter (\<lambda>r. nr_name r = name) (cl_nodes c));
          c' = c\<lparr>cl_nodes := filter (\<lambda>r. nr_name r \<noteq> name) (cl_nodes c)\<rparr>
      in if n = 0 then (c', Inl (ErrNotFound (node_msg name))) else (c', Inr ()))"

text \<open>The common table expression reads the phase in the statement that overwrites it.\<close>

definition UpdateNodeStatus :: "time \<Rightarrow> string \<Rightarrow> NodeStatus \<Rightarrow> cluster \<Rightarrow> cluster \<times> unit result" where
  "UpdateNodeStatus now name status c =
     (case node_at c name of
        None \<Rightarrow> (c, Inl (ErrNotFound (node_msg name)))
      | Some old \<Rightarrow>
          let (c', _) = update_nodes name
                (\<lambda>r. r\<lparr>nr_phase := state_text (ns_State status), nr_status := status, nr_updated_at := now,
                       nr_resource_version := nr_resource_version r + 1\<rparr>) c
          in (if nr_phase old \<noteq> state_text (ns_State status) then publish_node TopicNodeUpdated name c' else c', Inr ()))"

subsection \<open>Pre-auth keys\<close>

definition stateOrDefault :: "string \<Rightarrow> string" where
  "stateOrDefault state = (if state = '''' then PreAuthKeyStateActive else state)"

definition CreatePreAuthKey :: "PreAuthKey \<Rightarrow> cluster \<Rightarrow> cluster \<times> unit result" where
  "CreatePreAuthKey key c =
     (if list_ex (\<lambda>k. pk_KeyHash k = pk_KeyHash key) (cl_keys c) then (c, Inl (ErrAlreadyExists ''''))
      else (c\<lparr>cl_keys := cl_keys c @ [key\<lparr>pk_State := stateOrDefault (pk_State key), pk_UsedByIP := '''',
               pk_UsedAt := time_zero\<rparr>]\<rparr>, Inr ()))"

definition GetPreAuthKeyByHash :: "cluster \<Rightarrow> string \<Rightarrow> PreAuthKey result" where
  "GetPreAuthKeyByHash c keyHash = (case List.find (\<lambda>k. pk_KeyHash k = keyHash) (cl_keys c) of
       None \<Rightarrow> Inl (ErrNotFound ''preauth key'') | Some k \<Rightarrow> Inr k)"

definition MarkPreAuthKeyUsed :: "string \<Rightarrow> string \<Rightarrow> time \<Rightarrow> cluster \<Rightarrow> cluster \<times> unit result" where
  "MarkPreAuthKeyUsed keyHash usedByIP usedAt c =
     (let c' = c\<lparr>cl_keys := map (\<lambda>k. if pk_KeyHash k = keyHash
             then k\<lparr>pk_State := PreAuthKeyStateUsed, pk_UsedByIP := usedByIP, pk_UsedAt := usedAt\<rparr> else k) (cl_keys c)\<rparr>
      in if length (filter (\<lambda>k. pk_KeyHash k = keyHash) (cl_keys c)) = 0
         then (c', Inl (ErrNotFound ''preauth key'')) else (c', Inr ()))"

subsection \<open>The Node adapter\<close>

record NodeStatusSnapshot =
  nss_LastHeartbeat :: time
  nss_State :: NodeState

record ReadyNode =
  rn_Name :: string
  rn_Labels :: "string \<rightharpoonup> string"
  rn_Allocatable :: ResourceList
  rn_Conditions :: "Condition list"

definition ListNodeNames :: "cluster \<Rightarrow> string list" where
  "ListNodeNames c = map (\<lambda>n. meta_Name (node_Meta n)) (ListNodes c)"

definition GetNodeStatus :: "cluster \<Rightarrow> string \<Rightarrow> NodeStatusSnapshot result" where
  "GetNodeStatus c name = (case GetNode c name of
       Inl e \<Rightarrow> Inl e
     | Inr node \<Rightarrow> Inr \<lparr>nss_LastHeartbeat = ns_LastHeartbeat (node_Status node), nss_State = ns_State (node_Status node)\<rparr>)"

definition ready_condition :: "NodeState \<Rightarrow> string \<Rightarrow> string \<Rightarrow> time \<Rightarrow> Condition" where
  "ready_condition state reason message now =
     condition_lit ConditionTypeReady (if state \<noteq> NodeStateReady then ConditionFalse else ConditionTrue) reason message now"

definition set_ready_condition :: "Condition \<Rightarrow> Condition list \<Rightarrow> Condition list" where
  "set_ready_condition cond cs =
     (if list_ex (\<lambda>c. cond_Type c = ConditionTypeReady) cs
      then update_first (\<lambda>c. cond_Type c = ConditionTypeReady) (\<lambda>_. cond) cs else cs @ [cond])"

text \<open>\<open>SetNodeState\<close> reads the whole status and writes it back; \<open>gap\<close> is what happens in between.\<close>

definition SetNodeState ::
  "(cluster \<Rightarrow> cluster) \<Rightarrow> time \<Rightarrow> string \<Rightarrow> NodeState \<Rightarrow> string \<Rightarrow> string \<Rightarrow> cluster \<Rightarrow> cluster \<times> unit result" where
  "SetNodeState gap now name state reason message c =
     (case GetNode c name of
        Inl e \<Rightarrow> (c, Inl e)
      | Inr node \<Rightarrow>
          let status = (node_Status node)\<lparr>ns_State := state,
                ns_Conditions := set_ready_condition (ready_condition state reason message now)
                                   (ns_Conditions (node_Status node))\<rparr>
          in UpdateNodeStatus now name status (gap c))"

definition ListNotReadyNodeNames :: "cluster \<Rightarrow> string list" where
  "ListNotReadyNodeNames c = map (\<lambda>n. meta_Name (node_Meta n))
     (filter (\<lambda>n. ns_State (node_Status n) = NodeStateNotReady) (ListNodes c))"

definition ListReadyNodes :: "cluster \<Rightarrow> ReadyNode list" where
  "ListReadyNodes c = map (\<lambda>n. \<lparr>rn_Name = meta_Name (node_Meta n), rn_Labels = meta_Labels (node_Meta n),
       rn_Allocatable = ns_Allocatable (node_Status n), rn_Conditions = ns_Conditions (node_Status n)\<rparr>)
     (filter (\<lambda>n. ns_State (node_Status n) = NodeStateReady \<and> \<not> nsp_Unschedulable (node_Spec n)) (ListNodes c))"

subsection \<open>The health controller\<close>

text \<open>\<open>controller.Result\<close>: whether the manager should enqueue the key again.\<close>

record Result =
  res_Requeue :: bool

abbreviation Done :: Result where "Done \<equiv> \<lparr>res_Requeue = False\<rparr>"
abbreviation Requeue :: Result where "Requeue \<equiv> \<lparr>res_Requeue = True\<rparr>"

definition NodeHeartbeatTimeout :: duration where "NodeHeartbeatTimeout = 90 * time_Second"

definition node_health_Reconcile ::
  "(cluster \<Rightarrow> cluster) \<Rightarrow> (cluster \<Rightarrow> cluster) \<Rightarrow> time \<Rightarrow> string \<Rightarrow> cluster \<Rightarrow> cluster \<times> Result result" where
  "node_health_Reconcile gap1 gap2 now name c =
     (case GetNodeStatus c name of
        Inl e \<Rightarrow> if is_not_found e then (c, Inr Done) else (c, Inl e)
      | Inr snap \<Rightarrow>
          let age = time_Sub now (nss_LastHeartbeat snap); state = nss_State snap;
              finish = (\<lambda>(c', r). (c', case r of Inl e \<Rightarrow> Inl e | Inr _ \<Rightarrow> Inr Done))
          in if state = NodeStateDraining then (c, Inr Done)
             else if age > NodeHeartbeatTimeout \<and> state \<noteq> NodeStateNotReady
             then finish (SetNodeState gap2 now name NodeStateNotReady ''HeartbeatTimeout''
                    ''Agent has not posted a heartbeat within the timeout window'' (gap1 c))
             else if age \<le> NodeHeartbeatTimeout \<and> state = NodeStateNotReady
             then finish (SetNodeState gap2 now name NodeStateReady ''AgentReady''
                    ''Agent is healthy and posting heartbeats'' (gap1 c))
             else (c, Inr Done))"

definition seedOnce :: "cluster \<Rightarrow> string list" where
  "seedOnce c = ListNodeNames c"

subsection \<open>Invariant of the tables\<close>

definition row_ok :: "nrow \<Rightarrow> bool" where
  "row_ok r \<longleftrightarrow> nr_namespace r = DefaultNamespace \<and> nr_phase r = state_text (ns_State (nr_status r))
     \<and> 1 \<le> nr_resource_version r"

definition cluster_wf :: "cluster \<Rightarrow> bool" where
  "cluster_wf c \<longleftrightarrow> distinct (map nr_name (cl_nodes c)) \<and> distinct (map nr_uid (cl_nodes c))
     \<and> distinct (map pk_KeyHash (cl_keys c)) \<and> list_all row_ok (cl_nodes c)"

lemma find_map_same:
  "(\<And>x. P (f x) = P x) \<Longrightarrow> List.find P (map f xs) = map_option f (List.find P xs)"
  by (induction xs) auto

lemma comp_if_same: "(\<And>x. g (f x) = g x) \<Longrightarrow> g \<circ> (\<lambda>x. if P x then f x else x) = g"
  by auto

lemma node_at_update_nodes [simp]:
  "(\<And>r. nr_name (f r) = nr_name r) \<Longrightarrow>
   node_at (fst (update_nodes name f c)) n = map_option (if n = name then f else id) (node_at c n)"
  unfolding node_at_def update_nodes_def
  by (auto simp: find_map_same option.map_comp map_option_case dest!: find_SomeD split: option.splits)

lemma node_at_publish [simp]: "node_at (publish_node t n c) name = node_at c name"
  by (simp add: publish_node_def node_at_def)

lemma wf_publish [simp]: "cluster_wf (publish_node t n c) = cluster_wf c"
  by (simp add: publish_node_def cluster_wf_def)

lemma wf_update_nodes:
  assumes "cluster_wf c" and "\<And>r. nr_name (f r) = nr_name r \<and> nr_uid (f r) = nr_uid r"
    and "\<And>r. row_ok r \<Longrightarrow> row_ok (f r)"
  shows "cluster_wf (fst (update_nodes name f c))"
proof -
  have "nr_name \<circ> (\<lambda>r. if nr_name r = name then f r else r) = nr_name" "nr_uid \<circ> (\<lambda>r. if nr_name r = name then f r else r) = nr_uid"
    using assms(2) by (auto intro!: comp_if_same)
  with assms show ?thesis by (auto simp: cluster_wf_def update_nodes_def list_all_iff)
qed

lemma wf_CreateNode: "cluster_wf c \<Longrightarrow> cluster_wf (fst (CreateNode uid now node c))"
  by (auto simp: CreateNode_def Let_def cluster_wf_def row_ok_def publish_node_def list_ex_iff list_all_iff)

lemma wf_UpdateNodeStatus: "cluster_wf c \<Longrightarrow> cluster_wf (fst (UpdateNodeStatus now name status c))"
proof -
  assume c: "cluster_wf c"
  let ?f = "\<lambda>r. r\<lparr>nr_phase := state_text (ns_State status), nr_status := status, nr_updated_at := now,
                       nr_resource_version := nr_resource_version r + 1\<rparr>"
  have "cluster_wf (fst (update_nodes name ?f c))" by (rule wf_update_nodes [OF c]) (simp_all add: row_ok_def)
  with c show ?thesis by (auto simp: UpdateNodeStatus_def Let_def split: option.split prod.split)
qed

lemma wf_UpdateNodeSpec: "cluster_wf c \<Longrightarrow> cluster_wf (fst (UpdateNodeSpec now node c))"
proof -
  assume c: "cluster_wf c"
  let ?f = "\<lambda>r. r\<lparr>nr_spec := node_Spec node, nr_labels := meta_Labels (node_Meta node),
      nr_annotations := meta_Annotations (node_Meta node), nr_updated_at := now,
      nr_resource_version := nr_resource_version r + 1\<rparr>"
  have "cluster_wf (fst (update_nodes (meta_Name (node_Meta node)) ?f c))"
    by (rule wf_update_nodes [OF c]) (simp_all add: row_ok_def)
  then show ?thesis by (auto simp: UpdateNodeSpec_def Let_def split: prod.split)
qed

lemma wf_DeleteNode: "cluster_wf c \<Longrightarrow> cluster_wf (fst (DeleteNode name c))"
  by (auto simp: DeleteNode_def Let_def cluster_wf_def list_all_iff distinct_map_filter)

lemma wf_keys:
  "cluster_wf c \<Longrightarrow> cluster_wf (fst (CreatePreAuthKey key c))"
  "cluster_wf c \<Longrightarrow> cluster_wf (fst (MarkPreAuthKeyUsed h ip t c))"
proof -
  show "cluster_wf c \<Longrightarrow> cluster_wf (fst (CreatePreAuthKey key c))"
    by (auto simp: CreatePreAuthKey_def cluster_wf_def list_ex_iff)
  have "pk_KeyHash \<circ> (\<lambda>k :: PreAuthKey. if pk_KeyHash k = h then k\<lparr>pk_State := s, pk_UsedByIP := ip, pk_UsedAt := t\<rparr> else k) = pk_KeyHash"
    for s :: string by (rule comp_if_same) simp
  then show "cluster_wf c \<Longrightarrow> cluster_wf (fst (MarkPreAuthKeyUsed h ip t c))"
    by (simp add: MarkPreAuthKeyUsed_def Let_def cluster_wf_def)
qed

lemma GetNode_iff: "GetNode c name = Inr n \<longleftrightarrow> (\<exists>r. node_at c name = Some r \<and> n = scanNode r)"
  by (auto simp: GetNode_def split: option.splits)

lemma node_at_UpdateNodeStatus:
  "node_at (fst (UpdateNodeStatus now name status c)) n =
     map_option (\<lambda>r. if n = name then r\<lparr>nr_phase := state_text (ns_State status), nr_status := status,
        nr_updated_at := now, nr_resource_version := nr_resource_version r + 1\<rparr> else r) (node_at c n)"
  by (cases "n = name") (auto simp: UpdateNodeStatus_def case_prod_beta map_option.identity option.map_id split: option.split)

subsection \<open>What the health controller does\<close>

definition health_verdict :: "time \<Rightarrow> NodeStatus \<Rightarrow> NodeState" where
  "health_verdict now s = (let age = now - ns_LastHeartbeat s in
     if ns_State s = NodeStateDraining then NodeStateDraining
     else if age > NodeHeartbeatTimeout then NodeStateNotReady
     else if ns_State s = NodeStateNotReady then NodeStateReady else ns_State s)"

lemma time_Sub_timeout: "time_Sub now t \<le> NodeHeartbeatTimeout \<longleftrightarrow> now - t \<le> NodeHeartbeatTimeout"
  by (auto simp: time_Sub_def NodeHeartbeatTimeout_def duration_defs max_int64_def min_int64_def)

lemma node_at_SetNodeState:
  assumes "node_at c name = Some r"
  shows "snd (SetNodeState id now name state reason message c) = Inr ()"
    and "\<exists>r'. node_at (fst (SetNodeState id now name state reason message c)) name = Some r'
           \<and> nr_status r' = (nr_status r)\<lparr>ns_State := state, ns_Conditions :=
                set_ready_condition (ready_condition state reason message now) (ns_Conditions (nr_status r))\<rparr>"
    and "n \<noteq> name \<Longrightarrow> node_at (fst (SetNodeState id now name state reason message c)) n = node_at c n"
  using assms
  by (simp_all add: SetNodeState_def GetNode_def Let_def node_at_UpdateNodeStatus scanNode_def map_option.identity)
    (simp add: UpdateNodeStatus_def case_prod_beta)

lemma health_Reconcile_cases:
  assumes "node_at c name = Some r"
  obtains (kept) "node_health_Reconcile id id now name c = (c, Inr Done)" "health_verdict now (nr_status r) = ns_State (nr_status r)"
  | (written) reason message where
      "node_health_Reconcile id id now name c =
         (fst (SetNodeState id now name (health_verdict now (nr_status r)) reason message c), Inr Done)"
      "health_verdict now (nr_status r) \<noteq> ns_State (nr_status r)"
proof -
  let ?s = "nr_status r"
  have snap: "GetNodeStatus c name = Inr \<lparr>nss_LastHeartbeat = ns_LastHeartbeat ?s, nss_State = ns_State ?s\<rparr>"
    using assms by (simp add: GetNodeStatus_def GetNode_def scanNode_def)
  have set: "SetNodeState id now name st reason message c = (fst (SetNodeState id now name st reason message c), Inr ())"
    for st reason message using node_at_SetNodeState(1) [OF assms] by (metis prod.collapse)
  show ?thesis
  proof (cases "health_verdict now ?s = ns_State ?s")
    case True
    then have "node_health_Reconcile id id now name c = (c, Inr Done)"
      by (auto simp: node_health_Reconcile_def snap Let_def health_verdict_def time_Sub_timeout not_le [symmetric] split: if_splits)
    with True that(1) show ?thesis by blast
  next
    case False
    then have "node_health_Reconcile id id now name c =
        (fst (SetNodeState id now name (health_verdict now ?s) ''HeartbeatTimeout''
           ''Agent has not posted a heartbeat within the timeout window'' c), Inr Done)
      \<or> node_health_Reconcile id id now name c =
        (fst (SetNodeState id now name (health_verdict now ?s) ''AgentReady''
           ''Agent is healthy and posting heartbeats'' c), Inr Done)"
      by (subst (1 2) node_health_Reconcile_def)
        (auto simp: snap Let_def health_verdict_def time_Sub_timeout not_le [symmetric] case_prod_beta
           node_at_SetNodeState(1) [OF assms] split: if_splits)
    with False that(2) show ?thesis by blast
  qed
qed

end
