(* ===== verification/Node_Handlers.thy ===== *)
theory Node_Handlers
  imports Node_Store Project_Handlers
begin

text \<open>
  The Node routes (\<open>internal/server/handler/node/handler.go\<close>, \<open>probe.go\<close>) and the resolution of a
  Node's Agent (\<open>internal/server/agentdialer/dialer.go\<close>). Conventions are those of the Project
  handlers: the decoded body, the clock readings and the writes of other sessions between two store
  calls are arguments. The listing of cleanup obligations is with the Project handlers.
\<close>

subsection \<open>Overlay status\<close>

definition overlayOfflineThreshold :: duration where
  "overlayOfflineThreshold = NodeHeartbeatTimeout"

definition computeOverlayStatus :: "string \<Rightarrow> time \<Rightarrow> time \<Rightarrow> duration \<Rightarrow> OverlayStatus" where
  "computeOverlayStatus overlayIP lastHeartbeat now threshold =
     (if overlayIP = '''' \<or> lastHeartbeat = time_zero then OverlayStatusUnknown
      else if time_Sub now lastHeartbeat > threshold then OverlayStatusOffline
      else OverlayStatusOnline)"

definition setOverlayStatus :: "time \<Rightarrow> Node \<Rightarrow> Node" where
  "setOverlayStatus now node =
     (let s = node_Status node; nw = ns_Network s
      in node\<lparr>node_Status := s\<lparr>ns_Network := nw\<lparr>nn_OverlayStatus :=
           computeOverlayStatus (nn_OverlayIP nw) (ns_LastHeartbeat s) now overlayOfflineThreshold\<rparr>\<rparr>\<rparr>)"

subsection \<open>Create, update, list, get, delete\<close>

definition node_not_found :: "string \<Rightarrow> 'a response" where
  "node_not_found name = Problem (StoreError (WrappedError (''node not found: '' @ name) (ErrNotFound '''')))"

definition tier_field :: string where
  "tier_field = ''metadata.labels['' @ LabelNodeTier @ '']''"

text \<open>An Agent registers only the Node its token was issued for.\<close>

definition registration_refusal :: "Principal option \<Rightarrow> string \<Rightarrow> api_error option" where
  "registration_refusal caller name = (case caller of
       Some p \<Rightarrow> if pr_Kind p = APITokenKindNode \<and> pr_Name p \<noteq> name
                then Some (ErrForbidden (Principal_String p @ '' may register only node '' @ go_quote (pr_Name p)))
                else None
     | None \<Rightarrow> None)"

definition createNode ::
  "string \<Rightarrow> time \<Rightarrow> Principal option \<Rightarrow> string + Node \<Rightarrow> cluster \<Rightarrow> cluster \<times> Node response" where
  "createNode uid now caller body c =
     (case body of
        Inl err \<Rightarrow> (c, Problem (ValidationError ''body'' (''invalid request body: '' @ err)))
      | Inr node \<Rightarrow>
          let m = node_Meta node; name = meta_Name m in
          if name = '''' then (c, Problem (ValidationError ''metadata.name'' ''metadata.name is required''))
          else case ValidateName name of
            Some e \<Rightarrow> (c, Problem (ValidationError ''metadata.name'' e))
          | None \<Rightarrow> (case ValidateNamespace (meta_Namespace m) of
              Some e \<Rightarrow> (c, Problem (ValidationError ''metadata.namespace'' e))
            | None \<Rightarrow> (case registration_refusal caller name of
                Some e \<Rightarrow> (c, Problem e)
              | None \<Rightarrow> (case ValidateNodeLabels (meta_Labels m) of
                  Some e \<Rightarrow> (c, Problem (ValidationError tier_field e))
                | None \<Rightarrow>
                    let st = node_Status node;
                        node' = (if ns_State st = NodeStateOther ''''
                                 then node\<lparr>node_Status := st\<lparr>ns_State := NodeStateNotReady\<rparr>\<rparr> else node)
                    in case CreateNode uid now node' c of
                         (c', Inl e) \<Rightarrow> (c', Problem (StoreError (WrappedError (''node already exists: '' @ name) e)))
                       | (c', Inr created) \<Rightarrow>
                           (c', Respond 201 (created\<lparr>node_TypeMeta := \<lparr>tm_APIVersion = APIVersion, tm_Kind = kindNode\<rparr>\<rparr>))))))"

definition updateNode ::
  "(cluster \<Rightarrow> cluster) \<Rightarrow> time \<Rightarrow> string \<Rightarrow> string + Node \<Rightarrow> cluster \<Rightarrow> cluster \<times> Node response" where
  "updateNode gap now name body c =
     (case body of
        Inl err \<Rightarrow> (c, Problem (ValidationError ''body'' (''invalid request body: '' @ err)))
      | Inr node \<Rightarrow>
          let m = node_Meta node in
          if meta_Name m \<noteq> '''' \<and> meta_Name m \<noteq> name
          then (c, Problem (ValidationError ''metadata.name'' (''metadata.name '' @ go_quote (meta_Name m) @
                 '' does not match URL path '' @ go_quote name)))
          else case ValidateNamespace (meta_Namespace m) of
            Some e \<Rightarrow> (c, Problem (ValidationError ''metadata.namespace'' e))
          | None \<Rightarrow> (case ValidateNodeLabels (meta_Labels m) of
              Some e \<Rightarrow> (c, Problem (ValidationError tier_field e))
            | None \<Rightarrow> (case UpdateNodeSpec now (node\<lparr>node_Meta := m\<lparr>meta_Name := name\<rparr>\<rparr>) c of
                (c', Inl e) \<Rightarrow> (c', if is_not_found e then node_not_found name else Problem (StoreError e))
              | (c', Inr _) \<Rightarrow>
                  let c'' = gap c' in
                  (c'', case GetNode c'' name of Inl e \<Rightarrow> Problem (StoreError e) | Inr updated \<Rightarrow> Respond 200 updated))))"

definition listNodes :: "time \<Rightarrow> cluster \<Rightarrow> Node list response" where
  "listNodes now c = Respond 200 (map (setOverlayStatus now) (ListNodes c))"

definition getNode :: "time \<Rightarrow> string \<Rightarrow> cluster \<Rightarrow> Node response" where
  "getNode now name c = (case GetNode c name of
       Inl e \<Rightarrow> if is_not_found e then node_not_found name else Problem (StoreError e)
     | Inr node \<Rightarrow> Respond 200 (setOverlayStatus now node))"

definition activePhases :: "ProjectPhase list" where
  "activePhases = [ProjectPhaseScheduled, ProjectPhaseRunning, ProjectPhaseTerminating]"

text \<open>The guard reads the Projects; the delete follows, after whatever other sessions do to the Nodes.\<close>

definition deleteNode :: "(cluster \<Rightarrow> cluster) \<Rightarrow> string \<Rightarrow> db \<Rightarrow> cluster \<Rightarrow> cluster \<times> unit response" where
  "deleteNode gap name d c =
     (let projects = ListProjectsByNodeRef d name activePhases in
      if length projects > 0
      then (c, Problem (StoreError (WrappedError (''cannot delete node '' @ go_quote name @ '': '' @
             FormatInt (int (length projects)) @ '' project(s) still assigned'') (ErrAlreadyExists ''''))))
      else case DeleteNode name (gap c) of
        (c', Inl e) \<Rightarrow> (c', if is_not_found e then node_not_found name else Problem (StoreError e))
      | (c', Inr _) \<Rightarrow> (c', Respond 204 ()))"

subsection \<open>Heartbeat\<close>

text \<open>A resource map of the body is the list of its entries, with distinct keys.\<close>

record heartbeatRequest =
  hb_State :: NodeState
  hb_Network :: NodeNetworkStatus
  hb_Capacity :: "(string \<times> string) list"
  hb_Allocatable :: "(string \<times> string) list"
  hb_KeyRef :: string

definition zero_throughput :: NodeThroughput where
  "zero_throughput = \<lparr>nt_Download = '''', nt_Upload = '''', nt_LastTestTime = time_zero\<rparr>"

definition zero_network :: NodeNetworkStatus where
  "zero_network = \<lparr>nn_OverlayIP = '''', nn_OverlayStatus = OverlayStatusOther '''', nn_DNSName = '''',
     nn_Mode = NetworkModeOther '''', nn_AgentPort = 0, nn_Throughput = zero_throughput\<rparr>"

definition empty_heartbeat :: heartbeatRequest where
  "empty_heartbeat = \<lparr>hb_State = NodeStateOther '''', hb_Network = zero_network, hb_Capacity = [],
     hb_Allocatable = [], hb_KeyRef = ''''\<rparr>"

definition merge_network :: "NodeNetworkStatus \<Rightarrow> NodeNetworkStatus \<Rightarrow> NodeNetworkStatus" where
  "merge_network req old =
     old\<lparr>nn_OverlayIP := (if nn_OverlayIP req \<noteq> '''' then nn_OverlayIP req else nn_OverlayIP old),
         nn_DNSName := (if nn_DNSName req \<noteq> '''' then nn_DNSName req else nn_DNSName old),
         nn_Mode := (if nn_Mode req \<noteq> NetworkModeOther '''' then nn_Mode req else nn_Mode old),
         nn_AgentPort := (if nn_AgentPort req \<noteq> 0 then nn_AgentPort req else nn_AgentPort old),
         nn_Throughput := (if nn_Throughput req \<noteq> zero_throughput then nn_Throughput req else nn_Throughput old)\<rparr>"

definition merge_heartbeat :: "time \<Rightarrow> heartbeatRequest \<Rightarrow> NodeStatus \<Rightarrow> NodeStatus" where
  "merge_heartbeat now req old =
     old\<lparr>ns_LastHeartbeat := now,
         ns_State := (if hb_State req \<noteq> NodeStateOther '''' then hb_State req else ns_State old),
         ns_Network := merge_network (hb_Network req) (ns_Network old),
         ns_Capacity := (if length (hb_Capacity req) > 0 then map_of (hb_Capacity req) else ns_Capacity old),
         ns_Allocatable := (if length (hb_Allocatable req) > 0 then map_of (hb_Allocatable req) else ns_Allocatable old)\<rparr>"

text \<open>\<open>keysWired\<close> says whether a validator is configured. The result is the refusal, if any.\<close>

definition validatePreAuthKey ::
  "bool \<Rightarrow> (cluster \<Rightarrow> cluster) \<Rightarrow> time \<Rightarrow> string \<Rightarrow> string \<Rightarrow> string \<Rightarrow> cluster \<Rightarrow> cluster \<times> api_error option" where
  "validatePreAuthKey keysWired gap now name keyRef overlayIP c =
     (if keyRef = '''' \<or> \<not> keysWired then (c, None)
      else case GetPreAuthKeyByHash c keyRef of
        Inl e \<Rightarrow> if is_not_found e then (c, None) else (c, Some (StoreError e))
      | Inr mapping \<Rightarrow>
          if pk_CaraNodeName mapping \<noteq> name
          then (c, Some (ValidationError ''keyRef'' (''pre-auth key does not authorize node '' @ go_quote name)))
          else if pk_State mapping \<noteq> PreAuthKeyStateActive then (c, None)
          else if pk_Expiration mapping \<noteq> time_zero \<and> \<not> pk_Expiration mapping > now
          then (c, Some (ValidationError ''keyRef'' ''pre-auth key has expired''))
          else case MarkPreAuthKeyUsed keyRef overlayIP now (gap c) of
            (c', Inl e) \<Rightarrow> (c', Some (StoreError e))
          | (c', Inr _) \<Rightarrow> (c', None))"

text \<open>An absent body is a pure timestamp update.\<close>

definition heartbeat ::
  "bool \<Rightarrow> (nat \<Rightarrow> cluster \<Rightarrow> cluster) \<Rightarrow> time \<Rightarrow> time \<Rightarrow> string \<Rightarrow> (string + heartbeatRequest) option
   \<Rightarrow> cluster \<Rightarrow> cluster \<times> unit response" where
  "heartbeat keysWired gap now now' name body c =
     (case GetNode c name of
        Inl e \<Rightarrow> (c, if is_not_found e then node_not_found name else Problem (StoreError e))
      | Inr existing \<Rightarrow>
          case (case body of None \<Rightarrow> Inr empty_heartbeat | Some b \<Rightarrow> b) of
            Inl err \<Rightarrow> (c, Problem (ValidationError ''body'' (''invalid request body: '' @ err)))
          | Inr req \<Rightarrow>
              if hb_State req \<noteq> NodeStateOther '''' \<and> \<not> NodeState_IsValid (hb_State req)
              then (c, Problem (ValidationError ''state'' (''invalid state '' @ state_text (hb_State req) @
                     '': must be one of Ready, NotReady, Draining'')))
              else let status = merge_heartbeat now req (node_Status existing)
                   in case validatePreAuthKey keysWired (gap 1) now' name (hb_KeyRef req)
                             (nn_OverlayIP (ns_Network status)) (gap 0 c) of
                        (c1, Some e) \<Rightarrow> (c1, Problem e)
                      | (c1, None) \<Rightarrow> (case UpdateNodeStatus now' name status (gap 2 c1) of
                          (c2, Inl e) \<Rightarrow> (c2, if is_not_found e then node_not_found name else Problem (StoreError e))
                        | (c2, Inr _) \<Rightarrow> (c2, Respond 204 ())))"

subsection \<open>Reaching an Agent\<close>

definition DefaultAgentPort :: int where "DefaultAgentPort = 9090"

datatype dial_error = ErrNodeUnreachable string | ErrNodeLookup store_error

text \<open>\<open>net.JoinHostPort\<close> puts a host with a colon or a percent sign in brackets.\<close>

definition JoinHostPort :: "string \<Rightarrow> string \<Rightarrow> string" where
  "JoinHostPort host port = (if CHR '':'' \<in> set host \<or> CHR ''%'' \<in> set host
     then ''['' @ host @ '']:'' @ port else host @ '':'' @ port)"

definition dialer_Client :: "cluster \<Rightarrow> string \<Rightarrow> dial_error + string" where
  "dialer_Client c nodeName = (case GetNode c nodeName of
       Inl e \<Rightarrow> Inl (ErrNodeLookup e)
     | Inr node \<Rightarrow>
         let nw = ns_Network (node_Status node) in
         if nn_OverlayIP nw = '''' then Inl (ErrNodeUnreachable (node_msg nodeName @ '' has no Status.Network.OverlayIP''))
         else let port = (if nn_AgentPort nw = 0 then DefaultAgentPort else nn_AgentPort nw)
              in Inr (''http://'' @ JoinHostPort (nn_OverlayIP nw) (FormatInt port)))"

record probeResult =
  pb_OK :: bool
  pb_StatusCode :: int
  pb_LatencyMs :: int
  pb_Address :: string
  pb_Error :: string

text \<open>\<open>get\<close> is the HTTP client: how long a request took, and its error text or status code.\<close>

definition doProbe :: "(string \<Rightarrow> duration \<times> (string + int)) \<Rightarrow> string \<Rightarrow> int \<times> duration \<times> string option" where
  "doProbe get baseURL = (case get (baseURL @ ''/healthz'') of
       (latency, Inl err) \<Rightarrow> (0, latency, Some (''dial agent: '' @ err))
     | (latency, Inr code) \<Rightarrow>
         (code, latency, if code < 200 \<or> code \<ge> 300 then Some (''agent returned status '' @ FormatInt code) else None))"

definition probe :: "(string \<Rightarrow> duration \<times> (string + int)) \<Rightarrow> string \<Rightarrow> cluster \<Rightarrow> probeResult response" where
  "probe get name c = (case dialer_Client c name of
       Inl (ErrNodeUnreachable detail) \<Rightarrow>
         Respond 409 \<lparr>pb_OK = False, pb_StatusCode = 0, pb_LatencyMs = 0, pb_Address = '''',
           pb_Error = ''agentdialer: node has no reachable address: '' @ detail\<rparr>
     | Inl (ErrNodeLookup e) \<Rightarrow> Problem (StoreError (WrappedError ''agentdialer: node lookup failed'' e))
     | Inr baseURL \<Rightarrow> (case doProbe get baseURL of (code, latency, err) \<Rightarrow>
         Respond 200 \<lparr>pb_OK = (err = None \<and> code = 200), pb_StatusCode = code, pb_LatencyMs = latency div 10 ^ 6,
           pb_Address = baseURL, pb_Error = (case err of None \<Rightarrow> '''' | Some e \<Rightarrow> e)\<rparr>))"

end
