(* ===== verification/Ownership_Properties.thy ===== *)
theory Ownership_Properties
  imports Concurrency Node_Handlers
begin

text \<open>
  Who owns a Project: the properties of the granted assignments, of finalization and deletion, and of the
  phases, in every state the server can reach.
\<close>

section \<open>Ownership of a Project\<close>

lemma obligation_granted:
  assumes "reachable grace d G" "row_at d name = Some r" "ob \<in> set (obligations (ps_Recovery (row_status r)))"
  shows "ai_ProjectUID (ob_Assignment ob) = row_uid r" "ai_NodeName (ob_Assignment ob) \<noteq> ''''"
proof -
  have "numbered (row_uid r) (G (row_uid r))" "ob_Assignment ob \<in> set (G (row_uid r))"
    using reachable_row(1) [OF assms(1,2)] assms(3) unfolding own_inv_def ob_ids_def by auto
  from numbered_mem [OF this] show "ai_ProjectUID (ob_Assignment ob) = row_uid r" "ai_NodeName (ob_Assignment ob) \<noteq> ''''"
    by simp_all
qed

text \<open>
  C1: finalization is safe. Whatever sequence of API calls and controller writes led to the current
  table, a finalization that succeeds removes exactly the lifetime it was asked to remove, and every
  assignment that lifetime was ever granted has a cleanup obligation resolved by the Node's
  \<open>ResourcesRemoved\<close> evidence. No record disappears while a Node may still hold its resources.
\<close>

theorem finalize_only_when_clean:
  assumes "reachable grace d G" and "adapter_FinalizeProject name uid d = (d', Inr ())"
  shows "(\<exists>r. row_at d name = Some r \<and> row_uid r = uid \<and> AwaitsFinalization (row_status r)
           \<and> list_all (\<lambda>a. list_ex (\<lambda>ob. ob_Assignment ob = a \<and> Resolved ob) (obligations (ps_Recovery (row_status r)))) (G uid))
         \<and> row_at d' name = None \<and> list_all (\<lambda>r. row_uid r \<noteq> uid) (db_rows d')"
proof -
  obtain r where r: "row_at d name = Some r" "row_uid r = uid" "FinalizationBlocker (scanProject r) = ''''"
    "d' = fst (sql_delete (\<lambda>r. named DefaultNamespace name r \<and> row_uid r = uid) d)"
    using assms(2) by (auto simp: adapter_FinalizeProject_def FinalizeProject_def finalizeProject_def GetProject_def
        split: option.splits if_splits)
  note inv = reachable_row [OF assms(1) r(1)]
  have f: "finalization_evidence (row_status r)" "\<forall>ob \<in> set (obligations (ps_Recovery (row_status r))). Resolved ob"
    using r(3) by (auto simp: FinalizationBlocker_Nil_iff)
  then have e: "AwaitsFinalization (row_status r)" "ending_phase (ps_Phase (row_status r))"
    by (auto simp: finalization_evidence_def AwaitsFinalization_def)
  have "\<forall>a \<in> set (G uid). \<exists>ob \<in> set (obligations (ps_Recovery (row_status r))). ob_Assignment ob = a \<and> Resolved ob"
    using own_finalizable [OF inv(1)] e(2) f(2) r(2) by simp
  moreover have gone: "q = r" if "q \<in> set (db_rows d)" "row_uid q = uid \<or> named DefaultNamespace name q" for q
    using that r(1,2) row_at_mem [OF r(1)] row_at_of_mem [OF inv(2)] same_uid_same_row [OF inv(2)] by fastforce
  moreover have "row_at d' name = None"
    using r(2,4) gone by (auto simp: row_at_def sql_delete_def find_None_iff)
  ultimately show ?thesis
    using r e(1) row_at_mem [OF r(1)] by (auto simp: list_all_iff list_ex_iff sql_delete_def)
qed

theorem finalize_only_when_clean_witness:
  "snd (adapter_FinalizeProject ''web'' ''u1'' demo_terminated) = Inr ()
   \<and> length (grants_along run_terminated ''u1'') = 2
   \<and> row_at (fst (adapter_FinalizeProject ''web'' ''u1'' demo_terminated)) ''web'' = None"
proof -
  have run: "snd (adapter_FinalizeProject ''web'' ''u1'' demo_terminated) = Inr ()"
    "length (grants_along run_terminated ''u1'') = 2" by code_simp+
  then have "adapter_FinalizeProject ''web'' ''u1'' demo_terminated
      = (fst (adapter_FinalizeProject ''web'' ''u1'' demo_terminated), Inr ())" by (metis prod.collapse)
  from finalize_only_when_clean [OF demo_reachable(4) this] run show ?thesis by simp
qed

text \<open>
  C34: an immediate delete is safe. When a delete without force answers 204, the record is gone and its
  lifetime had never been granted to any Node.
\<close>

theorem immediate_delete_only_unassigned:
  assumes "reachable grace d G" and "deleteProject (quiet t) id id now name False d = (d', Respond 204 ())"
  shows "\<exists>r. row_at d name = Some r \<and> G (row_uid r) = [] \<and> row_at d' name = None"
proof -
  obtain r where r: "row_at d name = Some r" "ImmediateDeletionBlocker (scanProject r) = ''''"
    "FinalizeProject name (row_uid r) ImmediateDeletionBlocker d = (d', Inr ())"
    using assms(2) by (auto simp: deleteProject_def GetProject_def Let_def terminate_project_def not_found_problem_def
        recreated_problem_def split: option.splits if_splits sum.splits prod.splits)
  note inv = reachable_row [OF assms(1) r(1)]
  have "ps_AssignmentGeneration (row_status r) = 0" using r(2) by (simp add: ImmediateDeletionBlocker_Nil_iff Let_def)
  then have "G (row_uid r) = []" using inv(1) by (simp add: own_inv_def)
  moreover have "row_at d' name = None"
    using r row_at_of_mem [OF inv(2)] by (fastforce simp: FinalizeProject_def finalizeProject_def GetProject_def
        row_at_def sql_delete_def find_None_iff)
  ultimately show ?thesis using r(1) by blast
qed

theorem immediate_delete_only_unassigned_witness:
  "snd (deleteProject (quiet 5) id id 5 ''web'' False demo_created) = Respond 204 ()
   \<and> row_at (fst (deleteProject (quiet 5) id id 5 ''web'' False demo_created)) ''web'' = None"
proof -
  have run: "snd (deleteProject (quiet 5) id id 5 ''web'' False demo_created) = Respond 204 ()" by code_simp
  then have "deleteProject (quiet 5) id id 5 ''web'' False demo_created
      = (fst (deleteProject (quiet 5) id id 5 ''web'' False demo_created), Respond 204 ())" by (metis prod.collapse)
  from immediate_delete_only_unassigned [OF demo_reachable(1) this] run show ?thesis by blast
qed

text \<open>
  C2: a live Project has one owner. While a Project is Scheduled, Running or Failed, its stored
  assignment is the one granted last, and every earlier grant of the lifetime has an obligation that
  permits the new assignment: its Node removed the resources, or the release was authorized by fencing,
  by an operator or by the expired grace period. The current Node owes nothing for this Project.
\<close>

theorem live_project_single_owner:
  assumes "reachable grace d G" and "row_at d name = Some r" and "live_phase (ps_Phase (row_status r))"
  shows "G (row_uid r) \<noteq> [] \<and> last (G (row_uid r)) = \<lparr>ai_ProjectUID = row_uid r, ai_NodeName = ps_NodeRef (row_status r),
           ai_AssignmentGeneration = ps_AssignmentGeneration (row_status r)\<rparr>
     \<and> list_all (\<lambda>a. list_ex (\<lambda>ob. ob_Assignment ob = a \<and> PermitsAssignment ob)
           (obligations (ps_Recovery (row_status r)))) (butlast (G (row_uid r)))
     \<and> ps_NodeRef (row_status r) \<notin> set (NodesOwingCleanup (ps_Recovery (row_status r)))"
proof -
  let ?x = "ownership_of (row_status r) (G (row_uid r))"
  note inv = reachable_row(1) [OF assms(1,2)]
  have own: "G (row_uid r) \<noteq> []" "last (G (row_uid r)) = current_of (row_uid r) ?x" "numbered (row_uid r) (G (row_uid r))"
    "\<forall>ob \<in> set (obligations (ps_Recovery (row_status r))). clean_on (ps_NodeRef (row_status r)) ob"
    using inv assms(3) by (auto simp: own_inv_def)
  have "\<exists>ob \<in> set (obligations (ps_Recovery (row_status r))). ob_Assignment ob = a \<and> PermitsAssignment ob"
    if "a \<in> set (butlast (G (row_uid r)))" for a
    using own_single_owner [OF inv, of a] assms(3) that own(2) numbered_last_notin [OF own(3,1)] in_set_butlastD by fastforce
  with own show ?thesis
    by (auto simp: list_all_iff list_ex_iff NodesOwingCleanup_iff clean_on_def current_of_def)
qed

theorem live_project_single_owner_witness:
  "row_at demo_moved ''web'' \<noteq> None \<and> length (grants_along run_moved ''u1'') = 2
   \<and> last (grants_along run_moved ''u1'') = \<lparr>ai_ProjectUID = ''u1'', ai_NodeName = ''n2'', ai_AssignmentGeneration = 2\<rparr>"
proof -
  define r where "r = the (row_at demo_moved ''web'')"
  have c: "row_at demo_moved ''web'' \<noteq> None" "length (grants_along run_moved ''u1'') = 2"
    "row_uid (the (row_at demo_moved ''web'')) = ''u1''"
    "ps_Phase (row_status (the (row_at demo_moved ''web''))) = ProjectPhaseScheduled"
    "ps_NodeRef (row_status (the (row_at demo_moved ''web''))) = ''n2''"
    "ps_AssignmentGeneration (row_status (the (row_at demo_moved ''web''))) = 2" by code_simp+
  have "row_at demo_moved ''web'' = Some r" using c(1) by (simp add: r_def)
  from live_project_single_owner [OF demo_reachable(3) this] c show ?thesis by (simp add: r_def)
qed

text \<open>
  C4: assignment generations are the count of grants, and the obligation list is complete. The stored
  generation is the number of assignments granted so far, the i-th grant has generation i and a Node
  name, no assignment is listed twice, and an assignment that was granted is either the live one or on
  the list, so no Node's cleanup is ever forgotten.
\<close>

theorem obligations_account_for_grants:
  assumes "reachable grace d G" and "row_at d name = Some r"
  shows "ps_AssignmentGeneration (row_status r) = int (length (G (row_uid r)))
     \<and> map ai_AssignmentGeneration (G (row_uid r)) = map int [1..<Suc (length (G (row_uid r)))]
     \<and> list_all (\<lambda>a. ai_NodeName a \<noteq> '''' \<and> ai_ProjectUID a = row_uid r) (G (row_uid r))
     \<and> distinct (obligation_ids (ps_Recovery (row_status r)))
     \<and> set (obligation_ids (ps_Recovery (row_status r))) \<subseteq> set (G (row_uid r))
     \<and> set (G (row_uid r)) = set (obligation_ids (ps_Recovery (row_status r))) \<union>
         (if live_phase (ps_Phase (row_status r)) then {last (G (row_uid r))} else {})"
proof -
  let ?g = "G (row_uid r)" and ?obs = "obligations (ps_Recovery (row_status r))"
  note inv = reachable_row(1) [OF assms]
  have n: "numbered (row_uid r) ?g" "ps_AssignmentGeneration (row_status r) = int (length ?g)"
    "distinct (map ob_Assignment ?obs)" "ob_ids ?obs \<subseteq> set ?g" "live_phase (ps_Phase (row_status r)) \<Longrightarrow> ?g \<noteq> []"
    "live_phase (ps_Phase (row_status r)) \<Longrightarrow> last ?g = current_of (row_uid r) (ownership_of (row_status r) ?g)"
    using inv by (auto simp: own_inv_def)
  have "map ai_AssignmentGeneration ?g = map int [1..<Suc (length ?g)]"
    using n(1) by (intro nth_equalityI) (auto simp: numbered_def simp del: upt_Suc)
  moreover have "set ?g \<subseteq> ob_ids ?obs \<union> (if live_phase (ps_Phase (row_status r)) then {last ?g} else {})"
    using own_complete [OF inv] n(6) by auto
  moreover have "last ?g \<in> set ?g" if "live_phase (ps_Phase (row_status r))" using n(5) that by simp
  moreover have "list_all (\<lambda>a. ai_NodeName a \<noteq> '''' \<and> ai_ProjectUID a = row_uid r) ?g"
    using numbered_mem [OF n(1)] by (auto simp: list_all_iff)
  ultimately show ?thesis
    using n(2-4) by (auto simp: obligation_ids_def ob_ids_def)
qed

theorem obligations_account_for_grants_witness:
  "map ai_AssignmentGeneration (grants_along run_moved ''u1'') = [1, 2]"
proof -
  have c: "row_at demo_moved ''web'' \<noteq> None" "length (grants_along run_moved ''u1'') = 2"
    "row_uid (the (row_at demo_moved ''web'')) = ''u1''" by code_simp+
  then obtain r where r: "row_at demo_moved ''web'' = Some r" "row_uid r = ''u1''" by force
  have "map ai_AssignmentGeneration (grants_along run_moved ''u1'')
      = map int [1..<Suc (length (grants_along run_moved ''u1''))]"
    using obligations_account_for_grants [OF demo_reachable(3) r(1)] unfolding r(2) by blast
  then show ?thesis unfolding c(2) by (simp add: upt_rec)
qed

text \<open>
  C3: a lost assignment stays lost. Once an assignment that was granted is no longer the stored one,
  then whatever the server does afterwards, reassignment to the same Node and deletion and recreation
  under the same name included, the old holder's fence never matches again: every fenced report it
  sends is refused and changes nothing.
\<close>

theorem stale_assignment_never_writes:
  assumes "reachable grace d G" and "a \<in> set (G (ai_ProjectUID a))" and "\<not> holds d a" and "run grace d d'"
    and "assignmentIdentity ref = a"
  shows "\<not> holds d' a \<and> fst (reportProjectStatusFenced (quiet t) name ref mutate d') = d'
     \<and> isl (snd (reportProjectStatusFenced (quiet t) name ref mutate d'))"
proof -
  obtain G' where G': "reachable grace d' G'" "\<not> holds d' a" using lost_run [OF assms(4,1,2,3)] by blast
  have wf: "db_wf d'" using reachable_inv [OF G'(1)] by (simp add: sys_inv_def)
  have "\<not> assignmentFenceWHERE ref r" if "row_at d' name = Some r" for r
    using G'(2) row_at_mem [OF that] assms(5)
    by (auto simp: holds_def list_ex_iff assignmentFenceWHERE_def assignmentIdentity_def)
  then show ?thesis using G'(2) by (simp add: fenced_quiet [OF wf] split: option.split)
qed

theorem stale_assignment_never_writes_witness:
  "\<not> holds demo_terminated \<lparr>ai_ProjectUID = ''u1'', ai_NodeName = ''n1'', ai_AssignmentGeneration = 1\<rparr>"
proof -
  let ?a = "\<lparr>ai_ProjectUID = ''u1'', ai_NodeName = ''n1'', ai_AssignmentGeneration = 1\<rparr>"
  have c: "grants_along run_moved ''u1'' ! 0 = ?a" "length (grants_along run_moved ''u1'') = 2" "\<not> holds demo_moved ?a"
    by code_simp+
  have "run False demo_moved demo_terminated"
    using run_refl run_step [OF _ demo_ops(10)] run_step [OF _ demo_ops(9)] run_step [OF _ demo_ops(8)] by metis
  moreover have "?a \<in> set (grants_along run_moved (ai_ProjectUID ?a))" using c(1,2) nth_mem [of 0 "grants_along run_moved ''u1''"] by simp
  ultimately show ?thesis
    using stale_assignment_never_writes [OF demo_reachable(3) _ c(3), where ref = "\<lparr>ref_UID = ''u1'', ref_NodeRef = ''n1'', ref_Generation = 1\<rparr>"
        and name = "''web''" and mutate = "on_status Inr"] by (simp add: assignmentIdentity_def)
qed

text \<open>
  C35: phases move only along the transition table. Whatever operation the server performs, the phase of
  a stored lifetime stays or makes a transition that the table \<open>phaseTransitions\<close> gives one of the
  writers.
\<close>

theorem phases_follow_the_table:
  assumes "reachable grace d G" and "server_op grace d d'"
    and "row_at d name = Some r" and "row_at d' name = Some r'" and "row_uid r' = row_uid r"
  shows "ps_Phase (row_status r') = ps_Phase (row_status r)
     \<or> (\<exists>w. PhaseTransitionAllowed w (ps_Phase (row_status r)) (ps_Phase (row_status r')))"
proof -
  note inv = reachable_row [OF assms(1,3)]
  have "row_uid r' \<in> set (db_uids d)" using inv(2) row_at_mem [OF assms(3)] assms(5) by (auto simp: db_wf_def)
  then obtain q where q: "q \<in> set (db_rows d)" "row_uid r' = row_uid q" "refines (row_uid q) (row_status q) (row_status r')"
    using server_op_writes [OF assms(2) inv(2)] row_at_mem [OF assms(4)] unfolding server_writes_def by metis
  then have "q = r" using same_uid_same_row [OF inv(2)] row_at_mem [OF assms(3)] assms(5) by metis
  with q(3) inv(1) show ?thesis unfolding refines_def using own_step_phase by (metis ownership_simps(1))
qed

theorem phases_follow_the_table_witness:
  "\<exists>r r'. row_at demo_running ''web'' = Some r \<and> row_at demo_failed ''web'' = Some r'
     \<and> ps_Phase (row_status r) = ProjectPhaseRunning \<and> ps_Phase (row_status r') = ProjectPhaseFailed
     \<and> (\<exists>w. PhaseTransitionAllowed w ProjectPhaseRunning ProjectPhaseFailed)"
proof -
  have op: "server_op False demo_running demo_failed" unfolding demo_failed_def by (rule op_patchStatus)
  have "case (row_at demo_running ''web'', row_at demo_failed ''web'') of (Some r, Some r') \<Rightarrow>
      row_uid r' = row_uid r \<and> ps_Phase (row_status r) = ProjectPhaseRunning
      \<and> ps_Phase (row_status r') = ProjectPhaseFailed | _ \<Rightarrow> False" by code_simp
  then obtain r r' where r: "row_at demo_running ''web'' = Some r" "row_at demo_failed ''web'' = Some r'"
    "row_uid r' = row_uid r" "ps_Phase (row_status r) = ProjectPhaseRunning" "ps_Phase (row_status r') = ProjectPhaseFailed"
    by (auto split: option.splits)
  from phases_follow_the_table [OF demo_reachable(2) op r(1-3)] r show ?thesis by simp
qed

text \<open>
  The cleanup listing is complete. Whatever a Node still owes for a stored Project, removal of
  resources or quarantine of managed data, is in the list the Node's Agent polls, unless the Project
  is assigned to that Node, in which case it is not Pending or live, but being deleted there.
\<close>

theorem cleanup_listing_complete:
  assumes "reachable grace d G" and "row_at d name = Some r" and "ob \<in> set (obligations (ps_Recovery (row_status r)))"
    and "\<not> Resolved ob \<or> DataOutstanding ob" and "node = ai_NodeName (ob_Assignment ob)"
    and "listCleanupObligations node d = Respond 200 tasks"
  shows "\<lparr>ct_Namespace = DefaultNamespace, ct_ProjectName = name, ct_Assignment = ob_Assignment ob,
           ct_ReleaseAuthorization = ob_ReleaseAuthorization ob\<rparr> \<in> set tasks
     \<or> ps_NodeRef (row_status r) = node \<and> ending_phase (ps_Phase (row_status r))"
proof (cases "ps_NodeRef (row_status r) = node")
  case True
  note inv = reachable_row(1) [OF assms(1,2)]
  note obligation_granted(2) [OF assms(1-3)]
  moreover have "\<not> live_phase (ps_Phase (row_status r))"
  proof
    assume "live_phase (ps_Phase (row_status r))"
    then have "clean_on (ps_NodeRef (row_status r)) ob" using inv assms(3) unfolding own_inv_def by simp
    then show False using assms(4,5) True by (auto simp: clean_on_def)
  qed
  moreover have "ps_Phase (row_status r) \<noteq> ProjectPhasePending" using calculation(1) inv True assms(5) by (simp add: own_inv_def)
  ultimately show ?thesis using inv True unfolding own_inv_def by simp
next
  case False
  note obligation_granted(1) [OF assms(1-3)]
  moreover have "row_namespace r = DefaultNamespace" "row_name r = name" "r \<in> set (db_rows d)"
    using row_at_mem [OF assms(2)] by (auto simp: named_def)
  moreover have "scanProject r \<in> set (ListProjectsOwingCleanup d node)"
    using calculation assms(3,5) by (auto simp: ListProjectsOwingCleanup_def list_ex_iff)
  ultimately have "\<lparr>ct_Namespace = DefaultNamespace, ct_ProjectName = name, ct_Assignment = ob_Assignment ob,
           ct_ReleaseAuthorization = ob_ReleaseAuthorization ob\<rparr> \<in> set (CleanupTasksFor (scanProject r) node)"
    using assms(3-5) False by (cases "ps_Recovery (row_status r)") (auto simp: CleanupTasksFor_def Let_def DefaultNamespace_def)
  with \<open>scanProject r \<in> _\<close> assms(6) show ?thesis by (auto simp: listCleanupObligations_def)
qed

text \<open>
  The promoted phase column is right. Listing by phase, which the controllers use and which reads
  the column and not the status, gives exactly the stored Projects whose status has that phase; and a
  Project is Terminated only after its Node confirmed the removal of the current assignment's resources.
\<close>

theorem list_by_phase_exact:
  assumes "reachable grace d G" and "ProjectPhase_IsValid phase"
  shows "ListProjectsByPhase d phase = filter (\<lambda>p. ps_Phase (prj_Status p) = phase) (ListProjects d)
     \<and> list_all (\<lambda>p. ps_Phase (prj_Status p) \<noteq> ProjectPhaseTerminated \<or>
          list_ex (\<lambda>ob. ai_NodeName (ob_Assignment ob) = ps_NodeRef (prj_Status p)
             \<and> ai_AssignmentGeneration (ob_Assignment ob) = ps_AssignmentGeneration (prj_Status p) \<and> Resolved ob)
            (obligations (ps_Recovery (prj_Status p)))) (ListProjects d)"
proof -
  have inv: "db_wf d" "\<And>r. r \<in> set (db_rows d) \<Longrightarrow> own_inv (row_uid r) (ownership_of (row_status r) (G (row_uid r)))"
    using reachable_inv [OF assms(1)] by (auto simp: sys_inv_def)
  have "(row_phase r = phase_text phase) = (ps_Phase (row_status r) = phase)" if r: "r \<in> set (db_rows d)" for r
  proof -
    have "ProjectPhase_IsValid (ps_Phase (row_status r))" using inv(2) [OF r] by (auto simp: own_inv_def)
    moreover have "row_phase r = phase_text (ps_Phase (row_status r))" using inv(1) r by (auto simp: db_wf_def row_wf_def)
    ultimately show ?thesis using assms(2) phase_of_text by metis
  qed
  then have "ListProjectsByPhase d phase = filter (\<lambda>p. ps_Phase (prj_Status p) = phase) (ListProjects d)"
    by (auto simp: ListProjectsByPhase_def ListProjects_def filter_map o_def intro!: arg_cong [where f = "map scanProject"] filter_cong)
  moreover have "list_ex (\<lambda>ob. ai_NodeName (ob_Assignment ob) = ps_NodeRef (row_status r)
             \<and> ai_AssignmentGeneration (ob_Assignment ob) = ps_AssignmentGeneration (row_status r) \<and> Resolved ob)
            (obligations (ps_Recovery (row_status r)))"
    if "r \<in> set (db_rows d)" "ps_Phase (row_status r) = ProjectPhaseTerminated" for r
  proof -
    have "\<exists>ob \<in> set (obligations (ps_Recovery (row_status r))). ob_Assignment ob
        = current_of (row_uid r) (ownership_of (row_status r) (G (row_uid r))) \<and> Resolved ob"
      using inv(2) [OF that(1)] that(2) unfolding own_inv_def by simp
    then obtain ob where "ob \<in> set (obligations (ps_Recovery (row_status r)))" "Resolved ob"
      "ob_Assignment ob = current_of (row_uid r) (ownership_of (row_status r) (G (row_uid r)))" by blast
    then show ?thesis unfolding list_ex_iff by (intro bexI [of _ ob]) (simp_all add: current_of_def)
  qed
  ultimately show ?thesis by (auto simp: list_all_iff ListProjects_def)
qed

end
