(* ===== verification/Api_Properties.thy ===== *)
theory Api_Properties
  imports Demo_Trace "HOL-Library.Sublist"
begin

text \<open>
  What the Project handlers promise their callers: who may write what, what creating and updating a
  Project does to the stored row, and how much backup history a row keeps.
\<close>

subsection \<open>Authorization\<close>

definition refused :: "db \<Rightarrow> db \<times> 'a response \<Rightarrow> bool" where
  "refused d res = (case res of (d', Problem e) \<Rightarrow> d' = d | _ \<Rightarrow> False)"

lemma refusedI [simp]: "refused d (d, Problem e)"
  by (simp add: refused_def)

lemma check_fence_foreign:
  assumes "pr_Kind p = APITokenKindNode" "pr_Name p \<noteq> fr_NodeRef f"
  shows "\<exists>e. check_fence what (Some p) name f = Inl e"
  using assms by (simp add: check_fence_def RequireFenceOwner_def)

text \<open>
  a Node writes only under its own name. Whichever fenced request a Node's token makes, if the
  fence names another Node the request is refused and the store is untouched.
\<close>

theorem foreign_fence_refused:
  assumes "pr_Kind p = APITokenKindNode" and "pr_Name p \<noteq> fr_NodeRef f"
  shows "refused d (patchStatus sched now (Some p) name (Inr (req\<lparr>spr_Fence := f\<rparr>)) d)
    \<and> refused d (putSpecApplied sched now (Some p) name (Inr (sreq\<lparr>sapr_Fence := f\<rparr>)) d)
    \<and> refused d (patchCondition now (Some p) name ty txt (Inr (creq\<lparr>cpr_Fence := f\<rparr>)) d)
    \<and> refused d (deleteCondition now (Some p) name ty txt (fr_UID f) (fr_NodeRef f)
         (map_option Inr (fr_AssignmentGeneration f)) d)
    \<and> refused d (putWorkloadStopped sched now (Some p) name (Inr f) d)
    \<and> refused d (putResourcesRemoved sched now (Some p) name (Inr f) d)
    \<and> refused d (putManagedDataQuarantined sched now (Some p) name (Inr f) d)
    \<and> refused d (putStanza sched gap now (Some p) name (Inr (streq\<lparr>str_Fence := f\<rparr>)) d)
    \<and> refused d (putBackupCompletion sched gap now (Some p) name b (Inr (breq\<lparr>cmr_Fence := f\<rparr>)) d)
    \<and> refused d (putCommittedBackup sched now (Some p) name (Inr (cbreq\<lparr>cbr_Fence := f\<rparr>)) d)"
proof -
  have c: "\<exists>e. check_fence what (Some p) name f = Inl e" for what by (rule check_fence_foreign [OF assms])
  have g: "\<lparr>fr_UID = fr_UID f, fr_NodeRef = fr_NodeRef f, fr_AssignmentGeneration = x\<rparr> = f"
    if "fr_AssignmentGeneration f = x" for x using that by simp
  obtain e1 e2 e3 e4 where e: "resolveFence (Some p) name f = Inl e1"
    "check_fence ''evidence requires a complete assignment fence'' (Some p) name f = Inl e2"
    "check_fence ''a stanza requires a complete assignment fence'' (Some p) name f = Inl e3"
    "check_fence ''a backup completion requires a complete assignment fence'' (Some p) name f = Inl e4"
    using c unfolding resolveFence_def by metis
  show ?thesis
  proof (intro conjI)
    show "refused d (patchStatus sched now (Some p) name (Inr (req\<lparr>spr_Fence := f\<rparr>)) d)"
      by (simp add: patchStatus_def e)
    show "refused d (putSpecApplied sched now (Some p) name (Inr (sreq\<lparr>sapr_Fence := f\<rparr>)) d)"
      by (simp add: putSpecApplied_def e)
    show "refused d (patchCondition now (Some p) name ty txt (Inr (creq\<lparr>cpr_Fence := f\<rparr>)) d)"
      by (simp add: patchCondition_def e)
    show "refused d (deleteCondition now (Some p) name ty txt (fr_UID f) (fr_NodeRef f)
         (map_option Inr (fr_AssignmentGeneration f)) d)"
      by (cases "fr_AssignmentGeneration f") (simp_all add: deleteCondition_def g e Let_def)
    show "refused d (putWorkloadStopped sched now (Some p) name (Inr f) d)"
      by (simp add: putWorkloadStopped_def put_evidence_def decodeEvidenceFence_def e)
    show "refused d (putResourcesRemoved sched now (Some p) name (Inr f) d)"
      by (simp add: putResourcesRemoved_def put_evidence_def decodeEvidenceFence_def e)
    show "refused d (putManagedDataQuarantined sched now (Some p) name (Inr f) d)"
      by (simp add: putManagedDataQuarantined_def put_evidence_def decodeEvidenceFence_def e)
    show "refused d (putStanza sched gap now (Some p) name (Inr (streq\<lparr>str_Fence := f\<rparr>)) d)"
      by (simp add: putStanza_def e)
    show "refused d (putBackupCompletion sched gap now (Some p) name b (Inr (breq\<lparr>cmr_Fence := f\<rparr>)) d)"
      by (simp add: putBackupCompletion_def e)
    show "refused d (putCommittedBackup sched now (Some p) name (Inr (cbreq\<lparr>cbr_Fence := f\<rparr>)) d)"
      by (simp add: putCommittedBackup_def e)
  qed
qed

text \<open>
  Only an operator takes over. A caller without an admin token gets neither a takeover nor the audit
  trail: the answer is 401 without a principal and 403 with one, and nothing is written.
\<close>

theorem takeover_needs_admin:
  assumes "case caller of None \<Rightarrow> True | Some p \<Rightarrow> \<not> IsAdmin p"
  shows "\<exists>e. postTakeover sched caller name body d = (d, Problem e) \<and> getTakeoverAudit caller name d = Problem e
     \<and> NewProblemMapping e = Some (if caller = None then 401 else 403)"
  using assms by (cases caller) (simp_all add: postTakeover_def getTakeoverAudit_def RequireAdmin_def NewProblemMapping_def)

subsection \<open>Creating a Project\<close>

lemma find_snoc: "List.find P (xs @ [x]) = (case List.find P xs of None \<Rightarrow> if P x then Some x else None | Some y \<Rightarrow> Some y)"
  by (simp add: find_append split: option.split)

lemma CreateProject_ok:
  assumes "CreateProject uid now p d = (d', Inr p')" "meta_Namespace (prj_Meta p) = DefaultNamespace"
  shows "GetProject d' (meta_Name (prj_Meta p))
      = Inr (p'\<lparr>prj_TypeMeta := \<lparr>tm_APIVersion = APIVersion, tm_Kind = kindProject\<rparr>\<rparr>)"
    "other = meta_Name (prj_Meta p) \<or> GetProject d' other = GetProject d other"
    "prj_Spec p' = prj_Spec p" "prj_Status p' = prj_Status p" "meta_UID (prj_Meta p') = uid"
    "meta_ResourceVersion (prj_Meta p') = 1" "meta_SpecRevision (prj_Meta p') = 1"
proof -
  let ?n = "meta_Name (prj_Meta p)"
  have free: "\<not> list_ex (\<lambda>r. named DefaultNamespace ?n r \<or> row_uid r = uid) (db_rows d)"
    using assms by (auto simp: CreateProject_def Let_def DefaultNamespace_def split: if_splits)
  then obtain row where row: "db_rows d' = db_rows d @ [row]" "named DefaultNamespace ?n row"
    "Inr (scanProject row) = (Inr (p'\<lparr>prj_TypeMeta := \<lparr>tm_APIVersion = APIVersion, tm_Kind = kindProject\<rparr>\<rparr>) :: Project result)"
    and p': "prj_Spec p' = prj_Spec p" "prj_Status p' = prj_Status p" "meta_UID (prj_Meta p') = uid"
      "meta_ResourceVersion (prj_Meta p') = 1" "meta_SpecRevision (prj_Meta p') = 1"
    using assms by (auto simp: CreateProject_def Let_def publish_def scanProject_def marshal_status_def named_def DefaultNamespace_def)
  show "GetProject d' ?n = Inr (p'\<lparr>prj_TypeMeta := \<lparr>tm_APIVersion = APIVersion, tm_Kind = kindProject\<rparr>\<rparr>)"
    using free row by (auto simp: GetProject_def row_at_def find_snoc list_ex_iff dest!: find_SomeD split: option.splits)
  show "other = ?n \<or> GetProject d' other = GetProject d other"
    using row(1,2) by (auto simp: GetProject_def row_at_def find_snoc named_def split: option.split)
qed (use assms in \<open>auto simp: CreateProject_def Let_def split: if_splits\<close>)

text \<open>
  Creating and reading back. A create request is answered 201 exactly when the name, the namespace
  and the spec pass validation and the name (and the new UID) is free; then the stored Project is the
  returned one: the requested spec, a fresh UID, version and spec revision 1, Pending and never
  assigned, whatever status, UID or version the request carried, and every other name reads as before.
\<close>

theorem create_then_get:
  "case createProject parse img uid now (Inr p) d of
     (d', Respond code p') \<Rightarrow> code = 201 \<and> GetProject d' (meta_Name (prj_Meta p)) = Inr p' \<and> prj_Spec p' = prj_Spec p
        \<and> meta_UID (prj_Meta p') = uid \<and> meta_ResourceVersion (prj_Meta p') = 1 \<and> meta_SpecRevision (prj_Meta p') = 1
        \<and> ps_Phase (prj_Status p') = ProjectPhasePending \<and> ps_NodeRef (prj_Status p') = ''''
        \<and> ps_AssignmentGeneration (prj_Status p') = 0
        \<and> ps_AssignmentHistory (prj_Status p') = AssignmentHistoryNeverAssigned \<and> ps_Recovery (prj_Status p') = None
        \<and> ValidateName (meta_Name (prj_Meta p)) = None \<and> ValidateNamespace (meta_Namespace (prj_Meta p)) = None
        \<and> validateProjectSpecFor parse (prj_Spec p) img = None
        \<and> (\<forall>other. other = meta_Name (prj_Meta p) \<or> GetProject d' other = GetProject d other)
   | (d', Problem e) \<Rightarrow> ValidateName (meta_Name (prj_Meta p)) \<noteq> None \<or> ValidateNamespace (meta_Namespace (prj_Meta p)) \<noteq> None
        \<or> validateProjectSpecFor parse (prj_Spec p) img \<noteq> None \<or> row_at d (meta_Name (prj_Meta p)) \<noteq> None
        \<or> list_ex (\<lambda>r. row_uid r = uid) (db_rows d)"
proof (cases "meta_Name (prj_Meta p) \<noteq> '''' \<and> ValidateName (meta_Name (prj_Meta p)) = None
    \<and> ValidateNamespace (meta_Namespace (prj_Meta p)) = None \<and> validateProjectSpecFor parse (prj_Spec p) img = None")
  case False
  then show ?thesis by (auto simp: createProject_def Let_def ValidateName_def split: option.splits)
next
  case True
  define q where "q = p\<lparr>prj_Meta := (prj_Meta p)\<lparr>meta_Namespace := DefaultNamespace\<rparr>,
      prj_Status := created_status now (prj_Spec p)\<rparr>"
  have ns: "(if meta_Namespace (prj_Meta p) = '''' then DefaultNamespace else meta_Namespace (prj_Meta p)) = DefaultNamespace"
    using True by (auto simp: ValidateNamespace_def split: if_splits)
  have c: "ps_Phase (prj_Status q) = ProjectPhasePending" "ps_NodeRef (prj_Status q) = ''''" "ps_AssignmentGeneration (prj_Status q) = 0"
    "ps_AssignmentHistory (prj_Status q) = AssignmentHistoryNeverAssigned" "ps_Recovery (prj_Status q) = None"
    by (simp_all add: q_def created_status_def InitialProjectStatus_def Let_def)
  have q: "meta_Name (prj_Meta q) = meta_Name (prj_Meta p)" "prj_Spec q = prj_Spec p" "meta_Namespace (prj_Meta q) = DefaultNamespace"
    by (simp_all add: q_def)
  obtain d' res where run: "CreateProject uid now q d = (d', res)" by force
  have h: "createProject parse img uid now (Inr p) d = (case (d', res) of
      (d', Inl e) \<Rightarrow> (d', Problem (StoreError (WrappedError (''project already exists: '' @ meta_Name (prj_Meta p)) e)))
    | (d', Inr created) \<Rightarrow>
        (d', Respond 201 (created\<lparr>prj_TypeMeta := \<lparr>tm_APIVersion = APIVersion, tm_Kind = kindProject\<rparr>\<rparr>)))"
    using True ns run by (simp add: createProject_def Let_def q_def del: if_split_eq1)
  show ?thesis
  proof (cases res)
    case (Inl e)
    then have "list_ex (\<lambda>r. named DefaultNamespace (meta_Name (prj_Meta p)) r \<or> row_uid r = uid) (db_rows d)"
      using run q by (auto simp: CreateProject_def Let_def DefaultNamespace_def split: if_splits)
    with Inl h show ?thesis by (auto simp: row_at_def find_None_iff list_ex_iff)
  next
    case (Inr p')
    note ok = CreateProject_ok [OF run [unfolded Inr] q(3)]
    from Inr h ok c q True show ?thesis by simp
  qed
qed

subsection \<open>Changing the spec\<close>

lemma changeSpec_ok:
  assumes "db_wf d" "changeSpec now name change d = (d', Inr stored)"
  obtains r nx b rv where "row_at d name = Some r" "ps_Phase (row_status r) \<in> set specUpdatablePhases"
    "change (scanProject r) = Inr nx" "b = (row_spec r \<noteq> prj_Spec nx)"
    "rv = (if b then wrap64 (row_spec_revision r + 1) else row_spec_revision r)"
    "row_at d' name = Some ((set_status (marshal_status (spec_change_status now b rv (row_status r))) now r)
      \<lparr>row_spec := prj_Spec nx, row_labels := meta_Labels (prj_Meta nx), row_annotations := meta_Annotations (prj_Meta nx),
       row_spec_revision := rv\<rparr>)"
proof -
  obtain r where r: "row_at d name = Some r"
    using assms(2) by (cases "row_at d name") (auto simp: changeSpec_def GetProject_def)
  have n: "named DefaultNamespace name r" "row_namespace r = DefaultNamespace"
    using row_at_mem [OF r] by (auto simp: named_def)
  have nm: "named DefaultNamespace name ((set_status js now q)\<lparr>row_spec := a, row_labels := b, row_annotations := c,
      row_spec_revision := e\<rparr>) = named DefaultNamespace name q" for js q a b c e
    by (simp add: named_def set_status_def)
  obtain nx where c: "ps_Phase (row_status r) \<in> set specUpdatablePhases" "change (scanProject r) = Inr nx"
    using assms(2) r by (auto simp: changeSpec_def GetProject_def split: if_splits sum.splits)
  with assms(2) r n show ?thesis
    by (intro that [OF r c refl refl]) (auto simp: changeSpec_def GetProject_def Let_def row_at_sql_update nm)
qed

lemma spec_update_ok:
  assumes "spec_update project current = Inr nx"
  shows "backup_items (prj_Spec nx) = backup_items (prj_Spec current)"
    "ps_NodeRef (prj_Status current) \<noteq> '''' \<Longrightarrow> CheckAssignedSpecChange (prj_Spec current) (prj_Spec nx) = None"
    "prj_Spec nx = (prj_Spec project)\<lparr>spec_RestartedAt := spec_RestartedAt (prj_Spec nx)\<rparr>"
proof -
  have same: "SameBackupItems (prj_Spec current) (prj_Spec project)"
    using assms by (auto simp: spec_update_def Let_def split: if_splits)
  have check: "CheckAssignedSpecChange (prj_Spec current) (prj_Spec project) = None" if "ps_NodeRef (prj_Status current) \<noteq> ''''"
    using assms same that by (auto simp: spec_update_def Let_def split: if_splits option.splits)
  show nx: "prj_Spec nx = (prj_Spec project)\<lparr>spec_RestartedAt := spec_RestartedAt (prj_Spec nx)\<rparr>"
    using assms same by (auto simp: spec_update_def Let_def split: if_splits option.splits)
  have fields: "backup_items (prj_Spec nx) = backup_items (prj_Spec project)"
    "EffectiveSize (prj_Spec nx) = EffectiveSize (prj_Spec project)" "spec_Volumes (prj_Spec nx) = spec_Volumes (prj_Spec project)"
    by (subst nx; simp add: backup_items_def EffectiveSize_def)+
  show "backup_items (prj_Spec nx) = backup_items (prj_Spec current)"
    using same fields by (simp add: SameBackupItems_iff)
  show "CheckAssignedSpecChange (prj_Spec current) (prj_Spec nx) = None" if "ps_NodeRef (prj_Status current) \<noteq> ''''"
    using check [OF that] fields by (simp add: CheckAssigned_None_iff)
qed

text \<open>
  C39: an accepted spec update. It moves the version by one, counts a new spec revision exactly when the
  spec's content changed, never touches ownership, never changes the backup items, and on a Project
  assigned to a Node keeps the effective size and every volume with its type.
\<close>

theorem spec_update_effect:
  assumes "db_wf d" and "UpdateProjectSpec now project d = (d', Inr p')"
  shows "\<exists>r r'. row_at d (meta_Name (prj_Meta project)) = Some r \<and> row_at d' (meta_Name (prj_Meta project)) = Some r'
     \<and> row_uid r' = row_uid r \<and> row_resource_version r' = row_resource_version r + 1
     \<and> row_spec_revision r' = (if row_spec r' = row_spec r then row_spec_revision r else wrap64 (row_spec_revision r + 1))
     \<and> row_spec r' = (prj_Spec project)\<lparr>spec_RestartedAt := spec_RestartedAt (row_spec r')\<rparr>
     \<and> keeps_ownership (row_status r) (row_status r') \<and> backup_items (row_spec r') = backup_items (row_spec r)
     \<and> (ps_NodeRef (row_status r) = '''' \<or> EffectiveSize (row_spec r') = EffectiveSize (row_spec r)
         \<and> list_all (\<lambda>v. list_ex (\<lambda>w. vol_Name w = vol_Name v \<and> vol_Type w = vol_Type v) (spec_Volumes (row_spec r')))
             (spec_Volumes (row_spec r)))"
proof -
  let ?name = "meta_Name (prj_Meta project)"
  obtain stored where run: "changeSpec now ?name (spec_update project) d = (d', Inr stored)"
    using assms(2) by (auto simp: UpdateProjectSpec_def split: prod.splits sum.splits)
  obtain r nx b rv where r: "row_at d ?name = Some r" "ps_Phase (row_status r) \<in> set specUpdatablePhases"
    "spec_update project (scanProject r) = Inr nx" "b = (row_spec r \<noteq> prj_Spec nx)"
    "rv = (if b then wrap64 (row_spec_revision r + 1) else row_spec_revision r)"
    "row_at d' ?name = Some ((set_status (marshal_status (spec_change_status now b rv (row_status r))) now r)
      \<lparr>row_spec := prj_Spec nx, row_labels := meta_Labels (prj_Meta nx), row_annotations := meta_Annotations (prj_Meta nx),
       row_spec_revision := rv\<rparr>)"
    by (rule changeSpec_ok [OF assms(1) run])
  note ok = spec_update_ok [OF r(3)]
  have "EffectiveSize (prj_Spec nx) = EffectiveSize (row_spec r)
      \<and> list_all (\<lambda>v. list_ex (\<lambda>w. vol_Name w = vol_Name v \<and> vol_Type w = vol_Type v) (spec_Volumes (prj_Spec nx))) (spec_Volumes (row_spec r))"
    if "ps_NodeRef (row_status r) \<noteq> ''''"
  proof -
    have "CheckAssignedSpecChange (row_spec r) (prj_Spec nx) = None" using ok(2) that by simp
    then have "EffectiveSize (row_spec r) = EffectiveSize (prj_Spec nx)"
      "\<forall>v \<in> set (spec_Volumes (row_spec r)). next_types (spec_Volumes (prj_Spec nx)) (vol_Name v) = Some (vol_Type v)"
      unfolding CheckAssigned_None_iff by blast+
    then show ?thesis unfolding list_all_iff list_ex_iff using next_types_mem by metis
  qed
  note vols = this
  obtain r' where r': "row_at d' ?name = Some r'" "row_uid r' = row_uid r" "row_resource_version r' = row_resource_version r + 1"
    "row_spec r' = prj_Spec nx" "row_spec_revision r' = rv" "row_status r' = spec_change_status now b rv (row_status r)"
    using r(6) by (simp add: set_status_def marshal_status_def)
  show ?thesis
  proof (intro exI conjI)
    show "row_spec r' = (prj_Spec project)\<lparr>spec_RestartedAt := spec_RestartedAt (row_spec r')\<rparr>"
      unfolding r'(4) by (rule ok(3))
    show "keeps_ownership (row_status r) (row_status r')" unfolding r'(6) by (rule spec_reports_keep(2))
    show "ps_NodeRef (row_status r) = '''' \<or> EffectiveSize (row_spec r') = EffectiveSize (row_spec r)
         \<and> list_all (\<lambda>v. list_ex (\<lambda>w. vol_Name w = vol_Name v \<and> vol_Type w = vol_Type v) (spec_Volumes (row_spec r')))
             (spec_Volumes (row_spec r))" unfolding r'(4) using vols by blast
  qed (use r r' ok(1) in auto)
qed

definition demo_update :: Project where
  "demo_update = demo_project\<lparr>prj_Spec := demo_spec\<lparr>spec_Services := [\<lparr>svc_Name = ''app'', svc_Image = ''nginx:2'',
     svc_Command = [], svc_Env = [], svc_VolumeMounts = []\<rparr>]\<rparr>\<rparr>"

theorem spec_update_effect_witness:
  "\<exists>r'. row_at (fst (UpdateProjectSpec 300 demo_update demo_running)) ''web'' = Some r' \<and> row_spec_revision r' = 2"
proof -
  have wf: "db_wf demo_running" using reachable_inv [OF demo_reachable(2)] by (simp add: sys_inv_def)
  have c: "case row_at demo_running ''web'' of None \<Rightarrow> False
      | Some r \<Rightarrow> row_spec_revision r = 1 \<and> map svc_Image (spec_Services (row_spec r)) = [''nginx'']"
    "\<not> isl (snd (UpdateProjectSpec 300 demo_update demo_running))" by code_simp+
  then obtain d' p' where run: "UpdateProjectSpec 300 demo_update demo_running = (d', Inr p')"
    by (cases "UpdateProjectSpec 300 demo_update demo_running"; cases "snd (UpdateProjectSpec 300 demo_update demo_running)") auto
  have n: "meta_Name (prj_Meta demo_update) = ''web''"
    and s: "map svc_Image (spec_Services (prj_Spec demo_update)) = [''nginx:2'']"
    by (simp_all add: demo_update_def demo_project_def demo_meta_def)
  obtain r r' where r: "row_at demo_running ''web'' = Some r" "row_at d' ''web'' = Some r'"
    "row_spec_revision r' = (if row_spec r' = row_spec r then row_spec_revision r else wrap64 (row_spec_revision r + 1))"
    "row_spec r' = (prj_Spec demo_update)\<lparr>spec_RestartedAt := spec_RestartedAt (row_spec r')\<rparr>"
    using spec_update_effect [OF wf run] unfolding n by blast
  have "map svc_Image (spec_Services (row_spec r')) = [''nginx:2'']" using s by (subst r(4)) simp
  then have "row_spec r' \<noteq> row_spec r" using c(1) r(1) by auto
  moreover have "wrap64 (1 + 1) = 2" by code_simp
  ultimately have "row_spec_revision r' = 2" using c(1) r(1,3) by simp
  with run r(2) show ?thesis by simp
qed

subsection \<open>Backup history\<close>

text \<open>
  A backup completion is recorded at most once, by the current holder, in bounded space. An accepted
  report either repeats a backup already listed and changes nothing, or comes under the fence of the
  Project's current assignment while it is Running; then it is the newest entry, the entries before it
  keep their order, at most \<open>MaxBackupCompletions\<close> of them stay, no backup is listed twice, and the
  \<open>BackupActive\<close> condition is true.
\<close>

theorem backup_completion_recorded:
  assumes "backup_completion name ref c s = Inr s'"
    and "length (completions s) \<le> MaxBackupCompletions" and "distinct (map bc_BackupID (completions s))"
  shows "length (completions s') \<le> MaxBackupCompletions \<and> distinct (map bc_BackupID (completions s'))
     \<and> (s' = s \<and> bc_BackupID c \<in> set (map bc_BackupID (completions s))
        \<or> ps_Phase s = ProjectPhaseRunning \<and> ps_NodeRef s = ref_NodeRef ref \<and> ps_AssignmentGeneration s = ref_Generation ref
          \<and> LastCompletion (ps_Backup s') = Some (c\<lparr>bc_NodeRef := ref_NodeRef ref, bc_AssignmentGeneration := ref_Generation ref\<rparr>)
          \<and> suffix (butlast (completions s')) (completions s) \<and> backupActive (ps_Conditions s'))"
proof (cases "Completion (ps_Backup s) (bc_BackupID c) = None")
  case False
  then have "s' = s" using assms(1) by (simp add: backup_completion_def)
  moreover have "bc_BackupID c \<in> set (map bc_BackupID (completions s))"
    using False Completion_None_iff [of s "bc_BackupID c"] by auto
  ultimately show ?thesis using assms by blast
next
  case True
  define x where "x = c\<lparr>bc_NodeRef := ref_NodeRef ref, bc_AssignmentGeneration := ref_Generation ref\<rparr>"
  note eff = backup_completion_effect [OF assms(1) True]
  let ?k = "length (completions s) + 1 - MaxBackupCompletions"
  have k: "?k \<le> length (completions s)" by (simp add: MaxBackupCompletions_def)
  have cs: "completions s' = drop ?k (completions s) @ [x]" using eff(1) k by (simp add: x_def)
  have b: "ps_Backup s' = Some (ensure_backup s')"
    using cs by (cases "ps_Backup s'") (auto simp: completions_def ensure_backup_def backup_zero_def)
  have "LastCompletion (ps_Backup s') = Some x"
    using cs b by (simp add: LastCompletion_def completions_def [symmetric] nth_append del: length_drop)
  moreover have "suffix (butlast (completions s')) (completions s)" using cs suffix_drop by simp
  ultimately show ?thesis
    using eff(2-5) length_completions [OF assms(1,2)] distinct_completions [OF assms(1,3)] by (simp add: x_def)
qed

definition demo_completion :: BackupCompletion where
  "demo_completion = \<lparr>bc_BackupID = ''20250101T000000Z-0123abcd'', bc_NodeRef = '''', bc_AssignmentGeneration = 0,
     bc_AcceptedAt = 7, bc_ManifestKey = ''k'', bc_Items = []\<rparr>"

definition demo_running_status :: ProjectStatus where
  "demo_running_status = InitialProjectStatus\<lparr>ps_Phase := ProjectPhaseRunning, ps_NodeRef := ''n1'', ps_AssignmentGeneration := 1\<rparr>"

subsection \<open>Conditions\<close>

text \<open>
  The shared condition helper behaves like a map write that keeps stable timestamps. Writing a
  condition leaves every other type alone and keeps types unique; the written type reads back with the
  new status, reason and message; and unless the caller declares a transition, a condition whose
  content did not change keeps its transition time, so writing it again, at any later time, is a no-op.
\<close>

theorem upsert_condition_contract:
  assumes "conditions_wf cs"
  shows "conditions_wf (UpsertCondition cs c tr)
   \<and> (\<forall>t. t = cond_Type c \<or> find_condition t (UpsertCondition cs c tr) = find_condition t cs)
   \<and> (\<exists>w. find_condition (cond_Type c) (UpsertCondition cs c tr) = Some w \<and> same_content w c
        \<and> (cond_LastTransitionTime w = cond_LastTransitionTime c
           \<or> (\<exists>old. find_condition (cond_Type c) cs = Some old \<and> same_content old c
                \<and> cond_LastTransitionTime w = cond_LastTransitionTime old)))
   \<and> UpsertCondition (UpsertCondition cs c tr) (c\<lparr>cond_LastTransitionTime := t'\<rparr>) False = UpsertCondition cs c tr"
proof (intro conjI)
  show "conditions_wf (UpsertCondition cs c tr)" using assms by simp
  show "\<forall>t. t = cond_Type c \<or> find_condition t (UpsertCondition cs c tr) = find_condition t cs"
    using find_Upsert_other by blast
  show "\<exists>w. find_condition (cond_Type c) (UpsertCondition cs c tr) = Some w \<and> same_content w c
        \<and> (cond_LastTransitionTime w = cond_LastTransitionTime c
           \<or> (\<exists>old. find_condition (cond_Type c) cs = Some old \<and> same_content old c
                \<and> cond_LastTransitionTime w = cond_LastTransitionTime old))"
    by (auto simp: find_Upsert_same same_content_def split: option.split)
qed (rule Upsert_idem)

text \<open>
  Clearing an absent condition is not always free. The documentation of \<open>ClearProjectCondition\<close> calls
  it a no-op when the condition is already absent; on a freshly created Project, whose stored status
  has no conditions key, it rewrites the row: the version moves and an update event is published.
\<close>

theorem clear_absent_condition_writes:
  "find_condition ConditionTypeMaintenance (ps_Conditions (prj_Status (scanProject (the (row_at demo_created ''web''))))) = None
   \<and> (let (d', res) = ClearProjectCondition 300 ''web'' ConditionTypeMaintenance demo_created in
      res = Inr () \<and> map row_resource_version (db_rows d') = [2] \<and> map row_resource_version (db_rows demo_created) = [1]
      \<and> db_events d' = db_events demo_created @ [(TopicProjectUpdated, ''web'')]
      \<and> row_status (the (row_at d' ''web'')) = row_status (the (row_at demo_created ''web'')))"
  by code_simp

end
