(* ===== verification/Quantity.thy ===== *)
theory Quantity
  imports Cara_Prelude
begin

text \<open>
  \<open>internal/quantity/quantity.go\<close>: resource quantities such as \<open>500m\<close> and \<open>512Mi\<close>, with the parts
  of \<open>strings\<close>, \<open>strconv\<close> and \<open>math\<close> it calls. Inputs are ASCII. A finite \<open>float64\<close> is the rational it
  denotes and \<open>fl64\<close> rounds to the nearest one, ties to even; an infinity or a NaN is \<open>None\<close>, since the
  code rejects both. Two things the Go specification leaves open or the model leaves out are the
  fields of \<open>go_float\<close>: what \<open>ParseFloat\<close> makes of hexadecimal numbers and of digits grouped by
  underscores, and what the conversion of a float outside \<open>int64\<close> gives on the machine at hand.
\<close>

subsection \<open>strings and strconv\<close>

definition is_space :: "char \<Rightarrow> bool" where
  "is_space c \<longleftrightarrow> c \<in> {CHR 0x09, CHR 0x0A, CHR 0x0B, CHR 0x0C, CHR 0x0D, CHR 0x20}"

definition TrimSpace :: "string \<Rightarrow> string" where
  "TrimSpace s = rev (dropWhile is_space (rev (dropWhile is_space s)))"

definition CutSuffix :: "string \<Rightarrow> string \<Rightarrow> string option" where
  "CutSuffix s suf = (if suffix suf s then Some (take (length s - length suf) s) else None)"

definition is_digit :: "char \<Rightarrow> bool" where
  "is_digit c \<longleftrightarrow> 48 \<le> (of_char c :: nat) \<and> (of_char c :: nat) \<le> 57"

definition digits_value :: "int \<Rightarrow> string \<Rightarrow> int" where
  "digits_value = foldl (\<lambda>n c. 10 * n + (of_char c - 48))"

text \<open>An optional sign, and whether it is a minus.\<close>

fun cut_sign :: "string \<Rightarrow> bool \<times> string" where
  "cut_sign [] = (False, [])"
| "cut_sign (c # s) = (if c = CHR ''-'' then (True, s) else if c = CHR ''+'' then (False, s) else (False, c # s))"

text \<open>\<open>strconv.ParseInt(s, 10, 64)\<close>; \<open>None\<close> is a syntax or a range error.\<close>

definition ParseInt :: "string \<Rightarrow> int option" where
  "ParseInt s = (case cut_sign s of (neg, ds) \<Rightarrow>
     if ds = [] \<or> \<not> list_all is_digit ds then None
     else let n = (if neg then - digits_value 0 ds else digits_value 0 ds)
          in if in_int64 n then Some n else None)"

subsection \<open>float64\<close>

definition round_half_even :: "rat \<Rightarrow> int" where
  "round_half_even x = (let f = floor x; r = x - of_int f
     in if r < 1 / 2 then f else if r > 1 / 2 then f + 1 else if even f then f else f + 1)"

definition pow2 :: "int \<Rightarrow> rat" where
  "pow2 k = (if k \<ge> 0 then 2 ^ nat k else 1 / 2 ^ nat (- k))"

function bit_length :: "int \<Rightarrow> int" where
  "bit_length n = (if n \<le> 0 then 0 else 1 + bit_length (n div 2))"
  by auto
termination by (relation "measure nat") auto

declare bit_length.simps [simp del]

text \<open>The exponent \<open>e\<close> with \<open>2^e \<le> x < 2^(e+1)\<close>, for a positive \<open>x\<close>.\<close>

definition exponent2 :: "rat \<Rightarrow> int" where
  "exponent2 x = (case quotient_of x of (p, q) \<Rightarrow>
     let k = bit_length p - bit_length q in if pow2 k \<le> x then k else k - 1)"

text \<open>The nearest \<open>float64\<close> of a number that is not negative; \<open>None\<close> is the overflow to infinity.\<close>

definition fl64 :: "rat \<Rightarrow> rat option" where
  "fl64 x = (if x = 0 then Some 0
     else let u = max (exponent2 x - 52) (- 1074); y = of_int (round_half_even (x / pow2 u)) * pow2 u
          in if exponent2 y < 1024 then Some y else None)"

record go_float =
  gf_Other :: "string \<Rightarrow> rat option"
  gf_OutOfRange :: "rat \<Rightarrow> int"

text \<open>A decimal: digits, an optional point with digits, an optional exponent.\<close>

definition cut_exponent :: "string \<Rightarrow> (string \<times> int) option" where
  "cut_exponent s = (case dropWhile (\<lambda>c. c \<noteq> CHR ''e'' \<and> c \<noteq> CHR ''E'') s of
       [] \<Rightarrow> Some (s, 0)
     | _ # rest \<Rightarrow> (case cut_sign rest of (neg, ds) \<Rightarrow>
         if ds = [] \<or> \<not> list_all is_digit ds then None
         else Some (takeWhile (\<lambda>c. c \<noteq> CHR ''e'' \<and> c \<noteq> CHR ''E'') s,
                    if neg then - digits_value 0 ds else digits_value 0 ds)))"

definition decimal_value :: "string \<Rightarrow> rat option" where
  "decimal_value s = (case cut_exponent s of None \<Rightarrow> None | Some (m, e) \<Rightarrow>
     let whole = takeWhile is_digit m; rest = dropWhile is_digit m;
         frac = (case rest of [] \<Rightarrow> Some [] | c # fs \<Rightarrow> if c = CHR ''.'' \<and> list_all is_digit fs then Some fs else None)
     in case frac of
          None \<Rightarrow> None
        | Some fs \<Rightarrow>
            if whole = [] \<and> fs = [] then None
            else let k = e - int (length fs); n = rat_of_int (digits_value 0 (whole @ fs))
                 in Some (if k \<ge> 0 then n * 10 ^ nat k else n / 10 ^ nat (- k)))"

definition ParseFloat :: "go_float \<Rightarrow> string \<Rightarrow> rat option" where
  "ParseFloat gf s = (case cut_sign s of (neg, body) \<Rightarrow>
     case decimal_value body of
       None \<Rightarrow> gf_Other gf s
     | Some x \<Rightarrow> map_option (\<lambda>y. if neg then - y else y) (fl64 x))"

text \<open>\<open>math.Round\<close>, half away from zero, of a number that is not negative, and \<open>int64(f)\<close>.\<close>

definition math_Round :: "rat \<Rightarrow> rat" where
  "math_Round x = of_int (floor (x + 1 / 2))"

definition int64_of_float :: "go_float \<Rightarrow> rat \<Rightarrow> int" where
  "int64_of_float gf x = (let n = (if x < 0 then ceiling x else floor x)
     in if in_int64 n then n else gf_OutOfRange gf x)"

subsection \<open>quantity.go\<close>

definition ErrInvalid :: string where "ErrInvalid = ''invalid quantity''"

definition memorySuffixes :: "(string \<times> int) list" where
  "memorySuffixes = [(''Ki'', 2 ^ 10), (''Mi'', 2 ^ 20), (''Gi'', 2 ^ 30), (''Ti'', 2 ^ 40),
     (''k'', 10 ^ 3), (''K'', 10 ^ 3), (''M'', 10 ^ 6), (''G'', 10 ^ 9), (''T'', 10 ^ 12)]"

definition binaryUnits :: "(string \<times> int) list" where
  "binaryUnits = [(''Ti'', 2 ^ 40), (''Gi'', 2 ^ 30), (''Mi'', 2 ^ 20), (''Ki'', 2 ^ 10)]"

definition invalid_quantity :: "string \<Rightarrow> string \<Rightarrow> string + int" where
  "invalid_quantity kind s = Inl (ErrInvalid @ '': '' @ kind @ '' '' @ go_quote s)"

text \<open>The constant \<open>math.MaxInt64/1000\<close>, as the \<open>float64\<close> it is compared as.\<close>

definition max_cores :: rat where
  "max_cores = (case fl64 (of_int (max_int64 div 1000)) of Some x \<Rightarrow> x | None \<Rightarrow> 0)"

definition ParseCPU :: "go_float \<Rightarrow> string \<Rightarrow> string + int" where
  "ParseCPU gf s0 = (let s = TrimSpace s0 in
     case CutSuffix s ''m'' of
       Some milli \<Rightarrow> (case ParseInt milli of
           None \<Rightarrow> invalid_quantity ''cpu'' s
         | Some n \<Rightarrow> if n < 0 then invalid_quantity ''cpu'' s else Inr n)
     | None \<Rightarrow> (case ParseFloat gf s of
           None \<Rightarrow> invalid_quantity ''cpu'' s
         | Some cores \<Rightarrow>
             if cores < 0 \<or> cores > max_cores then invalid_quantity ''cpu'' s
             else case fl64 (cores * 1000) of
                 None \<Rightarrow> invalid_quantity ''cpu'' s
               | Some x \<Rightarrow> Inr (int64_of_float gf (math_Round x))))"

text \<open>The loop over the suffixes, which stops at the first that matches.\<close>

fun cut_memory_suffix :: "string \<Rightarrow> (string \<times> int) list \<Rightarrow> string \<times> int" where
  "cut_memory_suffix s [] = (s, 1)"
| "cut_memory_suffix s ((suf, mult) # us) =
     (case CutSuffix s suf of Some n \<Rightarrow> (n, mult) | None \<Rightarrow> cut_memory_suffix s us)"

definition ParseMemory :: "string \<Rightarrow> string + int" where
  "ParseMemory s0 = (let s = TrimSpace s0 in
     case cut_memory_suffix s memorySuffixes of (number, multiplier) \<Rightarrow>
       case ParseInt number of
         None \<Rightarrow> invalid_quantity ''memory'' s
       | Some n \<Rightarrow>
           if n < 0 \<or> n > max_int64 div multiplier then invalid_quantity ''memory'' s
           else Inr (wrap64 (n * multiplier)))"

definition FormatCPU :: "int \<Rightarrow> string" where
  "FormatCPU milli = FormatInt milli @ ''m''"

fun format_units :: "int \<Rightarrow> (string \<times> int) list \<Rightarrow> string" where
  "format_units bytes [] = FormatInt bytes"
| "format_units bytes ((suf, unit) # us) =
     (if bytes mod unit = 0 then FormatInt (bytes div unit) @ suf else format_units bytes us)"

definition FormatMemory :: "int \<Rightarrow> string" where
  "FormatMemory bytes = (if bytes \<noteq> 0 then format_units bytes binaryUnits else FormatInt bytes)"

subsection \<open>Reading back what was written\<close>

lemma digits_value_append: "digits_value n (s @ t) = digits_value (digits_value n s) t"
  by (simp add: digits_value_def)

lemma of_char_digit_int [simp]: "d < 10 \<Longrightarrow> (of_char (digit_char d) :: int) = 48 + int d"
proof -
  assume "d < 10"
  then have "int (of_char (digit_char d)) = 48 + int d" by simp
  then show ?thesis by (simp add: of_nat_of_char)
qed

lemma digits_value_show [simp]: "digits_value 0 (show_nat n) = int n"
proof (induction n rule: show_nat.induct)
  case (1 n)
  show ?case
  proof (cases "n < 10")
    case True
    then show ?thesis by (simp add: show_nat.simps [of n] digits_value_def)
  next
    case False
    with 1 have "digits_value 0 (show_nat (n div 10)) = int (n div 10)" by blast
    with False show ?thesis
      by (simp add: show_nat.simps [of n] digits_value_append)
        (simp add: digits_value_def zdiv_int zmod_int)
  qed
qed

lemma is_digit_digit_char [simp]: "d < 10 \<Longrightarrow> is_digit (digit_char d)"
  by (simp add: is_digit_def)

lemma show_nat_digits: "list_all is_digit (show_nat n)"
  using set_show_nat by (fastforce simp: list_all_iff)

lemma digit_not_sign: "is_digit c \<Longrightarrow> c \<noteq> CHR ''-'' \<and> c \<noteq> CHR ''+''"
  by (auto simp: is_digit_def)

lemma digit_not_space: "is_digit c \<Longrightarrow> \<not> is_space c"
  by (auto simp: is_digit_def is_space_def)

lemma cut_sign_show [simp]: "cut_sign (show_nat n) = (False, show_nat n)"
  using show_nat_digits [of n] digit_not_sign by (cases "show_nat n") auto

lemma ParseInt_FormatInt: "0 \<le> n \<Longrightarrow> n \<le> max_int64 \<Longrightarrow> ParseInt (FormatInt n) = Some n"
  by (simp add: ParseInt_def FormatInt_def show_nat_digits min_int64_def)

lemma TrimSpace_id: "s \<noteq> [] \<Longrightarrow> \<not> is_space (hd s) \<Longrightarrow> \<not> is_space (last s) \<Longrightarrow> TrimSpace s = s"
proof -
  assume s: "s \<noteq> []" "\<not> is_space (hd s)" "\<not> is_space (last s)"
  then have "dropWhile is_space s = s" "dropWhile is_space (rev s) = rev s"
    by (simp_all add: dropWhile_eq_self_iff hd_rev)
  then show "TrimSpace s = s" by (simp add: TrimSpace_def)
qed

lemma hd_show_digit: "is_digit (hd (show_nat n))" and last_show_digit: "is_digit (last (show_nat n))"
  using show_nat_digits [of n] by (auto simp: list_all_iff)

lemma CutSuffix_append [simp]: "CutSuffix (s @ t) t = Some s"
  by (simp add: CutSuffix_def suffix_def)

lemma CutSuffix_last: "s \<noteq> [] \<Longrightarrow> t \<noteq> [] \<Longrightarrow> last s \<noteq> last t \<Longrightarrow> CutSuffix s t = None"
  by (auto simp: CutSuffix_def suffix_def)

lemma CutSuffix_unit: "CutSuffix (s @ [a, c]) [b, c] = (if a = b then Some s else None)"
  by (auto simp: CutSuffix_def suffix_def append_eq_append_conv2 append_eq_Cons_conv)

lemma cut_memory_plain:
  assumes "s \<noteq> []" "is_digit (last s)"
  shows "cut_memory_suffix s memorySuffixes = (s, 1)"
proof -
  have "CutSuffix s suf = None" if "suf \<in> fst ` set memorySuffixes" for suf
    using that assms by (intro CutSuffix_last) (auto simp: memorySuffixes_def is_digit_def)
  then show ?thesis by (simp add: memorySuffixes_def)
qed

lemma cut_memory_unit:
  "(suf, unit) \<in> set binaryUnits \<Longrightarrow> cut_memory_suffix (s @ suf) memorySuffixes = (s, unit)"
  by (auto simp: binaryUnits_def memorySuffixes_def CutSuffix_unit)

lemma ParseMemory_plain: "0 \<le> n \<Longrightarrow> n \<le> max_int64 \<Longrightarrow> ParseMemory (FormatInt n) = Inr n"
  using hd_show_digit [of "nat n"] last_show_digit [of "nat n"] ParseInt_FormatInt [of n]
  by (simp add: ParseMemory_def FormatInt_def TrimSpace_id digit_not_space cut_memory_plain wrap64_id min_int64_def)

lemma unit_not_space: "(suf, unit) \<in> set binaryUnits \<Longrightarrow> suf \<noteq> [] \<and> \<not> is_space (last suf) \<and> 0 < unit"
  by (auto simp: binaryUnits_def is_space_def)

lemma ParseMemory_unit:
  assumes unit: "(suf, unit) \<in> set binaryUnits" and n: "0 \<le> n" "n * unit \<le> max_int64"
  shows "ParseMemory (FormatInt n @ suf) = Inr (n * unit)"
proof -
  have pos: "0 < unit" and nsp: "suf \<noteq> []" "\<not> is_space (last suf)" using unit_not_space [OF unit] by auto
  have "n * unit div unit \<le> max_int64 div unit" using pos n by (intro zdiv_mono1)
  with pos have le: "n \<le> max_int64 div unit" by simp
  have "n * 1 \<le> n * unit" using pos n by (intro mult_left_mono) auto
  with n have small: "n \<le> max_int64" by simp
  have trim: "TrimSpace (FormatInt n @ suf) = FormatInt n @ suf"
    using n nsp hd_show_digit [of "nat n"] by (intro TrimSpace_id) (auto simp: FormatInt_def digit_not_space)
  have "0 \<le> n * unit" using n pos by simp
  with n have "wrap64 (n * unit) = n * unit" by (simp add: wrap64_id min_int64_def)
  with trim le n small show ?thesis
    by (simp add: ParseMemory_def cut_memory_unit [OF unit] ParseInt_FormatInt)
qed

lemma format_units_cases:
  "set us \<subseteq> set binaryUnits \<Longrightarrow> format_units bytes us = FormatInt bytes
     \<or> (\<exists>suf unit. (suf, unit) \<in> set binaryUnits \<and> unit dvd bytes \<and> format_units bytes us = FormatInt (bytes div unit) @ suf)"
proof (induction bytes us rule: format_units.induct)
  case (2 bytes suf unit us)
  show ?case
  proof (cases "unit dvd bytes")
    case True
    then have "format_units bytes ((suf, unit) # us) = FormatInt (bytes div unit) @ suf" by simp
    moreover have "(suf, unit) \<in> set binaryUnits" using 2 by simp
    ultimately show ?thesis using True by blast
  next
    case False
    then have "format_units bytes ((suf, unit) # us) = format_units bytes us" "bytes mod unit \<noteq> 0"
      by (simp_all add: mod_eq_0_iff_dvd)
    with 2 show ?thesis by simp
  qed
qed simp

lemma ParseMemory_FormatMemory: "0 \<le> n \<Longrightarrow> n \<le> max_int64 \<Longrightarrow> ParseMemory (FormatMemory n) = Inr n"
proof -
  assume n: "0 \<le> n" "n \<le> max_int64"
  consider "FormatMemory n = FormatInt n"
    | suf unit where "(suf, unit) \<in> set binaryUnits" "unit dvd n" "FormatMemory n = FormatInt (n div unit) @ suf"
    using format_units_cases [of binaryUnits n] unfolding FormatMemory_def by (cases "n = 0") (simp, auto)
  then show ?thesis
  proof cases
    case 1
    with n show ?thesis by (simp add: ParseMemory_plain)
  next
    case 2
    have "0 < unit" using unit_not_space [OF 2(1)] by simp
    with 2 n show ?thesis using ParseMemory_unit [OF 2(1), of "n div unit"]
      by (simp add: pos_imp_zdiv_nonneg_iff)
  qed
qed

lemma ParseCPU_FormatCPU: "0 \<le> n \<Longrightarrow> n \<le> max_int64 \<Longrightarrow> ParseCPU gf (FormatCPU n) = Inr n"
proof -
  assume n: "0 \<le> n" "n \<le> max_int64"
  then have "TrimSpace (FormatCPU n) = FormatCPU n"
    using digit_not_space [OF hd_show_digit [of "nat n"]]
    by (intro TrimSpace_id) (simp_all add: FormatCPU_def FormatInt_def is_space_def)
  with n show ?thesis by (simp add: ParseCPU_def FormatCPU_def ParseInt_FormatInt)
qed

subsection \<open>Bounds of what is accepted\<close>

lemma ParseInt_range: "ParseInt s = Some n \<Longrightarrow> in_int64 n"
  by (auto simp: ParseInt_def Let_def split: prod.splits if_splits)

lemma cut_memory_multiplier:
  "cut_memory_suffix s us = (num, k) \<Longrightarrow> \<forall>u \<in> set us. 0 < snd u \<Longrightarrow> 0 < k"
  by (induction s us rule: cut_memory_suffix.induct) (auto split: option.splits)

lemma ParseMemory_exact:
  assumes "ParseMemory s = Inr b"
  obtains num k n where "cut_memory_suffix (TrimSpace s) memorySuffixes = (num, k)" "ParseInt num = Some n"
    "0 \<le> n" "b = n * k" "0 \<le> b" "b \<le> max_int64"
proof -
  obtain num k n where c: "cut_memory_suffix (TrimSpace s) memorySuffixes = (num, k)" "ParseInt num = Some n"
    "0 \<le> n" "n \<le> max_int64 div k" "b = wrap64 (n * k)"
    using assms by (auto simp: ParseMemory_def invalid_quantity_def Let_def split: prod.splits option.splits if_splits)
  have k: "0 < k" using cut_memory_multiplier [OF c(1)] by (simp add: memorySuffixes_def)
  have "n * k \<le> (max_int64 div k) * k" using c(4) k by (intro mult_right_mono) auto
  also have "\<dots> \<le> max_int64" using k by (simp add: minus_mod_eq_div_mult [symmetric])
  finally have le: "n * k \<le> max_int64" .
  moreover have "0 \<le> n * k" using c(3) k by simp
  ultimately have "b = n * k" using c(5) by (simp add: wrap64_id min_int64_def)
  with c(1-3) le \<open>0 \<le> n * k\<close> that show ?thesis by blast
qed

lemma pow2_pos: "0 < pow2 k" by (simp add: pow2_def)

lemma pow2_add: "pow2 (a + b) = pow2 a * pow2 b"
proof -
  have "pow2 k = 2 powi k" for k by (simp add: pow2_def power_int_def inverse_eq_divide power_divide)
  then show ?thesis by (simp add: power_int_add)
qed

lemma round_half_even_upper: "of_int (round_half_even x) \<le> x + 1 / 2"
proof -
  have f: "of_int (floor x) \<le> x" by simp
  consider "x - of_int (floor x) < 1 / 2" | "1 / 2 < x - of_int (floor x)" | "x - of_int (floor x) = 1 / 2" by linarith
  then show ?thesis using f by cases (auto simp: round_half_even_def Let_def, linarith+)
qed

lemma round_half_even_le: "x < of_int n \<Longrightarrow> round_half_even x \<le> n"
proof -
  assume "x < of_int n"
  then have "floor x + 1 \<le> n" by linarith
  then show ?thesis by (auto simp: round_half_even_def Let_def)
qed

lemma bit_length_nonneg: "0 \<le> bit_length n"
  by (induction n rule: bit_length.induct) (subst bit_length.simps, simp)

lemma pow2_mono: "a \<le> b \<Longrightarrow> pow2 a \<le> pow2 b"
proof -
  assume "a \<le> b"
  have "1 \<le> pow2 (b - a)" using \<open>a \<le> b\<close> by (simp add: pow2_def)
  then have "pow2 a * 1 \<le> pow2 a * pow2 (b - a)" using pow2_pos [of a] by (intro mult_left_mono) auto
  also have "\<dots> = pow2 b" by (simp add: pow2_add [symmetric])
  finally show ?thesis by simp
qed

lemma bit_length_pow2:
  "0 < p \<Longrightarrow> pow2 (bit_length p - 1) \<le> of_int p \<and> of_int p < pow2 (bit_length p)"
proof (induction p rule: bit_length.induct)
  case (1 n)
  define k where "k = bit_length (n div 2)"
  have bl: "bit_length n = 1 + k" using "1.prems" by (simp add: bit_length.simps [of n] k_def)
  have double: "pow2 (1 + k) = 2 * pow2 k" for k by (simp add: pow2_add) (simp add: pow2_def)
  show ?case
  proof (cases "n div 2 \<le> 0")
    case True
    then have "n = 1" "k = 0" using "1.prems" by (simp_all add: k_def bit_length.simps)
    then show ?thesis unfolding bl by (simp add: pow2_def)
  next
    case False
    with "1.IH" "1.prems" have ih: "pow2 (k - 1) \<le> of_int (n div 2)" "of_int (n div 2) < pow2 k"
      by (auto simp: k_def)
    have half: "2 * (n div 2) \<le> n" by simp
    then have half': "2 * rat_of_int (n div 2) \<le> of_int n" by (metis of_int_le_iff of_int_mult of_int_numeral)
    have "pow2 k \<le> of_int n" using ih(1) half' double [of "k - 1"] by simp
    moreover have "of_int n < pow2 (1 + k)"
    proof -
      have "0 \<le> k" by (simp add: k_def bit_length_nonneg)
      then have k2: "pow2 k = rat_of_int (2 ^ nat k)" by (simp add: pow2_def)
      with ih(2) have "n div 2 < 2 ^ nat k" by (simp only: of_int_less_iff)
      then have "n < 2 * 2 ^ nat k" by linarith
      then have "rat_of_int n < of_int (2 * 2 ^ nat k)" by (simp only: of_int_less_iff)
      then show ?thesis by (simp add: double k2)
    qed
    ultimately show ?thesis by (simp add: bl)
  qed
qed

lemma exponent2_bounds:
  assumes "0 < x" shows "pow2 (exponent2 x) \<le> x" "x < pow2 (exponent2 x + 1)"
proof -
  obtain p q where pq: "quotient_of x = (p, q)" by force
  have q: "0 < q" using quotient_of_denom_pos [OF pq] .
  have x: "x = of_int p / of_int q" using quotient_of_div [OF pq] .
  with assms q have p: "0 < p" by (simp add: zero_less_divide_iff)
  define a b where "a = bit_length p" and "b = bit_length q"
  have bnd: "pow2 (a - 1) \<le> of_int p" "of_int p < pow2 (a)" "pow2 (b - 1) \<le> of_int q" "of_int q < pow2 (b)"
    using bit_length_pow2 [OF p] bit_length_pow2 [OF q] by (simp_all add: a_def b_def)
  have lower: "pow2 (a - b - 1) \<le> x"
  proof -
    have "pow2 (a - b - 1) * of_int q \<le> pow2 (a - b - 1) * pow2 (b)"
      using bnd(4) pow2_pos by (intro mult_left_mono) (auto simp: less_imp_le)
    also have "\<dots> = pow2 (a - 1)" by (simp add: pow2_add [symmetric])
    finally show ?thesis using bnd(1) q x by (simp add: pos_le_divide_eq)
  qed
  have upper: "x < pow2 (a - b + 1)"
  proof -
    have "pow2 (a) = pow2 (a - b + 1) * pow2 (b - 1)" by (simp add: pow2_add [symmetric])
    also have "\<dots> \<le> pow2 (a - b + 1) * of_int q"
      using bnd(3) pow2_pos by (intro mult_left_mono) (auto simp: less_imp_le)
    finally show ?thesis using bnd(2) q x by (simp add: pos_divide_less_eq)
  qed
  have e: "exponent2 x = (if pow2 (a - b) \<le> x then a - b else a - b - 1)"
    by (simp add: exponent2_def pq Let_def a_def b_def)
  show "pow2 (exponent2 x) \<le> x" "x < pow2 (exponent2 x + 1)"
    using lower upper by (auto simp: e)
qed

lemma fl64_nonneg: "0 \<le> x \<Longrightarrow> fl64 x = Some y \<Longrightarrow> 0 \<le> y"
proof -
  assume x: "0 \<le> x" and y: "fl64 x = Some y"
  have "0 \<le> x / pow2 u" for u using x pow2_pos [of u] by simp
  then have "0 \<le> floor (x / pow2 u)" for u by simp
  then have "0 \<le> round_half_even (x / pow2 u)" for u by (auto simp: round_half_even_def Let_def)
  with y show "0 \<le> y" using pow2_pos by (auto simp: fl64_def Let_def less_imp_le split: if_splits)
qed

text \<open>Products of the largest accepted core count and below round to \<open>2^63\<close> at most.\<close>

lemma fl64_le_two63:
  assumes "0 \<le> x" "x \<le> 9223372036854776000" "fl64 x = Some y"
  shows "y \<le> 2 ^ 63"
proof (cases "x = 0")
  case True
  with assms show ?thesis by (simp add: fl64_def)
next
  case False
  with assms have x: "0 < x" by simp
  define e where "e = exponent2 x"
  define u where "u = max (e - 52) (- 1074)"
  note e = exponent2_bounds [OF x, folded e_def]
  have y: "y = of_int (round_half_even (x / pow2 u)) * pow2 u"
    using assms(3) False by (simp add: fl64_def Let_def u_def e_def split: if_splits)
  show ?thesis
  proof (cases "e \<le> 62")
    case True
    have "e + 1 \<le> 53 + u" by (simp add: u_def)
    then have "x < pow2 (53 + u)" using e(2) pow2_mono by (meson less_le_trans)
    then have "x / pow2 u < of_int (2 ^ 53)" using pow2_pos [of u] by (simp add: pos_divide_less_eq pow2_add) (simp add: pow2_def)
    then have "of_int (round_half_even (x / pow2 u)) \<le> (2 ^ 53 :: rat)" using round_half_even_le by (metis of_int_le_iff of_int_power of_int_numeral)
    then have "y \<le> 2 ^ 53 * pow2 u" unfolding y using pow2_pos by (intro mult_right_mono) (auto simp: less_imp_le)
    also have "\<dots> = pow2 (53 + u)" by (simp add: pow2_add) (simp add: pow2_def)
    also have "\<dots> \<le> pow2 63" using True by (intro pow2_mono) (simp add: u_def)
    also have "pow2 63 = 2 ^ 63" by (simp add: pow2_def)
    finally show ?thesis .
  next
    case False
    have "pow2 e < pow2 64" using e(1) assms(2) by (simp add: pow2_def)
    then have "\<not> 64 \<le> e" using pow2_mono [of 64 e] by auto
    with False have u: "u = 11" by (simp add: u_def)
    have "of_int (round_half_even (x / pow2 u)) \<le> x / 2048 + 1 / 2"
      using round_half_even_upper [of "x / pow2 u"] by (simp add: u pow2_def)
    also have "\<dots> < of_int (2 ^ 52 + 1)" using assms(2) by (simp add: field_simps)
    finally have "round_half_even (x / pow2 u) \<le> 2 ^ 52" by (simp only: of_int_less_iff zless_add1_eq le_less)
    then have "of_int (round_half_even (x / pow2 u)) \<le> (2 ^ 52 :: rat)" by (metis of_int_le_iff of_int_power of_int_numeral)
    then show ?thesis unfolding y by (simp add: u pow2_def)
  qed
qed

lemma max_cores_value: "max_cores = 9223372036854776" by code_simp

lemma ParseCPU_range:
  assumes "ParseCPU gf s = Inr n"
  shows "(0 \<le> n \<and> n \<le> max_int64) \<or> n = gf_OutOfRange gf (2 ^ 63)"
proof (cases "CutSuffix (TrimSpace s) ''m''")
  case (Some milli)
  with assms show ?thesis by (auto simp: ParseCPU_def Let_def invalid_quantity_def dest: ParseInt_range split: option.splits if_splits)
next
  case None
  then obtain cores x where c: "0 \<le> cores" "cores \<le> 9223372036854776" "fl64 (cores * 1000) = Some x"
      "n = int64_of_float gf (math_Round x)"
    using assms by (auto simp: ParseCPU_def invalid_quantity_def Let_def max_cores_value not_less split: option.splits if_splits)
  have le: "x \<le> 2 ^ 63" by (rule fl64_le_two63 [OF _ _ c(3)]) (use c in simp_all)
  have ge: "0 \<le> x" by (rule fl64_nonneg [OF _ c(3)]) (use c in simp)
  define k where "k = floor (x + 1 / 2)"
  have k: "0 \<le> k" "k \<le> 2 ^ 63" using ge le by (simp_all add: k_def floor_le_iff)
  have n: "n = (if in_int64 k then k else gf_OutOfRange gf (of_int k))"
    using k(1) unfolding c(4) by (simp add: int64_of_float_def math_Round_def k_def Let_def)
  show ?thesis
  proof (cases "k = 2 ^ 63")
    case True
    then show ?thesis by (simp add: n max_int64_def)
  next
    case False
    with k show ?thesis by (simp add: n max_int64_def min_int64_def)
  qed
qed

text \<open>
C38: What the formatters write, the parsers read back: for every \<open>int64\<close> that is not negative,
  \<open>ParseMemory(FormatMemory(n))\<close> and \<open>ParseCPU(FormatCPU(n))\<close> return \<open>n\<close>, so two amounts are written
  alike only when they are equal.
\<close>

theorem quantity_round_trip:
  assumes "0 \<le> n" "n \<le> max_int64"
  shows "ParseMemory (FormatMemory n) = Inr n \<and> ParseCPU gf (FormatCPU n) = Inr n"
  using ParseMemory_FormatMemory [OF assms] ParseCPU_FormatCPU [OF assms] by simp_all

theorem quantity_round_trip_witness:
  "ParseMemory (FormatMemory 4294967296) = Inr 4294967296 \<and> ParseCPU undefined (FormatCPU 2000) = Inr 2000
   \<and> FormatMemory 4294967296 = ''4Gi'' \<and> FormatCPU 2000 = ''2000m''"
proof -
  have "FormatMemory 4294967296 = ''4Gi''" "FormatCPU 2000 = ''2000m''"
    by code_simp+
  then show ?thesis
    using quantity_round_trip [of 4294967296] quantity_round_trip [of 2000] by (simp add: max_int64_def)
qed

text \<open>
Bounds of the parsers. An accepted memory quantity is exactly the number times its unit, between 0
  and the largest \<open>int64\<close>: the product never wraps. An accepted CPU quantity is in the same range, or
  the conversion of the float \<open>2^63\<close>, which does not fit: the guard of \<open>ParseCPU\<close> compares with
  \<open>math.MaxInt64/1000\<close> rounded up to a float, so that very number of cores passes it.
\<close>

theorem quantity_bounds:
  "(case ParseMemory s of Inl e \<Rightarrow> True | Inr b \<Rightarrow> 0 \<le> b \<and> b \<le> max_int64
      \<and> (case cut_memory_suffix (TrimSpace s) memorySuffixes of (num, k) \<Rightarrow> map_option (\<lambda>n. n * k) (ParseInt num) = Some b))
    \<and> (case ParseCPU gf s of Inl e \<Rightarrow> True | Inr n \<Rightarrow> (0 \<le> n \<and> n \<le> max_int64) \<or> n = gf_OutOfRange gf (2 ^ 63))
    \<and> ParseCPU gf ''9223372036854775'' = Inr (gf_OutOfRange gf (2 ^ 63))"
proof (intro conjI)
  show "case ParseMemory s of Inl e \<Rightarrow> True | Inr b \<Rightarrow> 0 \<le> b \<and> b \<le> max_int64
      \<and> (case cut_memory_suffix (TrimSpace s) memorySuffixes of (num, k) \<Rightarrow> map_option (\<lambda>n. n * k) (ParseInt num) = Some b)"
    by (auto split: sum.split elim: ParseMemory_exact)
  show "case ParseCPU gf s of Inl e \<Rightarrow> True | Inr n \<Rightarrow> (0 \<le> n \<and> n \<le> max_int64) \<or> n = gf_OutOfRange gf (2 ^ 63)"
    using ParseCPU_range by (simp split: sum.split)
  have "TrimSpace ''9223372036854775'' = ''9223372036854775''" "CutSuffix ''9223372036854775'' ''m'' = None"
    "cut_sign ''9223372036854775'' = (False, ''9223372036854775'')"
    "decimal_value ''9223372036854775'' = Some 9223372036854775"
    "fl64 9223372036854775 = Some 9223372036854776" "fl64 (9223372036854776 * 1000) = Some (2 ^ 63)"
    "math_Round (2 ^ 63) = 2 ^ 63" by code_simp+
  then show "ParseCPU gf ''9223372036854775'' = Inr (gf_OutOfRange gf (2 ^ 63))"
    by (simp add: ParseCPU_def ParseFloat_def max_cores_value int64_of_float_def max_int64_def min_int64_def)
qed

end
