(* ===== verification/Scheduler.thy ===== *)
theory Scheduler
  imports Node_Store Adapter Quantity
begin

text \<open>
  The scheduler: the capacity ledger (\<open>internal/server/controller/capacity_ledger.go\<close>), the Filter stage
  (\<open>scheduler_filter.go\<close>), the Score stage (\<open>scheduler_score.go\<close>) and the controller that binds a Pending
  Project to a Node (\<open>project_scheduler.go\<close>). Sums are \<open>int64\<close> and wrap; scores are \<open>float64\<close>, every
  operation rounded by \<open>fl64\<close>. The writes of other sessions between two reads of a pass are arguments.
\<close>

subsection \<open>capacity\_ledger.go\<close>

definition ledgerPhases :: "ProjectPhase list" where
  "ledgerPhases = [ProjectPhaseScheduled, ProjectPhaseRunning, ProjectPhaseTerminating]"

record NodeUsage =
  nu_CPUMilli :: int
  nu_MemoryBytes :: int

definition book :: "ProjectSnapshot \<Rightarrow> NodeUsage \<Rightarrow> NodeUsage" where
  "book p used = (let req = Requests (snap_Size p) in
     \<lparr>nu_CPUMilli = wrap64 (nu_CPUMilli used + rr_CPUMilli req),
      nu_MemoryBytes = wrap64 (nu_MemoryBytes used + rr_MemoryBytes req)\<rparr>)"

definition Used :: "db \<Rightarrow> string \<Rightarrow> NodeUsage" where
  "Used d node = fold book (list_snapshots_by_node d node ledgerPhases) \<lparr>nu_CPUMilli = 0, nu_MemoryBytes = 0\<rparr>"

record placementCheck =
  pc_ok :: bool
  pc_reason :: string
  pc_used :: NodeUsage
  pc_allocatable :: NodeUsage

definition zero_usage :: NodeUsage where "zero_usage = \<lparr>nu_CPUMilli = 0, nu_MemoryBytes = 0\<rparr>"

text \<open>The CPU and memory a Node offers, or why they could not be read.\<close>

definition parseAllocatable :: "go_float \<Rightarrow> ReadyNode \<Rightarrow> int \<times> int \<times> string" where
  "parseAllocatable gf node =
     (let cpu = rn_Allocatable node ''cpu''; mem = rn_Allocatable node ''memory'';
          missing = (if cpu = None then [''cpu''] else []) @ (if mem = None then [''memory''] else [])
      in if length missing > 0
         then (0, 0, ''node '' @ go_quote (rn_Name node) @ '' has not reported allocatable ['' @ strings_Join missing '' '' @
                 '']; upgrade cara-agent'')
         else case ParseCPU gf (the cpu) of
           Inl err \<Rightarrow> (0, 0, ''node '' @ go_quote (rn_Name node) @ '' reports unparseable allocatable cpu: '' @ err)
         | Inr cpuMilli \<Rightarrow> (case ParseMemory (the mem) of
             Inl err \<Rightarrow> (0, 0, ''node '' @ go_quote (rn_Name node) @ '' reports unparseable allocatable memory: '' @ err)
           | Inr memoryBytes \<Rightarrow> (cpuMilli, memoryBytes, '''')))"

definition check :: "go_float \<Rightarrow> db \<Rightarrow> ReadyNode \<Rightarrow> ProjectSize \<Rightarrow> placementCheck" where
  "check gf d node sz =
     (case parseAllocatable gf node of (cpuMilli, memoryBytes, reason) \<Rightarrow>
        if reason \<noteq> '''' then \<lparr>pc_ok = False, pc_reason = reason, pc_used = zero_usage, pc_allocatable = zero_usage\<rparr>
        else let allocatable = \<lparr>nu_CPUMilli = cpuMilli, nu_MemoryBytes = memoryBytes\<rparr>;
                 used = Used d (rn_Name node);
                 req = Requests sz
             in if wrap64 (nu_CPUMilli used + rr_CPUMilli req) > cpuMilli
                then \<lparr>pc_ok = False, pc_reason = ''node '' @ go_quote (rn_Name node) @ '' lacks cpu: '' @
                        FormatInt (nu_CPUMilli used) @ ''m in use + '' @ FormatInt (rr_CPUMilli req) @
                        ''m requested > '' @ FormatInt cpuMilli @ ''m allocatable'',
                      pc_used = used, pc_allocatable = allocatable\<rparr>
                else if wrap64 (nu_MemoryBytes used + rr_MemoryBytes req) > memoryBytes
                then \<lparr>pc_ok = False, pc_reason = ''node '' @ go_quote (rn_Name node) @ '' lacks memory: '' @
                        FormatMemory (nu_MemoryBytes used) @ '' in use + '' @ FormatMemory (rr_MemoryBytes req) @
                        '' requested > '' @ FormatMemory memoryBytes @ '' allocatable'',
                      pc_used = used, pc_allocatable = allocatable\<rparr>
                else \<lparr>pc_ok = True, pc_reason = '''', pc_used = used, pc_allocatable = allocatable\<rparr>)"

definition Fits :: "go_float \<Rightarrow> db \<Rightarrow> ReadyNode \<Rightarrow> ProjectSize \<Rightarrow> bool \<times> string" where
  "Fits gf d node sz = (let c = check gf d node sz in (pc_ok c, pc_reason c))"

subsection \<open>scheduler\_filter.go\<close>

record candidate =
  cd_Node :: ReadyNode
  cd_Used :: NodeUsage
  cd_Allocatable :: NodeUsage

definition underPressure :: "ReadyNode \<Rightarrow> ConditionType option" where
  "underPressure n = map_option cond_Type (List.find
     (\<lambda>c. cond_Type c \<in> {ConditionTypeDiskPressure, ConditionTypeMemoryPressure} \<and> cond_Status c = ConditionTrue)
     (rn_Conditions n))"

definition pressure_text :: "ConditionType \<Rightarrow> string" where
  "pressure_text t = (if t = ConditionTypeDiskPressure then ''DiskPressure'' else ''MemoryPressure'')"

text \<open>The ledger reads the Projects of one Node at a time; \<open>gap\<close> is what is written before each read.\<close>

fun filterNodes ::
  "go_float \<Rightarrow> (string \<Rightarrow> db \<Rightarrow> db) \<Rightarrow> ReadyNode list \<Rightarrow> ProjectSize \<Rightarrow> string list \<Rightarrow> db
   \<Rightarrow> db \<times> candidate list \<times> string list" where
  "filterNodes gf gap [] sz excluded d = (d, [], [])"
| "filterNodes gf gap (n # ns) sz excluded d =
     (if rn_Name n \<in> set excluded
      then (case filterNodes gf gap ns sz excluded d of (d', cs, rejected) \<Rightarrow>
              (d', cs, (''node '' @ go_quote (rn_Name n) @ '' already failed this project'') # rejected))
      else case underPressure n of
        Some t \<Rightarrow> (case filterNodes gf gap ns sz excluded d of (d', cs, rejected) \<Rightarrow>
              (d', cs, (''node '' @ go_quote (rn_Name n) @ '' reports '' @ pressure_text t) # rejected))
      | None \<Rightarrow>
          let d1 = gap (rn_Name n) d; c = check gf d1 n sz in
          case filterNodes gf gap ns sz excluded d1 of (d', cs, rejected) \<Rightarrow>
            if \<not> pc_ok c then (d', cs, pc_reason c # rejected)
            else (d', \<lparr>cd_Node = n, cd_Used = pc_used c, cd_Allocatable = pc_allocatable c\<rparr> # cs, rejected))"

subsection \<open>scheduler\_score.go\<close>

text \<open>Rounding of a number that is far from the overflow of \<open>float64\<close>.\<close>

definition fl :: "rat \<Rightarrow> rat" where
  "fl x = (case fl64 x of Some y \<Rightarrow> y | None \<Rightarrow> 0)"

definition TierPrimaryBonus :: rat where "TierPrimaryBonus = 1000"

definition freePercent :: "int \<Rightarrow> int \<Rightarrow> rat" where
  "freePercent allocatable booked =
     (if allocatable \<le> 0 \<or> booked \<ge> allocatable then 0
      else fl (fl (100 * fl (of_int (wrap64 (allocatable - booked)))) / fl (of_int allocatable)))"

definition leastAllocated :: "candidate \<Rightarrow> ProjectSize \<Rightarrow> rat" where
  "leastAllocated c sz =
     (let req = Requests sz;
          cpu = freePercent (nu_CPUMilli (cd_Allocatable c)) (wrap64 (nu_CPUMilli (cd_Used c) + rr_CPUMilli req));
          mem = freePercent (nu_MemoryBytes (cd_Allocatable c)) (wrap64 (nu_MemoryBytes (cd_Used c) + rr_MemoryBytes req))
      in fl (fl (cpu + mem) / 2))"

definition scoreCandidate :: "candidate \<Rightarrow> ProjectSize \<Rightarrow> rat" where
  "scoreCandidate c sz =
     (let score = leastAllocated c sz
      in if NodeTierFromLabels (rn_Labels (cd_Node c)) = NodeTierPrimary then fl (score + TierPrimaryBonus) else score)"

abbreviation cand_name :: "candidate \<Rightarrow> string" where
  "cand_name c \<equiv> rn_Name (cd_Node c)"

fun pick_from :: "ProjectSize \<Rightarrow> candidate \<Rightarrow> rat \<Rightarrow> candidate list \<Rightarrow> candidate \<times> rat" where
  "pick_from sz best bestScore [] = (best, bestScore)"
| "pick_from sz best bestScore (c # cs) =
     (let score = scoreCandidate c sz in
      if score > bestScore \<or> (score = bestScore \<and> cand_name c < cand_name best)
      then pick_from sz c score cs else pick_from sz best bestScore cs)"

text \<open>The first iteration of the loop takes the first candidate; the code asks that there is one.\<close>

definition pickBest :: "candidate list \<Rightarrow> ProjectSize \<Rightarrow> (candidate \<times> rat) option" where
  "pickBest candidates sz = (case candidates of
       [] \<Rightarrow> None | c # cs \<Rightarrow> Some (pick_from sz c (scoreCandidate c sz) cs))"

subsection \<open>project\_scheduler.go\<close>

text \<open>
  The schedules of the two writes, the clock, and the writes of other sessions: before the placement
  is read, and before each read of the ledger.
\<close>

record scheduler_env =
  se_bind :: "nat \<Rightarrow> interference"
  se_block :: "nat \<Rightarrow> interference"
  se_now :: time
  se_placement :: "db \<Rightarrow> db"
  se_ledger :: "string \<Rightarrow> db \<Rightarrow> db"

definition reportBlocked :: "scheduler_env \<Rightarrow> string \<Rightarrow> string \<Rightarrow> string \<Rightarrow> db \<Rightarrow> db" where
  "reportBlocked env name reason message d = fst (SetSchedulingBlocked (se_block env) (se_now env) name reason message d)"

definition scheduler_Reconcile ::
  "go_float \<Rightarrow> scheduler_env \<Rightarrow> string \<Rightarrow> cluster \<Rightarrow> db \<Rightarrow> db \<times> Result result" where
  "scheduler_Reconcile gf env name c d =
     (case GetProjectPhase d name of
        Inl e \<Rightarrow> if is_not_found e then (d, Inr Done) else (d, Inl e)
      | Inr (phase, _) \<Rightarrow>
          if phase \<noteq> ProjectPhasePending then (d, Inr Done)
          else let readyNodes = ListReadyNodes c in
            if length readyNodes = 0 then (reportBlocked env name ''NoReadyNodes'' ''no Node is Ready'' d, Inr Requeue)
            else let d1 = se_placement env d in
              case GetProjectPlacement d1 name of
                Inl e \<Rightarrow> if is_not_found e then (d1, Inr Done) else (d1, Inl e)
              | Inr placement \<Rightarrow>
                  case filterNodes gf (se_ledger env) readyNodes (pl_Size placement) (pl_ExcludedNodes placement) d1 of
                    (d2, candidates, rejected) \<Rightarrow>
                      case pickBest candidates (pl_Size placement) of
                        None \<Rightarrow> (reportBlocked env name ''NoSuitableNode'' (strings_Join rejected ''; '') d2, Inr Requeue)
                      | Some (best, score) \<Rightarrow>
                          case SetProjectScheduled (se_bind env) (se_now env) name (cand_name best) d2 of
                            (d3, Inl e) \<Rightarrow>
                              if is_conflict_state e
                              then (reportBlocked env name ''AssignmentRefused'' (error_text e) d3, Inr Done)
                              else (d3, Inl e)
                          | (d3, Inr _) \<Rightarrow> (d3, Inr Done))"

definition resyncPending :: "db \<Rightarrow> string list" where
  "resyncPending d = ListProjectNamesByPhase d ProjectPhasePending"

subsection \<open>Filter\<close>

definition suitable :: "go_float \<Rightarrow> db \<Rightarrow> ProjectSize \<Rightarrow> string list \<Rightarrow> ReadyNode \<Rightarrow> bool" where
  "suitable gf d sz excluded n \<longleftrightarrow> rn_Name n \<notin> set excluded \<and> underPressure n = None \<and> pc_ok (check gf d n sz)"

definition candidate_of :: "go_float \<Rightarrow> db \<Rightarrow> ProjectSize \<Rightarrow> ReadyNode \<Rightarrow> candidate" where
  "candidate_of gf d sz n = (let c = check gf d n sz in \<lparr>cd_Node = n, cd_Used = pc_used c, cd_Allocatable = pc_allocatable c\<rparr>)"

lemma filterNodes_quiet:
  "\<exists>rejected. filterNodes gf (\<lambda>_ x. x) nodes sz excluded d =
     (d, map (candidate_of gf d sz) (filter (suitable gf d sz excluded) nodes), rejected)
     \<and> length rejected = length (filter (\<lambda>n. \<not> suitable gf d sz excluded n) nodes)"
proof (induction nodes)
  case (Cons n ns)
  then obtain rej where "filterNodes gf (\<lambda>_ x. x) ns sz excluded d =
      (d, map (candidate_of gf d sz) (filter (suitable gf d sz excluded) ns), rej)"
    "length rej = length (filter (\<lambda>n. \<not> suitable gf d sz excluded n) ns)" by blast
  then show ?case
    by (cases "rn_Name n \<in> set excluded"; cases "underPressure n"; cases "pc_ok (check gf d n sz)")
      (simp_all add: suitable_def [where n = n] candidate_of_def [where n = n] Let_def)
qed simp

text \<open>What a passed check says: both quantities were read, and the wrapped sums stay within them.\<close>

lemma check_ok:
  assumes "pc_ok (check gf d n sz)"
  obtains cpu mem where "parseAllocatable gf n = (cpu, mem, '''')"
    "pc_allocatable (check gf d n sz) = \<lparr>nu_CPUMilli = cpu, nu_MemoryBytes = mem\<rparr>"
    "pc_used (check gf d n sz) = Used d (rn_Name n)"
    "wrap64 (nu_CPUMilli (Used d (rn_Name n)) + rr_CPUMilli (Requests sz)) \<le> cpu"
    "wrap64 (nu_MemoryBytes (Used d (rn_Name n)) + rr_MemoryBytes (Requests sz)) \<le> mem"
proof -
  obtain cpu mem reason where p: "parseAllocatable gf n = (cpu, mem, reason)" by (cases "parseAllocatable gf n") auto
  with assms show ?thesis using that [of cpu mem] by (auto simp: check_def Let_def split: if_splits)
qed

subsection \<open>Score\<close>

text \<open>The order the loop compares by: a higher score, then the earlier name.\<close>

definition beats :: "ProjectSize \<Rightarrow> candidate \<Rightarrow> candidate \<Rightarrow> bool" where
  "beats sz a b \<longleftrightarrow> scoreCandidate a sz > scoreCandidate b sz
     \<or> (scoreCandidate a sz = scoreCandidate b sz \<and> cand_name a < cand_name b)"

lemma beats_trans: "beats sz a b \<Longrightarrow> beats sz b c \<Longrightarrow> beats sz a c"
  by (auto simp: beats_def)

lemma beats_linear: "cand_name a \<noteq> cand_name b \<Longrightarrow> beats sz a b \<or> beats sz b a"
  by (auto simp: beats_def)

lemma beats_antisym: "beats sz a b \<Longrightarrow> \<not> beats sz b a"
  by (auto simp: beats_def)

lemma not_beats_trans: "\<not> beats sz a b \<Longrightarrow> \<not> beats sz b c \<Longrightarrow> \<not> beats sz a c"
  by (auto simp: beats_def)

lemma pick_from_best:
  "pick_from sz b (scoreCandidate b sz) cs = (x, s) \<Longrightarrow>
     x \<in> set (b # cs) \<and> s = scoreCandidate x sz \<and> (\<forall>y \<in> set (b # cs). \<not> beats sz y x)"
proof (induction cs arbitrary: b)
  case Nil
  then show ?case by (auto simp: beats_def)
next
  case (Cons c cs)
  show ?case
  proof (cases "beats sz c b")
    case True
    with Cons.prems have "pick_from sz c (scoreCandidate c sz) cs = (x, s)" by (simp add: beats_def Let_def)
    from Cons.IH [OF this] True show ?thesis by (auto dest: beats_trans)
  next
    case False
    with Cons.prems have "pick_from sz b (scoreCandidate b sz) cs = (x, s)" by (auto simp: beats_def Let_def)
    from Cons.IH [OF this] False not_beats_trans [of sz c b x] show ?thesis by auto
  qed
qed

lemma pickBest_best:
  "pickBest cs sz = Some (x, s) \<Longrightarrow> x \<in> set cs \<and> s = scoreCandidate x sz \<and> (\<forall>y \<in> set cs. \<not> beats sz y x)"
  using pick_from_best by (auto simp: pickBest_def split: list.splits)

lemma pickBest_None [simp]: "pickBest cs sz = None \<longleftrightarrow> cs = []"
  by (auto simp: pickBest_def split: list.splits)

lemma pickBest_unique:
  assumes "distinct (map cand_name cs)" "x \<in> set cs" "\<forall>y \<in> set cs. \<not> beats sz y x"
  shows "pickBest cs sz = Some (x, scoreCandidate x sz)"
proof -
  have "cs \<noteq> []" using assms(2) by auto
  then obtain b s where b: "pickBest cs sz = Some (b, s)" by (cases "pickBest cs sz") auto
  note best = pickBest_best [OF b]
  have "cand_name b = cand_name x" using beats_linear [of b x sz] best assms by blast
  then have "b = x" using assms(1,2) best by (auto simp: distinct_map dest: inj_onD)
  with b best show ?thesis by simp
qed

text \<open>Rounding errs by less than a thousandth, and the preference for a tier is far wider than that.\<close>

definition rounded64 :: "rat \<Rightarrow> rat" where
  "rounded64 x = (let u = max (exponent2 x - 52) (- 1074) in of_int (round_half_even (x / pow2 u)) * pow2 u)"

lemma rounded64_error:
  assumes "0 < x" "y = rounded64 x"
  shows "y \<le> x * (1 + 1 / 1024) + 1 / 1024" "x * (1 - 1 / 1024) - 1 / 1024 \<le> y"
proof -
  define e where "e = exponent2 x"
  define u where "u = max (e - 52) (- 1074)"
  note e = exponent2_bounds [OF assms(1), folded e_def]
  have y: "y = of_int (round_half_even (x / pow2 u)) * pow2 u"
    using assms by (simp add: rounded64_def Let_def u_def e_def)
  have p: "0 < pow2 u" by (rule pow2_pos)
  have small: "pow2 u \<le> x / 1024 + 1 / 1024"
  proof (cases "e - 52 \<ge> - 1074")
    case True
    then have "pow2 u \<le> pow2 (e + - 10)" by (intro pow2_mono) (simp add: u_def)
    also have "\<dots> = pow2 e / 1024" unfolding pow2_add by (simp add: pow2_def)
    also have "\<dots> \<le> x / 1024" using e(1) by simp
    finally show ?thesis by simp
  next
    case False
    then have "pow2 u \<le> pow2 (- 10)" by (intro pow2_mono) (simp add: u_def)
    then show ?thesis using assms(1) by (simp add: pow2_def)
  qed
  have up: "y \<le> x + pow2 u / 2"
  proof -
    have "y \<le> (x / pow2 u + 1 / 2) * pow2 u" unfolding y by (rule mult_right_mono [OF round_half_even_upper]) (use p in simp)
    also have "\<dots> = x + pow2 u / 2" using p by (simp add: field_simps)
    finally show ?thesis .
  qed
  have lo: "x - pow2 u \<le> y"
  proof -
    have "x / pow2 u - 1 \<le> of_int (floor (x / pow2 u))" by linarith
    also have "\<dots> \<le> of_int (round_half_even (x / pow2 u))" by (simp add: round_half_even_def Let_def)
    finally have "(x / pow2 u - 1) * pow2 u \<le> y" unfolding y by (rule mult_right_mono) (use p in simp)
    moreover have "(x / pow2 u - 1) * pow2 u = x - pow2 u" using p by (simp add: left_diff_distrib)
    ultimately show ?thesis by simp
  qed
  show "y \<le> x * (1 + 1 / 1024) + 1 / 1024" using up small p by (simp add: algebra_simps)
  show "x * (1 - 1 / 1024) - 1 / 1024 \<le> y" using lo small by (simp add: algebra_simps)
qed

lemma fl_error:
  assumes "0 \<le> x" "x \<le> 2 ^ 100"
  shows "fl x \<le> x * (1 + 1 / 1024) + 1 / 1024" "x * (1 - 1 / 1024) - 1 / 1024 \<le> fl x" "0 \<le> fl x"
proof -
  have "fl x \<le> x * (1 + 1 / 1024) + 1 / 1024 \<and> x * (1 - 1 / 1024) - 1 / 1024 \<le> fl x \<and> 0 \<le> fl x"
  proof (cases "x = 0")
    case True
    then show ?thesis by (simp add: fl_def fl64_def)
  next
    case False
    with assms have x: "0 < x" by simp
    define y where "y = rounded64 x"
    note err = rounded64_error [OF x y_def]
    have "exponent2 y < 1024"
    proof (cases "0 < y")
      case True
      have "x * (1 + 1 / 1024) \<le> 2 ^ 100 * (1 + 1 / 1024)" by (rule mult_right_mono [OF assms(2)]) simp
      with err(1) have "y \<le> 2 ^ 100 * (1 + 1 / 1024) + 1 / 1024" by simp
      also have "\<dots> < pow2 1024"
      proof -
        have "2 ^ 100 * (1 + 1 / 1024) + 1 / 1024 < (2 ^ 101 :: rat)" by simp
        also have "\<dots> = pow2 101" by (simp add: pow2_def)
        also have "\<dots> \<le> pow2 1024" by (rule pow2_mono) simp
        finally show ?thesis .
      qed
      finally have "pow2 (exponent2 y) < pow2 1024" using exponent2_bounds(1) [OF True] by simp
      then show ?thesis using pow2_mono [of 1024 "exponent2 y"] by (meson not_le)
    next
      case y: False
      have "0 \<le> floor (x / pow2 u)" for u using x pow2_pos [of u] by simp
      then have "0 \<le> round_half_even (x / pow2 u)" for u by (auto simp: round_half_even_def Let_def)
      then have "0 \<le> y" using pow2_pos by (simp add: y_def rounded64_def Let_def less_imp_le)
      with y have "y = 0" by simp
      then show ?thesis by (simp add: exponent2_def bit_length.simps pow2_def)
    qed
    then have some: "fl64 x = Some y" using False by (simp add: fl64_def y_def rounded64_def Let_def)
    with err fl64_nonneg [OF assms(1) some] show ?thesis by (simp add: fl_def)
  qed
  then show "fl x \<le> x * (1 + 1 / 1024) + 1 / 1024" "x * (1 - 1 / 1024) - 1 / 1024 \<le> fl x" "0 \<le> fl x" by auto
qed

lemma of_int_bound: "0 \<le> n \<Longrightarrow> n \<le> max_int64 \<Longrightarrow> rat_of_int n \<le> 2 ^ 63"
proof -
  assume "n \<le> max_int64"
  then have "n \<le> 2 ^ 63" by (simp add: max_int64_def)
  then have "rat_of_int n \<le> rat_of_int (2 ^ 63)" by (rule of_int_le_iff [THEN iffD2])
  then show ?thesis by simp
qed

lemma freePercent_bounds:
  assumes "allocatable \<le> max_int64" "0 \<le> booked"
  shows "0 \<le> freePercent allocatable booked" "freePercent allocatable booked \<le> 110"
proof -
  have "0 \<le> freePercent allocatable booked \<and> freePercent allocatable booked \<le> 110"
  proof (cases "allocatable \<le> 0 \<or> booked \<ge> allocatable")
    case True
    then show ?thesis by (simp add: freePercent_def)
  next
    case False
    then have a: "0 < allocatable" "booked < allocatable" by auto
    define x where "x = allocatable - booked"
    have x: "0 < x" "x \<le> allocatable" using a assms by (auto simp: x_def)
    have w: "wrap64 x = x" using x assms by (intro wrap64_id) (auto simp: min_int64_def)
    define A B N where "A = rat_of_int allocatable" and "B = rat_of_int x" and "N = fl (100 * fl B)"
    have AB: "1 \<le> B" "B \<le> A" "A \<le> 2 ^ 63" using x a of_int_bound [of allocatable] assms by (simp_all add: A_def B_def)
    have fB: "fl B \<le> B * (1 + 1 / 1024) + 1 / 1024" "0 \<le> fl B" using AB fl_error [of B] by simp_all
    have "fl B \<le> 2 ^ 64" using fB AB by (simp add: field_simps)
    then have hundred: "0 \<le> 100 * fl B" "100 * fl B \<le> 2 ^ 100" using fB by simp_all
    have N: "0 \<le> N" "N \<le> 100 * fl B * (1 + 1 / 1024) + 1 / 1024"
      using fl_error [OF hundred] by (simp_all add: N_def)
    have fA: "A * (1 - 1 / 1024) - 1 / 1024 \<le> fl A" using AB fl_error [of A] by simp
    have posA: "A * (1022 / 1024) \<le> fl A" using fA AB by (simp add: field_simps)
    have "0 < A * (1022 / 1024)" using AB by simp
    with posA have fA0: "0 < fl A" by (rule less_le_trans [rotated])
    have N': "N \<le> 105 * A" using N(2) fB(1) AB by (simp add: field_simps)
    have "N / fl A \<le> 105 * A / (A * (1022 / 1024))"
      using N' posA AB N(1) by (intro frac_le) auto
    also have "\<dots> \<le> 106" using AB by simp
    finally have q: "N / fl A \<le> 106" .
    have q0: "0 \<le> N / fl A" using N fA0 by simp
    have "fl (N / fl A) \<le> (N / fl A) * (1 + 1 / 1024) + 1 / 1024" "0 \<le> fl (N / fl A)"
      using q q0 fl_error [of "N / fl A"] by simp_all
    then have "fl (N / fl A) \<le> 110" "0 \<le> fl (N / fl A)" using q by simp_all
    then show ?thesis using False by (simp add: freePercent_def w x_def [symmetric] A_def B_def N_def)
  qed
  then show "0 \<le> freePercent allocatable booked" "freePercent allocatable booked \<le> 110" by auto
qed

subsection \<open>The ledger is exact\<close>

text \<open>
  \<open>booked_cpu\<close> and \<open>booked_mem\<close> are the unwrapped sums over the rows that count for a Node. They agree with
  \<open>Used\<close> as long as the table has fewer than \<open>2^30\<close> rows.
\<close>

definition counts :: "string \<Rightarrow> row \<Rightarrow> bool" where
  "counts node r \<longleftrightarrow> row_namespace r = DefaultNamespace \<and> row_phase r \<in> set (map phase_text ledgerPhases)
     \<and> ps_NodeRef (row_status r) \<noteq> '''' \<and> ps_NodeRef (row_status r) = node"

definition booked :: "(ResourceRequests \<Rightarrow> int) \<Rightarrow> db \<Rightarrow> string \<Rightarrow> int" where
  "booked f d node = sum_list (map (\<lambda>r. if counts node r then f (Requests (spec_Size (row_spec r))) else 0) (db_rows d))"

abbreviation "booked_cpu \<equiv> booked rr_CPUMilli"
abbreviation "booked_mem \<equiv> booked rr_MemoryBytes"

definition small_table :: "db \<Rightarrow> bool" where
  "small_table d \<longleftrightarrow> length (db_rows d) < 2 ^ 30"

lemma booked_snapshots:
  "booked f d node = sum_list (map (\<lambda>p. f (Requests (snap_Size p))) (list_snapshots_by_node d node ledgerPhases))"
proof -
  have "sum_list (map (\<lambda>r. if P r then g r else 0) rs) = sum_list (map g (filter P rs))" for P and g :: "row \<Rightarrow> int" and rs
    by (induction rs) auto
  then show ?thesis
    by (simp add: booked_def counts_def list_snapshots_by_node_def ListProjectsByNodeRef_def ledgerPhases_def
        snapshotOf_def scanProject_def comp_def)
qed

lemma length_snapshots: "length (list_snapshots_by_node d node phases) \<le> length (db_rows d)"
  by (simp add: list_snapshots_by_node_def ListProjectsByNodeRef_def)

lemma fold_book:
  assumes "0 \<le> c" "0 \<le> m" "c + 2000 * int (length ps) < 2 ^ 62" "m + 2 ^ 32 * int (length ps) < 2 ^ 63"
  shows "fold book ps \<lparr>nu_CPUMilli = c, nu_MemoryBytes = m\<rparr> =
    \<lparr>nu_CPUMilli = c + sum_list (map (\<lambda>p. rr_CPUMilli (Requests (snap_Size p))) ps),
     nu_MemoryBytes = m + sum_list (map (\<lambda>p. rr_MemoryBytes (Requests (snap_Size p))) ps)\<rparr>"
  using assms
proof (induction ps arbitrary: c m)
  case (Cons p ps)
  let ?c = "c + rr_CPUMilli (Requests (snap_Size p))" and ?m = "m + rr_MemoryBytes (Requests (snap_Size p))"
  note b = Requests_bounds [of "snap_Size p"]
  have n: "2000 * int (length (p # ps)) = 2000 + 2000 * int (length ps)"
    "2 ^ 32 * int (length (p # ps)) = 2 ^ 32 + 2 ^ 32 * int (length ps)" by (simp_all add: algebra_simps)
  have c: "0 \<le> ?c" "?c + 2000 * int (length ps) < 2 ^ 62" using b(1,2) Cons.prems(1,3) n by linarith+
  have m: "0 \<le> ?m" "?m + 2 ^ 32 * int (length ps) < 2 ^ 63" using b(3,4) Cons.prems(2,4) n by simp_all
  have "?c < 2 ^ 63" "?m < 2 ^ 63" using c(2) m(2) by simp_all
  then have "wrap64 ?c = ?c" "wrap64 ?m = ?m" using c(1) m(1) by (auto intro!: wrap64_id simp: max_int64_def min_int64_def)
  then show ?case using Cons.IH [OF c(1) m(1) c(2) m(2)] by (simp add: book_def Let_def add.assoc)
qed simp

lemma Used_exact:
  assumes "small_table d"
  shows "Used d node = \<lparr>nu_CPUMilli = booked_cpu d node, nu_MemoryBytes = booked_mem d node\<rparr>"
proof -
  have len: "int (length (list_snapshots_by_node d node ledgerPhases)) < 2 ^ 30"
    using length_snapshots [of d node ledgerPhases] assms by (simp add: small_table_def)
  have "0 + 2000 * int (length (list_snapshots_by_node d node ledgerPhases)) < 2 ^ 62" using len by simp
  moreover have "0 + 2 ^ 32 * int (length (list_snapshots_by_node d node ledgerPhases)) < 2 ^ 63" using len by simp
  ultimately show ?thesis unfolding Used_def booked_snapshots using fold_book [of 0 0] by simp
qed

lemma booked_bounds:
  assumes "small_table d"
  shows "0 \<le> booked_cpu d node" "booked_cpu d node \<le> 2 ^ 41" "0 \<le> booked_mem d node" "booked_mem d node \<le> 2 ^ 62"
proof -
  have "0 \<le> sum_list (map (\<lambda>r. if counts node r then f (Requests (spec_Size (row_spec r))) else 0) rs)
      \<and> sum_list (map (\<lambda>r. if counts node r then f (Requests (spec_Size (row_spec r))) else 0) rs) \<le> b * int (length rs)"
    if "\<And>s. 0 \<le> f (Requests s) \<and> f (Requests s) \<le> b" for f b rs
  proof (induction rs)
    case (Cons r rs)
    have "0 \<le> b" using that [of ProjectSizeSmall] by linarith
    with Cons that [of "spec_Size (row_spec r)"] show ?case by (auto simp: algebra_simps)
  qed simp
  note gen = this
  have len: "int (length (db_rows d)) < 2 ^ 30" using assms by (simp add: small_table_def)
  have cpu: "0 \<le> booked_cpu d node \<and> booked_cpu d node \<le> 2000 * int (length (db_rows d))"
    unfolding booked_def by (rule gen) (meson Requests_bounds(1,2) order_trans zero_le_numeral)
  have mem: "0 \<le> booked_mem d node \<and> booked_mem d node \<le> 2 ^ 32 * int (length (db_rows d))"
    unfolding booked_def by (rule gen) (meson Requests_bounds(3,4) order_trans zero_le_numeral zero_le_power)
  show "0 \<le> booked_cpu d node" "booked_cpu d node \<le> 2 ^ 41" "0 \<le> booked_mem d node" "booked_mem d node \<le> 2 ^ 62"
    using cpu mem len by simp_all
qed

subsection \<open>Candidates\<close>

text \<open>Go promises that the conversion of a float that does not fit yields some \<open>int64\<close>.\<close>

definition float_ok :: "go_float \<Rightarrow> bool" where
  "float_ok gf \<longleftrightarrow> in_int64 (gf_OutOfRange gf (2 ^ 63))"

lemma parseAllocatable_range:
  assumes "float_ok gf" "parseAllocatable gf n = (cpu, mem, '''')"
  shows "cpu \<le> max_int64" "mem \<le> max_int64"
proof -
  obtain s t where st: "ParseCPU gf s = Inr cpu" "ParseMemory t = Inr mem"
    using assms(2) by (auto simp: parseAllocatable_def Let_def split: if_splits sum.splits)
  show "cpu \<le> max_int64" using ParseCPU_range [OF st(1)] assms(1) by (auto simp: float_ok_def)
  show "mem \<le> max_int64" using st(2) by (rule ParseMemory_exact)
qed

lemma suitable_fits:
  assumes "small_table d" "suitable gf d sz excluded n"
  obtains cpu mem where "parseAllocatable gf n = (cpu, mem, '''')"
    "candidate_of gf d sz n = \<lparr>cd_Node = n, cd_Used = \<lparr>nu_CPUMilli = booked_cpu d (rn_Name n), nu_MemoryBytes = booked_mem d (rn_Name n)\<rparr>,
       cd_Allocatable = \<lparr>nu_CPUMilli = cpu, nu_MemoryBytes = mem\<rparr>\<rparr>"
    "booked_cpu d (rn_Name n) + rr_CPUMilli (Requests sz) \<le> cpu"
    "booked_mem d (rn_Name n) + rr_MemoryBytes (Requests sz) \<le> mem"
proof -
  from assms(2) have "pc_ok (check gf d n sz)" by (simp add: suitable_def)
  then obtain cpu mem where c: "parseAllocatable gf n = (cpu, mem, '''')"
    "pc_allocatable (check gf d n sz) = \<lparr>nu_CPUMilli = cpu, nu_MemoryBytes = mem\<rparr>"
    "pc_used (check gf d n sz) = Used d (rn_Name n)"
    "wrap64 (nu_CPUMilli (Used d (rn_Name n)) + rr_CPUMilli (Requests sz)) \<le> cpu"
    "wrap64 (nu_MemoryBytes (Used d (rn_Name n)) + rr_MemoryBytes (Requests sz)) \<le> mem" by (rule check_ok)
  note b = booked_bounds [OF assms(1), of "rn_Name n"] and q = Requests_bounds [of sz]
  have "wrap64 (booked_cpu d (rn_Name n) + rr_CPUMilli (Requests sz)) = booked_cpu d (rn_Name n) + rr_CPUMilli (Requests sz)"
    "wrap64 (booked_mem d (rn_Name n) + rr_MemoryBytes (Requests sz)) = booked_mem d (rn_Name n) + rr_MemoryBytes (Requests sz)"
    using b q by (auto intro!: wrap64_id simp: max_int64_def min_int64_def)
  with c show ?thesis using that [OF c(1)] by (simp add: candidate_of_def Let_def Used_exact [OF assms(1)])
qed

lemma leastAllocated_bounds:
  assumes "float_ok gf" "small_table d" "suitable gf d sz excluded n"
  shows "0 \<le> leastAllocated (candidate_of gf d sz n) sz" "leastAllocated (candidate_of gf d sz n) sz \<le> 120"
proof -
  obtain cpu mem where p: "parseAllocatable gf n = (cpu, mem, '''')" and
    c: "candidate_of gf d sz n = \<lparr>cd_Node = n, cd_Used = \<lparr>nu_CPUMilli = booked_cpu d (rn_Name n), nu_MemoryBytes = booked_mem d (rn_Name n)\<rparr>,
       cd_Allocatable = \<lparr>nu_CPUMilli = cpu, nu_MemoryBytes = mem\<rparr>\<rparr>"
    using suitable_fits [OF assms(2,3)] .
  note b = booked_bounds [OF assms(2), of "rn_Name n"] and q = Requests_bounds [of sz]
  have w: "0 \<le> wrap64 (booked_cpu d (rn_Name n) + rr_CPUMilli (Requests sz))" "0 \<le> wrap64 (booked_mem d (rn_Name n) + rr_MemoryBytes (Requests sz))"
    using b q by (subst wrap64_id; auto simp: max_int64_def min_int64_def)+
  define f where "f = freePercent cpu (wrap64 (booked_cpu d (rn_Name n) + rr_CPUMilli (Requests sz)))"
  define g where "g = freePercent mem (wrap64 (booked_mem d (rn_Name n) + rr_MemoryBytes (Requests sz)))"
  have fg: "0 \<le> f" "f \<le> 110" "0 \<le> g" "g \<le> 110"
    unfolding f_def g_def by (intro freePercent_bounds parseAllocatable_range [OF assms(1) p] w)+
  then have s: "0 \<le> fl (f + g)" "fl (f + g) \<le> (f + g) * (1 + 1 / 1024) + 1 / 1024" using fl_error [of "f + g"] by simp_all
  then have "fl (f + g) / 2 \<le> 111" using fg by (simp add: field_simps)
  then have "0 \<le> fl (fl (f + g) / 2)" "fl (fl (f + g) / 2) \<le> 120" using s(1) fl_error [of "fl (f + g) / 2"] by simp_all
  then show "0 \<le> leastAllocated (candidate_of gf d sz n) sz" "leastAllocated (candidate_of gf d sz n) sz \<le> 120"
    by (simp_all add: leastAllocated_def Let_def c f_def g_def)
qed

lemma primary_beats:
  assumes "float_ok gf" "small_table d" "suitable gf d sz excluded n" "suitable gf d sz excluded m"
    and "NodeTierFromLabels (rn_Labels n) = NodeTierPrimary" "NodeTierFromLabels (rn_Labels m) \<noteq> NodeTierPrimary"
  shows "beats sz (candidate_of gf d sz n) (candidate_of gf d sz m)"
proof -
  define s where "s = leastAllocated (candidate_of gf d sz n) sz"
  have "0 \<le> s" "s \<le> 120" using leastAllocated_bounds [OF assms(1,2,3)] by (simp_all add: s_def)
  then have "900 \<le> fl (s + TierPrimaryBonus)" using fl_error(2) [of "s + TierPrimaryBonus"] by (simp add: TierPrimaryBonus_def field_simps)
  with assms(5,6) leastAllocated_bounds(2) [OF assms(1,2,4)] show ?thesis
    by (simp add: beats_def scoreCandidate_def Let_def candidate_of_def s_def)
qed

subsection \<open>Binding\<close>

definition quiet_env :: "time \<Rightarrow> scheduler_env" where
  "quiet_env now = \<lparr>se_bind = quiet now, se_block = quiet now, se_now = now, se_placement = id, se_ledger = \<lambda>_ x. x\<rparr>"

text \<open>Scheduling a Pending row books exactly its size, on the target only.\<close>

lemma unique_named_split:
  assumes "db_wf d" "row_at d name = Some r"
  obtains xs ys where "db_rows d = xs @ r # ys" "\<forall>x \<in> set (xs @ ys). \<not> named DefaultNamespace name x" "named DefaultNamespace name r"
proof -
  note mem = row_at_mem [OF assms(2)]
  then obtain xs ys where rows: "db_rows d = xs @ r # ys" by (meson split_list)
  have "distinct (map row_key (xs @ r # ys))" using assms(1) by (simp add: db_wf_def rows)
  then have "row_key x \<noteq> row_key r" if "x \<in> set (xs @ ys)" for x using that by (auto simp: image_iff)
  then have "\<not> named DefaultNamespace name x" if "x \<in> set (xs @ ys)" for x
    using that mem by (auto simp: named_def row_key_def)
  with rows mem that show ?thesis by blast
qed

lemma booked_write_status:
  assumes "db_wf d" "row_at d name = Some r"
  shows "booked f (write_status name status now d) node = booked f d node
     - (if counts node r then f (Requests (spec_Size (row_spec r))) else 0)
     + (if counts node (commit_row status now r) then f (Requests (spec_Size (row_spec r))) else 0)"
proof -
  obtain xs ys where s: "db_rows d = xs @ r # ys" "\<forall>x \<in> set (xs @ ys). \<not> named DefaultNamespace name x" "named DefaultNamespace name r"
    using unique_named_split [OF assms] .
  have m: "map (\<lambda>r. if named DefaultNamespace name r then commit_row status now r else r) zs = zs"
    if "\<forall>x \<in> set zs. \<not> named DefaultNamespace name x" for zs
    using that by (induction zs) auto
  have "db_rows (write_status name status now d) = xs @ commit_row status now r # ys"
    using s m by (simp add: write_status_def sql_update_def publish_def)
  moreover have "row_spec (commit_row status now r) = row_spec r" by (simp add: commit_row_def set_status_def)
  ultimately show ?thesis by (simp add: booked_def s(1))
qed

lemma row_at_SetSchedulingBlocked:
  assumes "db_wf d" "row_at d name = Some r" "ps_Phase (row_status r) = ProjectPhasePending"
  shows "\<exists>r'. row_at (fst (SetSchedulingBlocked (quiet t) now name reason message d)) name = Some r'
     \<and> row_status r' = (row_status r)\<lparr>ps_Conditions := UpsertCondition (ps_Conditions (row_status r))
          (condition_lit ConditionTypeSchedulingBlocked ConditionTrue reason message now) False\<rparr>"
  using assms row_at_write_status [OF assms(2)]
  by (auto simp: SetSchedulingBlocked_def with_retry_quiet apply_closure_def on_status_def scheduling_blocked_def)

lemma wf_SetSchedulingBlocked: "db_wf d \<Longrightarrow> db_wf (fst (SetSchedulingBlocked (quiet t) now name reason message d))"
  by (auto simp: SetSchedulingBlocked_def with_retry_quiet apply_closure_ok split: option.split)

definition blocked_because :: "ProjectStatus \<Rightarrow> string \<Rightarrow> bool" where
  "blocked_because s reason = (case find_condition ConditionTypeSchedulingBlocked (ps_Conditions s) of
     None \<Rightarrow> False | Some c \<Rightarrow> cond_Status c = ConditionTrue \<and> cond_Reason c = reason)"

lemma reportBlocked_row:
  assumes "db_wf d" "row_at d name = Some r" "ps_Phase (row_status r) = ProjectPhasePending"
  obtains r' where "row_at (reportBlocked (quiet_env now) name reason message d) name = Some r'"
    "ps_Phase (row_status r') = ProjectPhasePending" "ps_NodeRef (row_status r') = ps_NodeRef (row_status r)"
    "ps_AssignmentGeneration (row_status r') = ps_AssignmentGeneration (row_status r)"
    "blocked_because (row_status r') reason"
proof -
  obtain r' where r': "row_at (reportBlocked (quiet_env now) name reason message d) name = Some r'"
    "row_status r' = (row_status r)\<lparr>ps_Conditions := UpsertCondition (ps_Conditions (row_status r))
          (condition_lit ConditionTypeSchedulingBlocked ConditionTrue reason message now) False\<rparr>"
    using row_at_SetSchedulingBlocked [OF assms, of now now reason message]
    by (auto simp: reportBlocked_def quiet_env_def)
  have "blocked_because (row_status r') reason"
    using find_Upsert_same [of "condition_lit ConditionTypeSchedulingBlocked ConditionTrue reason message now"]
    by (auto simp: blocked_because_def r'(2) condition_lit_def split: option.split)
  with r' assms(3) show ?thesis by (intro that [of r']) simp_all
qed

lemma reportBlocked_not_scheduled:
  assumes "db_wf d" "row_at d name = Some r" "ps_Phase (row_status r) = ProjectPhasePending"
    and "row_at (reportBlocked (quiet_env now) name reason message d) name = Some r'"
  shows "ps_Phase (row_status r') \<noteq> ProjectPhaseScheduled"
  by (rule reportBlocked_row [OF assms(1-3), of now reason message]) (use assms(4) in simp)

text \<open>Binding a Pending row: refused by a blocking obligation, or written.\<close>

lemma SetProjectScheduled_quiet:
  assumes "db_wf d" "row_at d name = Some r" "ps_Phase (row_status r) = ProjectPhasePending"
    and "node \<notin> set (NodesOwingCleanup (ps_Recovery (row_status r)))"
  shows "(\<exists>e. SetProjectScheduled (quiet t) now name node d = (d, Inl e) \<and> is_conflict_state e \<and> BlockingObligation (ps_Recovery (row_status r)) \<noteq> None)
    \<or> (BlockingObligation (ps_Recovery (row_status r)) = None \<and> (\<exists>s. SetProjectScheduled (quiet t) now name node d = (write_status name s t d, Inr ())
         \<and> ps_Phase s = ProjectPhaseScheduled \<and> ps_NodeRef s = node
         \<and> ps_AssignmentGeneration s = wrap64 (ps_AssignmentGeneration (row_status r) + 1)
         \<and> ps_FailedNodes s = ps_FailedNodes (row_status r)))"
proof -
  have run: "SetProjectScheduled (quiet t) now name node d = apply_closure (on_status (schedule_status name node now)) name t r d"
    using assms(1,2) by (simp add: SetProjectScheduled_def with_retry_quiet)
  show ?thesis
  proof (cases "schedule_status name node now (row_status r)")
    case (Inl e)
    with assms(3,4) have "is_conflict_state e" "BlockingObligation (ps_Recovery (row_status r)) \<noteq> None"
      by (auto simp: schedule_status_def scheduler_transition Let_def split: option.splits if_splits)
    with Inl show ?thesis by (simp add: run apply_closure_def on_status_def)
  next
    case (Inr s)
    with assms(3,4) have s: "ps_Phase s = ProjectPhaseScheduled" "ps_NodeRef s = node"
      "ps_AssignmentGeneration s = wrap64 (ps_AssignmentGeneration (row_status r) + 1)" "ps_FailedNodes s = ps_FailedNodes (row_status r)"
      "BlockingObligation (ps_Recovery (row_status r)) = None"
      by (auto simp: schedule_status_def scheduler_transition Let_def split: option.splits if_splits)
    then have "s \<noteq> row_status r" using assms(3) by auto
    with Inr s show ?thesis by (auto simp: run apply_closure_def on_status_def)
  qed
qed

abbreviation "excluded_nodes r \<equiv> ps_FailedNodes (row_status r) @ NodesOwingCleanup (ps_Recovery (row_status r))"

definition suitable_nodes :: "go_float \<Rightarrow> db \<Rightarrow> row \<Rightarrow> cluster \<Rightarrow> ReadyNode list" where
  "suitable_nodes gf d r c = filter (suitable gf d (spec_Size (row_spec r)) (excluded_nodes r)) (ListReadyNodes c)"

text \<open>One quiet pass over a Pending Project, by its four outcomes.\<close>

lemma scheduler_cases:
  assumes d: "db_wf d" "row_at d name = Some r" "ps_Phase (row_status r) = ProjectPhasePending"
    and run: "scheduler_Reconcile gf (quiet_env now) name c d = (d', res)"
  obtains (no_nodes) "ListReadyNodes c = []" "res = Inr Requeue"
      "d' = reportBlocked (quiet_env now) name ''NoReadyNodes'' ''no Node is Ready'' d"
  | (no_fit) message where "ListReadyNodes c \<noteq> []" "suitable_nodes gf d r c = []" "res = Inr Requeue"
      "d' = reportBlocked (quiet_env now) name ''NoSuitableNode'' message d"
  | (refused) message where "suitable_nodes gf d r c \<noteq> []" "res = Inr Done" "BlockingObligation (ps_Recovery (row_status r)) \<noteq> None"
      "d' = reportBlocked (quiet_env now) name ''AssignmentRefused'' message d"
  | (placed) n s where "n \<in> set (suitable_nodes gf d r c)" "res = Inr Done" "d' = write_status name s now d"
      "BlockingObligation (ps_Recovery (row_status r)) = None"
      "ps_Phase s = ProjectPhaseScheduled" "ps_NodeRef s = rn_Name n"
      "ps_AssignmentGeneration s = wrap64 (ps_AssignmentGeneration (row_status r) + 1)"
      "\<forall>m \<in> set (suitable_nodes gf d r c). \<not> beats (spec_Size (row_spec r)) (candidate_of gf d (spec_Size (row_spec r)) m)
         (candidate_of gf d (spec_Size (row_spec r)) n)"
proof -
  let ?sz = "spec_Size (row_spec r)" and ?nodes = "ListReadyNodes c"
  let ?cs = "map (candidate_of gf d ?sz) (suitable_nodes gf d r c)"
  have get: "GetProjectPhase d name = Inr (ProjectPhasePending, ps_NodeRef (row_status r))"
    "GetProjectPlacement d name = Inr \<lparr>pl_Size = ?sz, pl_ExcludedNodes = excluded_nodes r\<rparr>"
    using d(2,3) by (simp_all add: GetProjectPhase_def GetProjectPlacement_def GetProject_def)
  show ?thesis
  proof (cases "?nodes = []")
    case True
    with run that(1) show ?thesis by (simp add: scheduler_Reconcile_def get)
  next
    case nodes: False
    obtain rej where f: "filterNodes gf (\<lambda>_ x. x) ?nodes ?sz (excluded_nodes r) d = (d, ?cs, rej)"
      using filterNodes_quiet [of gf ?nodes ?sz "excluded_nodes r" d] by (auto simp: suitable_nodes_def)
    show ?thesis
    proof (cases "pickBest ?cs ?sz")
      case None
      then have "suitable_nodes gf d r c = []" by simp
      with nodes None f run that(2) show ?thesis by (auto simp: scheduler_Reconcile_def get quiet_env_def pickBest_def)
    next
      case (Some p)
      then obtain b score where b: "pickBest ?cs ?sz = Some (b, score)" by (cases p) auto
      from pickBest_best [OF b] obtain n where n: "n \<in> set (suitable_nodes gf d r c)" "b = candidate_of gf d ?sz n"
        "\<forall>y \<in> set ?cs. \<not> beats ?sz y (candidate_of gf d ?sz n)" by auto
      have name: "cand_name b = rn_Name n" by (simp add: n(2) candidate_of_def Let_def)
      have "rn_Name n \<notin> set (NodesOwingCleanup (ps_Recovery (row_status r)))"
        using n(1) by (simp add: suitable_nodes_def suitable_def)
      from SetProjectScheduled_quiet [OF d this, of now now] show ?thesis
      proof
        assume "\<exists>e. SetProjectScheduled (quiet now) now name (rn_Name n) d = (d, Inl e) \<and> is_conflict_state e \<and> BlockingObligation (ps_Recovery (row_status r)) \<noteq> None"
        then obtain e where e: "SetProjectScheduled (quiet now) now name (rn_Name n) d = (d, Inl e)" "is_conflict_state e"
          "BlockingObligation (ps_Recovery (row_status r)) \<noteq> None" by blast
        with nodes f b name run have "d' = reportBlocked (quiet_env now) name ''AssignmentRefused'' (error_text e) d" "res = Inr Done"
          by (simp_all add: scheduler_Reconcile_def get quiet_env_def)
        moreover have "suitable_nodes gf d r c \<noteq> []" using n(1) by auto
        ultimately show ?thesis using that(3) e(3) by blast
      next
        assume "BlockingObligation (ps_Recovery (row_status r)) = None \<and> (\<exists>s. SetProjectScheduled (quiet now) now name (rn_Name n) d = (write_status name s now d, Inr ())
         \<and> ps_Phase s = ProjectPhaseScheduled \<and> ps_NodeRef s = rn_Name n
         \<and> ps_AssignmentGeneration s = wrap64 (ps_AssignmentGeneration (row_status r) + 1)
         \<and> ps_FailedNodes s = ps_FailedNodes (row_status r))"
        then obtain s where s: "SetProjectScheduled (quiet now) now name (rn_Name n) d = (write_status name s now d, Inr ())"
          "ps_Phase s = ProjectPhaseScheduled" "ps_NodeRef s = rn_Name n"
          "ps_AssignmentGeneration s = wrap64 (ps_AssignmentGeneration (row_status r) + 1)" "BlockingObligation (ps_Recovery (row_status r)) = None" by blast
        with nodes f b name run have "d' = write_status name s now d" "res = Inr Done"
          by (simp_all add: scheduler_Reconcile_def get quiet_env_def)
        with s n that(4) show ?thesis by auto
      qed
    qed
  qed
qed

end
