(* ===== verification/Controllers.thy ===== *)
theory Controllers
  imports Scheduler
begin

text \<open>
  The controllers that move and finalize Projects: \<open>project_rescheduler.go\<close> (a Node went NotReady),
  \<open>failed_project_rescheduler.go\<close> (a Project Failed and is moved a bounded number of times) and
  \<open>project_termination.go\<close> (the record of a deleted Project is removed). A pass takes the clock
  readings and the schedule of each write it makes; the first gap of a schedule lies before the read,
  so it also covers what other sessions write between two Projects of one pass. Logging and the
  goroutines of \<open>Seed\<close> are left out; what a resync enqueues is here.
\<close>

subsection \<open>project\_rescheduler.go\<close>

definition terminatingTimeout :: duration where "terminatingTimeout = 10 * time_Minute"
definition runningGracePeriod :: duration where "runningGracePeriod = 3 * time_Minute"

record rescheduler =
  rs_terminatingTimeout :: duration
  rs_runningGrace :: duration
  rs_graceExpiredRelease :: bool

text \<open>The constructor: an option that is zero or negative keeps the default. The last field is the adapter's.\<close>

definition NewProjectReschedulerController :: "duration \<Rightarrow> duration \<Rightarrow> bool \<Rightarrow> rescheduler" where
  "NewProjectReschedulerController timeout grace graceExpiredRelease =
     \<lparr>rs_terminatingTimeout = (if timeout \<le> 0 then terminatingTimeout else timeout),
      rs_runningGrace = (if grace \<le> 0 then runningGracePeriod else grace),
      rs_graceExpiredRelease = graceExpiredRelease\<rparr>"

text \<open>Clock readings and schedules of the \<open>i\<close>-th Project of a pass.\<close>

record pass_env =
  pe_since :: "nat \<Rightarrow> time"
  pe_now :: "nat \<Rightarrow> time"
  pe_sched :: "nat \<Rightarrow> nat \<Rightarrow> interference"

definition quiet_pass :: "time \<Rightarrow> pass_env" where
  "quiet_pass now = \<lparr>pe_since = \<lambda>_. now, pe_now = \<lambda>_. now, pe_sched = \<lambda>_. quiet now\<rparr>"

definition hasRescheduleClock :: "ProjectSnapshot \<Rightarrow> bool" where
  "hasRescheduleClock p = list_ex (\<lambda>c. IsOutageCondition (csn_Type c)) (snap_Conditions p)"

definition incidentClock :: "ConditionSnapshot list \<Rightarrow> ConditionType \<Rightarrow> time \<Rightarrow> time \<times> bool" where
  "incidentClock conds t lastHeartbeat = (case List.find (\<lambda>c. csn_Type c = t) conds of
       None \<Rightarrow> (time_zero, False)
     | Some c \<Rightarrow> (csn_LastTransitionTime c, \<not> csn_LastTransitionTime c < lastHeartbeat))"

definition release :: "rescheduler \<Rightarrow> pass_env \<Rightarrow> nat \<Rightarrow> ProjectSnapshot \<Rightarrow> db \<Rightarrow> db \<times> unit result" where
  "release rs env i p d = (case ReleaseAssignment (pe_sched env i) (rs_graceExpiredRelease rs) (pe_now env i) p d of
       (d', Inl e) \<Rightarrow> if is_not_found e \<or> is_stale e \<or> is_conflict_state e then (d', Inr ()) else (d', Inl e)
     | (d', Inr released) \<Rightarrow> (d', Inr ()))"

text \<open>A write that ignores a Project that is gone: its second result is what the caller returns.\<close>

definition unless_gone :: "db \<times> unit result \<Rightarrow> bool \<Rightarrow> db \<times> bool result" where
  "unless_gone res requeue = (case res of
       (d', Inl e) \<Rightarrow> if is_not_found e then (d', Inr False) else (d', Inl e)
     | (d', Inr _) \<Rightarrow> (d', Inr requeue))"

definition handleTerminating ::
  "rescheduler \<Rightarrow> pass_env \<Rightarrow> nat \<Rightarrow> ProjectSnapshot \<Rightarrow> time \<Rightarrow> db \<Rightarrow> db \<times> bool result" where
  "handleTerminating rs env i p lastHeartbeat d =
     (case incidentClock (snap_Conditions p) ConditionTypeTerminatingAt lastHeartbeat of (terminatingAt, running) \<Rightarrow>
        if \<not> running then unless_gone (SetTerminatingAt (pe_sched env i) (snap_Name p) (pe_now env i) d) True
        else if time_Sub (pe_since env i) terminatingAt < rs_terminatingTimeout rs then (d, Inr True)
        else if snd (incidentClock (snap_Conditions p) ConditionTypeTerminationBlocked lastHeartbeat) then (d, Inr False)
        else unless_gone (SetTerminationBlocked (pe_sched env i) (snap_Name p) (snap_NodeRef p) (pe_now env i) d) False)"

definition handleRunning ::
  "rescheduler \<Rightarrow> pass_env \<Rightarrow> nat \<Rightarrow> ProjectSnapshot \<Rightarrow> time \<Rightarrow> db \<Rightarrow> db \<times> bool result" where
  "handleRunning rs env i p lastHeartbeat d =
     (case incidentClock (snap_Conditions p) ConditionTypeNotReadyAt lastHeartbeat of (notReadyAt, running) \<Rightarrow>
        if \<not> running then unless_gone (SetNotReadyAt (pe_sched env i) (snap_Name p) (pe_now env i) d) True
        else if time_Sub (pe_since env i) notReadyAt < rs_runningGrace rs then (d, Inr True)
        else case release rs env i p d of (d', r) \<Rightarrow> (d', map_sum id (\<lambda>_. False) r))"

definition handle_project ::
  "rescheduler \<Rightarrow> pass_env \<Rightarrow> nat \<Rightarrow> ProjectSnapshot \<Rightarrow> time \<Rightarrow> db \<Rightarrow> db \<times> bool result" where
  "handle_project rs env i p lastHeartbeat d =
     (if snap_Phase p = ProjectPhaseScheduled
      then (case release rs env i p d of (d', r) \<Rightarrow> (d', map_sum id (\<lambda>_. False) r))
      else if snap_Phase p = ProjectPhaseRunning then handleRunning rs env i p lastHeartbeat d
      else if snap_Phase p = ProjectPhaseTerminating then handleTerminating rs env i p lastHeartbeat d
      else (d, Inr False))"

text \<open>The loop over the Projects of a NotReady Node: it stops at the first error.\<close>

fun handle_projects ::
  "rescheduler \<Rightarrow> pass_env \<Rightarrow> nat \<Rightarrow> ProjectSnapshot list \<Rightarrow> time \<Rightarrow> bool \<Rightarrow> db \<Rightarrow> db \<times> Result result" where
  "handle_projects rs env i [] hb requeueNeeded d = (d, Inr \<lparr>res_Requeue = requeueNeeded\<rparr>)"
| "handle_projects rs env i (p # ps) hb requeueNeeded d =
     (case handle_project rs env i p hb d of
        (d', Inl e) \<Rightarrow> (d', Inl e)
      | (d', Inr requeue) \<Rightarrow> handle_projects rs env (Suc i) ps hb (requeueNeeded \<or> requeue) d')"

text \<open>The loop over the Projects of a healthy Node: it goes on and returns the first error.\<close>

fun clear_clocks_loop ::
  "pass_env \<Rightarrow> nat \<Rightarrow> string \<Rightarrow> time \<Rightarrow> ProjectSnapshot list \<Rightarrow> store_error option \<Rightarrow> db \<Rightarrow> db \<times> store_error option" where
  "clear_clocks_loop env i nodeName notAfter [] firstErr d = (d, firstErr)"
| "clear_clocks_loop env i nodeName notAfter (p # ps) firstErr d =
     (if \<not> hasRescheduleClock p then clear_clocks_loop env (Suc i) nodeName notAfter ps firstErr d
      else case ClearRescheduleClocks (pe_sched env i) (snap_Name p) nodeName notAfter d of
        (d', Inr _) \<Rightarrow> clear_clocks_loop env (Suc i) nodeName notAfter ps firstErr d'
      | (d', Inl e) \<Rightarrow> clear_clocks_loop env (Suc i) nodeName notAfter ps
            (if is_not_found e then firstErr else if firstErr = None then Some e else firstErr) d')"

definition clearRescheduleClocks :: "pass_env \<Rightarrow> string \<Rightarrow> time \<Rightarrow> db \<Rightarrow> db \<times> Result result" where
  "clearRescheduleClocks env nodeName notAfter d =
     (case clear_clocks_loop env 0 nodeName notAfter
             (list_snapshots_by_node d nodeName [ProjectPhaseScheduled, ProjectPhaseRunning, ProjectPhaseTerminating,
                ProjectPhaseFailed]) None d of
        (d', None) \<Rightarrow> (d', Inr Done) | (d', Some e) \<Rightarrow> (d', Inl e))"

definition rescheduler_Reconcile ::
  "rescheduler \<Rightarrow> pass_env \<Rightarrow> string \<Rightarrow> cluster \<Rightarrow> db \<Rightarrow> db \<times> Result result" where
  "rescheduler_Reconcile rs env name c d =
     (case GetNodeStatus c name of
        Inl e \<Rightarrow> if is_not_found e then (d, Inr Done) else (d, Inl e)
      | Inr snap \<Rightarrow>
          if nss_State snap \<noteq> NodeStateNotReady then clearRescheduleClocks env name (nss_LastHeartbeat snap) d
          else handle_projects rs env 0
                 (list_snapshots_by_node d name [ProjectPhaseScheduled, ProjectPhaseRunning, ProjectPhaseTerminating])
                 (nss_LastHeartbeat snap) False d)"

definition resyncNotReadyNodes :: "cluster \<Rightarrow> string list" where
  "resyncNotReadyNodes c = ListNotReadyNodeNames c"

subsection \<open>failed\_project\_rescheduler.go\<close>

definition rescheduleBackoff :: "duration list" where
  "rescheduleBackoff = [1 * time_Minute, 5 * time_Minute]"

definition maxReschedules :: nat where "maxReschedules = length rescheduleBackoff"

definition rescheduleStableAfter :: duration where "rescheduleStableAfter = 3 * time_Hour"

definition rescheduleReasons :: "string list" where
  "rescheduleReasons = [''LocalRestartExhausted'', ''ContainerRestartStuck'', ''InspectError'', ''ReconcileError'',
     ''ContainerExited'', ''ContainerCrashed'']"

definition phaseReasonRunning :: string where "phaseReasonRunning = ''ContainersRunning''"

definition phaseCondition :: "ProjectSnapshot \<Rightarrow> ConditionSnapshot option" where
  "phaseCondition p = List.find (\<lambda>c. csn_Type c = ConditionTypePhase) (snap_Conditions p)"

definition hasCondition :: "ProjectSnapshot \<Rightarrow> ConditionType \<Rightarrow> bool" where
  "hasCondition p t = list_ex (\<lambda>c. csn_Type c = t) (snap_Conditions p)"

text \<open>The schedule of the write, the clock at the age test and the adapter's.\<close>

record failed_env =
  fe_sched :: "nat \<Rightarrow> interference"
  fe_since :: time
  fe_now :: time

definition quiet_failed :: "time \<Rightarrow> failed_env" where
  "quiet_failed now = \<lparr>fe_sched = quiet now, fe_since = now, fe_now = now\<rparr>"

definition ignore_gone :: "db \<times> unit result \<Rightarrow> db \<times> Result result" where
  "ignore_gone res = (case res of
       (d', Inl e) \<Rightarrow> if is_not_found e then (d', Inr Done) else (d', Inl e)
     | (d', Inr _) \<Rightarrow> (d', Inr Done))"

definition raiseRescheduleExhaustedAlert :: "failed_env \<Rightarrow> ProjectSnapshot \<Rightarrow> string \<Rightarrow> db \<Rightarrow> db \<times> Result result" where
  "raiseRescheduleExhaustedAlert env p reason d =
     (let failed = snap_FailedNodes p @ [snap_NodeRef p];
          message = ''Failed ('' @ reason @ '') on every node it was tried on: '' @ strings_Join failed '', '' @
            ''; moved '' @ FormatInt (int maxReschedules) @ '' times, no moves left''
      in ignore_gone (SetRescheduleExhausted (fe_sched env) (fe_now env) (snap_Name p) message d))"

definition reconcileFailed :: "failed_env \<Rightarrow> ProjectSnapshot \<Rightarrow> db \<Rightarrow> db \<times> Result result" where
  "reconcileFailed env p d =
     (case phaseCondition p of
        None \<Rightarrow> (d, Inr Done)
      | Some phase \<Rightarrow>
          if csn_Reason phase \<notin> set rescheduleReasons then (d, Inr Done)
          else if snap_NodeRef p = '''' then (d, Inr Done)
          else let spent = length (snap_FailedNodes p) in
            if spent \<ge> maxReschedules
            then (if hasCondition p ConditionTypeRescheduleExhausted then (d, Inr Done)
                  else raiseRescheduleExhaustedAlert env p (csn_Reason phase) d)
            else if time_Sub (fe_since env) (csn_LastTransitionTime phase) < rescheduleBackoff ! spent then (d, Inr Requeue)
            else case MoveFailedProject (fe_sched env) (fe_now env) p
                   (''Failed on node '' @ go_quote (snap_NodeRef p) @ '' ('' @ csn_Reason phase @
                    ''); moved to a different node (move '' @ FormatInt (int (spent + 1)) @ '' of '' @
                    FormatInt (int maxReschedules) @ '')'') d of
                 (d', Inl e) \<Rightarrow> if is_not_found e \<or> is_stale e then (d', Inr Done) else (d', Inl e)
               | (d', Inr moved) \<Rightarrow> (d', Inr Done))"

definition reconcileRunning :: "failed_env \<Rightarrow> ProjectSnapshot \<Rightarrow> db \<Rightarrow> db \<times> Result result" where
  "reconcileRunning env p d =
     (if length (snap_FailedNodes p) = 0 then (d, Inr Done)
      else case phaseCondition p of
        None \<Rightarrow> (d, Inr Done)
      | Some phase \<Rightarrow>
          if csn_Reason phase \<noteq> phaseReasonRunning then (d, Inr Done)
          else if time_Sub (fe_since env) (csn_LastTransitionTime phase) < rescheduleStableAfter then (d, Inr Done)
          else ignore_gone (ClearFailedNodes (fe_sched env) (snap_Name p) d))"

definition failed_Reconcile :: "failed_env \<Rightarrow> string \<Rightarrow> db \<Rightarrow> db \<times> Result result" where
  "failed_Reconcile env name d =
     (case GetProjectSnapshot d name of
        Inl e \<Rightarrow> if is_not_found e then (d, Inr Done) else (d, Inl e)
      | Inr p \<Rightarrow>
          if snap_Phase p = ProjectPhaseFailed then reconcileFailed env p d
          else if snap_Phase p = ProjectPhaseRunning then reconcileRunning env p d
          else (d, Inr Done))"

definition failed_resync :: "db \<Rightarrow> string list" where
  "failed_resync d = concat (map (ListProjectNamesByPhase d) [ProjectPhaseFailed, ProjectPhaseRunning])"

subsection \<open>project\_termination.go\<close>

fun finalization_blocked_reason :: "store_error \<Rightarrow> string option" where
  "finalization_blocked_reason (FinalizationBlockedError n reason) = Some reason"
| "finalization_blocked_reason (WrappedError _ e) = finalization_blocked_reason e"
| "finalization_blocked_reason _ = None"

text \<open>\<open>gap\<close> is what other sessions write between the snapshot and the finalization.\<close>

definition termination_Reconcile ::
  "(db \<Rightarrow> db) \<Rightarrow> (nat \<Rightarrow> interference) \<Rightarrow> time \<Rightarrow> string \<Rightarrow> db \<Rightarrow> db \<times> Result result" where
  "termination_Reconcile gap sched now name d =
     (case GetProjectSnapshot d name of
        Inl e \<Rightarrow> if is_not_found e then (d, Inr Done) else (d, Inl e)
      | Inr p \<Rightarrow>
          if \<not> AwaitsFinalization (InitialProjectStatus\<lparr>ps_Phase := snap_Phase p, ps_NodeRef := snap_NodeRef p\<rparr>)
          then (d, Inr Done)
          else case adapter_FinalizeProject name (snap_UID p) (gap d) of
            (d', Inr _) \<Rightarrow> (d', Inr Done)
          | (d', Inl e) \<Rightarrow>
              if is_not_found e \<or> is_stale e then (d', Inr Done)
              else case finalization_blocked_reason e of
                Some reason \<Rightarrow>
                  (case SetFinalizationBlocked sched now name (snap_UID p) reason d' of
                     (d'', Inl e') \<Rightarrow> if is_not_found e' \<or> is_stale e' then (d'', Inr Done) else (d'', Inl e')
                   | (d'', Inr _) \<Rightarrow> (d'', Inr Done))
              | None \<Rightarrow> (d', Inl e))"

definition resyncTerminated :: "db \<Rightarrow> string list" where
  "resyncTerminated d = concat (map (ListProjectNamesByPhase d) [ProjectPhaseTerminated, ProjectPhaseTerminating])"

end
