(* ===== verification/Node_Properties.thy ===== *)
theory Node_Properties
  imports Node_Handlers
begin

text \<open>
  Properties of the Node half of the server: what every interleaving of Node operations keeps of the
  tables, what a heartbeat changes, and what a pass of the health controller decides.
\<close>

subsection \<open>Interleavings of Node operations\<close>

text \<open>
  \<open>nodes_evolve c c'\<close>: the server can take the Node tables from \<open>c\<close> to \<open>c'\<close>. Whatever runs between two
  statements of an operation is itself such a run, so the operations interleave freely.
\<close>

inductive nodes_evolve :: "cluster \<Rightarrow> cluster \<Rightarrow> bool" where
  ev_refl: "nodes_evolve c c"
| ev_trans: "nodes_evolve a b \<Longrightarrow> nodes_evolve b c \<Longrightarrow> nodes_evolve a c"
| ev_create: "nodes_evolve c (fst (createNode uid now caller body c))"
| ev_update: "(\<And>x. nodes_evolve x (gap x)) \<Longrightarrow> nodes_evolve c (fst (updateNode gap now name body c))"
| ev_delete: "(\<And>x. nodes_evolve x (gap x)) \<Longrightarrow> nodes_evolve c (fst (deleteNode gap name d c))"
| ev_heartbeat: "(\<And>i x. nodes_evolve x (gap i x)) \<Longrightarrow> nodes_evolve c (fst (heartbeat wired gap now now' name hb c))"
| ev_health: "(\<And>x. nodes_evolve x (gap1 x)) \<Longrightarrow> (\<And>x. nodes_evolve x (gap2 x)) \<Longrightarrow>
    nodes_evolve c (fst (node_health_Reconcile gap1 gap2 now name c))"
| ev_key: "nodes_evolve c (fst (CreatePreAuthKey key c))"

text \<open>Keys are never removed, rebound or made fresh again.\<close>

definition key_kept :: "PreAuthKey \<Rightarrow> PreAuthKey \<Rightarrow> bool" where
  "key_kept k k' \<longleftrightarrow> pk_KeyHash k' = pk_KeyHash k \<and> pk_CaraNodeName k' = pk_CaraNodeName k
     \<and> pk_Expiration k' = pk_Expiration k \<and> (pk_State k' = pk_State k \<or> pk_State k' = PreAuthKeyStateUsed)"

definition keys_kept :: "cluster \<Rightarrow> cluster \<Rightarrow> bool" where
  "keys_kept c c' \<longleftrightarrow> length (cl_keys c) \<le> length (cl_keys c')
     \<and> list_all2 key_kept (cl_keys c) (take (length (cl_keys c)) (cl_keys c'))"

lemma key_kept_refl [simp]: "key_kept k k" by (simp add: key_kept_def)

lemma key_kept_trans: "key_kept a b \<Longrightarrow> key_kept b c \<Longrightarrow> key_kept a c"
  by (auto simp: key_kept_def)

lemma keys_kept_same: "cl_keys c' = cl_keys c \<Longrightarrow> keys_kept c c'"
  by (simp add: keys_kept_def list_all2_refl)

lemma keys_kept_trans: "keys_kept a b \<Longrightarrow> keys_kept b c \<Longrightarrow> keys_kept a c"
proof -
  assume ab: "keys_kept a b" and bc: "keys_kept b c"
  let ?n = "length (cl_keys a)" and ?m = "length (cl_keys b)"
  have le: "?n \<le> ?m" "?m \<le> length (cl_keys c)" using ab bc by (auto simp: keys_kept_def)
  have "key_kept (cl_keys a ! i) (cl_keys c ! i)" if i: "i < ?n" for i
  proof -
    have "key_kept (cl_keys a ! i) (cl_keys b ! i)" using ab i le by (simp add: keys_kept_def list_all2_conv_all_nth)
    moreover have "key_kept (cl_keys b ! i) (cl_keys c ! i)" using bc i le by (simp add: keys_kept_def list_all2_conv_all_nth)
    ultimately show ?thesis by (rule key_kept_trans)
  qed
  then show ?thesis using le by (simp add: keys_kept_def list_all2_conv_all_nth)
qed

text \<open>The guarantee of every operation, and that operations compose.\<close>

definition kept :: "cluster \<Rightarrow> cluster \<Rightarrow> bool" where
  "kept c c' \<longleftrightarrow> (cluster_wf c \<longrightarrow> cluster_wf c') \<and> keys_kept c c'"

lemma kept_refl [simp]: "kept c c" by (simp add: kept_def keys_kept_same)

lemma kept_trans: "kept a b \<Longrightarrow> kept b c \<Longrightarrow> kept a c"
  by (auto simp: kept_def intro: keys_kept_trans)

lemma cl_keys_update_nodes [simp]: "cl_keys (fst (update_nodes name f c)) = cl_keys c"
  by (simp add: update_nodes_def)

lemma cl_keys_publish_node [simp]: "cl_keys (publish_node t n c) = cl_keys c"
  by (simp add: publish_node_def)

lemma kept_store:
  "kept c (fst (CreateNode uid now node c))" "kept c (fst (UpdateNodeSpec now node c))"
  "kept c (fst (UpdateNodeStatus now name status c))" "kept c (fst (DeleteNode name c))"
proof -
  show "kept c (fst (CreateNode uid now node c))" using wf_CreateNode
    by (auto simp: kept_def intro!: keys_kept_same) (simp add: CreateNode_def Let_def)
  show "kept c (fst (UpdateNodeSpec now node c))" using wf_UpdateNodeSpec
    by (auto simp: kept_def intro!: keys_kept_same) (simp add: UpdateNodeSpec_def Let_def case_prod_beta)
  show "kept c (fst (UpdateNodeStatus now name status c))" using wf_UpdateNodeStatus
    by (auto simp: kept_def intro!: keys_kept_same) (simp add: UpdateNodeStatus_def case_prod_beta split: option.split)
  show "kept c (fst (DeleteNode name c))" using wf_DeleteNode
    by (auto simp: kept_def intro!: keys_kept_same) (simp add: DeleteNode_def Let_def)
qed

lemma kept_keys:
  "kept c (fst (CreatePreAuthKey key c))" "kept c (fst (MarkPreAuthKeyUsed h ip t c))"
proof -
  have "keys_kept c (fst (CreatePreAuthKey key c))"
    by (simp add: keys_kept_def CreatePreAuthKey_def list_all2_refl)
  then show "kept c (fst (CreatePreAuthKey key c))" by (simp add: kept_def wf_keys)
  have "keys_kept c (fst (MarkPreAuthKeyUsed h ip t c))"
    by (simp add: keys_kept_def MarkPreAuthKeyUsed_def Let_def list_all2_conv_all_nth key_kept_def)
  then show "kept c (fst (MarkPreAuthKeyUsed h ip t c))" by (simp add: kept_def wf_keys)
qed

lemma kept_SetNodeState: "(\<And>x. kept x (gap x)) \<Longrightarrow> kept c (fst (SetNodeState gap now name st reason msg c))"
  using kept_trans [OF _ kept_store(3)] by (auto simp: SetNodeState_def Let_def split: sum.split)

lemma kept_validate: "(\<And>x. kept x (gap x)) \<Longrightarrow> kept c (fst (validatePreAuthKey w gap now name k ip c))"
  using kept_trans [OF _ kept_keys(2)]
  by (auto simp: validatePreAuthKey_def case_prod_beta split: sum.split)

lemma kept_heartbeat:
  assumes "\<And>i x. kept x (gap i x)"
  shows "kept c (fst (heartbeat wired gap now now' name hb c))"
proof -
  have v: "kept c (fst (validatePreAuthKey w (gap i) t n k ip (gap j c)))" for w t n k ip i j
    using kept_trans [OF assms kept_validate [OF assms]] .
  have u: "kept c (fst (UpdateNodeStatus t n s (gap l (fst (validatePreAuthKey w (gap i) t' n k ip (gap j c))))))" for w t t' n k ip s i j l
    using kept_trans [OF kept_trans [OF v assms] kept_store(3)] .
  show ?thesis
    by (auto simp: heartbeat_def Let_def case_prod_beta u v split: sum.split option.split)
qed

lemma nodes_evolve_kept: "nodes_evolve c c' \<Longrightarrow> kept c c'"
proof (induction rule: nodes_evolve.induct)
  case (ev_trans a b c)
  then show ?case by (blast intro: kept_trans)
next
  case (ev_create c uid now caller body)
  then show ?case using kept_store(1)
    by (auto simp: createNode_def Let_def case_prod_beta split: sum.split option.split)
next
  case (ev_update gap c now name body)
  then show ?case using kept_store(2) kept_trans
    by (auto simp: updateNode_def Let_def case_prod_beta split: sum.split option.split) blast+
next
  case (ev_delete gap c name d)
  then show ?case using kept_trans [OF _ kept_store(4)]
    by (auto simp: deleteNode_def Let_def case_prod_beta split: sum.split)
next
  case (ev_heartbeat gap c wired now now' name hb)
  then show ?case by (blast intro: kept_heartbeat)
next
  case (ev_health gap1 gap2 c now name)
  then show ?case using kept_trans [OF _ kept_SetNodeState]
    by (auto simp: node_health_Reconcile_def Let_def case_prod_beta split: sum.split)
next
  case (ev_key c key)
  then show ?case by (rule kept_keys)
qed simp

subsection \<open>A small cluster\<close>

definition demo_status :: "time \<Rightarrow> NodeState \<Rightarrow> NodeStatus" where
  "demo_status t st = \<lparr>ns_State = st, ns_Network = zero_network, ns_Capacity = (\<lambda>_. None),
     ns_Allocatable = map_of [(''cpu'', ''4000m''), (''memory'', ''8Gi'')],
     ns_Info = \<lparr>ni_KernelVersion = '''', ni_OSImage = '''', ni_AgentVersion = ''''\<rparr>,
     ns_LastHeartbeat = t, ns_Conditions = []\<rparr>"

definition demo_node :: "string \<Rightarrow> string \<Rightarrow> Node" where
  "demo_node name tier = \<lparr>node_TypeMeta = \<lparr>tm_APIVersion = APIVersion, tm_Kind = kindNode\<rparr>,
     node_Meta = \<lparr>meta_Name = name, meta_UID = '''', meta_Namespace = '''', meta_ResourceVersion = 0, meta_SpecRevision = 0,
       meta_Labels = map_of [(LabelNodeTier, tier)], meta_Annotations = (\<lambda>_. None),
       meta_CreatedAt = time_zero, meta_UpdatedAt = time_zero\<rparr>,
     node_Spec = \<lparr>nsp_Hostname = name, nsp_Unschedulable = False\<rparr>,
     node_Status = demo_status 100 NodeStateReady\<rparr>"

definition demo_key :: PreAuthKey where
  "demo_key = \<lparr>pk_KeyHash = ''k1'', pk_KeyPrefix = ''k'', pk_CaraNodeName = ''n1'', pk_Expiration = time_zero,
     pk_State = '''', pk_UsedByIP = '''', pk_UsedAt = time_zero, pk_IssuedBy = ''user:op''\<rparr>"

definition empty_cluster :: cluster where
  "empty_cluster = \<lparr>cl_nodes = [], cl_keys = [], cl_events = []\<rparr>"

definition demo_cluster :: cluster where
  "demo_cluster =
     fst (createNode ''w2'' 11 None (Inr (demo_node ''n2'' ''backup''))
       (fst (createNode ''w1'' 10 None (Inr (demo_node ''n1'' ''primary''))
         (fst (CreatePreAuthKey demo_key empty_cluster)))))"

definition demo_heartbeat :: heartbeatRequest where
  "demo_heartbeat = empty_heartbeat\<lparr>hb_State := NodeStateReady, hb_KeyRef := ''k1''\<rparr>"

definition demo_row :: nrow where
  "demo_row = the (node_at demo_cluster ''n1'')"

lemma node_at_demo: "node_at demo_cluster ''n1'' = Some demo_row"
proof -
  have "node_at demo_cluster ''n1'' \<noteq> None" by code_simp
  then show ?thesis by (auto simp: demo_row_def)
qed

subsection \<open>Tables\<close>

text \<open>
  C37: the Node tables stay well formed under every interleaving. Whatever sequence of registrations,
  spec updates, deletions, heartbeats, health passes and key issues runs, each possibly with others
  between its statements, Node names, Node UIDs and key hashes stay unique, the promoted phase column
  is the state of the stored status, and a pre-auth key is never dropped, bound to another Node, given
  another expiry or made fresh again once used.
\<close>

theorem node_tables_well_formed:
  "nodes_evolve c c' \<Longrightarrow> cluster_wf c \<Longrightarrow> cluster_wf c' \<and> keys_kept c c'"
  using nodes_evolve_kept by (auto simp: kept_def)

lemma demo_cluster_evolves: "nodes_evolve empty_cluster demo_cluster"
  unfolding demo_cluster_def by (intro ev_trans [OF ev_trans [OF ev_key ev_create] ev_create])

theorem node_tables_well_formed_witness: "cluster_wf demo_cluster \<and> keys_kept empty_cluster demo_cluster"
proof -
  have "cluster_wf empty_cluster" by code_simp
  with node_tables_well_formed [OF demo_cluster_evolves] show ?thesis by blast
qed

subsection \<open>Heartbeats\<close>

text \<open>
  What a heartbeat does. A heartbeat that is refused changes no Node. One that is answered 204
  sets the Node's status to the merge of the request into the stored one, stamped with the time it
  arrived, and leaves its spec, its labels and every other Node alone; if it named a known pre-auth key
  and keys are checked, that key was issued for this very Node, and it was already consumed or had not
  expired.
\<close>

theorem heartbeat_effect:
  assumes "heartbeat wired (\<lambda>_. id) now now' name (Some (Inr req)) c = (c', resp)"
  shows "case resp of
      Problem e \<Rightarrow> cl_nodes c' = cl_nodes c
    | Respond code u \<Rightarrow> code = 204 \<and> (\<exists>r r'. node_at c name = Some r \<and> node_at c' name = Some r'
        \<and> nr_status r' = merge_heartbeat now req (nr_status r) \<and> nr_spec r' = nr_spec r \<and> nr_labels r' = nr_labels r
        \<and> nr_phase r' = state_text (ns_State (nr_status r')))
      \<and> (\<forall>n. n \<noteq> name \<longrightarrow> node_at c' n = node_at c n)
      \<and> (\<forall>k. wired \<and> hb_KeyRef req \<noteq> '''' \<and> GetPreAuthKeyByHash c (hb_KeyRef req) = Inr k
           \<longrightarrow> pk_CaraNodeName k = name \<and> (pk_State k \<noteq> PreAuthKeyStateActive \<or> pk_Expiration k = time_zero \<or> now' < pk_Expiration k))"
proof (cases "node_at c name")
  case None
  with assms show ?thesis by (auto simp: heartbeat_def GetNode_def node_not_found_def)
next
  case (Some r)
  define ip where "ip = nn_OverlayIP (ns_Network (merge_heartbeat now req (nr_status r)))"
  obtain c1 v where v: "validatePreAuthKey wired id now' name (hb_KeyRef req) ip c = (c1, v)" by force
  have nodes: "cl_nodes c1 = cl_nodes c"
    using v by (auto simp: validatePreAuthKey_def MarkPreAuthKeyUsed_def Let_def split: if_splits sum.splits prod.splits)
  then have at: "node_at c1 n = node_at c n" for n by (simp add: node_at_def)
  note upd = node_at_UpdateNodeStatus [where c = c1 and now = now' and name = name and status = "merge_heartbeat now req (nr_status r)"]
  show ?thesis
  proof (cases "hb_State req \<noteq> NodeStateOther '''' \<and> \<not> NodeState_IsValid (hb_State req) \<or> v \<noteq> None")
    case True
    with assms Some v nodes show ?thesis
      by (auto simp: heartbeat_def GetNode_def scanNode_def Let_def ip_def split: if_splits option.splits)
  next
    case False
    with v have ok: "v = None" and "hb_State req = NodeStateOther '''' \<or> NodeState_IsValid (hb_State req)" by auto
    then have res: "resp = Respond 204 ()"
      "c' = fst (UpdateNodeStatus now' name (merge_heartbeat now req (nr_status r)) c1)"
      using assms Some v at
      by (auto simp: heartbeat_def GetNode_def scanNode_def Let_def ip_def UpdateNodeStatus_def case_prod_beta split: if_splits)
    have key: "pk_CaraNodeName k = name \<and> (pk_State k \<noteq> PreAuthKeyStateActive \<or> pk_Expiration k = time_zero \<or> now' < pk_Expiration k)"
      if "wired" "hb_KeyRef req \<noteq> ''''" "GetPreAuthKeyByHash c (hb_KeyRef req) = Inr k" for k
      using v that by (auto simp: validatePreAuthKey_def ok split: if_splits)
    show ?thesis using res Some upd at key by (auto simp: map_option.identity)
  qed
qed

subsection \<open>Health\<close>

text \<open>
  A pass of the health controller decides and settles. With no write in between, a pass leaves the
  Node in the state its heartbeat age demands: NotReady past the timeout, Ready again when a NotReady
  Node is heard from, Draining and anything else untouched. It never changes the heartbeat or another
  Node, its overlay status is Offline exactly when a Node that has been heard of is past the timeout,
  and a second pass at the same time writes nothing.
\<close>

theorem node_health_settles:
  assumes r: "node_at c name = Some r" and c': "node_health_Reconcile id id now name c = (c', res)"
  shows "res = Inr Done
    \<and> map_option (\<lambda>r. (ns_State (nr_status r), ns_LastHeartbeat (nr_status r))) (node_at c' name)
          = Some (health_verdict now (nr_status r), ns_LastHeartbeat (nr_status r))
    \<and> (n \<noteq> name \<longrightarrow> node_at c' n = node_at c n)
    \<and> node_health_Reconcile id id now name c' = (c', Inr Done)
    \<and> (computeOverlayStatus ip (ns_LastHeartbeat (nr_status r)) now overlayOfflineThreshold = OverlayStatusOffline
          \<longleftrightarrow> ip \<noteq> '''' \<and> ns_LastHeartbeat (nr_status r) \<noteq> time_zero \<and> NodeHeartbeatTimeout < now - ns_LastHeartbeat (nr_status r))"
proof -
  have idem: "health_verdict now s' = ns_State s'"
    if "ns_State s' = health_verdict now s" "ns_LastHeartbeat s' = ns_LastHeartbeat s" for s s' :: NodeStatus
    using that by (auto simp: health_verdict_def Let_def split: if_splits)
  have overlay: "computeOverlayStatus ip (ns_LastHeartbeat (nr_status r)) now overlayOfflineThreshold = OverlayStatusOffline
      \<longleftrightarrow> ip \<noteq> '''' \<and> ns_LastHeartbeat (nr_status r) \<noteq> time_zero \<and> NodeHeartbeatTimeout < now - ns_LastHeartbeat (nr_status r)"
    using time_Sub_timeout [of now "ns_LastHeartbeat (nr_status r)"]
    by (auto simp: computeOverlayStatus_def overlayOfflineThreshold_def not_le [symmetric])
  have main: "res = Inr Done \<and> map_option (\<lambda>r. (ns_State (nr_status r), ns_LastHeartbeat (nr_status r))) (node_at c' name)
      = Some (health_verdict now (nr_status r), ns_LastHeartbeat (nr_status r)) \<and> (n \<noteq> name \<longrightarrow> node_at c' n = node_at c n)"
    using r
  proof (cases rule: health_Reconcile_cases [where now = now])
    case kept
    with c' r show ?thesis by simp
  next
    case (written reason message)
    with c' r node_at_SetNodeState [OF r, where now = now and state = "health_verdict now (nr_status r)" and reason = reason
        and message = message] show ?thesis by auto
  qed
  from main obtain r' where r': "node_at c' name = Some r'" "ns_State (nr_status r') = health_verdict now (nr_status r)"
    "ns_LastHeartbeat (nr_status r') = ns_LastHeartbeat (nr_status r)" by auto
  have "node_health_Reconcile id id now name c' = (c', Inr Done)"
    using r'(1) by (cases rule: health_Reconcile_cases [where now = now]) (use idem [OF r'(2,3)] in auto)
  with main overlay show ?thesis by blast
qed

text \<open>
  A heartbeat that lands inside a health pass is lost. The pass reads the whole status and writes
  it back; a heartbeat that is answered 204 in between is overwritten, so the Node is stored NotReady
  with its old heartbeat time, although it was heard from a moment before.
\<close>

definition late_heartbeat :: "cluster \<Rightarrow> cluster" where
  "late_heartbeat c = fst (heartbeat True (\<lambda>_. id) (200 * time_Second) (200 * time_Second) ''n1'' (Some (Inr demo_heartbeat)) c)"

theorem health_pass_loses_heartbeat:
  "snd (heartbeat True (\<lambda>_. id) (200 * time_Second) (200 * time_Second) ''n1'' (Some (Inr demo_heartbeat)) demo_cluster) = Respond 204 ()"
  "map_option (\<lambda>r. ns_LastHeartbeat (nr_status r)) (node_at (late_heartbeat demo_cluster) ''n1'') = Some (200 * time_Second)"
  "map_option (\<lambda>r. (ns_State (nr_status r), ns_LastHeartbeat (nr_status r)))
     (node_at (fst (node_health_Reconcile id late_heartbeat (200 * time_Second) ''n1'' demo_cluster)) ''n1'')
   = Some (NodeStateNotReady, 100)"
  by code_simp+

end
