(* ===== verification/Scheduler_Properties.thy ===== *)
theory Scheduler_Properties
  imports Scheduler Node_Properties Demo_Trace "HOL-Library.Multiset"
begin

text \<open>
  Properties of the scheduler: the Node it picks is the best candidate whatever order the store lists
  them in, a placement never books a Node beyond what it offers, and every pass ends in one of four
  visible outcomes.
\<close>

definition demo_float :: go_float where
  "demo_float = \<lparr>gf_Other = (\<lambda>_. None), gf_OutOfRange = (\<lambda>_. min_int64)\<rparr>"

lemma demo_float_ok: "float_ok demo_float" by code_simp

lemma demo_created_ok: "db_wf demo_created" "small_table demo_created"
proof -
  show "db_wf demo_created" using reachable_inv [OF demo_reachable(1)] by (simp add: sys_inv_def)
  have "length (db_rows demo_created) = 1" by code_simp
  then show "small_table demo_created" by (simp add: small_table_def)
qed

definition demo_pending :: row where "demo_pending = the (row_at demo_created ''web'')"

lemma row_at_demo_created: "row_at demo_created ''web'' = Some demo_pending"
proof -
  have "row_at demo_created ''web'' \<noteq> None" by code_simp
  then show ?thesis by (auto simp: demo_pending_def)
qed

subsection \<open>The choice\<close>

text \<open>
  The Score stage picks the best candidate, and always the same one. Among candidates with distinct
  Node names the pick has the highest score, ties going to the name that sorts first, and it does not
  depend on the order in which the Nodes were listed.
\<close>

theorem pickBest_is_best:
  assumes "distinct (map cand_name cs)" "cs \<noteq> []"
  shows "\<exists>b. pickBest cs sz = Some (b, scoreCandidate b sz) \<and> b \<in> set cs
      \<and> (\<forall>y \<in> set cs. y = b \<or> scoreCandidate y sz < scoreCandidate b sz
             \<or> (scoreCandidate y sz = scoreCandidate b sz \<and> cand_name b < cand_name y))
      \<and> (\<forall>cs'. mset cs' = mset cs \<longrightarrow> pickBest cs' sz = Some (b, scoreCandidate b sz))"
proof -
  obtain b s where b: "pickBest cs sz = Some (b, s)" using assms(2) by (cases "pickBest cs sz") auto
  note best = pickBest_best [OF b]
  have name: "y = b" if "y \<in> set cs" "cand_name y = cand_name b" for y
    using that best assms(1) by (auto simp: distinct_map dest: inj_onD)
  have "y = b \<or> scoreCandidate y sz < scoreCandidate b sz
      \<or> (scoreCandidate y sz = scoreCandidate b sz \<and> cand_name b < cand_name y)" if "y \<in> set cs" for y
    using best that name [OF that] by (force simp: beats_def not_less)
  moreover have "pickBest cs' sz = Some (b, scoreCandidate b sz)" if "mset cs' = mset cs" for cs'
  proof (rule pickBest_unique)
    show "distinct (map cand_name cs')" using assms(1) that by (metis mset_map mset_eq_imp_distinct_iff)
    show "b \<in> set cs'" "\<forall>y \<in> set cs'. \<not> beats sz y b" using best mset_eq_setD [OF that] by auto
  qed
  ultimately show ?thesis using b best by blast
qed

definition demo_candidates :: "candidate list" where
  "demo_candidates = map (candidate_of demo_float demo_created ProjectSizeSmall) (ListReadyNodes demo_cluster)"

subsection \<open>The placement\<close>

text \<open>
  C21: no over-commit. When a pass with no interference turns a Pending Project Scheduled, the chosen Node
  is Ready, schedulable and under no pressure, the Project neither failed on it nor owes it cleanup, and
  afterwards the sizes of all Projects that count for that Node, this one included, stay within the CPU
  and the memory the Node reports allocatable; a backup Node is chosen only when no primary one would
  do. The booked sums are exact integers: with fewer than \<open>2^30\<close> rows the ledger does not wrap.
\<close>

theorem placement_within_capacity:
  assumes gf: "float_ok gf" and d: "db_wf d" "small_table d" and r: "row_at d name = Some r" "ps_Phase (row_status r) = ProjectPhasePending"
    and run: "scheduler_Reconcile gf (quiet_env now) name c d = (d', res)"
    and r': "row_at d' name = Some r'" "ps_Phase (row_status r') = ProjectPhaseScheduled"
  shows "\<exists>n cpu mem. n \<in> set (ListReadyNodes c) \<and> ps_NodeRef (row_status r') = rn_Name n \<and> underPressure n = None
      \<and> rn_Name n \<notin> set (ps_FailedNodes (row_status r)) \<and> rn_Name n \<notin> set (NodesOwingCleanup (ps_Recovery (row_status r)))
      \<and> parseAllocatable gf n = (cpu, mem, '''')
      \<and> booked_cpu d' (rn_Name n) \<le> cpu \<and> booked_mem d' (rn_Name n) \<le> mem
      \<and> (NodeTierFromLabels (rn_Labels n) = NodeTierPrimary
           \<or> (\<forall>m \<in> set (suitable_nodes gf d r c). NodeTierFromLabels (rn_Labels m) \<noteq> NodeTierPrimary))"
  using d(1) r run
proof (cases rule: scheduler_cases)
  case no_nodes
  with r' show ?thesis using reportBlocked_not_scheduled [OF d(1) r] by blast
next
  case no_fit
  with r' show ?thesis using reportBlocked_not_scheduled [OF d(1) r] by blast
next
  case refused
  with r' show ?thesis using reportBlocked_not_scheduled [OF d(1) r] by blast
next
  case (placed n s)
  let ?sz = "spec_Size (row_spec r)" and ?n = "rn_Name n"
  from placed(1) have n: "n \<in> set (ListReadyNodes c)" "suitable gf d ?sz (excluded_nodes r) n"
    by (simp_all add: suitable_nodes_def)
  obtain cpu mem where fit: "parseAllocatable gf n = (cpu, mem, '''')"
    "booked_cpu d ?n + rr_CPUMilli (Requests ?sz) \<le> cpu" "booked_mem d ?n + rr_MemoryBytes (Requests ?sz) \<le> mem"
    using suitable_fits [OF d(2) n(2)] .
  have "row_wf r" using d(1) row_at_mem [OF r(1)] by (simp add: db_wf_def)
  then have "\<not> counts ?n r" using r(2) by (simp add: counts_def row_wf_def ledgerPhases_def)
  then have grow: "booked f d' ?n \<le> booked f d ?n + f (Requests ?sz)" if "0 \<le> f (Requests ?sz)" for f
    using that booked_write_status [OF d(1) r(1), of f s now ?n] by (simp add: placed(3))
  have pos: "0 \<le> rr_CPUMilli (Requests ?sz)" "0 \<le> rr_MemoryBytes (Requests ?sz)" using Requests_bounds [of ?sz] by simp_all
  have "booked_cpu d' ?n \<le> cpu" "booked_mem d' ?n \<le> mem"
    using fit(2,3) grow [of rr_CPUMilli, OF pos(1)] grow [of rr_MemoryBytes, OF pos(2)] by linarith+
  moreover have "ps_NodeRef (row_status r') = ?n"
    using r'(1) row_at_write_status [OF r(1), of s now] placed(3,6) by (auto simp: commit_row_simps)
  moreover have "NodeTierFromLabels (rn_Labels n) = NodeTierPrimary
      \<or> (\<forall>m \<in> set (suitable_nodes gf d r c). NodeTierFromLabels (rn_Labels m) \<noteq> NodeTierPrimary)"
    using placed(8) primary_beats [OF gf d(2) _ n(2)] by (auto simp: suitable_nodes_def)
  ultimately show ?thesis using n fit(1) by (auto simp: suitable_def)
qed

lemma demo_pending_phase: "ps_Phase (row_status demo_pending) = ProjectPhasePending" by code_simp

definition demo_placed :: db where
  "demo_placed = fst (scheduler_Reconcile demo_float (quiet_env 200) ''web'' demo_cluster demo_created)"

lemma demo_placed_row:
  "map_option (\<lambda>r. (ps_Phase (row_status r), ps_NodeRef (row_status r))) (row_at demo_placed ''web'') = Some (ProjectPhaseScheduled, ''n1'')"
  by code_simp

theorem placement_within_capacity_witness:
  "\<exists>r'. row_at demo_placed ''web'' = Some r' \<and> ps_NodeRef (row_status r') = ''n1''
     \<and> booked_cpu demo_placed ''n1'' = 500 \<and> booked_cpu demo_placed ''n1'' \<le> 4000"
proof -
  obtain d' res where run: "scheduler_Reconcile demo_float (quiet_env 200) ''web'' demo_cluster demo_created = (d', res)" by force
  have d': "d' = demo_placed" by (simp add: demo_placed_def run)
  from demo_placed_row obtain r' where r': "row_at d' ''web'' = Some r'" "ps_Phase (row_status r') = ProjectPhaseScheduled" "ps_NodeRef (row_status r') = ''n1''"
    by (auto simp: d')
  obtain n cpu mem where n: "n \<in> set (ListReadyNodes demo_cluster)" "rn_Name n = ''n1''" "parseAllocatable demo_float n = (cpu, mem, '''')"
    "booked_cpu d' ''n1'' \<le> cpu"
    using placement_within_capacity [OF demo_float_ok demo_created_ok row_at_demo_created demo_pending_phase run r'(1,2)] r'(3) by auto
  have "list_all (\<lambda>n. fst (parseAllocatable demo_float n) = 4000) (ListReadyNodes demo_cluster)" by code_simp
  with n have "booked_cpu d' ''n1'' \<le> 4000" by (auto simp: list_all_iff)
  moreover have "booked_cpu demo_placed ''n1'' = 500" by code_simp
  ultimately show ?thesis using r' d' by auto
qed

text \<open>
  C22: a schedulable Project is scheduled, and one that is not says why. A pass with no interference over
  a Pending Project either finds no suitable Node, leaves it Pending and unassigned with
  SchedulingBlocked naming the reason and asks to be run again; or some earlier release still forbids a
  new assignment, and the Project stays Pending with AssignmentRefused; or it becomes Scheduled on a
  suitable Node under the next generation. So one suitable Node and no blocking obligation are enough.
\<close>

theorem schedulable_project_is_scheduled:
  assumes d: "db_wf d" and r: "row_at d name = Some r" "ps_Phase (row_status r) = ProjectPhasePending"
    and run: "scheduler_Reconcile gf (quiet_env now) name c d = (d', res)"
  shows "\<exists>r'. row_at d' name = Some r' \<and>
     (if suitable_nodes gf d r c = [] then res = Inr Requeue \<and> ps_Phase (row_status r') = ProjectPhasePending
        \<and> ps_AssignmentGeneration (row_status r') = ps_AssignmentGeneration (row_status r)
        \<and> blocked_because (row_status r') (if ListReadyNodes c = [] then ''NoReadyNodes'' else ''NoSuitableNode'')
      else if BlockingObligation (ps_Recovery (row_status r)) \<noteq> None then res = Inr Done \<and> ps_Phase (row_status r') = ProjectPhasePending
        \<and> ps_AssignmentGeneration (row_status r') = ps_AssignmentGeneration (row_status r)
        \<and> blocked_because (row_status r') ''AssignmentRefused''
      else res = Inr Done \<and> ps_Phase (row_status r') = ProjectPhaseScheduled
        \<and> ps_NodeRef (row_status r') \<in> rn_Name ` set (suitable_nodes gf d r c)
        \<and> ps_AssignmentGeneration (row_status r') = wrap64 (ps_AssignmentGeneration (row_status r) + 1))"
  using d r run
proof (cases rule: scheduler_cases)
  case no_nodes
  then have "suitable_nodes gf d r c = []" by (simp add: suitable_nodes_def)
  with no_nodes show ?thesis by (auto intro: reportBlocked_row [OF d r, of now "''NoReadyNodes''" "''no Node is Ready''"])
next
  case (no_fit message)
  then show ?thesis by (auto intro: reportBlocked_row [OF d r, of now "''NoSuitableNode''" message])
next
  case (refused message)
  then show ?thesis by (auto intro: reportBlocked_row [OF d r, of now "''AssignmentRefused''" message])
next
  case (placed n s)
  then show ?thesis using row_at_write_status [OF r(1), of s now] by (auto simp: commit_row_simps)
qed

theorem schedulable_project_is_scheduled_witness:
  "\<exists>r'. row_at demo_placed ''web'' = Some r' \<and> ps_Phase (row_status r') = ProjectPhaseScheduled
     \<and> ps_NodeRef (row_status r') \<in> rn_Name ` set (suitable_nodes demo_float demo_created demo_pending demo_cluster)
     \<and> ps_AssignmentGeneration (row_status r') = 1"
proof -
  obtain d' res where run: "scheduler_Reconcile demo_float (quiet_env 200) ''web'' demo_cluster demo_created = (d', res)" by force
  have d': "d' = demo_placed" by (simp add: demo_placed_def run)
  have "suitable_nodes demo_float demo_created demo_pending demo_cluster \<noteq> []"
    "BlockingObligation (ps_Recovery (row_status demo_pending)) = None"
    "wrap64 (ps_AssignmentGeneration (row_status demo_pending) + 1) = 1" by code_simp+
  with schedulable_project_is_scheduled [OF demo_created_ok(1) row_at_demo_created demo_pending_phase run] d'
  show ?thesis by auto
qed

end
