(* ===== verification/Controller_Properties.thy ===== *)
theory Controller_Properties
  imports Controllers Scheduler_Properties Concurrency
begin

text \<open>
  Properties of the controllers that move and finalize Projects. A pass of the rescheduler refines a
  pure step on rows (\<open>outage_status\<close>); what it guarantees of a grace period is then read off that step.
\<close>

subsection \<open>Quiet writes, row by row\<close>

text \<open>The status a closure leaves in the row it is run on.\<close>

definition left_by :: "'x closure \<Rightarrow> db \<Rightarrow> row \<Rightarrow> ProjectStatus" where
  "left_by mutate d r = (case mutate d (prj_Meta (scanProject r)) (row_status r) of
     Inl _ \<Rightarrow> row_status r | Inr (s, _) \<Rightarrow> s)"

text \<open>\<open>d'\<close> is \<open>d\<close> with the status of one row replaced; the row keeps its spec and its lifetime.\<close>

definition only_row :: "string \<Rightarrow> ProjectStatus \<Rightarrow> db \<Rightarrow> db \<Rightarrow> bool" where
  "only_row name s d d' \<longleftrightarrow> db_wf d'
     \<and> (\<forall>r. row_at d name = Some r \<longrightarrow> (\<exists>r'. row_at d' name = Some r' \<and> row_status r' = s \<and> row_spec r' = row_spec r
            \<and> row_uid r' = row_uid r))
     \<and> (\<forall>n. n \<noteq> name \<longrightarrow> row_at d' n = row_at d n)"

lemma only_row_apply:
  assumes "db_wf d" "row_at d name = Some r"
  shows "only_row name (left_by mutate d r) d (fst (apply_closure mutate name now r d))"
proof (cases "mutate d (prj_Meta (scanProject r)) (row_status r)")
  case (Inl e)
  then show ?thesis using assms by (simp add: only_row_def apply_closure_def left_by_def)
next
  case (Inr sx)
  then obtain s x where sx: "mutate d (prj_Meta (scanProject r)) (row_status r) = Inr (s, x)" by (cases sx) auto
  show ?thesis
  proof (cases "s = row_status r")
    case True
    with sx assms show ?thesis by (simp add: only_row_def apply_closure_def left_by_def)
  next
    case False
    have "row_spec (commit_row s now r) = row_spec r" "row_uid (commit_row s now r) = row_uid r" "row_status (commit_row s now r) = s"
      by (simp_all add: commit_row_def set_status_def marshal_status_def)
    with False sx assms show ?thesis
      using row_at_write_status [OF assms(2), of s now] row_at_write_status_other write_status_ok(2)
      by (auto simp: only_row_def apply_closure_def left_by_def)
  qed
qed

lemma only_row_same: "db_wf d \<Longrightarrow> row_at d name = Some r \<Longrightarrow> s = row_status r \<Longrightarrow> only_row name s d d"
  by (simp add: only_row_def)

lemma row_at_name: "row_at d name = Some r \<Longrightarrow> row_name r = name \<and> row_namespace r = DefaultNamespace"
  using row_at_mem [of d name r] by (simp add: named_def)

subsection \<open>The step of an outage\<close>

definition single :: "row \<Rightarrow> db" where
  "single r = \<lparr>db_rows = [r], db_audit = [], db_events = [], db_uids = []\<rparr>"

definition release_outcome :: "bool \<Rightarrow> time \<Rightarrow> row \<Rightarrow> ProjectStatus" where
  "release_outcome grace now r = left_by (release_status grace (snapshotOf (scanProject r)) now) (single r) r"

text \<open>The clock of the current outage: stamped at or after the last heartbeat.\<close>

definition outage_clock :: "ProjectStatus \<Rightarrow> ConditionType \<Rightarrow> time \<Rightarrow> time option" where
  "outage_clock s t hb = (case find_condition t (ps_Conditions s) of
     None \<Rightarrow> None | Some c \<Rightarrow> if hb \<le> cond_LastTransitionTime c then Some (cond_LastTransitionTime c) else None)"

definition outage_status :: "rescheduler \<Rightarrow> time \<Rightarrow> time \<Rightarrow> row \<Rightarrow> ProjectStatus" where
  "outage_status rs now hb r =
     (let s = row_status r; free = release_outcome (rs_graceExpiredRelease rs) now r in
      if ps_Phase s = ProjectPhaseScheduled then free
      else if ps_Phase s = ProjectPhaseRunning then
        (case outage_clock s ConditionTypeNotReadyAt hb of
           None \<Rightarrow> left_by (on_status (not_ready_at now)) (single r) r
         | Some t \<Rightarrow> if time_Sub now t < rs_runningGrace rs then s else free)
      else if ps_Phase s = ProjectPhaseTerminating then
        (case outage_clock s ConditionTypeTerminatingAt hb of
           None \<Rightarrow> left_by (on_status (terminating_at now)) (single r) r
         | Some t \<Rightarrow> if time_Sub now t < rs_terminatingTimeout rs \<or> outage_clock s ConditionTypeTerminationBlocked hb \<noteq> None then s
                    else left_by (on_status (termination_blocked (ps_NodeRef s) now)) (single r) r)
      else s)"

lemma snapshot_simps [simp]:
  "snap_Name (snapshotOf (scanProject r)) = row_name r" "snap_UID (snapshotOf (scanProject r)) = row_uid r"
  "snap_Phase (snapshotOf (scanProject r)) = ps_Phase (row_status r)"
  "snap_NodeRef (snapshotOf (scanProject r)) = ps_NodeRef (row_status r)"
  "snap_FailedNodes (snapshotOf (scanProject r)) = ps_FailedNodes (row_status r)"
  "snap_AssignmentGeneration (snapshotOf (scanProject r)) = ps_AssignmentGeneration (row_status r)"
  "snap_Conditions (snapshotOf (scanProject r)) = map condition_snapshot (ps_Conditions (row_status r))"
  by (simp_all add: snapshotOf_def scanProject_def)

lemma find_condition_snapshot:
  "List.find (\<lambda>c. csn_Type c = t) (map condition_snapshot cs) = map_option condition_snapshot (find_condition t cs)"
  by (induction cs) (auto simp: condition_snapshot_def find_condition_def)

lemma incidentClock_outage:
  "incidentClock (map condition_snapshot (ps_Conditions s)) t hb = (case outage_clock s t hb of
     Some u \<Rightarrow> (u, True)
   | None \<Rightarrow> (case find_condition t (ps_Conditions s) of None \<Rightarrow> time_zero | Some c \<Rightarrow> cond_LastTransitionTime c, False))"
  by (auto simp: incidentClock_def outage_clock_def find_condition_snapshot condition_snapshot_def split: option.splits)

lemma on_status_left_by: "left_by (on_status f) d r = left_by (on_status f) d' r"
  by (simp add: left_by_def on_status_def)

lemma release_left_by:
  assumes "row_at d (row_name r) = Some r"
  shows "left_by (release_status grace (snapshotOf (scanProject r)) now) d r = release_outcome grace now r"
proof -
  have "row_at (single r) (row_name r) = Some r"
    using row_at_name [OF assms] by (simp add: row_at_def single_def named_def)
  then have eq: "GetProject d (snap_Name (snapshotOf (scanProject r))) = GetProject (single r) (snap_Name (snapshotOf (scanProject r)))"
    using assms by (simp add: GetProject_def)
  show ?thesis by (simp only: release_outcome_def left_by_def release_status_def eq)
qed

text \<open>Every write of a quiet pass succeeds or is skipped, and leaves the row as the step says.\<close>

definition quiet_write :: "row \<Rightarrow> ProjectStatus \<Rightarrow> db \<Rightarrow> db \<times> 'a result \<Rightarrow> bool" where
  "quiet_write r s d res \<longleftrightarrow> only_row (row_name r) s d (fst res) \<and> (\<exists>q. snd res = Inr q)"

lemma quiet_with_retry:
  assumes "db_wf d" "row_at d (row_name r) = Some r" and total: "\<And>s. \<exists>s'. f s = Inr s'"
  shows "quiet_write r (left_by (on_status f) (single r) r) d
     (UpdateProjectStatusWithRetry (quiet now) (row_name r) (on_status f) d)"
proof -
  have run: "UpdateProjectStatusWithRetry (quiet now) (row_name r) (on_status f) d
      = apply_closure (on_status f) (row_name r) now r d"
    using assms(1,2) by (simp add: with_retry_quiet)
  obtain s' where s': "f (row_status r) = Inr s'" using total by blast
  have "\<exists>q. snd (apply_closure (on_status f) (row_name r) now r d) = Inr q"
    by (simp add: apply_closure_def on_status_def s')
  then show ?thesis
    using only_row_apply [OF assms(1,2), of "on_status f" now] on_status_left_by [of f d r "single r"]
    by (simp add: quiet_write_def run)
qed

lemma quiet_release:
  assumes "db_wf d" "row_at d (row_name r) = Some r"
  shows "quiet_write r (release_outcome (rs_graceExpiredRelease rs) now r) d
     (release rs (quiet_pass now) i (snapshotOf (scanProject r)) d)"
proof -
  let ?m = "release_status (rs_graceExpiredRelease rs) (snapshotOf (scanProject r)) now"
  have run: "ReleaseAssignment (quiet now) (rs_graceExpiredRelease rs) now (snapshotOf (scanProject r)) d
      = apply_closure ?m (row_name r) now r d"
    using assms by (simp add: ReleaseAssignment_def UpdateProjectStatusForUID_def for_uid_quiet)
  have only: "only_row (row_name r) (release_outcome (rs_graceExpiredRelease rs) now r) d (fst (apply_closure ?m (row_name r) now r d))"
    using only_row_apply [OF assms, of ?m now] by (simp add: release_left_by [OF assms(2)])
  have err: "is_not_found e \<or> is_stale e \<or> is_conflict_state e" if "snd (apply_closure ?m (row_name r) now r d) = Inl e" for e
    using that assms(2)
    by (auto simp: apply_closure_def release_status_def Let_def GetProject_def split: sum.splits if_splits prod.splits)
  show ?thesis
    using only err unfolding quiet_write_def release_def
    by (simp add: quiet_pass_def run case_prod_beta split: sum.split)
qed

lemma quiet_handle:
  assumes "db_wf d" "row_at d (row_name r) = Some r"
  shows "quiet_write r (outage_status rs now hb r) d (handle_project rs (quiet_pass now) i (snapshotOf (scanProject r)) hb d)"
proof -
  have same: "quiet_write r (row_status r) d (d, Inr q)" for q :: bool
    using assms by (simp add: quiet_write_def only_row_same)
  have map_snd: "quiet_write r s d (fst res, map_sum id g (snd res))" if "quiet_write r s d res"
    for s and res :: "db \<times> unit result" and g :: "unit \<Rightarrow> bool"
    using that by (auto simp: quiet_write_def)
  have gone: "quiet_write r s d (unless_gone res q)" if "quiet_write r s d res" for s res q
    using that by (cases res) (auto simp: quiet_write_def unless_gone_def)
  have mark: "quiet_write r (left_by (on_status f) (single r) r) d
      (unless_gone (UpdateProjectStatusWithRetry (quiet now) (row_name r) (on_status f) d) q)"
    if "\<And>s. \<exists>s'. f s = Inr s'" for f q by (rule gone [OF quiet_with_retry [OF assms that]])
  note free = map_snd [OF quiet_release [OF assms, of rs now i]]
  note marks = mark [of "not_ready_at now"] mark [of "terminating_at now"] mark [of "termination_blocked (ps_NodeRef (row_status r)) now"]
  have total: "\<exists>s'. not_ready_at now s = Inr s'" "\<exists>s'. terminating_at now s = Inr s'" "\<exists>s'. termination_blocked n now s = Inr s'" for s n
    by (simp_all add: not_ready_at_def terminating_at_def termination_blocked_def)
  have sched: "pe_sched (quiet_pass now) i = quiet now" "pe_now (quiet_pass now) i = now" "pe_since (quiet_pass now) i = now"
    by (simp_all add: quiet_pass_def)
  consider "ps_Phase (row_status r) = ProjectPhaseScheduled" | "ps_Phase (row_status r) = ProjectPhaseRunning"
    | "ps_Phase (row_status r) = ProjectPhaseTerminating"
    | "ps_Phase (row_status r) \<notin> {ProjectPhaseScheduled, ProjectPhaseRunning, ProjectPhaseTerminating}" by blast
  then show ?thesis
  proof cases
    case 1
    then show ?thesis using free by (simp add: handle_project_def outage_status_def case_prod_beta)
  next
    case 2
    then show ?thesis using free same marks(1) total(1)
      by (auto simp: handle_project_def handleRunning_def outage_status_def Let_def case_prod_beta incidentClock_outage sched
          SetNotReadyAt_def split: option.split)
  next
    case 3
    then show ?thesis using same marks(2,3) total(2,3)
      by (auto simp: handle_project_def handleTerminating_def outage_status_def Let_def case_prod_beta incidentClock_outage sched
          SetTerminatingAt_def SetTerminationBlocked_def split: option.split)
  next
    case 4
    then show ?thesis using same by (simp add: handle_project_def outage_status_def Let_def)
  qed
qed

text \<open>The loop: Projects have distinct names, so each is handled on the row it was listed with.\<close>

lemma quiet_handle_projects:
  assumes "db_wf d" "distinct (map row_name rs)" "\<forall>r \<in> set rs. row_at d (row_name r) = Some r"
  shows "(\<exists>q. snd (handle_projects rsch (quiet_pass now) i (map (snapshotOf \<circ> scanProject) rs) hb b d) = Inr q)
    \<and> db_wf (fst (handle_projects rsch (quiet_pass now) i (map (snapshotOf \<circ> scanProject) rs) hb b d))
    \<and> (\<forall>r \<in> set rs. \<exists>r'. row_at (fst (handle_projects rsch (quiet_pass now) i (map (snapshotOf \<circ> scanProject) rs) hb b d)) (row_name r) = Some r'
         \<and> row_status r' = outage_status rsch now hb r \<and> row_spec r' = row_spec r \<and> row_uid r' = row_uid r)
    \<and> (\<forall>n. n \<notin> row_name ` set rs \<longrightarrow>
         row_at (fst (handle_projects rsch (quiet_pass now) i (map (snapshotOf \<circ> scanProject) rs) hb b d)) n = row_at d n)"
  using assms
proof (induction rs arbitrary: i b d)
  case (Cons r rs)
  have r: "row_at d (row_name r) = Some r" using Cons.prems by simp
  obtain d1 q where h: "handle_project rsch (quiet_pass now) i (snapshotOf (scanProject r)) hb d = (d1, Inr q)"
    and only: "only_row (row_name r) (outage_status rsch now hb r) d d1"
    using quiet_handle [OF Cons.prems(1) r, of rsch now hb i] unfolding quiet_write_def by (metis prod.collapse)
  have d1: "db_wf d1" "\<forall>r' \<in> set rs. row_at d1 (row_name r') = Some r'"
    using only Cons.prems by (auto simp: only_row_def) (metis imageI)+
  have step: "handle_projects rsch (quiet_pass now) i (map (snapshotOf \<circ> scanProject) (r # rs)) hb b d
      = handle_projects rsch (quiet_pass now) (Suc i) (map (snapshotOf \<circ> scanProject) rs) hb (b \<or> q) d1"
    by (simp add: h)
  note ih = Cons.IH [OF d1(1) _ d1(2), of "Suc i" "b \<or> q"]
  obtain r1 where r1: "row_at d1 (row_name r) = Some r1" "row_status r1 = outage_status rsch now hb r" "row_spec r1 = row_spec r"
    "row_uid r1 = row_uid r" using only r by (auto simp: only_row_def)
  have other: "row_at d1 n = row_at d n" if "n \<noteq> row_name r" for n using only that by (simp add: only_row_def)
  have fresh: "row_name r \<notin> row_name ` set rs" "distinct (map row_name rs)" using Cons.prems(2) by auto
  define D where "D = handle_projects rsch (quiet_pass now) (Suc i) (map (snapshotOf \<circ> scanProject) rs) hb (b \<or> q) d1"
  show ?case unfolding step D_def [symmetric] using ih [OF fresh(2), folded D_def] r1 other fresh(1) by auto
qed simp

abbreviation "outage_phases \<equiv> [ProjectPhaseScheduled, ProjectPhaseRunning, ProjectPhaseTerminating]"

definition on_node :: "string \<Rightarrow> row \<Rightarrow> bool" where
  "on_node node r \<longleftrightarrow> phase_text (ps_Phase (row_status r)) \<in> set (map phase_text outage_phases) \<and> ps_NodeRef (row_status r) \<noteq> '''' \<and> ps_NodeRef (row_status r) = node"

text \<open>The listing of a well-formed table is the rows of that Node, each under its own name.\<close>

lemma listed_rows:
  assumes "db_wf d"
  obtains rs where "list_snapshots_by_node d node outage_phases = map (snapshotOf \<circ> scanProject) rs"
    "distinct (map row_name rs)" "\<forall>r \<in> set rs. row_at d (row_name r) = Some r"
    "\<And>name r. row_at d name = Some r \<Longrightarrow> r \<in> set rs \<longleftrightarrow> on_node node r"
proof -
  define P where "P = (\<lambda>r :: row. row_namespace r = DefaultNamespace \<and> row_phase r \<in> set (map phase_text outage_phases)
      \<and> ps_NodeRef (row_status r) \<noteq> '''' \<and> ps_NodeRef (row_status r) = node)"
  define rs where "rs = filter P (db_rows d)"
  have mem: "row_at d (row_name r) = Some r" if "r \<in> set rs" for r
    using that row_at_of_mem [OF assms, of r "row_name r"] by (auto simp: rs_def P_def named_def)
  have keys: "distinct (map row_key rs)" using assms by (simp add: rs_def db_wf_def distinct_map_filter)
  have "inj_on row_name (set rs)"
  proof (rule inj_onI)
    fix x y assume "x \<in> set rs" "y \<in> set rs" "row_name x = row_name y"
    then show "x = y" using mem [of x] mem [of y] by (metis option.inject)
  qed
  then have dist: "distinct (map row_name rs)" using keys by (simp add: distinct_map)
  have on: "r \<in> set rs \<longleftrightarrow> on_node node r" if r: "row_at d name = Some r" for name r
  proof -
    have "row_wf r" "r \<in> set (db_rows d)" "row_namespace r = DefaultNamespace"
      using assms row_at_mem [OF r] by (auto simp: db_wf_def named_def)
    then show ?thesis by (auto simp: rs_def P_def on_node_def row_wf_def)
  qed
  have "list_snapshots_by_node d node outage_phases = map (snapshotOf \<circ> scanProject) rs"
    by (simp add: list_snapshots_by_node_def ListProjectsByNodeRef_def rs_def P_def)
  with dist mem on that show ?thesis by blast
qed

lemma outage_pass:
  assumes "db_wf d" "GetNodeStatus c node = Inr snap" "nss_State snap = NodeStateNotReady"
    and run: "rescheduler_Reconcile rs (quiet_pass now) node c d = (d', res)"
  shows "db_wf d'" "\<exists>q. res = Inr q"
    and "row_at d name = Some r \<Longrightarrow> on_node node r \<Longrightarrow> \<exists>r'. row_at d' name = Some r' \<and> row_status r' = outage_status rs now (nss_LastHeartbeat snap) r
        \<and> row_spec r' = row_spec r \<and> row_uid r' = row_uid r"
    and "(case row_at d name of None \<Rightarrow> True | Some r \<Rightarrow> \<not> on_node node r) \<Longrightarrow> row_at d' name = row_at d name"
proof -
  obtain rows where rows: "list_snapshots_by_node d node outage_phases = map (snapshotOf \<circ> scanProject) rows"
    "distinct (map row_name rows)" "\<forall>r \<in> set rows. row_at d (row_name r) = Some r"
    "\<And>name r. row_at d name = Some r \<Longrightarrow> r \<in> set rows \<longleftrightarrow> on_node node r"
    using listed_rows [OF assms(1), of node] by blast
  have eq: "handle_projects rs (quiet_pass now) 0 (map (snapshotOf \<circ> scanProject) rows) (nss_LastHeartbeat snap) False d = (d', res)"
    using run assms(2,3) by (simp add: rescheduler_Reconcile_def rows(1))
  note h = quiet_handle_projects [OF assms(1) rows(2,3), of rs now 0 "nss_LastHeartbeat snap" False, unfolded eq, simplified]
  show "db_wf d'" "\<exists>q. res = Inr q" using h by blast+
  show "\<exists>r'. row_at d' name = Some r' \<and> row_status r' = outage_status rs now (nss_LastHeartbeat snap) r
        \<and> row_spec r' = row_spec r \<and> row_uid r' = row_uid r" if "row_at d name = Some r" "on_node node r"
    using h rows(4) [OF that(1)] that row_at_name [OF that(1)] by auto
  show "row_at d' name = row_at d name" if "case row_at d name of None \<Rightarrow> True | Some r \<Rightarrow> \<not> on_node node r"
  proof -
    have "name \<notin> row_name ` set rows"
    proof
      assume "name \<in> row_name ` set rows"
      then obtain r where "r \<in> set rows" "row_name r = name" by blast
      with rows(3) have "row_at d name = Some r" by auto
      with rows(4) [OF this] \<open>r \<in> set rows\<close> that show False by simp
    qed
    then show ?thesis using h by blast
  qed
qed

subsection \<open>What the step guarantees\<close>

text \<open>The authority for a release: the Agent confirmed the stop, or grace releases are on and no data is at risk.\<close>

definition may_release :: "bool \<Rightarrow> row \<Rightarrow> bool" where
  "may_release grace r \<longleftrightarrow>
     WorkloadStoppedFor (ps_Recovery (row_status r)) (snapshot_assignment (snapshotOf (scanProject r)))
     \<or> (grace \<and> (\<not> HasManagedVolume (row_spec r) \<or> CommittedBackupID (ps_Recovery (row_status r)) \<noteq> ''''
           \<or> LastCompletion (ps_Backup (row_status r)) \<noteq> None))"

lemma release_outcome_simps:
  assumes "ps_Phase (row_status r) \<in> {ProjectPhaseScheduled, ProjectPhaseRunning}" "row_namespace r = DefaultNamespace"
  shows "ps_Phase (release_outcome grace now r) = (if may_release grace r then ProjectPhasePending else ps_Phase (row_status r))"
    and "ps_NodeRef (release_outcome grace now r) = (if may_release grace r then '''' else ps_NodeRef (row_status r))"
    and "ps_AssignmentGeneration (release_outcome grace now r) = ps_AssignmentGeneration (row_status r)"
    and "\<not> may_release grace r \<Longrightarrow> ps_Recovery (release_outcome grace now r) = ps_Recovery (row_status r)"
    and "may_release grace r \<Longrightarrow> FindObligation (ps_Recovery (release_outcome grace now r)) (snapshot_assignment (snapshotOf (scanProject r))) \<noteq> None"
proof -
  let ?p = "snapshotOf (scanProject r)" and ?s = "row_status r"
  have get: "row_at (single r) (row_name r) = Some r"
    using assms(2) by (simp add: row_at_def single_def named_def)
  have ok: "PhaseTransitionAllowed WriterRescheduler (ps_Phase ?s) ProjectPhasePending"
    using assms(1) by (auto simp: rescheduler_transition)
  let ?stopped = "WorkloadStoppedFor (ps_Recovery ?s) (snapshot_assignment ?p)"
  let ?free = "\<lambda>auth reason. (?s\<lparr>ps_Phase := ProjectPhasePending, ps_NodeRef := '''',
              ps_Recovery := Some (released_recovery ?s (snapshot_assignment ?p) now auth (HasManagedVolume (row_spec r))),
              ps_Conditions := UpsertCondition (RemoveConditions (ps_Conditions ?s) outage_types)
                (condition_lit ConditionTypePhase ConditionTrue ''NodeNotReady'' reason now) (ps_Phase ?s \<noteq> ProjectPhasePending)\<rparr>, True)"
  have yes: "\<exists>auth reason. release_status grace ?p now (single r) (prj_Meta (scanProject r)) ?s = Inr (?free auth reason)"
    if "may_release grace r"
  proof (cases ?stopped)
    case True
    with get ok show ?thesis unfolding release_status_def Let_def by (simp add: GetProject_def) blast
  next
    case False
    with that have "grace" "\<not> HasManagedVolume (row_spec r) \<or> CommittedBackupID (ps_Recovery ?s) \<noteq> '''' \<or> LastCompletion (ps_Backup ?s) \<noteq> None"
      by (simp_all add: may_release_def)
    with False get ok show ?thesis unfolding release_status_def Let_def by (simp add: GetProject_def) blast
  qed
  have no: "\<exists>msg. release_status grace ?p now (single r) (prj_Meta (scanProject r)) ?s = Inr (takeover_required msg now ?s, False)"
    if "\<not> may_release grace r"
  proof -
    from that have "\<not> ?stopped" "grace \<Longrightarrow> HasManagedVolume (row_spec r) \<and> CommittedBackupID (ps_Recovery ?s) = '''' \<and> LastCompletion (ps_Backup ?s) = None"
      by (auto simp: may_release_def)
    with get ok show ?thesis unfolding release_status_def Let_def by (cases grace; simp add: GetProject_def) blast+
  qed
  show "ps_Phase (release_outcome grace now r) = (if may_release grace r then ProjectPhasePending else ps_Phase ?s)"
    "ps_NodeRef (release_outcome grace now r) = (if may_release grace r then '''' else ps_NodeRef ?s)"
    "ps_AssignmentGeneration (release_outcome grace now r) = ps_AssignmentGeneration ?s"
    "\<not> may_release grace r \<Longrightarrow> ps_Recovery (release_outcome grace now r) = ps_Recovery ?s"
    "may_release grace r \<Longrightarrow> FindObligation (ps_Recovery (release_outcome grace now r)) (snapshot_assignment ?p) \<noteq> None"
    using find_released_recovery [of ?s "snapshot_assignment ?p" now _ "HasManagedVolume (row_spec r)"] yes no
    by (cases "may_release grace r"; force simp: release_outcome_def left_by_def takeover_required_def)+
qed

lemma outage_status_Terminating:
  "ps_Phase (row_status r) = ProjectPhaseTerminating \<Longrightarrow> ps_Phase (outage_status rs now hb r) = ProjectPhaseTerminating
     \<and> ps_NodeRef (outage_status rs now hb r) = ps_NodeRef (row_status r)
     \<and> ps_AssignmentGeneration (outage_status rs now hb r) = ps_AssignmentGeneration (row_status r)
     \<and> ps_Recovery (outage_status rs now hb r) = ps_Recovery (row_status r)"
  by (auto simp: outage_status_def Let_def left_by_def on_status_def terminating_at_def termination_blocked_def split: option.split)

subsection \<open>Outages\<close>

text \<open>
  C23: an outage moves nothing before its grace period, and finalizes nothing. Over one pass with no
  interference for a NotReady Node, a Running Project on it leaves Running only for Pending, only when
  its NotReadyAt clock belongs to this outage (it is not older than the Node's last heartbeat) and has run
  for the grace period, and only with authority: the stop is confirmed, or grace releases are enabled
  and no unsaved data is at stake; the release records its obligation. A Terminating Project stays
  Terminating on its assignment, whatever the timeout says. Projects elsewhere are not touched.
\<close>

theorem outage_pass_respects_grace:
  assumes wf: "db_wf d" and node: "GetNodeStatus c node = Inr snap" "nss_State snap = NodeStateNotReady"
    and grace: "0 < rs_runningGrace rs" "rs_runningGrace rs \<le> max_int64"
    and run: "rescheduler_Reconcile rs (quiet_pass now) node c d = (d', res)"
    and r: "row_at d name = Some r"
  shows "\<exists>r'. row_at d' name = Some r' \<and> row_uid r' = row_uid r \<and>
     (if \<not> on_node node r then r' = r
      else if ps_Phase (row_status r) = ProjectPhaseTerminating
      then ps_Phase (row_status r') = ProjectPhaseTerminating \<and> ps_NodeRef (row_status r') = node
         \<and> ps_AssignmentGeneration (row_status r') = ps_AssignmentGeneration (row_status r)
         \<and> ps_Recovery (row_status r') = ps_Recovery (row_status r)
      else ps_Phase (row_status r) = ProjectPhaseRunning \<longrightarrow>
         ps_Phase (row_status r') = ProjectPhaseRunning \<and> ps_NodeRef (row_status r') = node
         \<or> (ps_Phase (row_status r') = ProjectPhasePending \<and> may_release (rs_graceExpiredRelease rs) r
            \<and> FindObligation (ps_Recovery (row_status r')) (snapshot_assignment (snapshotOf (scanProject r))) \<noteq> None
            \<and> (\<exists>t. outage_clock (row_status r) ConditionTypeNotReadyAt (nss_LastHeartbeat snap) = Some t
                  \<and> nss_LastHeartbeat snap \<le> t \<and> rs_runningGrace rs \<le> now - t)))"
proof (cases "on_node node r")
  case False
  with outage_pass(4) [OF wf node run, of name] r show ?thesis by simp
next
  case True
  obtain r' where r': "row_at d' name = Some r'" "row_status r' = outage_status rs now (nss_LastHeartbeat snap) r" "row_uid r' = row_uid r"
    using outage_pass(3) [OF wf node run r True] by blast
  have ns: "row_namespace r = DefaultNamespace" using row_at_name [OF r] by simp
  have on: "ps_NodeRef (row_status r) = node" using True by (simp add: on_node_def)
  have running: "ps_Phase (row_status r') = ProjectPhaseRunning \<and> ps_NodeRef (row_status r') = node
         \<or> (ps_Phase (row_status r') = ProjectPhasePending \<and> may_release (rs_graceExpiredRelease rs) r
            \<and> FindObligation (ps_Recovery (row_status r')) (snapshot_assignment (snapshotOf (scanProject r))) \<noteq> None
            \<and> (\<exists>t. outage_clock (row_status r) ConditionTypeNotReadyAt (nss_LastHeartbeat snap) = Some t
                  \<and> nss_LastHeartbeat snap \<le> t \<and> rs_runningGrace rs \<le> now - t))"
    if ph: "ps_Phase (row_status r) = ProjectPhaseRunning"
  proof (cases "outage_clock (row_status r) ConditionTypeNotReadyAt (nss_LastHeartbeat snap)")
    case None
    then show ?thesis using ph on
      by (simp add: r'(2) outage_status_def Let_def left_by_def on_status_def not_ready_at_def)
  next
    case (Some t)
    have t: "nss_LastHeartbeat snap \<le> t" using Some by (auto simp: outage_clock_def split: option.splits if_splits)
    show ?thesis
    proof (cases "time_Sub now t < rs_runningGrace rs")
      case True
      then show ?thesis using ph on Some by (simp add: r'(2) outage_status_def)
    next
      case False
      then have "rs_runningGrace rs \<le> now - t" using grace by (simp add: time_Sub_less_iff min_int64_def)
      moreover have "row_status r' = release_outcome (rs_graceExpiredRelease rs) now r"
        using False ph Some by (simp add: r'(2) outage_status_def)
      ultimately show ?thesis
        using release_outcome_simps [of r "rs_graceExpiredRelease rs" now] ph ns on Some t by auto
    qed
  qed
  show ?thesis using r' True on running outage_status_Terminating [of r rs now "nss_LastHeartbeat snap"] by auto
qed

definition demo_down :: cluster where
  "demo_down = fst (node_health_Reconcile id id (200 * time_Second) ''n1'' demo_cluster)"

definition demo_rescheduler :: rescheduler where
  "demo_rescheduler = NewProjectReschedulerController 0 0 True"

definition demo_live :: row where "demo_live = the (row_at demo_running ''web'')"

lemma demo_outage:
  "GetNodeStatus demo_down ''n1'' = Inr \<lparr>nss_LastHeartbeat = 100, nss_State = NodeStateNotReady\<rparr>"
  "row_at demo_running ''web'' \<noteq> None" "on_node ''n1'' demo_live"
  "ps_Phase (row_status demo_live) = ProjectPhaseRunning" "may_release True demo_live"
  "outage_clock (row_status demo_live) ConditionTypeNotReadyAt 100 = None"
  by code_simp+

lemma row_at_demo_running: "row_at demo_running ''web'' = Some demo_live"
  using demo_outage(2) by (auto simp: demo_live_def)

lemma demo_grace: "0 < rs_runningGrace demo_rescheduler" "rs_runningGrace demo_rescheduler \<le> max_int64" by code_simp+

theorem outage_pass_respects_grace_witness:
  "\<exists>d' res r'. rescheduler_Reconcile demo_rescheduler (quiet_pass (201 * time_Second)) ''n1'' demo_down demo_running = (d', res)
     \<and> row_at d' ''web'' = Some r' \<and> ps_Phase (row_status r') = ProjectPhaseRunning \<and> ps_NodeRef (row_status r') = ''n1''"
proof -
  obtain d' res where run: "rescheduler_Reconcile demo_rescheduler (quiet_pass (201 * time_Second)) ''n1'' demo_down demo_running = (d', res)" by force
  have "nss_State \<lparr>nss_LastHeartbeat = 100, nss_State = NodeStateNotReady\<rparr> = NodeStateNotReady" by simp
  from outage_pass_respects_grace [OF demo_wf(2) demo_outage(1) this demo_grace run row_at_demo_running] run demo_outage(3,4,6)
  show ?thesis by auto
qed

lemma outage_clock_not_ready_at:
  "hb \<le> now \<Longrightarrow> outage_clock (left_by (on_status (not_ready_at now)) d r) ConditionTypeNotReadyAt hb = Some now"
  using find_Upsert_same [of "condition_lit ConditionTypeNotReadyAt ConditionTrue ''NodeNotReady''
        ''Node went NotReady while project was Running; running grace period clock started'' now" "ps_Conditions (row_status r)" True]
  by (simp add: outage_clock_def left_by_def on_status_def not_ready_at_def condition_lit_def split: option.split)

lemma may_release_cong:
  "row_uid r' = row_uid r \<Longrightarrow> row_spec r' = row_spec r \<Longrightarrow> ps_Recovery (row_status r') = ps_Recovery (row_status r) \<Longrightarrow>
   ps_Backup (row_status r') = ps_Backup (row_status r) \<Longrightarrow> ps_NodeRef (row_status r') = ps_NodeRef (row_status r) \<Longrightarrow>
   ps_AssignmentGeneration (row_status r') = ps_AssignmentGeneration (row_status r) \<Longrightarrow>
   may_release g r' = may_release g r \<and> snapshot_assignment (snapshotOf (scanProject r')) = snapshot_assignment (snapshotOf (scanProject r))"
  by (simp add: may_release_def snapshot_assignment_def)

definition freed :: "row \<Rightarrow> row \<Rightarrow> bool" where
  "freed r r' \<longleftrightarrow> ps_Phase (row_status r') = ProjectPhasePending \<and> ps_NodeRef (row_status r') = ''''
     \<and> FindObligation (ps_Recovery (row_status r')) (snapshot_assignment (snapshotOf (scanProject r))) \<noteq> None"

lemma released_freed:
  assumes "row_status r' = release_outcome g now r1" "may_release g r1" "ps_Phase (row_status r1) = ProjectPhaseRunning"
    "row_namespace r1 = DefaultNamespace"
    "snapshot_assignment (snapshotOf (scanProject r1)) = snapshot_assignment (snapshotOf (scanProject r))"
  shows "freed r r'"
  using release_outcome_simps [of r1 g now] assms by (simp add: freed_def)



subsection \<open>Failed Projects\<close>

definition movable :: "row \<Rightarrow> Condition option" where
  "movable r = (case find_condition ConditionTypePhase (ps_Conditions (row_status r)) of
     None \<Rightarrow> None
   | Some c \<Rightarrow> if cond_Reason c \<in> set rescheduleReasons \<and> ps_NodeRef (row_status r) \<noteq> '''' then Some c else None)"

lemma phaseCondition_row:
  "phaseCondition (snapshotOf (scanProject r)) = map_option condition_snapshot (find_condition ConditionTypePhase (ps_Conditions (row_status r)))"
  by (simp add: phaseCondition_def find_condition_snapshot)

lemma hasCondition_row:
  "hasCondition (snapshotOf (scanProject r)) t \<longleftrightarrow> find_condition t (ps_Conditions (row_status r)) \<noteq> None"
  by (auto simp: hasCondition_def find_condition_def list_ex_iff find_None_iff condition_snapshot_def)

lemma move_failed_left_by:
  assumes "row_at d (row_name r) = Some r" "ps_Phase (row_status r) = ProjectPhaseFailed"
  defines "a \<equiv> snapshot_assignment (snapshotOf (scanProject r))" and "s \<equiv> row_status r"
  shows "if WorkloadStoppedFor (ps_Recovery s) a
     then ps_Phase (left_by (move_failed_status (snapshotOf (scanProject r)) message now) d r) = ProjectPhasePending
        \<and> ps_NodeRef (left_by (move_failed_status (snapshotOf (scanProject r)) message now) d r) = ''''
        \<and> ps_FailedNodes (left_by (move_failed_status (snapshotOf (scanProject r)) message now) d r)
            = (if ps_NodeRef s \<in> set (ps_FailedNodes s) then ps_FailedNodes s else ps_FailedNodes s @ [ps_NodeRef s])
        \<and> FindObligation (ps_Recovery (left_by (move_failed_status (snapshotOf (scanProject r)) message now) d r)) a \<noteq> None
     else \<exists>msg. left_by (move_failed_status (snapshotOf (scanProject r)) message now) d r = takeover_required msg now s"
  using assms(1,2) find_released_recovery [of s a now ReleaseByWorkloadStopped "HasManagedVolume (row_spec r)"]
  by (auto simp: left_by_def move_failed_status_def Let_def failed_transition GetProject_def a_def s_def)

lemma move_failed_pass:
  assumes wf: "db_wf d" and r: "row_at d name = Some r" "ps_Phase (row_status r) = ProjectPhaseFailed"
    and run: "(case MoveFailedProject (quiet now) now (snapshotOf (scanProject r)) msg d of
                 (d', Inl e) \<Rightarrow> if is_not_found e \<or> is_stale e then (d', Inr Done) else (d', Inl e)
               | (d', Inr moved) \<Rightarrow> (d', Inr Done)) = (d', res)"
  shows "res = Inr Done \<and> (\<exists>r'. row_at d' name = Some r' \<and> row_status r' = left_by (move_failed_status (snapshotOf (scanProject r)) msg now) d r)"
proof -
  let ?p = "snapshotOf (scanProject r)"
  have name: "row_name r = name" using row_at_name [OF r(1)] by simp
  have ap: "MoveFailedProject (quiet now) now ?p msg d = apply_closure (move_failed_status ?p msg now) name now r d"
    using wf r name by (simp add: MoveFailedProject_def UpdateProjectStatusForUID_def for_uid_quiet)
  have "\<exists>q. snd (apply_closure (move_failed_status ?p msg now) name now r d) = Inr q"
    using r name by (auto simp: apply_closure_def move_failed_status_def Let_def failed_transition GetProject_def)
  with run ap have res: "res = Inr Done" "d' = fst (apply_closure (move_failed_status ?p msg now) name now r d)"
    by (auto simp: case_prod_beta)
  then show ?thesis
    using only_row_apply [OF wf r(1), of "move_failed_status ?p msg now" now] r(1) by (auto simp: only_row_def)
qed

lemma exhausted_pass:
  assumes wf: "db_wf d" and r: "row_at d name = Some r" "ps_Phase (row_status r) = ProjectPhaseFailed"
    and run: "ignore_gone (SetRescheduleExhausted (quiet now) now (row_name r) msg d) = (d', res)"
  shows "\<exists>r' q. row_at d' name = Some r' \<and> res = Inr q
     \<and> row_status r' = left_by (on_status (reschedule_exhausted msg now)) (single r) r
     \<and> find_condition ConditionTypeRescheduleExhausted (ps_Conditions (row_status r')) \<noteq> None"
proof -
  have name: "row_name r = name" using row_at_name [OF r(1)] by simp
  have "quiet_write r (left_by (on_status (reschedule_exhausted msg now)) (single r) r) d (SetRescheduleExhausted (quiet now) now (row_name r) msg d)"
    unfolding SetRescheduleExhausted_def by (rule quiet_with_retry) (use wf r name in \<open>simp_all add: reschedule_exhausted_def\<close>)
  with run obtain r' q where r': "row_at d' name = Some r'" "row_status r' = left_by (on_status (reschedule_exhausted msg now)) (single r) r" "res = Inr q"
    using r name by (cases "SetRescheduleExhausted (quiet now) now (row_name r) msg d") (auto simp: quiet_write_def only_row_def ignore_gone_def)
  have "find_condition ConditionTypeRescheduleExhausted (ps_Conditions (left_by (on_status (reschedule_exhausted msg now)) (single r) r)) \<noteq> None"
    using r(2) find_Upsert_same [of "condition_lit ConditionTypeRescheduleExhausted ConditionTrue ''RetriesExhausted'' msg now" "ps_Conditions (row_status r)" False]
    by (auto simp: left_by_def on_status_def reschedule_exhausted_def condition_lit_def split: option.splits)
  with r' show ?thesis by metis
qed


definition demo_crashed :: db where
  "demo_crashed = fst (putWorkloadStopped (quiet 112) 112 None ''web'' (Inr (demo_fence ''n1'' 1))
     (fst (patchStatus (quiet 110) 110 None ''web''
        (Inr ((demo_report ProjectPhaseFailed ''n1'' 1)\<lparr>spr_Reason := ''ContainerCrashed''\<rparr>)) demo_running)))"


end
