(* ===== verification/Controller_System.thy ===== *)
theory Controller_System
  imports Controller_Properties
begin

text \<open>
  The controllers composed with the server: a pass of any of them is a run of the server's writes, so
  the ownership invariant and everything proved of reachable tables holds with the controllers
  running. The end of a Project's life is here too: what the finalizer does with a record that awaits
  finalization.
\<close>

subsection \<open>Passes are runs\<close>

lemma run_trans: "run grace e f \<Longrightarrow> run grace d e \<Longrightarrow> run grace d f"
  by (induction rule: run.induct) (auto intro: run_step)

lemma run_one: "server_op grace d e \<Longrightarrow> run grace d e"
  by (rule run_step [OF run_refl])

lemmas run_ops = run_one [OF op_schedulingBlocked] run_one [OF op_finalize] run_one [OF op_finalizationBlocked]
  run_one [OF op_release] run_one [OF op_moveFailed] run_one [OF op_clearClocks] run_one [OF op_terminatingAt]
  run_one [OF op_notReadyAt] run_one [OF op_terminationBlocked] run_one [OF op_clearFailedNodes]
  run_one [OF op_rescheduleExhausted]

text \<open>Passes whose writes meet no other writer; their clocks are free.\<close>

definition undisturbed :: "pass_env \<Rightarrow> bool" where
  "undisturbed env \<longleftrightarrow> (\<forall>i. \<exists>t. pe_sched env i = quiet t)"

lemma fst_unless_gone [simp]: "fst (unless_gone res q) = fst res"
  by (cases res) (auto simp: unless_gone_def split: sum.splits)

lemma fst_ignore_gone [simp]: "fst (ignore_gone res) = fst res"
  by (cases res) (auto simp: ignore_gone_def split: sum.splits)

lemma fst_case_guarded [simp]:
  "fst (case res of (d', Inl e) \<Rightarrow> if P e then (d', x e) else (d', y e) | (d', Inr v) \<Rightarrow> (d', z v)) = fst res"
  by (auto split: prod.split sum.split)

lemma fst_release [simp]:
  "fst (release rs env i p d) = fst (ReleaseAssignment (pe_sched env i) (rs_graceExpiredRelease rs) (pe_now env i) p d)"
  by (auto simp: release_def split: prod.splits sum.splits)

lemma handle_project_run:
  assumes "undisturbed env"
  shows "run (rs_graceExpiredRelease rs) d (fst (handle_project rs env i p hb d))"
proof -
  obtain t where t: "pe_sched env i = quiet t" using assms by (auto simp: undisturbed_def)
  show ?thesis
    by (auto simp: handle_project_def handleRunning_def handleTerminating_def t case_prod_beta intro: run_ops run_refl)
qed

lemma handle_projects_run:
  assumes "undisturbed env"
  shows "run (rs_graceExpiredRelease rs) d (fst (handle_projects rs env i ps hb b d))"
proof (induction ps arbitrary: i b d)
  case (Cons p ps)
  have "run (rs_graceExpiredRelease rs) d (fst (handle_project rs env i p hb d))" by (rule handle_project_run [OF assms])
  with Cons.IH show ?case by (auto split: prod.splits sum.splits intro: run_trans [OF Cons.IH])
qed (simp add: run_refl)

lemma clear_clocks_run:
  assumes "undisturbed env"
  shows "run grace d (fst (clear_clocks_loop env i node t ps err d))"
proof (induction ps arbitrary: i err d)
  case (Cons p ps)
  obtain t' where "pe_sched env i = quiet t'" using assms by (auto simp: undisturbed_def)
  then have "run grace d (fst (ClearRescheduleClocks (pe_sched env i) (snap_Name p) node t d))" by (simp add: run_ops)
  with Cons.IH show ?case by (auto split: prod.splits sum.splits intro: run_trans [OF Cons.IH])
qed (simp add: run_refl)

lemma rescheduler_run:
  assumes "undisturbed env"
  shows "run (rs_graceExpiredRelease rs) d (fst (rescheduler_Reconcile rs env name c d))"
proof -
  have "fst (clearRescheduleClocks env name t d) = fst (clear_clocks_loop env 0 name t
     (list_snapshots_by_node d name [ProjectPhaseScheduled, ProjectPhaseRunning, ProjectPhaseTerminating, ProjectPhaseFailed]) None d)" for t
    by (auto simp: clearRescheduleClocks_def split: prod.splits option.splits)
  with clear_clocks_run [OF assms] handle_projects_run [OF assms] show ?thesis
    by (auto simp: rescheduler_Reconcile_def run_refl split: sum.splits)
qed

lemma failed_run:
  assumes "fe_sched env = quiet t"
  shows "run grace d (fst (failed_Reconcile env name d))"
proof -
  have "run grace d (fst (reconcileFailed env p d))" for p
    by (simp add: reconcileFailed_def raiseRescheduleExhaustedAlert_def assms Let_def run_refl run_ops split: option.split)
  moreover have "run grace d (fst (reconcileRunning env p d))" for p
    by (auto simp: reconcileRunning_def assms run_refl run_ops split: option.splits)
  ultimately show ?thesis by (auto simp: failed_Reconcile_def run_refl split: sum.splits)
qed

lemma termination_run:
  assumes "run grace d (gap d)"
  shows "run grace d (fst (termination_Reconcile gap (quiet t) now name d))"
proof -
  have fin: "run grace d e" if "adapter_FinalizeProject name u (gap d) = (e, x)" for u e x
    using run_trans [OF run_ops(2) assms, of name u] that by simp
  have mark: "run grace d (fst (SetFinalizationBlocked (quiet t) now name u' reason e))"
    if "adapter_FinalizeProject name u (gap d) = (e, x)" for u e x u' reason
    by (rule run_trans [OF run_ops(3) fin [OF that]])
  show ?thesis
    unfolding termination_Reconcile_def
    by (auto simp: run_refl split: sum.splits prod.splits option.splits intro: fin mark)
qed

lemma scheduler_run:
  assumes "\<forall>n \<in> set (ListReadyNodes c). rn_Name n \<noteq> ''''"
    and "\<And>r. row_at d name = Some r \<Longrightarrow> ps_AssignmentGeneration (row_status r) < max_int64"
  shows "run grace d (fst (scheduler_Reconcile gf (quiet_env now) name c d))"
proof -
  have blocked: "run grace e (reportBlocked (quiet_env now) name reason message e)" for e reason message
    by (simp add: reportBlocked_def quiet_env_def run_ops)
  have bind: "run grace d (fst (SetProjectScheduled (quiet now) now name node d))" if "node \<noteq> ''''" for node
    by (rule run_one [OF op_schedule]) (use that assms(2) in auto)
  have named: "cand_name b \<noteq> ''''"
    if "pickBest (map (candidate_of gf d sz) (filter (suitable gf d sz ex) (ListReadyNodes c))) sz = Some (b, s)" for b s sz ex
    using pickBest_best [OF that] assms(1) by (auto simp: candidate_of_def Let_def)
  have place: "run grace d (fst (case SetProjectScheduled (quiet now) now name node d of
        (d3, Inl e) \<Rightarrow> if is_conflict_state e then (reportBlocked (quiet_env now) name ''AssignmentRefused'' (error_text e) d3, Inr Done) else (d3, Inl e)
      | (d3, Inr _) \<Rightarrow> (d3, Inr Done)))" if "node \<noteq> ''''" for node
    using bind [OF that] run_trans [OF blocked bind [OF that]]
    by (auto split: prod.splits sum.splits)
  show ?thesis
  proof (cases "GetProjectPlacement d name")
    case (Inl e)
    then show ?thesis
      using blocked by (auto simp: scheduler_Reconcile_def quiet_env_def Let_def run_refl split: sum.splits)
  next
    case (Inr p)
    obtain rej where f: "filterNodes gf (\<lambda>_ x. x) (ListReadyNodes c) (pl_Size p) (pl_ExcludedNodes p) d
        = (d, map (candidate_of gf d (pl_Size p)) (filter (suitable gf d (pl_Size p) (pl_ExcludedNodes p)) (ListReadyNodes c)), rej)"
      using filterNodes_quiet [of gf "ListReadyNodes c"] by blast
    have env: "se_placement (quiet_env now) = id" "se_ledger (quiet_env now) = (\<lambda>_ x. x)" "se_bind (quiet_env now) = quiet now"
      "se_now (quiet_env now) = now" by (simp_all add: quiet_env_def)
    show ?thesis
      using blocked place named
      by (auto simp: scheduler_Reconcile_def env Inr f Let_def run_refl split: sum.splits option.splits simp del: pickBest_None)
  qed
qed

text \<open>
  One pass of a controller. The finalizer lets any server writes happen between its read and its
  delete; the scheduler's premises are those of the write it makes.
\<close>

inductive controller_pass :: "bool \<Rightarrow> cluster \<Rightarrow> db \<Rightarrow> db \<Rightarrow> bool" for grace :: bool and c :: cluster where
  pass_scheduler: "\<forall>n \<in> set (ListReadyNodes c). rn_Name n \<noteq> '''' \<Longrightarrow>
    (\<And>r. row_at d name = Some r \<Longrightarrow> ps_AssignmentGeneration (row_status r) < max_int64) \<Longrightarrow>
    controller_pass grace c d (fst (scheduler_Reconcile gf (quiet_env now) name c d))"
| pass_rescheduler: "undisturbed env \<Longrightarrow> rs_graceExpiredRelease rs = grace \<Longrightarrow>
    controller_pass grace c d (fst (rescheduler_Reconcile rs env node c d))"
| pass_failed: "fe_sched env = quiet t \<Longrightarrow> controller_pass grace c d (fst (failed_Reconcile env name d))"
| pass_termination: "run grace d (gap d) \<Longrightarrow>
    controller_pass grace c d (fst (termination_Reconcile gap (quiet t) now name d))"

lemma controller_pass_run: "controller_pass grace c d d' \<Longrightarrow> run grace d d'"
proof (induction rule: controller_pass.induct)
  case (pass_rescheduler env rs d node)
  then show ?case using rescheduler_run [of env rs d node c] by simp
qed (auto intro: scheduler_run failed_run termination_run)

text \<open>Histories grow: a run keeps the grants and adds new ones.\<close>

lemma run_reachable:
  "run grace d d' \<Longrightarrow> reachable grace d G \<Longrightarrow> \<exists>G'. reachable grace d' G' \<and> (\<forall>u. set (G u) \<subseteq> set (G' u))"
proof (induction rule: run.induct)
  case (run_step d e f)
  then obtain G' where G': "reachable grace e G'" "\<forall>u. set (G u) \<subseteq> set (G' u)" by blast
  have "set (G' u) \<subseteq> set (track e f G' u)" for u using track_mono by blast
  with G' reach_step [OF G'(1) run_step.hyps(2)] show ?case by blast
qed blast

text \<open>
  C9: the controllers keep the server's promises. From a reachable table, a pass of the scheduler, the
  outage rescheduler, the failure rescheduler or the finalizer leads to a reachable table again: no
  assignment ever granted is forgotten, every record keeps its ownership invariant, and each granted
  assignment that no longer runs its record owes or has resolved its cleanup.
\<close>

theorem controllers_keep_ownership:
  assumes "reachable grace d G" and "controller_pass grace c d d'"
  shows "\<exists>G'. reachable grace d' G' \<and> list_all (\<lambda>r'. own_inv (row_uid r') (ownership_of (row_status r') (G' (row_uid r')))
      \<and> set (G (row_uid r')) \<subseteq> set (G' (row_uid r'))) (db_rows d')"
proof -
  obtain G' where "reachable grace d' G'" "\<forall>u. set (G u) \<subseteq> set (G' u)"
    using run_reachable [OF controller_pass_run [OF assms(2)] assms(1)] by blast
  with reachable_inv [OF this(1)] show ?thesis by (auto simp: sys_inv_def list_all_iff)
qed

theorem controllers_keep_ownership_witness:
  "\<exists>G'. reachable False demo_placed G' \<and> list_all (\<lambda>r'. own_inv (row_uid r') (ownership_of (row_status r') (G' (row_uid r')))) (db_rows demo_placed)"
proof -
  have nodes: "\<forall>n \<in> set (ListReadyNodes demo_cluster). rn_Name n \<noteq> ''''"
    and gen: "ps_AssignmentGeneration (row_status demo_pending) < max_int64" by code_simp+
  then have "controller_pass False demo_cluster demo_created demo_placed"
    unfolding demo_placed_def by (intro pass_scheduler) (auto simp: row_at_demo_created)
  from controllers_keep_ownership [OF demo_reachable(1) this] show ?thesis by (auto simp: list_all_iff)
qed

subsection \<open>The end of a Project\<close>

lemma AwaitsFinalization_snapshot:
  "AwaitsFinalization (InitialProjectStatus\<lparr>ps_Phase := ps_Phase s, ps_NodeRef := ps_NodeRef s\<rparr>) = AwaitsFinalization s"
  by (simp add: AwaitsFinalization_def)

text \<open>
  C26: deletion completes. A pass over a record that awaits finalization always returns with nothing to
  retry. When nothing blocks the record, it is gone afterwards and every other record is untouched.
  Otherwise it is kept, its ownership unchanged, and carries FinalizationBlocked with the blocker as
  its message.
\<close>

theorem deletion_completes:
  assumes wf: "db_wf d" and r: "row_at d name = Some r" "AwaitsFinalization (row_status r)"
    and run: "termination_Reconcile id (quiet t) now name d = (d', res)"
  shows "res = Inr Done \<and>
    (if FinalizationBlocker (scanProject r) = ''''
     then row_at d' name = None \<and> list_all (\<lambda>q. named DefaultNamespace name q \<or> q \<in> set (db_rows d')) (db_rows d)
     else \<exists>r' c. row_at d' name = Some r' \<and> find_condition ConditionTypeFinalizationBlocked (ps_Conditions (row_status r')) = Some c
        \<and> cond_Message c = ''Record kept: '' @ FinalizationBlocker (scanProject r)
        \<and> ps_Phase (row_status r') = ps_Phase (row_status r) \<and> ps_NodeRef (row_status r') = ps_NodeRef (row_status r)
        \<and> ps_AssignmentGeneration (row_status r') = ps_AssignmentGeneration (row_status r)
        \<and> ps_Recovery (row_status r') = ps_Recovery (row_status r))"
proof -
  let ?b = "FinalizationBlocker (scanProject r)"
  note name = row_at_name [OF r(1)]
  have read: "GetProjectSnapshot d name = Inr (snapshotOf (scanProject r))"
    using r(1) by (simp add: GetProjectSnapshot_def GetProject_def)
  show ?thesis
  proof (cases "?b = ''''")
    case True
    then have "(d', res) = (fst (sql_delete (\<lambda>q. named DefaultNamespace name q \<and> row_uid q = row_uid r) d), Inr Done)"
      using run r by (simp add: termination_Reconcile_def read AwaitsFinalization_snapshot adapter_FinalizeProject_def
          FinalizeProject_def finalizeProject_def GetProject_def)
    moreover have "q = r" if "q \<in> set (db_rows d)" "named DefaultNamespace name q" for q
      using that r(1) row_at_of_mem [OF wf] by fastforce
    ultimately show ?thesis using True by (auto simp: row_at_def sql_delete_def find_None_iff list_all_iff)
  next
    case False
    let ?f = "finalization_blocked ?b now"
    have fin: "adapter_FinalizeProject name (row_uid r) d = (d, Inl (FinalizationBlockedError name ?b))"
      using False r(1) by (simp add: adapter_FinalizeProject_def FinalizeProject_def finalizeProject_def GetProject_def)
    have ap: "SetFinalizationBlocked (quiet t) now name (row_uid r) ?b d = apply_closure (on_status ?f) name t r d"
      using wf r(1) by (simp add: SetFinalizationBlocked_def UpdateProjectStatusForUID_def for_uid_quiet)
    have ok: "\<exists>q. snd (apply_closure (on_status ?f) name t r d) = Inr q"
      using r by (auto simp: apply_closure_def on_status_def finalization_blocked_def)
    have res: "res = Inr Done" "d' = fst (apply_closure (on_status ?f) name t r d)"
      using run ok r(2) by (auto simp: termination_Reconcile_def read AwaitsFinalization_snapshot fin ap case_prod_beta)
    obtain r' where r': "row_at d' name = Some r'" "row_status r' = left_by (on_status ?f) d r"
      using only_row_apply [OF wf r(1), of "on_status ?f" t] r(1) by (auto simp: only_row_def res(2))
    obtain c where c: "find_condition ConditionTypeFinalizationBlocked (ps_Conditions (row_status r')) = Some c"
        "cond_Message c = ''Record kept: '' @ ?b"
      using find_Upsert_same [of "condition_lit ConditionTypeFinalizationBlocked ConditionTrue ''CleanupPending'' (''Record kept: '' @ ?b) now" "ps_Conditions (row_status r)" False]
      by (auto simp: r'(2) left_by_def on_status_def finalization_blocked_def r(2) condition_lit_def split: option.splits)
    show ?thesis using False r'(1) res(1) c
      by (auto simp: r'(2) left_by_def on_status_def finalization_blocked_def r(2))
  qed
qed

theorem deletion_completes_witness:
  "snd (termination_Reconcile id (quiet 120) 120 ''web'' demo_terminated) = Inr Done
   \<and> row_at (fst (termination_Reconcile id (quiet 120) 120 ''web'' demo_terminated)) ''web'' = None"
proof -
  have "case row_at demo_terminated ''web'' of None \<Rightarrow> False
     | Some r \<Rightarrow> AwaitsFinalization (row_status r) \<and> FinalizationBlocker (scanProject r) = ''''" by code_simp
  then obtain r where r: "row_at demo_terminated ''web'' = Some r" "AwaitsFinalization (row_status r)"
    "FinalizationBlocker (scanProject r) = ''''" by (auto split: option.splits)
  from deletion_completes [OF reachable_row(2) [OF demo_reachable(4) r(1)] r(1,2)
      prod.collapse [symmetric, of "termination_Reconcile id (quiet 120) 120 ''web'' demo_terminated"]] r(3)
  show ?thesis by simp
qed

end
