(* ===== verification/Work_Queue.thy ===== *)
theory Work_Queue
  imports Controllers "HOL-Library.Multiset"
begin

text \<open>
  What drives the controllers: the event bus (\<open>internal/event/bus.go\<close>), the deduplicating queue
  (\<open>workqueue.go\<close>), the manager with its worker goroutines and delayed retries (\<open>manager.go\<close>) and the
  \<open>Seed\<close> loops. A goroutine is a state, and a step is what one of them does between two points at
  which another may run: receiving the signal and taking the queue's lock are two steps.
\<close>

subsection \<open>workqueue.go\<close>

text \<open>The dirty map holds only \<open>true\<close>, so it is its key set; the channel holds one signal or none.\<close>

record workQueue =
  wq_dirty :: "string list"
  wq_notify :: bool

definition newWorkQueue :: workQueue where
  "newWorkQueue = \<lparr>wq_dirty = [], wq_notify = False\<rparr>"

definition Enqueue :: "string \<Rightarrow> workQueue \<Rightarrow> workQueue" where
  "Enqueue name wq = (if name \<in> set (wq_dirty wq) then wq
     else wq\<lparr>wq_dirty := wq_dirty wq @ [name], wq_notify := True\<rparr>)"

text \<open>The first key of Go's map iteration is arbitrary: \<open>i\<close> chooses it. No key leaves the empty name.\<close>

definition range_first :: "nat \<Rightarrow> string list \<Rightarrow> string" where
  "range_first i keys = (if keys = [] then '''' else keys ! (i mod length keys))"

text \<open>The locked part of \<open>Get\<close>, after a signal was received: \<open>None\<close> goes back to waiting.\<close>

definition Get_locked :: "nat \<Rightarrow> workQueue \<Rightarrow> workQueue \<times> string option" where
  "Get_locked i wq =
     (let name = range_first i (wq_dirty wq) in
      if name = '''' then (wq, None)
      else let rest = removeAll name (wq_dirty wq) in
        (wq\<lparr>wq_dirty := rest, wq_notify := wq_notify wq \<or> length rest > 0\<rparr>, Some name))"

definition Len :: "workQueue \<Rightarrow> nat" where "Len wq = length (wq_dirty wq)"

subsection \<open>manager.go\<close>

definition defaultWorkers :: int where "defaultWorkers = 1"
definition defaultRequeueAfter :: duration where "defaultRequeueAfter = 10 * time_Second"
definition defaultErrorBackoff :: duration where "defaultErrorBackoff = 5 * time_Second"

record managerOptions =
  mo_requeueAfter :: duration
  mo_errorBackoff :: duration

definition WithRequeueAfter :: "duration \<Rightarrow> managerOptions \<Rightarrow> managerOptions" where
  "WithRequeueAfter d opts = opts\<lparr>mo_requeueAfter := d\<rparr>"

definition WithErrorBackoff :: "duration \<Rightarrow> managerOptions \<Rightarrow> managerOptions" where
  "WithErrorBackoff d opts = opts\<lparr>mo_errorBackoff := d\<rparr>"

definition applyManagerOptions :: "(managerOptions \<Rightarrow> managerOptions) list \<Rightarrow> managerOptions" where
  "applyManagerOptions opts =
     fold (\<lambda>f. f) opts \<lparr>mo_requeueAfter = defaultRequeueAfter, mo_errorBackoff = defaultErrorBackoff\<rparr>"

text \<open>A worker waits in \<open>Get\<close>, has received the signal, reconciles a name, or has returned.\<close>

datatype worker = Waiting | Woken | Reconciling string | Stopped

text \<open>One controller under the manager. A timer is a delayed \<open>Enqueue\<close> goroutine with its delay.\<close>

record ctrl_state =
  cs_queue :: workQueue
  cs_workers :: "worker list"
  cs_timers :: "(duration \<times> string) list"
  cs_cancelled :: bool

definition AddWithWorkers :: "int \<Rightarrow> int" where
  "AddWithWorkers workers = (if workers < 1 then defaultWorkers else workers)"

definition Start :: "int \<Rightarrow> ctrl_state" where
  "Start workers = \<lparr>cs_queue = newWorkQueue, cs_workers = replicate (nat (AddWithWorkers workers)) Waiting,
     cs_timers = [], cs_cancelled = False\<rparr>"

text \<open>
  What a \<open>Reconcile\<close> came back with: an error that is \<open>Canceled\<close> or \<open>DeadlineExceeded\<close> (of the manager's
  context or of a narrower one), another error, or a result.
\<close>

datatype reconcile_outcome = Interrupted | Errored | Finished Result

definition after_reconcile :: "managerOptions \<Rightarrow> string \<Rightarrow> reconcile_outcome \<Rightarrow> worker \<times> (duration \<times> string) list" where
  "after_reconcile mo name outcome = (case outcome of
       Interrupted \<Rightarrow> (Stopped, [])
     | Errored \<Rightarrow> (Waiting, [(mo_errorBackoff mo, name)])
     | Finished result \<Rightarrow> (Waiting, if res_Requeue result then [(mo_requeueAfter mo, name)] else []))"

definition set_worker :: "nat \<Rightarrow> worker \<Rightarrow> ctrl_state \<Rightarrow> ctrl_state" where
  "set_worker i w s = s\<lparr>cs_workers := (cs_workers s)[i := w]\<rparr>"

text \<open>A worker's own steps on the queue.\<close>

inductive queue_step :: "ctrl_state \<Rightarrow> ctrl_state \<Rightarrow> bool" where
  receive: "i < length (cs_workers s) \<Longrightarrow> cs_workers s ! i = Waiting \<Longrightarrow> wq_notify (cs_queue s) \<Longrightarrow>
    queue_step s (set_worker i Woken (s\<lparr>cs_queue := (cs_queue s)\<lparr>wq_notify := False\<rparr>\<rparr>))"
| take: "i < length (cs_workers s) \<Longrightarrow> cs_workers s ! i = Woken \<Longrightarrow> Get_locked k (cs_queue s) = (wq, got) \<Longrightarrow>
    queue_step s (set_worker i (case got of None \<Rightarrow> Waiting | Some name \<Rightarrow> Reconciling name) (s\<lparr>cs_queue := wq\<rparr>))"

inductive ctrl_step :: "managerOptions \<Rightarrow> ctrl_state \<Rightarrow> ctrl_state \<Rightarrow> bool" for mo :: managerOptions where
  seeded: "name \<noteq> '''' \<Longrightarrow> ctrl_step mo s (s\<lparr>cs_queue := Enqueue name (cs_queue s)\<rparr>)"
| fired: "cs_timers s = ts @ (delay, name) # us \<Longrightarrow>
    ctrl_step mo s (s\<lparr>cs_queue := Enqueue name (cs_queue s), cs_timers := ts @ us\<rparr>)"
| queue: "queue_step s s' \<Longrightarrow> ctrl_step mo s s'"
| returned: "i < length (cs_workers s) \<Longrightarrow> cs_workers s ! i = Reconciling name \<Longrightarrow>
    after_reconcile mo name outcome = (w, timers) \<Longrightarrow>
    ctrl_step mo s (set_worker i w (s\<lparr>cs_timers := cs_timers s @ timers\<rparr>))"
| cancelled: "ctrl_step mo s (s\<lparr>cs_cancelled := True\<rparr>)"
| left: "i < length (cs_workers s) \<Longrightarrow> cs_workers s ! i = Waiting \<Longrightarrow> cs_cancelled s \<Longrightarrow>
    ctrl_step mo s (set_worker i Stopped s)"
| dropped: "cs_cancelled s \<Longrightarrow> cs_timers s = ts @ (delay, name) # us \<Longrightarrow> ctrl_step mo s (s\<lparr>cs_timers := ts @ us\<rparr>)"

inductive_cases queue_stepE: "queue_step s s'"
inductive_cases ctrl_stepE: "ctrl_step mo s s'"

text \<open>The states of one controller from its start.\<close>

inductive ctrl_reachable :: "managerOptions \<Rightarrow> int \<Rightarrow> ctrl_state \<Rightarrow> bool" for mo :: managerOptions and workers :: int where
  started: "ctrl_reachable mo workers (Start workers)"
| stepped: "ctrl_reachable mo workers s \<Longrightarrow> ctrl_step mo s s' \<Longrightarrow> ctrl_reachable mo workers s'"

subsection \<open>No signal is lost\<close>

text \<open>Whoever finds a name waiting is signalled or has been: the signal is in the channel or with a worker.\<close>

definition queue_inv :: "ctrl_state \<Rightarrow> bool" where
  "queue_inv s \<longleftrightarrow> distinct (wq_dirty (cs_queue s)) \<and> '''' \<notin> set (wq_dirty (cs_queue s))
     \<and> (\<forall>t \<in> set (cs_timers s). snd t \<noteq> '''') \<and> Reconciling '''' \<notin> set (cs_workers s)
     \<and> (wq_dirty (cs_queue s) \<noteq> [] \<longrightarrow> wq_notify (cs_queue s) \<or> Woken \<in> set (cs_workers s))"

lemma range_first_mem: "keys \<noteq> [] \<Longrightarrow> range_first i keys \<in> set keys"
  by (simp add: range_first_def)

lemma Get_locked_cases:
  assumes "Get_locked i wq = (wq', got)" "'''' \<notin> set (wq_dirty wq)"
  obtains (empty) "wq_dirty wq = []" "wq' = wq" "got = None"
  | (got) name where "got = Some name" "name \<in> set (wq_dirty wq)" "name \<noteq> ''''"
      "wq' = wq\<lparr>wq_dirty := removeAll name (wq_dirty wq), wq_notify := wq_notify wq \<or> removeAll name (wq_dirty wq) \<noteq> []\<rparr>"
proof (cases "wq_dirty wq = []")
  case True
  then have "Get_locked i wq = (wq, None)" by (simp add: Get_locked_def range_first_def)
  with assms(1) have "wq' = wq" "got = None" by simp_all
  with True show ?thesis by (rule empty)
next
  case False
  let ?n = "range_first i (wq_dirty wq)"
  have n: "?n \<in> set (wq_dirty wq)" using False by (rule range_first_mem)
  with assms(2) have "?n \<noteq> ''''" by auto
  with assms(1) show ?thesis by (intro got [OF _ n]) (auto simp: Get_locked_def Let_def)
qed

lemma Enqueue_inv: "name \<noteq> '''' \<Longrightarrow> queue_inv s \<Longrightarrow> queue_inv (s\<lparr>cs_queue := Enqueue name (cs_queue s)\<rparr>)"
  by (auto simp: queue_inv_def Enqueue_def)

lemma workers_update_cases: "x \<in> set (xs[i := y]) \<Longrightarrow> x = y \<or> x \<in> set xs"
  using set_update_subset_insert by fastforce

lemma other_worker_kept: "x \<in> set xs \<Longrightarrow> i < length xs \<Longrightarrow> xs ! i \<noteq> x \<Longrightarrow> x \<in> set (xs[i := y])"
  by (metis in_set_conv_nth length_list_update nth_list_update_neq)

lemma set_worker_inv:
  assumes "queue_inv s" "i < length (cs_workers s)" "w \<noteq> Reconciling ''''"
    "cs_workers s ! i = Woken \<Longrightarrow> wq_notify (cs_queue s) \<or> wq_dirty (cs_queue s) = []"
  shows "queue_inv (set_worker i w s)"
proof -
  have "Reconciling '''' \<notin> set ((cs_workers s)[i := w])" using assms(1,3) by (auto simp: queue_inv_def dest: workers_update_cases)
  moreover have "wq_notify (cs_queue s) \<or> Woken \<in> set ((cs_workers s)[i := w])" if "wq_dirty (cs_queue s) \<noteq> []"
    using that assms(1,2,4) other_worker_kept [of Woken "cs_workers s" i w] by (auto simp: queue_inv_def)
  ultimately show ?thesis using assms(1) by (simp add: queue_inv_def set_worker_def)
qed

lemma queue_step_inv:
  assumes "queue_step s s'" "queue_inv s"
  shows "queue_inv s'"
  using assms(1)
proof cases
  case (receive i)
  then have "Woken \<in> set ((cs_workers s)[i := Woken])" by (simp add: set_update_memI)
  with receive(1) assms(2) show ?thesis by (auto simp: queue_inv_def set_worker_def dest: workers_update_cases)
next
  case (take i k wq got)
  have "'''' \<notin> set (wq_dirty (cs_queue s))" using assms(2) by (simp add: queue_inv_def)
  from take(4) this show ?thesis
  proof (cases rule: Get_locked_cases)
    case empty
    with take(1-3) assms(2) set_worker_inv [of s i Waiting] show ?thesis by simp
  next
    case (got name)
    then have "queue_inv (s\<lparr>cs_queue := wq\<rparr>)" using assms(2) by (auto simp: queue_inv_def distinct_removeAll)
    with take(1-3) got set_worker_inv [of "s\<lparr>cs_queue := wq\<rparr>" i "Reconciling name"] show ?thesis by auto
  qed
qed

lemma ctrl_reachable_inv: "ctrl_reachable mo workers s \<Longrightarrow> queue_inv s"
proof (induction rule: ctrl_reachable.induct)
  case started
  then show ?case by (simp add: queue_inv_def Start_def newWorkQueue_def)
next
  case (stepped s s')
  from stepped.hyps(2) show ?case
  proof cases
    case (seeded name)
    with stepped show ?thesis by (simp add: Enqueue_inv)
  next
    case (fired ts delay name us)
    with stepped Enqueue_inv [of name s] show ?thesis by (auto simp: queue_inv_def)
  next
    case queue
    with stepped queue_step_inv show ?thesis by blast
  next
    case (returned i name outcome w timers)
    have "Reconciling name \<in> set (cs_workers s)" using returned(2,3) nth_mem by fastforce
    then have name: "name \<noteq> ''''" using stepped.IH by (auto simp: queue_inv_def)
    have "w \<noteq> Reconciling ''''" and timers: "\<forall>t \<in> set timers. snd t = name"
      using returned(4) by (auto simp: after_reconcile_def split: reconcile_outcome.splits if_splits)
    moreover have "queue_inv (s\<lparr>cs_timers := cs_timers s @ timers\<rparr>)" using stepped.IH timers name by (auto simp: queue_inv_def)
    ultimately show ?thesis using set_worker_inv [of "s\<lparr>cs_timers := cs_timers s @ timers\<rparr>" i w] returned(1-3) by simp
  next
    case cancelled
    with stepped show ?thesis by (simp add: queue_inv_def)
  next
    case (left i)
    with stepped.IH set_worker_inv [of s i Stopped] show ?thesis by simp
  next
    case (dropped ts delay name us)
    with stepped show ?thesis by (auto simp: queue_inv_def)
  qed
qed

subsection \<open>Every waiting name is delivered once\<close>

definition reconciled :: "worker list \<Rightarrow> string list" where
  "reconciled ws = concat (map (\<lambda>w. case w of Reconciling name \<Rightarrow> [name] | _ \<Rightarrow> []) ws)"

lemma reconciled_mem: "name \<in> set (reconciled ws) \<longleftrightarrow> Reconciling name \<in> set ws"
  by (force simp: reconciled_def split: worker.splits)

lemma reconciled_update:
  assumes "i < length ws" "\<forall>name. ws ! i \<noteq> Reconciling name"
  shows "mset (reconciled (ws[i := w])) = mset (reconciled ws) + mset (case w of Reconciling name \<Rightarrow> [name] | _ \<Rightarrow> [])"
proof -
  have "reconciled ws = reconciled (take i ws) @ reconciled (drop (Suc i) ws)"
    using assms(2) by (subst id_take_nth_drop [OF assms(1)]) (auto simp: reconciled_def split: worker.split)
  then show ?thesis by (simp add: upd_conv_take_nth_drop [OF assms(1)] reconciled_def)
qed

definition woken :: "worker list \<Rightarrow> nat" where "woken ws = length (filter (\<lambda>w. w = Woken) ws)"

lemma woken_update:
  assumes "i < length ws"
  shows "woken (ws[i := w]) + (if ws ! i = Woken then 1 else 0) = woken ws + (if w = Woken then 1 else 0)"
proof -
  have "woken ws = woken (take i ws) + (if ws ! i = Woken then 1 else 0) + woken (drop (Suc i) ws)"
    by (subst id_take_nth_drop [OF assms]) (auto simp: woken_def)
  then show ?thesis by (simp add: upd_conv_take_nth_drop [OF assms] woken_def)
qed

text \<open>The names a controller has in hand, and what bounds the steps its workers can make on them.\<close>

definition in_hand :: "ctrl_state \<Rightarrow> string multiset" where
  "in_hand s = mset (wq_dirty (cs_queue s)) + mset (reconciled (cs_workers s))"

definition queue_work :: "ctrl_state \<Rightarrow> nat" where
  "queue_work s = 3 * Len (cs_queue s) + (if wq_notify (cs_queue s) then 2 else 0) + woken (cs_workers s)"

lemma mset_take_out: "distinct xs \<Longrightarrow> x \<in> set xs \<Longrightarrow> mset xs = add_mset x (mset (removeAll x xs)) \<and> length xs = Suc (length (removeAll x xs))"
  by (induction xs) auto

lemma queue_step_work:
  assumes "queue_step s s'" "queue_inv s"
  shows "in_hand s' = in_hand s \<and> queue_work s' < queue_work s"
  using assms(1)
proof cases
  case (receive i)
  with reconciled_update [OF receive(2), of Woken] woken_update [OF receive(2), of Woken] show ?thesis
    by (simp add: in_hand_def queue_work_def set_worker_def Len_def)
next
  case (take i k wq got)
  have q: "'''' \<notin> set (wq_dirty (cs_queue s))" "distinct (wq_dirty (cs_queue s))" using assms(2) by (auto simp: queue_inv_def)
  from take(4) q(1) show ?thesis
  proof (cases rule: Get_locked_cases)
    case empty
    with take reconciled_update [OF take(2), of Waiting] woken_update [OF take(2), of Waiting] show ?thesis
      by (simp add: in_hand_def queue_work_def set_worker_def Len_def)
  next
    case (got name)
    with take q(2) mset_take_out [OF q(2) got(2)] reconciled_update [OF take(2), of "Reconciling name"] woken_update [OF take(2), of "Reconciling name"]
    show ?thesis by (simp add: in_hand_def queue_work_def set_worker_def Len_def)
  qed
qed

lemma queue_steps_work:
  "(queue_step ^^ n) s s' \<Longrightarrow> queue_inv s \<Longrightarrow> queue_inv s' \<and> in_hand s' = in_hand s \<and> n + queue_work s' \<le> queue_work s"
proof (induction n arbitrary: s')
  case (Suc n)
  then obtain t where t: "(queue_step ^^ n) s t" "queue_step t s'" by auto
  with Suc queue_step_work [OF t(2)] queue_step_inv [OF t(2)] show ?case by fastforce
qed simp

lemma queue_stuck:
  assumes "queue_inv s" "\<nexists>s'. queue_step s s'" "wq_dirty (cs_queue s) \<noteq> []"
  shows "Waiting \<notin> set (cs_workers s) \<and> Woken \<notin> set (cs_workers s)"
proof -
  have woken: "Woken \<notin> set (cs_workers s)"
    using assms(2) queue_step.take [of _ s 0] by (metis in_set_conv_nth prod.collapse)
  moreover have "Waiting \<notin> set (cs_workers s)"
    using assms woken queue_step.receive [of _ s] by (metis in_set_conv_nth queue_inv_def)
  ultimately show ?thesis by simp
qed

text \<open>
  C27: the queue loses no name and delivers each once. From any state a controller reaches, with any number
  of workers, any interleaving of the workers' steps on the queue is finite, neither loses nor
  duplicates a name, and can only stop when nothing waits or every worker is reconciling or gone: a name
  that waits while a worker is idle is always taken.
\<close>

theorem queue_delivers:
  assumes "ctrl_reachable mo workers s" and "(queue_step ^^ n) s s'"
  shows "n \<le> queue_work s
    \<and> mset (wq_dirty (cs_queue s')) + mset (reconciled (cs_workers s')) = mset (wq_dirty (cs_queue s)) + mset (reconciled (cs_workers s))
    \<and> distinct (wq_dirty (cs_queue s'))
    \<and> ((\<exists>t. queue_step s' t) \<or> wq_dirty (cs_queue s') = [] \<or> list_all (\<lambda>w. w \<noteq> Waiting \<and> w \<noteq> Woken) (cs_workers s'))"
proof -
  note w = queue_steps_work [OF assms(2) ctrl_reachable_inv [OF assms(1)]]
  have "(\<exists>t. queue_step s' t) \<or> wq_dirty (cs_queue s') = [] \<or> list_all (\<lambda>w. w \<noteq> Waiting \<and> w \<noteq> Woken) (cs_workers s')"
    using queue_stuck [of s'] w by (auto simp: list_all_iff)
  with w show ?thesis by (auto simp: in_hand_def queue_inv_def)
qed

text \<open>Two workers, one name enqueued: received and taken in two steps.\<close>

definition demo_options :: managerOptions where "demo_options = applyManagerOptions []"

definition demo_queued :: ctrl_state where
  "demo_queued = (Start 2)\<lparr>cs_queue := Enqueue ''web'' (cs_queue (Start 2))\<rparr>"

definition demo_taken :: ctrl_state where
  "demo_taken = \<lparr>cs_queue = newWorkQueue, cs_workers = [Reconciling ''web'', Waiting], cs_timers = [], cs_cancelled = False\<rparr>"

lemma demo_queued_reachable: "ctrl_reachable demo_options 2 demo_queued"
  unfolding demo_queued_def by (intro stepped [OF started] seeded) simp

lemma take_one:
  assumes "i < length (cs_workers s)" "cs_workers s ! i = Waiting" "wq_dirty (cs_queue s) = [name]" "name \<noteq> ''''" "wq_notify (cs_queue s)"
  shows "(queue_step ^^ 2) s (s\<lparr>cs_queue := newWorkQueue, cs_workers := (cs_workers s)[i := Reconciling name]\<rparr>)"
proof -
  let ?t = "set_worker i Woken (s\<lparr>cs_queue := (cs_queue s)\<lparr>wq_notify := False\<rparr>\<rparr>)"
  have "queue_step s ?t" using assms by (intro receive)
  moreover have "Get_locked 0 (cs_queue ?t) = (newWorkQueue, Some name)"
    using assms(3,4) by (cases "cs_queue s") (simp add: set_worker_def Get_locked_def range_first_def newWorkQueue_def)
  then have "queue_step ?t (set_worker i (Reconciling name) (?t\<lparr>cs_queue := newWorkQueue\<rparr>))"
    using queue_step.take [of i ?t 0 newWorkQueue "Some name"] assms(1) by (simp add: set_worker_def)
  moreover have "set_worker i (Reconciling name) (?t\<lparr>cs_queue := newWorkQueue\<rparr>)
      = s\<lparr>cs_queue := newWorkQueue, cs_workers := (cs_workers s)[i := Reconciling name]\<rparr>" by (simp add: set_worker_def)
  ultimately show ?thesis by (auto simp: numeral_2_eq_2)
qed

lemma demo_taken_steps: "(queue_step ^^ 2) demo_queued demo_taken"
  using take_one [of 0 demo_queued "''web''"]
  by (simp add: demo_queued_def demo_taken_def Start_def AddWithWorkers_def newWorkQueue_def Enqueue_def numeral_2_eq_2)

theorem queue_delivers_witness:
  "2 \<le> queue_work demo_queued \<and> mset (reconciled (cs_workers demo_taken)) = {#''web''#}"
  using queue_delivers [OF demo_queued_reachable demo_taken_steps]
  by (simp add: demo_queued_def demo_taken_def newWorkQueue_def Start_def AddWithWorkers_def Enqueue_def reconciled_def numeral_2_eq_2)

lemma queue_steps_reachable: "(queue_step ^^ n) s s' \<Longrightarrow> ctrl_reachable mo workers s \<Longrightarrow> ctrl_reachable mo workers s'"
  by (induction n arbitrary: s') (auto intro: stepped queue)

text \<open>
  A name leaves the dirty set before it is reconciled, so with a second worker an event that arrives
  meanwhile has the same name reconciled twice at the same time.
\<close>

lemma same_key_reconciled_twice:
  "\<exists>s. ctrl_reachable demo_options 2 s \<and> cs_workers s = [Reconciling ''web'', Reconciling ''web'']"
proof -
  let ?t = "demo_taken\<lparr>cs_queue := Enqueue ''web'' (cs_queue demo_taken)\<rparr>"
  have t: "ctrl_reachable demo_options 2 ?t"
    by (rule stepped [OF queue_steps_reachable [OF demo_taken_steps demo_queued_reachable]]) (rule seeded, simp)
  have "(queue_step ^^ 2) ?t (?t\<lparr>cs_queue := newWorkQueue, cs_workers := (cs_workers ?t)[1 := Reconciling ''web'']\<rparr>)"
    by (rule take_one) (simp_all add: demo_taken_def Enqueue_def newWorkQueue_def)
  from queue_steps_reachable [OF this t] show ?thesis
    by (intro exI [of _ "?t\<lparr>cs_queue := newWorkQueue, cs_workers := (cs_workers ?t)[1 := Reconciling ''web'']\<rparr>"]) (simp add: demo_taken_def)
qed

text \<open>A worker that returned is not replaced: with all of them gone, the queue is never read again.\<close>

lemma stopped_for_good:
  assumes "ctrl_step mo s s'" "set (cs_workers s) \<subseteq> {Stopped}"
  shows "set (cs_workers s') \<subseteq> {Stopped}"
proof -
  have stopped: "cs_workers s ! i = Stopped" if "i < length (cs_workers s)" for i using that assms(2) nth_mem by fastforce
  show ?thesis using assms(1)
  proof cases
    case queue
    then show ?thesis using stopped by cases auto
  qed (use stopped assms(2) in \<open>auto simp: set_worker_def\<close>)
qed

end
