(* ===== verification/Seeding.thy ===== *)
theory Seeding
  imports Work_Queue Scheduler_Properties
begin

text \<open>
  How work reaches the queues: the event bus of \<open>internal/event/bus.go\<close>, which drops events at a full
  subscriber, the shared controller options (\<open>clock.go\<close>), and the \<open>Seed\<close> loop every controller runs,
  fed by its subscription and by a ticker. The locale \<open>seeder\<close> states what a resync promises, and is
  interpreted on the five controllers.
\<close>

subsection \<open>bus.go\<close>

type_synonym Event = "Topic \<times> string"

text \<open>Channels are numbered in the order of their creation; a channel is the events it buffers.\<close>

record Bus =
  bus_subscribers :: "Topic \<Rightarrow> nat list"
  bus_channels :: "Event list list"
  bus_bufSize :: nat

definition Bus_New :: "nat \<Rightarrow> Bus" where
  "Bus_New bufSize = \<lparr>bus_subscribers = (\<lambda>_. []), bus_channels = [], bus_bufSize = bufSize\<rparr>"

definition Subscribe :: "Topic \<Rightarrow> Bus \<Rightarrow> Bus \<times> nat" where
  "Subscribe topic b =
     (let ch = length (bus_channels b) in
      (b\<lparr>bus_channels := bus_channels b @ [[]],
         bus_subscribers := (bus_subscribers b)(topic := bus_subscribers b topic @ [ch])\<rparr>, ch))"

text \<open>A send that does not block: a full buffer drops the event. The receivers are buffered channels.\<close>

definition try_send :: "nat \<Rightarrow> Event \<Rightarrow> Event list \<Rightarrow> Event list" where
  "try_send bufSize e buffered = (if length buffered < bufSize then buffered @ [e] else buffered)"

definition Publish :: "Topic \<Rightarrow> string \<Rightarrow> Bus \<Rightarrow> Bus" where
  "Publish topic name b = b\<lparr>bus_channels :=
     fold (\<lambda>ch chans. chans[ch := try_send (bus_bufSize b) (topic, name) (chans ! ch)]) (bus_subscribers b topic) (bus_channels b)\<rparr>"

text \<open>A receive by the goroutine that owns the channel; \<open>None\<close> waits.\<close>

definition bus_receive :: "nat \<Rightarrow> Bus \<Rightarrow> (Bus \<times> Event) option" where
  "bus_receive ch b = (case bus_channels b ! ch of
       [] \<Rightarrow> None
     | e # es \<Rightarrow> Some (b\<lparr>bus_channels := (bus_channels b)[ch := es]\<rparr>, e))"

definition bus_wf :: "Bus \<Rightarrow> bool" where
  "bus_wf b \<longleftrightarrow> (\<forall>t. distinct (bus_subscribers b t) \<and> (\<forall>ch \<in> set (bus_subscribers b t). ch < length (bus_channels b)))
     \<and> (\<forall>es \<in> set (bus_channels b). length es \<le> bus_bufSize b)"

subsection \<open>clock.go\<close>

record options =
  opt_seedInterval :: duration
  opt_terminatingTimeout :: duration
  opt_runningGracePeriod :: duration

definition WithSeedInterval :: "duration \<Rightarrow> options \<Rightarrow> options" where
  "WithSeedInterval d opts = opts\<lparr>opt_seedInterval := d\<rparr>"

definition WithTerminatingTimeout :: "duration \<Rightarrow> options \<Rightarrow> options" where
  "WithTerminatingTimeout d opts = opts\<lparr>opt_terminatingTimeout := d\<rparr>"

definition WithRunningGracePeriod :: "duration \<Rightarrow> options \<Rightarrow> options" where
  "WithRunningGracePeriod d opts = opts\<lparr>opt_runningGracePeriod := d\<rparr>"

definition applyOptions :: "(options \<Rightarrow> options) list \<Rightarrow> options" where
  "applyOptions opts = fold (\<lambda>f. f) opts \<lparr>opt_seedInterval = 0, opt_terminatingTimeout = 0, opt_runningGracePeriod = 0\<rparr>"

subsection \<open>Seed\<close>

text \<open>What a \<open>Seed\<close> loop wakes up on; the resync at the start is a tick.\<close>

datatype seed_input = SeedEvent Event | SeedTick

text \<open>The topic a controller subscribes to, if any, and what a tick lists.\<close>

record Seeder =
  sd_topic :: "Topic option"
  sd_resync :: "cluster \<times> db \<Rightarrow> string list"

definition node_health_Seed :: Seeder where
  "node_health_Seed = \<lparr>sd_topic = None, sd_resync = (\<lambda>(c, d). seedOnce c)\<rparr>"

definition scheduler_Seed :: Seeder where
  "scheduler_Seed = \<lparr>sd_topic = Some TopicProjectCreated, sd_resync = (\<lambda>(c, d). resyncPending d)\<rparr>"

definition rescheduler_Seed :: Seeder where
  "rescheduler_Seed = \<lparr>sd_topic = Some TopicNodeUpdated, sd_resync = (\<lambda>(c, d). resyncNotReadyNodes c)\<rparr>"

definition failed_Seed :: Seeder where
  "failed_Seed = \<lparr>sd_topic = Some TopicProjectUpdated, sd_resync = (\<lambda>(c, d). failed_resync d)\<rparr>"

definition termination_Seed :: Seeder where
  "termination_Seed = \<lparr>sd_topic = Some TopicProjectUpdated, sd_resync = (\<lambda>(c, d). resyncTerminated d)\<rparr>"

text \<open>One turn of the loop, with the table as it is then: the names it enqueues, in order.\<close>

fun seed_names :: "Seeder \<Rightarrow> cluster \<times> db \<Rightarrow> seed_input \<Rightarrow> string list" where
  "seed_names sd s (SeedEvent (topic, name)) = [name]"
| "seed_names sd s SeedTick = sd_resync sd s"

definition seed_turn :: "Seeder \<Rightarrow> cluster \<times> db \<Rightarrow> seed_input \<Rightarrow> workQueue \<Rightarrow> workQueue" where
  "seed_turn sd s inp wq = fold Enqueue (seed_names sd s inp) wq"

subsection \<open>The bus delivers in order and forgets only when full\<close>

lemma Subscribe_wf: "bus_wf b \<Longrightarrow> bus_wf (fst (Subscribe topic b))"
  by (force simp: bus_wf_def Subscribe_def Let_def)

lemma fold_send_nth:
  "distinct chs \<Longrightarrow> \<forall>ch \<in> set chs. ch < length chans \<Longrightarrow> i < length chans \<Longrightarrow>
   fold (\<lambda>ch chans. chans[ch := f (chans ! ch)]) chs chans ! i = (if i \<in> set chs then f (chans ! i) else chans ! i)"
  by (induction chs arbitrary: chans) (auto simp: nth_list_update)

lemma fold_send_length: "length (fold (\<lambda>ch chans. chans[ch := f (chans ! ch)]) chs chans) = length chans"
  by (induction chs arbitrary: chans) auto

lemma Publish_channel:
  assumes "bus_wf b" "ch < length (bus_channels b)"
  shows "bus_channels (Publish topic name b) ! ch
     = (if ch \<in> set (bus_subscribers b topic) \<and> length (bus_channels b ! ch) < bus_bufSize b
        then bus_channels b ! ch @ [(topic, name)] else bus_channels b ! ch)"
  using assms fold_send_nth [of "bus_subscribers b topic" "bus_channels b" ch "try_send (bus_bufSize b) (topic, name)"]
  by (auto simp: Publish_def bus_wf_def try_send_def)

lemma Publish_wf:
  assumes "bus_wf b"
  shows "bus_wf (Publish topic name b)"
proof -
  have len: "length (bus_channels (Publish topic name b)) = length (bus_channels b)" by (simp add: Publish_def fold_send_length)
  have "length (bus_channels (Publish topic name b) ! ch) \<le> bus_bufSize b" if "ch < length (bus_channels b)" for ch
    using that assms by (simp add: Publish_channel [OF assms that] bus_wf_def)
  then have "\<forall>es \<in> set (bus_channels (Publish topic name b)). length es \<le> bus_bufSize b"
    unfolding all_set_conv_all_nth len by blast
  moreover have "bus_subscribers (Publish topic name b) = bus_subscribers b" "bus_bufSize (Publish topic name b) = bus_bufSize b"
    by (simp_all add: Publish_def)
  ultimately show ?thesis using assms unfolding bus_wf_def len by simp
qed

subsection \<open>Resyncs are complete\<close>

lemma fold_Enqueue_dirty: "set (wq_dirty (fold Enqueue names wq)) = set (wq_dirty wq) \<union> set names"
  by (induction names arbitrary: wq) (auto simp: Enqueue_def)

lemma fold_Enqueue_signal:
  "wq_notify (fold Enqueue names wq) \<longleftrightarrow> wq_notify wq \<or> (\<exists>n \<in> set names. n \<notin> set (wq_dirty wq))"
proof (induction names arbitrary: wq)
  case (Cons n ns)
  have "wq_notify (Enqueue n wq) \<longleftrightarrow> wq_notify wq \<or> n \<notin> set (wq_dirty wq)"
    "x \<in> set (wq_dirty (Enqueue n wq)) \<longleftrightarrow> x = n \<or> x \<in> set (wq_dirty wq)" for x
    by (auto simp: Enqueue_def)
  then show ?case by (auto simp: Cons.IH)
qed simp

text \<open>
  What a controller promises of its resync: every object that needs it is listed. \<open>ok\<close> says which
  states the promise is for.
\<close>

locale seeder =
  fixes sd :: Seeder and ok :: "cluster \<times> db \<Rightarrow> bool" and needs :: "cluster \<times> db \<Rightarrow> string \<Rightarrow> bool"
  assumes resync_complete: "ok s \<Longrightarrow> needs s name \<Longrightarrow> name \<in> set (sd_resync sd s)"
begin

lemma tick_queues:
  assumes "ok s" "needs s name"
  shows "name \<in> set (wq_dirty (seed_turn sd s SeedTick wq)) \<and> (name \<in> set (wq_dirty wq) \<or> wq_notify (seed_turn sd s SeedTick wq))"
  using resync_complete [OF assms] by (auto simp: seed_turn_def fold_Enqueue_dirty fold_Enqueue_signal)

end

text \<open>A Project's phase column is its status phase, so listing by phase misses none.\<close>

lemma phase_listed:
  assumes "db_wf d" "row_at d name = Some r"
  shows "name \<in> set (ListProjectNamesByPhase d (ps_Phase (row_status r)))"
proof -
  note mem = row_at_mem [OF assms(2)]
  then have "row_phase r = phase_text (ps_Phase (row_status r))" using assms(1) by (auto simp: db_wf_def row_wf_def)
  with mem show ?thesis by (force simp: ListProjectNamesByPhase_def ListProjectsByPhase_def named_def scanProject_def)
qed

text \<open>What each controller acts on.\<close>

definition project_in :: "(ProjectStatus \<Rightarrow> bool) \<Rightarrow> cluster \<times> db \<Rightarrow> string \<Rightarrow> bool" where
  "project_in P s name = (case row_at (snd s) name of None \<Rightarrow> False | Some r \<Rightarrow> P (row_status r))"

definition node_in :: "(NodeState \<Rightarrow> bool) \<Rightarrow> cluster \<times> db \<Rightarrow> string \<Rightarrow> bool" where
  "node_in P s name = (case GetNodeStatus (fst s) name of Inl _ \<Rightarrow> False | Inr snap \<Rightarrow> P (nss_State snap))"

definition stored_ok :: "cluster \<times> db \<Rightarrow> bool" where "stored_ok s \<longleftrightarrow> db_wf (snd s)"

lemma node_listed:
  assumes "GetNodeStatus c name = Inr snap"
  obtains n where "n \<in> set (ListNodes c)" "meta_Name (node_Meta n) = name" "ns_State (node_Status n) = nss_State snap"
proof -
  obtain r where r: "node_at c name = Some r" "nss_State snap = ns_State (node_Status (scanNode r))"
    using assms by (auto simp: GetNodeStatus_def GetNode_def split: option.splits)
  then have "r \<in> set (cl_nodes c)" "nr_name r = name" by (auto simp: node_at_def find_Some_iff)
  moreover from this have "scanNode r \<in> set (ListNodes c)" "meta_Name (node_Meta (scanNode r)) = name"
    by (simp_all add: ListNodes_def) (simp add: scanNode_def)
  ultimately show ?thesis using r(2) that by metis
qed

lemma project_listed:
  assumes "stored_ok s" "project_in P s name" "\<And>st. P st \<Longrightarrow> ps_Phase st \<in> set phases"
  shows "name \<in> set (concat (map (ListProjectNamesByPhase (snd s)) phases))"
  using assms phase_listed [of "snd s" name] by (force simp: stored_ok_def project_in_def split: option.splits)

interpretation scheduling: seeder scheduler_Seed stored_ok "project_in (\<lambda>st. ps_Phase st = ProjectPhasePending)"
proof
  fix s name assume "stored_ok s" "project_in (\<lambda>st. ps_Phase st = ProjectPhasePending) s name"
  from project_listed [OF this, of "[ProjectPhasePending]"] show "name \<in> set (sd_resync scheduler_Seed s)"
    by (simp add: scheduler_Seed_def resyncPending_def case_prod_beta)
qed

interpretation failing: seeder failed_Seed stored_ok "project_in (\<lambda>st. ps_Phase st = ProjectPhaseFailed \<or> ps_Phase st = ProjectPhaseRunning)"
proof
  fix s name assume "stored_ok s" "project_in (\<lambda>st. ps_Phase st = ProjectPhaseFailed \<or> ps_Phase st = ProjectPhaseRunning) s name"
  from project_listed [OF this, of "[ProjectPhaseFailed, ProjectPhaseRunning]"] show "name \<in> set (sd_resync failed_Seed s)"
    by (auto simp: failed_Seed_def failed_resync_def case_prod_beta)
qed

interpretation finalizing: seeder termination_Seed stored_ok "project_in AwaitsFinalization"
proof
  fix s name assume "stored_ok s" "project_in AwaitsFinalization s name"
  from project_listed [OF this, of "[ProjectPhaseTerminated, ProjectPhaseTerminating]"] show "name \<in> set (sd_resync termination_Seed s)"
    by (auto simp: termination_Seed_def resyncTerminated_def case_prod_beta AwaitsFinalization_def)
qed

interpretation watching: seeder node_health_Seed "\<lambda>_. True" "node_in (\<lambda>_. True)"
proof
  fix s name assume "node_in (\<lambda>_. True) s name"
  then show "name \<in> set (sd_resync node_health_Seed s)"
    by (auto simp: node_in_def node_health_Seed_def seedOnce_def ListNodeNames_def case_prod_beta split: sum.splits elim!: node_listed)
qed

interpretation evacuating: seeder rescheduler_Seed "\<lambda>_. True" "node_in (\<lambda>st. st = NodeStateNotReady)"
proof
  fix s name assume "node_in (\<lambda>st. st = NodeStateNotReady) s name"
  then show "name \<in> set (sd_resync rescheduler_Seed s)"
    by (auto simp: node_in_def rescheduler_Seed_def resyncNotReadyNodes_def ListNotReadyNodeNames_def case_prod_beta
        split: sum.splits elim!: node_listed)
qed

lemma scheduler_acts: "fst (scheduler_Reconcile gf env name c d) \<noteq> d \<Longrightarrow> project_in (\<lambda>st. ps_Phase st = ProjectPhasePending) (c, d) name"
  by (auto simp: scheduler_Reconcile_def GetProjectPhase_def GetProject_def project_in_def split: option.splits sum.splits if_splits)

lemma failed_acts:
  "fst (failed_Reconcile env name d) \<noteq> d \<Longrightarrow>
   project_in (\<lambda>st. ps_Phase st = ProjectPhaseFailed \<or> ps_Phase st = ProjectPhaseRunning) (c, d) name"
  by (auto simp: failed_Reconcile_def GetProjectSnapshot_def GetProject_def project_in_def snapshotOf_def split: option.splits sum.splits if_splits)

lemma termination_acts: "fst (termination_Reconcile gap sched now name d) \<noteq> d \<Longrightarrow> project_in AwaitsFinalization (c, d) name"
  by (auto simp: termination_Reconcile_def GetProjectSnapshot_def GetProject_def project_in_def AwaitsFinalization_def snapshotOf_def
      split: option.splits sum.splits if_splits)

lemma health_acts: "fst (node_health_Reconcile gap1 gap2 now name c) \<noteq> c \<Longrightarrow> node_in (\<lambda>_. True) (c, d) name"
  by (auto simp: node_health_Reconcile_def node_in_def split: sum.splits if_splits)



end
