(* ===== verification/Tokens.thy ===== *)
theory Tokens
  imports Project_Handlers Quantity
begin

text \<open>
  Who calls and what they may do: the token tables of \<open>internal/store/postgres/store.go\<close>, the
  authentication middleware (\<open>internal/server/auth/auth.go\<close>), the allow-list in front of the routes
  (\<open>internal/server/authz/authz.go\<close>) and the token handlers (\<open>internal/server/handler/token/handler.go\<close>).
  SHA-256 is the argument \<open>hash\<close> and the random part of a new token is an argument; which pattern the
  router matched is an argument of the allow-list. A transaction that locks the row it reads is one
  step; the two statements of a revocation lock different rows, so they have a gap.
\<close>

subsection \<open>Token tables\<close>

record APIToken =
  tok_ID :: int
  tok_Kind :: APITokenKind
  tok_Name :: string
  tok_CreatedBy :: string
  tok_CreatedAt :: time
  tok_RevokedAt :: "time option"

record NodeJoinToken =
  jt_ID :: int
  jt_NodeName :: string
  jt_CreatedBy :: string
  jt_CreatedAt :: time
  jt_ExpiresAt :: time
  jt_UsedAt :: "time option"
  jt_RevokedAt :: "time option"

text \<open>A row is its hash and what a read returns of it; the sequences number the rows.\<close>

record token_tables =
  tt_api :: "(string \<times> APIToken) list"
  tt_join :: "(string \<times> NodeJoinToken) list"
  tt_api_seq :: int
  tt_join_seq :: int

definition insert_api_token :: "string \<Rightarrow> APIToken \<Rightarrow> token_tables \<Rightarrow> token_tables \<times> APIToken result" where
  "insert_api_token tokenHash t0 tt =
     (if tokenHash \<in> fst ` set (tt_api tt) then (tt, Inl (DatabaseError ''duplicate key value violates unique constraint''))
      else let t = t0\<lparr>tok_ID := tt_api_seq tt\<rparr> in
        (tt\<lparr>tt_api := tt_api tt @ [(tokenHash, t)], tt_api_seq := tt_api_seq tt + 1\<rparr>, Inr t))"

definition CreateAPIToken ::
  "time \<Rightarrow> APITokenKind \<Rightarrow> string \<Rightarrow> string \<Rightarrow> string \<Rightarrow> token_tables \<Rightarrow> token_tables \<times> APIToken result" where
  "CreateAPIToken now kind name tokenHash createdBy tt =
     (case insert_api_token tokenHash \<lparr>tok_ID = 0, tok_Kind = kind, tok_Name = name, tok_CreatedBy = createdBy,
              tok_CreatedAt = now, tok_RevokedAt = None\<rparr> tt of
        (tt', Inl e) \<Rightarrow> (tt', Inl (WrappedError (''postgres: create api token for '' @ token_kind_text kind @ '':'' @ name) e))
      | (tt', Inr t) \<Rightarrow> (tt', Inr t))"

definition LookupAPIToken :: "string \<Rightarrow> token_tables \<Rightarrow> APIToken result" where
  "LookupAPIToken tokenHash tt = (case List.find (\<lambda>(h, t). h = tokenHash \<and> tok_RevokedAt t = None) (tt_api tt) of
       None \<Rightarrow> Inl (ErrNotFound '''') | Some (h, t) \<Rightarrow> Inr t)"

definition ListAPITokens :: "token_tables \<Rightarrow> APIToken list" where
  "ListAPITokens tt = sort_key tok_ID (map snd (tt_api tt))"

definition revoked_at :: "time \<Rightarrow> APIToken \<Rightarrow> APIToken" where
  "revoked_at now t = t\<lparr>tok_RevokedAt := Some (case tok_RevokedAt t of Some earlier \<Rightarrow> earlier | None \<Rightarrow> now)\<rparr>"

definition RevokeAPIToken :: "time \<Rightarrow> int \<Rightarrow> token_tables \<Rightarrow> token_tables \<times> unit result" where
  "RevokeAPIToken now tokenID tt =
     (if \<not> list_ex (\<lambda>(h, t). tok_ID t = tokenID) (tt_api tt) then (tt, Inl (ErrNotFound (''api token '' @ FormatInt tokenID)))
      else (tt\<lparr>tt_api := map (\<lambda>(h, t). (h, if tok_ID t = tokenID then revoked_at now t else t)) (tt_api tt)\<rparr>, Inr ()))"

definition CreateNodeJoinToken ::
  "time \<Rightarrow> string \<Rightarrow> string \<Rightarrow> string \<Rightarrow> time \<Rightarrow> token_tables \<Rightarrow> token_tables \<times> NodeJoinToken result" where
  "CreateNodeJoinToken now nodeName tokenHash createdBy expiresAt tt =
     (if tokenHash \<in> fst ` set (tt_join tt)
      then (tt, Inl (WrappedError (''postgres: create join token for node '' @ go_quote nodeName)
             (DatabaseError ''duplicate key value violates unique constraint'')))
      else let t = \<lparr>jt_ID = tt_join_seq tt, jt_NodeName = nodeName, jt_CreatedBy = createdBy, jt_CreatedAt = now,
                    jt_ExpiresAt = expiresAt, jt_UsedAt = None, jt_RevokedAt = None\<rparr> in
        (tt\<lparr>tt_join := tt_join tt @ [(tokenHash, t)], tt_join_seq := tt_join_seq tt + 1\<rparr>, Inr t))"

definition redeemable :: "time \<Rightarrow> string \<Rightarrow> string \<times> NodeJoinToken \<Rightarrow> bool" where
  "redeemable now joinHash row = (case row of (h, j) \<Rightarrow>
     h = joinHash \<and> jt_UsedAt j = None \<and> jt_RevokedAt j = None \<and> jt_ExpiresAt j > now)"

definition RedeemNodeJoinToken ::
  "string \<Rightarrow> string \<Rightarrow> string \<Rightarrow> time \<Rightarrow> token_tables \<Rightarrow> token_tables \<times> APIToken result" where
  "RedeemNodeJoinToken joinHash nodeName nodeTokenHash now tt =
     (case List.find (redeemable now joinHash) (tt_join tt) of
        None \<Rightarrow> (tt, Inl (ErrNotFound ''''))
      | Some (h, join) \<Rightarrow>
          if jt_NodeName join \<noteq> nodeName
          then (tt, Inl (ErrWrongNode (''join token '' @ FormatInt (jt_ID join) @ '' is for node '' @
                  go_quote (jt_NodeName join) @ '', not '' @ go_quote nodeName)))
          else let tt1 = tt\<lparr>tt_join := map (\<lambda>(h, j). (h, if jt_ID j = jt_ID join then j\<lparr>jt_UsedAt := Some now\<rparr> else j)) (tt_join tt)\<rparr>
            in case insert_api_token nodeTokenHash \<lparr>tok_ID = 0, tok_Kind = APITokenKindNode, tok_Name = nodeName,
                      tok_CreatedBy = ''join-token:'' @ FormatInt (jt_ID join), tok_CreatedAt = now, tok_RevokedAt = None\<rparr> tt1 of
                 (_, Inl e) \<Rightarrow> (tt, Inl (WrappedError (''postgres: issue node token for '' @ go_quote nodeName) e))
               | (tt2, Inr issued) \<Rightarrow> (tt2, Inr issued))"

definition node_token_live :: "string \<Rightarrow> APIToken \<Rightarrow> bool" where
  "node_token_live nodeName t \<longleftrightarrow> tok_Kind t = APITokenKindNode \<and> tok_Name t = nodeName \<and> tok_RevokedAt t = None"

definition join_token_live :: "string \<Rightarrow> NodeJoinToken \<Rightarrow> bool" where
  "join_token_live nodeName j \<longleftrightarrow> jt_NodeName j = nodeName \<and> jt_UsedAt j = None \<and> jt_RevokedAt j = None"

text \<open>The two updates of a revocation, with the numbers of rows they touch.\<close>

definition revoke_node_rows :: "time \<Rightarrow> string \<Rightarrow> token_tables \<Rightarrow> token_tables \<times> nat" where
  "revoke_node_rows now nodeName tt =
     (tt\<lparr>tt_api := map (\<lambda>(h, t). (h, if node_token_live nodeName t then t\<lparr>tok_RevokedAt := Some now\<rparr> else t)) (tt_api tt)\<rparr>,
      length (filter (\<lambda>(h, t). node_token_live nodeName t) (tt_api tt)))"

definition revoke_join_rows :: "time \<Rightarrow> string \<Rightarrow> token_tables \<Rightarrow> token_tables \<times> nat" where
  "revoke_join_rows now nodeName tt =
     (tt\<lparr>tt_join := map (\<lambda>(h, j). (h, if join_token_live nodeName j then j\<lparr>jt_RevokedAt := Some now\<rparr> else j)) (tt_join tt)\<rparr>,
      length (filter (\<lambda>(h, j). join_token_live nodeName j) (tt_join tt)))"

definition RevokeNodeTokens :: "(token_tables \<Rightarrow> token_tables) \<Rightarrow> time \<Rightarrow> string \<Rightarrow> token_tables \<Rightarrow> token_tables \<times> nat \<times> nat" where
  "RevokeNodeTokens gap now nodeName tt =
     (case revoke_node_rows now nodeName tt of (tt1, nodes) \<Rightarrow>
        case revoke_join_rows now nodeName (gap tt1) of (tt2, joins) \<Rightarrow> (tt2, nodes, joins))"

subsection \<open>auth.go\<close>

definition BreakGlassName :: string where "BreakGlassName = ''break-glass''"

text \<open>\<open>random\<close> is the base64 text of the 32 random bytes.\<close>

definition NewToken :: "string \<Rightarrow> string" where "NewToken random = ''cara_'' @ random"

definition CutPrefix :: "string \<Rightarrow> string \<Rightarrow> string option" where
  "CutPrefix s pre = (if prefix pre s then Some (drop (length pre) s) else None)"

definition NewAuthenticator :: "(string \<Rightarrow> string) \<Rightarrow> string \<Rightarrow> string option" where
  "NewAuthenticator hash breakGlassToken = (if breakGlassToken \<noteq> '''' then Some (hash breakGlassToken) else None)"

text \<open>\<open>None\<close> is \<open>ErrUnauthenticated\<close>; a lookup has no other error here.\<close>

definition Authenticate :: "(string \<Rightarrow> string) \<Rightarrow> string option \<Rightarrow> token_tables \<Rightarrow> string \<Rightarrow> Principal option" where
  "Authenticate hash breakGlassHash tt token =
     (if token = '''' then None
      else if breakGlassHash = Some (hash token) then Some \<lparr>pr_Kind = APITokenKindUser, pr_Name = BreakGlassName\<rparr>
      else case LookupAPIToken (hash token) tt of
        Inl e \<Rightarrow> None
      | Inr t \<Rightarrow> Some \<lparr>pr_Kind = tok_Kind t, pr_Name = tok_Name t\<rparr>)"

definition publicPaths :: "string list" where "publicPaths = [''/api/healthz'']"

definition isNodeJoin :: "string \<Rightarrow> string \<Rightarrow> bool" where
  "isNodeJoin method path = (method = ''POST'' \<and>
     (case CutPrefix path ''/api/v1/nodes/'' of
        None \<Rightarrow> False
      | Some rest \<Rightarrow> case CutSuffix rest ''/join'' of
          None \<Rightarrow> False
        | Some name \<Rightarrow> name \<noteq> '''' \<and> CHR ''/'' \<notin> set name))"

definition bearer :: "string \<Rightarrow> string" where
  "bearer header = TrimSpace (case CutPrefix header ''Bearer '' of Some token \<Rightarrow> token | None \<Rightarrow> '''')"

text \<open>\<open>None\<close> answers 401; otherwise the request goes on, with a principal or, where none is needed, without.\<close>

definition auth_Middleware ::
  "(string \<Rightarrow> string) \<Rightarrow> string option \<Rightarrow> token_tables \<Rightarrow> string \<Rightarrow> string \<Rightarrow> string \<Rightarrow> Principal option option" where
  "auth_Middleware hash breakGlassHash tt method path header =
     (if path \<in> set publicPaths \<or> isNodeJoin method path then Some None
      else case Authenticate hash breakGlassHash tt (bearer header) of
        None \<Rightarrow> None
      | Some p \<Rightarrow> Some (Some p))"

subsection \<open>authz.go\<close>

datatype rule = rule_allowRoute | rule_ownNode | rule_ownProjectList | rule_readableProject | rule_usedSecret

definition nodeRoutes :: "(string \<times> rule) list" where
  "nodeRoutes =
    [(''POST /api/v1/nodes'', rule_allowRoute),
     (''POST /api/v1/nodes/{name}/heartbeat'', rule_ownNode),
     (''GET /api/v1/nodes/{name}/cleanup-obligations'', rule_ownNode),
     (''GET /api/v1/projects'', rule_ownProjectList),
     (''GET /api/v1/projects/{name}'', rule_readableProject),
     (''PATCH /api/v1/projects/{name}/status'', rule_allowRoute),
     (''PUT /api/v1/projects/{name}/status/spec-applied'', rule_allowRoute),
     (''PATCH /api/v1/projects/{name}/conditions/{type}'', rule_allowRoute),
     (''DELETE /api/v1/projects/{name}/conditions/{type}'', rule_allowRoute),
     (''PUT /api/v1/projects/{name}/recovery/workload-stopped'', rule_allowRoute),
     (''PUT /api/v1/projects/{name}/recovery/resources-removed'', rule_allowRoute),
     (''PUT /api/v1/projects/{name}/recovery/committed-backup'', rule_allowRoute),
     (''PUT /api/v1/projects/{name}/recovery/managed-data-quarantined'', rule_allowRoute),
     (''PUT /api/v1/projects/{name}/backup/stanzas'', rule_allowRoute),
     (''PUT /api/v1/projects/{name}/backup/completions/{backupID}'', rule_allowRoute),
     (''GET /api/v1/secrets/{name}'', rule_usedSecret)]"

text \<open>\<open>strings.Split\<close> and \<open>strings.Trim\<close> at a single character.\<close>

fun split_char :: "char \<Rightarrow> string \<Rightarrow> string list" where
  "split_char c [] = [[]]"
| "split_char c (x # xs) = (if x = c then [] # split_char c xs
     else case split_char c xs of [] \<Rightarrow> [[x]] | s # ss \<Rightarrow> (x # s) # ss)"

definition trim_chars :: "char list \<Rightarrow> string \<Rightarrow> string" where
  "trim_chars cs s = rev (dropWhile (\<lambda>c. c \<in> set cs) (rev (dropWhile (\<lambda>c. c \<in> set cs) s)))"

definition is_wildcard :: "string \<Rightarrow> bool" where
  "is_wildcard seg \<longleftrightarrow> prefix ''{'' seg \<and> suffix ''}'' seg"

text \<open>A later segment of the same name overwrites an earlier one, as in the map.\<close>

definition pathValues :: "string \<Rightarrow> string \<Rightarrow> (string \<rightharpoonup> string)" where
  "pathValues pattern path =
     (let pattern' = (case dropWhile (\<lambda>c. c \<noteq> CHR '' '') pattern of [] \<Rightarrow> pattern | _ # p \<Rightarrow> p);
          ps = split_char (CHR ''/'') (trim_chars ''/'' pattern');
          rs = split_char (CHR ''/'') (trim_chars ''/'' path)
      in map_of (rev (map (\<lambda>(seg, r). (trim_chars ''{}'' seg, r)) (filter (\<lambda>(seg, r). is_wildcard seg) (zip ps rs)))))"

definition var :: "(string \<rightharpoonup> string) \<Rightarrow> string \<Rightarrow> string" where
  "var vars k = (case vars k of None \<Rightarrow> '''' | Some v \<Rightarrow> v)"

text \<open>A rule's decision, and the \<open>nodeRef\<close> filter it forces on the request.\<close>

definition run_rule :: "rule \<Rightarrow> db \<Rightarrow> string \<Rightarrow> (string \<rightharpoonup> string) \<Rightarrow> decision \<times> string option" where
  "run_rule rl d node vars = (case rl of
       rule_allowRoute \<Rightarrow> (allow, None)
     | rule_ownNode \<Rightarrow> (ownNode node (var vars ''name''), None)
     | rule_ownProjectList \<Rightarrow> (allow, Some node)
     | rule_readableProject \<Rightarrow> (readableProject d node (var vars ''name''), None)
     | rule_usedSecret \<Rightarrow> (usedSecret d node (var vars ''name''), None))"

datatype verdict = Serve "string option" | Refuse nat string

text \<open>\<open>pattern\<close> is what the router matched, empty for none.\<close>

definition authz_Wrap :: "db \<Rightarrow> Principal option \<Rightarrow> string \<Rightarrow> string \<Rightarrow> verdict" where
  "authz_Wrap d caller pattern path = (case caller of
       None \<Rightarrow> Serve None
     | Some p \<Rightarrow>
         if pr_Kind p \<noteq> APITokenKindNode then Serve None
         else if pattern = '''' then Serve None
         else case map_of nodeRoutes pattern of
           None \<Rightarrow> Refuse 403 ''this route is not available to nodes''
         | Some check \<Rightarrow> (case run_rule check d (pr_Name p) (pathValues pattern path) of
             (deny why, _) \<Rightarrow> Refuse 403 why
           | (hide why, _) \<Rightarrow> Refuse 404 ''not found''
           | (allow, forced) \<Rightarrow> Serve forced))"

subsection \<open>token/handler.go\<close>

definition DefaultJoinTokenTTL :: duration where "DefaultJoinTokenTTL = time_Hour"
definition MaxJoinTokenTTL :: duration where "MaxJoinTokenTTL = 7 * 24 * time_Hour"

definition APITokenKind_Valid :: "APITokenKind \<Rightarrow> bool" where
  "APITokenKind_Valid k \<longleftrightarrow> k = APITokenKindNode \<or> k = APITokenKindUser"

definition caller_text :: "Principal option \<Rightarrow> string" where
  "caller_text caller = (case caller of None \<Rightarrow> '':'' | Some p \<Rightarrow> Principal_String p)"

text \<open>The body is the decoder's error or the request; \<open>random\<close> makes the new token.\<close>

definition createToken ::
  "(string \<Rightarrow> string) \<Rightarrow> string \<Rightarrow> time \<Rightarrow> Principal option \<Rightarrow> string + APITokenKind \<times> string \<Rightarrow> token_tables
    \<Rightarrow> token_tables \<times> (APIToken \<times> string) response" where
  "createToken hash random now caller body tt =
     (case RequireAdmin caller of
        Some e \<Rightarrow> (tt, Problem e)
      | None \<Rightarrow>
          case body of
            Inl err \<Rightarrow> (tt, Problem (ValidationError ''body'' (''invalid request body: '' @ err)))
          | Inr (kind, name) \<Rightarrow>
              if \<not> APITokenKind_Valid kind
              then (tt, Problem (ValidationError ''kind'' (''kind must be '' @ go_quote ''node'' @ '' or '' @ go_quote ''user'')))
              else case ValidateName name of
                Some e \<Rightarrow> (tt, Problem (ValidationError ''name'' e))
              | None \<Rightarrow>
                  if kind = APITokenKindUser \<and> name = BreakGlassName
                  then (tt, Problem (ValidationError ''name'' ''the break-glass name is reserved''))
                  else let token = NewToken random in
                    case CreateAPIToken now kind name (hash token) (caller_text caller) tt of
                      (tt', Inl e) \<Rightarrow> (tt', Problem (StoreError e))
                    | (tt', Inr issued) \<Rightarrow> (tt', Respond 201 (issued, token)))"

definition listTokens :: "Principal option \<Rightarrow> token_tables \<Rightarrow> APIToken list response" where
  "listTokens caller tt = (case RequireAdmin caller of
       Some e \<Rightarrow> Problem e | None \<Rightarrow> Respond 200 (ListAPITokens tt))"

definition revokeToken :: "time \<Rightarrow> Principal option \<Rightarrow> string \<Rightarrow> token_tables \<Rightarrow> token_tables \<times> unit response" where
  "revokeToken now caller idText tt =
     (case RequireAdmin caller of
        Some e \<Rightarrow> (tt, Problem e)
      | None \<Rightarrow>
          case ParseInt idText of
            None \<Rightarrow> (tt, Problem (ValidationError ''id'' ''id must be an integer''))
          | Some tokenID \<Rightarrow> (case RevokeAPIToken now tokenID tt of
              (tt', Inl e) \<Rightarrow> (tt', Problem (StoreError e))
            | (tt', Inr _) \<Rightarrow> (tt', Respond 204 ())))"

text \<open>\<open>parse\<close> is \<open>time.ParseDuration\<close>; an empty body is a request without a TTL.\<close>

definition createJoinToken ::
  "(string \<Rightarrow> duration option) \<Rightarrow> (string \<Rightarrow> string) \<Rightarrow> string \<Rightarrow> time \<Rightarrow> Principal option \<Rightarrow> string \<Rightarrow> string + string
    \<Rightarrow> token_tables \<Rightarrow> token_tables \<times> (NodeJoinToken \<times> string) response" where
  "createJoinToken parse hash random now caller name body tt =
     (case RequireAdmin caller of
        Some e \<Rightarrow> (tt, Problem e)
      | None \<Rightarrow>
          case ValidateName name of
            Some e \<Rightarrow> (tt, Problem (ValidationError ''name'' e))
          | None \<Rightarrow>
              case body of
                Inl err \<Rightarrow> (tt, Problem (ValidationError ''body'' (''invalid request body: '' @ err)))
              | Inr ttlText \<Rightarrow>
                  case (if ttlText = '''' then Some DefaultJoinTokenTTL
                        else case parse ttlText of None \<Rightarrow> None
                          | Some t \<Rightarrow> if t \<le> 0 \<or> t > MaxJoinTokenTTL then None else Some t) of
                    None \<Rightarrow> (tt, Problem (ValidationError ''ttl'' ''ttl must be a duration between 1s and 168h0m0s''))
                  | Some ttl \<Rightarrow>
                      let token = NewToken random in
                      case CreateNodeJoinToken now name (hash token) (caller_text caller) (now + ttl) tt of
                        (tt', Inl e) \<Rightarrow> (tt', Problem (StoreError e))
                      | (tt', Inr issued) \<Rightarrow> (tt', Respond 201 (issued, token)))"

definition joinNode ::
  "(string \<Rightarrow> string) \<Rightarrow> string \<Rightarrow> time \<Rightarrow> string \<Rightarrow> string \<Rightarrow> token_tables \<Rightarrow> token_tables \<times> (APIToken \<times> string) response" where
  "joinNode hash random now name header tt =
     (case CutPrefix header ''Bearer '' of
        None \<Rightarrow> (tt, Problem ErrInvalidJoinToken)
      | Some rest \<Rightarrow>
          let joinToken = TrimSpace rest in
          if joinToken = '''' then (tt, Problem ErrInvalidJoinToken)
          else let nodeToken = NewToken random in
            case RedeemNodeJoinToken (hash joinToken) name (hash nodeToken) now tt of
              (tt', Inl e) \<Rightarrow> (tt', Problem (if is_not_found e then ErrInvalidJoinToken else StoreError e))
            | (tt', Inr issued) \<Rightarrow> (tt', Respond 201 (issued, nodeToken)))"

definition revokeNodeTokens ::
  "(token_tables \<Rightarrow> token_tables) \<Rightarrow> time \<Rightarrow> Principal option \<Rightarrow> string \<Rightarrow> token_tables \<Rightarrow> token_tables \<times> (nat \<times> nat) response" where
  "revokeNodeTokens gap now caller name tt =
     (case RequireAdmin caller of
        Some e \<Rightarrow> (tt, Problem e)
      | None \<Rightarrow>
          case ValidateName name of
            Some e \<Rightarrow> (tt, Problem (ValidationError ''name'' e))
          | None \<Rightarrow> (case RevokeNodeTokens gap now name tt of (tt', counts) \<Rightarrow> (tt', Respond 200 counts)))"

subsection \<open>apiserver/server.go\<close>

text \<open>Every route is behind authentication, and authorization sits inside it.\<close>

definition server_Handler ::
  "(string \<Rightarrow> string) \<Rightarrow> string option \<Rightarrow> token_tables \<Rightarrow> db \<Rightarrow> string \<Rightarrow> string \<Rightarrow> string \<Rightarrow> string \<Rightarrow> verdict" where
  "server_Handler hash breakGlassHash tt d method path header pattern =
     (case auth_Middleware hash breakGlassHash tt method path header of
        None \<Rightarrow> Refuse 401 ''a valid bearer token is required''
      | Some caller \<Rightarrow> authz_Wrap d caller pattern path)"

end
