(* ===== verification/Token_Properties.thy ===== *)
theory Token_Properties
  imports Tokens
begin

text \<open>
  What tokens are worth: the token tables as a transition system, what never goes back in it (a used or
  revoked token stays so, ids and hashes stay unique), and from that the properties of enrolment,
  revocation and of the allow-list in front of the routes.
\<close>

subsection \<open>The tables never forget\<close>

inductive token_step :: "(string \<Rightarrow> string) \<Rightarrow> token_tables \<Rightarrow> token_tables \<Rightarrow> bool" for hash :: "string \<Rightarrow> string" where
  t_create: "token_step hash tt (fst (createToken hash random now caller body tt))"
| t_revoke: "token_step hash tt (fst (revokeToken now caller idText tt))"
| t_createJoin: "token_step hash tt (fst (createJoinToken parse hash random now caller name jbody tt))"
| t_join: "token_step hash tt (fst (joinNode hash random now name header tt))"
| t_revokeNode: "token_step hash tt (fst (revoke_node_rows now name tt))"
| t_revokeJoin: "token_step hash tt (fst (revoke_join_rows now name tt))"

definition tokens_wf :: "token_tables \<Rightarrow> bool" where
  "tokens_wf tt \<longleftrightarrow> distinct (map fst (tt_api tt)) \<and> distinct (map (tok_ID \<circ> snd) (tt_api tt))
     \<and> distinct (map fst (tt_join tt)) \<and> distinct (map (jt_ID \<circ> snd) (tt_join tt))
     \<and> (\<forall>(h, t) \<in> set (tt_api tt). tok_ID t < tt_api_seq tt) \<and> (\<forall>(h, j) \<in> set (tt_join tt). jt_ID j < tt_join_seq tt)"

text \<open>What one row may become.\<close>

definition api_later :: "APIToken \<Rightarrow> APIToken \<Rightarrow> bool" where
  "api_later t t' \<longleftrightarrow> tok_ID t' = tok_ID t \<and> tok_Kind t' = tok_Kind t \<and> tok_Name t' = tok_Name t
     \<and> (tok_RevokedAt t \<noteq> None \<longrightarrow> tok_RevokedAt t' = tok_RevokedAt t)"

definition join_later :: "NodeJoinToken \<Rightarrow> NodeJoinToken \<Rightarrow> bool" where
  "join_later j j' \<longleftrightarrow> jt_ID j' = jt_ID j \<and> jt_NodeName j' = jt_NodeName j \<and> jt_ExpiresAt j' = jt_ExpiresAt j
     \<and> (jt_UsedAt j \<noteq> None \<longrightarrow> jt_UsedAt j' \<noteq> None) \<and> (jt_RevokedAt j \<noteq> None \<longrightarrow> jt_RevokedAt j' \<noteq> None)"

text \<open>Tables only grow at the end, and each row only moves on.\<close>

definition tables_later :: "token_tables \<Rightarrow> token_tables \<Rightarrow> bool" where
  "tables_later tt tt' \<longleftrightarrow>
     (\<exists>f new. tt_api tt' = map (\<lambda>(h, t). (h, f t)) (tt_api tt) @ new \<and> (\<forall>t. api_later t (f t)) \<and> (\<forall>(h, t) \<in> set new. tt_api_seq tt \<le> tok_ID t))
     \<and> (\<exists>g new. tt_join tt' = map (\<lambda>(h, j). (h, g j)) (tt_join tt) @ new \<and> (\<forall>j. join_later j (g j)) \<and> (\<forall>(h, j) \<in> set new. tt_join_seq tt \<le> jt_ID j))
     \<and> tt_api_seq tt \<le> tt_api_seq tt' \<and> tt_join_seq tt \<le> tt_join_seq tt'"

lemma api_later_simps [simp]:
  "api_later t t" "api_later t (revoked_at now t)" "tok_RevokedAt t = None \<Longrightarrow> api_later t (t\<lparr>tok_RevokedAt := x\<rparr>)"
  by (auto simp: api_later_def revoked_at_def)

lemma join_later_simps [simp]: "join_later j j" "join_later j (j\<lparr>jt_UsedAt := Some now\<rparr>)" "join_later j (j\<lparr>jt_RevokedAt := Some now\<rparr>)"
  by (auto simp: join_later_def)

lemma map_pair_id: "map (\<lambda>(h, t). (h, t)) xs = xs" by (induction xs) auto

lemma tables_laterI:
  assumes "tt_api tt' = map (\<lambda>(h, t). (h, f t)) (tt_api tt) @ new" "\<And>t. api_later t (f t)" "\<forall>(h, t) \<in> set new. tt_api_seq tt \<le> tok_ID t"
    "tt_join tt' = map (\<lambda>(h, j). (h, g j)) (tt_join tt) @ jnew" "\<And>j. join_later j (g j)"
    "\<forall>(h, j) \<in> set jnew. tt_join_seq tt \<le> jt_ID j" "tt_api_seq tt \<le> tt_api_seq tt'" "tt_join_seq tt \<le> tt_join_seq tt'"
  shows "tables_later tt tt'"
  using assms unfolding tables_later_def by blast

lemma tables_later_refl [simp]: "tables_later tt tt"
  by (rule tables_laterI [where f = "\<lambda>t. t" and g = "\<lambda>j. j" and new = "[]" and jnew = "[]"]) (simp_all add: map_pair_id)

lemma tables_later_trans:
  assumes "tables_later a b" "tables_later b c"
  shows "tables_later a c"
proof -
  obtain f new g jnew where a: "tt_api b = map (\<lambda>(h, t). (h, f t)) (tt_api a) @ new" "\<forall>t. api_later t (f t)"
    "\<forall>(h, t) \<in> set new. tt_api_seq a \<le> tok_ID t" "tt_join b = map (\<lambda>(h, j). (h, g j)) (tt_join a) @ jnew" "\<forall>j. join_later j (g j)"
    "tt_api_seq a \<le> tt_api_seq b" "\<forall>(h, j) \<in> set jnew. tt_join_seq a \<le> jt_ID j" "tt_join_seq a \<le> tt_join_seq b" using assms(1) by (auto simp: tables_later_def)
  obtain f' new' g' jnew' where b: "tt_api c = map (\<lambda>(h, t). (h, f' t)) (tt_api b) @ new'" "\<forall>t. api_later t (f' t)"
    "\<forall>(h, t) \<in> set new'. tt_api_seq b \<le> tok_ID t" "tt_join c = map (\<lambda>(h, j). (h, g' j)) (tt_join b) @ jnew'" "\<forall>j. join_later j (g' j)"
    "tt_api_seq b \<le> tt_api_seq c" "\<forall>(h, j) \<in> set jnew'. tt_join_seq b \<le> jt_ID j" "tt_join_seq b \<le> tt_join_seq c" using assms(2) by (auto simp: tables_later_def)
  show ?thesis
  proof (rule tables_laterI)
    show "tt_api c = map (\<lambda>(h, t). (h, (f' \<circ> f) t)) (tt_api a) @ (map (\<lambda>(h, t). (h, f' t)) new @ new')"
      using a(1) b(1) by (simp add: case_prod_beta comp_def)
    show "tt_join c = map (\<lambda>(h, j). (h, (g' \<circ> g) j)) (tt_join a) @ (map (\<lambda>(h, j). (h, g' j)) jnew @ jnew')"
      using a(4) b(4) by (simp add: case_prod_beta comp_def)
    show "api_later t ((f' \<circ> f) t)" for t
    proof -
      have "api_later t (f t)" "api_later (f t) (f' (f t))" using a(2) b(2) by blast+
      then show ?thesis by (auto simp: api_later_def)
    qed
    show "join_later j ((g' \<circ> g) j)" for j
    proof -
      have "join_later j (g j)" "join_later (g j) (g' (g j))" using a(5) b(5) by blast+
      then show ?thesis by (auto simp: join_later_def)
    qed
    show "\<forall>(h, t) \<in> set (map (\<lambda>(h, t). (h, f' t)) new @ new'). tt_api_seq a \<le> tok_ID t"
      using a(3,6) b(2,3) by (fastforce simp: api_later_def)
    show "\<forall>(h, j) \<in> set (map (\<lambda>(h, j). (h, g' j)) jnew @ jnew'). tt_join_seq a \<le> jt_ID j"
      using a(7,8) b(5,7) by (fastforce simp: join_later_def)
    show "tt_api_seq a \<le> tt_api_seq c" "tt_join_seq a \<le> tt_join_seq c" using a(6,8) b(6,8) by simp_all
  qed
qed

lemma insert_api_token_cases:
  obtains (dup) e where "insert_api_token h t0 tt = (tt, Inl e)" "h \<in> fst ` set (tt_api tt)" "\<not> is_not_found e"
  | (new) "insert_api_token h t0 tt = (tt\<lparr>tt_api := tt_api tt @ [(h, t0\<lparr>tok_ID := tt_api_seq tt\<rparr>)], tt_api_seq := tt_api_seq tt + 1\<rparr>,
       Inr (t0\<lparr>tok_ID := tt_api_seq tt\<rparr>))" "h \<notin> fst ` set (tt_api tt)"
  unfolding insert_api_token_def Let_def by (cases "h \<in> fst ` set (tt_api tt)") auto

lemma insert_step:
  assumes "tokens_wf tt" "h \<notin> fst ` set (tt_api tt)" "tok_ID t = tt_api_seq tt"
    "tt' = tt\<lparr>tt_api := tt_api tt @ [(h, t)], tt_api_seq := tt_api_seq tt + 1\<rparr>"
  shows "tokens_wf tt' \<and> tables_later tt tt'"
proof
  show "tokens_wf tt'" using assms by (fastforce simp: tokens_wf_def)
  show "tables_later tt tt'"
    by (rule tables_laterI [where f = "\<lambda>t. t" and g = "\<lambda>j. j" and jnew = "[]"]) (use assms in \<open>auto simp: map_pair_id\<close>)
qed

lemma rows_step:
  assumes "tokens_wf tt" "\<And>t. api_later t (f t)" "\<And>j. join_later j (g j)"
    "tt' = tt\<lparr>tt_api := map (\<lambda>(h, t). (h, f t)) (tt_api tt), tt_join := map (\<lambda>(h, j). (h, g j)) (tt_join tt)\<rparr>"
  shows "tokens_wf tt' \<and> tables_later tt tt'"
proof
  have "tok_ID (f t) = tok_ID t" "jt_ID (g j) = jt_ID j" for t j using assms(2,3) by (auto simp: api_later_def join_later_def)
  then show "tokens_wf tt'" using assms(1,4) by (fastforce simp: tokens_wf_def case_prod_beta comp_def)
  show "tables_later tt tt'" by (rule tables_laterI [where new = "[]" and jnew = "[]", OF _ assms(2) _ _ assms(3)]) (simp_all add: assms(4))
qed

abbreviation goes_on :: "token_tables \<Rightarrow> token_tables \<Rightarrow> bool" where
  "goes_on tt tt' \<equiv> tokens_wf tt' \<and> tables_later tt tt'"

lemma CreateAPIToken_step:
  assumes "tokens_wf tt"
  shows "goes_on tt (fst (CreateAPIToken now kind name h creator tt))"
proof (cases rule: insert_api_token_cases [of h "\<lparr>tok_ID = 0, tok_Kind = kind, tok_Name = name, tok_CreatedBy = creator,
    tok_CreatedAt = now, tok_RevokedAt = None\<rparr>" tt])
  case (dup e)
  then show ?thesis using assms by (simp add: CreateAPIToken_def)
next
  case new
  then show ?thesis using insert_step [OF assms new(2)] by (simp add: CreateAPIToken_def)
qed

lemma RevokeAPIToken_step: "tokens_wf tt \<Longrightarrow> goes_on tt (fst (RevokeAPIToken now i tt))"
  using rows_step [of tt "\<lambda>t. if tok_ID t = i then revoked_at now t else t" "\<lambda>j. j"]
  by (simp add: RevokeAPIToken_def map_pair_id)

lemma CreateNodeJoinToken_step:
  assumes "tokens_wf tt"
  shows "goes_on tt (fst (CreateNodeJoinToken now node h creator expires tt))"
proof (cases "h \<in> fst ` set (tt_join tt)")
  case True
  then show ?thesis using assms by (simp add: CreateNodeJoinToken_def)
next
  case False
  let ?tt = "fst (CreateNodeJoinToken now node h creator expires tt)"
  have "tokens_wf ?tt" using assms False by (fastforce simp: tokens_wf_def CreateNodeJoinToken_def Let_def)
  moreover have "tables_later tt ?tt"
    by (rule tables_laterI [where f = "\<lambda>t. t" and g = "\<lambda>j. j" and new = "[]"]) (use False in \<open>auto simp: map_pair_id CreateNodeJoinToken_def Let_def\<close>)
  ultimately show ?thesis by simp
qed

text \<open>A redemption fails, leaving the tables, or uses up its join token and issues one Node token.\<close>

definition mark_used :: "time \<Rightarrow> int \<Rightarrow> token_tables \<Rightarrow> token_tables" where
  "mark_used now i tt = tt\<lparr>tt_join := map (\<lambda>(h, j). (h, if jt_ID j = i then j\<lparr>jt_UsedAt := Some now\<rparr> else j)) (tt_join tt)\<rparr>"

lemma mark_used_simps [simp]: "tt_api (mark_used now i tt) = tt_api tt" "tt_api_seq (mark_used now i tt) = tt_api_seq tt"
  by (simp_all add: mark_used_def)

lemma mark_used_step: "tokens_wf tt \<Longrightarrow> goes_on tt (mark_used now i tt)"
  using rows_step [of tt "\<lambda>t. t" "\<lambda>j. if jt_ID j = i then j\<lparr>jt_UsedAt := Some now\<rparr> else j"] by (simp add: mark_used_def map_pair_id)

lemma Redeem_cases:
  obtains (refused) e where "RedeemNodeJoinToken joinHash node nodeHash now tt = (tt, Inl e)"
      "(\<nexists>j. (joinHash, j) \<in> set (tt_join tt) \<and> redeemable now joinHash (joinHash, j)) \<Longrightarrow> is_not_found e"
  | (issued) join where "(joinHash, join) \<in> set (tt_join tt)" "redeemable now joinHash (joinHash, join)" "jt_NodeName join = node"
      "nodeHash \<notin> fst ` set (tt_api tt)"
      "RedeemNodeJoinToken joinHash node nodeHash now tt =
        (let t = \<lparr>tok_ID = tt_api_seq tt, tok_Kind = APITokenKindNode, tok_Name = node,
               tok_CreatedBy = ''join-token:'' @ FormatInt (jt_ID join), tok_CreatedAt = now, tok_RevokedAt = None\<rparr>
         in ((mark_used now (jt_ID join) tt)\<lparr>tt_api := tt_api tt @ [(nodeHash, t)], tt_api_seq := tt_api_seq tt + 1\<rparr>, Inr t))"
proof (cases "List.find (redeemable now joinHash) (tt_join tt)")
  case None
  then show ?thesis by (intro refused [of "ErrNotFound ''''"]) (simp_all add: RedeemNodeJoinToken_def)
next
  case (Some row)
  obtain h join where row: "row = (h, join)" by force
  with find_SomeD [OF Some] have mem: "(joinHash, join) \<in> set (tt_join tt)" "redeemable now joinHash (joinHash, join)" and h: "h = joinHash"
    by (auto simp: redeemable_def)
  let ?t = "\<lparr>tok_ID = 0, tok_Kind = APITokenKindNode, tok_Name = node, tok_CreatedBy = ''join-token:'' @ FormatInt (jt_ID join),
     tok_CreatedAt = now, tok_RevokedAt = None\<rparr>"
  note find = Some [unfolded row h]
  show ?thesis
  proof (cases "jt_NodeName join = node")
    case False
    then show ?thesis by (intro refused) (use find mem in \<open>auto simp: RedeemNodeJoinToken_def\<close>)
  next
    case True
    note body = RedeemNodeJoinToken_def [of joinHash node nodeHash now tt, unfolded find, simplified, folded mark_used_def, unfolded Let_def]
    show ?thesis
    proof (cases rule: insert_api_token_cases [of nodeHash ?t "mark_used now (jt_ID join) tt"])
      case (dup e)
      with body True mem show ?thesis by (intro refused) auto
    next
      case new
      with body True mem show ?thesis by (intro issued) (simp_all add: Let_def)
    qed
  qed
qed

lemma Redeem_step:
  assumes "tokens_wf tt"
  shows "goes_on tt (fst (RedeemNodeJoinToken joinHash node nodeHash now tt))"
proof (cases rule: Redeem_cases [of joinHash node nodeHash now tt])
  case (refused e)
  then show ?thesis using assms by simp
next
  case (issued join)
  let ?m = "mark_used now (jt_ID join) tt"
  have "goes_on tt ?m" by (rule mark_used_step [OF assms])
  moreover from this have "goes_on ?m (fst (RedeemNodeJoinToken joinHash node nodeHash now tt))"
    by (intro insert_step [of ?m nodeHash]) (use issued in \<open>simp_all add: Let_def\<close>)
  ultimately show ?thesis using tables_later_trans by blast
qed

lemma revoke_rows_step:
  assumes "tokens_wf tt"
  shows "goes_on tt (fst (revoke_node_rows now name tt))" "goes_on tt (fst (revoke_join_rows now name tt))"
  using rows_step [OF assms, of "\<lambda>t. if node_token_live name t then t\<lparr>tok_RevokedAt := Some now\<rparr> else t" "\<lambda>j. j"]
    rows_step [OF assms, of "\<lambda>t. t" "\<lambda>j. if join_token_live name j then j\<lparr>jt_RevokedAt := Some now\<rparr> else j"]
  by (simp_all add: revoke_node_rows_def revoke_join_rows_def map_pair_id node_token_live_def)

lemma token_step_later:
  assumes "token_step hash tt tt'" "tokens_wf tt"
  shows "goes_on tt tt'"
  using assms
proof (induction rule: token_step.induct)
  case (t_create tt random now caller body)
  then show ?case
    using CreateAPIToken_step [of tt now] by (auto simp: createToken_def Let_def case_prod_beta split: option.split sum.split)
next
  case (t_revoke tt now caller idText)
  then show ?case using RevokeAPIToken_step [of tt now] by (auto simp: revokeToken_def case_prod_beta split: option.split sum.split)
next
  case (t_createJoin tt parse random now caller name jbody)
  then show ?case
    using CreateNodeJoinToken_step [of tt now] by (auto simp: createJoinToken_def Let_def case_prod_beta split: option.split sum.split)
next
  case (t_join tt random now name header)
  then show ?case using Redeem_step [of tt] by (auto simp: joinNode_def Let_def case_prod_beta split: option.split sum.split)
qed (simp_all add: revoke_rows_step)

lemma token_steps_later: "(token_step hash)\<^sup>*\<^sup>* tt tt' \<Longrightarrow> tokens_wf tt \<Longrightarrow> goes_on tt tt'"
  by (induction rule: rtranclp_induct) (auto dest: token_step_later intro: tables_later_trans)

subsection \<open>Reading the tables\<close>

lemma LookupAPIToken_iff:
  assumes "tokens_wf tt"
  shows "LookupAPIToken h tt = Inr t \<longleftrightarrow> (h, t) \<in> set (tt_api tt) \<and> tok_RevokedAt t = None"
proof -
  have "distinct (map fst (tt_api tt))" using assms by (simp add: tokens_wf_def)
  then have same: "t' = t" if "(h, t) \<in> set (tt_api tt)" "(h, t') \<in> set (tt_api tt)" for t' using that eq_key_imp_eq_value by fastforce
  show ?thesis
  proof (cases "List.find (\<lambda>(h', t). h' = h \<and> tok_RevokedAt t = None) (tt_api tt)")
    case None
    then show ?thesis using find_NoneD [OF None] by (auto simp: LookupAPIToken_def)
  next
    case (Some p)
    with find_SomeD [OF Some] same show ?thesis by (auto simp: LookupAPIToken_def)
  qed
qed

lemma Authenticate_lookup:
  "token \<noteq> '''' \<Longrightarrow> bg \<noteq> Some (hash token) \<Longrightarrow> LookupAPIToken (hash token) tt = Inr t \<Longrightarrow>
   Authenticate hash bg tt token = Some \<lparr>pr_Kind = tok_Kind t, pr_Name = tok_Name t\<rparr>"
  by (simp add: Authenticate_def)

lemma Authenticate_node:
  assumes "Authenticate hash bg tt token = Some \<lparr>pr_Kind = APITokenKindNode, pr_Name = name\<rparr>"
  obtains t where "LookupAPIToken (hash token) tt = Inr t" "tok_Kind t = APITokenKindNode" "tok_Name t = name"
  using assms by (auto simp: Authenticate_def split: if_splits sum.splits)

text \<open>A used or revoked join token is never found again.\<close>

definition join_spent :: "token_tables \<Rightarrow> string \<Rightarrow> bool" where
  "join_spent tt h \<longleftrightarrow> (\<exists>j. (h, j) \<in> set (tt_join tt) \<and> (jt_UsedAt j \<noteq> None \<or> jt_RevokedAt j \<noteq> None))"

lemma join_spent_later:
  assumes "tables_later tt tt'" "join_spent tt h"
  shows "join_spent tt' h"
proof -
  obtain g new where g: "tt_join tt' = map (\<lambda>(h, j). (h, g j)) (tt_join tt) @ new" "\<forall>j. join_later j (g j)"
    using assms(1) by (auto simp: tables_later_def)
  obtain j where j: "(h, j) \<in> set (tt_join tt)" "jt_UsedAt j \<noteq> None \<or> jt_RevokedAt j \<noteq> None" using assms(2) by (auto simp: join_spent_def)
  have "join_later j (g j)" using g(2) by blast
  with j have "(h, g j) \<in> set (tt_join tt')" "jt_UsedAt (g j) \<noteq> None \<or> jt_RevokedAt (g j) \<noteq> None"
    by (auto simp: g(1) join_later_def intro: rev_image_eqI)
  then show ?thesis unfolding join_spent_def by blast
qed

lemma join_spent_refused:
  assumes "tokens_wf tt" "join_spent tt (hash (bearer header))"
  shows "joinNode hash random now name header tt = (tt, Problem ErrInvalidJoinToken)"
proof (cases "CutPrefix header ''Bearer ''")
  case None
  then show ?thesis by (simp add: joinNode_def)
next
  case (Some token)
  then have b: "bearer header = TrimSpace token" by (simp add: bearer_def)
  obtain j where j: "(hash (TrimSpace token), j) \<in> set (tt_join tt)" "jt_UsedAt j \<noteq> None \<or> jt_RevokedAt j \<noteq> None"
    using assms(2) by (auto simp: join_spent_def b)
  have "distinct (map fst (tt_join tt))" using assms(1) by (simp add: tokens_wf_def)
  then have none: "\<nexists>j'. (hash (TrimSpace token), j') \<in> set (tt_join tt) \<and> redeemable now (hash (TrimSpace token)) (hash (TrimSpace token), j')"
    using j by (auto simp: redeemable_def dest: eq_key_imp_eq_value)
  show ?thesis
  proof (cases rule: Redeem_cases [of "hash (TrimSpace token)" name "hash (NewToken random)" now tt])
    case (refused e)
    then show ?thesis using Some none by (simp add: joinNode_def Let_def)
  next
    case (issued join)
    with none show ?thesis by blast
  qed
qed

lemma joinNode_issued:
  assumes "joinNode hash random now name header tt = (tt', Respond 201 issued)"
  obtains res where "RedeemNodeJoinToken (hash (bearer header)) name (hash (NewToken random)) now tt = (tt', Inr res)"
    "issued = (res, NewToken random)"
proof -
  obtain rest where rest: "CutPrefix header ''Bearer '' = Some rest" "TrimSpace rest \<noteq> ''''"
    using assms by (auto simp: joinNode_def Let_def split: option.splits if_splits)
  then have "bearer header = TrimSpace rest" by (simp add: bearer_def)
  moreover obtain res where "RedeemNodeJoinToken (hash (TrimSpace rest)) name (hash (NewToken random)) now tt = (tt', Inr res)"
      "issued = (res, NewToken random)"
    using assms rest by (auto simp: joinNode_def Let_def split: prod.splits sum.splits)
  ultimately show ?thesis using that by simp
qed

text \<open>
  C29: a join token enrols one Agent, once. When a join is answered 201, the presented token was issued
  for that Node, was unused, unrevoked and unexpired; the token it got back authenticates as that Node
  and no other; and after any further requests to the token routes, in any order, presenting the same
  join token again is refused with 401 and changes nothing.
\<close>

theorem join_token_works_once:
  assumes wf: "tokens_wf tt" and run: "joinNode hash random now name header tt = (tt', Respond 201 (issued, token))"
    and bg: "bg \<noteq> Some (hash token)" and later: "(token_step hash)\<^sup>*\<^sup>* tt' tt''"
  shows "(\<exists>j. (hash (bearer header), j) \<in> set (tt_join tt) \<and> jt_NodeName j = name \<and> jt_UsedAt j = None
            \<and> jt_RevokedAt j = None \<and> now < jt_ExpiresAt j)
    \<and> Authenticate hash bg tt' token = Some \<lparr>pr_Kind = APITokenKindNode, pr_Name = name\<rparr>
    \<and> joinNode hash random' now' name' header tt'' = (tt'', Problem ErrInvalidJoinToken)"
proof -
  obtain rest: "RedeemNodeJoinToken (hash (bearer header)) name (hash (NewToken random)) now tt = (tt', Inr issued)" "token = NewToken random"
    using joinNode_issued [OF run] by auto
  show ?thesis
  proof (cases rule: Redeem_cases [of "hash (bearer header)" name "hash (NewToken random)" now tt])
    case (refused e)
    with rest(1) show ?thesis by simp
  next
    case (issued join)
    let ?t = "\<lparr>tok_ID = tt_api_seq tt, tok_Kind = APITokenKindNode, tok_Name = name,
               tok_CreatedBy = ''join-token:'' @ FormatInt (jt_ID join), tok_CreatedAt = now, tok_RevokedAt = None\<rparr>"
    have tt': "tt' = (mark_used now (jt_ID join) tt)\<lparr>tt_api := tt_api tt @ [(hash token, ?t)], tt_api_seq := tt_api_seq tt + 1\<rparr>"
      using issued(5) rest by (simp add: Let_def)
    have wf': "goes_on tt tt'" using Redeem_step [OF wf, of "hash (bearer header)" name "hash (NewToken random)" now] by (simp add: rest(1))
    then have "LookupAPIToken (hash token) tt' = Inr ?t" by (simp add: LookupAPIToken_iff tt')
    moreover have "token \<noteq> ''''" by (simp add: rest(2) NewToken_def)
    ultimately have auth: "Authenticate hash bg tt' token = Some \<lparr>pr_Kind = APITokenKindNode, pr_Name = name\<rparr>"
      using Authenticate_lookup [of token bg hash tt' ?t] bg by simp
    have "(hash (bearer header), join\<lparr>jt_UsedAt := Some now\<rparr>) \<in> set (tt_join tt')"
      using issued(1) by (force simp: tt' mark_used_def)
    then have "join_spent tt' (hash (bearer header))" unfolding join_spent_def by force
    with token_steps_later [OF later] wf' have "joinNode hash random' now' name' header tt'' = (tt'', Problem ErrInvalidJoinToken)"
      by (intro join_spent_refused) (auto intro: join_spent_later)
    moreover have "\<exists>j. (hash (bearer header), j) \<in> set (tt_join tt) \<and> jt_NodeName j = name \<and> jt_UsedAt j = None \<and> jt_RevokedAt j = None \<and> now < jt_ExpiresAt j"
      using issued(1-3) by (auto simp: redeemable_def)
    ultimately show ?thesis using auth by blast
  qed
qed

subsection \<open>Revocation\<close>

lemma RevokeNodeTokens_quiet:
  assumes "tokens_wf tt" "RevokeNodeTokens id now name tt = (tt', n)"
  shows "goes_on tt tt'" "\<forall>(h, t) \<in> set (tt_api tt'). \<not> node_token_live name t" "\<forall>(h, j) \<in> set (tt_join tt'). \<not> join_token_live name j"
    "tt_api_seq tt' = tt_api_seq tt" "tt_join_seq tt' = tt_join_seq tt"
proof -
  let ?m = "fst (revoke_node_rows now name tt)"
  have tt': "tt' = fst (revoke_join_rows now name ?m)" using assms(2) by (simp add: RevokeNodeTokens_def case_prod_beta)
  have m: "goes_on tt ?m" using revoke_rows_step(1) [OF assms(1)] .
  with revoke_rows_step(2) [of ?m now name] show "goes_on tt tt'" unfolding tt' by (blast intro: tables_later_trans)
  show "\<forall>(h, t) \<in> set (tt_api tt'). \<not> node_token_live name t" "\<forall>(h, j) \<in> set (tt_join tt'). \<not> join_token_live name j"
    "tt_api_seq tt' = tt_api_seq tt" "tt_join_seq tt' = tt_join_seq tt"
    by (auto simp: tt' revoke_join_rows_def revoke_node_rows_def node_token_live_def join_token_live_def split: if_splits)
qed

text \<open>A row of later tables that was there before was not more alive then.\<close>

lemma live_before:
  assumes "tables_later tt tt'"
  shows "(h, t') \<in> set (tt_api tt') \<Longrightarrow> node_token_live name t' \<Longrightarrow>
      tt_api_seq tt \<le> tok_ID t' \<or> (\<exists>t. (h, t) \<in> set (tt_api tt) \<and> node_token_live name t)"
    and "(h, j') \<in> set (tt_join tt') \<Longrightarrow> join_token_live name j' \<Longrightarrow>
      tt_join_seq tt \<le> jt_ID j' \<or> (\<exists>j. (h, j) \<in> set (tt_join tt) \<and> join_token_live name j)"
proof -
  obtain f new g jnew where l: "tt_api tt' = map (\<lambda>(h, t). (h, f t)) (tt_api tt) @ new" "\<forall>t. api_later t (f t)"
    "\<forall>(h, t) \<in> set new. tt_api_seq tt \<le> tok_ID t" "tt_join tt' = map (\<lambda>(h, j). (h, g j)) (tt_join tt) @ jnew" "\<forall>j. join_later j (g j)"
    "\<forall>(h, j) \<in> set jnew. tt_join_seq tt \<le> jt_ID j" using assms by (auto simp: tables_later_def)
  show "tt_api_seq tt \<le> tok_ID t' \<or> (\<exists>t. (h, t) \<in> set (tt_api tt) \<and> node_token_live name t)"
    if "(h, t') \<in> set (tt_api tt')" "node_token_live name t'"
  proof (cases "(h, t') \<in> set new")
    case True
    with l(3) show ?thesis by auto
  next
    case False
    with that(1) obtain t where "(h, t) \<in> set (tt_api tt)" "t' = f t" by (auto simp: l(1))
    moreover have "api_later t (f t)" using l(2) by blast
    ultimately show ?thesis using that(2) by (auto simp: api_later_def node_token_live_def)
  qed
  show "tt_join_seq tt \<le> jt_ID j' \<or> (\<exists>j. (h, j) \<in> set (tt_join tt) \<and> join_token_live name j)"
    if "(h, j') \<in> set (tt_join tt')" "join_token_live name j'"
  proof (cases "(h, j') \<in> set jnew")
    case True
    with l(6) show ?thesis by auto
  next
    case False
    with that(1) obtain j where "(h, j) \<in> set (tt_join tt)" "j' = g j" by (auto simp: l(4))
    moreover have "join_later j (g j)" using l(5) by blast
    ultimately show ?thesis using that(2) by (auto simp: join_later_def join_token_live_def)
  qed
qed

text \<open>
  C30: a revoked Node is locked out. After a revocation that nothing interferes with, and whatever token
  requests follow, a caller that authenticates as the Node holds a token issued after the revocation,
  and a join for the Node that succeeds presents a join token issued after it.
\<close>

theorem revoked_node_locked_out:
  assumes wf: "tokens_wf tt" and run: "revokeNodeTokens id now caller name tt = (tt', Respond 200 counts)"
    and later: "(token_step hash)\<^sup>*\<^sup>* tt' tt''"
  shows "(Authenticate hash bg tt'' token = Some \<lparr>pr_Kind = APITokenKindNode, pr_Name = name\<rparr> \<longrightarrow>
       (\<exists>t. LookupAPIToken (hash token) tt'' = Inr t \<and> tt_api_seq tt \<le> tok_ID t))
    \<and> (snd (joinNode hash random now' name header tt'') = Respond 201 issued \<longrightarrow>
       (\<exists>j. (hash (bearer header), j) \<in> set (tt_join tt'') \<and> tt_join_seq tt \<le> jt_ID j))"
proof -
  have rev: "RevokeNodeTokens id now name tt = (tt', counts)"
    using run by (auto simp: revokeNodeTokens_def split: option.splits prod.splits)
  note q = RevokeNodeTokens_quiet [OF wf rev]
  have l: "goes_on tt' tt''" using token_steps_later [OF later] q(1) by blast
  have api: "tt_api_seq tt \<le> tok_ID t" if "LookupAPIToken (hash token) tt'' = Inr t" "tok_Kind t = APITokenKindNode" "tok_Name t = name" for t
    using that l live_before(1) [of tt' tt'' "hash token" t name] q(2,4) by (auto simp: LookupAPIToken_iff node_token_live_def)
  have "\<exists>j. (hash (bearer header), j) \<in> set (tt_join tt'') \<and> tt_join_seq tt \<le> jt_ID j"
    if won: "snd (joinNode hash random now' name header tt'') = Respond 201 issued"
  proof -
    obtain res where rest: "RedeemNodeJoinToken (hash (bearer header)) name (hash (NewToken random)) now' tt''
        = (fst (joinNode hash random now' name header tt''), Inr res)"
      using joinNode_issued [of hash random now' name header tt'' "fst (joinNode hash random now' name header tt'')" issued] won
      by (metis prod.collapse)
    show ?thesis
    proof (cases rule: Redeem_cases [of "hash (bearer header)" name "hash (NewToken random)" now' tt''])
      case (refused e)
      with rest show ?thesis by simp
    next
      case (issued join)
      then have "join_token_live name join" by (simp add: redeemable_def join_token_live_def)
      then show ?thesis using live_before(2) [of tt' tt'' "hash (bearer header)" join name] issued(1) l q(3,5)
        by auto
    qed
  qed
  then show ?thesis using api by (auto elim!: Authenticate_node)
qed

subsection \<open>Concrete tables\<close>

definition demo_hash :: "string \<Rightarrow> string" where "demo_hash s = CHR ''#'' # s"

definition demo_admin :: "Principal option" where "demo_admin = Some \<lparr>pr_Kind = APITokenKindUser, pr_Name = ''ops''\<rparr>"

definition empty_tokens :: token_tables where
  "empty_tokens = \<lparr>tt_api = [], tt_join = [], tt_api_seq = 1, tt_join_seq = 1\<rparr>"

definition demo_issued :: token_tables where
  "demo_issued = fst (createJoinToken (\<lambda>_. None) demo_hash ''r1'' 100 demo_admin ''n1'' (Inr '''') empty_tokens)"

definition demo_joined :: token_tables where
  "demo_joined = fst (joinNode demo_hash ''r2'' 101 ''n1'' ''Bearer cara_r1'' demo_issued)"

lemma demo_issued_wf: "tokens_wf demo_issued"
proof -
  have "tokens_wf empty_tokens" by (simp add: tokens_wf_def empty_tokens_def)
  from token_step_later [OF t_createJoin this] show ?thesis unfolding demo_issued_def by blast
qed

lemma demo_joined_wf: "tokens_wf demo_joined"
  using token_step_later [OF t_join demo_issued_wf] unfolding demo_joined_def by blast

lemma demo_join_run: "\<exists>issued. joinNode demo_hash ''r2'' 101 ''n1'' ''Bearer cara_r1'' demo_issued = (demo_joined, Respond 201 (issued, ''cara_r2''))"
proof -
  have "case snd (joinNode demo_hash ''r2'' 101 ''n1'' ''Bearer cara_r1'' demo_issued) of
      Respond n (t, token) \<Rightarrow> n = 201 \<and> token = ''cara_r2'' | Problem e \<Rightarrow> False" by code_simp
  then show ?thesis unfolding demo_joined_def by (auto simp: prod_eq_iff split: response.splits)
qed

theorem join_token_works_once_witness:
  "Authenticate demo_hash None demo_joined ''cara_r2'' = Some \<lparr>pr_Kind = APITokenKindNode, pr_Name = ''n1''\<rparr>
   \<and> joinNode demo_hash ''r3'' 102 ''n1'' ''Bearer cara_r1'' demo_joined = (demo_joined, Problem ErrInvalidJoinToken)"
proof -
  obtain issued where "joinNode demo_hash ''r2'' 101 ''n1'' ''Bearer cara_r1'' demo_issued = (demo_joined, Respond 201 (issued, ''cara_r2''))"
    using demo_join_run by blast
  from join_token_works_once [OF demo_issued_wf this _ rtranclp.rtrancl_refl, of None "''r3''" 102 "''n1''"] show ?thesis by simp
qed

text \<open>
  A join that commits between the two statements of a revocation escapes it: the new Node token did not
  exist for the first, and its join token is used for the second. Run before or after the revocation,
  the same join leaves no live token.
\<close>

lemma revoke_races_with_join:
  "(let join = (\<lambda>tt. fst (joinNode demo_hash ''r2'' 101 ''n1'' ''Bearer cara_r1'' tt)) in
    Authenticate demo_hash None (fst (revokeNodeTokens join 101 demo_admin ''n1'' demo_issued)) ''cara_r2''
      = Some \<lparr>pr_Kind = APITokenKindNode, pr_Name = ''n1''\<rparr>
    \<and> Authenticate demo_hash None (fst (revokeNodeTokens (\<lambda>tt. tt) 101 demo_admin ''n1'' (join demo_issued))) ''cara_r2'' = None
    \<and> Authenticate demo_hash None (join (fst (revokeNodeTokens (\<lambda>tt. tt) 101 demo_admin ''n1'' demo_issued))) ''cara_r2'' = None)"
  by code_simp

theorem revoked_node_locked_out_witness:
  "Authenticate demo_hash None (fst (revokeNodeTokens id 102 demo_admin ''n1'' demo_joined)) ''cara_r2''
     \<noteq> Some \<lparr>pr_Kind = APITokenKindNode, pr_Name = ''n1''\<rparr>"
proof -
  have c: "case snd (revokeNodeTokens id 102 demo_admin ''n1'' demo_joined) of Respond n x \<Rightarrow> n = 200 | Problem e \<Rightarrow> False"
    "case LookupAPIToken (demo_hash ''cara_r2'') (fst (revokeNodeTokens id 102 demo_admin ''n1'' demo_joined)) of
       Inl e \<Rightarrow> True | Inr t \<Rightarrow> tok_ID t < tt_api_seq demo_joined" by code_simp+
  then obtain counts where "revokeNodeTokens id 102 demo_admin ''n1'' demo_joined
      = (fst (revokeNodeTokens id 102 demo_admin ''n1'' demo_joined), Respond 200 counts)"
    by (auto simp: prod_eq_iff split: response.splits)
  from revoked_node_locked_out [OF demo_joined_wf this rtranclp.rtrancl_refl, of demo_hash None "''cara_r2''"] c(2)
  show ?thesis by (auto split: sum.splits)
qed

subsection \<open>What a caller reaches\<close>



end
