(* ===== verification/Secrets.thy ===== *)
theory Secrets
  imports Project_Handlers
begin

text \<open>
  Secrets: the Secret half of \<open>internal/store/postgres/store.go\<close> and the handlers of
  \<open>internal/server/handler/secret/handler.go\<close>. A Secret has no phase and publishes nothing, so its rows
  are a table of their own here.
\<close>

subsection \<open>Data\<close>

record SecretDataItem =
  sdi_Key :: string
  sdi_Value :: string

record SecretSpec =
  ssp_Data :: "SecretDataItem list"

record Secret =
  sec_TypeMeta :: TypeMeta
  sec_Meta :: ObjectMeta
  sec_Spec :: SecretSpec

definition kindSecret :: string where "kindSecret = ''Secret''"

record srow =
  sr_namespace :: string
  sr_name :: string
  sr_uid :: string
  sr_spec :: SecretSpec
  sr_labels :: "string \<rightharpoonup> string"
  sr_annotations :: "string \<rightharpoonup> string"
  sr_created_at :: time
  sr_updated_at :: time
  sr_resource_version :: int

type_synonym secrets = "srow list"

subsection \<open>Store\<close>

definition in_namespace :: "string \<Rightarrow> string" where
  "in_namespace ns = (if ns = '''' then DefaultNamespace else ns)"

definition CreateSecret :: "string \<Rightarrow> time \<Rightarrow> Secret \<Rightarrow> secrets \<Rightarrow> secrets \<times> Secret result" where
  "CreateSecret uid now secret rows =
     (let m = sec_Meta secret; ns = in_namespace (meta_Namespace m) in
      if list_ex (\<lambda>r. sr_namespace r = ns \<and> sr_name r = meta_Name m \<or> sr_uid r = uid) rows
      then (rows, Inl (ErrAlreadyExists ''''))
      else (rows @ [\<lparr>sr_namespace = ns, sr_name = meta_Name m, sr_uid = uid, sr_spec = sec_Spec secret,
                     sr_labels = meta_Labels m, sr_annotations = meta_Annotations m, sr_created_at = now,
                     sr_updated_at = now, sr_resource_version = 1\<rparr>],
            Inr (secret\<lparr>sec_Meta := m\<lparr>meta_CreatedAt := now, meta_UpdatedAt := now, meta_UID := uid,
                   meta_Namespace := ns, meta_ResourceVersion := 1\<rparr>\<rparr>)))"

definition scanSecret :: "srow \<Rightarrow> Secret" where
  "scanSecret r = \<lparr>sec_TypeMeta = \<lparr>tm_APIVersion = APIVersion, tm_Kind = kindSecret\<rparr>,
     sec_Meta = \<lparr>meta_Name = sr_name r, meta_UID = sr_uid r, meta_Namespace = sr_namespace r,
       meta_ResourceVersion = sr_resource_version r, meta_SpecRevision = 0, meta_Labels = sr_labels r,
       meta_Annotations = sr_annotations r, meta_CreatedAt = sr_created_at r, meta_UpdatedAt = sr_updated_at r\<rparr>,
     sec_Spec = sr_spec r\<rparr>"

definition secret_named :: "string \<Rightarrow> string \<Rightarrow> srow \<Rightarrow> bool" where
  "secret_named ns name r \<longleftrightarrow> sr_namespace r = ns \<and> sr_name r = name"

definition GetSecret :: "secrets \<Rightarrow> string \<Rightarrow> Secret result" where
  "GetSecret rows name = (case List.find (secret_named DefaultNamespace name) rows of
       None \<Rightarrow> Inl (ErrNotFound '''') | Some r \<Rightarrow> Inr (scanSecret r))"

definition ListSecrets :: "secrets \<Rightarrow> Secret list" where
  "ListSecrets rows = map scanSecret (filter (\<lambda>r. sr_namespace r = DefaultNamespace) rows)"

text \<open>The statement changes spec, labels and annotations; the caller's object gets the new version.\<close>

definition UpdateSecret :: "time \<Rightarrow> Secret \<Rightarrow> secrets \<Rightarrow> secrets \<times> Secret result" where
  "UpdateSecret now secret rows =
     (let m = sec_Meta secret; ns = in_namespace (meta_Namespace m);
          set = (\<lambda>r. r\<lparr>sr_spec := sec_Spec secret, sr_labels := meta_Labels m, sr_annotations := meta_Annotations m,
                  sr_updated_at := now, sr_resource_version := sr_resource_version r + 1\<rparr>)
      in case List.find (secret_named ns (meta_Name m)) rows of
           None \<Rightarrow> (rows, Inl (ErrNotFound (''secret '' @ go_quote (meta_Name m))))
         | Some r \<Rightarrow> (map (\<lambda>r. if secret_named ns (meta_Name m) r then set r else r) rows,
             Inr (secret\<lparr>sec_Meta := m\<lparr>meta_UpdatedAt := now, meta_Namespace := ns,
                    meta_ResourceVersion := sr_resource_version r + 1\<rparr>\<rparr>)))"

definition DeleteSecret :: "string \<Rightarrow> secrets \<Rightarrow> secrets \<times> unit result" where
  "DeleteSecret name rows =
     (if \<not> list_ex (secret_named DefaultNamespace name) rows then (rows, Inl (ErrNotFound (''secret '' @ go_quote name)))
      else (filter (\<lambda>r. \<not> secret_named DefaultNamespace name r) rows, Inr ()))"

subsection \<open>Handlers\<close>

fun validate_data :: "string list \<Rightarrow> SecretDataItem list \<Rightarrow> api_error option" where
  "validate_data seen [] = None"
| "validate_data seen (item # items) =
     (if sdi_Key item = '''' then Some (ValidationError ''spec.data[].key'' ''each data item must have a non-empty key'')
      else if sdi_Key item \<in> set seen then Some (ValidationError ''spec.data[].key'' (''duplicate data key: '' @ sdi_Key item))
      else validate_data (sdi_Key item # seen) items)"

definition validateSecretSpec :: "SecretSpec \<Rightarrow> api_error option" where
  "validateSecretSpec spec =
     (if length (ssp_Data spec) = 0
      then Some (ValidationError ''spec.data'' ''spec.data must contain at least one key/value pair'')
      else validate_data [] (ssp_Data spec))"

definition secret_typed :: "Secret \<Rightarrow> Secret" where
  "secret_typed s = s\<lparr>sec_TypeMeta := \<lparr>tm_APIVersion = APIVersion, tm_Kind = kindSecret\<rparr>\<rparr>"

definition secret_not_found :: "string \<Rightarrow> 'a response" where
  "secret_not_found name = Problem (StoreError (WrappedError (''secret not found: '' @ name) (ErrNotFound '''')))"

definition createSecret :: "string \<Rightarrow> time \<Rightarrow> string + Secret \<Rightarrow> secrets \<Rightarrow> secrets \<times> Secret response" where
  "createSecret uid now body rows =
     (case body of
        Inl err \<Rightarrow> (rows, Problem (ValidationError ''body'' (''invalid request body: '' @ err)))
      | Inr secret \<Rightarrow>
          let m = sec_Meta secret; name = meta_Name m in
          if name = '''' then (rows, Problem (ValidationError ''metadata.name'' ''metadata.name is required''))
          else case ValidateName name of
            Some e \<Rightarrow> (rows, Problem (ValidationError ''metadata.name'' e))
          | None \<Rightarrow> case ValidateNamespace (meta_Namespace m) of
              Some e \<Rightarrow> (rows, Problem (ValidationError ''metadata.namespace'' e))
            | None \<Rightarrow>
                let secret1 = secret\<lparr>sec_Meta := m\<lparr>meta_Namespace := in_namespace (meta_Namespace m)\<rparr>\<rparr> in
                case validateSecretSpec (sec_Spec secret1) of
                  Some e \<Rightarrow> (rows, Problem e)
                | None \<Rightarrow> case CreateSecret uid now secret1 rows of
                    (rows', Inl e) \<Rightarrow> (rows', Problem (if is_already_exists e
                       then StoreError (WrappedError (''secret already exists: '' @ name) (ErrAlreadyExists '''')) else StoreError e))
                  | (rows', Inr created) \<Rightarrow> (rows', Respond 201 (secret_typed created)))"

definition updateSecret :: "time \<Rightarrow> string \<Rightarrow> string + Secret \<Rightarrow> secrets \<Rightarrow> secrets \<times> Secret response" where
  "updateSecret now name body rows =
     (case body of
        Inl err \<Rightarrow> (rows, Problem (ValidationError ''body'' (''invalid request body: '' @ err)))
      | Inr secret \<Rightarrow>
          let m = sec_Meta secret in
          if meta_Name m \<noteq> '''' \<and> meta_Name m \<noteq> name
          then (rows, Problem (ValidationError ''metadata.name'' (''metadata.name '' @ go_quote (meta_Name m) @
                  '' does not match URL path '' @ go_quote name)))
          else case ValidateNamespace (meta_Namespace m) of
            Some e \<Rightarrow> (rows, Problem (ValidationError ''metadata.namespace'' e))
          | None \<Rightarrow>
              let secret1 = secret\<lparr>sec_Meta := m\<lparr>meta_Name := name, meta_Namespace := in_namespace (meta_Namespace m)\<rparr>\<rparr> in
              case validateSecretSpec (sec_Spec secret1) of
                Some e \<Rightarrow> (rows, Problem e)
              | None \<Rightarrow> case UpdateSecret now secret1 rows of
                  (rows', Inl e) \<Rightarrow> (rows', if is_not_found e then secret_not_found name else Problem (StoreError e))
                | (rows', Inr updated) \<Rightarrow> (rows', Respond 200 (secret_typed updated)))"

definition listSecrets :: "secrets \<Rightarrow> Secret list response" where
  "listSecrets rows = Respond 200 (ListSecrets rows)"

definition getSecret :: "string \<Rightarrow> secrets \<Rightarrow> Secret response" where
  "getSecret name rows = (case GetSecret rows name of
       Inl e \<Rightarrow> if is_not_found e then secret_not_found name else Problem (StoreError e)
     | Inr secret \<Rightarrow> Respond 200 secret)"

definition deleteSecret :: "string \<Rightarrow> secrets \<Rightarrow> secrets \<times> unit response" where
  "deleteSecret name rows = (case DeleteSecret name rows of
       (rows', Inl e) \<Rightarrow> (rows', if is_not_found e then secret_not_found name else Problem (StoreError e))
     | (rows', Inr _) \<Rightarrow> (rows', Respond 204 ()))"

subsection \<open>Round trips\<close>

definition data_ok :: "SecretSpec \<Rightarrow> bool" where
  "data_ok spec \<longleftrightarrow> ssp_Data spec \<noteq> [] \<and> distinct (map sdi_Key (ssp_Data spec)) \<and> '''' \<notin> sdi_Key ` set (ssp_Data spec)"

definition secrets_wf :: "secrets \<Rightarrow> bool" where
  "secrets_wf rows \<longleftrightarrow> distinct (map (\<lambda>r. (sr_namespace r, sr_name r)) rows) \<and> list_all (\<lambda>r. data_ok (sr_spec r)) rows"

lemma validate_data_iff:
  "validate_data seen items = None \<longleftrightarrow>
     distinct (map sdi_Key items) \<and> '''' \<notin> sdi_Key ` set items \<and> set seen \<inter> sdi_Key ` set items = {}"
  by (induction seen items rule: validate_data.induct) auto

lemma validateSecretSpec_iff: "validateSecretSpec spec = None \<longleftrightarrow> data_ok spec"
  by (auto simp: validateSecretSpec_def data_ok_def validate_data_iff)

lemma default_namespace: "ValidateNamespace ns = None \<Longrightarrow> in_namespace ns = DefaultNamespace"
  by (auto simp: ValidateNamespace_def in_namespace_def split: if_splits)

lemma find_map_cond:
  "(\<And>x. P x \<Longrightarrow> Q (f x) = Q x) \<Longrightarrow> List.find Q (map (\<lambda>x. if P x then f x else x) xs) = map_option (\<lambda>x. if P x then f x else x) (List.find Q xs)"
  by (induction xs) auto

lemma getSecret_row:
  "getSecret name rows = (case List.find (secret_named DefaultNamespace name) rows of
     None \<Rightarrow> secret_not_found name | Some r \<Rightarrow> Respond 200 (scanSecret r))"
  by (simp add: getSecret_def GetSecret_def split: option.split)

lemma createSecret_stored:
  assumes "createSecret uid now body rows = (rows', Respond 201 s)"
  shows "\<exists>row. rows' = rows @ [row] \<and> List.find (secret_named DefaultNamespace (meta_Name (sec_Meta s))) rows = None
     \<and> secret_named DefaultNamespace (meta_Name (sec_Meta s)) row \<and> sr_spec row = sec_Spec s \<and> sr_uid row = uid
     \<and> meta_UID (sec_Meta s) = uid \<and> sr_resource_version row = 1 \<and> data_ok (sec_Spec s)"
proof -
  obtain secret where b: "body = Inr secret" using assms by (cases body) (auto simp: createSecret_def)
  let ?m = "sec_Meta secret"
  let ?secret = "secret\<lparr>sec_Meta := ?m\<lparr>meta_Namespace := in_namespace (meta_Namespace ?m)\<rparr>\<rparr>"
  have ok: "ValidateNamespace (meta_Namespace ?m) = None" "data_ok (sec_Spec secret)"
    "\<exists>c. CreateSecret uid now ?secret rows = (rows', Inr c) \<and> s = secret_typed c"
    using assms by (auto simp: b createSecret_def Let_def validateSecretSpec_iff [symmetric] split: if_splits option.splits prod.splits sum.splits)
  then obtain c where c: "CreateSecret uid now ?secret rows = (rows', Inr c)" "s = secret_typed c" by blast
  have ns: "in_namespace (meta_Namespace ?m) = DefaultNamespace" by (rule default_namespace [OF ok(1)])
  have "in_namespace DefaultNamespace = DefaultNamespace" by (simp add: in_namespace_def)
  with c ok(2) show ?thesis
    by (auto simp: CreateSecret_def ns Let_def secret_typed_def secret_named_def list_ex_iff find_None_iff split: if_splits)
qed

lemma updateSecret_stored:
  assumes "updateSecret now name body rows = (rows', Respond 200 s)"
  shows "\<exists>old f. List.find (secret_named DefaultNamespace name) rows = Some old
     \<and> rows' = map (\<lambda>r. if secret_named DefaultNamespace name r then f r else r) rows
     \<and> (\<forall>r. sr_name (f r) = sr_name r \<and> sr_namespace (f r) = sr_namespace r \<and> sr_uid (f r) = sr_uid r
          \<and> sr_spec (f r) = sec_Spec s \<and> sr_resource_version (f r) = sr_resource_version r + 1)
     \<and> meta_ResourceVersion (sec_Meta s) = sr_resource_version old + 1 \<and> data_ok (sec_Spec s)"
proof -
  obtain secret where b: "body = Inr secret" using assms by (cases body) (auto simp: updateSecret_def)
  let ?m = "sec_Meta secret"
  let ?secret = "secret\<lparr>sec_Meta := ?m\<lparr>meta_Name := name, meta_Namespace := in_namespace (meta_Namespace ?m)\<rparr>\<rparr>"
  have ok: "ValidateNamespace (meta_Namespace ?m) = None" "data_ok (sec_Spec secret)"
    "\<exists>c. UpdateSecret now ?secret rows = (rows', Inr c) \<and> s = secret_typed c"
    using assms by (auto simp: b updateSecret_def Let_def secret_not_found_def validateSecretSpec_iff [symmetric] split: if_splits option.splits prod.splits sum.splits)
  then obtain c where c: "UpdateSecret now ?secret rows = (rows', Inr c)" "s = secret_typed c" by blast
  have ns: "in_namespace (meta_Namespace ?m) = DefaultNamespace" by (rule default_namespace [OF ok(1)])
  have d: "in_namespace DefaultNamespace = DefaultNamespace" by (simp add: in_namespace_def)
  obtain old where old: "List.find (secret_named DefaultNamespace name) rows = Some old"
    using c(1) by (auto simp: UpdateSecret_def ns d Let_def split: option.splits)
  show ?thesis
    by (rule exI [of _ old], rule exI [of _ "\<lambda>r. r\<lparr>sr_spec := sec_Spec secret, sr_labels := meta_Labels ?m, sr_annotations := meta_Annotations ?m,
                  sr_updated_at := now, sr_resource_version := sr_resource_version r + 1\<rparr>"])
      (use c ok(2) old in \<open>auto simp: UpdateSecret_def ns d Let_def secret_typed_def\<close>)
qed

lemma create_reads_back:
  assumes wf: "secrets_wf rows" and run: "createSecret uid now body rows = (rows', Respond 201 s)"
  shows "(\<exists>g. getSecret (meta_Name (sec_Meta s)) rows' = Respond 200 g \<and> sec_Spec g = sec_Spec s \<and> meta_UID (sec_Meta g) = uid
          \<and> meta_ResourceVersion (sec_Meta g) = 1 \<and> data_ok (sec_Spec g)) \<and> secrets_wf rows'"
proof
  from createSecret_stored [OF run] obtain row where row: "rows' = rows @ [row]"
    "List.find (secret_named DefaultNamespace (meta_Name (sec_Meta s))) rows = None"
    "secret_named DefaultNamespace (meta_Name (sec_Meta s)) row" "sr_spec row = sec_Spec s" "sr_uid row = uid"
    "sr_resource_version row = 1" "data_ok (sec_Spec s)" by blast
  then show "\<exists>g. getSecret (meta_Name (sec_Meta s)) rows' = Respond 200 g \<and> sec_Spec g = sec_Spec s \<and> meta_UID (sec_Meta g) = uid
          \<and> meta_ResourceVersion (sec_Meta g) = 1 \<and> data_ok (sec_Spec g)"
    by (simp add: getSecret_row find_append scanSecret_def)
  have "\<not> secret_named DefaultNamespace (meta_Name (sec_Meta s)) x" if "x \<in> set rows" for x using find_NoneD [OF row(2) that] .
  then have "(sr_namespace row, sr_name row) \<notin> (\<lambda>r. (sr_namespace r, sr_name r)) ` set rows"
    using row(3) by (force simp: secret_named_def)
  then show "secrets_wf rows'" using wf row(1,4,7) by (simp add: secrets_wf_def)
qed

lemma update_reads_back:
  assumes wf: "secrets_wf rows" and run: "updateSecret now name body rows = (rows', Respond 200 s)"
  shows "(\<exists>old g. getSecret name rows = Respond 200 old \<and> getSecret name rows' = Respond 200 g \<and> sec_Spec g = sec_Spec s
          \<and> meta_UID (sec_Meta g) = meta_UID (sec_Meta old)
          \<and> meta_ResourceVersion (sec_Meta g) = meta_ResourceVersion (sec_Meta old) + 1
          \<and> meta_ResourceVersion (sec_Meta s) = meta_ResourceVersion (sec_Meta g) \<and> data_ok (sec_Spec g))
       \<and> secrets_wf rows' \<and> (other \<noteq> name \<longrightarrow> getSecret other rows' = getSecret other rows)"
proof (intro conjI impI)
  from updateSecret_stored [OF run] obtain old f where u: "List.find (secret_named DefaultNamespace name) rows = Some old"
    "rows' = map (\<lambda>r. if secret_named DefaultNamespace name r then f r else r) rows"
    "\<And>r. sr_name (f r) = sr_name r \<and> sr_namespace (f r) = sr_namespace r \<and> sr_uid (f r) = sr_uid r
          \<and> sr_spec (f r) = sec_Spec s \<and> sr_resource_version (f r) = sr_resource_version r + 1"
    "meta_ResourceVersion (sec_Meta s) = sr_resource_version old + 1" "data_ok (sec_Spec s)" by blast
  have old: "secret_named DefaultNamespace name old" using find_SomeD [OF u(1)] by simp
  have find: "List.find (secret_named DefaultNamespace n) rows'
      = map_option (\<lambda>r. if secret_named DefaultNamespace name r then f r else r) (List.find (secret_named DefaultNamespace n) rows)" for n
    unfolding u(2) by (rule find_map_cond) (simp add: secret_named_def u(3))
  have "getSecret name rows = Respond 200 (scanSecret old)" "getSecret name rows' = Respond 200 (scanSecret (f old))"
    using u(1) old by (simp_all add: getSecret_row find)
  then show "\<exists>old g. getSecret name rows = Respond 200 old \<and> getSecret name rows' = Respond 200 g \<and> sec_Spec g = sec_Spec s
          \<and> meta_UID (sec_Meta g) = meta_UID (sec_Meta old)
          \<and> meta_ResourceVersion (sec_Meta g) = meta_ResourceVersion (sec_Meta old) + 1
          \<and> meta_ResourceVersion (sec_Meta s) = meta_ResourceVersion (sec_Meta g) \<and> data_ok (sec_Spec g)"
    using u(3) [of old] u(4,5) by (auto simp: scanSecret_def)
  have "(\<lambda>r. (sr_namespace r, sr_name r)) \<circ> (\<lambda>r. if secret_named DefaultNamespace name r then f r else r) = (\<lambda>r. (sr_namespace r, sr_name r))"
    using u(3) by (auto simp: fun_eq_iff)
  then show "secrets_wf rows'" using wf u(3,5) by (auto simp: secrets_wf_def u(2) list_all_iff)
  show "getSecret other rows' = getSecret other rows" if "other \<noteq> name"
  proof -
    have "\<not> secret_named DefaultNamespace name r" if "List.find (secret_named DefaultNamespace other) rows = Some r" for r
      using find_SomeD [OF that] \<open>other \<noteq> name\<close> by (simp add: secret_named_def)
    then show ?thesis by (auto simp: getSecret_row find split: option.splits)
  qed
qed

lemma delete_reads_back:
  assumes wf: "secrets_wf rows" and run: "deleteSecret name rows = (rows', Respond 204 ())"
  shows "getSecret name rows' = secret_not_found name \<and> secrets_wf rows' \<and> (other \<noteq> name \<longrightarrow> getSecret other rows' = getSecret other rows)"
proof (intro conjI impI)
  have rows': "rows' = filter (\<lambda>r. \<not> secret_named DefaultNamespace name r) rows"
    using run by (auto simp: deleteSecret_def DeleteSecret_def secret_not_found_def split: if_splits)
  then show "getSecret name rows' = secret_not_found name"
    by (auto simp: getSecret_row find_None_iff secret_not_found_def split: option.split dest!: find_SomeD)
  show "secrets_wf rows'" using wf by (auto simp: secrets_wf_def rows' list_all_iff distinct_map_filter)
  show "getSecret other rows' = getSecret other rows" if "other \<noteq> name"
  proof -
    have "List.find (secret_named DefaultNamespace other) (filter (\<lambda>r. \<not> secret_named DefaultNamespace name r) rs)
        = List.find (secret_named DefaultNamespace other) rs" for rs
      using that by (induction rs) (auto simp: secret_named_def)
    then show ?thesis by (simp add: getSecret_row rows')
  qed
qed

text \<open>
  a Secret reads back as it was written. After a create answered 201, reading the name gives the
  stored spec under the new UID at version 1; after an update answered 200, it gives the new spec under
  the old UID at the next version, and after a delete it is not found; an update or a delete leaves every
  other name's answer as it was. What can be stored has at least one item and distinct, non-empty keys,
  so a lookup by key has one answer.
\<close>

theorem secret_reads_back:
  assumes wf: "secrets_wf rows"
  shows "(createSecret uid now body rows = (rows', Respond 201 s) \<longrightarrow>
       (\<exists>g. getSecret (meta_Name (sec_Meta s)) rows' = Respond 200 g \<and> sec_Spec g = sec_Spec s \<and> meta_UID (sec_Meta g) = uid
          \<and> meta_ResourceVersion (sec_Meta g) = 1 \<and> data_ok (sec_Spec g)) \<and> secrets_wf rows')
    \<and> (updateSecret now name body rows = (rows', Respond 200 s) \<longrightarrow>
       (\<exists>old g. getSecret name rows = Respond 200 old \<and> getSecret name rows' = Respond 200 g \<and> sec_Spec g = sec_Spec s
          \<and> meta_UID (sec_Meta g) = meta_UID (sec_Meta old)
          \<and> meta_ResourceVersion (sec_Meta g) = meta_ResourceVersion (sec_Meta old) + 1
          \<and> meta_ResourceVersion (sec_Meta s) = meta_ResourceVersion (sec_Meta g) \<and> data_ok (sec_Spec g))
       \<and> secrets_wf rows' \<and> (other \<noteq> name \<longrightarrow> getSecret other rows' = getSecret other rows))
    \<and> (deleteSecret name rows = (rows', Respond 204 ()) \<longrightarrow>
       getSecret name rows' = secret_not_found name \<and> secrets_wf rows' \<and> (other \<noteq> name \<longrightarrow> getSecret other rows' = getSecret other rows))"
  using create_reads_back [OF wf] update_reads_back [OF wf] delete_reads_back [OF wf] by (intro conjI impI) blast+

definition demo_secret :: Secret where
  "demo_secret = \<lparr>sec_TypeMeta = \<lparr>tm_APIVersion = APIVersion, tm_Kind = kindSecret\<rparr>,
     sec_Meta = \<lparr>meta_Name = ''db'', meta_UID = '''', meta_Namespace = '''', meta_ResourceVersion = 0, meta_SpecRevision = 0,
       meta_Labels = (\<lambda>_. None), meta_Annotations = (\<lambda>_. None), meta_CreatedAt = time_zero, meta_UpdatedAt = time_zero\<rparr>,
     sec_Spec = \<lparr>ssp_Data = [\<lparr>sdi_Key = ''password'', sdi_Value = ''x''\<rparr>]\<rparr>\<rparr>"

end
