(* ===== verification/Overlay.thy ===== *)
theory Overlay
  imports Node_Handlers Controllers
begin

text \<open>
  Overlay administration, \<open>internal/server/handler/overlay/handler.go\<close>. The Headscale service behind
  \<open>internal/headscale\<close> is a record of functions on a state of its own; SHA-256 is the argument \<open>hash\<close>; a
  database error of the store's delete is an argument per attempt.
\<close>

record HeadscaleNode =
  hn_ID :: string
  hn_Name :: string
  hn_IPAddresses :: "string list"
  hn_Online :: bool

text \<open>What the client calls return; an error is its text.\<close>

record 'h headscale =
  hs_CreatePreAuthKey :: "string \<Rightarrow> time \<Rightarrow> 'h \<Rightarrow> 'h \<times> (string + string \<times> time)"
  hs_ListNodes :: "'h \<Rightarrow> string + HeadscaleNode list"
  hs_DeleteNode :: "string \<Rightarrow> 'h \<Rightarrow> 'h \<times> string option"

definition defaultKeyTTL :: duration where "defaultKeyTTL = 24 * time_Hour"
definition storeDeleteAttempts :: nat where "storeDeleteAttempts = 3"

definition PrefixLen :: nat where "PrefixLen = 8"

definition keyref_Hash :: "(string \<Rightarrow> string) \<Rightarrow> string \<Rightarrow> string \<times> string" where
  "keyref_Hash hash key = (hash key, if length key > PrefixLen then take PrefixLen key else key)"

definition not_configured :: "'a response" where
  "not_configured = Problem (ErrServiceNotConfigured
     ''overlay administration requires headscale_api_url and headscale_api_key on cara-server'')"

text \<open>\<open>hs\<close> is \<open>None\<close> when the server has no Headscale credentials.\<close>

definition createPreAuthKey ::
  "'h headscale option \<Rightarrow> (string \<Rightarrow> duration option) \<Rightarrow> (string \<Rightarrow> string) \<Rightarrow> string \<Rightarrow> time \<Rightarrow> string + string \<times> string
    \<Rightarrow> 'h \<Rightarrow> cluster \<Rightarrow> 'h \<times> cluster \<times> (string \<times> time) response" where
  "createPreAuthKey hs parse hash user now body h c =
     (case hs of
        None \<Rightarrow> (h, c, not_configured)
      | Some client \<Rightarrow>
          case body of
            Inl err \<Rightarrow> (h, c, Problem (ValidationError ''body'' (''invalid request body: '' @ err)))
          | Inr (node, ttlText) \<Rightarrow>
              case (if ttlText = '''' then Some defaultKeyTTL
                    else case parse ttlText of None \<Rightarrow> None | Some t \<Rightarrow> if t \<le> 0 then None else Some t) of
                None \<Rightarrow> (h, c, Problem (ValidationError ''ttl'' (''ttl must be a positive Go duration such as '' @ go_quote ''24h'')))
              | Some ttl \<Rightarrow>
                  case hs_CreatePreAuthKey client user (now + ttl) h of
                    (h', Inl err) \<Rightarrow> (h', c, Problem (StoreError (DatabaseError err)))
                  | (h', Inr (key, expiration)) \<Rightarrow>
                      if node = '''' then (h', c, Respond 201 (key, expiration))
                      else case keyref_Hash hash key of (keyHash, keyPrefix) \<Rightarrow>
                        case CreatePreAuthKey \<lparr>pk_KeyHash = keyHash, pk_KeyPrefix = keyPrefix, pk_CaraNodeName = node,
                               pk_Expiration = expiration, pk_State = PreAuthKeyStateActive, pk_UsedByIP = '''',
                               pk_UsedAt = time_zero, pk_IssuedBy = ''''\<rparr> c of
                          (c', Inl e) \<Rightarrow> (h', c', Problem (StoreError (WrappedError ''issued key but failed to persist its node mapping'' e)))
                        | (c', Inr _) \<Rightarrow> (h', c', Respond 201 (key, expiration)))"

definition listOverlayNodes :: "'h headscale option \<Rightarrow> 'h \<Rightarrow> HeadscaleNode list response" where
  "listOverlayNodes hs h = (case hs of
       None \<Rightarrow> not_configured
     | Some client \<Rightarrow> case hs_ListNodes client h of
         Inl err \<Rightarrow> Problem (StoreError (DatabaseError err))
       | Inr nodes \<Rightarrow> Respond 200 nodes)"

definition findHeadscaleNodeID :: "'h headscale \<Rightarrow> 'h \<Rightarrow> string \<Rightarrow> string + string option" where
  "findHeadscaleNodeID client h name = (case hs_ListNodes client h of
       Inl err \<Rightarrow> Inl err
     | Inr nodes \<Rightarrow> Inr (map_option hn_ID (List.find (\<lambda>n. hn_Name n = name) nodes)))"

text \<open>The delete, retried: each attempt may meet a database error. The last error is what is returned.\<close>

fun delete_attempts :: "string \<Rightarrow> store_error option list \<Rightarrow> store_error option \<Rightarrow> cluster \<Rightarrow> cluster \<times> store_error option" where
  "delete_attempts name [] lastErr c = (c, lastErr)"
| "delete_attempts name (Some dberr # rest) lastErr c = delete_attempts name rest (Some dberr) c"
| "delete_attempts name (None # rest) lastErr c = (case DeleteNode name c of
     (c', Inr _) \<Rightarrow> (c', None)
   | (c', Inl e) \<Rightarrow> if is_not_found e then (c', None) else delete_attempts name rest (Some e) c')"

definition deleteFromStoreWithRetry :: "(nat \<Rightarrow> store_error option) \<Rightarrow> string \<Rightarrow> cluster \<Rightarrow> cluster \<times> store_error option" where
  "deleteFromStoreWithRetry dberr name c = delete_attempts name (map dberr [0..<storeDeleteAttempts]) None c"

record RevokeNodeResponse =
  rnr_HeadscaleRemoved :: bool
  rnr_StoreRemoved :: bool
  rnr_Drift :: bool
  rnr_Message :: string

definition revokeNode ::
  "'h headscale option \<Rightarrow> (nat \<Rightarrow> store_error option) \<Rightarrow> string \<Rightarrow> 'h \<Rightarrow> cluster \<Rightarrow> 'h \<times> cluster \<times> RevokeNodeResponse response" where
  "revokeNode hs dberr name h c =
     (case hs of
        None \<Rightarrow> (h, c, not_configured)
      | Some client \<Rightarrow>
          case findHeadscaleNodeID client h name of
            Inl err \<Rightarrow> (h, c, Problem (StoreError (DatabaseError err)))
          | Inr found \<Rightarrow>
              case (case found of None \<Rightarrow> (h, None) | Some nodeID \<Rightarrow> hs_DeleteNode client nodeID h) of
                (h', Some err) \<Rightarrow> (h', c, Problem (StoreError (WrappedError (''revoke '' @ go_quote name @
                     '': delete from Headscale failed, Cara store left unchanged'') (DatabaseError err))))
              | (h', None) \<Rightarrow>
                  case deleteFromStoreWithRetry dberr name c of
                    (c', Some e) \<Rightarrow> (h', c', Respond 200 \<lparr>rnr_HeadscaleRemoved = True, rnr_StoreRemoved = False, rnr_Drift = True,
                       rnr_Message = ''node '' @ go_quote name @
                         '' removed from Headscale but Cara store delete failed; re-run revoke to retry: '' @ error_text e\<rparr>)
                  | (c', None) \<Rightarrow> (h', c', Respond 200 \<lparr>rnr_HeadscaleRemoved = True, rnr_StoreRemoved = True,
                       rnr_Drift = False, rnr_Message = ''''\<rparr>))"

subsection \<open>Revocation\<close>

lemma DeleteNode_gone: "DeleteNode name c = (c', r) \<Longrightarrow> node_at c' name = None \<and> (r = Inr () \<or> (\<exists>e. r = Inl e \<and> is_not_found e))"
  by (auto simp: DeleteNode_def Let_def node_at_def find_None_iff split: if_splits)

lemma delete_attempts_gone: "delete_attempts name errs lastErr c = (c', None) \<Longrightarrow> lastErr \<noteq> None \<or> errs \<noteq> [] \<Longrightarrow> node_at c' name = None"
  by (induction name errs lastErr c rule: delete_attempts.induct)
    (auto split: prod.splits sum.splits if_splits dest: DeleteNode_gone)

lemma delete_attempts_kept: "delete_attempts name errs lastErr c = (c', Some e) \<Longrightarrow> c' = c"
  by (induction name errs lastErr c rule: delete_attempts.induct)
    (auto split: prod.splits sum.splits if_splits dest!: DeleteNode_gone)

text \<open>What the response says is so: the record is gone exactly when it reports so, and drift leaves it.\<close>

lemma revokeNode_reports_truth:
  assumes "revokeNode hs dberr name h c = (h', c', Respond n resp)"
  shows "if rnr_StoreRemoved resp then node_at c' name = None \<and> \<not> rnr_Drift resp else c' = c \<and> rnr_Drift resp"
proof -
  obtain e where "deleteFromStoreWithRetry dberr name c = (c', e)" "rnr_StoreRemoved resp = (e = None)" "rnr_Drift resp = (e \<noteq> None)"
    using assms by (auto simp: revokeNode_def not_configured_def split: option.splits sum.splits prod.splits)
  then show ?thesis
    by (cases e) (auto simp: deleteFromStoreWithRetry_def storeDeleteAttempts_def dest: delete_attempts_gone delete_attempts_kept)
qed

text \<open>
  The delete asks nothing about Projects, unlike \<open>deleteNode\<close>. A Project still assigned to the Node is
  then out of the outage rescheduler's reach: no resync lists the Node, and a pass over its name does
  nothing.
\<close>

lemma overlay_revoke_strands_projects:
  assumes "revokeNode hs dberr name h c = (h', c', Respond n resp)" "rnr_StoreRemoved resp"
  shows "name \<notin> set (resyncNotReadyNodes c') \<and> rescheduler_Reconcile rs env name c' d = (d, Inr Done)"
proof -
  have gone: "node_at c' name = None" using revokeNode_reports_truth [OF assms(1)] assms(2) by simp
  then have "\<forall>r \<in> set (cl_nodes c'). nr_name r \<noteq> name"
    by (auto simp: node_at_def find_None_iff)
  moreover have "GetNodeStatus c' name = Inl (ErrNotFound '''')" using gone by (simp add: GetNodeStatus_def GetNode_def)
  ultimately show ?thesis
    by (auto simp: rescheduler_Reconcile_def resyncNotReadyNodes_def ListNotReadyNodeNames_def ListNodes_def scanNode_def)
qed

end
