(* ===== verification/Agent_Prelude.thy ===== *)
theory Agent_Prelude
  imports Tokens "HOL-Library.AList"
begin

text \<open>
  Vocabulary of the Agent's theories: the errors of \<open>internal/agent\<close> with \<open>errors.Is\<close>, sequencing of
  operations that may fail, the lexical path functions of \<open>path/filepath\<close>, the one time layout the
  Agent prints, and the host paths of \<open>internal/agent/volume/path.go\<close>.
\<close>

named_theorems agent_defs "unfolding rules of the Agent's sequencing"

subsection \<open>Errors\<close>

datatype os_error = ENOENT | EACCES | ENOTEMPTY | ENOTDIR | EISDIR | EINVAL | OsOther string

text \<open>The sentinel values the Agent's packages declare, compared by \<open>errors.Is\<close>.\<close>

datatype sentinel =
    ErrGenerationMissing | ErrManifestMismatch | ErrChecksumMismatch | restore_ErrInsufficientDiskSpace
  | ErrArchiveTooLarge | ErrUnsafePath
  | ErrNoManagedVolumes | backup_ErrInsufficientDiskSpace
  | objectstore_ErrNotFound | errDeferred
  | context_Canceled | context_DeadlineExceeded
  | ErrProjectNotFound | ErrNodeNotFound | agent_ErrStaleAssignment | ErrSecretNotFound | errSecretKeyNotFound
  | ErrContainerNotOwned | ErrRecoveryVolumeUnavailable | ErrImagePull | ErrRepositoryNotHTTPS

fun sentinel_text :: "sentinel \<Rightarrow> string" where
  "sentinel_text ErrGenerationMissing = ''restore: backup generation is missing''"
| "sentinel_text ErrManifestMismatch = ''restore: generation does not match project spec''"
| "sentinel_text ErrChecksumMismatch = ''restore: archive does not match manifest''"
| "sentinel_text restore_ErrInsufficientDiskSpace = ''restore: insufficient free disk space''"
| "sentinel_text ErrArchiveTooLarge = ''restore: archive exceeds maximum extracted size''"
| "sentinel_text ErrUnsafePath = ''restore: archive entry escapes destination''"
| "sentinel_text ErrNoManagedVolumes = ''backup: project has no Managed volumes''"
| "sentinel_text backup_ErrInsufficientDiskSpace = ''backup: insufficient free disk space''"
| "sentinel_text objectstore_ErrNotFound = ''objectstore: key not found''"
| "sentinel_text errDeferred = ''agent: operation deferred, project busy''"
| "sentinel_text context_Canceled = ''context canceled''"
| "sentinel_text context_DeadlineExceeded = ''context deadline exceeded''"
| "sentinel_text ErrProjectNotFound = ''project not found''"
| "sentinel_text ErrNodeNotFound = ''node not found''"
| "sentinel_text agent_ErrStaleAssignment = ''stale assignment: report rejected by server''"
| "sentinel_text ErrSecretNotFound = ''secret not found''"
| "sentinel_text errSecretKeyNotFound = ''secret key not found''"
| "sentinel_text ErrContainerNotOwned = ''container not owned by the current assignment''"
| "sentinel_text ErrRecoveryVolumeUnavailable = ''recovery volume unavailable''"
| "sentinel_text ErrImagePull = ''pull image''"
| "sentinel_text ErrRepositoryNotHTTPS = ''pgbackrest: the object store must be reached over https''"

text \<open>\<open>BlockReason\<close> of \<open>restore/decision.go\<close>: why a placement was refused.\<close>

datatype BlockReason =
    BlockNone | BlockLegacyProvenance | BlockForeignProvenance | BlockUnprovenData | BlockCorruptProvenance
  | BlockNoRestoreSource | BlockMissingData | BlockStrategyRestoreUnavailable | BlockRestoreInProgress
  | BlockRestoreFailed

fun block_reason_text :: "BlockReason \<Rightarrow> string" where
  "block_reason_text BlockNone = ''''"
| "block_reason_text BlockLegacyProvenance = ''LegacyProvenance''"
| "block_reason_text BlockForeignProvenance = ''ForeignProvenance''"
| "block_reason_text BlockUnprovenData = ''UnprovenData''"
| "block_reason_text BlockCorruptProvenance = ''CorruptProvenance''"
| "block_reason_text BlockNoRestoreSource = ''NoRestoreSource''"
| "block_reason_text BlockMissingData = ''MissingData''"
| "block_reason_text BlockStrategyRestoreUnavailable = ''StrategyRestoreUnavailable''"
| "block_reason_text BlockRestoreInProgress = ''RestoreInProgress''"
| "block_reason_text BlockRestoreFailed = ''RestoreFailed''"

text \<open>
  An error value. \<open>ErrWrap\<close> is \<open>fmt.Errorf("pre: %w", err)\<close>, \<open>ErrMore\<close> is \<open>fmt.Errorf("%w: post", err)\<close>
  and \<open>ErrJoin\<close> is \<open>errors.Join\<close>; the others are the Agent's own error types.
\<close>

datatype agent_error =
    ErrText string
  | ErrOs os_error
  | Sentinel sentinel
  | ErrWrap string agent_error
  | ErrMore agent_error string
  | ErrJoin "agent_error list"
  | PlacementBlockedError BlockReason string
  | VolumeUnavailableError string string VolumeType string
  | ContainerNotOwnedError string string string string string
  | secretRefError string string string string agent_error
  | pgBlockedError string string

text \<open>\<open>errors.Is\<close> against a sentinel. The two Docker errors unwrap to theirs.\<close>

fun error_is :: "sentinel \<Rightarrow> agent_error \<Rightarrow> bool" where
  "error_is s (Sentinel t) \<longleftrightarrow> s = t"
| "error_is s (ErrWrap _ e) \<longleftrightarrow> error_is s e"
| "error_is s (ErrMore e _) \<longleftrightarrow> error_is s e"
| "error_is s (ErrJoin es) \<longleftrightarrow> list_ex (error_is s) es"
| "error_is s (VolumeUnavailableError _ _ _ _) \<longleftrightarrow> s = ErrRecoveryVolumeUnavailable"
| "error_is s (ContainerNotOwnedError _ _ _ _ _) \<longleftrightarrow> s = ErrContainerNotOwned"
| "error_is s (secretRefError _ _ _ _ e) \<longleftrightarrow> error_is s e"
| "error_is s _ \<longleftrightarrow> False"

fun os_error_text :: "os_error \<Rightarrow> string" where
  "os_error_text ENOENT = ''no such file or directory''"
| "os_error_text EACCES = ''permission denied''"
| "os_error_text ENOTEMPTY = ''directory not empty''"
| "os_error_text ENOTDIR = ''not a directory''"
| "os_error_text EISDIR = ''is a directory''"
| "os_error_text EINVAL = ''invalid argument''"
| "os_error_text (OsOther s) = s"

fun agent_error_text :: "agent_error \<Rightarrow> string" where
  "agent_error_text (ErrText s) = s"
| "agent_error_text (ErrOs e) = os_error_text e"
| "agent_error_text (Sentinel s) = sentinel_text s"
| "agent_error_text (ErrWrap pre e) = pre @ '': '' @ agent_error_text e"
| "agent_error_text (ErrMore e post) = agent_error_text e @ '': '' @ post"
| "agent_error_text (ErrJoin es) = strings_Join (map agent_error_text es) [CHR 0x0A]"
| "agent_error_text (PlacementBlockedError r d) =
     ''restore: placement blocked ('' @ block_reason_text r @ ''): '' @ d"
| "agent_error_text (VolumeUnavailableError svc vol ty d) =
     sentinel_text ErrRecoveryVolumeUnavailable @ '': service '' @ go_quote svc @ '': '' @ volume_type_text ty
       @ '' volume '' @ go_quote vol @ '': '' @ d"
| "agent_error_text (ContainerNotOwnedError ctr svc lbl want got) =
     sentinel_text ErrContainerNotOwned @ '': container '' @ go_quote ctr @ '' for service '' @ go_quote svc
       @ '': label '' @ lbl @ '' is '' @ go_quote got @ '', current assignment requires '' @ go_quote want"
| "agent_error_text (pgBlockedError reason detail) = reason @ '': '' @ detail"
| "agent_error_text (secretRefError svc env sec key e) =
     (if error_is errSecretKeyNotFound e
      then ''service '' @ go_quote svc @ '' env '' @ go_quote env @ '': secret '' @ go_quote sec @ '': ''
             @ agent_error_text e @ '': '' @ go_quote key
      else ''service '' @ go_quote svc @ '' env '' @ go_quote env @ '': '' @ agent_error_text e)"

subsection \<open>Sequencing\<close>

text \<open>
  An operation on a world \<open>'w\<close> returns an error or a value, and the world it leaves. \<open>andThen m wrap f\<close>
  is \<open>x, err := m(); if err != nil { return wrap(err) }; f(x)\<close>.
\<close>

type_synonym ('w, 'a) op = "'w \<Rightarrow> (agent_error + 'a) \<times> 'w"

definition andThen :: "('w, 'a) op \<Rightarrow> (agent_error \<Rightarrow> agent_error) \<Rightarrow> ('a \<Rightarrow> ('w, 'b) op) \<Rightarrow> ('w, 'b) op" where
  "andThen m wrap f w = (case m w of (Inl e, w') \<Rightarrow> (Inl (wrap e), w') | (Inr a, w') \<Rightarrow> f a w')"

definition op_return :: "'a \<Rightarrow> ('w, 'a) op" where "op_return a w = (Inr a, w)"

definition op_fail :: "agent_error \<Rightarrow> ('w, 'a) op" where "op_fail e w = (Inl e, w)"

text \<open>A step that looks at no state.\<close>

definition op_lift :: "agent_error + 'a \<Rightarrow> ('w, 'a) op" where "op_lift r w = (r, w)"

lemmas [agent_defs] = andThen_def op_return_def op_fail_def op_lift_def

lemma andThen_Inr_iff:
  "andThen m wrap f w = (Inr b, w'') \<longleftrightarrow> (\<exists>a w'. m w = (Inr a, w') \<and> f a w' = (Inr b, w''))"
  by (auto simp: andThen_def split: prod.splits sum.splits)

lemma andThen_Inl_iff:
  "andThen m wrap f w = (Inl e, w'') \<longleftrightarrow>
     (\<exists>e'. m w = (Inl e', w'') \<and> e = wrap e') \<or> (\<exists>a w'. m w = (Inr a, w') \<and> f a w' = (Inl e, w''))"
  by (auto simp: andThen_def split: prod.splits sum.splits)

subsection \<open>path/filepath\<close>

definition filepath_IsAbs :: "string \<Rightarrow> bool" where
  "filepath_IsAbs p \<longleftrightarrow> p \<noteq> '''' \<and> hd p = CHR ''/''"

text \<open>The elements of a path with \<open>.\<close> and empty ones dropped and \<open>..\<close> resolved against what precedes it.\<close>

fun clean_segs :: "bool \<Rightarrow> string list \<Rightarrow> string list \<Rightarrow> string list" where
  "clean_segs rooted acc [] = rev acc"
| "clean_segs rooted acc (s # ss) =
     (if s = '''' \<or> s = ''.'' then clean_segs rooted acc ss
      else if s = ''..'' then
        (case acc of
           [] \<Rightarrow> clean_segs rooted (if rooted then [] else [''..'']) ss
         | a # as \<Rightarrow> if a = ''..'' then clean_segs rooted (''..'' # acc) ss else clean_segs rooted as ss)
      else clean_segs rooted (s # acc) ss)"

definition path_elems :: "string \<Rightarrow> string list" where
  "path_elems p = clean_segs (filepath_IsAbs p) [] (split_char (CHR ''/'') p)"

definition filepath_Clean :: "string \<Rightarrow> string" where
  "filepath_Clean p = (let body = strings_Join (path_elems p) ''/''
     in if filepath_IsAbs p then ''/'' @ body else if body = '''' then ''.'' else body)"

definition filepath_Join :: "string list \<Rightarrow> string" where
  "filepath_Join elems = (case dropWhile (\<lambda>e. e = '''') elems of
       [] \<Rightarrow> '''' | e # es \<Rightarrow> filepath_Clean (strings_Join (e # es) ''/''))"

text \<open>Everything up to the last separator, cleaned.\<close>

definition filepath_Dir :: "string \<Rightarrow> string" where
  "filepath_Dir p = filepath_Clean (rev (dropWhile (\<lambda>c. c \<noteq> CHR ''/'') (rev p)))"

definition path_Base :: "string \<Rightarrow> string" where
  "path_Base p = (if p = '''' then ''.''
     else let q = rev (dropWhile (\<lambda>c. c = CHR ''/'') (rev p));
              b = rev (takeWhile (\<lambda>c. c \<noteq> CHR ''/'') (rev q))
          in if b = '''' then ''/'' else b)"

subsection \<open>Lexical laws of paths\<close>

definition plain_seg :: "string \<Rightarrow> bool" where
  "plain_seg s \<longleftrightarrow> s \<noteq> '''' \<and> s \<noteq> ''.'' \<and> s \<noteq> ''..'' \<and> CHR ''/'' \<notin> set s"

lemma split_char_nonempty [simp]: "split_char c s \<noteq> []"
  by (induction c s rule: split_char.induct) (auto split: list.split)

lemma split_char_append: "split_char c (a @ c # b) = split_char c a @ split_char c b"
proof (induction a)
  case (Cons x a)
  obtain s ss where "split_char c a = s # ss"
    using split_char_nonempty [of c a] by (cases "split_char c a") auto
  with Cons.IH show ?case by simp
qed simp

lemma split_char_none: "c \<notin> set s \<Longrightarrow> split_char c s = [s]"
  by (induction s) auto

lemma set_split_char: "s \<in> set (split_char c t) \<Longrightarrow> c \<notin> set s"
  by (induction c t arbitrary: s rule: split_char.induct) (auto split: list.splits if_splits)

lemma strings_Join_Cons: "xs \<noteq> [] \<Longrightarrow> strings_Join (x # xs) sep = x @ sep @ strings_Join xs sep"
  by (cases xs) simp_all

lemma strings_Join_append:
  "xs \<noteq> [] \<Longrightarrow> ys \<noteq> [] \<Longrightarrow> strings_Join (xs @ ys) sep = strings_Join xs sep @ sep @ strings_Join ys sep"
proof (induction xs)
  case (Cons x xs)
  then show ?case by (cases "xs = []") (simp_all add: strings_Join_Cons)
qed simp

lemma split_char_Join:
  "ss \<noteq> [] \<Longrightarrow> \<forall>s \<in> set ss. c \<notin> set s \<Longrightarrow> split_char c (strings_Join ss [c]) = ss"
proof (induction ss)
  case (Cons s ss)
  then show ?case
    by (cases "ss = []") (simp_all add: strings_Join_Cons split_char_append split_char_none)
qed simp

lemma clean_segs_plain: "list_all plain_seg ss \<Longrightarrow> clean_segs r acc ss = rev acc @ ss"
  by (induction ss arbitrary: acc) (auto simp: plain_seg_def)

lemma plain_clean_segs:
  "list_all plain_seg acc \<Longrightarrow> \<forall>s \<in> set ss. CHR ''/'' \<notin> set s \<Longrightarrow> list_all plain_seg (clean_segs True acc ss)"
proof (induction ss arbitrary: acc)
  case (Cons s ss)
  then have IH: "list_all plain_seg acc' \<Longrightarrow> list_all plain_seg (clean_segs True acc' ss)" for acc' by simp
  have s: "s = '''' \<or> s = ''.'' \<or> s = ''..'' \<or> plain_seg s"
    using Cons.prems(2) by (auto simp: plain_seg_def)
  show ?case
  proof (cases acc)
    case Nil
    with IH [of "[]"] IH [of "[s]"] s Cons.prems show ?thesis by auto
  next
    case (Cons a as)
    with Cons.prems have "a \<noteq> ''..''" by (simp add: plain_seg_def)
    with IH [of acc] IH [of as] IH [of "s # acc"] s Cons.prems Cons show ?thesis by auto
  qed
qed (simp add: list_all_rev)

lemma plain_path_elems: "filepath_IsAbs p \<Longrightarrow> list_all plain_seg (path_elems p)"
  by (auto simp: path_elems_def intro!: plain_clean_segs dest: set_split_char)

definition abs_path :: "string list \<Rightarrow> string" where
  "abs_path ss = ''/'' @ strings_Join ss ''/''"

lemma abs_path_IsAbs [simp]: "filepath_IsAbs (abs_path ss)"
  by (simp add: abs_path_def filepath_IsAbs_def)

lemma plain_no_slash: "list_all plain_seg ss \<Longrightarrow> \<forall>s \<in> set ss. CHR ''/'' \<notin> set s"
  by (simp add: list_all_iff plain_seg_def)

lemma path_elems_abs_path: "list_all plain_seg ss \<Longrightarrow> path_elems (abs_path ss) = ss"
proof (cases "ss = []")
  case False
  moreover assume "list_all plain_seg ss"
  ultimately show ?thesis
    using split_char_Join [of ss "CHR ''/''"] plain_no_slash [of ss] clean_segs_plain [of ss True "[]"]
    by (simp add: path_elems_def abs_path_def filepath_IsAbs_def)
qed (simp add: path_elems_def abs_path_def filepath_IsAbs_def)

lemma path_elems_suffix:
  assumes "list_all plain_seg ss" "plain_seg (s @ t)"
  shows "path_elems (abs_path (ss @ [s]) @ t) = ss @ [s @ t]"
proof -
  have "abs_path (ss @ [s]) @ t = abs_path (ss @ [s @ t])"
    by (cases "ss = []") (simp_all add: abs_path_def strings_Join_append)
  with assms show ?thesis by (simp add: path_elems_abs_path)
qed

lemma filepath_Clean_abs: "filepath_IsAbs p \<Longrightarrow> filepath_Clean p = abs_path (path_elems p)"
  by (simp add: filepath_Clean_def abs_path_def)

lemma filepath_Clean_abs_path: "list_all plain_seg ss \<Longrightarrow> filepath_Clean (abs_path ss) = abs_path ss"
  by (simp add: filepath_Clean_abs path_elems_abs_path)

lemma path_elems_join:
  assumes "list_all plain_seg rs" "list_all plain_seg ss" "ss \<noteq> []"
  shows "path_elems (strings_Join (abs_path rs # ss) ''/'') = rs @ ss"
proof (cases "rs = []")
  case True
  with assms show ?thesis
    using split_char_Join [of ss "CHR ''/''"] plain_no_slash [of ss] clean_segs_plain [of ss True "[]"]
    by (simp add: path_elems_def abs_path_def filepath_IsAbs_def strings_Join_Cons)
next
  case False
  with assms have "strings_Join (abs_path rs # ss) ''/'' = abs_path (rs @ ss)"
    by (simp add: abs_path_def strings_Join_Cons strings_Join_append)
  with assms show ?thesis by (simp add: path_elems_abs_path)
qed

lemma filepath_Join_abs:
  assumes "list_all plain_seg rs" "list_all plain_seg ss" "ss \<noteq> []"
  shows "filepath_Join (abs_path rs # ss) = abs_path (rs @ ss)"
proof -
  have abs: "filepath_IsAbs (strings_Join (abs_path rs # ss) ''/'')"
    using assms(3) by (simp add: strings_Join_Cons abs_path_def filepath_IsAbs_def)
  have "filepath_Join (abs_path rs # ss) = filepath_Clean (strings_Join (abs_path rs # ss) ''/'')"
    by (simp add: filepath_Join_def abs_path_def)
  with abs path_elems_join [OF assms] show ?thesis by (simp add: filepath_Clean_abs)
qed

lemma filepath_Dir_abs_path:
  assumes "list_all plain_seg ss" "plain_seg s"
  shows "filepath_Dir (abs_path (ss @ [s])) = abs_path ss"
proof -
  have rev: "dropWhile (\<lambda>c. c \<noteq> CHR ''/'') (rev s @ CHR ''/'' # xs) = CHR ''/'' # xs" for xs
    using assms(2) by (subst dropWhile_append2) (auto simp: plain_seg_def)
  show ?thesis
  proof (cases "ss = []")
    case True
    then have "rev (abs_path (ss @ [s])) = rev s @ CHR ''/'' # []" by (simp add: abs_path_def)
    then have "filepath_Dir (abs_path (ss @ [s])) = filepath_Clean ''/''"
      using rev [of "[]"] by (simp add: filepath_Dir_def)
    with True show ?thesis by (simp add: abs_path_def filepath_Clean_def path_elems_def filepath_IsAbs_def)
  next
    case False
    then have "rev (abs_path (ss @ [s])) = rev s @ CHR ''/'' # rev (abs_path ss)"
      by (simp add: abs_path_def strings_Join_append)
    then have dir: "filepath_Dir (abs_path (ss @ [s])) = filepath_Clean (abs_path ss @ ''/'')"
      using rev [of "rev (abs_path ss)"] by (simp add: filepath_Dir_def)
    have "clean_segs True acc (ts @ ['''']) = clean_segs True acc ts" for acc ts
      by (induction ts arbitrary: acc) (simp_all split: list.split)
    moreover have "filepath_IsAbs (abs_path ss @ ''/'')" by (simp add: abs_path_def filepath_IsAbs_def)
    moreover have "split_char (CHR ''/'') (abs_path ss @ ''/'') = split_char (CHR ''/'') (abs_path ss) @ ['''']"
      using split_char_append [of "CHR ''/''" "abs_path ss" "''''"] by simp
    ultimately have "path_elems (abs_path ss @ ''/'') = path_elems (abs_path ss)"
      by (simp add: path_elems_def)
    with dir assms(1) \<open>filepath_IsAbs (abs_path ss @ ''/'')\<close> show ?thesis
      by (simp add: filepath_Clean_abs path_elems_abs_path)
  qed
qed

lemma ValidateName_plain: "ValidateName s = None \<Longrightarrow> plain_seg s"
proof -
  assume "ValidateName s = None"
  then have v: "s \<noteq> []" "list_all name_char s" "lower_alnum (hd s)"
    by (auto simp: ValidateName_None_iff)
  have "\<not> name_char (CHR ''/'')" by (simp add: name_char_def lower_alnum_def less_eq_char_def)
  then have "CHR ''/'' \<notin> set s" using v(2) by (auto simp: list_all_iff)
  moreover have "s \<noteq> ''.''" "s \<noteq> ''..''"
    using v(3) by (auto simp: lower_alnum_def less_eq_char_def)
  ultimately show "plain_seg s" using v(1) by (simp add: plain_seg_def)
qed

subsection \<open>The time layout 20060102T150405Z\<close>

text \<open>The civil date of a day counted from the first of January 1970, proleptic Gregorian.\<close>

definition civil_of_days :: "int \<Rightarrow> int \<times> int \<times> int" where
  "civil_of_days days =
     (let z = days + 719468; era = z div 146097; doe = z mod 146097;
          yoe = (doe - doe div 1460 + doe div 36524 - doe div 146096) div 365;
          doy = doe - (365 * yoe + yoe div 4 - yoe div 100);
          mp = (5 * doy + 2) div 153; d = doy - (153 * mp + 2) div 5 + 1;
          mo = (if mp < 10 then mp + 3 else mp - 9)
      in (yoe + era * 400 + (if mo \<le> 2 then 1 else 0), mo, d))"

definition pad0 :: "nat \<Rightarrow> string \<Rightarrow> string" where
  "pad0 w s = replicate (w - length s) (CHR ''0'') @ s"

definition compact_time :: "time \<Rightarrow> string" where
  "compact_time t = (let secs = t div time_Second; rest = secs mod 86400
     in (case civil_of_days (secs div 86400) of (y, mo, d) \<Rightarrow>
           pad0 4 (FormatInt y) @ pad0 2 (FormatInt mo) @ pad0 2 (FormatInt d) @ ''T''
           @ pad0 2 (FormatInt (rest div 3600)) @ pad0 2 (FormatInt (rest div 60 mod 60))
           @ pad0 2 (FormatInt (rest mod 60)) @ ''Z''))"

subsection \<open>volume/path.go\<close>

definition volumesDir :: string where "volumesDir = ''volumes''"
definition dataDir :: string where "dataDir = ''data''"

text \<open>The components in order, each with the label of its error.\<close>

fun check_components :: "(string \<times> string) list \<Rightarrow> agent_error option" where
  "check_components [] = None"
| "check_components ((label, v) # cs) = (case ValidateName v of
       Some e \<Rightarrow> Some (ErrWrap (label @ '' '' @ go_quote v @ '' cannot be used in a volume path'') (ErrText e))
     | None \<Rightarrow> check_components cs)"

definition HostPath :: "string \<Rightarrow> string \<Rightarrow> string \<Rightarrow> string \<Rightarrow> agent_error + string" where
  "HostPath dataRoot namespace project volumeName =
     (case check_components [(''namespace'', namespace), (''project'', project), (''volume'', volumeName)] of
        Some e \<Rightarrow> Inl e
      | None \<Rightarrow>
          if dataRoot = '''' then Inl (ErrText ''data root must not be empty'')
          else if \<not> filepath_IsAbs dataRoot
          then Inl (ErrText (''data root '' @ go_quote dataRoot @ '' must be an absolute path''))
          else let root = filepath_Clean dataRoot;
                   path = filepath_Join [root, volumesDir, namespace, project, volumeName, dataDir]
               in if \<not> prefix (root @ ''/'') path
                  then Inl (ErrText (''derived volume path '' @ go_quote path @ '' escapes data root '' @ go_quote root))
                  else Inr path)"

definition VolumesRoot :: "string \<Rightarrow> agent_error + string" where
  "VolumesRoot dataRoot =
     (if dataRoot = '''' then Inl (ErrText ''data root must not be empty'')
      else if \<not> filepath_IsAbs dataRoot
      then Inl (ErrText (''data root '' @ go_quote dataRoot @ '' must be an absolute path''))
      else Inr (filepath_Join [filepath_Clean dataRoot, volumesDir]))"

definition ProjectDir :: "string \<Rightarrow> string \<Rightarrow> string \<Rightarrow> agent_error + string" where
  "ProjectDir dataRoot namespace project =
     (case HostPath dataRoot namespace project ''x'' of
        Inl e \<Rightarrow> Inl e
      | Inr path \<Rightarrow> Inr (filepath_Dir (filepath_Dir path)))"

definition pgBackRestClientRoot :: string where "pgBackRestClientRoot = ''pgbackrest/projects''"

definition PgBackRestClientDirs :: "string \<Rightarrow> string \<Rightarrow> agent_error + string \<times> string" where
  "PgBackRestClientDirs dataRoot uid =
     (if uid = '''' \<or> uid = ''.'' \<or> uid = ''..'' \<or> CHR ''/'' \<in> set uid \<or> CHR 0x5C \<in> set uid
      then Inl (ErrText (''project UID '' @ go_quote uid @ '' cannot be used in a path''))
      else if dataRoot = '''' \<or> \<not> filepath_IsAbs dataRoot
      then Inl (ErrText (''data root '' @ go_quote dataRoot @ '' must be an absolute path''))
      else let base = filepath_Join [filepath_Clean dataRoot, pgBackRestClientRoot, uid]
           in Inr (filepath_Join [base, ''conf''], filepath_Join [base, ''tls'']))"

text \<open>
  Where the paths are: below the cleaned data root, which must not be the root directory itself
  (\<open>strings.HasPrefix\<close> then looks for a double slash, and every derivation is refused).
\<close>

definition host_elems :: "string \<Rightarrow> string \<Rightarrow> string \<Rightarrow> string \<Rightarrow> string list" where
  "host_elems dataRoot ns p v = path_elems dataRoot @ [volumesDir, ns, p, v, dataDir]"

definition root_usable :: "string \<Rightarrow> bool" where
  "root_usable dataRoot \<longleftrightarrow> filepath_IsAbs dataRoot \<and> path_elems dataRoot \<noteq> []"

lemma plain_consts [simp]: "plain_seg volumesDir" "plain_seg dataDir" "plain_seg ''x''"
  by (simp_all add: plain_seg_def volumesDir_def dataDir_def)

lemma check_components_None_iff:
  "check_components cs = None \<longleftrightarrow> (\<forall>(l, v) \<in> set cs. ValidateName v = None)"
  by (induction cs rule: check_components.induct) (auto split: option.split)

lemma prefix_abs_path_iff:
  assumes "list_all plain_seg rs" "list_all plain_seg ss" "ss \<noteq> []"
  shows "prefix (abs_path rs @ ''/'') (abs_path (rs @ ss)) \<longleftrightarrow> rs \<noteq> []"
proof (cases "rs = []")
  case True
  from assms have "strings_Join ss ''/'' \<noteq> []" "hd (strings_Join ss ''/'') \<noteq> CHR ''/''"
    by (cases ss; cases "tl ss"; force simp: plain_seg_def neq_Nil_conv)+
  with True show ?thesis by (cases "strings_Join ss ''/''") (simp_all add: abs_path_def)
next
  case False
  with assms(3) have "abs_path (rs @ ss) = (abs_path rs @ ''/'') @ strings_Join ss ''/''"
    by (simp add: abs_path_def strings_Join_append)
  then have "prefix (abs_path rs @ ''/'') (abs_path (rs @ ss))" by (rule prefixI)
  with False show ?thesis by simp
qed

lemma HostPath_eq:
  "HostPath dataRoot ns p v = Inr path \<longleftrightarrow>
     ValidateName ns = None \<and> ValidateName p = None \<and> ValidateName v = None \<and> root_usable dataRoot
     \<and> path = abs_path (host_elems dataRoot ns p v)"
proof (cases "ValidateName ns = None \<and> ValidateName p = None \<and> ValidateName v = None \<and> filepath_IsAbs dataRoot")
  case True
  let ?rs = "path_elems dataRoot" and ?ss = "[volumesDir, ns, p, v, dataDir]"
  have pl: "list_all plain_seg ?rs" "list_all plain_seg ?ss"
    using True plain_path_elems ValidateName_plain by auto
  have "dataRoot \<noteq> ''''" using True by (auto simp: filepath_IsAbs_def)
  with True pl prefix_abs_path_iff [OF pl] filepath_Join_abs [OF pl] show ?thesis
    by (auto simp: HostPath_def check_components_None_iff filepath_Clean_abs host_elems_def root_usable_def Let_def)
next
  case False
  then show ?thesis
    by (auto simp: HostPath_def root_usable_def check_components_None_iff Let_def simp del: check_components.simps
             split: option.splits if_splits)
qed

lemma plain_host_elems:
  "HostPath dataRoot ns p v = Inr path \<Longrightarrow> list_all plain_seg (host_elems dataRoot ns p v)"
  by (auto simp: HostPath_eq host_elems_def root_usable_def ValidateName_plain plain_path_elems)

lemma ProjectDir_eq:
  "ProjectDir dataRoot ns p = Inr path \<longleftrightarrow>
     ValidateName ns = None \<and> ValidateName p = None \<and> root_usable dataRoot
     \<and> path = abs_path (path_elems dataRoot @ [volumesDir, ns, p])"
proof (cases "HostPath dataRoot ns p ''x''")
  case (Inl e)
  moreover have "ValidateName ''x'' = None"
    by (simp add: ValidateName_None_iff lower_alnum_def less_eq_char_def name_char_def)
  ultimately show ?thesis
    using HostPath_eq [of dataRoot ns p "''x''" "abs_path (host_elems dataRoot ns p ''x'')"]
    by (auto simp: ProjectDir_def)
next
  case (Inr q)
  have q: "q = abs_path (host_elems dataRoot ns p ''x'')" "ValidateName ns = None" "ValidateName p = None"
    "root_usable dataRoot"
    using Inr by (auto simp: HostPath_eq)
  have pl: "list_all plain_seg (path_elems dataRoot @ [volumesDir, ns, p, ''x''])"
    using plain_host_elems [OF Inr] by (simp add: host_elems_def)
  have "filepath_Dir q = abs_path (path_elems dataRoot @ [volumesDir, ns, p, ''x''])"
    using filepath_Dir_abs_path [OF pl, of dataDir] q(1) by (simp add: host_elems_def)
  moreover have "filepath_Dir \<dots> = abs_path (path_elems dataRoot @ [volumesDir, ns, p])"
    using filepath_Dir_abs_path [of "path_elems dataRoot @ [volumesDir, ns, p]" "''x''"] pl by simp
  ultimately show ?thesis using Inr q by (auto simp: ProjectDir_def)
qed

text \<open>Different volumes never share a directory, and none lies inside another.\<close>

lemma HostPath_disjoint:
  assumes "prefix (host_elems dataRoot ns p v) (host_elems dataRoot ns' p' v')"
  shows "ns = ns' \<and> p = p' \<and> v = v'"
  using assms by (simp add: host_elems_def)

end
