(* ===== verification/Host_Files.thy ===== *)
theory Host_Files
  imports Agent_Prelude
begin

text \<open>
  The host file system as the Agent uses it through \<open>os\<close>. A state is the list of the nodes below the
  root directory by the elements of their path, and the faults the coming calls meet: each call takes
  one entry, and an entry makes the call fail with an error of the system, after whatever part of the
  work the entry says was done; it is never the error for a missing file. A process that dies is the schedule on which every later call fails
  with nothing done, so a statement for all schedules covers a crash at any point. Directories the
  Agent creates are not symbolic links; links are data inside volumes.
\<close>

datatype fnode = FDir | FFile string | FLink string

type_synonym files = "(string list \<times> fnode) list"

datatype fault = Fault (fault_denied: bool) (fault_text: string) (fault_paths: "string list list") (fault_data: string)

definition fault_error :: "fault \<Rightarrow> os_error" where
  "fault_error f = (if fault_denied f then EACCES else OsOther (fault_text f))"

record host =
  h_files :: files
  h_faults :: "fault option list"

subsection \<open>Operations on the tree\<close>

definition fs_get :: "files \<Rightarrow> string list \<Rightarrow> fnode option" where
  "fs_get fs p = (if p = [] then Some FDir else map_of fs p)"

definition parents :: "string list \<Rightarrow> string list list" where
  "parents p = map (\<lambda>k. take k p) [1..<length p]"

definition is_file_at :: "files \<Rightarrow> string list \<Rightarrow> bool" where
  "is_file_at fs q \<longleftrightarrow> (case fs_get fs q of Some (FFile _) \<Rightarrow> True | Some (FLink _) \<Rightarrow> True | _ \<Rightarrow> False)"

definition fs_stat :: "files \<Rightarrow> string list \<Rightarrow> os_error + fnode" where
  "fs_stat fs p = (case fs_get fs p of
       Some n \<Rightarrow> Inr n
     | None \<Rightarrow> if list_ex (is_file_at fs) (parents p) then Inl ENOTDIR else Inl ENOENT)"

definition fs_remove :: "string list \<Rightarrow> files \<Rightarrow> files" where
  "fs_remove p fs = filter (\<lambda>(q, n). \<not> prefix p q) fs"

definition fs_move :: "string list \<Rightarrow> string list \<Rightarrow> files \<Rightarrow> files" where
  "fs_move src dst fs =
     map (\<lambda>(q, n). (if prefix src q then dst @ drop (length src) q else q, n)) (fs_remove dst fs)"

definition fs_children :: "files \<Rightarrow> string list \<Rightarrow> string list" where
  "fs_children fs p =
     sort (remdups (map (\<lambda>(q, n). q ! length p) (filter (\<lambda>(q, n). strict_prefix p q) fs)))"

text \<open>Missing directories from the top down; a file in the way is an error.\<close>

fun fs_mkdirs :: "string list list \<Rightarrow> files \<Rightarrow> (os_error + unit) \<times> files" where
  "fs_mkdirs [] fs = (Inr (), fs)"
| "fs_mkdirs (q # qs) fs = (case fs_get fs q of
       None \<Rightarrow> fs_mkdirs qs ((q, FDir) # fs)
     | Some FDir \<Rightarrow> fs_mkdirs qs fs
     | Some _ \<Rightarrow> (Inl ENOTDIR, fs))"

definition fs_rename :: "string list \<Rightarrow> string list \<Rightarrow> files \<Rightarrow> (os_error + unit) \<times> files" where
  "fs_rename src dst fs = (case fs_get fs src of
       None \<Rightarrow> (Inl ENOENT, fs)
     | Some n \<Rightarrow>
         if src = dst then (Inr (), fs)
         else if prefix src dst then (Inl EINVAL, fs)
         else if prefix dst src then (Inl ENOTEMPTY, fs)
         else if fs_get fs (butlast dst) \<noteq> Some FDir then (Inl ENOENT, fs)
         else case fs_get fs dst of
           None \<Rightarrow> (Inr (), fs_move src dst fs)
         | Some FDir \<Rightarrow>
             if n \<noteq> FDir then (Inl EISDIR, fs)
             else if fs_children fs dst \<noteq> [] then (Inl ENOTEMPTY, fs)
             else (Inr (), fs_move src dst fs)
         | Some _ \<Rightarrow> if n = FDir then (Inl ENOTDIR, fs) else (Inr (), fs_move src dst fs))"

definition fs_write :: "string list \<Rightarrow> string \<Rightarrow> files \<Rightarrow> (os_error + unit) \<times> files" where
  "fs_write p data fs =
     (if p = [] \<or> fs_get fs p = Some FDir then (Inl EISDIR, fs)
      else if fs_get fs (butlast p) \<noteq> Some FDir then (Inl ENOENT, fs)
      else (Inr (), AList.update p (FFile data) fs))"

subsection \<open>Calls\<close>

definition os_call :: "(fault \<Rightarrow> files \<Rightarrow> files) \<Rightarrow> (files \<Rightarrow> (os_error + 'a) \<times> files) \<Rightarrow> (host, 'a) op" where
  "os_call partly act h = (case h_faults h of
       Some f # rest \<Rightarrow> (Inl (ErrOs (fault_error f)), h\<lparr>h_files := partly f (h_files h), h_faults := rest\<rparr>)
     | _ \<Rightarrow> (case act (h_files h) of
           (Inl e, fs) \<Rightarrow> (Inl (ErrOs e), h\<lparr>h_files := fs, h_faults := tl (h_faults h)\<rparr>)
         | (Inr a, fs) \<Rightarrow> (Inr a, h\<lparr>h_files := fs, h_faults := tl (h_faults h)\<rparr>)))"

definition os_Stat :: "string \<Rightarrow> (host, fnode) op" where
  "os_Stat path = os_call (\<lambda>_ fs. fs) (\<lambda>fs. (fs_stat fs (path_elems path), fs))"

definition os_ReadDir :: "string \<Rightarrow> (host, string list) op" where
  "os_ReadDir path = os_call (\<lambda>_ fs. fs) (\<lambda>fs. case fs_stat fs (path_elems path) of
       Inl e \<Rightarrow> (Inl e, fs)
     | Inr FDir \<Rightarrow> (Inr (fs_children fs (path_elems path)), fs)
     | Inr _ \<Rightarrow> (Inl ENOTDIR, fs))"

definition os_ReadFile :: "string \<Rightarrow> (host, string) op" where
  "os_ReadFile path = os_call (\<lambda>_ fs. fs) (\<lambda>fs. case fs_stat fs (path_elems path) of
       Inl e \<Rightarrow> (Inl e, fs)
     | Inr (FFile d) \<Rightarrow> (Inr d, fs)
     | Inr FDir \<Rightarrow> (Inl EISDIR, fs)
     | Inr (FLink _) \<Rightarrow> (Inl (OsOther ''too many levels of symbolic links''), fs))"

definition os_MkdirAll :: "string \<Rightarrow> (host, unit) op" where
  "os_MkdirAll path = (let p = path_elems path in
     os_call (\<lambda>f fs. snd (fs_mkdirs (filter (\<lambda>q. prefix q p \<and> q \<noteq> []) (fault_paths f)) fs))
       (fs_mkdirs (parents p @ (if p = [] then [] else [p]))))"

definition os_RemoveAll :: "string \<Rightarrow> (host, unit) op" where
  "os_RemoveAll path = (let p = path_elems path in
     os_call (\<lambda>f fs. filter (\<lambda>(q, n). \<not> (prefix p q \<and> q \<in> set (fault_paths f))) fs)
       (\<lambda>fs. (Inr (), fs_remove p fs)))"

definition os_Rename :: "string \<Rightarrow> string \<Rightarrow> (host, unit) op" where
  "os_Rename src dst = os_call (\<lambda>_ fs. fs) (fs_rename (path_elems src) (path_elems dst))"

definition os_WriteFile :: "string \<Rightarrow> string \<Rightarrow> (host, unit) op" where
  "os_WriteFile path data = (let p = path_elems path in
     os_call (\<lambda>f fs. if p \<in> set (fault_paths f) then snd (fs_write p (fault_data f) fs) else fs) (fs_write p data))"

definition os_Remove :: "string \<Rightarrow> (host, unit) op" where
  "os_Remove path = (let p = path_elems path in
     os_call (\<lambda>_ fs. fs) (\<lambda>fs. case fs_stat fs p of
         Inl e \<Rightarrow> (Inl e, fs)
       | Inr n \<Rightarrow> if n = FDir \<and> fs_children fs p \<noteq> [] then (Inl ENOTEMPTY, fs) else (Inr (), fs_remove p fs)))"

definition is_not_exist :: "agent_error \<Rightarrow> bool" where
  "is_not_exist e \<longleftrightarrow> e = ErrOs ENOENT"

subsection \<open>What the calls leave alone\<close>

abbreviation node_at :: "host \<Rightarrow> string list \<Rightarrow> fnode option" where
  "node_at h \<equiv> map_of (h_files h)"

text \<open>The tree below a directory, by the path relative to it.\<close>

definition tree_at :: "host \<Rightarrow> string list \<Rightarrow> string list \<Rightarrow> fnode option" where
  "tree_at h p q = node_at h (p @ q)"

definition untouched :: "(string list \<Rightarrow> bool) \<Rightarrow> host \<Rightarrow> host \<Rightarrow> bool" where
  "untouched P h h' \<longleftrightarrow> (\<forall>q. P q \<longrightarrow> node_at h' q = node_at h q)"

lemma untouched_refl [simp, intro]: "untouched P h h"
  by (simp add: untouched_def)

lemma untouched_trans [trans]: "untouched P h h' \<Longrightarrow> untouched P h' h'' \<Longrightarrow> untouched P h h''"
  by (simp add: untouched_def)

lemma untouched_mono: "untouched P h h' \<Longrightarrow> (\<And>q. Q q \<Longrightarrow> P q) \<Longrightarrow> untouched Q h h'"
  by (auto simp: untouched_def)

lemma map_of_fs_remove: "map_of (fs_remove p fs) q = (if prefix p q then None else map_of fs q)"
  unfolding fs_remove_def by (induction fs) auto

lemma fs_remove_eqD: "fs_remove p fs = fs' \<Longrightarrow> map_of fs' q = (if prefix p q then None else map_of fs q)"
  using map_of_fs_remove by blast

lemma map_of_filter_paths:
  "map_of (filter (\<lambda>(q, n). \<not> (prefix p q \<and> q \<in> S)) fs) q = (if prefix p q \<and> q \<in> S then None else map_of fs q)"
  by (induction fs) auto

lemma map_of_move_keys:
  "\<not> prefix src dst \<Longrightarrow> \<not> prefix dst src \<Longrightarrow> \<forall>(q, n) \<in> set fs. \<not> prefix dst q \<Longrightarrow>
   map_of (map (\<lambda>(q, n). (if prefix src q then dst @ drop (length src) q else q, n)) fs) q =
     (if prefix dst q then map_of fs (src @ drop (length dst) q)
      else if prefix src q then None else map_of fs q)"
proof (induction fs)
  case (Cons a fs)
  obtain r n where a: "a = (r, n)" by (cases a)
  show ?case
  proof (cases "prefix src r")
    case True
    then obtain t where "r = src @ t" by (auto simp: prefix_def)
    with a Cons show ?thesis by (auto simp: prefix_def)
  next
    case False
    with a Cons show ?thesis by (auto simp: prefix_def)
  qed
qed simp

lemma map_of_fs_move:
  assumes "\<not> prefix src dst" "\<not> prefix dst src"
  shows "map_of (fs_move src dst fs) q =
     (if prefix dst q then map_of fs (src @ drop (length dst) q)
      else if prefix src q then None else map_of fs q)"
proof -
  have "\<forall>(q, n) \<in> set (fs_remove dst fs). \<not> prefix dst q" by (auto simp: fs_remove_def)
  moreover have "\<not> prefix dst (src @ t)" for t
  proof
    assume "prefix dst (src @ t)"
    with assms show False by (auto simp: prefix_append prefix_def append_eq_append_conv2)
  qed
  ultimately show ?thesis
    unfolding fs_move_def using assms by (subst map_of_move_keys) (auto simp: map_of_fs_remove)
qed

lemma os_call_cases:
  assumes "os_call partly act h = (r, h')"
  obtains (fault) f where "r = Inl (ErrOs (fault_error f))" "h_files h' = partly f (h_files h)"
  | (error) e fs where "act (h_files h) = (Inl e, fs)" "h_files h' = fs" "r = Inl (ErrOs e)"
  | (return) a fs where "act (h_files h) = (Inr a, fs)" "h_files h' = fs" "r = Inr a"
  using assms by (auto simp: os_call_def split: list.splits option.splits prod.splits sum.splits)

lemma os_call_no_fault:
  "h_faults h = [] \<Longrightarrow> os_call partly act h =
     (case act (h_files h) of (Inl e, fs) \<Rightarrow> (Inl (ErrOs e), h\<lparr>h_files := fs\<rparr>) | (Inr a, fs) \<Rightarrow> (Inr a, h\<lparr>h_files := fs\<rparr>))"
  by (auto simp: os_call_def split: prod.splits sum.splits)

lemma os_Stat_files: "os_Stat p h = (r, h') \<Longrightarrow> h_files h' = h_files h"
  unfolding os_Stat_def by (erule os_call_cases) auto

lemma os_ReadDir_files: "os_ReadDir p h = (r, h') \<Longrightarrow> h_files h' = h_files h"
  unfolding os_ReadDir_def by (erule os_call_cases) (auto split: sum.splits fnode.splits)

lemma os_ReadFile_files: "os_ReadFile p h = (r, h') \<Longrightarrow> h_files h' = h_files h"
  unfolding os_ReadFile_def by (erule os_call_cases) (auto split: sum.splits fnode.splits)

lemmas os_read_files = os_Stat_files os_ReadDir_files os_ReadFile_files

lemma os_Stat_Inr: "os_Stat p h = (Inr n, h') \<Longrightarrow> fs_get (h_files h) (path_elems p) = Some n"
  unfolding os_Stat_def
  by (erule os_call_cases) (auto simp: fs_stat_def split: option.splits if_splits)

lemma os_Stat_present:
  "fs_get (h_files h) (path_elems p) \<noteq> None \<Longrightarrow> os_Stat p h = (Inl e, h') \<Longrightarrow> \<not> is_not_exist e"
  unfolding os_Stat_def
  by (erule os_call_cases) (auto simp: fs_stat_def is_not_exist_def fault_error_def split: option.splits if_splits)

text \<open>Making a directory only adds directories, on the way to it.\<close>

definition adds_dirs :: "(string list \<Rightarrow> bool) \<Rightarrow> files \<Rightarrow> files \<Rightarrow> bool" where
  "adds_dirs P fs fs' \<longleftrightarrow>
     (\<forall>q. map_of fs' q = map_of fs q \<or> map_of fs q = None \<and> map_of fs' q = Some FDir \<and> P q)"

lemma adds_dirs_refl [simp]: "adds_dirs P fs fs"
  by (simp add: adds_dirs_def)

lemma adds_dirs_mono: "adds_dirs P fs fs' \<Longrightarrow> (\<And>q. P q \<Longrightarrow> Q q) \<Longrightarrow> adds_dirs Q fs fs'"
  by (auto simp: adds_dirs_def)

lemma adds_dirs_trans: "adds_dirs P fs fs' \<Longrightarrow> adds_dirs P fs' fs'' \<Longrightarrow> adds_dirs P fs fs''"
  unfolding adds_dirs_def by (metis option.distinct(1))

lemma adds_dirs_keeps: "adds_dirs P fs fs' \<Longrightarrow> map_of fs q = Some n \<Longrightarrow> map_of fs' q = Some n"
  unfolding adds_dirs_def by (metis option.distinct(1))

lemma adds_dirs_fs_mkdirs:
  "[] \<notin> set qs \<Longrightarrow> \<forall>q \<in> set qs. P q \<Longrightarrow> adds_dirs P fs (snd (fs_mkdirs qs fs))"
proof (induction qs arbitrary: fs)
  case (Cons q qs)
  then have IH: "adds_dirs P fs' (snd (fs_mkdirs qs fs'))" for fs' by simp
  have "adds_dirs P fs ((q, FDir) # fs)" if "map_of fs q = None"
    using that Cons.prems by (simp add: adds_dirs_def)
  from adds_dirs_trans [OF this IH] IH Cons.prems show ?case
    by (auto simp: fs_get_def split: option.split fnode.split)
qed simp

lemma fs_mkdirs_done:
  "fs_mkdirs qs fs = (Inr u, fs') \<Longrightarrow> [] \<notin> set qs \<Longrightarrow> q \<in> set qs \<Longrightarrow> map_of fs' q = Some FDir"
proof (induction qs fs arbitrary: q rule: fs_mkdirs.induct)
  case (2 r qs fs)
  have keep: "map_of fs' r = Some FDir" if "fs_mkdirs qs fs1 = (Inr u, fs')" "map_of fs1 r = Some FDir" for fs1
  proof -
    have "adds_dirs (\<lambda>q. True) fs1 fs'" using adds_dirs_fs_mkdirs [of qs "\<lambda>q. True" fs1] that(1) "2.prems"(2) by simp
    with that(2) show ?thesis by (simp add: adds_dirs_keeps)
  qed
  show ?case
  proof (cases "map_of fs r")
    case None
    with 2 keep [of "(r, FDir) # fs"] show ?thesis by (auto simp: fs_get_def)
  next
    case (Some n)
    with 2 keep [of fs] show ?thesis by (auto simp: fs_get_def split: fnode.splits)
  qed
qed simp

lemma parents_Nil [simp]: "parents [] = []"
  by (simp add: parents_def)

lemma parents_prefix: "q \<in> set (parents p) \<Longrightarrow> prefix q p \<and> q \<noteq> []"
  by (auto simp: parents_def take_is_prefix)

lemma os_call_adds:
  assumes "os_call partly act h = (r, h')"
    and "\<And>f fs. adds_dirs P fs (partly f fs)" "\<And>fs. adds_dirs P fs (snd (act fs))"
  shows "adds_dirs P (h_files h) (h_files h')"
  using assms(1)
proof (rule os_call_cases)
  fix e fs assume "act (h_files h) = (Inl e, fs)" "h_files h' = fs"
  with assms(3) [of "h_files h"] show ?thesis by simp
next
  fix a fs assume "act (h_files h) = (Inr a, fs)" "h_files h' = fs"
  with assms(3) [of "h_files h"] show ?thesis by simp
qed (simp add: assms(2))

lemma os_MkdirAll_adds:
  assumes "os_MkdirAll p h = (r, h')"
  shows "adds_dirs (\<lambda>q. prefix q (path_elems p) \<and> q \<noteq> []) (h_files h) (h_files h')"
proof -
  let ?P = "\<lambda>q. prefix q (path_elems p) \<and> q \<noteq> []"
  let ?qs = "parents (path_elems p) @ (if path_elems p = [] then [] else [path_elems p])"
  have full: "adds_dirs ?P fs (snd (fs_mkdirs ?qs fs))" for fs
    by (rule adds_dirs_fs_mkdirs) (auto dest: parents_prefix)
  have part: "adds_dirs ?P fs (snd (fs_mkdirs (filter ?P qs) fs))" for qs fs
    by (rule adds_dirs_fs_mkdirs) auto
  from assms show ?thesis
    unfolding os_MkdirAll_def Let_def by (rule os_call_adds) (simp_all add: full part)
qed

lemma os_MkdirAll_done:
  "os_MkdirAll p h = (Inr u, h') \<Longrightarrow> path_elems p \<noteq> [] \<Longrightarrow> node_at h' (path_elems p) = Some FDir"
  unfolding os_MkdirAll_def Let_def
  by (erule os_call_cases) (auto dest!: fs_mkdirs_done [where q = "path_elems p"] dest: parents_prefix)

lemma prefix_parents: "prefix q p \<Longrightarrow> q \<noteq> [] \<Longrightarrow> q = p \<or> q \<in> set (parents p)"
proof -
  assume q: "prefix q p" "q \<noteq> []"
  then obtain r where p: "p = q @ r" by (auto simp: prefix_def)
  with q have "q = take (length q) p" by simp
  moreover have "length q \<in> {1..<length p}" if "q \<noteq> p" using p q that by (cases q; cases r) auto
  ultimately show ?thesis by (auto simp: parents_def)
qed

lemma os_MkdirAll_way:
  "os_MkdirAll p h = (Inr u, h') \<Longrightarrow> prefix q (path_elems p) \<Longrightarrow> q \<noteq> [] \<Longrightarrow> node_at h' q = Some FDir"
  unfolding os_MkdirAll_def Let_def
  by (erule os_call_cases)
    (auto dest!: fs_mkdirs_done [where q = q] dest: parents_prefix prefix_parents split: if_splits)

lemma os_RemoveAll_spec:
  assumes "os_RemoveAll p h = (r, h')"
  shows "if prefix (path_elems p) q then node_at h' q = None \<or> (\<exists>e. r = Inl e) \<and> node_at h' q = node_at h q
         else node_at h' q = node_at h q"
  using assms unfolding os_RemoveAll_def Let_def
proof (rule os_call_cases)
  fix f
  assume "r = Inl (ErrOs (fault_error f))"
    "h_files h' = filter (\<lambda>(q, n). \<not> (prefix (path_elems p) q \<and> q \<in> set (fault_paths f))) (h_files h)"
  then show ?thesis using map_of_filter_paths [of "path_elems p" "set (fault_paths f)" "h_files h" q] by auto
qed (auto simp: map_of_fs_remove)

lemma os_Remove_other: "os_Remove p h = (r, h') \<Longrightarrow> \<not> prefix (path_elems p) q \<Longrightarrow> node_at h' q = node_at h q"
  unfolding os_Remove_def Let_def
  by (erule os_call_cases) (auto dest: fs_remove_eqD [where q = q] split: sum.splits if_splits)

lemma fs_children_nonempty: "map_of fs (p @ x # q) \<noteq> None \<Longrightarrow> fs_children fs p \<noteq> []"
proof -
  assume "map_of fs (p @ x # q) \<noteq> None"
  then obtain n where "(p @ x # q, n) \<in> set fs" by (auto dest: map_of_SomeD)
  then have "(p @ x # q, n) \<in> set (filter (\<lambda>(q, n). strict_prefix p q) fs)"
    by (auto simp: strict_prefix_def)
  then have "set (fs_children fs p) \<noteq> {}" by (auto simp: fs_children_def)
  then show ?thesis by auto
qed

lemma os_Rename_spec:
  assumes "os_Rename src dst h = (r, h')"
  shows "(\<exists>e. r = Inl e) \<and> h_files h' = h_files h
    \<or> r = Inr () \<and> (if path_elems src = path_elems dst then h_files h' = h_files h
        else \<not> prefix (path_elems src) (path_elems dst) \<and> \<not> prefix (path_elems dst) (path_elems src)
          \<and> h_files h' = fs_move (path_elems src) (path_elems dst) (h_files h))"
  using assms unfolding os_Rename_def
  by (rule os_call_cases) (auto simp: fs_rename_def split: option.splits if_splits fnode.splits)

lemma os_Rename_Inl: "os_Rename src dst h = (Inl e, h') \<Longrightarrow> h_files h' = h_files h"
  using os_Rename_spec by fastforce

lemma os_Rename_Inr:
  assumes "os_Rename src dst h = (Inr u, h')" "path_elems src \<noteq> path_elems dst"
  shows "node_at h' q = (if prefix (path_elems dst) q then node_at h (path_elems src @ drop (length (path_elems dst)) q)
      else if prefix (path_elems src) q then None else node_at h q)"
    and "\<not> prefix (path_elems src) (path_elems dst)" "\<not> prefix (path_elems dst) (path_elems src)"
  using os_Rename_spec [OF assms(1)] assms(2) by (auto simp: map_of_fs_move)

lemma fs_write_spec:
  "fs_write p d fs = (r, fs') \<Longrightarrow>
     map_of fs' q = (if q = p \<and> r = Inr () then Some (FFile d) else map_of fs q)"
  by (auto simp: fs_write_def update_conv' split: if_splits)

lemma os_WriteFile_other:
  assumes "os_WriteFile p d h = (r, h')" "q \<noteq> path_elems p"
  shows "node_at h' q = node_at h q"
  using assms(1) unfolding os_WriteFile_def Let_def
proof (rule os_call_cases)
  fix f
  assume "h_files h' = (if path_elems p \<in> set (fault_paths f)
    then snd (fs_write (path_elems p) (fault_data f) (h_files h)) else h_files h)"
  then show ?thesis
    using fs_write_spec [of "path_elems p" "fault_data f" "h_files h" _ _ q] assms(2)
    by (auto simp: prod_eq_iff split: if_splits)
qed (use fs_write_spec [of "path_elems p" d "h_files h" _ _ q] assms(2) in auto)

lemma os_WriteFile_done: "os_WriteFile p d h = (Inr u, h') \<Longrightarrow> node_at h' (path_elems p) = Some (FFile d)"
  unfolding os_WriteFile_def Let_def
  by (erule os_call_cases) (auto dest: fs_write_spec [where q = "path_elems p"])

end
