(* ===== verification/Restore_Decision.thy ===== *)
theory Restore_Decision
  imports Host_Files
begin

text \<open>
  What the Agent does with a Project's Managed volumes before it starts containers:
  \<open>restore/marker.go\<close>, \<open>restore/decision.go\<close> and the fact gathering of \<open>restoresupport.go\<close>.
  \<open>encoding/json\<close> on a \<open>Marker\<close> is the argument \<open>mj\<close>; where a statement needs that what was written
  parses back, it says so.
\<close>

subsection \<open>marker.go\<close>

definition markerFilename :: string where "markerFilename = ''.cara-restore.json''"
definition MarkerVersion :: int where "MarkerVersion = 2"

record Provenance =
  pv_Namespace :: string
  pv_Project :: string
  pv_ProjectUID :: string
  pv_NodeName :: string
  pv_AssignmentGeneration :: int
  pv_BackupID :: string

definition ProvenanceFor :: "Project \<Rightarrow> string \<Rightarrow> string \<Rightarrow> Provenance" where
  "ProvenanceFor p nodeName backupID = \<lparr>pv_Namespace = meta_Namespace (prj_Meta p),
     pv_Project = meta_Name (prj_Meta p), pv_ProjectUID = meta_UID (prj_Meta p), pv_NodeName = nodeName,
     pv_AssignmentGeneration = ps_AssignmentGeneration (prj_Status p), pv_BackupID = backupID\<rparr>"

record Marker =
  mk_Version :: int
  mk_Namespace :: string
  mk_Project :: string
  mk_ProjectUID :: string
  mk_NodeName :: string
  mk_AssignmentGeneration :: int
  mk_InitializedFromBackupID :: string
  mk_EstablishedAt :: time

record marker_json =
  mj_Marshal :: "Marker \<Rightarrow> agent_error + string"
  mj_Unmarshal :: "string \<Rightarrow> agent_error + Marker"

text \<open>The pointer receivers accept nil.\<close>

definition IsLegacy :: "Marker option \<Rightarrow> bool" where
  "IsLegacy m \<longleftrightarrow> (case m of None \<Rightarrow> True | Some k \<Rightarrow> mk_Version k < MarkerVersion)"

definition Matches :: "Marker option \<Rightarrow> Provenance \<Rightarrow> bool" where
  "Matches m want \<longleftrightarrow> (case m of
       None \<Rightarrow> False
     | Some k \<Rightarrow> if IsLegacy m then False
         else mk_ProjectUID k = pv_ProjectUID want \<and> mk_NodeName k = pv_NodeName want
           \<and> mk_AssignmentGeneration k = pv_AssignmentGeneration want)"

definition Mismatches :: "Marker option \<Rightarrow> Provenance \<Rightarrow> string list" where
  "Mismatches m want = (case m of
       None \<Rightarrow> [''marker: absent'']
     | Some k \<Rightarrow>
         if IsLegacy m then [''version: '' @ FormatInt (mk_Version k) @ '', want '' @ FormatInt MarkerVersion]
         else (if mk_ProjectUID k \<noteq> pv_ProjectUID want
               then [''projectUID: '' @ go_quote (mk_ProjectUID k) @ '', want '' @ go_quote (pv_ProjectUID want)] else [])
           @ (if mk_NodeName k \<noteq> pv_NodeName want
              then [''nodeName: '' @ go_quote (mk_NodeName k) @ '', want '' @ go_quote (pv_NodeName want)] else [])
           @ (if mk_AssignmentGeneration k \<noteq> pv_AssignmentGeneration want
              then [''assignmentGeneration: '' @ FormatInt (mk_AssignmentGeneration k) @ '', want ''
                    @ FormatInt (pv_AssignmentGeneration want)] else []))"

definition MarkerPath :: "string \<Rightarrow> string \<Rightarrow> string \<Rightarrow> agent_error + string" where
  "MarkerPath dataRoot namespace project = (case ProjectDir dataRoot namespace project of
       Inl e \<Rightarrow> Inl e
     | Inr dir \<Rightarrow> Inr (filepath_Join [dir, markerFilename]))"

text \<open>A missing file is no marker; one that does not parse is an error.\<close>

definition ReadMarker :: "marker_json \<Rightarrow> string \<Rightarrow> string \<Rightarrow> string \<Rightarrow> (host, Marker option) op" where
  "ReadMarker mj dataRoot namespace project h = (case MarkerPath dataRoot namespace project of
       Inl e \<Rightarrow> (Inl e, h)
     | Inr path \<Rightarrow> (case os_ReadFile path h of
           (Inl e, h1) \<Rightarrow>
             if is_not_exist e then (Inr None, h1)
             else (Inl (ErrWrap (''restore: read marker '' @ go_quote path) e), h1)
         | (Inr d, h1) \<Rightarrow> (case mj_Unmarshal mj d of
               Inl e \<Rightarrow> (Inl (ErrWrap (''restore: parse marker '' @ go_quote path) e), h1)
             | Inr m \<Rightarrow> (Inr (Some m), h1))))"

definition marker_of :: "Provenance \<Rightarrow> time \<Rightarrow> Marker" where
  "marker_of prov now = \<lparr>mk_Version = MarkerVersion, mk_Namespace = pv_Namespace prov,
     mk_Project = pv_Project prov, mk_ProjectUID = pv_ProjectUID prov, mk_NodeName = pv_NodeName prov,
     mk_AssignmentGeneration = pv_AssignmentGeneration prov, mk_InitializedFromBackupID = pv_BackupID prov,
     mk_EstablishedAt = now\<rparr>"

definition WriteMarker :: "marker_json \<Rightarrow> string \<Rightarrow> Provenance \<Rightarrow> time \<Rightarrow> (host, unit) op" where
  "WriteMarker mj dataRoot prov now =
     andThen (op_lift (MarkerPath dataRoot (pv_Namespace prov) (pv_Project prov))) (\<lambda>e. e) (\<lambda>path.
     andThen (os_MkdirAll (filepath_Dir path)) (ErrWrap (''restore: create marker dir for '' @ go_quote path)) (\<lambda>_.
     andThen (op_lift (mj_Marshal mj (marker_of prov now))) (ErrWrap ''restore: marshal marker'') (\<lambda>body.
     let tmp = path @ ''.tmp'' in
     andThen (os_WriteFile tmp body) (ErrWrap (''restore: write marker '' @ go_quote tmp)) (\<lambda>_ h.
       case os_Rename tmp path h of
         (Inl e, h1) \<Rightarrow> (Inl (ErrWrap (''restore: commit marker '' @ go_quote path) e), snd (os_Remove tmp h1))
       | (Inr _, h1) \<Rightarrow> (Inr (), h1)))))"

subsection \<open>decision.go\<close>

datatype Decision = DecisionRestore | DecisionSkip | DecisionInitializeEmpty | DecisionBlock

record VolumeSurvey =
  vs_WithData :: "string list"
  vs_Empty :: "string list"

definition AnyData :: "VolumeSurvey \<Rightarrow> bool" where "AnyData s \<longleftrightarrow> length (vs_WithData s) > 0"
definition Complete :: "VolumeSurvey \<Rightarrow> bool" where "Complete s \<longleftrightarrow> length (vs_Empty s) = 0"

record PlacementState =
  pst_StagingPresent :: bool
  pst_Marker :: "Marker option"
  pst_MarkerErr :: "agent_error option"
  pst_Volumes :: VolumeSurvey

record Outcome =
  oc_Decision :: Decision
  oc_Reason :: BlockReason
  oc_Detail :: string

definition decided :: "Decision \<Rightarrow> Outcome" where
  "decided d = \<lparr>oc_Decision = d, oc_Reason = BlockNone, oc_Detail = ''''\<rparr>"

definition blocked_by :: "BlockReason \<Rightarrow> string \<Rightarrow> Outcome" where
  "blocked_by r detail = \<lparr>oc_Decision = DecisionBlock, oc_Reason = r, oc_Detail = detail\<rparr>"

definition volumeList :: "string list \<Rightarrow> string" where
  "volumeList names = (case names of
       [] \<Rightarrow> ''no volume''
     | [n] \<Rightarrow> ''volume '' @ go_quote n
     | _ \<Rightarrow> ''volumes '' @ strings_Join (map go_quote names) '', '')"

definition plural :: "int \<Rightarrow> string \<Rightarrow> string \<Rightarrow> string" where
  "plural n one many = (if n = 1 then one else many)"

definition firstPlacement :: "Provenance \<Rightarrow> AssignmentHistory \<Rightarrow> bool" where
  "firstPlacement want history =
     (if history = AssignmentHistoryUnknown then False else pv_AssignmentGeneration want = 1)"

definition Decide :: "PlacementState \<Rightarrow> Provenance \<Rightarrow> AssignmentHistory \<Rightarrow> Outcome" where
  "Decide state want history =
     (let m = pst_Marker state in
      if pst_StagingPresent state then decided DecisionRestore
      else if pst_MarkerErr state \<noteq> None
      then blocked_by BlockCorruptProvenance ''the local provenance marker could not be read''
      else if Matches m want then
        (case m of
           None \<Rightarrow> decided DecisionSkip
         | Some k \<Rightarrow>
             if mk_InitializedFromBackupID k \<noteq> '''' \<and> \<not> Complete (pst_Volumes state)
             then blocked_by BlockMissingData
                    (''provenance records a restore from generation '' @ go_quote (mk_InitializedFromBackupID k)
                     @ '', but '' @ volumeList (vs_Empty (pst_Volumes state)) @ '' ''
                     @ plural (int (length (vs_Empty (pst_Volumes state)))) ''holds'' ''hold'' @ '' no data'')
             else decided DecisionSkip)
      else if m \<noteq> None \<and> IsLegacy m
      then blocked_by BlockLegacyProvenance
             ''local data predates provenance recording, so the assignment that produced it is unknown''
      else if m \<noteq> None
      then blocked_by BlockForeignProvenance
             (''local data belongs to another assignment ('' @ strings_Join (Mismatches m want) ''; '' @ '')'')
      else if AnyData (pst_Volumes state)
      then blocked_by BlockUnprovenData ''the volumes hold data that no provenance marker accounts for''
      else if firstPlacement want history then decided DecisionInitializeEmpty
      else decided DecisionRestore)"

definition stagingRoot :: string where "stagingRoot = ''restore-staging''"

definition StagingDir :: "string \<Rightarrow> string \<Rightarrow> string \<Rightarrow> agent_error + string" where
  "StagingDir dataRoot namespace project = (case ProjectDir dataRoot namespace project of
       Inl e \<Rightarrow> Inl e
     | Inr _ \<Rightarrow> Inr (filepath_Join [filepath_Clean dataRoot, stagingRoot, namespace, project]))"

definition StagingPresent :: "string \<Rightarrow> string \<Rightarrow> string \<Rightarrow> (host, bool) op" where
  "StagingPresent dataRoot namespace project h = (case StagingDir dataRoot namespace project of
       Inl e \<Rightarrow> (Inl e, h)
     | Inr dir \<Rightarrow> (case os_Stat dir h of
           (Inl e, h1) \<Rightarrow>
             if is_not_exist e then (Inr False, h1)
             else (Inl (ErrWrap (''restore: inspect staging '' @ go_quote dir) e), h1)
         | (Inr _, h1) \<Rightarrow> (Inr True, h1)))"

definition survey_empty :: "string \<Rightarrow> VolumeSurvey \<Rightarrow> VolumeSurvey" where
  "survey_empty v s = s\<lparr>vs_Empty := vs_Empty s @ [v]\<rparr>"

definition survey_data :: "string \<Rightarrow> VolumeSurvey \<Rightarrow> VolumeSurvey" where
  "survey_data v s = s\<lparr>vs_WithData := vs_WithData s @ [v]\<rparr>"

fun survey_from :: "string \<Rightarrow> string \<Rightarrow> string \<Rightarrow> VolumeDef list \<Rightarrow> VolumeSurvey \<Rightarrow> (host, VolumeSurvey) op" where
  "survey_from dataRoot ns p [] s h = (Inr s, h)"
| "survey_from dataRoot ns p (vol # vols) s h =
     (if vol_Type vol \<noteq> VolumeTypeManaged then survey_from dataRoot ns p vols s h
      else case HostPath dataRoot ns p (vol_Name vol) of
        Inl e \<Rightarrow> (Inl e, h)
      | Inr path \<Rightarrow> (case os_ReadDir path h of
            (Inl e, h1) \<Rightarrow>
              if is_not_exist e then survey_from dataRoot ns p vols (survey_empty (vol_Name vol) s) h1
              else if e = ErrOs EACCES then survey_from dataRoot ns p vols (survey_data (vol_Name vol) s) h1
              else (Inl (ErrWrap (''restore: inspect volume dir '' @ go_quote path) e), h1)
          | (Inr entries, h1) \<Rightarrow>
              if length entries = 0 then survey_from dataRoot ns p vols (survey_empty (vol_Name vol) s) h1
              else survey_from dataRoot ns p vols (survey_data (vol_Name vol) s) h1))"

definition SurveyVolumes :: "string \<Rightarrow> string \<Rightarrow> string \<Rightarrow> VolumeDef list \<Rightarrow> (host, VolumeSurvey) op" where
  "SurveyVolumes dataRoot ns p vols = survey_from dataRoot ns p vols \<lparr>vs_WithData = [], vs_Empty = []\<rparr>"

subsection \<open>restoresupport.go: the facts behind a decision\<close>

definition decideRestore :: "marker_json \<Rightarrow> string \<Rightarrow> Provenance \<Rightarrow> Project \<Rightarrow> (host, Outcome) op" where
  "decideRestore mj dataRoot want p =
     (let ns = meta_Namespace (prj_Meta p); name = meta_Name (prj_Meta p) in
      andThen (StagingPresent dataRoot ns name) (\<lambda>e. e) (\<lambda>staging h.
        case ReadMarker mj dataRoot ns name h of (marker, h1) \<Rightarrow>
        andThen (SurveyVolumes dataRoot ns name (spec_Volumes (prj_Spec p))) (\<lambda>e. e) (\<lambda>vols.
          op_return (Decide
            \<lparr>pst_StagingPresent = staging,
             pst_Marker = (case marker of Inl _ \<Rightarrow> None | Inr m \<Rightarrow> m),
             pst_MarkerErr = (case marker of Inl e \<Rightarrow> Some e | Inr _ \<Rightarrow> None),
             pst_Volumes = vols\<rparr>
            want (ps_AssignmentHistory (prj_Status p)))) h1))"

end
