(* ===== verification/Backup_Layout.thy ===== *)
theory Backup_Layout
  imports Agent_Prelude
begin

text \<open>
  The layout of a backup in the object store: \<open>backup/keys.go\<close> and \<open>backup/manifest.go\<close>. The four random
  bytes of a backup's name are an argument, as is \<open>encoding/json\<close> on a manifest.
\<close>

subsection \<open>keys.go\<close>

definition keyPrefix :: string where "keyPrefix = ''cara/v1/projects''"
definition manifestFileName :: string where "manifestFileName = ''manifest.json''"

definition ProjectPrefix :: "string \<Rightarrow> string \<Rightarrow> agent_error + string" where
  "ProjectPrefix namespace project = (case ValidateName namespace of
       Some e \<Rightarrow> Inl (ErrWrap (''backup: namespace '' @ go_quote namespace) (ErrText e))
     | None \<Rightarrow> (case ValidateName project of
           Some e \<Rightarrow> Inl (ErrWrap (''backup: project '' @ go_quote project) (ErrText e))
         | None \<Rightarrow> Inr (keyPrefix @ ''/'' @ namespace @ ''/'' @ project)))"

definition GenerationPrefix :: "string \<Rightarrow> string \<Rightarrow> string \<Rightarrow> agent_error + string" where
  "GenerationPrefix namespace project backupID = (case ProjectPrefix namespace project of
       Inl e \<Rightarrow> Inl e
     | Inr pre \<Rightarrow> if backupID = '''' then Inl (ErrText ''backup: backupID must not be empty'')
         else Inr (pre @ ''/snapshots/'' @ backupID))"

definition ManifestKey :: "string \<Rightarrow> string \<Rightarrow> string \<Rightarrow> agent_error + string" where
  "ManifestKey namespace project backupID = (case GenerationPrefix namespace project backupID of
       Inl e \<Rightarrow> Inl e
     | Inr pre \<Rightarrow> Inr (pre @ ''/'' @ manifestFileName))"

definition ArchiveKey :: "string \<Rightarrow> string \<Rightarrow> string \<Rightarrow> string \<Rightarrow> agent_error + string" where
  "ArchiveKey namespace project backupID volumeName = (case GenerationPrefix namespace project backupID of
       Inl e \<Rightarrow> Inl e
     | Inr pre \<Rightarrow> (case ValidateName volumeName of
           Some e \<Rightarrow> Inl (ErrWrap (''backup: volume '' @ go_quote volumeName) (ErrText e))
         | None \<Rightarrow> Inr (pre @ ''/'' @ volumeName @ ''.tar.gz'')))"

subsection \<open>manifest.go\<close>

definition formatVersion :: int where "formatVersion = 1"
definition backupMethod :: string where "backupMethod = ''tar-offline''"

text \<open>\<open>random\<close> is the hexadecimal text of the random bytes, or the error of reading them.\<close>

definition NewBackupID :: "time \<Rightarrow> agent_error + string \<Rightarrow> agent_error + string" where
  "NewBackupID now random = (case random of
       Inl e \<Rightarrow> Inl (ErrWrap ''backup: generate backup ID suffix'' e)
     | Inr x \<Rightarrow> Inr (compact_time now @ ''-'' @ x))"

record VolumeManifestEntry =
  ve_Name :: string
  ve_ArchiveKey :: string
  ve_SizeBytes :: int
  ve_SHA256 :: string

record Manifest =
  mf_FormatVersion :: int
  mf_BackupID :: string
  mf_Namespace :: string
  mf_Project :: string
  mf_ProjectUID :: string
  mf_CreatedAt :: time
  mf_SourceNode :: string
  mf_ProjectSpecRevision :: int
  mf_CaraVersion :: string
  mf_BackupMethod :: string
  mf_Volumes :: "VolumeManifestEntry list"

definition BuildManifest ::
  "string \<Rightarrow> string \<Rightarrow> string \<Rightarrow> string \<Rightarrow> string \<Rightarrow> int \<Rightarrow> time \<Rightarrow> VolumeManifestEntry list \<Rightarrow> Manifest" where
  "BuildManifest backupID namespace project sourceNode caraVersion projectSpecRevision now volumes =
     \<lparr>mf_FormatVersion = formatVersion, mf_BackupID = backupID, mf_Namespace = namespace, mf_Project = project,
      mf_ProjectUID = '''', mf_CreatedAt = now, mf_SourceNode = sourceNode,
      mf_ProjectSpecRevision = projectSpecRevision, mf_CaraVersion = caraVersion, mf_BackupMethod = backupMethod,
      mf_Volumes = volumes\<rparr>"

record manifest_json =
  mfj_Marshal :: "Manifest \<Rightarrow> agent_error + string"
  mfj_Unmarshal :: "string \<Rightarrow> agent_error + Manifest"

definition Manifest_Marshal :: "manifest_json \<Rightarrow> Manifest \<Rightarrow> agent_error + string" where
  "Manifest_Marshal j m = (case mfj_Marshal j m of
       Inl e \<Rightarrow> Inl (ErrWrap ''backup: marshal manifest'' e) | Inr b \<Rightarrow> Inr b)"

definition UnmarshalManifest :: "manifest_json \<Rightarrow> string \<Rightarrow> agent_error + Manifest" where
  "UnmarshalManifest j data = (case mfj_Unmarshal j data of
       Inl e \<Rightarrow> Inl (ErrWrap ''backup: unmarshal manifest'' e) | Inr m \<Rightarrow> Inr m)"

subsection \<open>Keys tell generations and volumes apart\<close>

lemma ProjectPrefix_eq:
  "ProjectPrefix ns p = Inr k \<longleftrightarrow> ValidateName ns = None \<and> ValidateName p = None
     \<and> k = strings_Join [''cara'', ''v1'', ''projects'', ns, p] ''/''"
  by (auto simp: ProjectPrefix_def keyPrefix_def split: option.splits)

lemma ArchiveKey_eq:
  "ArchiveKey ns p b v = Inr k \<longleftrightarrow> ValidateName ns = None \<and> ValidateName p = None \<and> b \<noteq> '''' \<and> ValidateName v = None
     \<and> k = strings_Join [''cara'', ''v1'', ''projects'', ns, p, ''snapshots'', b, v @ ''.tar.gz''] ''/''"
  by (auto simp: ArchiveKey_def GenerationPrefix_def ProjectPrefix_def keyPrefix_def split: option.splits sum.splits)

lemma ManifestKey_eq:
  "ManifestKey ns p b = Inr k \<longleftrightarrow> ValidateName ns = None \<and> ValidateName p = None \<and> b \<noteq> ''''
     \<and> k = strings_Join [''cara'', ''v1'', ''projects'', ns, p, ''snapshots'', b, manifestFileName] ''/''"
  by (auto simp: ManifestKey_def GenerationPrefix_def ProjectPrefix_def keyPrefix_def split: option.splits sum.splits)

lemma key_elems_inj:
  assumes "\<forall>s \<in> set ss. CHR ''/'' \<notin> set s" "\<forall>t \<in> set ts. CHR ''/'' \<notin> set t" "ss \<noteq> []" "ts \<noteq> []"
    and "strings_Join ss ''/'' = strings_Join ts ''/''"
  shows "ss = ts"
proof -
  have "ss = split_char (CHR ''/'') (strings_Join ss ''/'')" using split_char_Join assms(1,3) by metis
  also have "\<dots> = split_char (CHR ''/'') (strings_Join ts ''/'')" by (simp only: assms(5))
  also have "\<dots> = ts" using split_char_Join assms(2,4) by metis
  finally show ?thesis .
qed

lemma ArchiveKey_inj:
  assumes "ArchiveKey ns p b v = Inr k" "ArchiveKey ns' p' b' v' = Inr k" "CHR ''/'' \<notin> set b" "CHR ''/'' \<notin> set b'"
  shows "ns = ns' \<and> p = p' \<and> b = b' \<and> v = v'"
proof -
  note k = ArchiveKey_eq [THEN iffD1, OF assms(1)] ArchiveKey_eq [THEN iffD1, OF assms(2)]
  from k have pl: "plain_seg ns" "plain_seg p" "plain_seg v" "plain_seg ns'" "plain_seg p'" "plain_seg v'"
    by (blast intro: ValidateName_plain)+
  from k have eq: "strings_Join [''cara'', ''v1'', ''projects'', ns, p, ''snapshots'', b, v @ ''.tar.gz''] ''/''
      = strings_Join [''cara'', ''v1'', ''projects'', ns', p', ''snapshots'', b', v' @ ''.tar.gz''] ''/''"
    by metis
  from pl assms have "[''cara'', ''v1'', ''projects'', ns, p, ''snapshots'', b, v @ ''.tar.gz'']
      = [''cara'', ''v1'', ''projects'', ns', p', ''snapshots'', b', v' @ ''.tar.gz'']"
    by (intro key_elems_inj [OF _ _ _ _ eq]) (auto simp: plain_seg_def)
  then show ?thesis by simp
qed

end
