(* ===== verification/Archive_Extract.thy ===== *)
theory Archive_Extract
  imports Host_Files
begin

text \<open>
  A volume as an archive and back: \<open>backup/archive.go\<close> and \<open>restore/extract.go\<close>. The bytes of a
  gzipped tar file are the arguments \<open>pack\<close> and \<open>unpack\<close>; what the code sees through \<open>archive/tar\<close> is the
  sequence of entries, ended by the end of the archive or by an error. Permission bits are not part of
  the file model.
\<close>

datatype typeflag = TypeDir | TypeReg | TypeSymlink | TypeLink | TypeOther string

record tar_entry =
  te_Name :: string
  te_Typeflag :: typeflag
  te_Linkname :: string
  te_Body :: string
  te_BodyErr :: "agent_error option"

subsection \<open>os.Root\<close>

text \<open>
  A name is resolved below the opened directory, symbolic links included; \<open>fuel\<close> bounds the links
  followed. Climbing out and absolute link targets are refused.
\<close>

definition pathEscapes :: os_error where "pathEscapes = OsOther ''path escapes from parent''"

function root_walk :: "nat \<Rightarrow> files \<Rightarrow> string list \<Rightarrow> string list \<Rightarrow> string list \<Rightarrow> os_error + string list" where
  "root_walk fuel fs base cur [] = Inr cur"
| "root_walk fuel fs base cur (c # cs) =
     (if c = '''' \<or> c = ''.'' then root_walk fuel fs base cur cs
      else if c = ''..'' then
        (if cur = [] then Inl pathEscapes
         else if fs_get fs (base @ cur) \<noteq> Some FDir then Inl ENOENT
         else root_walk fuel fs base (butlast cur) cs)
      else case map_of fs (base @ cur @ [c]) of
        Some (FLink t) \<Rightarrow>
          (case fuel of
             0 \<Rightarrow> Inl (OsOther ''too many levels of symbolic links'')
           | Suc f \<Rightarrow> if filepath_IsAbs t then Inl pathEscapes
               else root_walk f fs base cur (split_char (CHR ''/'') t @ cs))
      | _ \<Rightarrow> root_walk fuel fs base (cur @ [c]) cs)"
  by pat_completeness auto
termination by (relation "measures [\<lambda>(fuel, _). fuel, \<lambda>(_, _, _, _, cs). length cs]") auto

declare root_walk.simps(2) [simp del]

definition root_links :: nat where "root_links = 8"

text \<open>The directory an entry goes into, links followed, and its last name, not followed.\<close>

definition root_parent :: "files \<Rightarrow> string list \<Rightarrow> string \<Rightarrow> os_error + string list" where
  "root_parent fs base name = (case path_elems name of
       [] \<Rightarrow> Inl EINVAL
     | es \<Rightarrow> (case root_walk root_links fs base [] (butlast es) of
           Inl e \<Rightarrow> Inl e
         | Inr dir \<Rightarrow> if fs_get fs (base @ dir) \<noteq> Some FDir then Inl ENOENT
             else Inr (base @ dir @ [last es])))"

definition root_MkdirAll :: "string list \<Rightarrow> string \<Rightarrow> (host, unit) op" where
  "root_MkdirAll base name = os_call (\<lambda>_ fs. fs) (\<lambda>fs.
     case root_walk root_links fs base [] (path_elems name) of
       Inl e \<Rightarrow> (Inl e, fs)
     | Inr dir \<Rightarrow> fs_mkdirs (map (\<lambda>k. base @ take k dir) [1..<Suc (length dir)]) fs)"

text \<open>Creating an entry that must not exist yet: a file, a symbolic link, or another name of a file.\<close>

definition root_create :: "string list \<Rightarrow> string \<Rightarrow> fnode \<Rightarrow> files \<Rightarrow> (os_error + string list) \<times> files" where
  "root_create base name n fs = (case root_parent fs base name of
       Inl e \<Rightarrow> (Inl e, fs)
     | Inr p \<Rightarrow> if fs_get fs p \<noteq> None then (Inl (OsOther ''file exists''), fs) else (Inr p, (p, n) # fs))"

definition root_OpenFile :: "string list \<Rightarrow> string \<Rightarrow> (host, string list) op" where
  "root_OpenFile base name = os_call (\<lambda>_ fs. fs) (root_create base name (FFile ''''))"

definition root_Symlink :: "string list \<Rightarrow> string \<Rightarrow> string \<Rightarrow> (host, unit) op" where
  "root_Symlink base target name = os_call (\<lambda>_ fs. fs) (\<lambda>fs.
     case root_create base name (FLink target) fs of (Inl e, fs') \<Rightarrow> (Inl e, fs') | (Inr _, fs') \<Rightarrow> (Inr (), fs'))"

definition root_Link :: "string list \<Rightarrow> string \<Rightarrow> string \<Rightarrow> (host, unit) op" where
  "root_Link base target name = os_call (\<lambda>_ fs. fs) (\<lambda>fs.
     case root_parent fs base target of
       Inl e \<Rightarrow> (Inl e, fs)
     | Inr q \<Rightarrow> (case fs_get fs q of
           None \<Rightarrow> (Inl ENOENT, fs)
         | Some FDir \<Rightarrow> (Inl (OsOther ''operation not permitted''), fs)
         | Some n \<Rightarrow> (case root_create base name n fs of (Inl e, fs') \<Rightarrow> (Inl e, fs') | (Inr _, fs') \<Rightarrow> (Inr (), fs'))))"

text \<open>Writing to an opened file; a fault leaves what it says was written.\<close>

definition file_Write :: "string list \<Rightarrow> string \<Rightarrow> (host, unit) op" where
  "file_Write p data = os_call (\<lambda>f fs. AList.update p (FFile (fault_data f)) fs)
     (\<lambda>fs. (Inr (), AList.update p (FFile data) fs))"

subsection \<open>extract.go\<close>

definition checkEntryName :: "string \<Rightarrow> agent_error + string" where
  "checkEntryName name =
     (if name = '''' then Inl (ErrMore (Sentinel ErrUnsafePath) ''empty entry name'')
      else if filepath_IsAbs name then Inl (ErrMore (Sentinel ErrUnsafePath) ''absolute path'')
      else let cleaned = filepath_Clean name
           in if cleaned = ''..'' \<or> prefix ''../'' cleaned
              then Inl (ErrMore (Sentinel ErrUnsafePath) (''resolves to '' @ go_quote cleaned))
              else Inr cleaned)"

definition checkSymlinkTarget :: "string \<Rightarrow> string \<Rightarrow> agent_error + unit" where
  "checkSymlinkTarget entryName linkname =
     (if linkname = '''' then Inl (ErrMore (Sentinel ErrUnsafePath) ''empty symlink target'')
      else if filepath_IsAbs linkname then Inl (ErrMore (Sentinel ErrUnsafePath) ''absolute symlink target'')
      else let resolved = filepath_Join [filepath_Dir entryName, linkname]
           in if resolved = ''..'' \<or> prefix ''../'' resolved
              then Inl (ErrMore (Sentinel ErrUnsafePath) (''target resolves to '' @ go_quote resolved))
              else Inr ())"

definition ensureParent :: "string list \<Rightarrow> string \<Rightarrow> (host, unit) op" where
  "ensureParent base name = (let parent = filepath_Dir name in
     if parent = ''.'' \<or> parent = ''/'' then op_return ()
     else andThen (root_MkdirAll base parent) (ErrWrap (''restore: create parent '' @ go_quote parent)) op_return)"

text \<open>One byte past the budget is read, so that a file that is too large is noticed.\<close>

definition extractFile :: "string list \<Rightarrow> string \<Rightarrow> tar_entry \<Rightarrow> int \<Rightarrow> (host, int) op" where
  "extractFile base name header budget =
     (if budget \<le> 0 then op_fail (Sentinel ErrArchiveTooLarge)
      else andThen (ensureParent base name) (\<lambda>e. e) (\<lambda>_.
        andThen (root_OpenFile base name) (ErrWrap (''restore: create '' @ go_quote name)) (\<lambda>p.
        let limited = take (nat (budget + 1)) (te_Body header); n = int (length limited) in
        andThen (file_Write p limited) (ErrWrap (''restore: write '' @ go_quote name)) (\<lambda>_.
          case te_BodyErr header of
            Some e \<Rightarrow> if n \<le> budget then op_fail (ErrWrap (''restore: write '' @ go_quote name) e)
                     else op_fail (Sentinel ErrArchiveTooLarge)
          | None \<Rightarrow> if n > budget then op_fail (Sentinel ErrArchiveTooLarge) else op_return n))))"

definition arrow :: string where "arrow = [CHR '' '', char_of (0xE2::nat), char_of (0x86::nat), char_of (0x92::nat), CHR '' '']"

fun extract_entries ::
  "string list \<Rightarrow> string \<Rightarrow> int \<Rightarrow> tar_entry list \<Rightarrow> agent_error option \<Rightarrow> int \<Rightarrow> (host, unit) op" where
  "extract_entries base archivePath maxBytes [] end_err written h = (case end_err of
       None \<Rightarrow> (Inr (), h)
     | Some e \<Rightarrow> (Inl (ErrWrap (''restore: read archive '' @ go_quote archivePath) e), h))"
| "extract_entries base archivePath maxBytes (header # rest) end_err written h =
     (case checkEntryName (te_Name header) of
        Inl e \<Rightarrow> (Inl (ErrWrap (''restore: '' @ go_quote (te_Name header) @ '' in '' @ go_quote archivePath) e), h)
      | Inr name \<Rightarrow>
          (case te_Typeflag header of
             TypeDir \<Rightarrow>
               andThen (root_MkdirAll base name) (ErrWrap (''restore: create dir '' @ go_quote (te_Name header))) (\<lambda>_.
               extract_entries base archivePath maxBytes rest end_err written) h
           | TypeReg \<Rightarrow>
               andThen (extractFile base name header (maxBytes - written)) (\<lambda>e. e) (\<lambda>n.
               extract_entries base archivePath maxBytes rest end_err (written + n)) h
           | TypeSymlink \<Rightarrow>
               andThen (op_lift (checkSymlinkTarget name (te_Linkname header)))
                 (ErrWrap (''restore: symlink '' @ go_quote (te_Name header) @ arrow @ go_quote (te_Linkname header))) (\<lambda>_.
               andThen (ensureParent base name) (\<lambda>e. e) (\<lambda>_.
               andThen (root_Symlink base (te_Linkname header) name)
                 (ErrWrap (''restore: create symlink '' @ go_quote (te_Name header))) (\<lambda>_.
               extract_entries base archivePath maxBytes rest end_err written))) h
           | TypeLink \<Rightarrow>
               andThen (op_lift (checkEntryName (te_Linkname header)))
                 (ErrWrap (''restore: hardlink '' @ go_quote (te_Name header) @ arrow @ go_quote (te_Linkname header)))
                 (\<lambda>linkTarget.
               andThen (ensureParent base name) (\<lambda>e. e) (\<lambda>_.
               andThen (root_Link base linkTarget name)
                 (ErrWrap (''restore: create hardlink '' @ go_quote (te_Name header))) (\<lambda>_.
               extract_entries base archivePath maxBytes rest end_err written))) h
           | TypeOther t \<Rightarrow>
               (Inl (ErrText (''restore: '' @ go_quote (te_Name header) @ '' in '' @ go_quote archivePath
                  @ '': unsupported entry type '' @ t)), h)))"

type_synonym unpacker = "string \<Rightarrow> agent_error + tar_entry list \<times> agent_error option"

definition Extract :: "unpacker \<Rightarrow> string \<Rightarrow> string \<Rightarrow> int \<Rightarrow> (host, unit) op" where
  "Extract unpack archivePath destDir maxBytes =
     andThen (os_ReadFile archivePath) (ErrWrap (''restore: open archive '' @ go_quote archivePath)) (\<lambda>bytes.
     andThen (op_lift (unpack bytes)) (ErrWrap (''restore: read gzip '' @ go_quote archivePath)) (\<lambda>(entries, end_err).
     andThen (os_MkdirAll destDir) (ErrWrap (''restore: create destination '' @ go_quote destDir)) (\<lambda>_.
     andThen (os_Stat destDir) (ErrWrap (''restore: open destination '' @ go_quote destDir)) (\<lambda>_.
     extract_entries (path_elems destDir) archivePath maxBytes entries end_err 0))))"

subsection \<open>archive.go\<close>

record ArchiveResult =
  ar_SizeBytes :: int
  ar_SHA256 :: string

text \<open>
  \<open>filepath.WalkDir\<close> visits a directory before what it holds and names in order, which is the
  lexicographic order of the paths by their elements.
\<close>

definition walk_paths :: "files \<Rightarrow> string list \<Rightarrow> string list list" where
  "walk_paths fs p = sort (remdups (map (\<lambda>(q, n). drop (length p) q) (filter (\<lambda>(q, n). strict_prefix p q) fs)))"

definition tar_entry_of :: "string list \<Rightarrow> fnode \<Rightarrow> tar_entry" where
  "tar_entry_of q n = (case n of
       FDir \<Rightarrow> \<lparr>te_Name = strings_Join q ''/'', te_Typeflag = TypeDir, te_Linkname = '''', te_Body = '''', te_BodyErr = None\<rparr>
     | FFile d \<Rightarrow> \<lparr>te_Name = strings_Join q ''/'', te_Typeflag = TypeReg, te_Linkname = '''', te_Body = d, te_BodyErr = None\<rparr>
     | FLink t \<Rightarrow> \<lparr>te_Name = strings_Join q ''/'', te_Typeflag = TypeSymlink, te_Linkname = t, te_Body = '''', te_BodyErr = None\<rparr>)"

definition archiveDir :: "string \<Rightarrow> (host, tar_entry list) op" where
  "archiveDir sourceDir = (let p = path_elems sourceDir in
     os_call (\<lambda>_ fs. fs) (\<lambda>fs. case fs_stat fs p of
         Inl e \<Rightarrow> (Inl e, fs)
       | Inr _ \<Rightarrow> (Inr (map (\<lambda>q. tar_entry_of q (the (map_of fs (p @ q)))) (walk_paths fs p)), fs)))"

definition Archive ::
  "(tar_entry list \<Rightarrow> string) \<Rightarrow> (string \<Rightarrow> string) \<Rightarrow> string \<Rightarrow> string \<Rightarrow> (host, ArchiveResult) op" where
  "Archive pack sha256 sourceDir destFile =
     andThen (os_WriteFile destFile '''') (ErrWrap (''backup: create archive '' @ go_quote destFile)) (\<lambda>_.
     andThen (archiveDir sourceDir) (ErrWrap (''backup: walk '' @ go_quote sourceDir)) (\<lambda>entries.
     let bytes = pack entries in
     andThen (os_WriteFile destFile bytes) (ErrWrap ''backup: close tar writer'') (\<lambda>_.
     op_return \<lparr>ar_SizeBytes = int (length bytes), ar_SHA256 = sha256 bytes\<rparr>)))"

subsection \<open>What an extraction can touch\<close>

text \<open>Nodes appear where there was nothing, and only where \<open>P\<close> allows; nothing else changes.\<close>

definition grows :: "(string list \<Rightarrow> bool) \<Rightarrow> host \<Rightarrow> host \<Rightarrow> bool" where
  "grows P h h' \<longleftrightarrow> (\<forall>q. node_at h' q = node_at h q \<or> node_at h q = None \<and> P q)"

lemma grows_refl [simp, intro]: "grows P h h"
  by (simp add: grows_def)

lemma grows_files: "h_files h' = h_files h \<Longrightarrow> grows P h h'"
  by (simp add: grows_def)

lemma os_read_grows:
  "os_Stat p h = (r, h') \<Longrightarrow> grows P h h'" "os_ReadDir p h = (d, h') \<Longrightarrow> grows P h h'"
  "os_ReadFile p h = (f, h') \<Longrightarrow> grows P h h'"
  by (auto dest: os_read_files intro: grows_files)

lemma grows_trans: "grows P h h' \<Longrightarrow> grows P h' h'' \<Longrightarrow> grows P h h''"
  unfolding grows_def by metis

lemma grows_mono: "grows P h h' \<Longrightarrow> (\<And>q. P q \<Longrightarrow> Q q) \<Longrightarrow> grows Q h h'"
  by (auto simp: grows_def)

lemma grows_keeps: "grows P h h' \<Longrightarrow> node_at h q = Some n \<Longrightarrow> node_at h' q = Some n"
  unfolding grows_def by (metis option.distinct(1))

lemma adds_dirs_grows: "adds_dirs P (h_files h) (h_files h') \<Longrightarrow> grows P h h'"
  unfolding grows_def adds_dirs_def by metis

lemma andThen_grows:
  assumes "andThen m wrap f h = (r, h'')"
    and "\<And>r' h'. m h = (r', h') \<Longrightarrow> grows P h h'"
    and "\<And>a h'. m h = (Inr a, h') \<Longrightarrow> f a h' = (r, h'') \<Longrightarrow> grows P h' h''"
  shows "grows P h h''"
proof (cases "m h")
  case (Pair r' h')
  with assms show ?thesis by (cases r') (auto simp: andThen_def intro: grows_trans)
qed

abbreviation inside :: "string list \<Rightarrow> string list \<Rightarrow> bool" where
  "inside base q \<equiv> strict_prefix base q"

lemma root_create_spec:
  "root_create base name n fs = (r, fs') \<Longrightarrow>
     fs' = fs \<and> (\<exists>e. r = Inl e)
     \<or> (\<exists>p. r = Inr p \<and> fs' = (p, n) # fs \<and> map_of fs p = None \<and> inside base p)"
  by (auto simp: root_create_def root_parent_def fs_get_def strict_prefix_def
           split: sum.splits list.splits if_splits)

lemma root_MkdirAll_grows: "root_MkdirAll base name h = (r, h') \<Longrightarrow> grows (inside base) h h'"
proof -
  have mk: "adds_dirs (inside base) fs (snd (fs_mkdirs (map (\<lambda>k. base @ take k dir) [1..<Suc (length dir)]) fs))" for fs dir
    by (rule adds_dirs_fs_mkdirs) (auto simp: strict_prefix_def)
  assume "root_MkdirAll base name h = (r, h')"
  then have "adds_dirs (inside base) (h_files h) (h_files h')"
    unfolding root_MkdirAll_def by (rule os_call_adds) (auto simp del: upt_Suc One_nat_def intro: mk split: sum.split)
  then show ?thesis by (rule adds_dirs_grows)
qed

lemma ensureParent_grows: "ensureParent base name h = (r, h') \<Longrightarrow> grows (inside base) h h'"
  by (auto simp: ensureParent_def Let_def op_return_def split: if_splits
           elim!: andThen_grows dest: root_MkdirAll_grows)

lemma root_OpenFile_grows:
  assumes "root_OpenFile base name h = (r, h')"
  shows "grows (inside base) h h' \<and> (\<forall>p. r = Inr p \<longrightarrow> node_at h p = None \<and> inside base p)"
  using assms unfolding root_OpenFile_def
  by (rule os_call_cases) (auto dest!: root_create_spec simp: grows_def split: if_splits)

lemma root_Symlink_grows: "root_Symlink base target name h = (r, h') \<Longrightarrow> grows (inside base) h h'"
  unfolding root_Symlink_def
  by (erule os_call_cases) (auto simp: grows_def split: prod.splits sum.splits if_splits dest!: root_create_spec)

lemma root_Link_grows: "root_Link base target name h = (r, h') \<Longrightarrow> grows (inside base) h h'"
  unfolding root_Link_def
  by (erule os_call_cases)
    (auto simp: grows_def split: prod.splits sum.splits option.splits fnode.splits if_splits dest!: root_create_spec)

lemma file_Write_other: "file_Write p d h = (r, h') \<Longrightarrow> q \<noteq> p \<Longrightarrow> node_at h' q = node_at h q"
  unfolding file_Write_def by (erule os_call_cases) (auto simp: update_conv' dest: sym)

lemma extractFile_grows:
  assumes "extractFile base name header budget h = (r, h')"
  shows "grows (inside base) h h'"
proof (cases "budget \<le> 0")
  case True
  with assms show ?thesis by (simp add: extractFile_def op_fail_def)
next
  case False
  have written: "grows (inside base) h1 h3"
    if "root_OpenFile base name h1 = (Inr p, h2)" "file_Write p d h2 = (w, h3)" for h1 h2 h3 p d w
  proof -
    have "node_at h1 p = None" "inside base p" "grows (inside base) h1 h2"
      using root_OpenFile_grows [OF that(1)] by auto
    then show ?thesis using file_Write_other [OF that(2)] unfolding grows_def by metis
  qed
  from False assms show ?thesis
    by (auto simp: extractFile_def Let_def andThen_def op_fail_def op_return_def
             split: prod.splits sum.splits option.splits if_splits
             intro: grows_trans [OF ensureParent_grows written] ensureParent_grows
               grows_trans [OF ensureParent_grows root_OpenFile_grows [THEN conjunct1]])
qed

lemma extract_entries_grows:
  "extract_entries base a mx es end_err w h = (r, h') \<Longrightarrow> grows (inside base) h h'"
proof (induction es arbitrary: w h)
  case Nil
  then show ?case by (auto split: option.splits)
next
  case (Cons e es)
  have rest: "grows (inside base) h1 h'" if "extract_entries base a mx es end_err w' h1 = (r, h')" for w' h1
    using Cons.IH [OF that] .
  show ?case
  proof (cases "checkEntryName (te_Name e)")
    case (Inl x)
    with Cons.prems show ?thesis by auto
  next
    case (Inr name)
    with Cons.prems show ?thesis
      by (cases "te_Typeflag e")
        (auto elim!: andThen_grows simp: op_lift_def
           dest: root_MkdirAll_grows extractFile_grows ensureParent_grows root_Symlink_grows root_Link_grows rest)
  qed
qed

lemma Extract_grows:
  assumes "Extract unpack a d mx h = (r, h')"
  shows "grows (\<lambda>q. prefix q (path_elems d) \<and> q \<noteq> [] \<or> inside (path_elems d) q) h h'"
proof -
  let ?P = "\<lambda>q. prefix q (path_elems d) \<and> q \<noteq> [] \<or> inside (path_elems d) q"
  have mk: "grows ?P h1 h2" if "os_MkdirAll d h1 = (x, h2)" for h1 h2 x
    using adds_dirs_grows [OF os_MkdirAll_adds [OF that]] by (rule grows_mono) simp
  have ex: "grows ?P h1 h2" if "extract_entries (path_elems d) a mx es end_err 0 h1 = (x, h2)" for h1 h2 es end_err x
    using extract_entries_grows [OF that] by (rule grows_mono) simp
  from assms show ?thesis
    unfolding Extract_def
    by (auto elim!: andThen_grows simp: op_lift_def split: prod.splits dest: mk ex os_read_grows)
qed

text \<open>An archive that extracts is never larger than the limit, and no file of it is cut short.\<close>

definition regular_bytes :: "tar_entry list \<Rightarrow> int" where
  "regular_bytes es = (\<Sum>e \<leftarrow> es. if te_Typeflag e = TypeReg then int (length (te_Body e)) else 0)"

lemma extractFile_bytes:
  assumes "extractFile base name e budget h = (Inr n, h')"
  shows "n = int (length (te_Body e)) \<and> n \<le> budget"
proof -
  from assms have b: "\<not> budget \<le> 0" by (auto simp: extractFile_def op_fail_def)
  with assms have "n = int (length (take (nat (budget + 1)) (te_Body e)))" "n \<le> budget"
    by (auto simp: extractFile_def Let_def andThen_Inr_iff op_fail_def op_return_def split: option.splits if_splits)
  with b show ?thesis by (auto simp: min_def split: if_splits)
qed

lemma extract_entries_bytes:
  "extract_entries base a mx es end_err w h = (Inr u, h') \<Longrightarrow> w \<le> mx \<Longrightarrow> w + regular_bytes es \<le> mx"
proof (induction es arbitrary: w h)
  case Nil
  then show ?case by (simp add: regular_bytes_def)
next
  case (Cons e es)
  obtain name where name: "checkEntryName (te_Name e) = Inr name"
    using Cons.prems(1) by (auto split: sum.splits)
  show ?case
  proof (cases "te_Typeflag e = TypeReg")
    case True
    with Cons.prems name obtain n h1 where n: "extractFile base name e (mx - w) h = (Inr n, h1)"
      "extract_entries base a mx es end_err (w + n) h1 = (Inr u, h')"
      by (auto simp: andThen_Inr_iff)
    from extractFile_bytes [OF n(1)] Cons.IH [OF n(2)] True show ?thesis by (simp add: regular_bytes_def)
  next
    case False
    with Cons.prems name obtain h1 where "extract_entries base a mx es end_err w h1 = (Inr u, h')"
      by (cases "te_Typeflag e") (auto simp: andThen_Inr_iff op_lift_def)
    from Cons.IH [OF this Cons.prems(2)] False show ?thesis by (simp add: regular_bytes_def)
  qed
qed

end
