(* ===== verification/Restore_Run.thy ===== *)
theory Restore_Run
  imports Restore_Decision Backup_Layout Archive_Extract
begin

text \<open>
  Putting a backup generation on disk: \<open>restore/restore.go\<close>, \<open>restore/quarantine.go\<close> and
  \<open>restore/cleanup.go\<close>. The object store, SHA-256, the archive and JSON formats, the free space, the
  clock and the order in which Go visits a map are the fields of \<open>restore_env\<close>: the answers one run
  gets; \<open>re_key\<close> ranks the entries of the map in the order of the visit. A download delivers some bytes and then ends or fails; a deadline that passes is such a failure.
\<close>

record restore_env =
  re_Get :: "string \<Rightarrow> agent_error + string \<times> agent_error option"
  re_sha256 :: "string \<Rightarrow> string"
  re_unpack :: unpacker
  re_manifest :: manifest_json
  re_marker :: marker_json
  re_freeBytes :: "agent_error + int"
  re_now :: time
  re_key :: "string \<times> string \<Rightarrow> nat"

definition defaultMaxExtractedBytes :: int where "defaultMaxExtractedBytes = 64 * 2 ^ 30"

record restore_Config =
  rc_DataRoot :: string
  rc_MaxExtractedBytes :: int
  rc_MinFreeBytes :: int
  rc_NodeName :: string

definition NewRestorer :: "restore_Config \<Rightarrow> restore_Config" where
  "NewRestorer cfg = (if rc_MaxExtractedBytes cfg = 0
     then cfg\<lparr>rc_MaxExtractedBytes := defaultMaxExtractedBytes\<rparr> else cfg)"

subsection \<open>restore.go: checks and downloads\<close>

definition restore_checkDiskSpace :: "restore_env \<Rightarrow> restore_Config \<Rightarrow> agent_error + unit" where
  "restore_checkDiskSpace env cfg =
     (if rc_MinFreeBytes cfg = 0 then Inr ()
      else case re_freeBytes env of
        Inl e \<Rightarrow> Inl (ErrWrap ''restore: check free space'' e)
      | Inr free \<Rightarrow>
          if free < rc_MinFreeBytes cfg
          then Inl (ErrMore (Sentinel restore_ErrInsufficientDiskSpace)
                 (FormatInt free @ '' bytes free, '' @ FormatInt (rc_MinFreeBytes cfg) @ '' required''))
          else Inr ())"

definition FetchManifest :: "restore_env \<Rightarrow> string \<Rightarrow> string \<Rightarrow> string \<Rightarrow> agent_error + Manifest" where
  "FetchManifest env namespace project backupID = (case ManifestKey namespace project backupID of
       Inl e \<Rightarrow> Inl e
     | Inr key \<Rightarrow> (case re_Get env key of
           Inl e \<Rightarrow> if error_is objectstore_ErrNotFound e
             then Inl (ErrMore (Sentinel ErrGenerationMissing) (''generation '' @ go_quote backupID @ '' has no manifest''))
             else Inl (ErrWrap (''restore: read manifest for '' @ go_quote backupID) e)
         | Inr (raw, Some e) \<Rightarrow> Inl (ErrWrap (''restore: read manifest for '' @ go_quote backupID) e)
         | Inr (raw, None) \<Rightarrow> UnmarshalManifest (re_manifest env) raw))"

text \<open>\<open>inGeneration\<close> keeps the last entry of a name.\<close>

definition inGeneration :: "Manifest \<Rightarrow> string \<rightharpoonup> VolumeManifestEntry" where
  "inGeneration manifest = map_of (rev (map (\<lambda>e. (ve_Name e, e)) (mf_Volumes manifest)))"

fun matchVolumes :: "VolumeDef list \<Rightarrow> Manifest \<Rightarrow> agent_error + VolumeManifestEntry list" where
  "matchVolumes [] manifest = Inr []"
| "matchVolumes (vol # vols) manifest =
     (if vol_Type vol \<noteq> VolumeTypeManaged then matchVolumes vols manifest
      else case inGeneration manifest (vol_Name vol) of
        None \<Rightarrow> Inl (ErrMore (Sentinel ErrManifestMismatch)
                   (''generation '' @ go_quote (mf_BackupID manifest) @ '' has no volume '' @ go_quote (vol_Name vol)))
      | Some entry \<Rightarrow> (case matchVolumes vols manifest of Inl e \<Rightarrow> Inl e | Inr es \<Rightarrow> Inr (entry # es)))"

definition file_Sync :: "(host, unit) op" where
  "file_Sync = os_call (\<lambda>_ fs. fs) (\<lambda>fs. (Inr (), fs))"

definition downloadAndVerify :: "restore_env \<Rightarrow> VolumeManifestEntry \<Rightarrow> string \<Rightarrow> (host, unit) op" where
  "downloadAndVerify env entry destPath =
     andThen (op_lift (re_Get env (ve_ArchiveKey entry))) (ErrWrap (''restore: download '' @ go_quote (ve_ArchiveKey entry)))
       (\<lambda>(body, read_err).
     andThen (os_WriteFile destPath '''') (ErrWrap (''restore: create '' @ go_quote destPath)) (\<lambda>_.
     andThen (os_WriteFile destPath body) (ErrWrap (''restore: download '' @ go_quote (ve_ArchiveKey entry))) (\<lambda>_.
     case read_err of
       Some e \<Rightarrow> op_fail (ErrWrap (''restore: download '' @ go_quote (ve_ArchiveKey entry)) e)
     | None \<Rightarrow>
         andThen file_Sync (ErrWrap (''restore: sync '' @ go_quote destPath)) (\<lambda>_.
         if int (length body) \<noteq> ve_SizeBytes entry
         then op_fail (ErrMore (Sentinel ErrChecksumMismatch) (''volume '' @ go_quote (ve_Name entry) @ '' downloaded ''
                @ FormatInt (int (length body)) @ '' bytes, manifest says '' @ FormatInt (ve_SizeBytes entry)))
         else if re_sha256 env body \<noteq> ve_SHA256 entry
         then op_fail (ErrMore (Sentinel ErrChecksumMismatch) (''volume '' @ go_quote (ve_Name entry) @ '' digest ''
                @ re_sha256 env body @ '', manifest says '' @ ve_SHA256 entry))
         else op_return ()))))"

text \<open>Pass 1 downloads every archive; pass 2 expands them. Both record where by volume name.\<close>

fun download_all :: "restore_env \<Rightarrow> string \<Rightarrow> VolumeManifestEntry list \<Rightarrow> (string \<times> string) list \<Rightarrow> (host, (string \<times> string) list) op" where
  "download_all env staging [] archives h = (Inr archives, h)"
| "download_all env staging (entry # es) archives h =
     (let archivePath = filepath_Join [staging, ve_Name entry @ ''.tar.gz''] in
      andThen (downloadAndVerify env entry archivePath) (\<lambda>e. e) (\<lambda>_.
        download_all env staging es (AList.update (ve_Name entry) archivePath archives)) h)"

fun extract_all :: "restore_env \<Rightarrow> restore_Config \<Rightarrow> string \<Rightarrow> (string \<times> string) list \<Rightarrow> VolumeManifestEntry list
    \<Rightarrow> (string \<times> string) list \<Rightarrow> (host, (string \<times> string) list) op" where
  "extract_all env cfg staging archives [] staged h = (Inr staged, h)"
| "extract_all env cfg staging archives (entry # es) staged h =
     (let dir = filepath_Join [staging, ''extracted'', ve_Name entry];
          archive = (case map_of archives (ve_Name entry) of None \<Rightarrow> '''' | Some a \<Rightarrow> a) in
      andThen (Extract (re_unpack env) archive dir (rc_MaxExtractedBytes cfg)) (\<lambda>e. e) (\<lambda>_.
        extract_all env cfg staging archives es (AList.update (ve_Name entry) dir staged)) h)"

subsection \<open>restore.go: the swap\<close>

definition displacedSuffix :: string where "displacedSuffix = ''.displaced''"

text \<open>The swaps done so far, the last one first: the live directory, and where its contents went (empty if none).\<close>

type_synonym swaps = "(string \<times> string) list"

fun swap_rollback :: "swaps \<Rightarrow> host \<Rightarrow> host" where
  "swap_rollback [] h = h"
| "swap_rollback ((live, displaced) # ss) h = (case os_RemoveAll live h of
       (Inl _, h1) \<Rightarrow> swap_rollback ss h1
     | (Inr _, h1) \<Rightarrow>
         if displaced = '''' then swap_rollback ss h1
         else swap_rollback ss (snd (os_Rename displaced live h1)))"

text \<open>Moving one staged directory in, once the previous contents are out of the way.\<close>

definition swap_in :: "string \<Rightarrow> string \<Rightarrow> string \<Rightarrow> string \<Rightarrow> swaps \<Rightarrow> (host, swaps) op" where
  "swap_in volume stagedDir live displaced swapped h = (case os_Rename stagedDir live h of
       (Inl e, h1) \<Rightarrow>
         (Inl (ErrWrap (''restore: swap in '' @ go_quote volume) e),
          swap_rollback swapped (if displaced \<noteq> '''' then snd (os_Rename displaced live h1) else h1))
     | (Inr _, h1) \<Rightarrow> (Inr ((live, displaced) # swapped), h1))"

definition swap_one :: "string \<Rightarrow> string \<Rightarrow> string \<Rightarrow> string \<Rightarrow> string \<Rightarrow> swaps \<Rightarrow> (host, swaps) op" where
  "swap_one dataRoot namespace project volume stagedDir swapped h =
     (case HostPath dataRoot namespace project volume of
        Inl e \<Rightarrow> (Inl e, swap_rollback swapped h)
      | Inr live \<Rightarrow> (case os_MkdirAll (filepath_Dir live) h of
            (Inl e, h1) \<Rightarrow> (Inl (ErrWrap (''restore: create volume dir for '' @ go_quote volume) e), swap_rollback swapped h1)
          | (Inr _, h1) \<Rightarrow> (case os_Stat live h1 of
                (Inr _, h2) \<Rightarrow>
                  let displaced = live @ displacedSuffix; h3 = snd (os_RemoveAll displaced h2) in
                  (case os_Rename live displaced h3 of
                     (Inl e, h4) \<Rightarrow>
                       (Inl (ErrWrap (''restore: set aside existing data for '' @ go_quote volume) e), swap_rollback swapped h4)
                   | (Inr _, h4) \<Rightarrow> swap_in volume stagedDir live displaced swapped h4)
              | (Inl e, h2) \<Rightarrow>
                  if is_not_exist e then swap_in volume stagedDir live '''' swapped h2
                  else (Inl (ErrWrap (''restore: inspect '' @ go_quote live) e), swap_rollback swapped h2))))"

fun swap_from :: "string \<Rightarrow> string \<Rightarrow> string \<Rightarrow> (string \<times> string) list \<Rightarrow> swaps \<Rightarrow> (host, swaps) op" where
  "swap_from dataRoot ns p [] swapped h = (Inr swapped, h)"
| "swap_from dataRoot ns p ((volume, stagedDir) # rest) swapped h =
     (case swap_one dataRoot ns p volume stagedDir swapped h of
        (Inl e, h1) \<Rightarrow> (Inl e, h1)
      | (Inr swapped', h1) \<Rightarrow> swap_from dataRoot ns p rest swapped' h1)"

fun remove_displaced :: "swaps \<Rightarrow> host \<Rightarrow> host" where
  "remove_displaced [] h = h"
| "remove_displaced ((live, displaced) # ss) h =
     remove_displaced ss (if displaced = '''' then h else snd (os_RemoveAll displaced h))"

definition swapAll :: "restore_env \<Rightarrow> string \<Rightarrow> string \<Rightarrow> string \<Rightarrow> (string \<times> string) list \<Rightarrow> (host, unit) op" where
  "swapAll env dataRoot ns p staged h = (case swap_from dataRoot ns p (sort_key (re_key env) staged) [] h of
       (Inl e, h1) \<Rightarrow> (Inl e, h1)
     | (Inr swapped, h1) \<Rightarrow> (Inr (), remove_displaced (rev swapped) h1))"

subsection \<open>restore.go: the three ways data is put in place\<close>

definition install :: "restore_env \<Rightarrow> restore_Config \<Rightarrow> Project \<Rightarrow> string \<Rightarrow> string \<Rightarrow> (string \<times> string) list \<Rightarrow> (host, unit) op" where
  "install env cfg project backupID staging staged =
     andThen (swapAll env (rc_DataRoot cfg) (meta_Namespace (prj_Meta project)) (meta_Name (prj_Meta project)) staged) (\<lambda>e. e) (\<lambda>_.
     andThen (WriteMarker (re_marker env) (rc_DataRoot cfg) (ProvenanceFor project (rc_NodeName cfg) backupID) (re_now env))
       (\<lambda>e. e) (\<lambda>_ h. (Inr (), snd (os_RemoveAll staging h))))"

definition RestoreGeneration :: "restore_env \<Rightarrow> restore_Config \<Rightarrow> Project \<Rightarrow> string \<Rightarrow> (host, unit) op" where
  "RestoreGeneration env cfg project backupID =
     (let ns = meta_Namespace (prj_Meta project); name = meta_Name (prj_Meta project) in
      andThen (op_lift (restore_checkDiskSpace env cfg)) (\<lambda>e. e) (\<lambda>_.
      andThen (op_lift (FetchManifest env ns name backupID)) (\<lambda>e. e) (\<lambda>manifest.
      andThen (op_lift (matchVolumes (spec_Volumes (prj_Spec project)) manifest)) (\<lambda>e. e) (\<lambda>wanted.
      if length wanted = 0 then op_return ()
      else
        andThen (op_lift (StagingDir (rc_DataRoot cfg) ns name)) (\<lambda>e. e) (\<lambda>staging.
        andThen (os_RemoveAll staging) (ErrWrap (''restore: clear staging '' @ go_quote staging)) (\<lambda>_.
        andThen (os_MkdirAll staging) (ErrWrap (''restore: create staging '' @ go_quote staging)) (\<lambda>_.
        andThen (download_all env staging wanted []) (\<lambda>e. e) (\<lambda>archives.
        andThen (extract_all env cfg staging archives wanted []) (\<lambda>e. e) (\<lambda>staged.
        install env cfg project backupID staging staged)))))))))"

definition PrepareStaging :: "restore_env \<Rightarrow> restore_Config \<Rightarrow> Project \<Rightarrow> (host, string) op" where
  "PrepareStaging env cfg project =
     andThen (op_lift (restore_checkDiskSpace env cfg)) (\<lambda>e. e) (\<lambda>_.
     andThen (op_lift (StagingDir (rc_DataRoot cfg) (meta_Namespace (prj_Meta project)) (meta_Name (prj_Meta project))))
       (\<lambda>e. e) (\<lambda>staging.
     andThen (os_RemoveAll staging) (ErrWrap (''restore: clear staging '' @ go_quote staging)) (\<lambda>_.
     andThen (os_MkdirAll staging) (ErrWrap (''restore: create staging '' @ go_quote staging)) (\<lambda>_.
     op_return staging))))"

definition InstallStaged :: "restore_env \<Rightarrow> restore_Config \<Rightarrow> Project \<Rightarrow> string \<Rightarrow> (string \<times> string) list \<Rightarrow> (host, unit) op" where
  "InstallStaged env cfg project backupID staged =
     (let ns = meta_Namespace (prj_Meta project); name = meta_Name (prj_Meta project) in
      andThen (swapAll env (rc_DataRoot cfg) ns name staged) (\<lambda>e. e) (\<lambda>_.
      andThen (WriteMarker (re_marker env) (rc_DataRoot cfg) (ProvenanceFor project (rc_NodeName cfg) backupID) (re_now env))
        (\<lambda>e. e) (\<lambda>_.
      andThen (op_lift (StagingDir (rc_DataRoot cfg) ns name)) (\<lambda>e. e) (\<lambda>staging h.
        (Inr (), snd (os_RemoveAll staging h))))))"

fun make_empty :: "string \<Rightarrow> string \<Rightarrow> string \<Rightarrow> VolumeDef list \<Rightarrow> (host, unit) op" where
  "make_empty dataRoot ns p [] h = (Inr (), h)"
| "make_empty dataRoot ns p (vol # vols) h =
     (if vol_Type vol \<noteq> VolumeTypeManaged then make_empty dataRoot ns p vols h
      else case HostPath dataRoot ns p (vol_Name vol) of
        Inl e \<Rightarrow> (Inl e, h)
      | Inr path \<Rightarrow>
          andThen (os_MkdirAll path) (ErrWrap (''restore: create empty volume dir '' @ go_quote path)) (\<lambda>_.
            make_empty dataRoot ns p vols) h)"

definition InitializeEmpty :: "restore_env \<Rightarrow> restore_Config \<Rightarrow> Project \<Rightarrow> (host, unit) op" where
  "InitializeEmpty env cfg project =
     (let ns = meta_Namespace (prj_Meta project); name = meta_Name (prj_Meta project) in
      andThen (make_empty (rc_DataRoot cfg) ns name (spec_Volumes (prj_Spec project))) (\<lambda>e. e) (\<lambda>_.
      andThen (WriteMarker (re_marker env) (rc_DataRoot cfg) (ProvenanceFor project (rc_NodeName cfg) '''') (re_now env))
        (\<lambda>e. e) (\<lambda>_.
      andThen (op_lift (StagingDir (rc_DataRoot cfg) ns name)) (\<lambda>e. e) (\<lambda>staging.
      andThen (os_RemoveAll staging) (ErrWrap (''restore: clear staging '' @ go_quote staging)) op_return))))"

subsection \<open>quarantine.go and cleanup.go\<close>

definition quarantineRoot :: string where "quarantineRoot = ''quarantine''"

definition quarantine_dest :: "string \<Rightarrow> Provenance \<Rightarrow> time \<Rightarrow> string" where
  "quarantine_dest dataRoot owner now =
     filepath_Join [filepath_Join [filepath_Clean dataRoot, quarantineRoot, pv_Namespace owner, pv_Project owner],
       pv_ProjectUID owner @ ''-gen'' @ FormatInt (pv_AssignmentGeneration owner) @ ''-'' @ compact_time now]"

definition Quarantine :: "marker_json \<Rightarrow> string \<Rightarrow> Provenance \<Rightarrow> time \<Rightarrow> (host, unit) op" where
  "Quarantine mj dataRoot owner now h = (case ProjectDir dataRoot (pv_Namespace owner) (pv_Project owner) of
       Inl e \<Rightarrow> (Inl e, h)
     | Inr dir \<Rightarrow> (case os_Stat dir h of
           (Inl e, h1) \<Rightarrow> if is_not_exist e then (Inr (), h1)
             else (Inl (ErrWrap (''restore: inspect '' @ go_quote dir) e), h1)
         | (Inr _, h1) \<Rightarrow> (case ReadMarker mj dataRoot (pv_Namespace owner) (pv_Project owner) h1 of (marker, h2) \<Rightarrow>
             if (case marker of Inr (Some m) \<Rightarrow> \<not> IsLegacy (Some m) \<and> \<not> Matches (Some m) owner | _ \<Rightarrow> False)
             then (Inr (), h2)
             else let parent = filepath_Join [filepath_Clean dataRoot, quarantineRoot, pv_Namespace owner, pv_Project owner] in
               andThen (os_MkdirAll parent) (ErrWrap (''restore: create quarantine dir '' @ go_quote parent)) (\<lambda>_.
               andThen (os_Rename dir (quarantine_dest dataRoot owner now))
                 (ErrWrap (''restore: move '' @ go_quote dir @ '' to quarantine'')) op_return) h2)))"

text \<open>
  The directories a walk below the volumes meets whose name ends in \<open>.displaced\<close>; the walk does not
  enter them.
\<close>

definition displaced_dir :: "files \<Rightarrow> string list \<Rightarrow> string list \<Rightarrow> bool" where
  "displaced_dir fs base q \<longleftrightarrow> q \<noteq> [] \<and> map_of fs (base @ q) = Some FDir \<and> suffix displacedSuffix (last q)"

definition displaced_dirs :: "files \<Rightarrow> string list \<Rightarrow> string list list" where
  "displaced_dirs fs base = filter (\<lambda>q. displaced_dir fs base q
     \<and> list_all (\<lambda>k. \<not> displaced_dir fs base (take k q)) [1..<length q]) (walk_paths fs base)"

text \<open>Before each removal the walk reads on to it, which may fail and ends the walk.\<close>

fun clean_from :: "string \<Rightarrow> string list list \<Rightarrow> agent_error option \<Rightarrow> (host, unit) op" where
  "clean_from volumesPath [] firstErr h = (case firstErr of None \<Rightarrow> (Inr (), h) | Some e \<Rightarrow> (Inl e, h))"
| "clean_from volumesPath (q # qs) firstErr h = (case file_Sync h of
       (Inl e, h1) \<Rightarrow> (Inl (case firstErr of Some fe \<Rightarrow> fe | None \<Rightarrow> ErrWrap ''restore: scan for displaced data'' e), h1)
     | (Inr _, h1) \<Rightarrow> (let path = filepath_Join (volumesPath # q) in
         case os_RemoveAll path h1 of
           (Inl e, h2) \<Rightarrow> clean_from volumesPath qs
             (case firstErr of Some fe \<Rightarrow> Some fe | None \<Rightarrow> Some (ErrWrap (''restore: remove displaced data '' @ go_quote path) e)) h2
         | (Inr _, h2) \<Rightarrow> clean_from volumesPath qs firstErr h2))"

definition CleanDisplaced :: "string \<Rightarrow> (host, unit) op" where
  "CleanDisplaced dataRoot h = (case VolumesRoot dataRoot of
       Inl e \<Rightarrow> (Inl e, h)
     | Inr volumesPath \<Rightarrow> (case os_Stat volumesPath h of
           (Inl e, h1) \<Rightarrow> if is_not_exist e then (Inr (), h1)
             else (Inl (ErrWrap ''restore: scan for displaced data'' e), h1)
         | (Inr _, h1) \<Rightarrow>
             clean_from volumesPath (displaced_dirs (h_files h1) (path_elems volumesPath)) None h1))"

subsection \<open>Paths of a Project on a Node\<close>

definition staging_elems :: "string \<Rightarrow> string \<Rightarrow> string \<Rightarrow> string list" where
  "staging_elems dataRoot ns p = path_elems dataRoot @ [stagingRoot, ns, p]"

definition project_elems :: "string \<Rightarrow> string \<Rightarrow> string \<Rightarrow> string list" where
  "project_elems dataRoot ns p = path_elems dataRoot @ [volumesDir, ns, p]"

definition marker_elems :: "string \<Rightarrow> string \<Rightarrow> string \<Rightarrow> string list" where
  "marker_elems dataRoot ns p = project_elems dataRoot ns p @ [markerFilename]"

definition names_ok :: "string \<Rightarrow> string \<Rightarrow> string \<Rightarrow> bool" where
  "names_ok dataRoot ns p \<longleftrightarrow> ValidateName ns = None \<and> ValidateName p = None \<and> root_usable dataRoot"

lemma plain_file_names [simp]:
  "plain_seg stagingRoot" "plain_seg quarantineRoot" "plain_seg markerFilename" "plain_seg ''extracted''"
  by (simp_all add: plain_seg_def stagingRoot_def quarantineRoot_def markerFilename_def)

lemma plain_suffixed: "ValidateName v = None \<Longrightarrow> CHR ''/'' \<notin> set s \<Longrightarrow> length s > 1 \<Longrightarrow> plain_seg (v @ s)"
proof -
  assume v: "ValidateName v = None" and s: "CHR ''/'' \<notin> set s" "length s > 1"
  then have "length (v @ s) > 2" using ValidateName_plain [OF v] by (cases v) (auto simp: plain_seg_def)
  then have "v @ s \<noteq> ''''" "v @ s \<noteq> ''.''" "v @ s \<noteq> ''..''" by (auto dest!: arg_cong [where f = length])
  with s ValidateName_plain [OF v] show "plain_seg (v @ s)" by (simp add: plain_seg_def)
qed

lemma names_ok_plain:
  "names_ok dataRoot ns p \<Longrightarrow> list_all plain_seg (path_elems dataRoot) \<and> plain_seg ns \<and> plain_seg p"
  by (auto simp: names_ok_def root_usable_def plain_path_elems ValidateName_plain)

lemma StagingDir_eq:
  "StagingDir dataRoot ns p = Inr s \<longleftrightarrow> names_ok dataRoot ns p \<and> s = abs_path (staging_elems dataRoot ns p)"
proof (cases "names_ok dataRoot ns p")
  case True
  then have d: "ProjectDir dataRoot ns p = Inr (abs_path (project_elems dataRoot ns p))"
    by (simp add: ProjectDir_eq names_ok_def project_elems_def)
  have "filepath_Join (abs_path (path_elems dataRoot) # [stagingRoot, ns, p]) = abs_path (staging_elems dataRoot ns p)"
    unfolding staging_elems_def using names_ok_plain [OF True] by (intro filepath_Join_abs) auto
  with True d show ?thesis
    by (auto simp: StagingDir_def names_ok_def root_usable_def filepath_Clean_abs)
next
  case False
  then obtain e where "ProjectDir dataRoot ns p = Inl e"
    using ProjectDir_eq [of dataRoot ns p] unfolding names_ok_def by (metis sumE)
  with False show ?thesis by (simp add: StagingDir_def)
qed

lemma MarkerPath_eq:
  "MarkerPath dataRoot ns p = Inr s \<longleftrightarrow> names_ok dataRoot ns p \<and> s = abs_path (marker_elems dataRoot ns p)"
proof (cases "names_ok dataRoot ns p")
  case True
  then have d: "ProjectDir dataRoot ns p = Inr (abs_path (project_elems dataRoot ns p))"
    by (simp add: ProjectDir_eq names_ok_def project_elems_def)
  have "filepath_Join (abs_path (project_elems dataRoot ns p) # [markerFilename]) = abs_path (marker_elems dataRoot ns p)"
    unfolding marker_elems_def using names_ok_plain [OF True]
    by (intro filepath_Join_abs) (auto simp: project_elems_def)
  with True d show ?thesis by (auto simp: MarkerPath_def)
next
  case False
  then obtain e where "ProjectDir dataRoot ns p = Inl e"
    using ProjectDir_eq [of dataRoot ns p] unfolding names_ok_def by (metis sumE)
  with False show ?thesis by (simp add: MarkerPath_def)
qed

lemma path_elems_staging: "names_ok dataRoot ns p \<Longrightarrow> path_elems (abs_path (staging_elems dataRoot ns p)) = staging_elems dataRoot ns p"
  using names_ok_plain [of dataRoot ns p] by (simp add: path_elems_abs_path staging_elems_def)

lemma path_elems_project: "names_ok dataRoot ns p \<Longrightarrow> path_elems (abs_path (project_elems dataRoot ns p)) = project_elems dataRoot ns p"
  using names_ok_plain [of dataRoot ns p] by (simp add: path_elems_abs_path project_elems_def)

lemma path_elems_marker: "names_ok dataRoot ns p \<Longrightarrow> path_elems (abs_path (marker_elems dataRoot ns p)) = marker_elems dataRoot ns p"
  using names_ok_plain [of dataRoot ns p] by (simp add: path_elems_abs_path marker_elems_def project_elems_def)

lemma path_elems_marker_tmp:
  assumes "names_ok dataRoot ns p"
  shows "path_elems (abs_path (marker_elems dataRoot ns p) @ ''.tmp'')
      = project_elems dataRoot ns p @ [markerFilename @ ''.tmp'']"
  unfolding marker_elems_def using names_ok_plain [OF assms]
  by (intro path_elems_suffix) (auto simp: project_elems_def, auto simp: plain_seg_def markerFilename_def)

lemma filepath_Dir_marker:
  "names_ok dataRoot ns p \<Longrightarrow> filepath_Dir (abs_path (marker_elems dataRoot ns p)) = abs_path (project_elems dataRoot ns p)"
  unfolding marker_elems_def using names_ok_plain [of dataRoot ns p]
  by (intro filepath_Dir_abs_path) (auto simp: project_elems_def)

lemma staging_project_apart:
  "\<not> prefix (staging_elems dataRoot ns p) (project_elems dataRoot ns' p' @ q)"
  "\<not> prefix (project_elems dataRoot ns' p' @ q) (staging_elems dataRoot ns p)"
  by (auto simp: staging_elems_def project_elems_def stagingRoot_def volumesDir_def)

subsection \<open>What each step leaves alone\<close>

lemma andThen_untouched:
  assumes "andThen m wrap f h = (r, h'')"
    and "\<And>r' h'. m h = (r', h') \<Longrightarrow> untouched P h h'"
    and "\<And>a h'. m h = (Inr a, h') \<Longrightarrow> f a h' = (r, h'') \<Longrightarrow> untouched P h' h''"
  shows "untouched P h h''"
proof (cases "m h")
  case (Pair r' h')
  with assms show ?thesis by (cases r') (auto simp: andThen_def intro: untouched_trans)
qed

lemma untouched_files: "h_files h' = h_files h \<Longrightarrow> untouched P h h'"
  by (simp add: untouched_def)

lemma os_read_untouched:
  "os_Stat p h = (r, h') \<Longrightarrow> untouched P h h'" "os_ReadDir p h = (d, h') \<Longrightarrow> untouched P h h'"
  "os_ReadFile p h = (f, h') \<Longrightarrow> untouched P h h'"
  by (auto dest: os_read_files intro: untouched_files)

lemma file_Sync_files: "file_Sync h = (r, h') \<Longrightarrow> h_files h' = h_files h"
  unfolding file_Sync_def by (erule os_call_cases) auto

lemma grows_untouched: "grows Q h h' \<Longrightarrow> (\<And>q. P q \<Longrightarrow> \<not> Q q) \<Longrightarrow> untouched P h h'"
  by (auto simp: grows_def untouched_def)

lemma os_WriteFile_untouched:
  "os_WriteFile p d h = (r, h') \<Longrightarrow> \<not> P (path_elems p) \<Longrightarrow> untouched P h h'"
  unfolding untouched_def using os_WriteFile_other by metis

lemma os_RemoveAll_untouched:
  "os_RemoveAll p h = (r, h') \<Longrightarrow> (\<And>q. prefix (path_elems p) q \<Longrightarrow> \<not> P q) \<Longrightarrow> untouched P h h'"
  unfolding untouched_def using os_RemoveAll_spec by (metis (no_types, lifting))

lemma os_Remove_untouched:
  "os_Remove p h = (r, h') \<Longrightarrow> (\<And>q. prefix (path_elems p) q \<Longrightarrow> \<not> P q) \<Longrightarrow> untouched P h h'"
  unfolding untouched_def using os_Remove_other by metis

lemma os_MkdirAll_untouched:
  "os_MkdirAll p h = (r, h') \<Longrightarrow> (\<And>q. prefix q (path_elems p) \<Longrightarrow> q \<noteq> [] \<Longrightarrow> P q \<Longrightarrow> node_at h q \<noteq> None) \<Longrightarrow> untouched P h h'"
  using os_MkdirAll_adds unfolding adds_dirs_def untouched_def by metis

lemma os_Rename_untouched:
  assumes "os_Rename s d h = (r, h')"
    and "\<And>q. prefix (path_elems s) q \<Longrightarrow> \<not> P q" "\<And>q. prefix (path_elems d) q \<Longrightarrow> \<not> P q"
  shows "untouched P h h'"
proof (cases r)
  case (Inl e)
  with assms show ?thesis by (auto dest: os_Rename_Inl intro: untouched_files)
next
  case (Inr u)
  show ?thesis
  proof (cases "path_elems s = path_elems d")
    case True
    with os_Rename_spec [OF assms(1)] show ?thesis by (auto intro: untouched_files)
  next
    case False
    with os_Rename_Inr(1) [OF assms(1) [unfolded Inr] False] assms show ?thesis by (auto simp: untouched_def)
  qed
qed

lemma downloadAndVerify_untouched:
  "downloadAndVerify env e dest h = (r, h') \<Longrightarrow> \<not> P (path_elems dest) \<Longrightarrow> untouched P h h'"
  unfolding downloadAndVerify_def
  by (auto elim!: andThen_untouched simp: op_lift_def op_fail_def op_return_def
           split: prod.splits option.splits if_splits
           dest: os_WriteFile_untouched file_Sync_files [THEN untouched_files])

text \<open>Everything but what lies inside the staging directory.\<close>

abbreviation outside :: "string list \<Rightarrow> string list \<Rightarrow> bool" where
  "outside S q \<equiv> \<not> strict_prefix S q"

lemma download_all_untouched:
  assumes "download_all env staging es archives h = (r, h')"
    and "\<And>e. e \<in> set es \<Longrightarrow> strict_prefix S (path_elems (filepath_Join [staging, ve_Name e @ ''.tar.gz'']))"
  shows "untouched (outside S) h h'"
  using assms
proof (induction es arbitrary: archives h)
  case (Cons e es)
  then show ?case
    by (auto simp: Let_def elim!: andThen_untouched dest!: downloadAndVerify_untouched [where P = "outside S"])
qed simp

lemma Extract_untouched:
  assumes "Extract unpack a d mx h = (r, h')" "strict_prefix S (path_elems d)"
    and "\<And>q. prefix q S \<Longrightarrow> q \<noteq> [] \<Longrightarrow> node_at h q \<noteq> None"
  shows "untouched (outside S) h h'"
proof -
  have "node_at h' q = node_at h q" if "outside S q" for q
  proof -
    have "\<not> inside (path_elems d) q" using that assms(2) by (meson prefix_order.less_trans)
    moreover have "prefix q S" if "prefix q (path_elems d)"
      using prefix_same_cases [OF that, of S] \<open>outside S q\<close> assms(2) by (auto simp: strict_prefix_def)
    ultimately show ?thesis
      using Extract_grows [OF assms(1)] assms(3) [of q] unfolding grows_def by metis
  qed
  then show ?thesis by (simp add: untouched_def)
qed

definition way_present :: "string list \<Rightarrow> host \<Rightarrow> bool" where
  "way_present S h \<longleftrightarrow> (\<forall>q. prefix q S \<longrightarrow> q \<noteq> [] \<longrightarrow> node_at h q = Some FDir)"

lemma way_present_untouched: "way_present S h \<Longrightarrow> untouched (outside S) h h' \<Longrightarrow> way_present S h'"
  unfolding way_present_def untouched_def by (metis prefix_order.less_le_not_le)

lemma extract_all_untouched:
  assumes "extract_all env cfg staging archives es staged h = (r, h')" "way_present S h"
    and "\<And>e. e \<in> set es \<Longrightarrow> strict_prefix S (path_elems (filepath_Join [staging, ''extracted'', ve_Name e]))"
  shows "untouched (outside S) h h'"
  using assms
proof (induction es arbitrary: staged h)
  case (Cons e es)
  have ex: "untouched (outside S) h h1" if "Extract u a (filepath_Join [staging, ''extracted'', ve_Name e]) m h = (x, h1)" for u a m x h1
    using that Cons.prems(2,3) by (intro Extract_untouched [OF that]) (auto simp: way_present_def)
  have "untouched (outside S) h1 h'"
    if "Extract u a (filepath_Join [staging, ''extracted'', ve_Name e]) m h = (x, h1)"
      "extract_all env cfg staging archives es staged' h1 = (r, h')" for u a m x h1 staged'
    using Cons.IH [OF that(2)] way_present_untouched [OF Cons.prems(2) ex [OF that(1)]] Cons.prems(3) by simp
  with ex Cons.prems(1) show ?case
    by (auto simp: Let_def elim!: andThen_untouched split: option.splits)
qed simp

subsection \<open>The swap leaves the staging directory itself in place\<close>

definition swap_paths :: "string list \<Rightarrow> string list \<Rightarrow> swaps \<Rightarrow> bool" where
  "swap_paths D S ss \<longleftrightarrow> (\<forall>(live, displaced) \<in> set ss.
     prefix D (path_elems live) \<and> (displaced \<noteq> '''' \<longrightarrow> prefix D (path_elems displaced)))"

text \<open>Every path the swap touches is the Project's directory, on the way to it, below it, or inside staging.\<close>

definition spared :: "string list \<Rightarrow> string list \<Rightarrow> string list \<Rightarrow> bool" where
  "spared D S q \<longleftrightarrow> \<not> prefix D q \<and> \<not> prefix q D \<and> outside S q"

lemma spared_below: "prefix D p \<Longrightarrow> prefix p q \<Longrightarrow> \<not> spared D S q"
  by (auto simp: spared_def dest: prefix_order.trans)

lemma spared_staged: "strict_prefix S p \<Longrightarrow> prefix p q \<Longrightarrow> \<not> spared D S q"
  by (auto simp: spared_def dest: prefix_order.less_le_trans)

lemma swap_rollback_untouched:
  "swap_paths D S ss \<Longrightarrow> untouched (spared D S) h (swap_rollback ss h)"
proof (induction ss arbitrary: h)
  case (Cons s ss)
  obtain live displaced where s: "s = (live, displaced)" by (cases s)
  with Cons.prems have p: "prefix D (path_elems live)" "displaced \<noteq> '''' \<longrightarrow> prefix D (path_elems displaced)"
    "swap_paths D S ss"
    by (auto simp: swap_paths_def)
  obtain r h1 where rm: "os_RemoveAll live h = (r, h1)" by (cases "os_RemoveAll live h")
  have 1: "untouched (spared D S) h h1" using os_RemoveAll_untouched [OF rm] spared_below [OF p(1)] by blast
  have 2: "untouched (spared D S) h1 (snd (os_Rename displaced live h1))" if "displaced \<noteq> ''''"
  proof -
    obtain x h2 where "os_Rename displaced live h1 = (x, h2)" by (cases "os_Rename displaced live h1")
    then show ?thesis
      using os_Rename_untouched [of displaced live h1 x h2 "spared D S"] p that
        spared_below [of D "path_elems displaced"] spared_below [OF p(1)] by auto
  qed
  show ?case
    using rm s Cons.IH [OF p(3)] 1 2 by (auto split: sum.split intro: untouched_trans)
qed simp

lemma spared_way: "prefix q (D @ r) \<Longrightarrow> \<not> spared D S q"
  using prefix_same_cases [of q "D @ r" D] by (auto simp: spared_def)

lemma swap_in_untouched:
  assumes "swap_in v staged live displaced ss h = (r, h')" "swap_paths D S ss"
    and "prefix D (path_elems live)" "displaced \<noteq> '''' \<longrightarrow> prefix D (path_elems displaced)"
    and "strict_prefix S (path_elems staged)"
  shows "untouched (spared D S) h h' \<and> (\<forall>ss'. r = Inr ss' \<longrightarrow> swap_paths D S ss')"
proof -
  obtain x h1 where ren: "os_Rename staged live h = (x, h1)" by (cases "os_Rename staged live h")
  have 1: "untouched (spared D S) h h1"
    using os_Rename_untouched [OF ren] spared_below [OF assms(3)] spared_staged [OF assms(5)] by blast
  have 2: "untouched (spared D S) h1 (if displaced \<noteq> '''' then snd (os_Rename displaced live h1) else h1)"
  proof -
    obtain y h2 where "os_Rename displaced live h1 = (y, h2)" by (cases "os_Rename displaced live h1")
    then show ?thesis
      using os_Rename_untouched [of displaced live h1 y h2 "spared D S"] assms(3,4)
        spared_below [of D "path_elems displaced"] spared_below [OF assms(3)] by auto
  qed
  show ?thesis
    using assms ren 1 2 swap_rollback_untouched [OF assms(2)]
    by (auto simp: swap_in_def swap_paths_def split: sum.splits intro: untouched_trans)
qed

lemma live_elems:
  assumes "HostPath dataRoot ns p v = Inr live"
  shows "path_elems live = project_elems dataRoot ns p @ [v, dataDir]"
    "path_elems (live @ displacedSuffix) = project_elems dataRoot ns p @ [v, dataDir @ displacedSuffix]"
    "filepath_Dir live = abs_path (project_elems dataRoot ns p @ [v])"
    "path_elems (filepath_Dir live) = project_elems dataRoot ns p @ [v]"
proof -
  have pl: "list_all plain_seg (project_elems dataRoot ns p @ [v])"
    and live: "live = abs_path ((project_elems dataRoot ns p @ [v]) @ [dataDir])"
    using plain_host_elems [OF assms] assms by (auto simp: HostPath_eq host_elems_def project_elems_def)
  then show "path_elems live = project_elems dataRoot ns p @ [v, dataDir]"
    by (simp add: path_elems_abs_path)
  show d: "filepath_Dir live = abs_path (project_elems dataRoot ns p @ [v])"
    unfolding live by (rule filepath_Dir_abs_path [OF pl]) simp
  show "path_elems (filepath_Dir live) = project_elems dataRoot ns p @ [v]"
    unfolding d by (rule path_elems_abs_path [OF pl])
  have "plain_seg (dataDir @ displacedSuffix)" by (simp add: plain_seg_def dataDir_def displacedSuffix_def)
  from path_elems_suffix [OF pl this] live
  show "path_elems (live @ displacedSuffix) = project_elems dataRoot ns p @ [v, dataDir @ displacedSuffix]" by simp
qed

lemma swap_one_untouched:
  assumes "swap_one dataRoot ns p v staged ss h = (r, h')" "strict_prefix S (path_elems staged)"
    and D: "D = project_elems dataRoot ns p" and "swap_paths D S ss"
  shows "untouched (spared D S) h h' \<and> (\<forall>ss'. r = Inr ss' \<longrightarrow> swap_paths D S ss')"
proof (cases "HostPath dataRoot ns p v")
  case (Inl e)
  with assms swap_rollback_untouched [OF assms(4)] show ?thesis by (auto simp: swap_one_def)
next
  case (Inr live)
  let ?disp = "live @ displacedSuffix"
  note el = live_elems [OF Inr] and undo = swap_rollback_untouched [OF assms(4)]
  have d: "?disp \<noteq> ''''" by (simp add: displacedSuffix_def)
  obtain r1 h1 where 1: "os_MkdirAll (filepath_Dir live) h = (r1, h1)" by (cases "os_MkdirAll (filepath_Dir live) h")
  obtain r2 h2 where 2: "os_Stat live h1 = (r2, h2)" by (cases "os_Stat live h1")
  obtain r3 h3 where 3: "os_RemoveAll ?disp h2 = (r3, h3)" by (cases "os_RemoveAll ?disp h2")
  obtain r4 h4 where 4: "os_Rename live ?disp h3 = (r4, h4)" by (cases "os_Rename live ?disp h3")
  have "untouched (spared D S) h h1"
    using os_MkdirAll_untouched [OF 1, of "spared D S"] spared_way [of _ D "[v]" S] el D by auto
  moreover have "untouched (spared D S) h1 h2" using os_read_untouched(1) [OF 2] .
  moreover have "untouched (spared D S) h2 h3"
    using os_RemoveAll_untouched [OF 3, of "spared D S"] spared_below [of D "path_elems ?disp"] el D by simp
  moreover have "untouched (spared D S) h3 h4"
    using os_Rename_untouched [OF 4, of "spared D S"] spared_below [of D "path_elems ?disp"]
      spared_below [of D "path_elems live"] el D by simp
  ultimately have u: "untouched (spared D S) h h1" "untouched (spared D S) h h2" "untouched (spared D S) h h4"
    by (blast intro: untouched_trans)+
  have inn: "untouched (spared D S) k k' \<and> (\<forall>ss'. x = Inr ss' \<longrightarrow> swap_paths D S ss')"
    if "swap_in v staged live disp ss k = (x, k')" "disp = '''' \<or> disp = ?disp" for disp k k' x
    using swap_in_untouched [OF that(1) assms(4) _ _ assms(2)] that(2) el D by auto
  show ?thesis
    using assms(1) Inr 1 2 3 4 u d
    by (auto simp: swap_one_def Let_def split: sum.splits if_splits intro: untouched_trans undo dest!: inn)
qed

lemma swap_from_untouched:
  assumes "swap_from dataRoot ns p staged ss h = (r, h')" "D = project_elems dataRoot ns p" "swap_paths D S ss"
    and "\<And>v d. (v, d) \<in> set staged \<Longrightarrow> strict_prefix S (path_elems d)"
  shows "untouched (spared D S) h h' \<and> (\<forall>ss'. r = Inr ss' \<longrightarrow> swap_paths D S ss')"
  using assms
proof (induction staged arbitrary: ss h)
  case (Cons vd staged)
  obtain v d where vd: "vd = (v, d)" by (cases vd)
  obtain x h1 where one: "swap_one dataRoot ns p v d ss h = (x, h1)" by (cases "swap_one dataRoot ns p v d ss h")
  have "untouched (spared D S) h h1 \<and> (\<forall>ss'. x = Inr ss' \<longrightarrow> swap_paths D S ss')"
    using swap_one_untouched [OF one _ Cons.prems(2,3)] Cons.prems(4) [of v d] vd by simp
  moreover have "untouched (spared D S) h1 h' \<and> (\<forall>ss'. r = Inr ss' \<longrightarrow> swap_paths D S ss')"
    if "swap_from dataRoot ns p staged ss1 h1 = (r, h')" "swap_paths D S ss1" for ss1
    by (rule Cons.IH [OF that(1) Cons.prems(2) that(2)]) (use Cons.prems(4) in auto)
  ultimately show ?case using Cons.prems(1) vd one by (auto split: sum.splits intro: untouched_trans)
qed auto

lemma remove_displaced_untouched: "swap_paths D S ss \<Longrightarrow> untouched (spared D S) h (remove_displaced ss h)"
proof (induction ss arbitrary: h)
  case (Cons s ss)
  obtain live displaced where s: "s = (live, displaced)" by (cases s)
  obtain r h1 where rm: "os_RemoveAll displaced h = (r, h1)" by (cases "os_RemoveAll displaced h")
  from Cons.prems s have "displaced \<noteq> '''' \<Longrightarrow> untouched (spared D S) h h1"
    using os_RemoveAll_untouched [OF rm, of "spared D S"] spared_below [of D "path_elems displaced"]
    by (auto simp: swap_paths_def)
  with Cons s rm show ?case by (auto simp: swap_paths_def intro: untouched_trans)
qed simp

lemma swapAll_untouched:
  assumes "swapAll env dataRoot ns p staged h = (r, h')" "D = project_elems dataRoot ns p"
    and "\<And>v d. (v, d) \<in> set staged \<Longrightarrow> strict_prefix S (path_elems d)"
  shows "untouched (spared D S) h h'"
proof -
  obtain x h1 where f: "swap_from dataRoot ns p (sort_key (re_key env) staged) [] h = (x, h1)"
    by (cases "swap_from dataRoot ns p (sort_key (re_key env) staged) [] h")
  have "untouched (spared D S) h h1 \<and> (\<forall>ss'. x = Inr ss' \<longrightarrow> swap_paths D S ss')"
    by (rule swap_from_untouched [OF f assms(2)]) (use assms(3) in \<open>auto simp: swap_paths_def\<close>)
  with assms(1) f remove_displaced_untouched [of D S "rev _" h1] show ?thesis
    by (auto simp: swapAll_def swap_paths_def split: sum.splits intro: untouched_trans)
qed

lemma WriteMarker_untouched:
  assumes "WriteMarker mj dataRoot prov now h = (r, h')" "D = project_elems dataRoot (pv_Namespace prov) (pv_Project prov)"
  shows "untouched (spared D S) h h'"
proof (cases "names_ok dataRoot (pv_Namespace prov) (pv_Project prov)")
  case False
  then obtain e where "MarkerPath dataRoot (pv_Namespace prov) (pv_Project prov) = Inl e"
    using MarkerPath_eq [of dataRoot "pv_Namespace prov" "pv_Project prov"] by (metis sumE)
  with assms(1) show ?thesis by (auto simp: WriteMarker_def op_lift_def andThen_def)
next
  case True
  let ?m = "abs_path (marker_elems dataRoot (pv_Namespace prov) (pv_Project prov))"
  have mp: "MarkerPath dataRoot (pv_Namespace prov) (pv_Project prov) = Inr ?m" using True by (simp add: MarkerPath_eq)
  note el = path_elems_marker [OF True] path_elems_marker_tmp [OF True] filepath_Dir_marker [OF True] path_elems_project [OF True]
  have mk: "untouched (spared D S) k k'" if "os_MkdirAll (filepath_Dir ?m) k = (x, k')" for k k' x
    using os_MkdirAll_untouched [OF that, of "spared D S"] spared_way [of _ D "[]" S] el assms(2) by auto
  have below: "\<not> spared D S q" if "prefix (path_elems (?m @ ''.tmp'')) q \<or> prefix (path_elems ?m) q" for q
    using that unfolding el assms(2) by (auto simp: marker_elems_def spared_def dest: append_prefixD)
  have wr: "untouched (spared D S) k k'" if "os_WriteFile (?m @ ''.tmp'') d k = (x, k')" for k k' x d
    using os_WriteFile_untouched [OF that] below [of "path_elems (?m @ ''.tmp'')"] by simp
  have rm: "untouched (spared D S) k k'" if "os_Remove (?m @ ''.tmp'') k = (x, k')" for k k' x
    using os_Remove_untouched [OF that] below by blast
  have rn: "untouched (spared D S) k k'" if "os_Rename (?m @ ''.tmp'') ?m k = (x, k')" for k k' x
    using os_Rename_untouched [OF that] below by blast
  have fin: "untouched (spared D S) k k'"
    if "(case os_Rename (?m @ ''.tmp'') ?m k of
         (Inl e, h1) \<Rightarrow> (Inl (w e), snd (os_Remove (?m @ ''.tmp'') h1)) | (Inr _, h1) \<Rightarrow> (Inr (), h1)) = (x, k')" for k k' x w
    using that by (cases "os_Remove (?m @ ''.tmp'') (snd (os_Rename (?m @ ''.tmp'') ?m k))")
      (auto split: prod.splits sum.splits intro: untouched_trans [OF rn rm] rn)
  show ?thesis
    using assms(1) unfolding WriteMarker_def mp
    by (auto simp: op_lift_def Let_def elim!: andThen_untouched dest: mk wr fin)
qed

lemma matchVolumes_names:
  "matchVolumes vols m = Inr ws \<Longrightarrow> w \<in> set ws \<Longrightarrow>
     \<exists>v \<in> set vols. vol_Type v = VolumeTypeManaged \<and> vol_Name v = ve_Name w \<and> w \<in> set (mf_Volumes m)"
proof (induction vols arbitrary: ws)
  case (Cons v vols)
  have "ve_Name e = n \<and> e \<in> set (mf_Volumes m)" if "inGeneration m n = Some e" for n e
    using that by (auto simp: inGeneration_def dest!: map_of_SomeD)
  with Cons show ?case by (fastforce split: if_splits option.splits sum.splits)
qed simp

lemma set_AList_update: "set (AList.update k v al) \<subseteq> insert (k, v) (set al)"
  by (induction al) auto

lemma staged_dirs:
  "extract_all env cfg staging archives es staged h = (Inr staged', h') \<Longrightarrow> (v, d) \<in> set staged' \<Longrightarrow>
     (v, d) \<in> set staged \<or> (\<exists>e \<in> set es. v = ve_Name e \<and> d = filepath_Join [staging, ''extracted'', ve_Name e])"
proof (induction es arbitrary: staged h)
  case (Cons e es)
  from Cons.prems obtain h1 a where "extract_all env cfg staging archives es
      (AList.update (ve_Name e) (filepath_Join [staging, ''extracted'', ve_Name e]) staged) h1 = (Inr staged', h')"
    by (auto simp: Let_def andThen_Inr_iff split: option.splits)
  from Cons.IH [OF this Cons.prems(2)] show ?case
    using set_AList_update [of "ve_Name e" "filepath_Join [staging, ''extracted'', ve_Name e]" staged] by auto
qed simp

text \<open>
  Once the staging directory stands, it stands for the rest of the run until the very end; until the
  swap nothing but its contents changes.
\<close>

lemma restore_staged_phase:
  assumes "names_ok (rc_DataRoot cfg) (meta_Namespace (prj_Meta project)) (meta_Name (prj_Meta project))"
    and valid: "\<forall>e \<in> set wanted. ValidateName (ve_Name e) = None"
    and S: "S = staging_elems (rc_DataRoot cfg) (meta_Namespace (prj_Meta project)) (meta_Name (prj_Meta project))"
    and D: "D = project_elems (rc_DataRoot cfg) (meta_Namespace (prj_Meta project)) (meta_Name (prj_Meta project))"
    and way: "way_present S h"
    and run: "andThen (download_all env (abs_path S) wanted []) (\<lambda>e. e) (\<lambda>archives.
        andThen (extract_all env cfg (abs_path S) archives wanted []) (\<lambda>e. e) (\<lambda>staged.
        install env cfg project backupID (abs_path S) staged)) h = (Inl e, h')"
  shows "node_at h' S = Some FDir"
proof -
  have pl: "list_all plain_seg S" using names_ok_plain [OF assms(1)] by (simp add: S staging_elems_def)
  have dl: "path_elems (filepath_Join [abs_path S, ve_Name e @ ''.tar.gz'']) = S @ [ve_Name e @ ''.tar.gz'']"
    if "e \<in> set wanted" for e
    using plain_suffixed [of "ve_Name e" "''.tar.gz''"] valid that pl
    by (simp add: filepath_Join_abs path_elems_abs_path)
  have ex: "path_elems (filepath_Join [abs_path S, ''extracted'', ve_Name e]) = S @ [''extracted'', ve_Name e]"
    if "e \<in> set wanted" for e
    using ValidateName_plain valid that pl by (simp add: filepath_Join_abs path_elems_abs_path)
  have "spared D S S"
    by (auto simp: spared_def S D staging_elems_def project_elems_def stagingRoot_def volumesDir_def)
  then have keep: "untouched (spared D S) k k' \<Longrightarrow> node_at k' S = node_at k S" for k k'
    by (simp add: untouched_def)
  have out: "way_present S k' \<and> node_at k' S = Some FDir" if "way_present S k" "untouched (outside S) k k'" for k k'
    using way_present_untouched [OF that] by (auto simp: way_present_def S staging_elems_def)
  have ins: "node_at k' S = node_at k S"
    if "install env cfg project backupID (abs_path S) staged k = (Inl e, k')"
      "\<And>v d. (v, d) \<in> set staged \<Longrightarrow> strict_prefix S (path_elems d)" for staged k k'
  proof -
    let ?w = "WriteMarker (re_marker env) (rc_DataRoot cfg) (ProvenanceFor project (rc_NodeName cfg) backupID) (re_now env)"
    have sw: "untouched (spared D S) k1 k2"
      if "swapAll env (rc_DataRoot cfg) (meta_Namespace (prj_Meta project)) (meta_Name (prj_Meta project)) staged k1 = (x, k2)" for k1 k2 x
      by (rule swapAll_untouched [OF that D]) (rule \<open>\<And>v d. (v, d) \<in> set staged \<Longrightarrow> strict_prefix S (path_elems d)\<close>)
    have wm: "untouched (spared D S) k1 k2" if "?w k1 = (x, k2)" for k1 k2 x
      using WriteMarker_untouched [OF that] D by (simp add: ProvenanceFor_def)
    have "untouched (spared D S) k k'"
      using that(1) unfolding install_def
      by (auto simp: andThen_Inl_iff intro: untouched_trans [OF sw wm] sw)
    then show ?thesis by (rule keep)
  qed
  show ?thesis
  proof (cases "download_all env (abs_path S) wanted [] h")
    case (Pair r1 h1)
    have u1: "way_present S h1" "node_at h1 S = Some FDir"
      using out [OF way download_all_untouched [OF Pair, of S]] dl by (auto simp: strict_prefix_def)
    show ?thesis
    proof (cases r1)
      case Inl
      with run Pair u1 show ?thesis by (simp add: andThen_def)
    next
      case (Inr archives)
      obtain r2 h2 where 2: "extract_all env cfg (abs_path S) archives wanted [] h1 = (r2, h2)"
        by (cases "extract_all env cfg (abs_path S) archives wanted [] h1")
      have u2: "node_at h2 S = Some FDir"
        using out [OF u1(1) extract_all_untouched [OF 2 u1(1)]] ex by (auto simp: strict_prefix_def)
      show ?thesis
      proof (cases r2)
        case Inl
        with run Pair Inr 2 u2 show ?thesis by (simp add: andThen_def)
      next
        case (Inr staged)
        have "strict_prefix S (path_elems d)" if "(v, d) \<in> set staged" for v d
          using staged_dirs [OF 2 [unfolded Inr] that] ex by (auto simp: strict_prefix_def)
        with ins [of staged h2 h'] run Pair \<open>r1 = Inr archives\<close> 2 Inr u2 show ?thesis by (simp add: andThen_def)
      qed
    qed
  qed
qed

end
