(* ===== verification/Restore_Properties.thy ===== *)
theory Restore_Properties
  imports Restore_Run
begin

text \<open>
  What the restore code guarantees: which data a placement may serve, what a restore that fails or dies
  leaves behind, and where data goes when an assignment ends.
\<close>

subsection \<open>Decisions\<close>

lemma Decide_Skip_iff:
  "oc_Decision (Decide st want hist) = DecisionSkip \<longleftrightarrow>
     \<not> pst_StagingPresent st \<and> pst_MarkerErr st = None
     \<and> (\<exists>k. pst_Marker st = Some k \<and> mk_Version k \<ge> MarkerVersion \<and> mk_ProjectUID k = pv_ProjectUID want
          \<and> mk_NodeName k = pv_NodeName want \<and> mk_AssignmentGeneration k = pv_AssignmentGeneration want
          \<and> (mk_InitializedFromBackupID k = '''' \<or> vs_Empty (pst_Volumes st) = []))"
  by (cases "pst_Marker st")
    (auto simp: Decide_def Let_def Matches_def IsLegacy_def decided_def blocked_by_def Complete_def)

lemma Decide_Initialize_iff:
  "oc_Decision (Decide st want hist) = DecisionInitializeEmpty \<longleftrightarrow>
     \<not> pst_StagingPresent st \<and> pst_MarkerErr st = None \<and> pst_Marker st = None
     \<and> vs_WithData (pst_Volumes st) = [] \<and> hist \<noteq> AssignmentHistoryUnknown \<and> pv_AssignmentGeneration want = 1"
  by (cases "pst_Marker st")
    (auto simp: Decide_def Let_def Matches_def IsLegacy_def decided_def blocked_by_def AnyData_def firstPlacement_def)

lemma Decide_Restore_iff:
  "oc_Decision (Decide st want hist) = DecisionRestore \<longleftrightarrow>
     pst_StagingPresent st \<or> pst_MarkerErr st = None \<and> pst_Marker st = None
     \<and> vs_WithData (pst_Volumes st) = [] \<and> (hist = AssignmentHistoryUnknown \<or> pv_AssignmentGeneration want \<noteq> 1)"
  by (cases "pst_Marker st")
    (auto simp: Decide_def Let_def Matches_def IsLegacy_def decided_def blocked_by_def AnyData_def firstPlacement_def)

text \<open>
  C14: Local data is used only when it is proven to be this assignment's. A placement skips the restore
  exactly when no restore was left unfinished, the marker is readable, current and names this Project
  lifetime, this Node and this assignment generation, and, for data that came from a backup, every
  volume still holds something. It starts empty exactly when there is no marker, no data and no
  unfinished restore and this is the first assignment the Project ever had; it restores exactly when a
  restore was left unfinished or there is nothing here and the Project was placed before. In every other
  case nothing is started.
\<close>

theorem local_data_only_if_proven:
  "(oc_Decision (Decide st want hist) = DecisionSkip \<longleftrightarrow>
     \<not> pst_StagingPresent st \<and> pst_MarkerErr st = None
     \<and> (\<exists>k. pst_Marker st = Some k \<and> mk_Version k \<ge> MarkerVersion \<and> mk_ProjectUID k = pv_ProjectUID want
          \<and> mk_NodeName k = pv_NodeName want \<and> mk_AssignmentGeneration k = pv_AssignmentGeneration want
          \<and> (mk_InitializedFromBackupID k = '''' \<or> vs_Empty (pst_Volumes st) = [])))
   \<and> (oc_Decision (Decide st want hist) = DecisionInitializeEmpty \<longleftrightarrow>
     \<not> pst_StagingPresent st \<and> pst_MarkerErr st = None \<and> pst_Marker st = None
     \<and> vs_WithData (pst_Volumes st) = [] \<and> hist \<noteq> AssignmentHistoryUnknown \<and> pv_AssignmentGeneration want = 1)
   \<and> (oc_Decision (Decide st want hist) = DecisionRestore \<longleftrightarrow>
     pst_StagingPresent st \<or> pst_MarkerErr st = None \<and> pst_Marker st = None
     \<and> vs_WithData (pst_Volumes st) = [] \<and> (hist = AssignmentHistoryUnknown \<or> pv_AssignmentGeneration want \<noteq> 1))"
  using Decide_Skip_iff Decide_Initialize_iff Decide_Restore_iff by simp

text \<open>A Node with nothing on it, for the first and for a later assignment.\<close>

definition nothing_here :: PlacementState where
  "nothing_here = \<lparr>pst_StagingPresent = False, pst_Marker = None, pst_MarkerErr = None, pst_Volumes = \<lparr>vs_WithData = [], vs_Empty = [''v'']\<rparr>\<rparr>"

definition demo_want :: "int \<Rightarrow> Provenance" where
  "demo_want g = \<lparr>pv_Namespace = ''n'', pv_Project = ''p'', pv_ProjectUID = ''u1'', pv_NodeName = ''node-b'',
     pv_AssignmentGeneration = g, pv_BackupID = ''''\<rparr>"

theorem local_data_only_if_proven_witness:
  "oc_Decision (Decide nothing_here (demo_want 1) AssignmentHistoryNeverAssigned) = DecisionInitializeEmpty
   \<and> oc_Decision (Decide nothing_here (demo_want 2) AssignmentHistoryNeverAssigned) = DecisionRestore"
  using local_data_only_if_proven [of nothing_here "demo_want 1" AssignmentHistoryNeverAssigned]
    local_data_only_if_proven [of nothing_here "demo_want 2" AssignmentHistoryNeverAssigned]
  by (simp add: nothing_here_def demo_want_def)

lemma SurveyVolumes_files: "SurveyVolumes dataRoot ns p vols h = (r, h') \<Longrightarrow> h_files h' = h_files h"
proof -
  have "survey_from dataRoot ns p vols s h = (r, h') \<Longrightarrow> h_files h' = h_files h" for s h
  proof (induction vols arbitrary: s h)
    case (Cons v vols)
    then show ?case
      by (auto split: if_splits sum.splits prod.splits dest!: os_ReadDir_files)
  qed simp
  then show "SurveyVolumes dataRoot ns p vols h = (r, h') \<Longrightarrow> h_files h' = h_files h"
    by (simp add: SurveyVolumes_def)
qed

lemma decideRestore_Inr:
  assumes "decideRestore mj dataRoot want p h = (Inr oc, h')"
  obtains staging h1 marker h2 vols
  where "StagingPresent dataRoot (meta_Namespace (prj_Meta p)) (meta_Name (prj_Meta p)) h = (Inr staging, h1)"
    "ReadMarker mj dataRoot (meta_Namespace (prj_Meta p)) (meta_Name (prj_Meta p)) h1 = (marker, h2)"
    "SurveyVolumes dataRoot (meta_Namespace (prj_Meta p)) (meta_Name (prj_Meta p)) (spec_Volumes (prj_Spec p)) h2 = (Inr vols, h')"
    "oc = Decide \<lparr>pst_StagingPresent = staging, pst_Marker = (case marker of Inl _ \<Rightarrow> None | Inr m \<Rightarrow> m),
        pst_MarkerErr = (case marker of Inl e \<Rightarrow> Some e | Inr _ \<Rightarrow> None), pst_Volumes = vols\<rparr>
      want (ps_AssignmentHistory (prj_Status p))"
  using assms unfolding decideRestore_def Let_def andThen_Inr_iff op_return_def
  by (cases "ReadMarker mj dataRoot (meta_Namespace (prj_Meta p)) (meta_Name (prj_Meta p))
      (snd (StagingPresent dataRoot (meta_Namespace (prj_Meta p)) (meta_Name (prj_Meta p)) h))")
    (fastforce simp: andThen_Inr_iff)

lemma decideRestore_staging:
  assumes "node_at h (staging_elems dataRoot (meta_Namespace (prj_Meta p)) (meta_Name (prj_Meta p))) = Some FDir"
    and "names_ok dataRoot (meta_Namespace (prj_Meta p)) (meta_Name (prj_Meta p))"
    and "decideRestore mj dataRoot want p h = (Inr oc, h')"
  shows "oc_Decision oc = DecisionRestore"
proof -
  let ?S = "staging_elems dataRoot (meta_Namespace (prj_Meta p)) (meta_Name (prj_Meta p))"
  have sd: "StagingDir dataRoot (meta_Namespace (prj_Meta p)) (meta_Name (prj_Meta p)) = Inr (abs_path ?S)"
    using assms(2) by (simp add: StagingDir_eq)
  have "fs_get (h_files h) (path_elems (abs_path ?S)) \<noteq> None"
    using assms(1) path_elems_staging [OF assms(2)] by (simp add: fs_get_def)
  from os_Stat_present [OF this] sd
  have "StagingPresent dataRoot (meta_Namespace (prj_Meta p)) (meta_Name (prj_Meta p)) h = (Inr s, h1) \<Longrightarrow> s" for s h1
    by (auto simp: StagingPresent_def split: prod.splits sum.splits if_splits)
  then show ?thesis
    by - (rule decideRestore_Inr [OF assms(3)], auto simp: Decide_Restore_iff)
qed

lemma RestoreGeneration_failure:
  assumes "RestoreGeneration env cfg p backupID h = (Inl e, h')"
    and valid: "\<forall>v \<in> set (spec_Volumes (prj_Spec p)). vol_Type v = VolumeTypeManaged \<longrightarrow> ValidateName (vol_Name v) = None"
    and S: "S = staging_elems (rc_DataRoot cfg) (meta_Namespace (prj_Meta p)) (meta_Name (prj_Meta p))"
    and D: "D = project_elems (rc_DataRoot cfg) (meta_Namespace (prj_Meta p)) (meta_Name (prj_Meta p))"
  shows "untouched (prefix D) h h'
    \<or> names_ok (rc_DataRoot cfg) (meta_Namespace (prj_Meta p)) (meta_Name (prj_Meta p)) \<and> node_at h' S = Some FDir"
proof -
  let ?ns = "meta_Namespace (prj_Meta p)" and ?n = "meta_Name (prj_Meta p)"
  have apart: "\<not> prefix S q \<and> \<not> prefix q S" if "prefix D q" for q
  proof -
    from that obtain r where "q = D @ r" by (auto simp: prefix_def)
    then show ?thesis using staging_project_apart(1) [of "rc_DataRoot cfg" ?ns ?n ?ns ?n r]
      staging_project_apart(2) [of "rc_DataRoot cfg" ?ns ?n r ?ns ?n] by (simp add: S D)
  qed
  have rm: "untouched (prefix D) k k'" if "os_RemoveAll (abs_path S) k = (x, k')"
    and "names_ok (rc_DataRoot cfg) ?ns ?n" for k k' x
    using os_RemoveAll_untouched [OF that(1), of "prefix D"] apart path_elems_staging [OF that(2)] S by auto
  have mk: "untouched (prefix D) k k'" if "os_MkdirAll (abs_path S) k = (x, k')"
    and "names_ok (rc_DataRoot cfg) ?ns ?n" for k k' x
    using os_MkdirAll_untouched [OF that(1), of "prefix D"] apart path_elems_staging [OF that(2)] S by auto
  have way: "way_present S k'" if "os_MkdirAll (abs_path S) k = (Inr u, k')"
    and "names_ok (rc_DataRoot cfg) ?ns ?n" for k k' u
    using os_MkdirAll_way [OF that(1)] path_elems_staging [OF that(2)] S by (simp add: way_present_def)
  define run where "run staging wanted = andThen (download_all env staging wanted []) (\<lambda>e. e) (\<lambda>archives.
        andThen (extract_all env cfg staging archives wanted []) (\<lambda>e. e) (\<lambda>staged.
        install env cfg p backupID staging staged))" for staging wanted
  have phase: "node_at k' S = Some FDir"
    if "names_ok (rc_DataRoot cfg) ?ns ?n" "matchVolumes (spec_Volumes (prj_Spec p)) m = Inr wanted" "way_present S k"
      "run (abs_path S) wanted k = (Inl e, k')" for m wanted k k'
  proof (rule restore_staged_phase [OF that(1) _ S D that(3) that(4) [unfolded run_def]])
    show "\<forall>e \<in> set wanted. ValidateName (ve_Name e) = None"
      using matchVolumes_names [OF that(2)] valid by metis
  qed
  show ?thesis
    using assms(1) unfolding RestoreGeneration_def Let_def run_def [symmetric]
    by (auto simp: op_lift_def op_return_def andThen_Inl_iff StagingDir_eq simp flip: S split: if_splits
             intro: untouched_trans [OF rm mk] rm dest: phase way)
qed

subsection \<open>A restore that succeeds\<close>

lemma downloadAndVerify_Inr:
  assumes "downloadAndVerify env e dest h = (Inr u, h')"
  obtains body where "re_Get env (ve_ArchiveKey e) = Inr (body, None)" "int (length body) = ve_SizeBytes e"
    "re_sha256 env body = ve_SHA256 e" "node_at h' (path_elems dest) = Some (FFile body)"
  using assms unfolding downloadAndVerify_def
  by (auto simp: andThen_Inr_iff op_lift_def op_fail_def op_return_def split: prod.splits option.splits if_splits
           dest!: os_WriteFile_done file_Sync_files)

definition verified :: "restore_env \<Rightarrow> VolumeManifestEntry \<Rightarrow> string \<Rightarrow> bool" where
  "verified env e body \<longleftrightarrow> re_Get env (ve_ArchiveKey e) = Inr (body, None) \<and> int (length body) = ve_SizeBytes e
     \<and> re_sha256 env body = ve_SHA256 e"

lemma download_all_Inr:
  assumes "download_all env staging es arch h = (Inr arch', h')" "distinct (map ve_Name es)"
    and path: "\<And>e. e \<in> set es \<Longrightarrow> path_elems (filepath_Join [staging, ve_Name e @ ''.tar.gz'']) = S @ [ve_Name e @ ''.tar.gz'']"
  shows "(\<forall>e \<in> set es. map_of arch' (ve_Name e) = Some (filepath_Join [staging, ve_Name e @ ''.tar.gz''])
            \<and> (\<exists>body. verified env e body \<and> node_at h' (S @ [ve_Name e @ ''.tar.gz'']) = Some (FFile body)))
         \<and> (\<forall>k. k \<notin> set (map ve_Name es) \<longrightarrow> map_of arch' k = map_of arch k)
         \<and> untouched (\<lambda>q. q \<notin> (\<lambda>e. S @ [ve_Name e @ ''.tar.gz'']) ` set es) h h'"
  using assms
proof (induction es arbitrary: arch h)
  case (Cons e es)
  let ?p = "filepath_Join [staging, ve_Name e @ ''.tar.gz'']"
  from Cons.prems(1) obtain u h1 where dl: "downloadAndVerify env e ?p h = (Inr u, h1)"
    and rest: "download_all env staging es (AList.update (ve_Name e) ?p arch) h1 = (Inr arch', h')"
    by (auto simp: Let_def andThen_Inr_iff)
  note IH = Cons.IH [OF rest] and pe = Cons.prems(3) [of e]
  have fresh: "S @ [ve_Name e @ ''.tar.gz''] \<notin> (\<lambda>e. S @ [ve_Name e @ ''.tar.gz'']) ` set es"
    using Cons.prems(2) by auto
  obtain body where body: "verified env e body" "node_at h1 (path_elems ?p) = Some (FFile body)"
    using downloadAndVerify_Inr [OF dl] unfolding verified_def by metis
  have "untouched (\<lambda>q. q \<noteq> S @ [ve_Name e @ ''.tar.gz'']) h h1"
    using downloadAndVerify_untouched [OF dl] pe by simp
  with IH Cons.prems body pe fresh show ?case by (auto simp: untouched_def update_conv')
qed simp

text \<open>The trees of the volumes expanded so far stay as they were expanded.\<close>

lemma extract_all_Inr:
  assumes "extract_all env cfg staging arch es staged h = (Inr staged', h')" "distinct (map ve_Name es)"
    and path: "\<And>e. e \<in> set es \<Longrightarrow> path_elems (filepath_Join [staging, ''extracted'', ve_Name e]) = S @ [''extracted'', ve_Name e]"
    and arch: "\<And>e. e \<in> set es \<Longrightarrow> map_of arch (ve_Name e) = Some (a e) \<and> node_at h (path_elems (a e)) = Some (FFile (b e))"
    and fresh: "\<And>e. e \<in> set es \<Longrightarrow> tree_at h (S @ [''extracted'', ve_Name e]) = Map.empty"
  shows "(\<forall>e \<in> set es. map_of staged' (ve_Name e) = Some (filepath_Join [staging, ''extracted'', ve_Name e])
            \<and> (\<exists>ha hb. Extract (re_unpack env) (a e) (filepath_Join [staging, ''extracted'', ve_Name e]) (rc_MaxExtractedBytes cfg) ha = (Inr (), hb)
                 \<and> node_at ha (path_elems (a e)) = Some (FFile (b e))
                 \<and> tree_at ha (S @ [''extracted'', ve_Name e]) = Map.empty
                 \<and> tree_at h' (S @ [''extracted'', ve_Name e]) = tree_at hb (S @ [''extracted'', ve_Name e])))
         \<and> (\<forall>k. k \<notin> set (map ve_Name es) \<longrightarrow> map_of staged' k = map_of staged k)
         \<and> grows (\<lambda>q. \<exists>e \<in> set es. prefix q (S @ [''extracted'', ve_Name e]) \<or> prefix (S @ [''extracted'', ve_Name e]) q) h h'"
  using assms
proof (induction es arbitrary: staged h)
  case (Cons e es)
  let ?d = "filepath_Join [staging, ''extracted'', ve_Name e]" and ?D = "\<lambda>e. S @ [''extracted'', ve_Name e]"
  let ?Q = "\<lambda>es q. \<exists>e \<in> set es. prefix q (?D e) \<or> prefix (?D e) q"
  from Cons.prems(1,4) obtain h1 where ex: "Extract (re_unpack env) (a e) ?d (rc_MaxExtractedBytes cfg) h = (Inr (), h1)"
    and rest: "extract_all env cfg staging arch es (AList.update (ve_Name e) ?d staged) h1 = (Inr staged', h')"
    by (auto simp: Let_def andThen_Inr_iff)
  have g: "grows (\<lambda>q. prefix q (?D e) \<or> prefix (?D e) q) h h1"
    using Extract_grows [OF ex] Cons.prems(3) [of e] by (auto intro: grows_mono simp: strict_prefix_def)
  have kept: "node_at h1 (path_elems (a e')) = Some (FFile (b e'))" if "e' \<in> set es" for e'
    using grows_keeps [OF g] Cons.prems(4) [of e'] that by simp
  have none: "tree_at h1 (?D e') = Map.empty" if "e' \<in> set es" for e'
  proof
    fix q
    have "\<not> (prefix (?D e' @ q) (?D e) \<or> prefix (?D e) (?D e' @ q))"
      using that Cons.prems(2) by (auto simp: prefix_append) (metis imageI)+
    then have "node_at h1 (?D e' @ q) = node_at h (?D e' @ q)" using g unfolding grows_def by blast
    then show "tree_at h1 (?D e') q = None"
      using fun_cong [OF Cons.prems(5) [of e'], of q] that by (simp add: tree_at_def)
  qed
  have IH': "(\<forall>e \<in> set es. map_of staged' (ve_Name e) = Some (filepath_Join [staging, ''extracted'', ve_Name e])
            \<and> (\<exists>ha hb. Extract (re_unpack env) (a e) (filepath_Join [staging, ''extracted'', ve_Name e]) (rc_MaxExtractedBytes cfg) ha = (Inr (), hb)
                 \<and> node_at ha (path_elems (a e)) = Some (FFile (b e)) \<and> tree_at ha (?D e) = Map.empty \<and> tree_at h' (?D e) = tree_at hb (?D e)))
         \<and> (\<forall>k. k \<notin> set (map ve_Name es) \<longrightarrow> map_of staged' k = map_of (AList.update (ve_Name e) ?d staged) k)
         \<and> grows (?Q es) h1 h'"
    by (rule Cons.IH [OF rest]) (use Cons.prems kept none in auto)
  have "\<not> ?Q es (?D e @ q)" for q
    using Cons.prems(2) by (auto simp: prefix_append) (metis imageI)
  then have "tree_at h' (?D e) = tree_at h1 (?D e)"
    using IH' [THEN conjunct2, THEN conjunct2] unfolding grows_def tree_at_def by (intro ext) metis
  moreover have "grows (?Q (e # es)) h h'"
    using grows_trans [OF grows_mono [OF g] grows_mono [OF IH' [THEN conjunct2, THEN conjunct2]], of "?Q (e # es)"] by auto
  ultimately show ?case
    using IH' ex Cons.prems(2,4,5) by (auto simp: update_conv')
qed simp

text \<open>One volume swapped in: its live tree is the staged one, and only its own directories changed.\<close>

definition apart_from :: "string list \<Rightarrow> string \<Rightarrow> string list \<Rightarrow> string list \<Rightarrow> bool" where
  "apart_from D v d q \<longleftrightarrow> \<not> prefix q (D @ [v]) \<and> \<not> prefix (D @ [v]) q \<and> \<not> prefix d q"

definition displaced_form :: "string list \<Rightarrow> swaps \<Rightarrow> bool" where
  "displaced_form D ss \<longleftrightarrow> (\<forall>(live, displaced) \<in> set ss. displaced \<noteq> '''' \<longrightarrow>
     (\<exists>v. path_elems displaced = D @ [v, dataDir @ displacedSuffix]))"

lemma parallel_below: "p \<parallel> d \<Longrightarrow> prefix d q \<Longrightarrow> \<not> prefix p q \<and> \<not> prefix q p"
  using prefix_same_cases by (metis parallelE prefix_order.trans)

lemma swap_one_Inr:
  assumes "swap_one dataRoot ns p v staged ss h = (Inr ss', h')" "D = project_elems dataRoot ns p"
    and "path_elems staged = d" "(D @ [v]) \<parallel> d"
  shows "tree_at h' (D @ [v, dataDir]) = tree_at h d \<and> untouched (apart_from D v d) h h'
    \<and> (displaced_form D ss \<longrightarrow> displaced_form D ss') \<and> ValidateName v = None"
proof -
  obtain live where live: "HostPath dataRoot ns p v = Inr live"
    using assms(1) by (auto simp: swap_one_def split: sum.splits)
  let ?disp = "live @ displacedSuffix" and ?P = "\<lambda>q. \<not> prefix q (D @ [v]) \<and> \<not> prefix (D @ [v]) q"
  note el = live_elems [OF live, folded assms(2)]
  obtain r1 h1 where 1: "os_MkdirAll (filepath_Dir live) h = (r1, h1)" by (cases "os_MkdirAll (filepath_Dir live) h")
  obtain r2 h2 where 2: "os_Stat live h1 = (r2, h2)" by (cases "os_Stat live h1")
  obtain r3 h3 where 3: "os_RemoveAll ?disp h2 = (r3, h3)" by (cases "os_RemoveAll ?disp h2")
  obtain r4 h4 where 4: "os_Rename live ?disp h3 = (r4, h4)" by (cases "os_Rename live ?disp h3")
  have deep: "\<not> ?P q" if "prefix (D @ [v, x]) q" for q x
    using that append_prefixD [of "D @ [v]" "[x]" q] by auto
  have u: "untouched ?P h h1" "untouched ?P h1 h2" "untouched ?P h2 h3" "untouched ?P h3 h4"
    using os_MkdirAll_untouched [OF 1, of ?P] os_read_untouched(1) [OF 2] os_RemoveAll_untouched [OF 3, of ?P]
      os_Rename_untouched [OF 4, of ?P] deep unfolding el(1,2,4) by auto
  then have u2: "untouched ?P h h2" and u4: "untouched ?P h h4" by (blast intro: untouched_trans)+
  have inn: "tree_at k' (D @ [v, dataDir]) = tree_at k d \<and> untouched (apart_from D v d) k k'"
    if "os_Rename staged live k = (Inr x, k')" for k k' x
  proof -
    have ne: "path_elems staged \<noteq> path_elems live"
      using assms(3,4) parallel_below [OF assms(4), of d] by (auto simp: el)
    show ?thesis
      using os_Rename_Inr(1) [OF that ne] assms(3) deep
      by (auto simp: el tree_at_def untouched_def apart_from_def)
  qed
  have td: "tree_at k d = tree_at h d" if "untouched ?P h k" for k
    using that parallel_below [OF assms(4)] unfolding untouched_def tree_at_def by (intro ext) (metis prefixI)
  have mono: "untouched (apart_from D v d) h k" if "untouched ?P h k" for k
    using that by (rule untouched_mono) (auto simp: apart_from_def)
  have disp: "displaced_form D ss \<Longrightarrow> displaced_form D ((live, '''') # ss)"
    "displaced_form D ss \<Longrightarrow> displaced_form D ((live, ?disp) # ss)"
    using el by (auto simp: displaced_form_def)
  have res: "tree_at k' (D @ [v, dataDir]) = tree_at h d \<and> untouched (apart_from D v d) h k'"
    if "os_Rename staged live k = (Inr x, k')" "untouched ?P h k" for k k' x
    using inn [OF that(1)] td [OF that(2)] mono [OF that(2)] by (auto intro: untouched_trans)
  have "ValidateName v = None" using live by (simp add: HostPath_eq)
  then show ?thesis
    using assms(1) live 1 2 3 4 u2 u4
    by (auto simp: swap_one_def swap_in_def Let_def split: sum.splits prod.splits if_splits dest!: res dest: disp)
qed

lemma swap_from_Inr:
  assumes "swap_from dataRoot ns p staged ss h = (Inr ss', h')" "D = project_elems dataRoot ns p"
    and "distinct (map fst staged)"
    and form: "\<And>v d. (v, d) \<in> set staged \<Longrightarrow> path_elems d = T @ [v]" "D \<parallel> T"
    and "displaced_form D ss"
  shows "(\<forall>(v, d) \<in> set staged. ValidateName v = None \<and> tree_at h' (D @ [v, dataDir]) = tree_at h (T @ [v]))
    \<and> displaced_form D ss'
    \<and> untouched (\<lambda>q. \<forall>(v, d) \<in> set staged. apart_from D v (T @ [v]) q) h h'"
  using assms
proof (induction staged arbitrary: ss h)
  case (Cons vd staged)
  obtain v d where vd: "vd = (v, d)" by (cases vd)
  from Cons.prems(1) vd obtain ss1 h1 where one: "swap_one dataRoot ns p v d ss h = (Inr ss1, h1)"
    and rest: "swap_from dataRoot ns p staged ss1 h1 = (Inr ss', h')"
    by (auto split: prod.splits sum.splits)
  have DT: "\<not> prefix D T" "\<not> prefix T D" using Cons.prems(5) by (auto simp: parallel_def)
  have "(D @ [v]) \<parallel> (T @ [v])" using Cons.prems(5) by (simp add: parallel_append)
  note o = swap_one_Inr [OF one Cons.prems(2), of "T @ [v]", OF _ this]
  have o': "tree_at h1 (D @ [v, dataDir]) = tree_at h (T @ [v])" "untouched (apart_from D v (T @ [v])) h h1"
    "displaced_form D ss1" "ValidateName v = None"
    using o Cons.prems(4,6) vd by auto
  have IH: "(\<forall>(v, d) \<in> set staged. ValidateName v = None \<and> tree_at h' (D @ [v, dataDir]) = tree_at h1 (T @ [v]))
    \<and> displaced_form D ss' \<and> untouched (\<lambda>q. \<forall>(v, d) \<in> set staged. apart_from D v (T @ [v]) q) h1 h'"
    by (rule Cons.IH [OF rest Cons.prems(2)]) (use Cons.prems o' in auto)
  have ne: "v' \<noteq> v" if "(v', d') \<in> set staged" for v' d'
    using that Cons.prems(3) vd by force
  have live: "apart_from D v' (T @ [v']) (D @ [v, dataDir] @ q)" if "(v', d') \<in> set staged" for v' d' q
    using ne [OF that] parallel_append [OF Cons.prems(5), of "[v, dataDir] @ q" "[v']"]
    by (auto simp: apart_from_def prefix_append parallel_def)
  have stg: "apart_from D v (T @ [v]) (T @ [v'] @ q)" if "(v', d') \<in> set staged" for v' d' q
    using ne [OF that] parallel_append [OF Cons.prems(5), of "[v]" "[v'] @ q"]
    by (auto simp: apart_from_def prefix_append parallel_def)
  have "tree_at h' (D @ [v, dataDir]) = tree_at h1 (D @ [v, dataDir])"
  proof
    fix q
    have "\<forall>(v', d') \<in> set staged. apart_from D v' (T @ [v']) (D @ [v, dataDir] @ q)" using live by auto
    with IH [THEN conjunct2, THEN conjunct2] show "tree_at h' (D @ [v, dataDir]) q = tree_at h1 (D @ [v, dataDir]) q"
      unfolding untouched_def tree_at_def by simp
  qed
  moreover have "tree_at h1 (T @ [v']) = tree_at h (T @ [v'])" if "(v', d') \<in> set staged" for v' d'
    using o'(2) stg [OF that] unfolding untouched_def tree_at_def by (intro ext) auto
  moreover have "untouched (\<lambda>q. \<forall>(v, d) \<in> set (vd # staged). apart_from D v (T @ [v]) q) h h'"
    by (rule untouched_trans [OF untouched_mono [OF o'(2)] untouched_mono [OF IH [THEN conjunct2, THEN conjunct2]]])
      (simp_all add: vd)
  ultimately show ?case using IH o' vd by fastforce
qed simp

lemma remove_displaced_keeps:
  "displaced_form D ss \<Longrightarrow> untouched (\<lambda>q. \<forall>v. \<not> prefix (D @ [v, dataDir @ displacedSuffix]) q) h (remove_displaced ss h)"
proof (induction ss arbitrary: h)
  case (Cons s ss)
  obtain live displaced where s: "s = (live, displaced)" by (cases s)
  obtain r h1 where rm: "os_RemoveAll displaced h = (r, h1)" by (cases "os_RemoveAll displaced h")
  have "displaced \<noteq> '''' \<Longrightarrow> untouched (\<lambda>q. \<forall>v. \<not> prefix (D @ [v, dataDir @ displacedSuffix]) q) h h1"
    using Cons.prems s by (auto simp: displaced_form_def intro!: os_RemoveAll_untouched [OF rm])
  with Cons s rm show ?case by (auto simp: displaced_form_def intro: untouched_trans)
qed simp

lemma WriteMarker_done:
  assumes "WriteMarker mj dataRoot prov now h = (Inr u, h')" "D = project_elems dataRoot (pv_Namespace prov) (pv_Project prov)"
  shows "(\<exists>b. mj_Marshal mj (marker_of prov now) = Inr b \<and> node_at h' (D @ [markerFilename]) = Some (FFile b))
    \<and> untouched (\<lambda>q. \<not> prefix q D \<and> \<not> prefix (D @ [markerFilename]) q \<and> \<not> prefix (D @ [markerFilename @ ''.tmp'']) q) h h'
    \<and> names_ok dataRoot (pv_Namespace prov) (pv_Project prov)"
proof -
  obtain m where m: "MarkerPath dataRoot (pv_Namespace prov) (pv_Project prov) = Inr m"
    using assms(1) by (auto simp: WriteMarker_def andThen_Inr_iff op_lift_def)
  then have ok: "names_ok dataRoot (pv_Namespace prov) (pv_Project prov)"
    and me: "m = abs_path (marker_elems dataRoot (pv_Namespace prov) (pv_Project prov))"
    by (auto simp: MarkerPath_eq)
  note el = path_elems_marker [OF ok, folded me] path_elems_marker_tmp [OF ok, folded me]
  have dir: "path_elems (filepath_Dir m) = D" using filepath_Dir_marker [OF ok, folded me] path_elems_project [OF ok] assms(2) by simp
  have els: "path_elems m = D @ [markerFilename]" "path_elems (m @ ''.tmp'') = D @ [markerFilename @ ''.tmp'']"
    using el assms(2) by (simp_all add: marker_elems_def)
  have fin: "(case os_Rename (m @ ''.tmp'') m k of (Inl e, h1) \<Rightarrow> (Inl (w e), f h1) | (Inr _, h1) \<Rightarrow> (Inr (), h1)) = (Inr y, k')
      \<longleftrightarrow> os_Rename (m @ ''.tmp'') m k = (Inr (), k')" for k k' w y and f :: "host \<Rightarrow> host"
    by (auto split: prod.splits sum.splits)
  obtain b h1 h2 x where steps: "os_MkdirAll (filepath_Dir m) h = (Inr (), h1)" "mj_Marshal mj (marker_of prov now) = Inr b"
    "os_WriteFile (m @ ''.tmp'') b h1 = (Inr (), h2)" "os_Rename (m @ ''.tmp'') m h2 = (Inr x, h')"
    using assms(1) m by (auto simp: WriteMarker_def andThen_Inr_iff op_lift_def Let_def fin)
  let ?P = "\<lambda>q. \<not> prefix q D \<and> \<not> prefix (D @ [markerFilename]) q \<and> \<not> prefix (D @ [markerFilename @ ''.tmp'']) q"
  have "untouched ?P h h1" using os_MkdirAll_untouched [OF steps(1), of ?P] dir by auto
  moreover have "untouched ?P h1 h2" using os_WriteFile_untouched [OF steps(3), of ?P] els by auto
  moreover have "untouched ?P h2 h'" using os_Rename_untouched [OF steps(4), of ?P] els by auto
  ultimately have "untouched ?P h h'" by (blast intro: untouched_trans)
  moreover have "node_at h' (D @ [markerFilename]) = Some (FFile b)"
    using os_Rename_Inr(1) [OF steps(4)] os_WriteFile_done [OF steps(3)] els by simp
  ultimately show ?thesis using steps(2) ok by blast
qed

lemma install_Inr:
  assumes "install env cfg p backupID (abs_path S) staged h = (Inr u, h')"
    and S: "S = staging_elems (rc_DataRoot cfg) (meta_Namespace (prj_Meta p)) (meta_Name (prj_Meta p))"
    and D: "D = project_elems (rc_DataRoot cfg) (meta_Namespace (prj_Meta p)) (meta_Name (prj_Meta p))"
    and staged: "distinct (map fst staged)" "\<And>v d. (v, d) \<in> set staged \<Longrightarrow> path_elems d = (S @ [''extracted'']) @ [v]"
  shows "(\<forall>(v, d) \<in> set staged. tree_at h' (D @ [v, dataDir]) = tree_at h (S @ [''extracted'', v]))
    \<and> (\<exists>b. mj_Marshal (re_marker env) (marker_of (ProvenanceFor p (rc_NodeName cfg) backupID) (re_now env)) = Inr b
         \<and> node_at h' (D @ [markerFilename]) = Some (FFile b))"
proof -
  let ?prov = "ProvenanceFor p (rc_NodeName cfg) backupID" and ?T = "S @ [''extracted'']"
  from assms(1) obtain h1 ss h2 where sf: "swap_from (rc_DataRoot cfg) (meta_Namespace (prj_Meta p)) (meta_Name (prj_Meta p))
      (sort_key (re_key env) staged) [] h = (Inr ss, h1)"
    and wm: "WriteMarker (re_marker env) (rc_DataRoot cfg) ?prov (re_now env) (remove_displaced (rev ss) h1) = (Inr (), h2)"
    and h': "h' = snd (os_RemoveAll (abs_path S) h2)"
    by (auto simp: install_def andThen_Inr_iff swapAll_def split: prod.splits sum.splits)
  have par: "D \<parallel> ?T"
    by (auto simp: S D staging_elems_def project_elems_def parallel_def stagingRoot_def volumesDir_def)
  have dist: "distinct (map fst (sort_key (re_key env) staged))"
    using staged(1) by (simp add: distinct_map inj_on_def)
  have 1: "(\<forall>(v, d) \<in> set staged. ValidateName v = None \<and> tree_at h1 (D @ [v, dataDir]) = tree_at h (?T @ [v])) \<and> displaced_form D ss"
    using swap_from_Inr [OF sf D dist _ par] staged(2) by (auto simp: displaced_form_def)
  have 2: "untouched (\<lambda>q. \<forall>v. \<not> prefix (D @ [v, dataDir @ displacedSuffix]) q) h1 (remove_displaced (rev ss) h1)"
    using remove_displaced_keeps [of D "rev ss"] 1 by (simp add: displaced_form_def)
  note 3 = WriteMarker_done [OF wm, of D]
  have ok: "names_ok (rc_DataRoot cfg) (meta_Namespace (prj_Meta p)) (meta_Name (prj_Meta p))"
    and D': "D = project_elems (rc_DataRoot cfg) (pv_Namespace ?prov) (pv_Project ?prov)"
    using 3 D by (auto simp: ProvenanceFor_def)
  note 3 = 3 [OF D']
  obtain x where rm: "os_RemoveAll (abs_path S) h2 = (x, h')" using h' by (metis prod.collapse)
  have 4: "node_at h' (D @ q) = node_at h2 (D @ q)" for q
    using os_RemoveAll_spec [OF rm, of "D @ q"] path_elems_staging [OF ok] staging_project_apart(1) by (simp add: S D)
  have "tree_at h' (D @ [v, dataDir]) = tree_at h (S @ [''extracted'', v])" if "(v, d) \<in> set staged" for v d
  proof
    fix q
    let ?q = "D @ [v, dataDir] @ q"
    have v: "ValidateName v = None" using 1 that by blast
    have "v \<noteq> markerFilename" "v \<noteq> markerFilename @ ''.tmp''"
      using v by (auto simp: ValidateName_None_iff markerFilename_def lower_alnum_def less_eq_char_def)
    moreover have "\<forall>v'. \<not> prefix (D @ [v', dataDir @ displacedSuffix]) ?q" by (simp add: dataDir_def displacedSuffix_def)
    ultimately have "node_at h2 ?q = node_at h1 ?q"
      using 2 3 unfolding untouched_def by (simp add: prefix_append)
    moreover have "node_at h1 ?q = node_at h (?T @ [v] @ q)" using 1 that by (auto simp: tree_at_def dest!: fun_cong [where x = q])
    ultimately show "tree_at h' (D @ [v, dataDir]) q = tree_at h (S @ [''extracted'', v]) q"
      using 4 [of "[v, dataDir] @ q"] by (simp add: tree_at_def)
  qed
  with 3 4 [of "[markerFilename]"] show ?thesis by auto
qed

definition managed :: "VolumeDef list \<Rightarrow> VolumeDef list" where
  "managed vols = filter (\<lambda>v. vol_Type v = VolumeTypeManaged) vols"

lemma matchVolumes_Inr:
  "matchVolumes vols m = Inr ws \<Longrightarrow> map ve_Name ws = map vol_Name (managed vols)
     \<and> ws = map (\<lambda>v. the (inGeneration m (vol_Name v))) (managed vols)
     \<and> (\<forall>v \<in> set (managed vols). inGeneration m (vol_Name v) \<noteq> None)"
proof (induction vols arbitrary: ws)
  case (Cons v vols)
  have "ve_Name e = n" if "inGeneration m n = Some e" for n e
    using that by (auto simp: inGeneration_def dest!: map_of_SomeD)
  with Cons show ?case by (auto simp: managed_def split: if_splits option.splits sum.splits)
qed (simp add: managed_def)

text \<open>
  What a volume is after a restore: the tree that \<open>Extract\<close> made, in a directory where nothing was, of
  an archive with the size and digest the manifest names for the volume.
\<close>

definition restored_from :: "restore_env \<Rightarrow> restore_Config \<Rightarrow> Manifest \<Rightarrow> string \<Rightarrow> (string list \<Rightarrow> fnode option) \<Rightarrow> bool" where
  "restored_from env cfg m v t \<longleftrightarrow> (\<exists>e body a d ha hb. inGeneration m v = Some e \<and> verified env e body
     \<and> Extract (re_unpack env) a d (rc_MaxExtractedBytes cfg) ha = (Inr (), hb)
     \<and> node_at ha (path_elems a) = Some (FFile body) \<and> tree_at ha (path_elems d) = Map.empty
     \<and> t = tree_at hb (path_elems d))"

lemma extract_all_distinct:
  "extract_all env cfg staging arch es staged h = (Inr staged', h') \<Longrightarrow> distinct (map fst staged) \<Longrightarrow> distinct (map fst staged')"
proof (induction es arbitrary: staged h)
  case (Cons e es)
  then show ?case by (auto simp: Let_def andThen_Inr_iff distinct_update split: option.splits)
qed simp

lemma RestoreGeneration_success:
  assumes run: "RestoreGeneration env cfg p backupID h = (Inr u, h')"
    and some: "managed (spec_Volumes (prj_Spec p)) \<noteq> []"
    and dist: "distinct (map vol_Name (managed (spec_Volumes (prj_Spec p))))"
    and valid: "\<forall>v \<in> set (managed (spec_Volumes (prj_Spec p))). ValidateName (vol_Name v) = None"
    and D: "D = project_elems (rc_DataRoot cfg) (meta_Namespace (prj_Meta p)) (meta_Name (prj_Meta p))"
  shows "(\<exists>m. FetchManifest env (meta_Namespace (prj_Meta p)) (meta_Name (prj_Meta p)) backupID = Inr m
      \<and> (\<forall>v \<in> set (managed (spec_Volumes (prj_Spec p))).
           restored_from env cfg m (vol_Name v) (tree_at h' (D @ [vol_Name v, dataDir]))))
    \<and> (\<exists>b. mj_Marshal (re_marker env) (marker_of (ProvenanceFor p (rc_NodeName cfg) backupID) (re_now env)) = Inr b
         \<and> node_at h' (D @ [markerFilename]) = Some (FFile b))"
proof -
  let ?ns = "meta_Namespace (prj_Meta p)" and ?n = "meta_Name (prj_Meta p)"
  define S where "S = staging_elems (rc_DataRoot cfg) ?ns ?n"
  have ne: "matchVolumes (spec_Volumes (prj_Spec p)) m \<noteq> Inr []" for m
    using matchVolumes_Inr [of "spec_Volumes (prj_Spec p)" m "[]"] some by auto
  from run some obtain m ws h1 h2 h3 arch h4 staged where
    m: "FetchManifest env ?ns ?n backupID = Inr m" and ws: "matchVolumes (spec_Volumes (prj_Spec p)) m = Inr ws"
    and ok: "names_ok (rc_DataRoot cfg) ?ns ?n"
    and rm: "os_RemoveAll (abs_path S) h = (Inr (), h1)" and mk: "os_MkdirAll (abs_path S) h1 = (Inr (), h2)"
    and dl: "download_all env (abs_path S) ws [] h2 = (Inr arch, h3)"
    and ex: "extract_all env cfg (abs_path S) arch ws [] h3 = (Inr staged, h4)"
    and ins: "install env cfg p backupID (abs_path S) staged h4 = (Inr u, h')"
    by (auto simp: RestoreGeneration_def Let_def andThen_Inr_iff op_lift_def op_return_def StagingDir_eq S_def ne
             split: if_splits)
  note w = matchVolumes_Inr [OF ws]
  have names: "distinct (map ve_Name ws)" "\<forall>e \<in> set ws. ValidateName (ve_Name e) = None"
  proof -
    show "distinct (map ve_Name ws)" using w [THEN conjunct1] dist by metis
    show "\<forall>e \<in> set ws. ValidateName (ve_Name e) = None"
      using matchVolumes_names [OF ws] valid by (fastforce simp: managed_def)
  qed
  have pl: "list_all plain_seg S" using names_ok_plain [OF ok] by (simp add: S_def staging_elems_def)
  have pd: "path_elems (filepath_Join [abs_path S, ve_Name e @ ''.tar.gz'']) = S @ [ve_Name e @ ''.tar.gz'']" if "e \<in> set ws" for e
    using plain_suffixed [of "ve_Name e" "''.tar.gz''"] names(2) that pl by (simp add: filepath_Join_abs path_elems_abs_path)
  have px: "path_elems (filepath_Join [abs_path S, ''extracted'', ve_Name e]) = S @ [''extracted'', ve_Name e]" if "e \<in> set ws" for e
    using ValidateName_plain names(2) that pl by (simp add: filepath_Join_abs path_elems_abs_path)
  note dlI = download_all_Inr [OF dl names(1) pd]
  define a where "a e = filepath_Join [abs_path S, ve_Name e @ ''.tar.gz'']" for e :: VolumeManifestEntry
  define b where "b e = (SOME body. verified env e body \<and> node_at h3 (S @ [ve_Name e @ ''.tar.gz'']) = Some (FFile body))" for e
  have b: "verified env e (b e) \<and> node_at h3 (S @ [ve_Name e @ ''.tar.gz'']) = Some (FFile (b e))" if "e \<in> set ws" for e
    unfolding b_def by (rule someI_ex) (use dlI that in blast)
  have fresh: "tree_at h3 (S @ [''extracted'', x]) = Map.empty" for x
  proof
    fix q
    have "node_at h3 (S @ [''extracted'', x] @ q) = node_at h2 (S @ [''extracted'', x] @ q)"
      by (rule dlI [THEN conjunct2, THEN conjunct2, unfolded untouched_def, rule_format]) auto
    moreover have "node_at h2 (S @ [''extracted'', x] @ q) = node_at h1 (S @ [''extracted'', x] @ q)"
      using os_MkdirAll_untouched [OF mk, of "\<lambda>q. strict_prefix S q"] path_elems_staging [OF ok]
      by (force simp: untouched_def S_def [symmetric] strict_prefix_def)
    moreover have "node_at h1 (S @ [''extracted'', x] @ q) = None"
      using os_RemoveAll_spec [OF rm, of "S @ [''extracted'', x] @ q"] path_elems_staging [OF ok] by (simp add: S_def [symmetric])
    ultimately show "tree_at h3 (S @ [''extracted'', x]) q = None" by (simp add: tree_at_def)
  qed
  have ar: "map_of arch (ve_Name e) = Some (a e) \<and> node_at h3 (path_elems (a e)) = Some (FFile (b e))" if "e \<in> set ws" for e
    using dlI b [OF that] pd [OF that] that by (simp add: a_def)
  note exI = extract_all_Inr [where a = a and b = b, OF ex names(1) px ar fresh]
  have st: "distinct (map fst staged)" "\<And>v d. (v, d) \<in> set staged \<Longrightarrow> path_elems d = (S @ [''extracted'']) @ [v]"
    using extract_all_distinct [OF ex] staged_dirs [OF ex] px by auto
  note inst = install_Inr [OF ins S_def D st]
  have "restored_from env cfg m (vol_Name v) (tree_at h' (D @ [vol_Name v, dataDir]))"
    if v: "v \<in> set (managed (spec_Volumes (prj_Spec p)))" for v
  proof -
    obtain e where e: "inGeneration m (vol_Name v) = Some e" "e \<in> set ws" "ve_Name e = vol_Name v"
      using w v by (auto simp: image_iff) (metis list.set_map option.collapse option.sel rev_image_eqI)
    let ?d = "filepath_Join [abs_path S, ''extracted'', ve_Name e]"
    obtain ha hb where hab: "Extract (re_unpack env) (a e) ?d (rc_MaxExtractedBytes cfg) ha = (Inr (), hb)"
      "node_at ha (path_elems (a e)) = Some (FFile (b e))" "tree_at ha (S @ [''extracted'', ve_Name e]) = Map.empty"
      "tree_at h4 (S @ [''extracted'', ve_Name e]) = tree_at hb (S @ [''extracted'', ve_Name e])"
      "map_of staged (ve_Name e) = Some ?d"
      using exI e(2) by blast
    have "tree_at h' (D @ [vol_Name v, dataDir]) = tree_at hb (path_elems ?d)"
      using inst map_of_SomeD [OF hab(5)] hab(4) e(3) px [OF e(2)] by fastforce
    with hab e b [OF e(2)] px [OF e(2)] show ?thesis unfolding restored_from_def by metis
  qed
  with m inst show ?thesis by blast
qed

end
