(* ===== verification/Archive_Roundtrip.thy ===== *)
theory Archive_Roundtrip
  imports Archive_Extract
begin

text \<open>
  A volume archived and extracted again is the same tree. \<open>archiveDir\<close> lists parents before children, so
  each entry finds its directory; no name it writes passes through a symbolic link.
\<close>

subsection \<open>Relative names\<close>

lemma not_abs_join: "list_all plain_seg q \<Longrightarrow> \<not> filepath_IsAbs (strings_Join q ''/'')"
proof (cases q)
  case (Cons s ss)
  moreover assume "list_all plain_seg q"
  ultimately obtain c cs where "s = c # cs" "c \<noteq> CHR ''/''" by (cases s) (auto simp: plain_seg_def)
  with Cons show ?thesis by (cases ss) (simp_all add: filepath_IsAbs_def)
qed (simp add: filepath_IsAbs_def)

lemma path_elems_rel:
  assumes "list_all plain_seg q" "q \<noteq> []"
  shows "path_elems (strings_Join q ''/'') = q"
  using not_abs_join [OF assms(1)] split_char_Join [OF assms(2), of "CHR ''/''"] plain_no_slash [OF assms(1)]
    clean_segs_plain [OF assms(1), of False "[]"]
  by (simp add: path_elems_def)

lemma join_nonempty: "list_all plain_seg q \<Longrightarrow> q \<noteq> [] \<Longrightarrow> strings_Join q ''/'' \<noteq> ''''"
  using strings_Join_eq_Nil [of q "''/''"] by (auto simp: list_all_iff plain_seg_def)

lemma filepath_Clean_rel:
  "list_all plain_seg q \<Longrightarrow> q \<noteq> [] \<Longrightarrow> filepath_Clean (strings_Join q ''/'') = strings_Join q ''/''"
  using not_abs_join [of q] join_nonempty [of q] by (simp add: filepath_Clean_def path_elems_rel)

lemma checkEntryName_rel:
  assumes "list_all plain_seg q" "q \<noteq> []"
  shows "checkEntryName (strings_Join q ''/'') = Inr (strings_Join q ''/'')"
proof -
  let ?s = "strings_Join q ''/''"
  have sp: "split_char (CHR ''/'') ?s = q"
    using split_char_Join [OF assms(2)] plain_no_slash [OF assms(1)] by simp
  have hd: "hd q \<noteq> ''..''" using assms by (cases q) (auto simp: plain_seg_def)
  have "?s \<noteq> ''..''"
  proof
    assume "?s = ''..''"
    then have "q = split_char (CHR ''/'') ''..''" using sp by simp
    with hd show False by simp
  qed
  moreover have "\<not> prefix ''../'' ?s"
  proof
    assume "prefix ''../'' ?s"
    then obtain t where "?s = ''..'' @ CHR ''/'' # t" by (auto simp: prefix_def)
    with sp have "q = split_char (CHR ''/'') ''..'' @ split_char (CHR ''/'') t" by (metis split_char_append)
    then have "hd q = ''..''" by simp
    with hd show False by simp
  qed
  ultimately show ?thesis
    using assms not_abs_join [OF assms(1)] join_nonempty [OF assms] filepath_Clean_rel [OF assms]
    by (simp add: checkEntryName_def)
qed

lemma filepath_Dir_single: "plain_seg s \<Longrightarrow> filepath_Dir s = ''.''"
proof -
  assume "plain_seg s"
  then have "dropWhile (\<lambda>c. c \<noteq> CHR ''/'') (rev s) = []" by (auto simp: plain_seg_def)
  then have "filepath_Dir s = filepath_Clean ''''" by (simp only: filepath_Dir_def rev.simps)
  also have "\<dots> = ''.''" by (simp add: filepath_Clean_def path_elems_def filepath_IsAbs_def)
  finally show ?thesis .
qed

lemma clean_segs_trailing: "clean_segs r acc (ts @ ['''']) = clean_segs r acc ts"
proof (induction ts arbitrary: acc)
  case (Cons t ts)
  then show ?case by (cases acc) simp_all
qed simp

lemma filepath_Dir_rel:
  assumes "list_all plain_seg qs" "qs \<noteq> []" "plain_seg s"
  shows "filepath_Dir (strings_Join (qs @ [s]) ''/'') = strings_Join qs ''/''"
proof -
  let ?s = "strings_Join qs ''/''"
  have "rev (strings_Join (qs @ [s]) ''/'') = rev s @ CHR ''/'' # rev ?s"
    using assms(2) by (simp add: strings_Join_append)
  moreover have "dropWhile (\<lambda>c. c \<noteq> CHR ''/'') (rev s @ CHR ''/'' # rev ?s) = CHR ''/'' # rev ?s"
    using assms(3) by (subst dropWhile_append2) (auto simp: plain_seg_def)
  ultimately have d: "filepath_Dir (strings_Join (qs @ [s]) ''/'') = filepath_Clean (?s @ ''/'')"
    by (simp add: filepath_Dir_def)
  have abs: "\<not> filepath_IsAbs (?s @ ''/'')"
    using not_abs_join [OF assms(1)] join_nonempty [OF assms(1,2)] by (cases ?s) (simp_all add: filepath_IsAbs_def)
  have "path_elems (?s @ ''/'') = path_elems ?s"
    using abs not_abs_join [OF assms(1)] split_char_append [of "CHR ''/''" ?s "''''"]
    by (simp add: path_elems_def clean_segs_trailing)
  with d abs path_elems_rel [OF assms(1,2)] join_nonempty [OF assms(1,2)] show ?thesis
    by (simp add: filepath_Clean_def)
qed

lemma root_walk_plain:
  assumes "list_all plain_seg q" "\<And>j t. j \<in> {1..length q} \<Longrightarrow> map_of fs (base @ cur @ take j q) \<noteq> Some (FLink t)"
  shows "root_walk f fs base cur q = Inr (cur @ q)"
  using assms
proof (induction q arbitrary: cur)
  case (Cons s q)
  have "map_of fs (base @ cur @ [s]) \<noteq> Some (FLink t)" for t using Cons.prems(2) [of 1 t] by simp
  moreover have "root_walk f fs base (cur @ [s]) q = Inr ((cur @ [s]) @ q)"
  proof (rule Cons.IH)
    fix j t assume "j \<in> {1..length q}"
    then show "map_of fs (base @ (cur @ [s]) @ take j q) \<noteq> Some (FLink t)" using Cons.prems(2) [of "Suc j" t] by simp
  qed (use Cons.prems in simp)
  moreover have "s \<noteq> '''' \<and> s \<noteq> ''.'' \<and> s \<noteq> ''..''" using Cons.prems(1) by (simp add: plain_seg_def)
  ultimately show ?case by (simp add: root_walk.simps split: option.split fnode.split)
qed simp

subsection \<open>One entry\<close>

text \<open>
  The part of a tree already extracted below \<open>base\<close>: the paths of \<open>D\<close> hold what the tree has there,
  and nothing else is there.
\<close>

definition extracted :: "string list \<Rightarrow> (string list \<Rightarrow> fnode option) \<Rightarrow> string list set \<Rightarrow> host \<Rightarrow> bool" where
  "extracted base T D h \<longleftrightarrow> fs_get (h_files h) base = Some FDir
     \<and> (\<forall>r. r \<noteq> [] \<longrightarrow> node_at h (base @ r) = (if r \<in> D then T r else None))"

text \<open>A path whose directories are all extracted and which is not there itself.\<close>

definition next_path :: "(string list \<Rightarrow> fnode option) \<Rightarrow> string list set \<Rightarrow> string list \<Rightarrow> bool" where
  "next_path T D q \<longleftrightarrow> q \<noteq> [] \<and> list_all plain_seg q \<and> q \<notin> D
     \<and> (\<forall>k \<in> {1..<length q}. take k q \<in> D \<and> T (take k q) = Some FDir)"

lemma extracted_add:
  assumes "extracted base T D h" "next_path T D q" "T q = Some n"
    and "\<And>r. node_at h' (base @ r) = (if r = q then Some n else node_at h (base @ r))"
  shows "extracted base T (insert q D) h'"
proof -
  have "node_at h' base = node_at h base" using assms(2) assms(4) [of "[]"] by (auto simp: next_path_def)
  with assms show ?thesis by (auto simp: extracted_def fs_get_def)
qed

lemma dirs_there:
  assumes "extracted base T D h" "next_path T D q" "k \<in> {0..<length q}"
  shows "fs_get (h_files h) (base @ take k q) = Some FDir"
proof (cases "k = 0")
  case False
  with assms(2,3) have "take k q \<in> D" "T (take k q) = Some FDir" "take k q \<noteq> []"
    by (auto simp: next_path_def)
  with assms(1) show ?thesis by (simp add: extracted_def fs_get_def)
qed (use assms(1) in \<open>simp add: extracted_def\<close>)

lemma fs_mkdirs_there:
  "\<forall>x \<in> set xs. fs_get fs x = Some FDir \<Longrightarrow> fs_mkdirs xs fs = (Inr (), fs)"
  "\<forall>x \<in> set xs. fs_get fs x = Some FDir \<Longrightarrow> fs_get fs z = None \<Longrightarrow>
     fs_mkdirs (xs @ [z]) fs = (Inr (), (z, FDir) # fs)"
  by (induction xs) simp_all

lemma walk_next:
  assumes "extracted base T D h" "next_path T D q"
  shows "root_walk f (h_files h) base [] q = Inr q" "root_walk f (h_files h) base [] (butlast q) = Inr (butlast q)"
proof -
  have pl: "list_all plain_seg q" using assms(2) by (simp add: next_path_def)
  have nl: "map_of (h_files h) (base @ [] @ take j q) \<noteq> Some (FLink t)" if "j \<in> {1..length q}" for j t
  proof (cases "j = length q")
    case True
    then show ?thesis using assms by (auto simp: extracted_def next_path_def)
  next
    case False
    with that show ?thesis using dirs_there [OF assms, of j] assms(2) by (auto simp: fs_get_def next_path_def)
  qed
  then show "root_walk f (h_files h) base [] q = Inr q" using root_walk_plain [OF pl, of "h_files h" base "[]"] by simp
  have "list_all plain_seg (butlast q)" using pl by (auto simp: list_all_iff dest: in_set_butlastD)
  moreover have "map_of (h_files h) (base @ [] @ take j (butlast q)) \<noteq> Some (FLink t)" if "j \<in> {1..length (butlast q)}" for j t
    using nl [of j t] that take_butlast [of j q] by auto
  ultimately show "root_walk f (h_files h) base [] (butlast q) = Inr (butlast q)"
    using root_walk_plain [of "butlast q" "h_files h" base "[]"] by simp
qed

abbreviation rel :: "string list \<Rightarrow> string" where
  "rel q \<equiv> strings_Join q ''/''"

lemma MkdirAll_next:
  assumes "extracted base T D h" "next_path T D q" "root_MkdirAll base (rel q) h = (Inr u, h')"
  shows "h_files h' = (base @ q, FDir) # h_files h"
proof -
  have q: "q \<noteq> []" "list_all plain_seg q" "q \<notin> D" using assms(2) by (auto simp: next_path_def)
  have "fs_get (h_files h) (base @ q) = None" using assms(1) q by (simp add: extracted_def fs_get_def)
  moreover have "\<forall>x \<in> set (map (\<lambda>k. base @ take k q) [1..<length q]). fs_get (h_files h) x = Some FDir"
    using dirs_there [OF assms(1,2)] by auto
  moreover have "map (\<lambda>k. base @ take k q) [1..<Suc (length q)] = map (\<lambda>k. base @ take k q) [1..<length q] @ [base @ q]"
    using q(1) by (cases q) simp_all
  ultimately have "fs_mkdirs (map (\<lambda>k. base @ take k q) [1..<Suc (length q)]) (h_files h) = (Inr (), (base @ q, FDir) # h_files h)"
    using fs_mkdirs_there(2) by simp
  with assms(3) q walk_next(1) [OF assms(1,2)] show ?thesis
    unfolding root_MkdirAll_def by (elim os_call_cases) (simp_all add: path_elems_rel)
qed

lemma ensureParent_next:
  assumes "extracted base T D h" "next_path T D q" "ensureParent base (rel q) h = (Inr u, h')"
  shows "h_files h' = h_files h"
proof (cases "butlast q = []")
  case True
  with assms(2) have "filepath_Dir (rel q) = ''.''"
    by (cases q; cases "tl q") (auto simp: next_path_def filepath_Dir_single split: if_splits)
  with assms(3) show ?thesis by (simp add: ensureParent_def op_return_def)
next
  case False
  let ?b = "butlast q"
  have q: "q \<noteq> []" "list_all plain_seg q" using assms(2) by (auto simp: next_path_def)
  then have b: "list_all plain_seg ?b" "plain_seg (last q)" by (auto simp: list_all_iff dest: in_set_butlastD)
  have "filepath_Dir (rel (?b @ [last q])) = rel ?b" by (rule filepath_Dir_rel [OF b(1) False b(2)])
  then have dir: "filepath_Dir (rel q) = rel ?b" using q(1) by simp
  have "\<forall>x \<in> set (map (\<lambda>k. base @ take k ?b) [1..<Suc (length ?b)]). fs_get (h_files h) x = Some FDir"
    using dirs_there [OF assms(1,2)] by (auto simp: take_butlast simp del: upt_Suc)
  then have mk: "fs_mkdirs (map (\<lambda>k. base @ take k ?b) [1..<Suc (length ?b)]) (h_files h) = (Inr (), h_files h)"
    by (rule fs_mkdirs_there(1))
  have "rel ?b \<noteq> ''.''" "rel ?b \<noteq> ''/''"
    using path_elems_rel [OF b(1) False] not_abs_join [OF b(1)] False
    by (auto simp: path_elems_def filepath_IsAbs_def)
  with assms(3) dir obtain h1 where "root_MkdirAll base (rel ?b) h = (Inr (), h1)" "h' = h1"
    by (auto simp: ensureParent_def Let_def andThen_Inr_iff op_return_def)
  with mk walk_next(2) [OF assms(1,2)] path_elems_rel [OF b(1) False] show ?thesis
    unfolding root_MkdirAll_def by (elim os_call_cases) (auto simp del: upt_Suc)
qed

lemma root_create_next:
  assumes "extracted base T D h" "next_path T D q"
  shows "root_create base (rel q) n (h_files h) = (Inr (base @ q), (base @ q, n) # h_files h)"
proof -
  have q: "q \<noteq> []" "list_all plain_seg q" "q \<notin> D" using assms(2) by (auto simp: next_path_def)
  have "fs_get (h_files h) (base @ q) = None" using assms(1) q by (simp add: extracted_def fs_get_def)
  moreover have "fs_get (h_files h) (base @ butlast q) = Some FDir"
    using dirs_there [OF assms, of "length q - 1"] q(1) by (simp add: butlast_conv_take)
  moreover have "root_parent (h_files h) base (rel q) = Inr (base @ q)"
  proof -
    obtain x xs where x: "q = x # xs" using q(1) by (cases q) auto
    have "path_elems (rel q) = x # xs" using path_elems_rel [OF q(2,1)] x by simp
    then have "root_parent (h_files h) base (rel q) = (case root_walk root_links (h_files h) base [] (butlast q) of
        Inl e \<Rightarrow> Inl e
      | Inr dir \<Rightarrow> if fs_get (h_files h) (base @ dir) \<noteq> Some FDir then Inl ENOENT else Inr (base @ dir @ [last q]))"
      unfolding root_parent_def x by (simp only: list.case)
    with walk_next(2) [OF assms] calculation(2) q(1) show ?thesis by simp
  qed
  ultimately show ?thesis by (simp add: root_create_def)
qed

lemma extractFile_next:
  assumes "extracted base T D h" "next_path T D q" "T q = Some (FFile d)"
    and "extractFile base (rel q) (tar_entry_of q (FFile d)) budget h = (Inr n, h')"
  shows "extracted base T (insert q D) h'"
proof -
  let ?e = "tar_entry_of q (FFile d)"
  have n: "n = int (length d)" "n \<le> budget" using extractFile_bytes [OF assms(4)] by (simp_all add: tar_entry_of_def)
  then have all: "take (nat (budget + 1)) (te_Body ?e) = d" by (simp add: tar_entry_of_def)
  have "\<not> budget \<le> 0" using assms(4) by (auto simp: extractFile_def op_fail_def)
  with assms(4) all obtain h1 h2 h3 p where run: "ensureParent base (rel q) h = (Inr (), h1)"
    "root_OpenFile base (rel q) h1 = (Inr p, h2)" "file_Write p d h2 = (Inr (), h3)" "h_files h' = h_files h3"
    by (auto simp: extractFile_def Let_def andThen_Inr_iff op_fail_def op_return_def split: option.splits if_splits)
  have h1: "h_files h1 = h_files h" by (rule ensureParent_next [OF assms(1,2) run(1)])
  with assms(1) have "extracted base T D h1" by (simp add: extracted_def)
  from root_create_next [OF this assms(2), of "FFile ''''"] run(2)
  have h2: "p = base @ q" "h_files h2 = (base @ q, FFile '''') # h_files h1"
    unfolding root_OpenFile_def by (auto elim: os_call_cases)
  have "h_files h3 = AList.update p (FFile d) (h_files h2)"
    using run(3) unfolding file_Write_def by (auto elim: os_call_cases)
  with run(4) h1 h2 have "node_at h' (base @ r) = (if r = q then Some (FFile d) else node_at h (base @ r))" for r
    by (simp add: update_conv')
  then show ?thesis by (rule extracted_add [OF assms(1-3)])
qed

text \<open>An entry of a known node that extracts leaves the tree extracted so far with that node added.\<close>

lemma extract_entry:
  assumes "extracted base T D h" "next_path T D q" "T q = Some n"
    and "extract_entries base a mx (tar_entry_of q n # es) end_err w h = (Inr u, h')"
  shows "\<exists>w' h1. extracted base T (insert q D) h1 \<and> extract_entries base a mx es end_err w' h1 = (Inr u, h')"
proof -
  have q: "q \<noteq> []" "list_all plain_seg q" using assms(2) by (auto simp: next_path_def)
  have name: "checkEntryName (te_Name (tar_entry_of q n)) = Inr (rel q)"
    using checkEntryName_rel [OF q(2,1)] by (cases n) (simp_all add: tar_entry_of_def)
  have added: "extracted base T (insert q D) h1" if "h_files h1 = (base @ q, n) # h_files h" for h1
    by (rule extracted_add [OF assms(1-3)]) (simp add: that)
  show ?thesis
  proof (cases n)
    case FDir
    with assms(4) name obtain h1 where "root_MkdirAll base (rel q) h = (Inr (), h1)"
      "extract_entries base a mx es end_err w h1 = (Inr u, h')"
      by (auto simp: tar_entry_of_def andThen_Inr_iff)
    with added [of h1] MkdirAll_next [OF assms(1,2), of "()" h1] FDir show ?thesis by blast
  next
    case (FFile d)
    with assms(4) name obtain k h1 where "extractFile base (rel q) (tar_entry_of q (FFile d)) (mx - w) h = (Inr k, h1)"
      "extract_entries base a mx es end_err (w + k) h1 = (Inr u, h')"
      by (auto simp: tar_entry_of_def andThen_Inr_iff)
    with extractFile_next [OF assms(1,2)] assms(3) FFile show ?thesis by blast
  next
    case (FLink t)
    with assms(4) name obtain h1 h2 where run: "ensureParent base (rel q) h = (Inr (), h1)"
      "root_Symlink base t (rel q) h1 = (Inr (), h2)" "extract_entries base a mx es end_err w h2 = (Inr u, h')"
      by (auto simp: tar_entry_of_def andThen_Inr_iff op_lift_def)
    have h1: "h_files h1 = h_files h" by (rule ensureParent_next [OF assms(1,2) run(1)])
    with assms(1) have "extracted base T D h1" by (simp add: extracted_def)
    from root_create_next [OF this assms(2), of "FLink t"] run(2) h1
    have "h_files h2 = (base @ q, FLink t) # h_files h"
      unfolding root_Symlink_def by (auto elim: os_call_cases)
    with added [of h2] FLink run(3) show ?thesis by blast
  qed
qed

subsection \<open>The whole archive\<close>

text \<open>What a real directory holds: every node has a proper name and lies in a directory.\<close>

definition volume_tree :: "(string list \<Rightarrow> fnode option) \<Rightarrow> bool" where
  "volume_tree T \<longleftrightarrow> (\<forall>q. q \<noteq> [] \<longrightarrow> T q \<noteq> None \<longrightarrow>
     list_all plain_seg q \<and> (\<forall>k \<in> {1..<length q}. T (take k q) = Some FDir))"

lemma take_less: "k < length q \<Longrightarrow> take k q < (q :: string list)"
proof (induction q arbitrary: k)
  case (Cons x q)
  then show ?case by (cases k) simp_all
qed simp

lemma walk_next_path:
  assumes "volume_tree T" "sorted (xs @ q # ys)" "distinct (xs @ q # ys)" "set (xs @ q # ys) = {r. r \<noteq> [] \<and> T r \<noteq> None}"
  shows "next_path T (set xs) q"
proof -
  have q: "q \<noteq> []" "T q \<noteq> None" using assms(4) by auto
  with assms(1) have v: "list_all plain_seg q" "\<forall>k \<in> {1..<length q}. T (take k q) = Some FDir"
    by (auto simp: volume_tree_def)
  have "take k q \<in> set xs" if "k \<in> {1..<length q}" for k
  proof -
    have "take k q \<in> set (xs @ q # ys)" using v(2) that q(1) unfolding assms(4) by auto
    moreover have "take k q < q" using that by (simp add: take_less)
    ultimately show ?thesis using assms(2) by (auto simp: sorted_append)
  qed
  with q(1) v assms(3) show ?thesis by (simp add: next_path_def)
qed

definition entries_of :: "(string list \<Rightarrow> fnode option) \<Rightarrow> string list list \<Rightarrow> tar_entry list" where
  "entries_of T qs = map (\<lambda>q. tar_entry_of q (the (T q))) qs"

lemma extract_walk:
  assumes "volume_tree T" "sorted (xs @ ys)" "distinct (xs @ ys)" "set (xs @ ys) = {r. r \<noteq> [] \<and> T r \<noteq> None}"
    and "extracted base T (set xs) h" "extract_entries base a mx (entries_of T ys) None w h = (Inr u, h')"
  shows "extracted base T (set (xs @ ys)) h'"
  using assms(2-)
proof (induction ys arbitrary: xs w h)
  case (Cons q ys)
  note nx = walk_next_path [OF assms(1) Cons.prems(1-3)]
  have "T q \<noteq> None" using Cons.prems(3) by auto
  then have Tq: "T q = Some (the (T q))" by simp
  have "extract_entries base a mx (tar_entry_of q (the (T q)) # entries_of T ys) None w h = (Inr u, h')"
    using Cons.prems(5) by (simp only: entries_of_def list.map)
  from extract_entry [OF Cons.prems(4) nx Tq this]
  obtain w' h1 where h1: "extracted base T (insert q (set xs)) h1"
    "extract_entries base a mx (entries_of T ys) None w' h1 = (Inr u, h')"
    by blast
  with Cons.prems Cons.IH [of "xs @ [q]" h1 w'] show ?case by simp
qed (simp add: entries_of_def)

lemma walk_paths_set: "set (walk_paths fs p) = {q. q \<noteq> [] \<and> map_of fs (p @ q) \<noteq> None}"
proof -
  have "q \<in> set (walk_paths fs p) \<longleftrightarrow> q \<noteq> [] \<and> map_of fs (p @ q) \<noteq> None" for q
    by (force simp: walk_paths_def map_of_eq_None_iff strict_prefix_def prefix_def)
  then show ?thesis by blast
qed

lemma walk_paths_cong:
  assumes "\<And>q. map_of fs (p @ q) = map_of fs' (p @ q)"
  shows "walk_paths fs p = walk_paths fs' p"
  by (rule sorted_distinct_set_unique) (use assms walk_paths_set in \<open>auto simp: walk_paths_def\<close>)

text \<open>The entries the archive of a directory has.\<close>

definition volume_entries :: "host \<Rightarrow> string list \<Rightarrow> tar_entry list" where
  "volume_entries h p = entries_of (tree_at h p) (walk_paths (h_files h) p)"

lemma extract_tree:
  assumes "volume_tree (tree_at h0 p)" "extracted base (tree_at h0 p) {} h"
    and "extract_entries base a mx (volume_entries h0 p) None w h = (Inr u, h')" "q \<noteq> []"
  shows "tree_at h' base q = tree_at h0 p q"
proof -
  have "extracted base (tree_at h0 p) (set ([] @ walk_paths (h_files h0) p)) h'"
    by (rule extract_walk [OF assms(1) _ _ _ _ assms(3) [unfolded volume_entries_def]])
      (use assms(2) walk_paths_set in \<open>auto simp: walk_paths_def tree_at_def\<close>)
  with assms(4) show ?thesis by (auto simp: extracted_def walk_paths_set tree_at_def)
qed

lemma archiveDir_Inr:
  "archiveDir src h = (Inr es, h1) \<Longrightarrow> h_files h1 = h_files h
     \<and> es = entries_of (\<lambda>q. node_at h (path_elems src @ q)) (walk_paths (h_files h) (path_elems src))"
  unfolding archiveDir_def Let_def
  by (erule os_call_cases) (auto simp: entries_of_def split: sum.splits)

lemma os_WriteFile_Inr:
  "os_WriteFile f d h = (Inr u, h1) \<Longrightarrow> map_of (h_files h1) = (map_of (h_files h))(path_elems f \<mapsto> FFile d)"
  unfolding os_WriteFile_def Let_def
  by (erule os_call_cases) (auto simp: fs_write_def update_conv' split: if_splits dest: sym)

lemma Archive_Inr:
  assumes "Archive pack sha src f h = (Inr ar, h1)" "\<not> prefix (path_elems src) (path_elems f)"
  shows "node_at h1 (path_elems f) = Some (FFile (pack (volume_entries h (path_elems src))))"
proof -
  let ?p = "path_elems src"
  from assms(1) obtain h2 h3 es where run: "os_WriteFile f '''' h = (Inr (), h2)" "archiveDir src h2 = (Inr es, h3)"
    "os_WriteFile f (pack es) h3 = (Inr (), h1)"
    by (auto simp: Archive_def Let_def andThen_Inr_iff op_return_def)
  have same: "node_at h2 (?p @ q) = node_at h (?p @ q)" for q
    using os_WriteFile_Inr [OF run(1)] assms(2) by (auto dest: prefixI [OF sym])
  then have "walk_paths (h_files h2) ?p = walk_paths (h_files h) ?p" by (rule walk_paths_cong)
  with same archiveDir_Inr [OF run(2)] have "es = volume_entries h ?p" by (simp add: volume_entries_def entries_of_def tree_at_def)
  with os_WriteFile_Inr [OF run(3)] show ?thesis by simp
qed

lemma Extract_Inr:
  assumes "Extract unpack f dst mx h = (Inr u, h')" "node_at h (path_elems f) = Some (FFile bytes)"
    and "\<And>q. q \<noteq> [] \<Longrightarrow> node_at h (path_elems dst @ q) = None"
  shows "\<exists>es end_err h1. unpack bytes = Inr (es, end_err) \<and> extracted (path_elems dst) T {} h1
    \<and> extract_entries (path_elems dst) f mx es end_err 0 h1 = (Inr u, h')"
proof -
  from assms(1) obtain d h1 h2 h3 h4 es end_err n where run: "os_ReadFile f h = (Inr d, h1)" "unpack d = Inr (es, end_err)"
    "os_MkdirAll dst h1 = (Inr (), h3)" "os_Stat dst h3 = (Inr n, h4)"
    "extract_entries (path_elems dst) f mx es end_err 0 h4 = (Inr u, h')"
    by (auto simp: Extract_def andThen_Inr_iff op_lift_def split: prod.splits)
  have "path_elems f \<noteq> [] \<Longrightarrow> d = bytes"
    using run(1) assms(2) unfolding os_ReadFile_def
    by (auto elim!: os_call_cases simp: fs_stat_def fs_get_def split: option.splits fnode.splits if_splits sum.splits)
  moreover have "path_elems f = [] \<Longrightarrow> False"
    using run(1) unfolding os_ReadFile_def
    by (auto elim!: os_call_cases simp: fs_stat_def fs_get_def)
  ultimately have d: "d = bytes" by blast
  have f1: "h_files h1 = h_files h" using run(1) os_read_files by blast
  have f4: "h_files h4 = h_files h3" using run(4) os_read_files by blast
  have ad: "adds_dirs (\<lambda>q. prefix q (path_elems dst) \<and> q \<noteq> []) (h_files h1) (h_files h3)"
    using os_MkdirAll_adds [OF run(3)] .
  then have "node_at h3 (path_elems dst @ q) = None" if "q \<noteq> []" for q
    using assms(3) [OF that] that f1 unfolding adds_dirs_def by (metis prefix_order.antisym prefixI same_append_eq append_Nil2)
  moreover have "fs_get (h_files h3) (path_elems dst) = Some FDir"
    using os_MkdirAll_done [OF run(3)] by (auto simp: fs_get_def)
  ultimately have "extracted (path_elems dst) T {} h4" using f4 by (simp add: extracted_def)
  with run d show ?thesis by blast
qed

text \<open>
  C32: A volume comes back from its archive as it was. A volume is archived into a file outside it; a
  file with the same content is extracted later, on any machine and with any faults on the way, into a
  directory that holds nothing. If the extraction reports success, the directory holds exactly the
  tree of the volume: every directory, every file with its bytes, every link, and nothing more. The
  tar and gzip packages are asked to read back what they wrote.
\<close>

theorem archive_extract_roundtrip:
  assumes "Archive pack sha src f h = (Inr ar, h1)" "\<not> prefix (path_elems src) (path_elems f)"
    and "volume_tree (tree_at h (path_elems src))"
    and "es = volume_entries h (path_elems src)" "unpack (pack es) = Inr (es, None)"
    and "node_at h2 (path_elems f') = node_at h1 (path_elems f)"
    and "\<And>q. q \<noteq> [] \<Longrightarrow> tree_at h2 (path_elems dst) q = None"
    and "Extract unpack f' dst mx h2 = (Inr u, h3)"
  shows "q \<noteq> [] \<Longrightarrow> tree_at h3 (path_elems dst) q = tree_at h (path_elems src) q"
proof -
  assume q: "q \<noteq> []"
  have "node_at h2 (path_elems f') = Some (FFile (pack es))"
    using Archive_Inr [OF assms(1,2)] assms(4,6) by simp
  from Extract_Inr [OF assms(8) this, of "tree_at h (path_elems src)"] assms(4,5,7) obtain h4 where
    "extracted (path_elems dst) (tree_at h (path_elems src)) {} h4"
    "extract_entries (path_elems dst) f' mx (volume_entries h (path_elems src)) None 0 h4 = (Inr u, h3)"
    by (auto simp: tree_at_def)
  from extract_tree [OF assms(3) this q] show ?thesis .
qed

text \<open>A volume with a directory, a file in it and a link, archived and extracted elsewhere.\<close>

definition demo_volume :: host where
  "demo_volume = \<lparr>h_files = [([''v''], FDir), ([''v'', ''d''], FDir), ([''v'', ''d'', ''f''], FFile ''x''),
     ([''v'', ''l''], FLink ''d/f''), ([''t''], FDir)], h_faults = []\<rparr>"

definition demo_archived :: host where
  "demo_archived = snd (Archive (\<lambda>_. ''tgz'') (\<lambda>_. ''sum'') ''/v'' ''/t/a'' demo_volume)"

definition demo_unpack :: unpacker where
  "demo_unpack bytes = Inr (volume_entries demo_volume [''v''], None)"

definition demo_extracted :: host where
  "demo_extracted = snd (Extract demo_unpack ''/t/a'' ''/n'' 10 demo_archived)"

lemma demo_archive_runs:
  "Archive (\<lambda>_. ''tgz'') (\<lambda>_. ''sum'') ''/v'' ''/t/a'' demo_volume = (Inr \<lparr>ar_SizeBytes = 3, ar_SHA256 = ''sum''\<rparr>, demo_archived)"
  "h_files demo_archived = h_files demo_volume @ [([''t'', ''a''], FFile ''tgz'')]"
  "Extract demo_unpack ''/t/a'' ''/n'' 10 demo_archived = (Inr (), demo_extracted)"
  "path_elems ''/v'' = [''v'']" "path_elems ''/t/a'' = [''t'', ''a'']" "path_elems ''/n'' = [''n'']"
  by code_simp+

lemma demo_volume_tree: "volume_tree (tree_at demo_volume [''v''])"
  by (auto simp: volume_tree_def tree_at_def demo_volume_def plain_seg_def less_Suc_eq numeral_2_eq_2 split: if_splits)

theorem archive_extract_roundtrip_witness:
  "tree_at demo_extracted [''n''] [''d'', ''f''] = Some (FFile ''x'')"
proof -
  have "tree_at demo_extracted (path_elems ''/n'') [''d'', ''f''] = tree_at demo_volume (path_elems ''/v'') [''d'', ''f'']"
    by (rule archive_extract_roundtrip [OF demo_archive_runs(1) _ _ refl _ refl _ demo_archive_runs(3)])
      (use demo_volume_tree in \<open>simp_all add: demo_archive_runs(2,4-) demo_unpack_def tree_at_def demo_volume_def\<close>)
  then show ?thesis by (simp add: demo_archive_runs(4-) tree_at_def demo_volume_def)
qed

end
