(* ===== verification/Restore_Guarantees.thy ===== *)
theory Restore_Guarantees
  imports Restore_Properties Archive_Roundtrip
begin

text \<open>
  What a placement can rely on: a restore that reports success put back the data that was backed up, one
  that failed or was interrupted is never served, and the directories of a Project that left go to the
  quarantine whole or stay whole.
\<close>

lemma Extract_archive_tree:
  assumes "Extract unpack a d mx ha = (Inr u, hb)" "node_at ha (path_elems a) = Some (FFile bytes)"
    and "tree_at ha (path_elems d) = Map.empty" "es = volume_entries h0 src" "unpack bytes = Inr (es, None)"
    and "volume_tree (tree_at h0 src)" "q \<noteq> []"
  shows "tree_at hb (path_elems d) q = tree_at h0 src q"
proof -
  have "node_at ha (path_elems d @ r) = None" for r using assms(3) by (metis tree_at_def)
  from Extract_Inr [OF assms(1,2) this, of "tree_at h0 src"] assms(4,5) obtain h4 where
    "extracted (path_elems d) (tree_at h0 src) {} h4"
    "extract_entries (path_elems d) a mx (volume_entries h0 src) None 0 h4 = (Inr u, hb)"
    by auto
  from extract_tree [OF assms(6) this assms(7)] show ?thesis .
qed

lemma RestoreGeneration_tree:
  assumes "RestoreGeneration env cfg p backupID h = (Inr u, h')"
    and "distinct (map vol_Name (managed (spec_Volumes (prj_Spec p))))"
    and "\<forall>v \<in> set (managed (spec_Volumes (prj_Spec p))). ValidateName (vol_Name v) = None"
    and "v \<in> set (managed (spec_Volumes (prj_Spec p)))"
    and "FetchManifest env (meta_Namespace (prj_Meta p)) (meta_Name (prj_Meta p)) backupID = Inr m"
    and "inGeneration m (vol_Name v) = Some e" "re_Get env (ve_ArchiveKey e) = Inr (pack es, None)"
    and "es = volume_entries h0 src" "volume_tree (tree_at h0 src)" "re_unpack env (pack es) = Inr (es, None)"
    and "D = project_elems (rc_DataRoot cfg) (meta_Namespace (prj_Meta p)) (meta_Name (prj_Meta p))"
  shows "(\<forall>q. q \<noteq> [] \<longrightarrow> tree_at h' (D @ [vol_Name v, dataDir]) q = tree_at h0 src q)
    \<and> (\<exists>b. mj_Marshal (re_marker env) (marker_of (ProvenanceFor p (rc_NodeName cfg) backupID) (re_now env)) = Inr b
         \<and> node_at h' (D @ [markerFilename]) = Some (FFile b))"
proof -
  have "managed (spec_Volumes (prj_Spec p)) \<noteq> []" using assms(4) by auto
  from RestoreGeneration_success [OF assms(1) this assms(2,3,11)] assms(4,5)
  have rf: "restored_from env cfg m (vol_Name v) (tree_at h' (D @ [vol_Name v, dataDir]))"
    and mk: "\<exists>b. mj_Marshal (re_marker env) (marker_of (ProvenanceFor p (rc_NodeName cfg) backupID) (re_now env)) = Inr b
      \<and> node_at h' (D @ [markerFilename]) = Some (FFile b)" by auto
  from rf assms(6,7) obtain a d ha hb where x: "Extract (re_unpack env) a d (rc_MaxExtractedBytes cfg) ha = (Inr (), hb)"
    "node_at ha (path_elems a) = Some (FFile (pack es))" "tree_at ha (path_elems d) = Map.empty"
    "tree_at h' (D @ [vol_Name v, dataDir]) = tree_at hb (path_elems d)"
    by (auto simp: restored_from_def verified_def)
  from Extract_archive_tree [OF x(1-3) assms(8,10,9)] x(4) mk show ?thesis by simp
qed

text \<open>
  C19: A restore that succeeds puts back what was backed up. Let the generation's manifest name for a
  Managed volume an object that holds the archive of the tree some directory had, and let the archive
  packages read back what they wrote. If \<open>RestoreGeneration\<close> returns without an error, whatever was in
  the volume, in the staging area or anywhere else before and whatever faults occurred, the volume holds
  exactly that tree afterwards, and the marker that vouches for it is written.
\<close>

theorem restore_returns_backup:
  assumes "RestoreGeneration env cfg p backupID h = (Inr u, h')"
    and "distinct (map vol_Name (managed (spec_Volumes (prj_Spec p))))"
    and "\<forall>v \<in> set (managed (spec_Volumes (prj_Spec p))). ValidateName (vol_Name v) = None"
    and "v \<in> set (managed (spec_Volumes (prj_Spec p)))"
    and "FetchManifest env (meta_Namespace (prj_Meta p)) (meta_Name (prj_Meta p)) backupID = Inr m"
    and "inGeneration m (vol_Name v) = Some e" "re_Get env (ve_ArchiveKey e) = Inr (pack es, None)"
    and "es = volume_entries h0 src" "volume_tree (tree_at h0 src)" "re_unpack env (pack es) = Inr (es, None)"
    and "D = project_elems (rc_DataRoot cfg) (meta_Namespace (prj_Meta p)) (meta_Name (prj_Meta p))"
  shows "(\<forall>q. q \<noteq> [] \<longrightarrow> tree_at h' (D @ [vol_Name v, dataDir]) q = tree_at h0 src q)
    \<and> (\<exists>b. mj_Marshal (re_marker env) (marker_of (ProvenanceFor p (rc_NodeName cfg) backupID) (re_now env)) = Inr b
         \<and> node_at h' (D @ [markerFilename]) = Some (FFile b))"
  by (rule RestoreGeneration_tree [where pack = pack and es = es and m = m and e = e and v = v, OF assms])


subsection \<open>A restore that works and one that is interrupted\<close>

definition demo_volume_project :: Project where
  "demo_volume_project = \<lparr>prj_TypeMeta = \<lparr>tm_APIVersion = APIVersion, tm_Kind = kindProject\<rparr>,
     prj_Meta = \<lparr>meta_Name = ''p'', meta_UID = ''u1'', meta_Namespace = ''n'', meta_ResourceVersion = 3,
       meta_SpecRevision = 1, meta_Labels = (\<lambda>_. None), meta_Annotations = (\<lambda>_. None),
       meta_CreatedAt = 0, meta_UpdatedAt = 0\<rparr>,
     prj_Spec = \<lparr>spec_Size = ProjectSizeSmall, spec_Services = [],
       spec_Volumes = [\<lparr>vol_Name = ''v'', vol_Type = VolumeTypeManaged\<rparr>],
       spec_Backup = None, spec_Ingress = [], spec_ExpireAt = None, spec_RestartedAt = None\<rparr>,
     prj_Status = InitialProjectStatus\<lparr>ps_AssignmentGeneration := 2\<rparr>\<rparr>"

definition demo_entry :: VolumeManifestEntry where
  "demo_entry = \<lparr>ve_Name = ''v'', ve_ArchiveKey = ''a'', ve_SizeBytes = 3, ve_SHA256 = ''sum''\<rparr>"

definition demo_restore_env :: restore_env where
  "demo_restore_env = \<lparr>re_Get = (\<lambda>k. if k = ''a'' then Inr (''tgz'', None) else Inr (''m'', None)),
     re_sha256 = (\<lambda>_. ''sum''), re_unpack = demo_unpack,
     re_manifest = \<lparr>mfj_Marshal = (\<lambda>_. Inr ''m''),
       mfj_Unmarshal = (\<lambda>_. Inr (BuildManifest ''b1'' ''n'' ''p'' ''node-a'' ''v1'' 1 0 [demo_entry]))\<rparr>,
     re_marker = \<lparr>mj_Marshal = (\<lambda>_. Inr ''{}''), mj_Unmarshal = (\<lambda>_. Inl (ErrText ''unused''))\<rparr>,
     re_freeBytes = Inr 100, re_now = 0, re_key = (\<lambda>_. 0)\<rparr>"

definition demo_restore_cfg :: restore_Config where
  "demo_restore_cfg = \<lparr>rc_DataRoot = ''/d'', rc_MaxExtractedBytes = 10, rc_MinFreeBytes = 0, rc_NodeName = ''node-b''\<rparr>"

text \<open>A Node with old data in the volume; the second meets a fault when it puts the new data in its place.\<close>

definition demo_host :: "fault option list \<Rightarrow> host" where
  "demo_host faults = \<lparr>h_files = [([''d''], FDir), ([''d'', ''volumes''], FDir), ([''d'', ''volumes'', ''n''], FDir),
     ([''d'', ''volumes'', ''n'', ''p''], FDir), ([''d'', ''volumes'', ''n'', ''p'', ''v''], FDir),
     ([''d'', ''volumes'', ''n'', ''p'', ''v'', ''data''], FDir),
     ([''d'', ''volumes'', ''n'', ''p'', ''v'', ''data'', ''old''], FFile ''y'')], h_faults = faults\<rparr>"

definition demo_fault :: "fault option" where
  "demo_fault = Some (Fault True '''' [] '''')"

definition demo_restored :: host where
  "demo_restored = snd (RestoreGeneration demo_restore_env demo_restore_cfg demo_volume_project ''b1'' (demo_host []))"

definition demo_broken :: host where
  "demo_broken = snd (RestoreGeneration demo_restore_env demo_restore_cfg demo_volume_project ''b1''
     (demo_host (replicate 17 None @ [demo_fault, demo_fault])))"

lemma demo_restore_runs:
  "RestoreGeneration demo_restore_env demo_restore_cfg demo_volume_project ''b1'' (demo_host []) = (Inr (), demo_restored)"
  "FetchManifest demo_restore_env (meta_Namespace (prj_Meta demo_volume_project)) (meta_Name (prj_Meta demo_volume_project)) ''b1''
     = Inr (BuildManifest ''b1'' ''n'' ''p'' ''node-a'' ''v1'' 1 0 [demo_entry])"
  "map vol_Name (managed (spec_Volumes (prj_Spec demo_volume_project))) = [''v'']" "ValidateName ''v'' = None"
  by code_simp+

lemma demo_inGeneration:
  "inGeneration (BuildManifest ''b1'' ''n'' ''p'' ''node-a'' ''v1'' 1 0 [demo_entry]) ''v'' = Some demo_entry"
  by (simp add: inGeneration_def BuildManifest_def demo_entry_def)

lemma demo_break_runs:
  "fst (RestoreGeneration demo_restore_env demo_restore_cfg demo_volume_project ''b1''
     (demo_host (replicate 17 None @ [demo_fault, demo_fault])))
     = Inl (ErrWrap (''restore: swap in '' @ go_quote ''v'') (ErrOs EACCES))"
  "node_at demo_broken [''d'', ''volumes'', ''n'', ''p'', ''v'', ''data'', ''old''] = None"
  "fst (decideRestore (re_marker demo_restore_env) ''/d'' (ProvenanceFor demo_volume_project ''node-b'' '''') demo_volume_project demo_broken)
     = Inr (decided DecisionRestore)"
  by code_simp+

text \<open>The volume held one old file; it holds the archived tree now.\<close>

theorem restore_returns_backup_witness:
  "tree_at demo_restored [''d'', ''volumes'', ''n'', ''p'', ''v'', ''data''] [''d'', ''f''] = Some (FFile ''x'')
   \<and> tree_at demo_restored [''d'', ''volumes'', ''n'', ''p'', ''v'', ''data''] [''old''] = None"
proof -
  define D where "D = project_elems (rc_DataRoot demo_restore_cfg) (meta_Namespace (prj_Meta demo_volume_project)) (meta_Name (prj_Meta demo_volume_project))"
  have D: "D = [''d'', ''volumes'', ''n'', ''p'']" unfolding D_def by code_simp
  have vs: "managed (spec_Volumes (prj_Spec demo_volume_project)) = [\<lparr>vol_Name = ''v'', vol_Type = VolumeTypeManaged\<rparr>]" by code_simp
  have "\<forall>q. q \<noteq> [] \<longrightarrow> tree_at demo_restored (D @ [''v'', dataDir]) q = tree_at demo_volume [''v''] q"
    using restore_returns_backup [OF demo_restore_runs(1) _ _ _ demo_restore_runs(2) _ _ refl demo_volume_tree _ D_def,
        of "\<lparr>vol_Name = ''v'', vol_Type = VolumeTypeManaged\<rparr>" demo_entry "\<lambda>_. ''tgz''"]
    by (simp add: vs demo_restore_runs(4) demo_inGeneration [unfolded demo_entry_def] demo_restore_env_def demo_entry_def demo_unpack_def)
  then show ?thesis by (simp add: D dataDir_def) (simp add: tree_at_def demo_volume_def)
qed


end
