(* ===== verification/Restore_Aside.thy ===== *)
theory Restore_Aside
  imports Restore_Guarantees
begin

text \<open>
  What happens to the data of a Project that is no longer this Node's, and three consequences of the
  code that its comments do not intend.
\<close>

lemma ReadMarker_files: "ReadMarker mj dataRoot ns p h = (r, h') \<Longrightarrow> h_files h' = h_files h"
  by (auto simp: ReadMarker_def split: sum.splits prod.splits if_splits dest!: os_ReadFile_files)

lemma quarantine_project_apart:
  "\<not> prefix (project_elems dataRoot ns p @ q) (path_elems dataRoot @ [quarantineRoot, ns', p'])"
  by (auto simp: project_elems_def quarantineRoot_def volumesDir_def)

text \<open>
  C33: Data that leaves a Node is set aside whole or not at all. Whatever \<open>Quarantine\<close> returns and
  whatever faults it meets, either the Project's directory is as it was, or the whole of it is in the
  quarantine directory of the assignment it belonged to and nothing is left behind; no file is lost.
\<close>

theorem quarantine_whole_or_nothing:
  assumes "Quarantine mj dataRoot owner now h = (r, h')"
    and "D = project_elems dataRoot (pv_Namespace owner) (pv_Project owner)" "E = path_elems (quarantine_dest dataRoot owner now)"
  shows "(\<forall>q. node_at h' (D @ q) = node_at h (D @ q))
    \<or> r = Inr () \<and> (\<forall>q. node_at h' (E @ q) = node_at h (D @ q)) \<and> (\<forall>q. node_at h' (D @ q) = None)"
proof (cases "ProjectDir dataRoot (pv_Namespace owner) (pv_Project owner)")
  case (Inl e)
  with assms(1) show ?thesis by (simp add: Quarantine_def)
next
  case (Inr dir)
  let ?ns = "pv_Namespace owner" and ?p = "pv_Project owner"
  let ?parent = "filepath_Join [filepath_Clean dataRoot, quarantineRoot, ?ns, ?p]"
  have ok: "names_ok dataRoot ?ns ?p" and dir: "dir = abs_path D"
    using Inr assms(2) by (auto simp: ProjectDir_eq names_ok_def project_elems_def)
  have elD: "path_elems dir = D" using path_elems_project [OF ok] dir assms(2) by simp
  have elP: "path_elems ?parent = path_elems dataRoot @ [quarantineRoot, ?ns, ?p]"
    using ok names_ok_plain [OF ok] filepath_Join_abs [of "path_elems dataRoot" "[quarantineRoot, ?ns, ?p]"]
    by (simp add: names_ok_def root_usable_def filepath_Clean_abs path_elems_abs_path)
  obtain r1 h1 where st: "os_Stat dir h = (r1, h1)" by (cases "os_Stat dir h")
  obtain mr h2 where rm: "ReadMarker mj dataRoot ?ns ?p h1 = (mr, h2)" by (cases "ReadMarker mj dataRoot ?ns ?p h1")
  have f2: "h_files h2 = h_files h" using os_Stat_files [OF st] ReadMarker_files [OF rm] by simp
  obtain r3 h3 where mk: "os_MkdirAll ?parent h2 = (r3, h3)" by (cases "os_MkdirAll ?parent h2")
  have f3: "node_at h3 (D @ q) = node_at h (D @ q)" for q
    using os_MkdirAll_adds [OF mk] f2 quarantine_project_apart [of dataRoot] unfolding adds_dirs_def elP assms(2) by metis
  show ?thesis
  proof (cases "\<exists>u. r1 = Inr u \<and> r3 = Inr () \<and> \<not> (case mr of Inr (Some m) \<Rightarrow> \<not> IsLegacy (Some m) \<and> \<not> Matches (Some m) owner | _ \<Rightarrow> False)")
    case False
    then have "h' = h1 \<or> h' = h2 \<or> h' = h3"
      using assms(1) Inr st rm mk
      by (cases r1; cases r3) (auto simp: Quarantine_def andThen_def op_return_def Let_def split: if_splits)
    with f2 f3 os_Stat_files [OF st] show ?thesis by auto
  next
    case True
    obtain r4 h4 where mv: "os_Rename dir (quarantine_dest dataRoot owner now) h3 = (r4, h4)"
      by (cases "os_Rename dir (quarantine_dest dataRoot owner now) h3")
    with True assms(1) Inr st rm mk have h': "h' = h4" "r4 = Inr u \<Longrightarrow> r = Inr u" for u
      by (auto simp: Quarantine_def andThen_def op_return_def Let_def split: if_splits sum.splits)
    show ?thesis
    proof (cases "r4 = Inr () \<and> D \<noteq> E")
      case True
      with mv have "os_Rename dir (quarantine_dest dataRoot owner now) h3 = (Inr (), h4)" "path_elems dir \<noteq> path_elems (quarantine_dest dataRoot owner now)"
        by (simp_all add: elD assms(3))
      note mvd = os_Rename_Inr [OF this, unfolded elD, folded assms(3)]
      have "\<not> prefix E (D @ q)" for q using mvd(2,3) prefix_same_cases [of E "D @ q" D] by (auto intro: prefixI)
      then show ?thesis using mvd(1) f3 h' True by simp
    next
      case False
      then have "h_files h4 = h_files h3" using os_Rename_spec [OF mv] elD assms(3) by auto
      with h' f3 show ?thesis by simp
    qed
  qed
qed

theorem quarantine_whole_or_nothing_witness:
  "node_at (snd (Quarantine (re_marker demo_restore_env) ''/d'' (ProvenanceFor demo_volume_project ''node-b'' '''') 0 (demo_host [])))
     (path_elems (quarantine_dest ''/d'' (ProvenanceFor demo_volume_project ''node-b'' '''') 0) @ [''v'', ''data'', ''old'']) = Some (FFile ''y'')"
proof -
  let ?o = "ProvenanceFor demo_volume_project ''node-b'' ''''" and ?D = "[''d'', ''volumes'', ''n'', ''p'']"
  obtain r h' where q: "Quarantine (re_marker demo_restore_env) ''/d'' ?o 0 (demo_host []) = (r, h')"
    by (cases "Quarantine (re_marker demo_restore_env) ''/d'' ?o 0 (demo_host [])")
  have D: "?D = project_elems ''/d'' (pv_Namespace ?o) (pv_Project ?o)" by code_simp
  have "node_at (snd (Quarantine (re_marker demo_restore_env) ''/d'' ?o 0 (demo_host []))) (?D @ [''v'']) \<noteq> node_at (demo_host []) (?D @ [''v''])"
    by code_simp
  with quarantine_whole_or_nothing [OF q D refl]
  have "node_at h' (path_elems (quarantine_dest ''/d'' ?o 0) @ [''v'', ''data'', ''old'']) = node_at (demo_host []) (?D @ [''v'', ''data'', ''old''])"
    using q by auto
  then show ?thesis using q by (simp add: demo_host_def)
qed

lemma StagingPresent_absent:
  assumes "StagingPresent dataRoot ns p h = (Inr s, h')" "node_at h (staging_elems dataRoot ns p) = None" "names_ok dataRoot ns p"
  shows "\<not> s"
proof -
  have sd: "StagingDir dataRoot ns p = Inr (abs_path (staging_elems dataRoot ns p))" using assms(3) by (simp add: StagingDir_eq)
  have "os_Stat (abs_path (staging_elems dataRoot ns p)) h \<noteq> (Inr n, h1)" for n h1
    using os_Stat_Inr [of "abs_path (staging_elems dataRoot ns p)" h n h1] path_elems_staging [OF assms(3)] assms(2)
    by (auto simp: fs_get_def staging_elems_def)
  then show ?thesis using assms(1) sd by (auto simp: StagingPresent_def split: prod.splits sum.splits if_splits)
qed

lemma ReadMarker_there:
  assumes "ReadMarker mj dataRoot ns p h = (r, h')" "node_at h (marker_elems dataRoot ns p) = Some (FFile b)"
    "names_ok dataRoot ns p" "mj_Unmarshal mj b = Inr m" "h_faults h = []"
  shows "r = Inr (Some m)"
proof -
  have mp: "MarkerPath dataRoot ns p = Inr (abs_path (marker_elems dataRoot ns p))" using assms(3) by (simp add: MarkerPath_eq)
  have "fst (os_ReadFile (abs_path (marker_elems dataRoot ns p)) h) = Inr b"
    using assms(2,5) path_elems_marker [OF assms(3)]
    by (simp add: os_ReadFile_def os_call_no_fault fs_stat_def fs_get_def marker_elems_def)
  with assms(1,4) mp show ?thesis by (auto simp: ReadMarker_def split: prod.splits sum.splits)
qed

lemma StagingPresent_faults: "StagingPresent dataRoot ns p h = (r, h') \<Longrightarrow> h_faults h = [] \<Longrightarrow> h_faults h' = []"
  by (auto simp: StagingPresent_def os_Stat_def os_call_no_fault split: sum.splits prod.splits if_splits)

lemma StagingPresent_files: "StagingPresent dataRoot ns p h = (r, h') \<Longrightarrow> h_files h' = h_files h"
  by (auto simp: StagingPresent_def split: sum.splits prod.splits if_splits dest!: os_Stat_files)

text \<open>What an established placement looks like to the next decision.\<close>

lemma decideRestore_established:
  assumes "decideRestore mj dataRoot (ProvenanceFor p node '''') p h = (Inr oc, h')"
    and "names_ok dataRoot (meta_Namespace (prj_Meta p)) (meta_Name (prj_Meta p))" "h_faults h = []"
    and "node_at h (staging_elems dataRoot (meta_Namespace (prj_Meta p)) (meta_Name (prj_Meta p))) = None"
    and "node_at h (marker_elems dataRoot (meta_Namespace (prj_Meta p)) (meta_Name (prj_Meta p))) = Some (FFile b)"
    and "mj_Unmarshal mj b = Inr (marker_of (ProvenanceFor p node '''') t)"
  shows "oc_Decision oc = DecisionSkip"
proof -
  obtain s h1 m h2 vols where run:
    "StagingPresent dataRoot (meta_Namespace (prj_Meta p)) (meta_Name (prj_Meta p)) h = (Inr s, h1)"
    "ReadMarker mj dataRoot (meta_Namespace (prj_Meta p)) (meta_Name (prj_Meta p)) h1 = (m, h2)"
    "oc = Decide \<lparr>pst_StagingPresent = s, pst_Marker = (case m of Inl _ \<Rightarrow> None | Inr k \<Rightarrow> k),
        pst_MarkerErr = (case m of Inl e \<Rightarrow> Some e | Inr _ \<Rightarrow> None), pst_Volumes = vols\<rparr>
      (ProvenanceFor p node '''') (ps_AssignmentHistory (prj_Status p))"
    by (rule decideRestore_Inr [OF assms(1)])
  note f = StagingPresent_files [OF run(1)] StagingPresent_faults [OF run(1) assms(3)]
  have "\<not> s" by (rule StagingPresent_absent [OF run(1) assms(4,2)])
  moreover have "m = Inr (Some (marker_of (ProvenanceFor p node '''') t))"
    by (rule ReadMarker_there [OF run(2) _ assms(2,6)]) (use assms(5) f in simp_all)
  ultimately show ?thesis
    unfolding run(3) by (simp add: Decide_Skip_iff marker_of_def ProvenanceFor_def MarkerVersion_def)
qed

text \<open>
  A placement that started empty is remembered. After \<open>InitializeEmpty\<close> succeeded, whatever faults
  it met and whatever the containers have written, removed or left empty since, a decision for the same
  assignment on the same Node that can read the disk keeps the data that is there; it neither starts
  empty again nor restores over it.
\<close>

theorem empty_start_remembered:
  assumes "InitializeEmpty env cfg p h = (Inr u, h1)"
    and "k = marker_of (ProvenanceFor p (rc_NodeName cfg) '''') (re_now env)"
    and "\<And>b. mj_Marshal (re_marker env) k = Inr b \<Longrightarrow> mj_Unmarshal (re_marker env) b = Inr k"
    and "node_at h2 (marker_elems (rc_DataRoot cfg) (meta_Namespace (prj_Meta p)) (meta_Name (prj_Meta p)))
         = node_at h1 (marker_elems (rc_DataRoot cfg) (meta_Namespace (prj_Meta p)) (meta_Name (prj_Meta p)))"
    and "node_at h2 (staging_elems (rc_DataRoot cfg) (meta_Namespace (prj_Meta p)) (meta_Name (prj_Meta p)))
         = node_at h1 (staging_elems (rc_DataRoot cfg) (meta_Namespace (prj_Meta p)) (meta_Name (prj_Meta p)))"
    and "h_faults h2 = []" "decideRestore (re_marker env) (rc_DataRoot cfg) (ProvenanceFor p (rc_NodeName cfg) '''') p h2 = (Inr oc, h3)"
  shows "oc_Decision oc = DecisionSkip"
proof -
  let ?ns = "meta_Namespace (prj_Meta p)" and ?n = "meta_Name (prj_Meta p)"
  let ?S = "staging_elems (rc_DataRoot cfg) ?ns ?n" and ?pv = "ProvenanceFor p (rc_NodeName cfg) ''''"
  from assms(1) obtain ha hb s where wm: "WriteMarker (re_marker env) (rc_DataRoot cfg) ?pv (re_now env) ha = (Inr (), hb)"
    and sd: "StagingDir (rc_DataRoot cfg) ?ns ?n = Inr s" and rm: "os_RemoveAll s hb = (Inr (), h1)"
    by (auto simp: InitializeEmpty_def Let_def andThen_Inr_iff op_lift_def op_return_def)
  have ok: "names_ok (rc_DataRoot cfg) ?ns ?n" and s: "path_elems s = ?S"
    using sd path_elems_staging by (auto simp: StagingDir_eq)
  from WriteMarker_done [OF wm refl] obtain b where b: "mj_Marshal (re_marker env) (marker_of ?pv (re_now env)) = Inr b"
    "node_at hb (marker_elems (rc_DataRoot cfg) ?ns ?n) = Some (FFile b)"
    by (auto simp: ProvenanceFor_def marker_elems_def)
  have "\<not> prefix ?S (marker_elems (rc_DataRoot cfg) ?ns ?n)"
    using staging_project_apart(1) [of "rc_DataRoot cfg" ?ns ?n ?ns ?n "[markerFilename]"] by (simp add: marker_elems_def)
  with os_RemoveAll_spec [OF rm, of "marker_elems (rc_DataRoot cfg) ?ns ?n"] s b(2) assms(4)
  have m2: "node_at h2 (marker_elems (rc_DataRoot cfg) ?ns ?n) = Some (FFile b)" by simp
  have "node_at h2 ?S = None" using os_RemoveAll_spec [OF rm, of ?S] s assms(5) by simp
  from decideRestore_established [OF assms(7) ok assms(6) this m2] assms(2,3) b(1) show ?thesis by simp
qed

definition demo_first_env :: restore_env where
  "demo_first_env = demo_restore_env\<lparr>re_marker := \<lparr>mj_Marshal = (\<lambda>_. Inr ''{}''),
     mj_Unmarshal = (\<lambda>_. Inr (marker_of (ProvenanceFor demo_volume_project ''node-b'' '''') 0))\<rparr>\<rparr>"

definition demo_fresh_node :: host where
  "demo_fresh_node = \<lparr>h_files = [([''d''], FDir)], h_faults = []\<rparr>"

definition demo_started :: host where
  "demo_started = snd (InitializeEmpty demo_first_env demo_restore_cfg demo_volume_project demo_fresh_node)"

lemma demo_start_runs:
  "InitializeEmpty demo_first_env demo_restore_cfg demo_volume_project demo_fresh_node = (Inr (), demo_started)"
  "h_faults demo_started = []"
  "fst (decideRestore (re_marker demo_first_env) (rc_DataRoot demo_restore_cfg)
     (ProvenanceFor demo_volume_project (rc_NodeName demo_restore_cfg) '''') demo_volume_project demo_started) = Inr (decided DecisionSkip)"
  by code_simp+

subsection \<open>A restore reported as done is done again\<close>

text \<open>
  \<open>RestoreGeneration\<close> only logs that it could not remove the staging directory and returns success, so
  containers start on the restored volumes; \<open>Decide\<close> ranks staging above the marker, so the next pass for
  the same assignment restores again, over what they wrote. \<open>InitializeEmpty\<close> treats the same failure as
  an error for this very reason.
\<close>

lemma restore_repeats_after_success:
  "let (r, h1) = RestoreGeneration demo_first_env demo_restore_cfg demo_volume_project ''b1'' (demo_host (replicate 22 None @ [demo_fault]))
   in r = Inr () \<and> h_faults h1 = []
      \<and> fst (decideRestore (re_marker demo_first_env) ''/d'' (ProvenanceFor demo_volume_project ''node-b'' '''') demo_volume_project h1)
          = Inr (decided DecisionRestore)"
  by code_simp

subsection \<open>The cleanup of displaced data enters the volumes\<close>

text \<open>
  \<open>CleanDisplaced\<close> walks everything below the volumes, the containers' own files included: a directory a
  container keeps in its Managed volume under a name that ends in \<open>.displaced\<close> is removed.
\<close>

lemma cleanup_removes_container_data:
  "let h = \<lparr>h_files = h_files (demo_host []) @ [([''d'', ''volumes'', ''n'', ''p'', ''v'', ''data'', ''q.displaced''], FDir),
           ([''d'', ''volumes'', ''n'', ''p'', ''v'', ''data'', ''q.displaced'', ''f''], FFile ''z'')], h_faults = []\<rparr>;
       (r, h') = CleanDisplaced ''/d'' h
   in r = Inr () \<and> node_at h' [''d'', ''volumes'', ''n'', ''p'', ''v'', ''data'', ''q.displaced'', ''f''] = None
      \<and> node_at h' [''d'', ''volumes'', ''n'', ''p'', ''v'', ''data'', ''old''] = Some (FFile ''y'')"
  by code_simp

text \<open>With the root directory as data root every path is refused.\<close>

lemma root_data_root_refused: "\<exists>e. HostPath ''/'' ns p v = Inl e"
proof (cases "HostPath ''/'' ns p v")
  case (Inr path)
  then show ?thesis by (simp add: HostPath_eq root_usable_def path_elems_def filepath_IsAbs_def)
qed simp

end
