(* ===== verification/Agent_Trackers.thy ===== *)
theory Agent_Trackers
  imports Agent_Prelude
begin

text \<open>
  The Agent's memory between polls and how it reads container states: \<open>health.go\<close>, \<open>recovery.go\<close>, the
  failure record of \<open>spec_update.go\<close> and the tracker of \<open>orphan.go\<close>. The clock is read once per call, as
  the argument \<open>now\<close>. A Go map that is iterated is an association list, its order the order of the
  iteration; one that is only looked up is a map.
\<close>

subsection \<open>health.go\<close>

record ContainerState =
  cs_ServiceName :: string
  cs_ContainerID :: string
  cs_Status :: string
  cs_ExitCode :: int
  cs_NotOwned :: "agent_error option"

datatype serviceHealth =
    healthRunning | healthStartable | healthNeedsRecreate | healthPaused | healthTransient | healthUnknown
  | healthNotOwned

record serviceState =
  ss_Service :: string
  ss_Health :: serviceHealth
  ss_Status :: string
  ss_ExitCode :: int
  ss_NotOwned :: "agent_error option"

definition Crashed :: "serviceState \<Rightarrow> bool" where
  "Crashed s \<longleftrightarrow> ss_Status s = ''exited'' \<and> ss_ExitCode s \<noteq> 0"

definition svc_Detail :: "serviceState \<Rightarrow> string" where
  "svc_Detail s =
     (if ss_Health s = healthNotOwned then ss_Service s @ ''(not owned)''
      else if ss_Status s = '''' then ss_Service s
      else if ss_Status s = ''exited'' then ss_Service s @ ''(exit='' @ FormatInt (ss_ExitCode s) @ '')''
      else ss_Service s @ ''('' @ ss_Status s @ '')'')"

definition classifyService :: "ContainerState \<Rightarrow> serviceHealth" where
  "classifyService s =
     (if cs_NotOwned s \<noteq> None then healthNotOwned
      else if cs_Status s = ''running'' then healthRunning
      else if cs_Status s = ''exited'' \<or> cs_Status s = ''created'' then healthStartable
      else if cs_Status s = ''dead'' then healthNeedsRecreate
      else if cs_Status s = ''paused'' then healthPaused
      else if cs_Status s = ''restarting'' then healthTransient
      else healthUnknown)"

text \<open>The last state given for a service counts; a service with none is to be recreated.\<close>

definition classifyProject :: "Project \<Rightarrow> ContainerState list \<Rightarrow> serviceState list" where
  "classifyProject p states =
     (let byService = map_of (rev (map (\<lambda>s. (cs_ServiceName s, s)) states))
      in map (\<lambda>svc. case byService (svc_Name svc) of
           None \<Rightarrow> \<lparr>ss_Service = svc_Name svc, ss_Health = healthNeedsRecreate, ss_Status = '''', ss_ExitCode = 0,
                    ss_NotOwned = None\<rparr>
         | Some s \<Rightarrow> \<lparr>ss_Service = svc_Name svc, ss_Health = classifyService s, ss_Status = cs_Status s,
                      ss_ExitCode = cs_ExitCode s, ss_NotOwned = cs_NotOwned s\<rparr>)
         (spec_Services (prj_Spec p)))"

definition unhealthy :: "serviceState list \<Rightarrow> serviceState list" where
  "unhealthy states = filter (\<lambda>s. ss_Health s \<noteq> healthRunning) states"

subsection \<open>loop.go: reading what is unhealthy\<close>

definition serviceNames :: "serviceState list \<Rightarrow> string list" where
  "serviceNames bad = map ss_Service bad"

definition recoverable :: "serviceState list \<Rightarrow> bool" where
  "recoverable bad \<longleftrightarrow>
     list_all (\<lambda>s. ss_Health s = healthStartable \<or> ss_Health s = healthNeedsRecreate) bad \<and> length bad > 0"

definition needsHuman :: "serviceState list \<Rightarrow> bool" where
  "needsHuman bad \<longleftrightarrow> list_ex (\<lambda>s. ss_Health s = healthPaused \<or> ss_Health s = healthUnknown) bad"

definition firstNotOwned :: "serviceState list \<Rightarrow> serviceState option" where
  "firstNotOwned bad = find (\<lambda>s. ss_Health s = healthNotOwned) bad"

definition anyTransient :: "serviceState list \<Rightarrow> bool" where
  "anyTransient bad \<longleftrightarrow> list_ex (\<lambda>s. ss_Health s = healthTransient) bad"

definition detailList :: "serviceState list \<Rightarrow> string" where
  "detailList bad = strings_Join (map svc_Detail bad) '', ''"

text \<open>The case of the switch a service falls into; the switch over the flags then takes the most severe.\<close>

datatype fault_kind = FCrashed | FMissing | FDead | FExited | FPaused | FRestarting | FUnknown

definition fault_kind_of :: "serviceState \<Rightarrow> fault_kind" where
  "fault_kind_of s =
     (if Crashed s then FCrashed
      else if ss_Health s = healthNeedsRecreate \<and> ss_Status s = '''' then FMissing
      else if ss_Health s = healthNeedsRecreate then FDead
      else if ss_Health s = healthStartable then FExited
      else if ss_Health s = healthPaused then FPaused
      else if ss_Health s = healthTransient then FRestarting
      else FUnknown)"

definition failureReason :: "serviceState list \<Rightarrow> string \<times> string" where
  "failureReason bad = (let kinds = map fault_kind_of bad in
      if FCrashed \<in> set kinds then (''ContainerCrashed'', ''Containers crashed'')
      else if FMissing \<in> set kinds then (''ContainerMissing'', ''Missing containers for services'')
      else if FExited \<in> set kinds then (''ContainerExited'', ''Containers exited cleanly'')
      else if FDead \<in> set kinds then (''ContainerUnhealthy'', ''Containers are dead'')
      else if FPaused \<in> set kinds then (''ContainerUnhealthy'', ''Containers are paused'')
      else if FUnknown \<in> set kinds then (''ContainerUnhealthy'', ''Containers are in an unrecognised state'')
      else if FRestarting \<in> set kinds then (''ContainerUnhealthy'', ''Containers are restarting'')
      else (''ContainerUnhealthy'', ''Containers are not running''))"

subsection \<open>recovery.go\<close>

definition maxRecoveryAttempts :: int where "maxRecoveryAttempts = 3"
definition recoveryVerifyTimeout :: duration where "recoveryVerifyTimeout = 30 * time_Second"
definition transientObservationTimeout :: duration where "transientObservationTimeout = 30 * time_Second"

definition recoveryBackoff :: "duration list" where
  "recoveryBackoff = [5 * time_Second, 10 * time_Second]"

record recoveryKey =
  rk_Namespace :: string
  rk_Name :: string
  rk_UID :: string
  rk_Generation :: int

definition keyForProject :: "Project \<Rightarrow> recoveryKey" where
  "keyForProject p = \<lparr>rk_Namespace = meta_Namespace (prj_Meta p), rk_Name = meta_Name (prj_Meta p),
     rk_UID = meta_UID (prj_Meta p), rk_Generation = ps_AssignmentGeneration (prj_Status p)\<rparr>"

record recoveryEntry =
  rec_attempts :: int
  rec_lastAttemptAt :: time

record specUpdateFailure =
  suf_revision :: int
  suf_stoppedFailures :: int
  suf_lastAttemptAt :: time

datatype recoveryDecision = recoveryWait | recoveryAttempt | recoveryExhausted

record recoveryTracker =
  rt_entries :: "recoveryKey \<rightharpoonup> recoveryEntry"
  rt_transientSince :: "recoveryKey \<rightharpoonup> time"
  rt_specUpdates :: "recoveryKey \<rightharpoonup> specUpdateFailure"

definition newRecoveryTracker :: recoveryTracker where
  "newRecoveryTracker = \<lparr>rt_entries = Map.empty, rt_transientSince = Map.empty, rt_specUpdates = Map.empty\<rparr>"

definition entryLocked :: "recoveryKey \<Rightarrow> recoveryTracker \<Rightarrow> recoveryEntry" where
  "entryLocked key t = (case rt_entries t key of
       Some e \<Rightarrow> e | None \<Rightarrow> \<lparr>rec_attempts = 0, rec_lastAttemptAt = time_zero\<rparr>)"

definition recovery_next :: "time \<Rightarrow> recoveryKey \<Rightarrow> recoveryTracker \<Rightarrow> recoveryDecision \<times> recoveryTracker" where
  "recovery_next now key t =
     (let e = entryLocked key t;
          put = (\<lambda>e'. t\<lparr>rt_entries := (rt_entries t)(key \<mapsto> e')\<rparr>);
          elapsed = now - rec_lastAttemptAt e
      in if rec_attempts e = 0
         then (recoveryAttempt, put \<lparr>rec_attempts = 1, rec_lastAttemptAt = now\<rparr>)
         else if rec_attempts e \<ge> maxRecoveryAttempts
         then (if elapsed \<ge> recoveryVerifyTimeout then recoveryExhausted else recoveryWait, put e)
         else if elapsed < recoveryBackoff ! nat (rec_attempts e - 1) then (recoveryWait, put e)
         else (recoveryAttempt, put \<lparr>rec_attempts = rec_attempts e + 1, rec_lastAttemptAt = now\<rparr>))"

definition observeHealthy :: "recoveryKey \<Rightarrow> recoveryTracker \<Rightarrow> recoveryTracker" where
  "observeHealthy key t = t\<lparr>rt_entries := (rt_entries t)(key := None)\<rparr>"

definition observeTransient :: "time \<Rightarrow> recoveryKey \<Rightarrow> recoveryTracker \<Rightarrow> bool \<times> recoveryTracker" where
  "observeTransient now key t = (case rt_transientSince t key of
       None \<Rightarrow> (False, t\<lparr>rt_transientSince := (rt_transientSince t)(key \<mapsto> now)\<rparr>)
     | Some since \<Rightarrow> (now - since \<ge> transientObservationTimeout, t))"

definition clearTransient :: "recoveryKey \<Rightarrow> recoveryTracker \<Rightarrow> recoveryTracker" where
  "clearTransient key t = t\<lparr>rt_transientSince := (rt_transientSince t)(key := None)\<rparr>"

definition recovery_attempts :: "recoveryKey \<Rightarrow> recoveryTracker \<Rightarrow> int" where
  "recovery_attempts key t = (case rt_entries t key of Some e \<Rightarrow> rec_attempts e | None \<Rightarrow> 0)"

definition recovery_retain :: "recoveryKey list \<Rightarrow> recoveryTracker \<Rightarrow> recoveryTracker" where
  "recovery_retain keys t = (let keep = (\<lambda>k. k \<in> set keys) in
     \<lparr>rt_entries = (\<lambda>k. if keep k then rt_entries t k else None),
      rt_transientSince = (\<lambda>k. if keep k then rt_transientSince t k else None),
      rt_specUpdates = (\<lambda>k. if keep k then rt_specUpdates t k else None)\<rparr>)"

subsection \<open>spec_update.go: failed updates\<close>

definition specUpdateRetryInterval :: duration where "specUpdateRetryInterval = time_Minute"
definition maxSpecUpdateAttempts :: int where "maxSpecUpdateAttempts = maxRecoveryAttempts"

definition specUpdateDue :: "time \<Rightarrow> recoveryKey \<Rightarrow> int \<Rightarrow> recoveryTracker \<Rightarrow> bool" where
  "specUpdateDue now key revision t = (case rt_specUpdates t key of
       None \<Rightarrow> True
     | Some f \<Rightarrow> suf_revision f \<noteq> revision \<or> now - suf_lastAttemptAt f \<ge> specUpdateRetryInterval)"

definition specUpdateFailed :: "time \<Rightarrow> recoveryKey \<Rightarrow> int \<Rightarrow> bool \<Rightarrow> recoveryTracker \<Rightarrow> int \<times> recoveryTracker" where
  "specUpdateFailed now key revision stoppedSomething t =
     (let old = (case rt_specUpdates t key of
            Some f \<Rightarrow> if suf_revision f = revision then f
                      else \<lparr>suf_revision = revision, suf_stoppedFailures = 0, suf_lastAttemptAt = time_zero\<rparr>
          | None \<Rightarrow> \<lparr>suf_revision = revision, suf_stoppedFailures = 0, suf_lastAttemptAt = time_zero\<rparr>);
          f = old\<lparr>suf_lastAttemptAt := now,
                  suf_stoppedFailures := suf_stoppedFailures old + (if stoppedSomething then 1 else 0)\<rparr>
      in (suf_stoppedFailures f, t\<lparr>rt_specUpdates := (rt_specUpdates t)(key \<mapsto> f)\<rparr>))"

definition specUpdateSucceeded :: "recoveryKey \<Rightarrow> recoveryTracker \<Rightarrow> recoveryTracker" where
  "specUpdateSucceeded key t = t\<lparr>rt_specUpdates := (rt_specUpdates t)(key := None)\<rparr>"

subsection \<open>orphan.go: the tracker\<close>

definition orphanGracePeriod :: duration where "orphanGracePeriod = 3 * time_Minute"

record ProjectIdentity =
  pi_Namespace :: string
  pi_Name :: string
  pi_UID :: string

record orphanState =
  os_stopped :: bool
  os_lostSince :: time

type_synonym orphanTracker = "(ProjectIdentity \<times> orphanState) list"

record orphanObservation =
  ob_toStop :: "ProjectIdentity list"
  ob_toRemove :: "ProjectIdentity list"
  ob_reappeared :: "ProjectIdentity list"

definition no_observation :: orphanObservation where
  "no_observation = \<lparr>ob_toStop = [], ob_toRemove = [], ob_reappeared = []\<rparr>"

text \<open>What both loops do with a stopped project the server does not assign to this Node.\<close>

definition observe_lost :: "time \<Rightarrow> ProjectIdentity \<Rightarrow> orphanState \<Rightarrow> orphanTracker \<times> orphanObservation \<Rightarrow> orphanTracker \<times> orphanObservation" where
  "observe_lost now project state to = (case to of (t, ob) \<Rightarrow>
     if os_lostSince state = time_zero then (AList.update project (state\<lparr>os_lostSince := now\<rparr>) t, ob)
     else if now - os_lostSince state \<ge> orphanGracePeriod then (t, ob\<lparr>ob_toRemove := ob_toRemove ob @ [project]\<rparr>)
     else (t, ob))"

definition observe_local :: "time \<Rightarrow> (ProjectIdentity \<Rightarrow> bool) \<Rightarrow> ProjectIdentity
    \<Rightarrow> orphanTracker \<times> orphanObservation \<Rightarrow> orphanTracker \<times> orphanObservation" where
  "observe_local now assigned project to = (case to of (t, ob) \<Rightarrow>
     if assigned project then
       (case map_of t project of
          Some state \<Rightarrow> if os_stopped state then (t, ob\<lparr>ob_reappeared := ob_reappeared ob @ [project]\<rparr>)
            else (AList.delete project t, ob)
        | None \<Rightarrow> (AList.delete project t, ob))
     else case map_of t project of
       None \<Rightarrow> (AList.update project \<lparr>os_stopped = False, os_lostSince = time_zero\<rparr> t,
                ob\<lparr>ob_toStop := ob_toStop ob @ [project]\<rparr>)
     | Some state \<Rightarrow> if \<not> os_stopped state then (t, ob\<lparr>ob_toStop := ob_toStop ob @ [project]\<rparr>)
         else observe_lost now project state (t, ob))"

definition observe_tracked :: "time \<Rightarrow> (ProjectIdentity \<Rightarrow> bool) \<Rightarrow> (ProjectIdentity \<Rightarrow> bool) \<Rightarrow> ProjectIdentity \<times> orphanState
    \<Rightarrow> orphanTracker \<times> orphanObservation \<Rightarrow> orphanTracker \<times> orphanObservation" where
  "observe_tracked now localSet assigned ps to = (case ps of (project, state) \<Rightarrow> case to of (t, ob) \<Rightarrow>
     if localSet project then (t, ob)
     else if assigned project then
       (if os_stopped state then (t, ob\<lparr>ob_reappeared := ob_reappeared ob @ [project]\<rparr>)
        else (AList.delete project t, ob))
     else if \<not> os_stopped state then (AList.delete project t, ob)
     else observe_lost now project state (t, ob))"

definition orphan_observe :: "time \<Rightarrow> ProjectIdentity list \<Rightarrow> (ProjectIdentity \<Rightarrow> bool) \<Rightarrow> orphanTracker \<Rightarrow> orphanTracker \<times> orphanObservation" where
  "orphan_observe now loc assigned t =
     (let (t1, ob1) = fold (observe_local now assigned) (remdups loc) (t, no_observation)
      in fold (observe_tracked now (\<lambda>p. p \<in> set loc) assigned) t1 (t1, ob1))"

definition markStopped :: "time \<Rightarrow> ProjectIdentity \<Rightarrow> orphanTracker \<Rightarrow> orphanTracker" where
  "markStopped now project t = AList.update project \<lparr>os_stopped = True, os_lostSince = now\<rparr> t"

definition resetGrace :: "orphanTracker \<Rightarrow> orphanTracker" where
  "resetGrace t = map (\<lambda>(p, s). (p, s\<lparr>os_lostSince := time_zero\<rparr>)) t"

definition orphan_forget :: "ProjectIdentity \<Rightarrow> orphanTracker \<Rightarrow> orphanTracker" where
  "orphan_forget project t = AList.delete project t"

subsection \<open>capacity.go\<close>

record SystemReserved =
  sr_CPUMilli :: int
  sr_MemoryBytes :: int

definition nodeCapacity :: "int \<Rightarrow> int \<Rightarrow> SystemReserved \<Rightarrow> ResourceList \<times> ResourceList" where
  "nodeCapacity cpuCores memoryBytes reserved =
     (let cpuMilli = cpuCores * 1000 in
      ([''cpu'' \<mapsto> FormatCPU cpuMilli, ''memory'' \<mapsto> FormatMemory memoryBytes],
       [''cpu'' \<mapsto> FormatCPU (max (cpuMilli - sr_CPUMilli reserved) 0),
        ''memory'' \<mapsto> FormatMemory (max (memoryBytes - sr_MemoryBytes reserved) 0)]))"

definition probeNodeCapacity :: "(agent_error + int \<times> int) option \<Rightarrow> SystemReserved \<Rightarrow> (ResourceList \<times> ResourceList) option" where
  "probeNodeCapacity prober reserved = (case prober of
       None \<Rightarrow> None
     | Some (Inl e) \<Rightarrow> None
     | Some (Inr (cpuCores, memoryBytes)) \<Rightarrow> Some (nodeCapacity cpuCores memoryBytes reserved))"

end
