(* ===== verification/Backup_Coordinator.thy ===== *)
theory Backup_Coordinator
  imports Agent_Prelude
begin

text \<open>
  \<open>backup/coordinator.go\<close>, which serialises the operations on a Project, and \<open>Resolve\<close> of \<open>ownership.go\<close>.
  A claim's release function is a token: it fires once, whatever was claimed since.
\<close>

subsection \<open>Claims\<close>

record ResourceKey =
  rsk_Namespace :: string
  rsk_Name :: string

definition key_of :: "Project \<Rightarrow> ResourceKey" where
  "key_of p = \<lparr>rsk_Namespace = meta_Namespace (prj_Meta p), rsk_Name = meta_Name (prj_Meta p)\<rparr>"

datatype Operation =
  OpBackup | OpRestore | OpTerminate | OpFinalBackup | OpGC | OpOrphanCleanup | OpRecovery | OpPlacement | OpUpdate

record Coordinator =
  co_claims :: "ResourceKey \<rightharpoonup> Operation"
  co_open :: "nat \<rightharpoonup> ResourceKey"
  co_next :: nat

definition NewCoordinator :: Coordinator where
  "NewCoordinator = \<lparr>co_claims = Map.empty, co_open = Map.empty, co_next = 0\<rparr>"

definition TryClaim :: "Coordinator \<Rightarrow> ResourceKey \<Rightarrow> Operation \<Rightarrow> (nat \<times> Coordinator) option" where
  "TryClaim c key op = (case co_claims c key of
       Some _ \<Rightarrow> None
     | None \<Rightarrow> Some (co_next c, c\<lparr>co_claims := (co_claims c)(key \<mapsto> op), co_open := (co_open c)(co_next c \<mapsto> key),
                                  co_next := co_next c + 1\<rparr>))"

definition fire_release :: "nat \<Rightarrow> Coordinator \<Rightarrow> Coordinator" where
  "fire_release t c = (case co_open c t of
       None \<Rightarrow> c
     | Some key \<Rightarrow> c\<lparr>co_claims := (co_claims c)(key := None), co_open := (co_open c)(t := None)\<rparr>)"

definition IsBusy :: "Coordinator \<Rightarrow> ResourceKey \<Rightarrow> bool" where
  "IsBusy c key \<longleftrightarrow> (case co_claims c key of None \<Rightarrow> False | Some _ \<Rightarrow> True)"

definition Current :: "Coordinator \<Rightarrow> ResourceKey \<Rightarrow> Operation option" where
  "Current c key = co_claims c key"

text \<open>Every release that has not fired has a claim of its own.\<close>

definition coordinator_ok :: "Coordinator \<Rightarrow> bool" where
  "coordinator_ok c \<longleftrightarrow> (\<forall>t k. co_open c t = Some k \<longrightarrow> co_claims c k \<noteq> None \<and> t < co_next c)
     \<and> (\<forall>t t' k. co_open c t = Some k \<longrightarrow> co_open c t' = Some k \<longrightarrow> t = t')"

datatype ('k, 'o) claim_op = ClaimOp 'k 'o | ReleaseOp nat

fun run_claims :: "('c \<Rightarrow> 'k \<Rightarrow> 'o \<Rightarrow> (nat \<times> 'c) option) \<Rightarrow> (nat \<Rightarrow> 'c \<Rightarrow> 'c) \<Rightarrow> ('k, 'o) claim_op list \<Rightarrow> 'c \<Rightarrow> 'c" where
  "run_claims claim rel [] c = c"
| "run_claims claim rel (ClaimOp k op # ops) c = run_claims claim rel ops (case claim c k op of None \<Rightarrow> c | Some (t, c') \<Rightarrow> c')"
| "run_claims claim rel (ReleaseOp t # ops) c = run_claims claim rel ops (rel t c)"

text \<open>What a table of claims promises, and that a claim excludes every other until it is released.\<close>

locale claim_table =
  fixes claim :: "'c \<Rightarrow> 'k \<Rightarrow> 'o \<Rightarrow> (nat \<times> 'c) option"
    and rel :: "nat \<Rightarrow> 'c \<Rightarrow> 'c"
    and holder :: "'c \<Rightarrow> 'k \<Rightarrow> 'o option"
    and unreleased :: "'c \<Rightarrow> nat \<Rightarrow> 'k option"
    and inv :: "'c \<Rightarrow> bool"
  assumes claim_None: "inv c \<Longrightarrow> claim c k op = None \<longleftrightarrow> holder c k \<noteq> None"
    and claim_Some: "inv c \<Longrightarrow> claim c k op = Some (t, c') \<Longrightarrow>
      inv c' \<and> unreleased c t = None \<and> unreleased c' = (unreleased c)(t \<mapsto> k) \<and> holder c' = (holder c)(k \<mapsto> op)"
    and rel: "inv c \<Longrightarrow> inv (rel t c) \<and> unreleased (rel t c) = (unreleased c)(t := None)
      \<and> holder (rel t c) = (case unreleased c t of None \<Rightarrow> holder c | Some k \<Rightarrow> (holder c)(k := None))"
    and held: "inv c \<Longrightarrow> unreleased c t = Some k \<Longrightarrow> holder c k \<noteq> None"
    and one_release: "inv c \<Longrightarrow> unreleased c t = Some k \<Longrightarrow> unreleased c t' = Some k \<Longrightarrow> t = t'"
begin

lemma run_exclusive:
  "inv c \<Longrightarrow> unreleased c t = Some k \<Longrightarrow> ReleaseOp t \<notin> set ops \<Longrightarrow>
     inv (run_claims claim rel ops c) \<and> unreleased (run_claims claim rel ops c) t = Some k
     \<and> holder (run_claims claim rel ops c) k = holder c k \<and> claim (run_claims claim rel ops c) k op = None"
proof (induction ops arbitrary: c)
  case Nil
  then show ?case using held claim_None by simp
next
  case (Cons x ops)
  show ?case
  proof (cases x)
    case (ReleaseOp t')
    with Cons.prems have "t' \<noteq> t" by auto
    moreover have "unreleased c t' \<noteq> Some k" using one_release [OF Cons.prems(1,2), of t'] calculation by auto
    ultimately have "unreleased (rel t' c) t = Some k" "holder (rel t' c) k = holder c k" "inv (rel t' c)"
      using rel [OF Cons.prems(1), of t'] Cons.prems(2) by (auto split: option.splits)
    with Cons ReleaseOp show ?thesis by simp
  next
    case (ClaimOp k' op')
    show ?thesis
    proof (cases "claim c k' op'")
      case None
      with Cons ClaimOp show ?thesis by simp
    next
      case (Some r)
      obtain t' c' where r: "r = (t', c')" by (cases r)
      from claim_Some [OF Cons.prems(1)] Some r have c': "inv c'" "unreleased c t' = None" "unreleased c' = (unreleased c)(t' \<mapsto> k')"
        "holder c' = (holder c)(k' \<mapsto> op')" by blast+
      have "k' \<noteq> k" using claim_None [OF Cons.prems(1), of k' op'] Some held [OF Cons.prems(1,2)] by auto
      moreover have "t' \<noteq> t" using c'(2) Cons.prems(2) by auto
      ultimately show ?thesis using Cons.IH [of c'] Cons.prems c' Some r ClaimOp by simp
    qed
  qed
qed

end

interpretation coordinator: claim_table TryClaim fire_release co_claims co_open coordinator_ok
proof
  fix c :: Coordinator and k :: ResourceKey and op :: Operation and t t' :: nat and c' :: Coordinator
  assume ok: "coordinator_ok c"
  show "TryClaim c k op = None \<longleftrightarrow> co_claims c k \<noteq> None"
    by (auto simp: TryClaim_def split: option.split)
  show "coordinator_ok (fire_release t c) \<and> co_open (fire_release t c) = (co_open c)(t := None)
      \<and> co_claims (fire_release t c) = (case co_open c t of None \<Rightarrow> co_claims c | Some k \<Rightarrow> (co_claims c)(k := None))"
    using ok by (auto simp: fire_release_def coordinator_ok_def split: option.split)
  {
    assume "TryClaim c k op = Some (t, c')"
    then have c': "co_claims c k = None" "t = co_next c" "c' = c\<lparr>co_claims := (co_claims c)(k \<mapsto> op), co_open := (co_open c)(co_next c \<mapsto> k),
        co_next := co_next c + 1\<rparr>" by (auto simp: TryClaim_def split: option.splits)
    have "co_open c t = None" using ok c'(2) by (cases "co_open c t") (auto simp: coordinator_ok_def)
    moreover have "co_open c t' \<noteq> Some k" for t' using ok c'(1) unfolding coordinator_ok_def by blast
    then have "coordinator_ok c'" using ok c' unfolding coordinator_ok_def by (auto simp: less_Suc_eq)
    ultimately show "coordinator_ok c' \<and> co_open c t = None \<and> co_open c' = (co_open c)(t \<mapsto> k) \<and> co_claims c' = (co_claims c)(k \<mapsto> op)"
      using c' by simp
  }
  {
    assume "co_open c t = Some k"
    then show "co_claims c k \<noteq> None" using ok by (simp add: coordinator_ok_def)
  }
  {
    assume "co_open c t = Some k" "co_open c t' = Some k"
    then show "t = t'" using ok by (simp add: coordinator_ok_def)
  }
qed

lemma coordinator_ok_New: "coordinator_ok NewCoordinator"
  by (simp add: coordinator_ok_def NewCoordinator_def)

subsection \<open>After a backup\<close>

datatype ExitReason = ExitSuccess | ExitFailure | ExitTimeout | ExitCancelled | ExitAgentShutdown

datatype Ownership = OwnershipRetained | OwnershipReassigned | OwnershipTerminating | OwnershipLost | OwnershipUnknown

definition ShouldRestartContainers :: "ExitReason \<Rightarrow> Ownership \<Rightarrow> bool" where
  "ShouldRestartContainers reason ownership = (case ownership of
       OwnershipReassigned \<Rightarrow> False | OwnershipTerminating \<Rightarrow> False | OwnershipLost \<Rightarrow> False
     | _ \<Rightarrow> (case reason of
           ExitSuccess \<Rightarrow> True | ExitFailure \<Rightarrow> True | ExitTimeout \<Rightarrow> True | ExitCancelled \<Rightarrow> True | ExitAgentShutdown \<Rightarrow> True))"

definition Resolve :: "string \<Rightarrow> agent_error + Project \<Rightarrow> string \<Rightarrow> int \<Rightarrow> Ownership" where
  "Resolve nodeName answer uid generation = (case answer of
       Inl e \<Rightarrow> if error_is ErrProjectNotFound e then OwnershipLost else OwnershipUnknown
     | Inr project \<Rightarrow> (let st = prj_Status project in
         if meta_UID (prj_Meta project) \<noteq> uid then OwnershipLost
         else if ps_Phase st = ProjectPhaseTerminating \<or> ps_Phase st = ProjectPhaseTerminated then OwnershipTerminating
         else if ps_NodeRef st = nodeName then
           (if ps_AssignmentGeneration st \<noteq> generation then OwnershipReassigned else OwnershipRetained)
         else if ps_NodeRef st = '''' then OwnershipLost
         else OwnershipReassigned))"

end
