(* ===== verification/Agent_World.thy ===== *)
theory Agent_World
  imports Agent_Trackers Restore_Run Secrets Backup_Coordinator "HOL-Library.State_Monad"
begin

text \<open>
  The world of the Agent's poll loop: what it remembers between polls, the host's files, and the trace of
  its calls with their answers, the latest first. An environment answers each call from the trace so far,
  so a statement for all environments covers every behaviour of the server, of the container engine, of
  the goroutines that share the Coordinator and of the clock. Operations are in the state monad, one
  \<open>do\<close> line per statement of the Go code that acts.
\<close>

named_theorems agent_wp "rewriting of weakest preconditions"

subsection \<open>Calls\<close>

record AssignmentFence =
  af_UID :: string
  af_NodeRef :: string
  af_Generation :: int

definition fenceForProject :: "Project \<Rightarrow> AssignmentFence" where
  "fenceForProject p = \<lparr>af_UID = meta_UID (prj_Meta p), af_NodeRef = ps_NodeRef (prj_Status p),
     af_Generation = ps_AssignmentGeneration (prj_Status p)\<rparr>"

record StaleContainer =
  sc_Name :: string
  sc_Service :: string
  sc_ID :: string
  sc_Reason :: agent_error

record SpecDrift =
  sd_Outdated :: "string list"
  sd_Missing :: "string list"
  sd_Removed :: "StaleContainer list"

definition drift_Changes :: "SpecDrift \<Rightarrow> bool" where
  "drift_Changes d \<longleftrightarrow> length (sd_Outdated d) > 0 \<or> length (sd_Removed d) > 0"

record Assignment =
  as_Namespace :: string
  as_Project :: string
  as_UID :: string
  as_Generation :: int
  as_AllGenerations :: bool

text \<open>The calls that return only an error or nothing: to the server, the container engine, the cleaner's resources.\<close>

datatype agent_request =
    UpdateProjectStatus string AssignmentFence ProjectPhase string string
  | PatchProjectCondition string AssignmentFence ConditionType ConditionStatus string string
  | ClearProjectCondition string AssignmentFence ConditionType
  | ReportSpecApplied string AssignmentFence int bool string string
  | ReportResourcesRemoved string AssignmentIdentity
  | ReportManagedDataQuarantined string AssignmentIdentity
  | ReconcileProject Project
  | PreflightRecovery Project "string list"
  | RecoverServices Project "string list"
  | UpdateServices Project SpecDrift
  | StopOrphanProject ProjectIdentity
  | RemoveOrphanProject ProjectIdentity
  | RemoveResource string Assignment
  | IssueClientIdentity string string
  | WriteClientConfig string "(string \<times> int) list"
  | EnsureProjectNetwork Project
  | Authorize string "string list" string string
  | WaitPostgres string
  | RestartContainer string
  | RecordStanza string AssignmentFence string
  | RegisterNode NodeSpec
  | HeartbeatNode NodeStatus
  | ReconcileRepoHost

datatype agent_event =
    Did agent_request "agent_error option"
  | GotAssigned "agent_error + Project list"
  | GotCleanupTasks "agent_error + CleanupTask list"
  | GotProject string "agent_error + Project"
  | GotSecret string "agent_error + Secret"
  | GotStale Project "agent_error + StaleContainer list"
  | GotStates Project "agent_error + ContainerState list"
  | GotDrift Project "agent_error + SpecDrift"
  | GotIPs Project "agent_error + (string \<times> string) list"
  | GotLocal "agent_error + ProjectIdentity list"
  | GotRemaining string Assignment "agent_error + string list"
  | GotRepoVersion "agent_error + string"
  | GotExec string "string list" "agent_error + int \<times> string \<times> string"
  | RoutesUpdated Project "(string \<times> string) list"
  | RoutesRemoved string
  | AskedBusy ResourceKey bool
  | Claimed ResourceKey Operation bool
  | Released ResourceKey
  | PgRestoreBegun Project "agent_error option" bool
  | SupervisorSynced "Project list"
  | Waited duration bool

type_synonym trace = "agent_event list"

record backup_support =
  bs_Restorer :: "restore_Config option"
  bs_Coordinator :: bool
  bs_Supervisor :: bool
  bs_ObjectStore :: bool
  bs_RepoHost :: bool
  bs_DataRoot :: string
  bs_NodeName :: string
  bs_pgRestore :: bool

text \<open>\<open>ae_kinds\<close> are the kinds of the registered cleanup resources in order; \<open>None\<close> is a nil cleaner.\<close>

record agent_env =
  ae_NodeName :: string
  ae_hasRoutes :: bool
  ae_backups :: "backup_support option"
  ae_kinds :: "string list option"
  ae_cleanerRoot :: string
  ae_pgRuntime :: bool
  ae_do :: "trace \<Rightarrow> agent_request \<Rightarrow> agent_error option"
  ae_Now :: "trace \<Rightarrow> time"
  ae_ListAssigned :: "trace \<Rightarrow> agent_error + Project list"
  ae_ListCleanupTasks :: "trace \<Rightarrow> agent_error + CleanupTask list"
  ae_GetProject :: "trace \<Rightarrow> string \<Rightarrow> agent_error + Project"
  ae_GetSecret :: "trace \<Rightarrow> string \<Rightarrow> agent_error + Secret"
  ae_StaleContainers :: "trace \<Rightarrow> Project \<Rightarrow> agent_error + StaleContainer list"
  ae_InspectProject :: "trace \<Rightarrow> Project \<Rightarrow> agent_error + ContainerState list"
  ae_SpecDrift :: "trace \<Rightarrow> Project \<Rightarrow> agent_error + SpecDrift"
  ae_GetContainerIPs :: "trace \<Rightarrow> Project \<Rightarrow> agent_error + (string \<times> string) list"
  ae_ListLocalProjects :: "trace \<Rightarrow> agent_error + ProjectIdentity list"
  ae_Remaining :: "trace \<Rightarrow> string \<Rightarrow> Assignment \<Rightarrow> agent_error + string list"
  ae_RepoVersion :: "trace \<Rightarrow> agent_error + string"
  ae_Exec :: "trace \<Rightarrow> string \<Rightarrow> string list \<Rightarrow> agent_error + int \<times> string \<times> string"
  ae_IsBusy :: "trace \<Rightarrow> ResourceKey \<Rightarrow> bool"
  ae_TryClaim :: "trace \<Rightarrow> ResourceKey \<Rightarrow> Operation \<Rightarrow> bool"
  ae_Cancelled :: "trace \<Rightarrow> bool"
  ae_Probe :: "trace \<Rightarrow> (agent_error + int \<times> int) option"
  ae_OverlayIP :: "trace \<Rightarrow> string"
  ae_pgRestoreBegin :: "trace \<Rightarrow> Project \<Rightarrow> agent_error option \<times> bool"
  ae_restore :: "trace \<Rightarrow> restore_env"

record agent_world =
  aw_trace :: trace
  aw_recovery :: "recoveryTracker option"
  aw_orphans :: orphanTracker
  aw_host :: host

type_synonym 'a agent = "(agent_world, 'a) state"

definition logged :: "agent_event \<Rightarrow> agent_world \<Rightarrow> agent_world" where
  "logged e w = w\<lparr>aw_trace := e # aw_trace w\<rparr>"

lemma logged_sel [simp]:
  "aw_trace (logged e w) = e # aw_trace w" "aw_recovery (logged e w) = aw_recovery w"
  "aw_orphans (logged e w) = aw_orphans w" "aw_host (logged e w) = aw_host w"
  by (simp_all add: logged_def)

definition ask :: "(trace \<Rightarrow> 'a) \<Rightarrow> ('a \<Rightarrow> agent_event) \<Rightarrow> 'a agent" where
  "ask answer ev = State (\<lambda>w. let a = answer (aw_trace w) in (a, logged (ev a) w))"

definition perform :: "agent_env \<Rightarrow> agent_request \<Rightarrow> agent_error option agent" where
  "perform env r = ask (\<lambda>tr. ae_do env tr r) (Did r)"

definition note_event :: "agent_event \<Rightarrow> unit agent" where
  "note_event e = ask (\<lambda>_. ()) (\<lambda>_. e)"

definition now_of :: "agent_env \<Rightarrow> time agent" where
  "now_of env = State (\<lambda>w. (ae_Now env (aw_trace w), w))"

definition skip :: "unit agent" where "skip = State_Monad.return ()"

definition get_project :: "agent_env \<Rightarrow> string \<Rightarrow> (agent_error + Project) agent" where
  "get_project env name = ask (\<lambda>tr. ae_GetProject env tr name) (GotProject name)"

definition get_secret :: "agent_env \<Rightarrow> string \<Rightarrow> (agent_error + Secret) agent" where
  "get_secret env name = ask (\<lambda>tr. ae_GetSecret env tr name) (GotSecret name)"

definition get_stale :: "agent_env \<Rightarrow> Project \<Rightarrow> (agent_error + StaleContainer list) agent" where
  "get_stale env p = ask (\<lambda>tr. ae_StaleContainers env tr p) (GotStale p)"

definition get_states :: "agent_env \<Rightarrow> Project \<Rightarrow> (agent_error + ContainerState list) agent" where
  "get_states env p = ask (\<lambda>tr. ae_InspectProject env tr p) (GotStates p)"

definition get_drift :: "agent_env \<Rightarrow> Project \<Rightarrow> (agent_error + SpecDrift) agent" where
  "get_drift env p = ask (\<lambda>tr. ae_SpecDrift env tr p) (GotDrift p)"

definition get_ips :: "agent_env \<Rightarrow> Project \<Rightarrow> (agent_error + (string \<times> string) list) agent" where
  "get_ips env p = ask (\<lambda>tr. ae_GetContainerIPs env tr p) (GotIPs p)"

definition get_remaining :: "agent_env \<Rightarrow> string \<Rightarrow> Assignment \<Rightarrow> (agent_error + string list) agent" where
  "get_remaining env kind a = ask (\<lambda>tr. ae_Remaining env tr kind a) (GotRemaining kind a)"

definition get_version :: "agent_env \<Rightarrow> (agent_error + string) agent" where
  "get_version env = ask (\<lambda>tr. ae_RepoVersion env tr) GotRepoVersion"

definition pg_exec :: "agent_env \<Rightarrow> string \<Rightarrow> string list \<Rightarrow> (agent_error + int \<times> string \<times> string) agent" where
  "pg_exec env container cmd = ask (\<lambda>tr. ae_Exec env tr container cmd) (GotExec container cmd)"

text \<open>
  \<open>coordinatorOf(backups)\<close>: without a Coordinator nothing is ever busy and a claim is granted without
  asking. \<open>claiming\<close> runs its body under a claim and releases it afterwards, as the deferred release does.
\<close>

definition has_coordinator :: "agent_env \<Rightarrow> bool" where
  "has_coordinator env \<longleftrightarrow> (case ae_backups env of None \<Rightarrow> False | Some b \<Rightarrow> bs_Coordinator b)"

definition is_busy :: "agent_env \<Rightarrow> ResourceKey \<Rightarrow> bool agent" where
  "is_busy env key =
     (if has_coordinator env then ask (\<lambda>tr. ae_IsBusy env tr key) (AskedBusy key) else State_Monad.return False)"

definition try_claim :: "agent_env \<Rightarrow> ResourceKey \<Rightarrow> Operation \<Rightarrow> bool agent" where
  "try_claim env key op =
     (if has_coordinator env then ask (\<lambda>tr. ae_TryClaim env tr key op) (Claimed key op) else State_Monad.return True)"

definition release_claim :: "agent_env \<Rightarrow> ResourceKey \<Rightarrow> unit agent" where
  "release_claim env key = (if has_coordinator env then note_event (Released key) else skip)"

definition claiming :: "agent_env \<Rightarrow> ResourceKey \<Rightarrow> Operation \<Rightarrow> 'a \<Rightarrow> 'a agent \<Rightarrow> 'a agent" where
  "claiming env key op refused body = do {
     ok \<leftarrow> try_claim env key op;
     if ok then do { a \<leftarrow> body; release_claim env key; State_Monad.return a } else State_Monad.return refused }"

definition on_recovery :: "(recoveryTracker \<Rightarrow> recoveryTracker) \<Rightarrow> unit agent" where
  "on_recovery f = State (\<lambda>w. ((), w\<lparr>aw_recovery := map_option f (aw_recovery w)\<rparr>))"

definition get_recovery :: "recoveryTracker option agent" where
  "get_recovery = State (\<lambda>w. (aw_recovery w, w))"

definition on_host :: "(host, 'a) op \<Rightarrow> (agent_error + 'a) agent" where
  "on_host f = State (\<lambda>w. case f (aw_host w) of (r, h) \<Rightarrow> (r, w\<lparr>aw_host := h\<rparr>))"

fun each :: "('a \<Rightarrow> unit agent) \<Rightarrow> 'a list \<Rightarrow> unit agent" where
  "each f [] = skip"
| "each f (x # xs) = do { f x; each f xs }"

text \<open>A step with an error result stops a sequence of such steps at the first error.\<close>

definition then_ok :: "agent_error option agent \<Rightarrow> agent_error option agent \<Rightarrow> agent_error option agent" where
  "then_ok m n = do { r \<leftarrow> m; case r of Some e \<Rightarrow> State_Monad.return (Some e) | None \<Rightarrow> n }"

definition then_get :: "(agent_error + 'a) agent \<Rightarrow> ('a \<Rightarrow> agent_error option agent) \<Rightarrow> agent_error option agent" where
  "then_get m f = do { r \<leftarrow> m; case r of Inl e \<Rightarrow> State_Monad.return (Some e) | Inr a \<Rightarrow> f a }"

subsection \<open>Weakest preconditions\<close>

definition wp :: "'a agent \<Rightarrow> ('a \<Rightarrow> agent_world \<Rightarrow> bool) \<Rightarrow> agent_world \<Rightarrow> bool" where
  "wp m Q w = (case run_state m w of (a, w') \<Rightarrow> Q a w')"

lemma wp_run: "wp m Q w \<longleftrightarrow> Q (fst (run_state m w)) (snd (run_state m w))"
  by (simp add: wp_def split: prod.split)

lemma wp_bind [agent_wp]: "wp (State_Monad.bind m f) Q = wp m (\<lambda>a. wp (f a) Q)"
  by (rule ext) (simp add: wp_def split: prod.split)

lemma wp_return [agent_wp]: "wp (State_Monad.return a) Q = Q a"
  by (rule ext) (simp add: wp_def)

lemma wp_skip [agent_wp]: "wp skip Q = Q ()"
  by (simp add: skip_def wp_return)

lemma wp_ask: "wp (ask answer ev) Q w = (let a = answer (aw_trace w) in Q a (logged (ev a) w))"
  by (simp add: wp_def ask_def Let_def)

lemma wp_perform [agent_wp]: "wp (perform env r) Q w = (let a = ae_do env (aw_trace w) r in Q a (logged (Did r a) w))"
  by (simp add: perform_def wp_ask)

lemma wp_note [agent_wp]: "wp (note_event e) Q w = Q () (logged e w)"
  by (simp add: note_event_def wp_ask)

lemma wp_now [agent_wp]: "wp (now_of env) Q w = Q (ae_Now env (aw_trace w)) w"
  by (simp add: now_of_def wp_def)

lemma wp_on_recovery [agent_wp]: "wp (on_recovery f) Q w = Q () (w\<lparr>aw_recovery := map_option f (aw_recovery w)\<rparr>)"
  by (simp add: on_recovery_def wp_def)

lemma wp_get_recovery [agent_wp]: "wp get_recovery Q w = Q (aw_recovery w) w"
  by (simp add: get_recovery_def wp_def)

lemma wp_on_host [agent_wp]: "wp (on_host f) Q w = (case f (aw_host w) of (r, h) \<Rightarrow> Q r (w\<lparr>aw_host := h\<rparr>))"
  by (simp add: on_host_def wp_def split: prod.split)

lemma wp_if [agent_wp]: "wp (if b then m else n) Q = (if b then wp m Q else wp n Q)"
  by simp

lemma wp_case_sum [agent_wp]:
  "wp (case s of Inl e \<Rightarrow> f e | Inr a \<Rightarrow> g a) Q = (case s of Inl e \<Rightarrow> wp (f e) Q | Inr a \<Rightarrow> wp (g a) Q)"
  by (simp split: sum.split)

lemma wp_case_option [agent_wp]:
  "wp (case x of None \<Rightarrow> f | Some a \<Rightarrow> g a) Q = (case x of None \<Rightarrow> wp f Q | Some a \<Rightarrow> wp (g a) Q)"
  by (simp split: option.split)

lemma wp_let [agent_wp]: "wp (let x = a in f x) Q = (let x = a in wp (f x) Q)"
  by (simp add: Let_def)

lemmas wp_queries [agent_wp] =
  get_project_def [THEN arg_cong [where f = "\<lambda>m. wp m Q w" for Q w], unfolded wp_ask]
  get_secret_def [THEN arg_cong [where f = "\<lambda>m. wp m Q w" for Q w], unfolded wp_ask]
  get_stale_def [THEN arg_cong [where f = "\<lambda>m. wp m Q w" for Q w], unfolded wp_ask]
  get_states_def [THEN arg_cong [where f = "\<lambda>m. wp m Q w" for Q w], unfolded wp_ask]
  get_drift_def [THEN arg_cong [where f = "\<lambda>m. wp m Q w" for Q w], unfolded wp_ask]
  get_ips_def [THEN arg_cong [where f = "\<lambda>m. wp m Q w" for Q w], unfolded wp_ask]
  get_remaining_def [THEN arg_cong [where f = "\<lambda>m. wp m Q w" for Q w], unfolded wp_ask]
  get_version_def [THEN arg_cong [where f = "\<lambda>m. wp m Q w" for Q w], unfolded wp_ask]
  pg_exec_def [THEN arg_cong [where f = "\<lambda>m. wp m Q w" for Q w], unfolded wp_ask]

lemma wp_try_claim [agent_wp]:
  "wp (try_claim env key op) Q w = (if has_coordinator env
     then let a = ae_TryClaim env (aw_trace w) key op in Q a (logged (Claimed key op a) w) else Q True w)"
  by (simp add: try_claim_def wp_ask wp_return)

lemma wp_release [agent_wp]:
  "wp (release_claim env key) Q w = (if has_coordinator env then Q () (logged (Released key) w) else Q () w)"
  by (simp add: release_claim_def wp_note wp_skip)

lemma wp_then_ok [agent_wp]: "wp (then_ok m n) Q w = wp m (\<lambda>r w'. case r of Some e \<Rightarrow> Q (Some e) w' | None \<Rightarrow> wp n Q w') w"
  by (simp add: then_ok_def wp_def split: prod.split option.split)

lemma wp_then_get [agent_wp]: "wp (then_get m f) Q w = wp m (\<lambda>r w'. case r of Inl e \<Rightarrow> Q (Some e) w' | Inr a \<Rightarrow> wp (f a) Q w') w"
  by (simp add: then_get_def wp_def split: prod.split sum.split)

lemma wp_mono: "wp m Q w \<Longrightarrow> (\<And>a w'. Q a w' \<Longrightarrow> Q' a w') \<Longrightarrow> wp m Q' w"
  by (simp add: wp_def split: prod.splits)

lemma wp_conj: "wp m Q w \<Longrightarrow> wp m R w \<Longrightarrow> wp m (\<lambda>a w'. Q a w' \<and> R a w') w"
  by (simp add: wp_def split: prod.splits)

text \<open>The events a run adds.\<close>

definition adds :: "(trace \<Rightarrow> bool) \<Rightarrow> agent_world \<Rightarrow> agent_world \<Rightarrow> bool" where
  "adds P w w' \<longleftrightarrow> (\<exists>evs. aw_trace w' = evs @ aw_trace w \<and> P evs)"

end
