(* ===== verification/Agent_Postgres.thy ===== *)
theory Agent_Postgres
  imports Agent_World
begin

text \<open>
  \<open>internal/agent/pgdiff.go\<close>: preparing a Project whose databases archive through the repo host, and
  proving that they do. Waiting until PostgreSQL accepts connections is the call \<open>WaitPostgres\<close>; a command
  in a container answers with its exit code, output and error output.
\<close>

definition pgBlockedNoRepository :: string where "pgBlockedNoRepository = ''BackupRepositoryUnavailable''"
definition pgBlockedVersionMismatch :: string where "pgBlockedVersionMismatch = ''PgBackRestVersionMismatch''"
definition pgBlockedArchiving :: string where "pgBlockedArchiving = ''ArchivingNotReady''"
definition pgBlockedPlacement :: string where "pgBlockedPlacement = ''PostgresPlacementPending''"
definition pgArchiveTimeout :: string where "pgArchiveTimeout = ''1min''"

record pgDatabase =
  db_service :: string
  db_volume :: string
  db_image :: string
  db_stanza :: string
  db_retainFull :: int

definition NetworkName :: "string \<Rightarrow> string" where "NetworkName projectName = ''cara-'' @ projectName"
definition ContainerName :: "string \<Rightarrow> string \<Rightarrow> string" where
  "ContainerName projectName serviceName = projectName @ ''-'' @ serviceName"

text \<open>The last item of a volume sets its retention.\<close>

definition pg_retain :: "ProjectSpec \<Rightarrow> string \<rightharpoonup> int" where
  "pg_retain spec = (case spec_Backup spec of
       None \<Rightarrow> Map.empty
     | Some b \<Rightarrow> map_of (rev (map (\<lambda>i. (bi_Volume i, EffectiveRetainFull i))
         (filter (\<lambda>i. bi_Strategy i = BackupStrategyPostgresDifferential) (pbc_Items b)))))"

definition postgresDatabases :: "Project \<Rightarrow> pgDatabase list" where
  "postgresDatabases p =
     (if \<not> HasPostgresDifferential (prj_Spec p) then []
      else concat (map (\<lambda>svc. concat (map (\<lambda>vm. case pg_retain (prj_Spec p) (vm_Name vm) of
           None \<Rightarrow> []
         | Some n \<Rightarrow> [\<lparr>db_service = svc_Name svc, db_volume = vm_Name vm, db_image = svc_Image svc,
                       db_stanza = StanzaName (meta_UID (prj_Meta p)) (vm_Name vm), db_retainFull = n\<rparr>])
         (svc_VolumeMounts svc))) (spec_Services (prj_Spec p))))"

definition no_repository :: agent_error where
  "no_repository = pgBlockedError pgBlockedNoRepository
     ''this Node has no object store configured, so it cannot run the pgBackRest repo host''"

definition has_repository :: "agent_env \<Rightarrow> bool" where
  "has_repository env \<longleftrightarrow> (case ae_backups env of None \<Rightarrow> False | Some b \<Rightarrow> bs_RepoHost b)"

definition authorize_repo :: "agent_env \<Rightarrow> Project \<Rightarrow> pgDatabase list \<Rightarrow> agent_error option agent" where
  "authorize_repo env p dbs = do {
     r \<leftarrow> perform env (Authorize (meta_UID (prj_Meta p)) (map db_stanza dbs) (NetworkName (meta_Name (prj_Meta p))) (db_image (hd dbs)));
     State_Monad.return (case r of
         Some e \<Rightarrow> Some (if error_is ErrRepositoryNotHTTPS e then pgBlockedError pgBlockedNoRepository (agent_error_text e) else e)
       | None \<Rightarrow> None) }"

definition preparePostgresDifferential :: "agent_env \<Rightarrow> Project \<Rightarrow> agent_error option agent" where
  "preparePostgresDifferential env p = (let dbs = postgresDatabases p; uid = meta_UID (prj_Meta p) in
     if length dbs = 0 then State_Monad.return None
     else if \<not> has_repository env then State_Monad.return (Some no_repository)
     else then_ok (perform env (IssueClientIdentity uid (db_image (hd dbs))))
         (then_ok (perform env (WriteClientConfig uid (map (\<lambda>d. (db_stanza d, db_retainFull d)) dbs)))
         (then_ok (perform env (EnsureProjectNetwork p)) (authorize_repo env p dbs))))"

definition execOK :: "agent_env \<Rightarrow> string \<Rightarrow> string list \<Rightarrow> (agent_error \<times> string + string) agent" where
  "execOK env container cmd = do {
     r \<leftarrow> pg_exec env container cmd;
     State_Monad.return (case r of
         Inl e \<Rightarrow> Inl (e, '''')
       | Inr (code, out, err) \<Rightarrow> if code \<noteq> 0
           then Inl (ErrText (hd cmd @ '' exited '' @ FormatInt code @ '': '' @ TrimSpace err), out)
           else Inr out) }"

definition exec_err :: "agent_env \<Rightarrow> string \<Rightarrow> string list \<Rightarrow> (agent_error + string) agent" where
  "exec_err env container cmd = do {
     r \<leftarrow> execOK env container cmd;
     State_Monad.return (case r of Inl (e, out) \<Rightarrow> Inl e | Inr out \<Rightarrow> Inr out) }"

definition psql_line :: string where
  "psql_line = ''psql -X -qtA -U '' @ go_quote ''${POSTGRES_USER:-postgres}'' @ '' -d postgres -c '' @ go_quote ''$1''"

definition psql :: "agent_env \<Rightarrow> string \<Rightarrow> string \<Rightarrow> (agent_error + string) agent" where
  "psql env container sql = do {
     r \<leftarrow> exec_err env container [''sh'', ''-c'', psql_line, ''psql'', sql];
     State_Monad.return (case r of Inl e \<Rightarrow> Inl e | Inr out \<Rightarrow> Inr (TrimSpace out)) }"

definition archiveCommand :: "string \<Rightarrow> string" where
  "archiveCommand stanza = ''pgbackrest --stanza='' @ stanza @ '' archive-push %p''"

definition quoted :: "string \<Rightarrow> string" where "quoted s = [CHR 0x27] @ s @ [CHR 0x27]"

definition set_timeout :: "agent_env \<Rightarrow> string \<Rightarrow> string \<Rightarrow> agent_error option agent" where
  "set_timeout env container timeout =
     (if timeout = pgArchiveTimeout then State_Monad.return None
      else then_get (psql env container (''ALTER SYSTEM SET archive_timeout = '' @ quoted pgArchiveTimeout)) (\<lambda>_.
           then_get (psql env container ''SELECT pg_reload_conf()'') (\<lambda>_. State_Monad.return None)))"

definition turn_archiving_on :: "agent_env \<Rightarrow> string \<Rightarrow> string \<Rightarrow> agent_error option agent" where
  "turn_archiving_on env container stanza =
     then_get (psql env container (''ALTER SYSTEM SET archive_mode = '' @ quoted ''on'')) (\<lambda>_.
     then_get (psql env container (''ALTER SYSTEM SET archive_command = '' @ quoted (archiveCommand stanza))) (\<lambda>_.
     then_ok (perform env (RestartContainer container))
     (then_ok (perform env (WaitPostgres container))
     (then_get (psql env container ''SHOW archive_mode'') (\<lambda>mode.
       State_Monad.return (if mode \<noteq> ''on''
         then Some (pgBlockedError pgBlockedArchiving (''archive_mode is '' @ mode @ '' after the restart'')) else None))))))"

definition enableArchiving :: "agent_env \<Rightarrow> string \<Rightarrow> string \<Rightarrow> agent_error option agent" where
  "enableArchiving env container stanza =
     then_get (psql env container ''SHOW archive_mode'') (\<lambda>mode.
     then_get (psql env container ''SHOW archive_command'') (\<lambda>command.
     then_get (psql env container ''SHOW archive_timeout'') (\<lambda>timeout.
     then_ok (set_timeout env container timeout)
       (if mode = ''on'' \<and> command = archiveCommand stanza then State_Monad.return None
        else turn_archiving_on env container stanza))))"

definition pgbackrest_step :: "agent_env \<Rightarrow> string \<Rightarrow> string \<Rightarrow> string \<Rightarrow> string \<Rightarrow> agent_error option agent" where
  "pgbackrest_step env container stanza what cmd = do {
     r \<leftarrow> execOK env container [''pgbackrest'', ''--stanza='' @ stanza, cmd];
     State_Monad.return (case r of
         Inl (e, out) \<Rightarrow> Some (pgBlockedError pgBlockedArchiving (what @ '' for '' @ stanza @ '': '' @ agent_error_text e @ '' '' @ out))
       | Inr _ \<Rightarrow> None) }"

definition finish_db :: "agent_env \<Rightarrow> Project \<Rightarrow> string \<Rightarrow> pgDatabase \<Rightarrow> agent_error option agent" where
  "finish_db env p serverVersion db = (let name = ContainerName (meta_Name (prj_Meta p)) (db_service db) in
     then_ok (perform env (WaitPostgres name))
     (then_get (exec_err env name [''pgbackrest'', ''version'']) (\<lambda>clientVersion.
      if TrimSpace clientVersion \<noteq> serverVersion
      then State_Monad.return (Some (pgBlockedError pgBlockedVersionMismatch (db_service db @ '' runs ''
             @ go_quote (TrimSpace clientVersion) @ '' but the repo host runs '' @ go_quote serverVersion)))
      else then_ok (perform env (RecordStanza (meta_Name (prj_Meta p)) (fenceForProject p) (db_volume db)))
          (then_ok (pgbackrest_step env name (db_stanza db) ''stanza-create'' ''stanza-create'')
          (then_ok (enableArchiving env name (db_stanza db))
            (pgbackrest_step env name (db_stanza db) ''archive check'' ''check''))))))"

fun finish_dbs :: "agent_env \<Rightarrow> Project \<Rightarrow> string \<Rightarrow> pgDatabase list \<Rightarrow> agent_error option agent" where
  "finish_dbs env p serverVersion [] = State_Monad.return None"
| "finish_dbs env p serverVersion (db # dbs) = then_ok (finish_db env p serverVersion db) (finish_dbs env p serverVersion dbs)"

definition finishPostgresDifferential :: "agent_env \<Rightarrow> Project \<Rightarrow> agent_error option agent" where
  "finishPostgresDifferential env p = (let dbs = postgresDatabases p in
     if length dbs = 0 then State_Monad.return None
     else if \<not> has_repository env then State_Monad.return (Some no_repository)
     else then_get (get_version env) (\<lambda>serverVersion. finish_dbs env p serverVersion dbs))"

definition postgresPending :: "Project \<Rightarrow> bool" where
  "postgresPending p \<longleftrightarrow> ps_Phase (prj_Status p) = ProjectPhaseScheduled \<and> HasPostgresDifferential (prj_Spec p)"

end
