(* ===== verification/Agent_Loop.thy ===== *)
theory Agent_Loop
  imports Agent_Postgres
begin

text \<open>
  The handlers of \<open>internal/agent/loop.go\<close> for Scheduled and Running Projects, with \<open>spec_update.go\<close> and
  the rest of \<open>restoresupport.go\<close>. Logging is left out. Starting a background restore of \<open>pgrestore.go\<close> is
  the call \<open>PgRestoreBegun\<close>.
\<close>

subsection \<open>Secrets\<close>

definition secret_ref :: "EnvVar \<Rightarrow> SecretKeySelector option" where
  "secret_ref env = (case env_ValueFrom env of None \<Rightarrow> None | Some vf \<Rightarrow> evs_SecretKeyRef vf)"

fun find_item :: "SecretDataItem list \<Rightarrow> string \<Rightarrow> string option" where
  "find_item [] k = None"
| "find_item (i # is) k = (if sdi_Key i = k then Some (sdi_Value i) else find_item is k)"

type_synonym secret_cache = "(string \<times> Secret) list"

text \<open>One variable: the Secret from the cache or the server, then the key.\<close>

definition fetch_secret :: "agent_env \<Rightarrow> string \<Rightarrow> secret_cache \<Rightarrow> (agent_error + Secret \<times> secret_cache) agent" where
  "fetch_secret env name cache = (case map_of cache name of
       Some secret \<Rightarrow> State_Monad.return (Inr (secret, cache))
     | None \<Rightarrow> do {
         r \<leftarrow> get_secret env name;
         State_Monad.return (case r of Inl e \<Rightarrow> Inl e | Inr secret \<Rightarrow> Inr (secret, (name, secret) # cache)) })"

fun resolve_vars :: "agent_env \<Rightarrow> string \<Rightarrow> EnvVar list \<Rightarrow> secret_cache \<Rightarrow> (agent_error + EnvVar list \<times> secret_cache) agent" where
  "resolve_vars env svc [] cache = State_Monad.return (Inr ([], cache))"
| "resolve_vars env svc (v # vs) cache = (case secret_ref v of
       None \<Rightarrow> do {
         r \<leftarrow> resolve_vars env svc vs cache;
         State_Monad.return (case r of Inl e \<Rightarrow> Inl e | Inr (vs', c) \<Rightarrow> Inr (v # vs', c)) }
     | Some ref \<Rightarrow> do {
         f \<leftarrow> fetch_secret env (sks_Name ref) cache;
         case f of
           Inl e \<Rightarrow> State_Monad.return (Inl (secretRefError svc (env_Name v) (sks_Name ref) (sks_Key ref) e))
         | Inr (secret, cache') \<Rightarrow> (case find_item (ssp_Data (sec_Spec secret)) (sks_Key ref) of
               None \<Rightarrow> State_Monad.return (Inl (secretRefError svc (env_Name v) (sks_Name ref) (sks_Key ref)
                         (Sentinel errSecretKeyNotFound)))
             | Some value \<Rightarrow> do {
                 r \<leftarrow> resolve_vars env svc vs cache';
                 State_Monad.return (case r of Inl e \<Rightarrow> Inl e | Inr (vs', c) \<Rightarrow> Inr (v\<lparr>env_Value := value\<rparr> # vs', c)) }) })"

fun resolve_services :: "agent_env \<Rightarrow> (string \<Rightarrow> bool) \<Rightarrow> ServiceDef list \<Rightarrow> secret_cache \<Rightarrow> (agent_error + ServiceDef list) agent" where
  "resolve_services env incl [] cache = State_Monad.return (Inr [])"
| "resolve_services env incl (s # ss) cache =
     (if \<not> incl (svc_Name s) then do {
        r \<leftarrow> resolve_services env incl ss cache;
        State_Monad.return (case r of Inl e \<Rightarrow> Inl e | Inr ss' \<Rightarrow> Inr (s # ss')) }
      else do {
        v \<leftarrow> resolve_vars env (svc_Name s) (svc_Env s) cache;
        case v of
          Inl e \<Rightarrow> State_Monad.return (Inl e)
        | Inr (vs, cache') \<Rightarrow> do {
            r \<leftarrow> resolve_services env incl ss cache';
            State_Monad.return (case r of Inl e \<Rightarrow> Inl e | Inr ss' \<Rightarrow> Inr (s\<lparr>svc_Env := vs\<rparr> # ss')) } })"

definition resolveSecretsFor :: "agent_env \<Rightarrow> Project \<Rightarrow> (string \<Rightarrow> bool) \<Rightarrow> (agent_error + Project) agent" where
  "resolveSecretsFor env p incl =
     (if \<not> list_ex (\<lambda>s. incl (svc_Name s) \<and> list_ex (\<lambda>v. secret_ref v \<noteq> None) (svc_Env s)) (spec_Services (prj_Spec p))
      then State_Monad.return (Inr p)
      else do {
        r \<leftarrow> resolve_services env incl (spec_Services (prj_Spec p)) [];
        State_Monad.return (case r of Inl e \<Rightarrow> Inl e
          | Inr ss \<Rightarrow> Inr (p\<lparr>prj_Spec := (prj_Spec p)\<lparr>spec_Services := ss\<rparr>\<rparr>)) })"

definition resolveSecrets :: "agent_env \<Rightarrow> Project \<Rightarrow> (agent_error + Project) agent" where
  "resolveSecrets env p = resolveSecretsFor env p (\<lambda>_. True)"

definition recoveryBlockedVolumeUnavailable :: string where "recoveryBlockedVolumeUnavailable = ''VolumeUnavailable''"
definition recoveryBlockedSecretNotFound :: string where "recoveryBlockedSecretNotFound = ''SecretNotFound''"
definition recoveryBlockedSecretKeyNotFound :: string where "recoveryBlockedSecretKeyNotFound = ''SecretKeyNotFound''"
definition recoveryBlockedStaleContainer :: string where "recoveryBlockedStaleContainer = ''StaleContainer''"

text \<open>\<open>errors.As\<close> for the error types the messages look for.\<close>

fun as_secret_ref :: "agent_error \<Rightarrow> (string \<times> string \<times> string) option" where
  "as_secret_ref (secretRefError svc env sec key e) = Some (svc, sec, key)"
| "as_secret_ref (ErrWrap _ e) = as_secret_ref e"
| "as_secret_ref (ErrMore e _) = as_secret_ref e"
| "as_secret_ref _ = None"

fun as_not_owned :: "agent_error \<Rightarrow> string option" where
  "as_not_owned (ContainerNotOwnedError ctr svc lbl want got) = Some svc"
| "as_not_owned (ErrWrap _ e) = as_not_owned e"
| "as_not_owned (ErrMore e _) = as_not_owned e"
| "as_not_owned _ = None"

fun as_volume_unavailable :: "agent_error \<Rightarrow> (string \<times> VolumeType \<times> string) option" where
  "as_volume_unavailable (VolumeUnavailableError svc vol ty d) = Some (svc, ty, vol)"
| "as_volume_unavailable (ErrWrap _ e) = as_volume_unavailable e"
| "as_volume_unavailable (ErrMore e _) = as_volume_unavailable e"
| "as_volume_unavailable _ = None"

fun as_placement_blocked :: "agent_error \<Rightarrow> (BlockReason \<times> string) option" where
  "as_placement_blocked (PlacementBlockedError r d) = Some (r, d)"
| "as_placement_blocked (ErrWrap _ e) = as_placement_blocked e"
| "as_placement_blocked (ErrMore e _) = as_placement_blocked e"
| "as_placement_blocked _ = None"

definition secretBlocked :: "agent_error \<Rightarrow> (string \<times> string) option" where
  "secretBlocked e = (case as_secret_ref e of
       None \<Rightarrow> None
     | Some (svc, sec, key) \<Rightarrow>
         if error_is ErrSecretNotFound e
         then Some (recoveryBlockedSecretNotFound,
                ''service '' @ go_quote svc @ '' needs Secret '' @ go_quote sec @ '', which does not exist'')
         else if error_is errSecretKeyNotFound e
         then Some (recoveryBlockedSecretKeyNotFound,
                ''service '' @ go_quote svc @ '' needs key '' @ go_quote key @ '' in Secret '' @ go_quote sec
                @ '', which does not exist'')
         else None)"

definition volumeBlockedMessage :: "agent_error \<Rightarrow> string" where
  "volumeBlockedMessage e = (case as_volume_unavailable e of
       Some (svc, ty, vol) \<Rightarrow> ''service '' @ go_quote svc @ '' needs '' @ volume_type_text ty @ '' volume '' @ go_quote vol
         @ '', which is not available on this node''
     | None \<Rightarrow> ''a volume the services need is not available on this node'')"

definition staleContainerMessage :: "agent_error \<Rightarrow> string" where
  "staleContainerMessage e = (case as_not_owned e of
       Some svc \<Rightarrow> ''service '' @ go_quote svc
         @ '' has a container left by another assignment, which cara will neither start nor remove''
     | None \<Rightarrow> ''a service has a container left by another assignment, which cara will neither start nor remove'')"

subsection \<open>Reports\<close>

definition projectCondition :: "Project \<Rightarrow> ConditionType \<Rightarrow> Condition option" where
  "projectCondition p ct = find (\<lambda>c. cond_Type c = ct) (ps_Conditions (prj_Status p))"

definition report_blocked :: "ConditionType \<Rightarrow> agent_env \<Rightarrow> Project \<Rightarrow> string \<Rightarrow> string \<Rightarrow> unit agent" where
  "report_blocked ct env p reason message =
     (if (case projectCondition p ct of None \<Rightarrow> False
          | Some c \<Rightarrow> cond_Status c = ConditionTrue \<and> cond_Reason c = reason \<and> cond_Message c = message)
      then skip
      else do {
        _ \<leftarrow> perform env (PatchProjectCondition (meta_Name (prj_Meta p)) (fenceForProject p) ct ConditionTrue reason message);
        skip })"

definition clear_blocked :: "ConditionType \<Rightarrow> agent_env \<Rightarrow> Project \<Rightarrow> unit agent" where
  "clear_blocked ct env p =
     (if projectCondition p ct = None then skip
      else do {
        _ \<leftarrow> perform env (ClearProjectCondition (meta_Name (prj_Meta p)) (fenceForProject p) ct);
        skip })"

definition reportRecoveryBlocked :: "agent_env \<Rightarrow> Project \<Rightarrow> string \<Rightarrow> string \<Rightarrow> unit agent" where
  "reportRecoveryBlocked = report_blocked ConditionTypeRecoveryBlocked"

definition clearRecoveryBlocked :: "agent_env \<Rightarrow> Project \<Rightarrow> unit agent" where
  "clearRecoveryBlocked = clear_blocked ConditionTypeRecoveryBlocked"

definition reportTeardownBlocked :: "agent_env \<Rightarrow> Project \<Rightarrow> string \<Rightarrow> string \<Rightarrow> unit agent" where
  "reportTeardownBlocked = report_blocked ConditionTypeTeardownBlocked"

definition clearTeardownBlocked :: "agent_env \<Rightarrow> Project \<Rightarrow> unit agent" where
  "clearTeardownBlocked = clear_blocked ConditionTypeTeardownBlocked"

definition report_phase :: "agent_env \<Rightarrow> Project \<Rightarrow> ProjectPhase \<Rightarrow> string \<Rightarrow> string \<Rightarrow> agent_error option agent" where
  "report_phase env p phase reason message =
     perform env (UpdateProjectStatus (meta_Name (prj_Meta p)) (fenceForProject p) phase reason message)"

definition report_failed :: "agent_env \<Rightarrow> Project \<Rightarrow> string \<Rightarrow> string \<Rightarrow> unit agent" where
  "report_failed env p reason message = do { _ \<leftarrow> report_phase env p ProjectPhaseFailed reason message; skip }"

definition reportSpecRunning :: "agent_env \<Rightarrow> Project \<Rightarrow> unit agent" where
  "reportSpecRunning env p =
     (if meta_SpecRevision (prj_Meta p) = 0 \<or> ps_ObservedSpecRevision (prj_Status p) \<ge> meta_SpecRevision (prj_Meta p) then skip
      else do {
        _ \<leftarrow> perform env (ReportSpecApplied (meta_Name (prj_Meta p)) (fenceForProject p) (meta_SpecRevision (prj_Meta p)) True '''' '''');
        skip })"

definition updateProxyRoutes :: "agent_env \<Rightarrow> Project \<Rightarrow> unit agent" where
  "updateProxyRoutes env p =
     (if \<not> ae_hasRoutes env then skip
      else if length (spec_Ingress (prj_Spec p)) = 0 then note_event (RoutesRemoved (meta_Name (prj_Meta p)))
      else do {
        r \<leftarrow> get_ips env p;
        case r of Inl e \<Rightarrow> skip | Inr ips \<Rightarrow> note_event (RoutesUpdated p ips) })"

datatype staleCheck = staleNone | staleBlocked | staleUnknown

definition checkStaleContainers :: "agent_env \<Rightarrow> Project \<Rightarrow> staleCheck agent" where
  "checkStaleContainers env p = do {
     r \<leftarrow> get_stale env p;
     case r of
       Inl e \<Rightarrow> State_Monad.return staleUnknown
     | Inr [] \<Rightarrow> State_Monad.return staleNone
     | Inr (c # cs) \<Rightarrow> do {
         reportRecoveryBlocked env p recoveryBlockedStaleContainer (staleContainerMessage (sc_Reason c));
         State_Monad.return staleBlocked } }"

subsection \<open>restoresupport.go\<close>

definition agent_hasManagedVolume :: "VolumeDef list \<Rightarrow> bool" where
  "agent_hasManagedVolume volumes \<longleftrightarrow> list_ex (\<lambda>v. vol_Type v = VolumeTypeManaged) volumes"

definition runRestore :: "restore_env \<Rightarrow> restore_Config \<Rightarrow> Project \<Rightarrow> (host, unit) op" where
  "runRestore renv restorer p = (let backupID = CommittedBackupID (ps_Recovery (prj_Status p)) in
     if backupID = '''' then op_fail (PlacementBlockedError BlockNoRestoreSource
       ''this Project has been placed before, but the server has no committed backup to restore from'')
     else RestoreGeneration renv restorer p backupID)"

text \<open>
  The work under the claim; the second component says whether a background restore keeps the claim.
\<close>

definition place_data :: "agent_env \<Rightarrow> backup_support \<Rightarrow> restore_Config \<Rightarrow> Project \<Rightarrow> (agent_error option \<times> bool) agent" where
  "place_data env b restorer p = do {
     renv \<leftarrow> State (\<lambda>w. (ae_restore env (aw_trace w), w));
     r \<leftarrow> on_host (decideRestore (re_marker renv) (bs_DataRoot b) (ProvenanceFor p (bs_NodeName b) '''') p);
     case r of
       Inl e \<Rightarrow> State_Monad.return (Some e, False)
     | Inr oc \<Rightarrow> (case oc_Decision oc of
           DecisionBlock \<Rightarrow> State_Monad.return (Some (PlacementBlockedError (oc_Reason oc) (oc_Detail oc)), False)
         | DecisionSkip \<Rightarrow> State_Monad.return (None, False)
         | DecisionInitializeEmpty \<Rightarrow> do {
             i \<leftarrow> on_host (InitializeEmpty renv restorer p);
             State_Monad.return (case i of Inl e \<Rightarrow> Some e | Inr _ \<Rightarrow> None, False) }
         | DecisionRestore \<Rightarrow>
             if HasPostgresDifferential (prj_Spec p) then
               (if \<not> bs_pgRestore b
                then State_Monad.return (Some (PlacementBlockedError BlockStrategyRestoreUnavailable
                  ''this Project's PostgresDifferential data would have to be restored from the object store, which this Node has none configured to reach''), False)
                else ask (\<lambda>tr. ae_pgRestoreBegin env tr p) (\<lambda>(e, took). PgRestoreBegun p e took))
             else do {
               x \<leftarrow> on_host (runRestore renv restorer p);
               State_Monad.return (case x of Inl e \<Rightarrow> Some e | Inr _ \<Rightarrow> None, False) }) }"

definition ensureVolumeData :: "agent_env \<Rightarrow> backup_support \<Rightarrow> Project \<Rightarrow> agent_error option agent" where
  "ensureVolumeData env b p = (case bs_Restorer b of
       None \<Rightarrow> State_Monad.return None
     | Some restorer \<Rightarrow>
         if \<not> bs_Coordinator b then State_Monad.return None
         else if \<not> agent_hasManagedVolume (spec_Volumes (prj_Spec p)) then State_Monad.return None
         else if \<not> bs_ObjectStore b \<and> \<not> HasPostgresDifferential (prj_Spec p) then State_Monad.return None
         else do {
           ok \<leftarrow> try_claim env (key_of p) OpRestore;
           if \<not> ok then State_Monad.return (Some (Sentinel errDeferred))
           else do {
             (err, handedOff) \<leftarrow> place_data env b restorer p;
             if handedOff then State_Monad.return err
             else do { release_claim env (key_of p); State_Monad.return err } } })"

subsection \<open>reconcileOne\<close>


definition reconcileContainers :: "agent_env \<Rightarrow> Project \<Rightarrow> Project \<Rightarrow> bool agent" where
  "reconcileContainers env p resolved = do {
     r \<leftarrow> perform env (ReconcileProject resolved);
     case r of
       None \<Rightarrow> State_Monad.return True
     | Some e \<Rightarrow>
         if error_is ErrContainerNotOwned e then do {
           reportRecoveryBlocked env p recoveryBlockedStaleContainer (staleContainerMessage e);
           State_Monad.return False }
         else do {
           report_failed env p ''ReconcileError'' (agent_error_text e);
           State_Monad.return False } }"

fun as_pg_blocked :: "agent_error \<Rightarrow> (string \<times> string) option" where
  "as_pg_blocked (pgBlockedError r d) = Some (r, d)"
| "as_pg_blocked (ErrWrap _ e) = as_pg_blocked e"
| "as_pg_blocked (ErrMore e _) = as_pg_blocked e"
| "as_pg_blocked _ = None"

definition reportPostgresBlocked :: "agent_env \<Rightarrow> Project \<Rightarrow> agent_error \<Rightarrow> unit agent" where
  "reportPostgresBlocked env p e = (case as_pg_blocked e of
       Some (reason, detail) \<Rightarrow> reportRecoveryBlocked env p reason detail
     | None \<Rightarrow> reportRecoveryBlocked env p pgBlockedPlacement (agent_error_text e))"

definition place_steps :: "agent_env \<Rightarrow> Project \<Rightarrow> bool agent option \<Rightarrow> bool agent" where
  "place_steps env p start =
     (if \<not> ae_pgRuntime env then do {
        reportRecoveryBlocked env p pgBlockedNoRepository ''this Node's container runtime cannot run commands in containers'';
        State_Monad.return False }
      else let finish = do {
          f \<leftarrow> finishPostgresDifferential env p;
          case f of
            Some e \<Rightarrow> do { reportPostgresBlocked env p e; State_Monad.return False }
          | None \<Rightarrow> do { clearRecoveryBlocked env p; State_Monad.return True } }
        in case start of
          None \<Rightarrow> finish
        | Some st \<Rightarrow> do {
            r \<leftarrow> preparePostgresDifferential env p;
            case r of
              Some e \<Rightarrow> do { reportPostgresBlocked env p e; State_Monad.return False }
            | None \<Rightarrow> do { ok \<leftarrow> st; if ok then finish else State_Monad.return False } })"

definition placePostgres :: "agent_env \<Rightarrow> Project \<Rightarrow> bool agent option \<Rightarrow> bool agent" where
  "placePostgres env p start = claiming env (key_of p) OpPlacement False (place_steps env p start)"

definition outdatedWhilePlacing :: "agent_env \<Rightarrow> Project \<Rightarrow> bool agent" where
  "outdatedWhilePlacing env p = do {
     r \<leftarrow> get_drift env p;
     State_Monad.return (case r of Inl e \<Rightarrow> True | Inr d \<Rightarrow> drift_Changes d) }"

text \<open>Reporting Running, and the routes after it whatever the report returned.\<close>

definition report_running :: "agent_env \<Rightarrow> Project \<Rightarrow> unit agent" where
  "report_running env p = do {
     r \<leftarrow> report_phase env p ProjectPhaseRunning ''ContainersRunning'' ''All containers running'';
     (case r of None \<Rightarrow> reportSpecRunning env p | Some e \<Rightarrow> skip);
     updateProxyRoutes env p }"

definition start_containers :: "agent_env \<Rightarrow> Project \<Rightarrow> Project \<Rightarrow> unit agent" where
  "start_containers env p resolved = do {
     ok \<leftarrow> (if postgresPending p then placePostgres env p (Some (reconcileContainers env p resolved))
            else reconcileContainers env p resolved);
     if ok then report_running env p else skip }"

definition place_and_start :: "agent_env \<Rightarrow> Project \<Rightarrow> Project \<Rightarrow> unit agent" where
  "place_and_start env p resolved = (case ae_backups env of
       None \<Rightarrow> start_containers env p resolved
     | Some b \<Rightarrow> do {
         err \<leftarrow> ensureVolumeData env b p;
         case err of
           None \<Rightarrow> do {
             (if postgresPending p then skip else clearRecoveryBlocked env p);
             start_containers env p resolved }
         | Some e \<Rightarrow>
             if error_is errDeferred e then skip
             else (case as_placement_blocked e of
                 Some (reason, detail) \<Rightarrow> reportRecoveryBlocked env p (block_reason_text reason) detail
               | None \<Rightarrow> report_failed env p ''RestoreError'' (agent_error_text e)) })"

definition exited_badly :: "ContainerState list \<Rightarrow> string list" where
  "exited_badly states = map (\<lambda>s. cs_ServiceName s @ ''(exit='' @ FormatInt (cs_ExitCode s) @ '')'')
     (filter (\<lambda>s. cs_Status s = ''exited'' \<and> cs_ExitCode s \<noteq> 0) states)"

definition reconcile_missing :: "agent_env \<Rightarrow> Project \<Rightarrow> unit agent" where
  "reconcile_missing env p = do {
     r \<leftarrow> resolveSecrets env p;
     case r of
       Inl e \<Rightarrow>
         if error_is ErrSecretNotFound e then report_failed env p ''SecretNotFound'' (agent_error_text e)
         else if error_is errSecretKeyNotFound e then report_failed env p ''SecretKeyNotFound'' (agent_error_text e)
         else skip
     | Inr resolved \<Rightarrow> place_and_start env p resolved }"

definition reconcile_states :: "agent_env \<Rightarrow> Project \<Rightarrow> ContainerState list \<Rightarrow> unit agent" where
  "reconcile_states env p states = (case find (\<lambda>s. cs_NotOwned s \<noteq> None) states of
       Some s \<Rightarrow> reportRecoveryBlocked env p recoveryBlockedStaleContainer (staleContainerMessage (the (cs_NotOwned s)))
     | None \<Rightarrow>
         if length (exited_badly states) > 0
         then report_failed env p ''ContainerExited'' (''Containers exited with errors: '' @ strings_Join (exited_badly states) '', '')
         else let runningCount = length (filter (\<lambda>s. cs_Status s = ''running'') states) in do {
           up \<leftarrow> (if runningCount = length (spec_Services (prj_Spec p)) \<and> length (spec_Services (prj_Spec p)) > 0
                  then do { outdated \<leftarrow> outdatedWhilePlacing env p; State_Monad.return (\<not> outdated) }
                  else State_Monad.return False);
           if up then do {
             ok \<leftarrow> (if postgresPending p then placePostgres env p None else State_Monad.return True);
             if ok then report_running env p else skip }
           else reconcile_missing env p })"

definition reconcileOne :: "agent_env \<Rightarrow> Project \<Rightarrow> unit agent" where
  "reconcileOne env p = do {
     stale \<leftarrow> checkStaleContainers env p;
     if stale \<noteq> staleNone then skip
     else do {
       r \<leftarrow> get_states env p;
       case r of
         Inl e \<Rightarrow> report_failed env p ''InspectError'' (agent_error_text e)
       | Inr states \<Rightarrow> reconcile_states env p states } }"

end
