(* ===== verification/Agent_Health.thy ===== *)
theory Agent_Health
  imports Agent_Loop
begin

text \<open>
  What the poll loop does with a Running Project: \<open>healthCheckOne\<close> and \<open>recoverLocally\<close> of \<open>loop.go\<close> and
  \<open>applySpecUpdate\<close> of \<open>spec_update.go\<close>.
\<close>

definition phase_name :: "ProjectPhase \<Rightarrow> string" where "phase_name = phase_text"

definition checkRecoveryFence :: "Project \<Rightarrow> Project \<Rightarrow> string \<Rightarrow> agent_error option" where
  "checkRecoveryFence observed current nodeName =
     (let om = prj_Meta observed; cm = prj_Meta current in
      if meta_Namespace cm \<noteq> meta_Namespace om \<or> meta_Name cm \<noteq> meta_Name om
      then Some (ErrText (''project identity changed from '' @ meta_Namespace om @ ''/'' @ meta_Name om
             @ '' to '' @ meta_Namespace cm @ ''/'' @ meta_Name cm))
      else if meta_UID cm \<noteq> meta_UID om
      then Some (ErrText (''project UID changed from '' @ go_quote (meta_UID om) @ '' to '' @ go_quote (meta_UID cm)))
      else if ps_AssignmentGeneration (prj_Status current) \<noteq> ps_AssignmentGeneration (prj_Status observed)
      then Some (ErrText (''assignment generation changed from '' @ FormatInt (ps_AssignmentGeneration (prj_Status observed))
             @ '' to '' @ FormatInt (ps_AssignmentGeneration (prj_Status current))))
      else if ps_NodeRef (prj_Status current) \<noteq> nodeName
      then Some (ErrText (''project is assigned to node '' @ go_quote (ps_NodeRef (prj_Status current))
             @ '', not this node '' @ go_quote nodeName))
      else if ps_Phase (prj_Status current) \<noteq> ProjectPhaseRunning
      then Some (ErrText (''project phase is '' @ phase_name (ps_Phase (prj_Status current)) @ '', not Running''))
      else None)"

subsection \<open>recoverLocally\<close>

text \<open>The last step: an attempt is counted and made, or the budget is spent.\<close>

definition attempt_recovery :: "agent_env \<Rightarrow> Project \<Rightarrow> Project \<Rightarrow> Project \<Rightarrow> serviceState list \<Rightarrow> unit agent" where
  "attempt_recovery env p current resolved bad = do {
     now \<leftarrow> now_of env;
     t \<leftarrow> get_recovery;
     (let (d, t') = recovery_next now (keyForProject p) (the t) in do {
        on_recovery (\<lambda>_. t');
        case d of
          recoveryWait \<Rightarrow> skip
        | recoveryExhausted \<Rightarrow> report_failed env current ''LocalRestartExhausted''
            (''Local recovery exhausted after '' @ FormatInt maxRecoveryAttempts @ '' attempts: '' @ detailList bad)
        | recoveryAttempt \<Rightarrow> do { _ \<leftarrow> perform env (RecoverServices resolved (serviceNames bad)); skip } }) }"

definition recover_resolved :: "agent_env \<Rightarrow> Project \<Rightarrow> Project \<Rightarrow> serviceState list \<Rightarrow> unit agent" where
  "recover_resolved env p current bad = do {
     r \<leftarrow> resolveSecretsFor env current (\<lambda>service. service \<in> set (serviceNames bad));
     case r of
       Inl e \<Rightarrow> (case secretBlocked e of
           Some (reason, message) \<Rightarrow> reportRecoveryBlocked env current reason message
         | None \<Rightarrow> skip)
     | Inr resolved \<Rightarrow> do {
         clearRecoveryBlocked env current;
         attempt_recovery env p current resolved bad } }"

definition recover_current :: "agent_env \<Rightarrow> Project \<Rightarrow> Project \<Rightarrow> serviceState list \<Rightarrow> unit agent" where
  "recover_current env p current bad = do {
     now \<leftarrow> now_of env;
     if checkRecoveryFence p current (ae_NodeName env) \<noteq> None then skip
     else if IsMaintenanceActive (ps_Conditions (prj_Status current)) now then skip
     else do {
       r \<leftarrow> perform env (PreflightRecovery current (serviceNames bad));
       case r of
         Some e \<Rightarrow>
           if error_is ErrRecoveryVolumeUnavailable e
           then reportRecoveryBlocked env current recoveryBlockedVolumeUnavailable (volumeBlockedMessage e)
           else if error_is ErrContainerNotOwned e
           then reportRecoveryBlocked env current recoveryBlockedStaleContainer (staleContainerMessage e)
           else skip
       | None \<Rightarrow> recover_resolved env p current bad } }"

definition recoverLocally :: "agent_env \<Rightarrow> Project \<Rightarrow> serviceState list \<Rightarrow> unit agent" where
  "recoverLocally env p bad = claiming env (key_of p) OpRecovery () (do {
     r \<leftarrow> get_project env (meta_Name (prj_Meta p));
     case r of Inl e \<Rightarrow> skip | Inr current \<Rightarrow> recover_current env p current bad })"

subsection \<open>applySpecUpdate\<close>

definition reasonSpecUpdateFailed :: string where "reasonSpecUpdateFailed = ''SpecUpdateFailed''"
definition ReasonImagePullFailed :: string where "ReasonImagePullFailed = ''ImagePullFailed''"

definition specUpdateNeeded :: "Project \<Rightarrow> SpecDrift \<Rightarrow> bool" where
  "specUpdateNeeded p drift \<longleftrightarrow> drift_Changes drift
     \<or> ps_ObservedSpecRevision (prj_Status p) < meta_SpecRevision (prj_Meta p) \<and> length (sd_Missing drift) > 0"

text \<open>Without a tracker a failed attempt counts as the first.\<close>

definition note_update_failed :: "agent_env \<Rightarrow> Project \<Rightarrow> int \<Rightarrow> bool \<Rightarrow> int agent" where
  "note_update_failed env p revision stoppedSomething = do {
     now \<leftarrow> now_of env;
     t \<leftarrow> get_recovery;
     case t of
       None \<Rightarrow> State_Monad.return 1
     | Some rt \<Rightarrow> (let (n, rt') = specUpdateFailed now (keyForProject p) revision stoppedSomething rt in do {
         on_recovery (\<lambda>_. rt');
         State_Monad.return n }) }"

definition report_spec :: "agent_env \<Rightarrow> Project \<Rightarrow> bool \<Rightarrow> string \<Rightarrow> string \<Rightarrow> unit agent" where
  "report_spec env current applied reason message = do {
     _ \<leftarrow> perform env (ReportSpecApplied (meta_Name (prj_Meta current)) (fenceForProject current)
            (meta_SpecRevision (prj_Meta current)) applied reason message);
     skip }"

definition update_failed :: "agent_env \<Rightarrow> Project \<Rightarrow> Project \<Rightarrow> agent_error \<Rightarrow> unit agent" where
  "update_failed env p current e = (let revision = meta_SpecRevision (prj_Meta current) in
     if error_is ErrImagePull e then do {
       _ \<leftarrow> note_update_failed env p revision False;
       report_spec env current False ReasonImagePullFailed (agent_error_text e) }
     else if error_is ErrContainerNotOwned e
     then reportRecoveryBlocked env current recoveryBlockedStaleContainer (staleContainerMessage e)
     else do {
       failures \<leftarrow> note_update_failed env p revision True;
       report_spec env current False reasonSpecUpdateFailed (''attempt '' @ FormatInt failures @ '' of ''
         @ FormatInt maxSpecUpdateAttempts @ '': '' @ agent_error_text e);
       if failures \<ge> maxSpecUpdateAttempts
       then report_failed env current reasonSpecUpdateFailed (''Spec revision '' @ FormatInt revision
              @ '' could not be applied after '' @ FormatInt failures @ '' attempts: '' @ agent_error_text e)
       else skip })"

definition update_services :: "agent_env \<Rightarrow> Project \<Rightarrow> Project \<Rightarrow> Project \<Rightarrow> SpecDrift \<Rightarrow> (bool \<times> bool) agent" where
  "update_services env p current resolved drift = do {
     r \<leftarrow> perform env (UpdateServices resolved drift);
     case r of
       Some e \<Rightarrow> do { update_failed env p current e; State_Monad.return (True, False) }
     | None \<Rightarrow> do {
         on_recovery (specUpdateSucceeded (keyForProject p));
         report_spec env current True '''' '''';
         updateProxyRoutes env current;
         State_Monad.return (True, True) } }"

definition update_drift :: "agent_env \<Rightarrow> Project \<Rightarrow> Project \<Rightarrow> SpecDrift \<Rightarrow> (bool \<times> bool) agent" where
  "update_drift env p current drift = do {
     r \<leftarrow> resolveSecrets env current;
     case r of
       Inl e \<Rightarrow> (case secretBlocked e of
           Some (reason, message) \<Rightarrow> do {
             _ \<leftarrow> note_update_failed env p (meta_SpecRevision (prj_Meta current)) False;
             report_spec env current False reason message;
             State_Monad.return (True, False) }
         | None \<Rightarrow> State_Monad.return (True, False))
     | Inr resolved \<Rightarrow> update_services env p current resolved drift }"

definition update_current :: "agent_env \<Rightarrow> Project \<Rightarrow> Project \<Rightarrow> (bool \<times> bool) agent" where
  "update_current env p current = do {
     now \<leftarrow> now_of env;
     if checkRecoveryFence p current (ae_NodeName env) \<noteq> None then State_Monad.return (True, False)
     else if IsMaintenanceActive (ps_Conditions (prj_Status current)) now then State_Monad.return (True, False)
     else if WorkloadStoppedFor (ps_Recovery (prj_Status current))
         \<lparr>ai_ProjectUID = meta_UID (prj_Meta current), ai_NodeName = ps_NodeRef (prj_Status current),
          ai_AssignmentGeneration = ps_AssignmentGeneration (prj_Status current)\<rparr>
     then State_Monad.return (True, False)
     else do {
       d \<leftarrow> get_drift env current;
       case d of
         Inl e \<Rightarrow> State_Monad.return (False, False)
       | Inr drift \<Rightarrow>
           if \<not> specUpdateNeeded current drift then State_Monad.return (False, False)
           else update_drift env p current drift } }"

definition applySpecUpdate :: "agent_env \<Rightarrow> Project \<Rightarrow> (bool \<times> bool) agent" where
  "applySpecUpdate env p =
     (if meta_SpecRevision (prj_Meta p) = 0 then State_Monad.return (False, False)
      else do {
        d \<leftarrow> get_drift env p;
        now \<leftarrow> now_of env;
        t \<leftarrow> get_recovery;
        case d of
          Inl e \<Rightarrow> State_Monad.return (False, False)
        | Inr drift \<Rightarrow>
            if \<not> specUpdateNeeded p drift
            then State_Monad.return (False, \<not> drift_Changes drift \<and> length (sd_Missing drift) = 0)
            else if (case t of None \<Rightarrow> False | Some rt \<Rightarrow> \<not> specUpdateDue now (keyForProject p) (meta_SpecRevision (prj_Meta p)) rt)
            then State_Monad.return (True, False)
            else claiming env (key_of p) OpUpdate (True, False) (do {
              r \<leftarrow> get_project env (meta_Name (prj_Meta p));
              case r of Inl e \<Rightarrow> State_Monad.return (True, False) | Inr current \<Rightarrow> update_current env p current }) })"

subsection \<open>healthCheckOne\<close>

definition clear_transient :: "Project \<Rightarrow> unit agent" where
  "clear_transient p = on_recovery (clearTransient (keyForProject p))"

definition report_unhealthy :: "agent_env \<Rightarrow> Project \<Rightarrow> string \<Rightarrow> string \<Rightarrow> unit agent" where
  "report_unhealthy env p reason message = do { clear_transient p; report_failed env p reason message }"

definition judge_transient :: "agent_env \<Rightarrow> Project \<Rightarrow> serviceState list \<Rightarrow> unit agent" where
  "judge_transient env p bad = do {
     now \<leftarrow> now_of env;
     t \<leftarrow> get_recovery;
     case t of
       None \<Rightarrow> skip
     | Some rt \<Rightarrow> (let (stuck, rt') = observeTransient now (keyForProject p) rt in do {
         on_recovery (\<lambda>_. rt');
         if stuck then report_unhealthy env p ''ContainerRestartStuck'' (''Containers stuck restarting for over 30s: '' @ detailList bad)
         else skip }) }"

definition judge_unhealthy :: "agent_env \<Rightarrow> Project \<Rightarrow> serviceState list \<Rightarrow> unit agent" where
  "judge_unhealthy env p bad = (let (reason, summary) = failureReason bad; msg = summary @ '': '' @ detailList bad in
     if needsHuman bad then report_unhealthy env p reason msg
     else if anyTransient bad then judge_transient env p bad
     else do {
       clear_transient p;
       t \<leftarrow> get_recovery;
       if Option.is_none t \<or> \<not> recoverable bad then report_unhealthy env p reason msg
       else recoverLocally env p bad })"

definition judge_states :: "agent_env \<Rightarrow> Project \<Rightarrow> bool \<Rightarrow> ContainerState list \<Rightarrow> unit agent" where
  "judge_states env p upToDate states = (let bad = unhealthy (classifyProject p states) in
     case firstNotOwned bad of
       Some stale \<Rightarrow> do {
         clear_transient p;
         reportRecoveryBlocked env p recoveryBlockedStaleContainer (staleContainerMessage (the (ss_NotOwned stale))) }
     | None \<Rightarrow>
         if length bad = 0 then do {
           on_recovery (observeHealthy (keyForProject p));
           clear_transient p;
           clearRecoveryBlocked env p;
           (if upToDate then reportSpecRunning env p else skip);
           updateProxyRoutes env p }
         else judge_unhealthy env p bad)"

definition healthCheckOne :: "agent_env \<Rightarrow> Project \<Rightarrow> unit agent" where
  "healthCheckOne env p = do {
     now \<leftarrow> now_of env;
     if IsMaintenanceActive (ps_Conditions (prj_Status p)) now then clear_transient p
     else do {
       stale \<leftarrow> checkStaleContainers env p;
       if stale \<noteq> staleNone then clear_transient p
       else do {
         (took, upToDate) \<leftarrow> applySpecUpdate env p;
         if took then clear_transient p
         else do {
           r \<leftarrow> get_states env p;
           case r of
             Inl e \<Rightarrow> report_unhealthy env p ''InspectError'' (agent_error_text e)
           | Inr states \<Rightarrow> judge_states env p upToDate states } } } }"

end
