(* ===== verification/Agent_Poll.thy ===== *)
theory Agent_Poll
  imports Agent_Health
begin

text \<open>
  The rest of a poll: \<open>cleanup.go\<close>, the teardown of \<open>loop.go\<close>, the orphan sweep of \<open>orphan.go\<close>, and
  \<open>reconcileProjects\<close>, which puts them together.
\<close>

subsection \<open>cleanup.go\<close>

text \<open>A failed kind does not hold the others back; their errors are joined.\<close>

fun remove_kinds :: "agent_env \<Rightarrow> Assignment \<Rightarrow> string list \<Rightarrow> agent_error list agent" where
  "remove_kinds env a [] = State_Monad.return []"
| "remove_kinds env a (k # ks) = do {
     r \<leftarrow> perform env (RemoveResource k a);
     errs \<leftarrow> remove_kinds env a ks;
     State_Monad.return (case r of Some e \<Rightarrow> ErrWrap k e # errs | None \<Rightarrow> errs) }"

definition removeAll :: "agent_env \<Rightarrow> string list \<Rightarrow> Assignment \<Rightarrow> agent_error option agent" where
  "removeAll env kinds a = do {
     errs \<leftarrow> remove_kinds env a kinds;
     State_Monad.return (if errs = [] then None else Some (ErrJoin errs)) }"

fun remaining :: "agent_env \<Rightarrow> Assignment \<Rightarrow> string list \<Rightarrow> (agent_error + string list) agent" where
  "remaining env a [] = State_Monad.return (Inr [])"
| "remaining env a (k # ks) = do {
     r \<leftarrow> get_remaining env k a;
     case r of
       Inl e \<Rightarrow> State_Monad.return (Inl (ErrWrap k e))
     | Inr items \<Rightarrow> do {
         rest \<leftarrow> remaining env a ks;
         State_Monad.return (case rest of Inl e \<Rightarrow> Inl e | Inr left \<Rightarrow> Inr (items @ left)) } }"

definition assignmentOf :: "string \<Rightarrow> string \<Rightarrow> AssignmentIdentity \<Rightarrow> Assignment" where
  "assignmentOf ns project i = \<lparr>as_Namespace = (if ns = '''' then DefaultNamespace else ns), as_Project = project,
     as_UID = ai_ProjectUID i, as_Generation = ai_AssignmentGeneration i, as_AllGenerations = False\<rparr>"

definition obligationStands :: "agent_env \<Rightarrow> string \<Rightarrow> AssignmentIdentity \<Rightarrow> bool agent" where
  "obligationStands env project i = do {
     r \<leftarrow> get_project env project;
     State_Monad.return (case r of
         Inl e \<Rightarrow> True
       | Inr p \<Rightarrow> meta_UID (prj_Meta p) = ai_ProjectUID i
           \<and> (case FindObligation (ps_Recovery (prj_Status p)) i of None \<Rightarrow> False | Some o' \<Rightarrow> \<not> Resolved o')) }"

definition revalidateCleanup :: "agent_env \<Rightarrow> CleanupTask \<Rightarrow> (string + CleanupObligation) agent" where
  "revalidateCleanup env task =
     (if ai_NodeName (ct_Assignment task) \<noteq> ae_NodeName env
      then State_Monad.return (Inl (''obligation belongs to node '' @ ai_NodeName (ct_Assignment task)))
      else do {
        r \<leftarrow> get_project env (ct_ProjectName task);
        State_Monad.return (case r of
            Inl e \<Rightarrow> Inl (if error_is ErrProjectNotFound e then ''project no longer exists''
                          else ''could not re-read the project: '' @ agent_error_text e)
          | Inr p \<Rightarrow>
              if meta_UID (prj_Meta p) \<noteq> ai_ProjectUID (ct_Assignment task) then Inl ''project was recreated under another UID''
              else if ps_NodeRef (prj_Status p) = ae_NodeName env then Inl ''this node holds the project's current assignment''
              else (case FindObligation (ps_Recovery (prj_Status p)) (ct_Assignment task) of
                  None \<Rightarrow> Inl ''obligation no longer recorded''
                | Some o' \<Rightarrow> if Resolved o' \<and> \<not> DataOutstanding o' then Inl ''obligation already resolved'' else Inr o')) })"

definition reportResourcesRemoved :: "agent_env \<Rightarrow> CleanupTask \<Rightarrow> bool agent" where
  "reportResourcesRemoved env task = do {
     r \<leftarrow> perform env (ReportResourcesRemoved (ct_ProjectName task) (ct_Assignment task));
     case r of
       None \<Rightarrow> State_Monad.return True
     | Some e \<Rightarrow>
         if error_is ErrProjectNotFound e then State_Monad.return False
         else if error_is agent_ErrStaleAssignment e then do {
           _ \<leftarrow> obligationStands env (ct_ProjectName task) (ct_Assignment task);
           State_Monad.return False }
         else State_Monad.return False }"

definition quarantineManagedData :: "agent_env \<Rightarrow> Assignment \<Rightarrow> CleanupTask \<Rightarrow> unit agent" where
  "quarantineManagedData env a task =
     (if ae_cleanerRoot env = '''' then skip
      else do {
        now \<leftarrow> now_of env;
        renv \<leftarrow> State (\<lambda>w. (ae_restore env (aw_trace w), w));
        r \<leftarrow> on_host (Quarantine (re_marker renv) (ae_cleanerRoot env)
          \<lparr>pv_Namespace = as_Namespace a, pv_Project = as_Project a, pv_ProjectUID = as_UID a,
           pv_NodeName = ae_NodeName env, pv_AssignmentGeneration = as_Generation a, pv_BackupID = ''''\<rparr> now);
        case r of
          Inl e \<Rightarrow> skip
        | Inr _ \<Rightarrow> do { _ \<leftarrow> perform env (ReportManagedDataQuarantined (ct_ProjectName task) (ct_Assignment task)); skip } })"

definition clean_obligation :: "agent_env \<Rightarrow> string list \<Rightarrow> CleanupTask \<Rightarrow> CleanupObligation \<Rightarrow> unit agent" where
  "clean_obligation env kinds task obligation =
     (let a = assignmentOf (ct_Namespace task) (ct_ProjectName task) (ct_Assignment task) in do {
        err \<leftarrow> removeAll env kinds a;
        case err of
          Some e \<Rightarrow> skip
        | None \<Rightarrow> do {
            left \<leftarrow> remaining env a kinds;
            case left of
              Inl e \<Rightarrow> skip
            | Inr items \<Rightarrow>
                if length items > 0 then skip
                else do {
                  ok \<leftarrow> (if Resolved obligation then State_Monad.return True else reportResourcesRemoved env task);
                  if ok \<and> DataOutstanding obligation then quarantineManagedData env a task else skip } } })"

definition runCleanupTask :: "agent_env \<Rightarrow> string list \<Rightarrow> CleanupTask \<Rightarrow> unit agent" where
  "runCleanupTask env kinds task =
     (let a = assignmentOf (ct_Namespace task) (ct_ProjectName task) (ct_Assignment task) in
      claiming env \<lparr>rsk_Namespace = as_Namespace a, rsk_Name = as_Project a\<rparr> OpOrphanCleanup () (do {
        v \<leftarrow> revalidateCleanup env task;
        case v of Inl reason \<Rightarrow> skip | Inr obligation \<Rightarrow> clean_obligation env kinds task obligation }))"

definition runCleanupTasks :: "agent_env \<Rightarrow> unit agent" where
  "runCleanupTasks env = (case ae_kinds env of
       None \<Rightarrow> skip
     | Some kinds \<Rightarrow> do {
         r \<leftarrow> ask (ae_ListCleanupTasks env) GotCleanupTasks;
         case r of Inl e \<Rightarrow> skip | Inr tasks \<Rightarrow> each (runCleanupTask env kinds) tasks })"

subsection \<open>terminateOne\<close>

definition reportRemoved :: "agent_env \<Rightarrow> string \<Rightarrow> AssignmentIdentity \<Rightarrow> bool agent" where
  "reportRemoved env project i = do {
     r \<leftarrow> perform env (ReportResourcesRemoved project i);
     case r of
       None \<Rightarrow> State_Monad.return True
     | Some e \<Rightarrow>
         if error_is agent_ErrStaleAssignment e then do {
           stands \<leftarrow> obligationStands env project i;
           State_Monad.return (\<not> stands) }
         else State_Monad.return False }"

definition own_obligations :: "Project \<Rightarrow> AssignmentIdentity list" where
  "own_obligations p =
     (let fence = fenceForProject p;
          own = \<lparr>ai_ProjectUID = af_UID fence, ai_NodeName = af_NodeRef fence, ai_AssignmentGeneration = af_Generation fence\<rparr>
      in own # (case ps_Recovery (prj_Status p) of
          None \<Rightarrow> []
        | Some rec \<Rightarrow> map ob_Assignment (filter (\<lambda>o'. \<not> Resolved o' \<and> ob_Assignment o' \<noteq> own
             \<and> ai_NodeName (ob_Assignment o') = af_NodeRef fence \<and> ai_ProjectUID (ob_Assignment o') = af_UID fence)
             (rec_CleanupObligations rec))))"

fun report_all_removed :: "agent_env \<Rightarrow> string \<Rightarrow> AssignmentIdentity list \<Rightarrow> bool agent" where
  "report_all_removed env project [] = State_Monad.return True"
| "report_all_removed env project (i # is) = do {
     ok \<leftarrow> reportRemoved env project i;
     if ok then report_all_removed env project is else State_Monad.return False }"

definition resolveOwnObligations :: "agent_env \<Rightarrow> Project \<Rightarrow> bool agent" where
  "resolveOwnObligations env p = report_all_removed env (meta_Name (prj_Meta p)) (own_obligations p)"

definition lifetime_of :: "Project \<Rightarrow> Assignment" where
  "lifetime_of p = \<lparr>as_Namespace = (if meta_Namespace (prj_Meta p) = '''' then DefaultNamespace else meta_Namespace (prj_Meta p)),
     as_Project = meta_Name (prj_Meta p), as_UID = meta_UID (prj_Meta p), as_Generation = 0, as_AllGenerations = True\<rparr>"

definition teardown :: "agent_env \<Rightarrow> string list \<Rightarrow> Project \<Rightarrow> unit agent" where
  "teardown env kinds p = do {
     err \<leftarrow> removeAll env kinds (lifetime_of p);
     case err of
       Some e \<Rightarrow> reportTeardownBlocked env p ''RemoveFailed'' (agent_error_text e)
     | None \<Rightarrow> do {
         left \<leftarrow> remaining env (lifetime_of p) kinds;
         case left of
           Inl e \<Rightarrow> reportTeardownBlocked env p ''InspectFailed'' (agent_error_text e)
         | Inr items \<Rightarrow>
             if length items > 0
             then reportTeardownBlocked env p ''ResourcesRemain'' (''still present: '' @ strings_Join (sort items) '', '')
             else do {
               clearTeardownBlocked env p;
               ok \<leftarrow> resolveOwnObligations env p;
               if ok then do {
                 _ \<leftarrow> report_phase env p ProjectPhaseTerminated ''ResourcesRemoved'' ''All Docker resources have been removed'';
                 skip }
               else skip } } }"

definition terminateOne :: "agent_env \<Rightarrow> Project \<Rightarrow> unit agent" where
  "terminateOne env p = claiming env (key_of p) OpTerminate () (case ae_kinds env of
       None \<Rightarrow> reportTeardownBlocked env p ''CleanerUnavailable'' ''this agent cannot remove resources by Project lifetime''
     | Some kinds \<Rightarrow> teardown env kinds p)"

subsection \<open>The orphan sweep\<close>

definition projectIdentity :: "Project \<Rightarrow> ProjectIdentity" where
  "projectIdentity p = \<lparr>pi_Namespace = (if meta_Namespace (prj_Meta p) = '''' then DefaultNamespace else meta_Namespace (prj_Meta p)),
     pi_Name = meta_Name (prj_Meta p), pi_UID = meta_UID (prj_Meta p)\<rparr>"

definition orphan_key :: "ProjectIdentity \<Rightarrow> ResourceKey" where
  "orphan_key project = \<lparr>rsk_Namespace = pi_Namespace project, rsk_Name = pi_Name project\<rparr>"

definition on_orphans :: "(orphanTracker \<Rightarrow> orphanTracker) \<Rightarrow> unit agent" where
  "on_orphans f = State (\<lambda>w. ((), w\<lparr>aw_orphans := f (aw_orphans w)\<rparr>))"

text \<open>Of two Projects with one identity the last is taken.\<close>

definition assigned_map :: "Project list \<Rightarrow> ProjectIdentity \<rightharpoonup> Project" where
  "assigned_map projects = map_of (rev (map (\<lambda>p. (projectIdentity p, p)) projects))"

definition sweep_reappeared :: "agent_env \<Rightarrow> (ProjectIdentity \<rightharpoonup> Project) \<Rightarrow> ProjectIdentity \<Rightarrow> unit agent" where
  "sweep_reappeared env assigned project = (case assigned project of
       None \<Rightarrow> skip
     | Some sp \<Rightarrow>
         if ps_Phase (prj_Status sp) = ProjectPhaseScheduled \<or> ps_Phase (prj_Status sp) = ProjectPhaseRunning then do {
           recovered \<leftarrow> claiming env (orphan_key project) OpOrphanCleanup False (do {
             r \<leftarrow> perform env (ReconcileProject sp);
             case r of Some e \<Rightarrow> State_Monad.return False
                     | None \<Rightarrow> do { updateProxyRoutes env sp; State_Monad.return True } });
           if recovered then on_orphans (orphan_forget project) else skip }
         else on_orphans (orphan_forget project))"

definition sweep_stop :: "agent_env \<Rightarrow> ProjectIdentity \<Rightarrow> unit agent" where
  "sweep_stop env project = claiming env (orphan_key project) OpOrphanCleanup () (do {
     r \<leftarrow> perform env (StopOrphanProject project);
     case r of
       Some e \<Rightarrow> skip
     | None \<Rightarrow> do {
         (if ae_hasRoutes env then note_event (RoutesRemoved (pi_Name project)) else skip);
         now \<leftarrow> now_of env;
         on_orphans (markStopped now project) } })"

definition sweep_remove :: "agent_env \<Rightarrow> ProjectIdentity \<Rightarrow> unit agent" where
  "sweep_remove env project = do {
     removed \<leftarrow> claiming env (orphan_key project) OpOrphanCleanup False (do {
       r \<leftarrow> perform env (RemoveOrphanProject project);
       State_Monad.return (r = None) });
     if removed then on_orphans (orphan_forget project) else skip }"

definition observe_orphans :: "agent_env \<Rightarrow> Project list \<Rightarrow> ProjectIdentity list \<Rightarrow> orphanObservation agent" where
  "observe_orphans env projects loc = State (\<lambda>w.
     let (t, ob) = orphan_observe (ae_Now env (aw_trace w)) loc (\<lambda>i. \<not> Option.is_none (assigned_map projects i)) (aw_orphans w)
     in (ob, w\<lparr>aw_orphans := t\<rparr>))"

definition sweep_observed :: "agent_env \<Rightarrow> Project list \<Rightarrow> orphanObservation \<Rightarrow> unit agent" where
  "sweep_observed env projects ob = do {
     each (sweep_reappeared env (assigned_map projects)) (ob_reappeared ob);
     each (sweep_stop env) (ob_toStop ob);
     each (sweep_remove env) (ob_toRemove ob) }"

definition sweepOrphans :: "agent_env \<Rightarrow> Project list \<Rightarrow> unit agent" where
  "sweepOrphans env projects = do {
     r \<leftarrow> ask (ae_ListLocalProjects env) GotLocal;
     case r of
       Inl e \<Rightarrow> on_orphans resetGrace
     | Inr loc \<Rightarrow> do { ob \<leftarrow> observe_orphans env projects loc; sweep_observed env projects ob } }"

subsection \<open>reconcileProjects\<close>

definition projectsForReconcile :: "Project list \<Rightarrow> Project list" where
  "projectsForReconcile projects = filter (\<lambda>p. ps_Phase (prj_Status p)
     \<in> {ProjectPhaseScheduled, ProjectPhaseRunning, ProjectPhaseTerminating}) projects"

definition dispatch :: "agent_env \<Rightarrow> Project \<Rightarrow> unit agent" where
  "dispatch env p = do {
     busy \<leftarrow> is_busy env (key_of p);
     if busy then skip
     else case ps_Phase (prj_Status p) of
       ProjectPhaseTerminating \<Rightarrow> terminateOne env p
     | ProjectPhaseRunning \<Rightarrow> healthCheckOne env p
     | _ \<Rightarrow> reconcileOne env p }"

definition reconcile_assigned :: "agent_env \<Rightarrow> Project list \<Rightarrow> unit agent" where
  "reconcile_assigned env projects = do {
     runCleanupTasks env;
     (case ae_backups env of
        None \<Rightarrow> skip
      | Some b \<Rightarrow> if bs_Supervisor b then note_event (SupervisorSynced (projectsForReconcile projects)) else skip);
     on_recovery (recovery_retain (map keyForProject projects));
     each (dispatch env) (projectsForReconcile projects) }"

definition reconcileProjects :: "agent_env \<Rightarrow> unit agent" where
  "reconcileProjects env = do {
     r \<leftarrow> ask (ae_ListAssigned env) GotAssigned;
     case r of
       Inl e \<Rightarrow> on_orphans resetGrace
     | Inr assignedProjects \<Rightarrow> do { sweepOrphans env assignedProjects; reconcile_assigned env assignedProjects } }"

definition bootstrapRunningProjects :: "agent_env \<Rightarrow> unit agent" where
  "bootstrapRunningProjects env = do {
     r \<leftarrow> ask (ae_ListAssigned env) GotAssigned;
     case r of
       Inl e \<Rightarrow> skip
     | Inr projects \<Rightarrow> each (healthCheckOne env) (filter (\<lambda>p. ps_Phase (prj_Status p) = ProjectPhaseRunning) projects) }"

end
