(* ===== verification/Agent_Discipline.thy ===== *)
theory Agent_Discipline
  imports Agent_Poll
begin

text \<open>
  What justifies each call that acts on containers or reports their removal: conditions on the trace
  before it. A poll keeps every call justified, whatever the environment answers.
\<close>

subsection \<open>Reading a trace\<close>

fun held :: "ResourceKey \<Rightarrow> trace \<Rightarrow> Operation option" where
  "held k [] = None"
| "held k (Claimed k' op ok # tr) = (if k' = k \<and> ok then Some op else held k tr)"
| "held k (Released k' # tr) = (if k' = k then None else held k tr)"
| "held k (e # tr) = held k tr"

definition under_claim :: "agent_env \<Rightarrow> ResourceKey \<Rightarrow> Operation \<Rightarrow> trace \<Rightarrow> bool" where
  "under_claim env k op tr \<longleftrightarrow> has_coordinator env \<longrightarrow> held k tr = Some op"

text \<open>The Project as the server gave it last, if it did.\<close>

fun last_read :: "trace \<Rightarrow> Project option" where
  "last_read [] = None"
| "last_read (GotProject n r # tr) = (case r of Inl e \<Rightarrow> None | Inr p \<Rightarrow> Some p)"
| "last_read (e # tr) = last_read tr"

fun last_assigned :: "trace \<Rightarrow> Project list option" where
  "last_assigned [] = None"
| "last_assigned (GotAssigned r # tr) = (case r of Inl e \<Rightarrow> None | Inr ps \<Rightarrow> Some ps)"
| "last_assigned (e # tr) = last_assigned tr"

fun last_stale :: "trace \<Rightarrow> (Project \<times> (agent_error + StaleContainer list)) option" where
  "last_stale [] = None"
| "last_stale (GotStale p r # tr) = Some (p, r)"
| "last_stale (e # tr) = last_stale tr"

text \<open>The events since containers were last started.\<close>

fun starts :: "agent_event \<Rightarrow> bool" where
  "starts (Did (ReconcileProject p) r) = True"
| "starts (Did (RecoverServices p ss) r) = True"
| "starts (Did (UpdateServices p d) r) = True"
| "starts _ = False"

definition since_start :: "trace \<Rightarrow> agent_event set" where
  "since_start tr = set (takeWhile (\<lambda>e. \<not> starts e) tr)"

definition since_read :: "trace \<Rightarrow> agent_event set" where
  "since_read tr = set (takeWhile (\<lambda>e. \<forall>n r. e \<noteq> GotProject n r) tr)"

definition emptied :: "string list \<Rightarrow> Assignment \<Rightarrow> trace \<Rightarrow> bool" where
  "emptied kinds a tr \<longleftrightarrow> (\<forall>k \<in> set kinds. GotRemaining k a (Inr []) \<in> since_start tr)"

definition covers :: "Assignment \<Rightarrow> string \<Rightarrow> AssignmentIdentity \<Rightarrow> bool" where
  "covers a name i \<longleftrightarrow> as_Project a = name \<and> as_UID a = ai_ProjectUID i
     \<and> (as_AllGenerations a \<or> as_Generation a = ai_AssignmentGeneration i)"

text \<open>A spec with Secret values filled in is the same assignment of the same Project.\<close>

definition same_assignment :: "Project \<Rightarrow> Project \<Rightarrow> bool" where
  "same_assignment r p \<longleftrightarrow> prj_Meta r = prj_Meta p \<and> prj_Status r = prj_Status p"

definition ours_running :: "agent_env \<Rightarrow> Project \<Rightarrow> bool" where
  "ours_running env p \<longleftrightarrow> ps_NodeRef (prj_Status p) = ae_NodeName env \<and> ps_Phase (prj_Status p) = ProjectPhaseRunning"

subsection \<open>Justified calls\<close>

definition recover_justified :: "agent_env \<Rightarrow> trace \<Rightarrow> Project \<Rightarrow> string list \<Rightarrow> bool" where
  "recover_justified env tr r names \<longleftrightarrow> (\<exists>cur. last_read tr = Some cur \<and> same_assignment r cur \<and> ours_running env cur
     \<and> under_claim env (key_of cur) OpRecovery tr \<and> Did (PreflightRecovery cur names) None \<in> since_read tr)"

definition update_justified :: "agent_env \<Rightarrow> trace \<Rightarrow> Project \<Rightarrow> SpecDrift \<Rightarrow> bool" where
  "update_justified env tr r d \<longleftrightarrow> (\<exists>cur. last_read tr = Some cur \<and> same_assignment r cur \<and> ours_running env cur
     \<and> under_claim env (key_of cur) OpUpdate tr \<and> GotDrift cur (Inr d) \<in> since_read tr)"

definition removal_justified :: "agent_env \<Rightarrow> trace \<Rightarrow> string \<Rightarrow> AssignmentIdentity \<Rightarrow> bool" where
  "removal_justified env tr name i \<longleftrightarrow> (\<exists>kinds a key op. ae_kinds env = Some kinds \<and> covers a name i \<and> emptied kinds a tr
     \<and> under_claim env key op tr \<and> rsk_Name key = name \<and> (op = OpTerminate \<or> op = OpOrphanCleanup))"

definition terminated_justified :: "agent_env \<Rightarrow> trace \<Rightarrow> string \<Rightarrow> AssignmentFence \<Rightarrow> bool" where
  "terminated_justified env tr name f \<longleftrightarrow> (\<exists>p kinds. ae_kinds env = Some kinds \<and> name = meta_Name (prj_Meta p) \<and> f = fenceForProject p
     \<and> emptied kinds (lifetime_of p) tr \<and> under_claim env (key_of p) OpTerminate tr)"

definition orphan_justified :: "agent_env \<Rightarrow> trace \<Rightarrow> ProjectIdentity \<Rightarrow> bool" where
  "orphan_justified env tr i \<longleftrightarrow> under_claim env (orphan_key i) OpOrphanCleanup tr
     \<and> (\<exists>ps. last_assigned tr = Some ps \<and> i \<notin> projectIdentity ` set ps)"

definition running_justified :: "trace \<Rightarrow> string \<Rightarrow> AssignmentFence \<Rightarrow> bool" where
  "running_justified tr name f \<longleftrightarrow>
     (\<exists>p. name = meta_Name (prj_Meta p) \<and> f = fenceForProject p \<and> last_stale tr = Some (p, Inr []))"

fun call_justified :: "agent_env \<Rightarrow> trace \<Rightarrow> agent_request \<Rightarrow> bool" where
  "call_justified env tr (RecoverServices r names) = recover_justified env tr r names"
| "call_justified env tr (UpdateServices r d) = update_justified env tr r d"
| "call_justified env tr (ReportResourcesRemoved name i) = removal_justified env tr name i"
| "call_justified env tr (ReportManagedDataQuarantined name i) = removal_justified env tr name i"
| "call_justified env tr (UpdateProjectStatus name f ProjectPhaseTerminated _ _) = terminated_justified env tr name f"
| "call_justified env tr (UpdateProjectStatus name f ProjectPhaseRunning _ _) = running_justified tr name f"
| "call_justified env tr (StopOrphanProject i) = orphan_justified env tr i"
| "call_justified env tr (RemoveOrphanProject i) = orphan_justified env tr i"
| "call_justified env tr _ = True"

fun justified :: "agent_env \<Rightarrow> trace \<Rightarrow> bool" where
  "justified env [] = True"
| "justified env (Did r x # tr) = (call_justified env tr r \<and> justified env tr)"
| "justified env (e # tr) = justified env tr"

lemma justified_split: "justified env (post @ Did r x # pre) \<Longrightarrow> call_justified env pre r"
proof (induction post)
  case (Cons e post)
  then show ?case by (cases e) simp_all
qed simp

subsection \<open>Quiet steps\<close>

fun quiet_request :: "agent_request \<Rightarrow> bool" where
  "quiet_request (RecoverServices r names) = False"
| "quiet_request (UpdateServices r d) = False"
| "quiet_request (ReconcileProject p) = False"
| "quiet_request (ReportResourcesRemoved name i) = False"
| "quiet_request (ReportManagedDataQuarantined name i) = False"
| "quiet_request (UpdateProjectStatus name f ph _ _) = (ph \<noteq> ProjectPhaseTerminated \<and> ph \<noteq> ProjectPhaseRunning)"
| "quiet_request (StopOrphanProject i) = False"
| "quiet_request (RemoveOrphanProject i) = False"
| "quiet_request _ = True"

fun quiet_event :: "agent_event \<Rightarrow> bool" where
  "quiet_event (Did r x) = quiet_request r"
| "quiet_event (GotAssigned r) = False"
| "quiet_event (GotLocal r) = False"
| "quiet_event (GotProject n r) = False"
| "quiet_event (GotStale p r) = False"
| "quiet_event (Claimed k op ok) = False"
| "quiet_event (Released k) = False"
| "quiet_event _ = True"

lemma quiet_justified: "quiet_event e \<Longrightarrow> justified env (e # tr) = justified env tr"
proof (cases e)
  case (Did r x)
  moreover assume "quiet_event e"
  ultimately have "call_justified env tr r" by (cases "(env, tr, r)" rule: call_justified.cases) auto
  with Did show ?thesis by simp
qed simp_all

lemma quiet_reads:
  assumes "quiet_event e"
  shows "held k (e # tr) = held k tr" "last_read (e # tr) = last_read tr" "last_assigned (e # tr) = last_assigned tr"
    "last_stale (e # tr) = last_stale tr" "since_start (e # tr) = insert e (since_start tr)" "since_read (e # tr) = insert e (since_read tr)"
proof -
  have "\<not> starts e" using assms by (cases e rule: starts.cases) auto
  then show "since_start (e # tr) = insert e (since_start tr)" by (simp add: since_start_def)
  show "held k (e # tr) = held k tr" "last_read (e # tr) = last_read tr" "last_assigned (e # tr) = last_assigned tr"
    "last_stale (e # tr) = last_stale tr" "since_read (e # tr) = insert e (since_read tr)"
    using assms by (cases e; simp add: since_read_def)+
qed

lemma quiet_list:
  assumes "list_all quiet_event evs"
  shows "justified env (evs @ tr) = justified env tr" "held k (evs @ tr) = held k tr" "last_read (evs @ tr) = last_read tr"
    "last_assigned (evs @ tr) = last_assigned tr" "last_stale (evs @ tr) = last_stale tr"
    "since_start (evs @ tr) = set evs \<union> since_start tr" "since_read (evs @ tr) = set evs \<union> since_read tr"
  using assms by (induction evs) (auto simp: quiet_justified quiet_reads)

definition quiet_op :: "'a agent \<Rightarrow> bool" where
  "quiet_op m \<longleftrightarrow> (\<forall>w. adds (list_all quiet_event) w (snd (run_state m w)) \<and> aw_orphans (snd (run_state m w)) = aw_orphans w)"

named_theorems quiet_intros

lemma adds_trans: "adds (list_all P) w w' \<Longrightarrow> adds (list_all P) w' w'' \<Longrightarrow> adds (list_all P) w w''"
  unfolding adds_def by (metis append.assoc list_all_append)

lemma adds_refl [simp]: "adds (list_all P) w w"
  by (simp add: adds_def)

lemma quiet_return [quiet_intros]: "quiet_op (State_Monad.return a)"
  by (simp add: quiet_op_def)

lemma quiet_skip [quiet_intros]: "quiet_op skip"
  by (simp add: skip_def quiet_return)

lemma quiet_bind [quiet_intros]: "quiet_op m \<Longrightarrow> (\<And>a. quiet_op (f a)) \<Longrightarrow> quiet_op (State_Monad.bind m f)"
  unfolding quiet_op_def by (auto simp: split_beta intro: adds_trans)

lemma quiet_if [quiet_intros]: "quiet_op m \<Longrightarrow> quiet_op n \<Longrightarrow> quiet_op (if b then m else n)"
  by simp

lemma quiet_case_sum [quiet_intros]:
  "(\<And>e. quiet_op (f e)) \<Longrightarrow> (\<And>a. quiet_op (g a)) \<Longrightarrow> quiet_op (case s of Inl e \<Rightarrow> f e | Inr a \<Rightarrow> g a)"
  by (simp split: sum.split)

lemma quiet_case_option [quiet_intros]:
  "quiet_op f \<Longrightarrow> (\<And>a. quiet_op (g a)) \<Longrightarrow> quiet_op (case x of None \<Rightarrow> f | Some a \<Rightarrow> g a)"
  by (simp split: option.split)

lemma quiet_case_prod [quiet_intros]: "(\<And>a b. quiet_op (f a b)) \<Longrightarrow> quiet_op (case x of (a, b) \<Rightarrow> f a b)"
  by (simp split: prod.split)

lemma quiet_let [quiet_intros]: "(\<And>x. quiet_op (f x)) \<Longrightarrow> quiet_op (let x = a in f x)"
  by (simp add: Let_def)

lemma quiet_ask [quiet_intros]: "(\<And>a. quiet_event (ev a)) \<Longrightarrow> quiet_op (ask answer ev)"
  by (auto simp: quiet_op_def ask_def adds_def Let_def)

lemma quiet_perform [quiet_intros]: "quiet_request r \<Longrightarrow> quiet_op (perform env r)"
  by (simp add: perform_def quiet_ask)

lemma quiet_note [quiet_intros]: "quiet_event e \<Longrightarrow> quiet_op (note_event e)"
  by (simp add: note_event_def quiet_ask)

lemma quiet_local [quiet_intros]:
  "quiet_op (now_of env)" "quiet_op (on_recovery f)" "quiet_op get_recovery" "quiet_op (on_host g)"
  "quiet_op (State (\<lambda>w. (a w, w)))"
  by (auto simp: quiet_op_def now_of_def on_recovery_def get_recovery_def on_host_def adds_def split: prod.split)

lemma quiet_queries [quiet_intros]:
  "quiet_op (get_secret env n)" "quiet_op (get_states env p)" "quiet_op (get_drift env p)" "quiet_op (get_ips env p)"
  "quiet_op (get_remaining env k a)" "quiet_op (get_version env)" "quiet_op (pg_exec env c cmd)"
  by (simp_all add: get_secret_def get_states_def get_drift_def get_ips_def get_remaining_def get_version_def pg_exec_def quiet_ask)

lemma quiet_then [quiet_intros]:
  "quiet_op m \<Longrightarrow> quiet_op n \<Longrightarrow> quiet_op (then_ok m n)"
  "quiet_op g \<Longrightarrow> (\<And>a. quiet_op (f a)) \<Longrightarrow> quiet_op (then_get g f)"
  by (auto simp: then_ok_def then_get_def intro!: quiet_intros)

text \<open>A quiet step keeps every fact that only more quiet events cannot break.\<close>

lemma wp_quiet:
  assumes "quiet_op m"
    and "\<And>a w' evs. aw_trace w' = evs @ aw_trace w \<Longrightarrow> list_all quiet_event evs \<Longrightarrow> aw_orphans w' = aw_orphans w \<Longrightarrow> Q a w'"
  shows "wp m Q w"
  using assms unfolding quiet_op_def adds_def wp_run by metis

lemma quiet_reports [quiet_intros]:
  "quiet_op (report_blocked ct env p reason msg)" "quiet_op (clear_blocked ct env p)"
  "quiet_op (reportRecoveryBlocked env p reason msg)" "quiet_op (clearRecoveryBlocked env p)"
  "quiet_op (reportTeardownBlocked env p reason msg)" "quiet_op (clearTeardownBlocked env p)"
  "quiet_op (report_failed env p reason msg)" "quiet_op (reportSpecRunning env p)" "quiet_op (updateProxyRoutes env p)"
  "quiet_op (reportPostgresBlocked env p e)" "quiet_op (report_spec env p b reason msg)" "quiet_op (clear_transient p)"
  by (auto simp: report_blocked_def clear_blocked_def reportRecoveryBlocked_def clearRecoveryBlocked_def reportTeardownBlocked_def
      clearTeardownBlocked_def report_failed_def report_phase_def reportSpecRunning_def updateProxyRoutes_def reportPostgresBlocked_def
      report_spec_def clear_transient_def
      intro!: quiet_intros split: option.split)

lemma quiet_resolve_vars [quiet_intros]: "quiet_op (resolve_vars env svc vs cache)"
proof (induction vs arbitrary: cache)
  case (Cons v vs)
  then show ?case by (auto simp: fetch_secret_def intro!: quiet_intros split: option.split)
qed (simp add: quiet_return)

lemma quiet_resolve_services [quiet_intros]: "quiet_op (resolve_services env incl ss cache)"
proof (induction ss arbitrary: cache)
  case (Cons s ss)
  then show ?case by (auto intro!: quiet_intros)
qed (simp add: quiet_return)

lemma quiet_resolveSecretsFor [quiet_intros]: "quiet_op (resolveSecretsFor env p incl)" "quiet_op (resolveSecrets env p)"
  by (auto simp: resolveSecretsFor_def resolveSecrets_def intro!: quiet_intros)

end
