(* ===== verification/Agent_Safety.thy ===== *)
theory Agent_Safety
  imports Agent_Discipline
begin

text \<open>
  Every poll keeps the calls justified, whatever it finds; then what this means for recovery, updates,
  cleanup reports, terminations and orphans.
\<close>

definition keeps :: "agent_env \<Rightarrow> 'a agent \<Rightarrow> bool" where
  "keeps env m \<longleftrightarrow> (\<forall>w. justified env (aw_trace w) \<longrightarrow> justified env (aw_trace (snd (run_state m w))))"

named_theorems keeps_intros

lemma keeps_wp: "(\<And>w. justified env (aw_trace w) \<Longrightarrow> wp m (\<lambda>a w'. justified env (aw_trace w')) w) \<Longrightarrow> keeps env m"
  by (simp add: keeps_def wp_run)

lemma keepsD: "keeps env m \<Longrightarrow> justified env (aw_trace w) \<Longrightarrow> wp m (\<lambda>a w'. justified env (aw_trace w')) w"
  by (simp add: keeps_def wp_run)

lemma keeps_quiet: "quiet_op m \<Longrightarrow> keeps env m"
  by (auto intro!: keeps_wp elim!: wp_quiet simp: quiet_list)

lemmas [keeps_intros] = quiet_return [THEN keeps_quiet] quiet_skip [THEN keeps_quiet]

lemma keeps_bind [keeps_intros]: "keeps env m \<Longrightarrow> (\<And>a. keeps env (f a)) \<Longrightarrow> keeps env (State_Monad.bind m f)"
  by (auto simp: keeps_def split_beta)

lemma keeps_if [keeps_intros]: "(b \<Longrightarrow> keeps env m) \<Longrightarrow> (\<not> b \<Longrightarrow> keeps env n) \<Longrightarrow> keeps env (if b then m else n)"
  by simp

lemma keeps_case_sum [keeps_intros]:
  "(\<And>e. keeps env (f e)) \<Longrightarrow> (\<And>a. keeps env (g a)) \<Longrightarrow> keeps env (case s of Inl e \<Rightarrow> f e | Inr a \<Rightarrow> g a)"
  by (simp split: sum.split)

lemma keeps_case_option [keeps_intros]:
  "keeps env f \<Longrightarrow> (\<And>a. keeps env (g a)) \<Longrightarrow> keeps env (case x of None \<Rightarrow> f | Some a \<Rightarrow> g a)"
  by (simp split: option.split)

lemma keeps_case_prod [keeps_intros]: "(\<And>a b. keeps env (f a b)) \<Longrightarrow> keeps env (case x of (a, b) \<Rightarrow> f a b)"
  by (simp split: prod.split)

lemma keeps_let [keeps_intros]: "(\<And>x. keeps env (f x)) \<Longrightarrow> keeps env (let x = a in f x)"
  by (simp add: Let_def)

lemmas quiet_steps = quiet_return quiet_skip quiet_local quiet_queries quiet_reports quiet_resolveSecretsFor

lemmas [keeps_intros] = quiet_local [THEN keeps_quiet] quiet_queries [THEN keeps_quiet] quiet_reports [THEN keeps_quiet]
  quiet_resolveSecretsFor [THEN keeps_quiet]

text \<open>Events that need no justification although later calls look at them.\<close>

lemma keeps_ask [keeps_intros]: "(\<And>a r x. ev a \<noteq> Did r x) \<Longrightarrow> keeps env (ask answer ev)"
proof (rule keeps_wp)
  fix w :: agent_world
  assume ev: "\<And>a r x. ev a \<noteq> Did r x" and j: "justified env (aw_trace w)"
  have "justified env (ev a # tr) = justified env tr" for a tr using ev by (cases "ev a") auto
  with j show "wp (ask answer ev) (\<lambda>a w'. justified env (aw_trace w')) w" by (simp add: wp_ask Let_def)
qed

lemma keeps_reconcile [keeps_intros]: "keeps env (perform env (ReconcileProject p))"
  by (auto intro!: keeps_wp simp: wp_perform Let_def)

lemma keeps_queries [keeps_intros]:
  "keeps env (get_project env n)" "keeps env (get_stale env p)" "keeps env (is_busy env k)" "keeps env (try_claim env k op)"
  "keeps env (release_claim env k)"
  by (auto simp: get_project_def get_stale_def is_busy_def try_claim_def release_claim_def note_event_def
      intro!: keeps_intros)

lemma keeps_each [keeps_intros]: "(\<And>x. keeps env (f x)) \<Longrightarrow> keeps env (each f xs)"
  by (induction xs) (auto intro!: keeps_intros)

lemma keeps_claiming [keeps_intros]: "keeps env body \<Longrightarrow> keeps env (claiming env k op refused body)"
  by (auto simp: claiming_def intro!: keeps_intros)

subsection \<open>Placing a Project\<close>

lemma quiet_postgres [quiet_intros]:
  "quiet_op (preparePostgresDifferential env p)" "quiet_op (psql env c sql)" "quiet_op (execOK env c cmd)"
  "quiet_op (exec_err env c cmd)" "quiet_op (pgbackrest_step env c st what sub)"
  by (auto simp: preparePostgresDifferential_def authorize_repo_def psql_def execOK_def exec_err_def pgbackrest_step_def
      intro!: quiet_intros)

lemma quiet_archiving [quiet_intros]: "quiet_op (enableArchiving env c st)"
  by (auto simp: enableArchiving_def set_timeout_def turn_archiving_on_def intro!: quiet_intros)

lemma quiet_finish_dbs [quiet_intros]: "quiet_op (finish_dbs env p v dbs)"
  by (induction dbs) (auto simp: finish_db_def intro!: quiet_intros)

lemma quiet_finish [quiet_intros]: "quiet_op (finishPostgresDifferential env p)"
  by (auto simp: finishPostgresDifferential_def intro!: quiet_intros)

lemma quiet_place_data [quiet_intros]: "quiet_op (place_data env b restorer p)"
  by (auto simp: place_data_def intro!: quiet_intros split: Decision.split)

lemmas quiet_placing = quiet_steps quiet_postgres quiet_finish quiet_place_data


text \<open>The stale check a placement starts with stands until Running is reported.\<close>

definition unstale :: "agent_env \<Rightarrow> Project \<Rightarrow> trace \<Rightarrow> bool" where
  "unstale env p tr \<longleftrightarrow> justified env tr \<and> last_stale tr = Some (p, Inr [])"

definition keeps_unstale :: "agent_env \<Rightarrow> Project \<Rightarrow> 'a agent \<Rightarrow> bool" where
  "keeps_unstale env p m \<longleftrightarrow> (\<forall>w. unstale env p (aw_trace w) \<longrightarrow> unstale env p (aw_trace (snd (run_state m w))))"

named_theorems unstale_intros

lemma unstale_wp: "(\<And>w. unstale env p (aw_trace w) \<Longrightarrow> wp m (\<lambda>a w'. unstale env p (aw_trace w')) w) \<Longrightarrow> keeps_unstale env p m"
  by (simp add: keeps_unstale_def wp_run)

lemma unstale_quiet: "quiet_op m \<Longrightarrow> keeps_unstale env p m"
  by (auto intro!: unstale_wp elim!: wp_quiet simp: quiet_list unstale_def)

lemmas [unstale_intros] = quiet_placing [THEN unstale_quiet]

lemma unstale_bind [unstale_intros]: "keeps_unstale env p m \<Longrightarrow> (\<And>a. keeps_unstale env p (f a)) \<Longrightarrow> keeps_unstale env p (State_Monad.bind m f)"
  by (auto simp: keeps_unstale_def split_beta)

lemma unstale_cases [unstale_intros]:
  "keeps_unstale env p m \<Longrightarrow> keeps_unstale env p n \<Longrightarrow> keeps_unstale env p (if b then m else n)"
  "(\<And>e. keeps_unstale env p (f e)) \<Longrightarrow> (\<And>a. keeps_unstale env p (g a)) \<Longrightarrow> keeps_unstale env p (case s of Inl e \<Rightarrow> f e | Inr a \<Rightarrow> g a)"
  "keeps_unstale env p k \<Longrightarrow> (\<And>a. keeps_unstale env p (l a)) \<Longrightarrow> keeps_unstale env p (case x of None \<Rightarrow> k | Some a \<Rightarrow> l a)"
  "(\<And>a b. keeps_unstale env p (h a b)) \<Longrightarrow> keeps_unstale env p (case y of (a, b) \<Rightarrow> h a b)"
  "(\<And>x. keeps_unstale env p (i x)) \<Longrightarrow> keeps_unstale env p (let x = a in i x)"
  by (simp_all add: Let_def split: sum.split option.split prod.split)

lemma unstale_calls [unstale_intros]:
  "keeps_unstale env p (perform env (ReconcileProject r))" "keeps_unstale env p (try_claim env k op)" "keeps_unstale env p (release_claim env k)"
  by (auto intro!: unstale_wp simp: wp_perform wp_try_claim wp_release Let_def unstale_def)

lemma unstale_running [unstale_intros]: "keeps_unstale env p (report_phase env p ProjectPhaseRunning reason msg)"
  by (auto intro!: unstale_wp simp: report_phase_def wp_perform Let_def unstale_def running_justified_def)

lemma unstale_report_running [unstale_intros]: "keeps_unstale env p (report_running env p)"
  by (auto simp: report_running_def intro!: unstale_intros)

lemma unstale_claiming [unstale_intros]: "keeps_unstale env p body \<Longrightarrow> keeps_unstale env p (claiming env k op refused body)"
  by (auto simp: claiming_def intro!: unstale_intros)

lemma unstale_reconcileContainers [unstale_intros]: "keeps_unstale env p (reconcileContainers env p r)"
  by (auto simp: reconcileContainers_def intro!: unstale_intros)

lemma unstale_placePostgres [unstale_intros]:
  "(\<And>st. start = Some st \<Longrightarrow> keeps_unstale env p st) \<Longrightarrow> keeps_unstale env p (placePostgres env p start)"
  by (cases start) (auto simp: placePostgres_def place_steps_def Let_def intro!: unstale_intros)

lemma unstale_ensureVolumeData [unstale_intros]: "keeps_unstale env p (ensureVolumeData env b p)"
  by (auto simp: ensureVolumeData_def intro!: unstale_intros)

lemma unstale_reconcile_states [unstale_intros]: "keeps_unstale env p (reconcile_states env p states)"
  by (auto simp: reconcile_states_def reconcile_missing_def place_and_start_def start_containers_def outdatedWhilePlacing_def Let_def
      intro!: unstale_intros)

lemma keeps_reconcileOne [keeps_intros]: "keeps env (reconcileOne env p)"
proof (rule keeps_wp)
  fix w :: agent_world
  assume j: "justified env (aw_trace w)"
  let ?J = "\<lambda>a w'. justified env (aw_trace w')"
  define w1 where "w1 = logged (GotStale p (ae_StaleContainers env (aw_trace w) p)) w"
  have j1: "justified env (aw_trace w1)" using j by (simp add: w1_def)
  have rest: "wp (reconcileOne env p) ?J w = (case ae_StaleContainers env (aw_trace w) p of
      Inl e \<Rightarrow> ?J () w1
    | Inr [] \<Rightarrow> wp (get_states env p) (\<lambda>r. wp (case r of Inl e \<Rightarrow> report_failed env p ''InspectError'' (agent_error_text e)
        | Inr states \<Rightarrow> reconcile_states env p states) ?J) w1
    | Inr (c # cs) \<Rightarrow> wp (reportRecoveryBlocked env p recoveryBlockedStaleContainer (staleContainerMessage (sc_Reason c)))
        (\<lambda>_. wp skip ?J) w1)"
    unfolding reconcileOne_def checkStaleContainers_def w1_def
    by (simp add: wp_bind wp_return wp_skip wp_queries Let_def split: sum.split list.split)
  show "wp (reconcileOne env p) ?J w"
  proof (cases "ae_StaleContainers env (aw_trace w) p")
    case (Inr cs)
    show ?thesis
    proof (cases cs)
      case Nil
      have "keeps_unstale env p (State_Monad.bind (get_states env p) (\<lambda>r. case r of Inl e \<Rightarrow> report_failed env p ''InspectError'' (agent_error_text e)
          | Inr states \<Rightarrow> reconcile_states env p states))"
        by (auto intro!: unstale_intros)
      moreover have "unstale env p (aw_trace w1)" using j Inr Nil by (simp add: unstale_def w1_def)
      ultimately show ?thesis using rest Inr Nil unfolding keeps_unstale_def by (simp add: wp_bind [symmetric] wp_run unstale_def)
    next
      case (Cons c cs')
      have "keeps env (State_Monad.bind (reportRecoveryBlocked env p recoveryBlockedStaleContainer (staleContainerMessage (sc_Reason c))) (\<lambda>_. skip))"
        by (auto intro!: keeps_intros)
      from keepsD [OF this j1] rest Inr Cons show ?thesis by (simp add: wp_bind)
    qed
  qed (use rest j1 in simp)
qed

subsection \<open>Recovery and updates\<close>

lemma wp_quiet_post:
  assumes "quiet_op m" "wp m (\<lambda>a _. P a) w"
    and "\<And>a w' evs. aw_trace w' = evs @ aw_trace w \<Longrightarrow> list_all quiet_event evs \<Longrightarrow> P a \<Longrightarrow> Q a w'"
  shows "wp m Q w"
  using assms unfolding quiet_op_def adds_def wp_run by metis

lemma resolveSecretsFor_same: "wp (resolveSecretsFor env p incl) (\<lambda>a _. \<forall>r. a = Inr r \<longrightarrow> same_assignment r p) w"
  by (auto simp: resolveSecretsFor_def same_assignment_def wp_run split_beta split: sum.splits)

text \<open>What recovery and updates establish before they act, and quiet steps cannot undo.\<close>

definition fresh :: "agent_env \<Rightarrow> Project \<Rightarrow> Operation \<Rightarrow> agent_event \<Rightarrow> trace \<Rightarrow> bool" where
  "fresh env cur op e tr \<longleftrightarrow> justified env tr \<and> last_read tr = Some cur \<and> ours_running env cur
     \<and> under_claim env (key_of cur) op tr \<and> e \<in> since_read tr"

lemma fresh_quiet: "fresh env cur op e tr \<Longrightarrow> list_all quiet_event evs \<Longrightarrow> fresh env cur op e (evs @ tr)"
  by (simp add: fresh_def quiet_list under_claim_def)

lemma fresh_J: "fresh env cur op e tr \<Longrightarrow> justified env tr"
  by (simp add: fresh_def)

lemma wp_attempt_recovery:
  assumes "fresh env cur OpRecovery (Did (PreflightRecovery cur (serviceNames bad)) None) (aw_trace w)" "same_assignment r cur"
  shows "wp (attempt_recovery env p cur r bad) (\<lambda>a w'. justified env (aw_trace w')) w"
proof -
  have "justified env (Did (RecoverServices r (serviceNames bad)) x # aw_trace w)" for x
    using assms by (auto simp: fresh_def recover_justified_def)
  moreover have "wp (report_failed env cur reason msg) (\<lambda>a w'. justified env (aw_trace w')) w'" if "aw_trace w' = aw_trace w" for w' reason msg
    using keepsD [OF keeps_quiet [OF quiet_reports(7)], of env w'] that fresh_J [OF assms(1)] by simp
  ultimately show ?thesis
    unfolding attempt_recovery_def
    by (auto simp: agent_wp Let_def fresh_J [OF assms(1)] split: prod.split recoveryDecision.split)
qed

lemma wp_recover_resolved:
  assumes "fresh env cur OpRecovery (Did (PreflightRecovery cur (serviceNames bad)) None) (aw_trace w)"
  shows "wp (recover_resolved env p cur bad) (\<lambda>a w'. justified env (aw_trace w')) w"
  unfolding recover_resolved_def wp_bind
proof (rule wp_quiet_post [OF quiet_resolveSecretsFor(1) resolveSecretsFor_same])
  fix a :: "agent_error + Project" and w' :: agent_world and evs
  assume tr: "aw_trace w' = evs @ aw_trace w" "list_all quiet_event evs" and same: "\<forall>r. a = Inr r \<longrightarrow> same_assignment r cur"
  have f: "fresh env cur OpRecovery (Did (PreflightRecovery cur (serviceNames bad)) None) (aw_trace w')"
    using fresh_quiet [OF assms tr(2)] tr(1) by simp
  show "wp (case a of Inl e \<Rightarrow> (case secretBlocked e of None \<Rightarrow> skip | Some (reason, message) \<Rightarrow> reportRecoveryBlocked env cur reason message)
      | Inr resolved \<Rightarrow> State_Monad.bind (clearRecoveryBlocked env cur) (\<lambda>_. attempt_recovery env p cur resolved bad))
    (\<lambda>a w'. justified env (aw_trace w')) w'"
  proof (cases a)
    case (Inl e)
    have "keeps env (case secretBlocked e of None \<Rightarrow> skip | Some (reason, message) \<Rightarrow> reportRecoveryBlocked env cur reason message)"
      by (auto intro!: keeps_intros)
    from keepsD [OF this fresh_J [OF f]] Inl show ?thesis by simp
  next
    case (Inr r)
    with same have "same_assignment r cur" by simp
    then show ?thesis
      unfolding Inr sum.case wp_bind
      by (intro wp_quiet [OF quiet_reports(4)]) (metis fresh_quiet [OF f] wp_attempt_recovery)
  qed
qed

lemma checkRecoveryFence_None:
  "checkRecoveryFence p cur node = None \<Longrightarrow> key_of cur = key_of p \<and> ps_NodeRef (prj_Status cur) = node
     \<and> ps_Phase (prj_Status cur) = ProjectPhaseRunning"
  by (auto simp: checkRecoveryFence_def key_of_def Let_def split: if_splits)

text \<open>What holds right after the Project was read again under the claim.\<close>

definition reread :: "agent_env \<Rightarrow> Project \<Rightarrow> Operation \<Rightarrow> Project \<Rightarrow> trace \<Rightarrow> bool" where
  "reread env p op cur tr \<longleftrightarrow> justified env tr \<and> last_read tr = Some cur \<and> under_claim env (key_of p) op tr"

lemma reread_fresh:
  assumes "reread env p op cur tr" "checkRecoveryFence p cur (ae_NodeName env) = None" "quiet_event e"
  shows "fresh env cur op e (e # tr)"
  using assms checkRecoveryFence_None [OF assms(2)] quiet_reads [OF assms(3)]
  by (simp add: reread_def fresh_def under_claim_def quiet_justified ours_running_def)

lemma wp_recover_current:
  assumes "reread env p OpRecovery cur (aw_trace w)"
  shows "wp (recover_current env p cur bad) (\<lambda>a w'. justified env (aw_trace w')) w"
proof (cases "checkRecoveryFence p cur (ae_NodeName env) = None \<and> \<not> IsMaintenanceActive (ps_Conditions (prj_Status cur)) (ae_Now env (aw_trace w))")
  case False
  then show ?thesis using assms by (auto simp: recover_current_def agent_wp reread_def)
next
  case True
  let ?x = "ae_do env (aw_trace w) (PreflightRecovery cur (serviceNames bad))"
  define w1 where "w1 = logged (Did (PreflightRecovery cur (serviceNames bad)) ?x) w"
  have f: "fresh env cur OpRecovery (Did (PreflightRecovery cur (serviceNames bad)) ?x) (aw_trace w1)"
    using reread_fresh [OF assms(1), of "Did (PreflightRecovery cur (serviceNames bad)) ?x"] True by (simp add: w1_def)
  show ?thesis
  proof (cases ?x)
    case None
    with True f wp_recover_resolved show ?thesis by (simp add: recover_current_def agent_wp Let_def w1_def)
  next
    case (Some e)
    have "wp (reportRecoveryBlocked env cur reason msg) (\<lambda>a w'. justified env (aw_trace w')) w1" for reason msg
      by (rule keepsD [OF keeps_quiet [OF quiet_reports(3)] fresh_J [OF f]])
    with True Some fresh_J [OF f] show ?thesis by (simp add: recover_current_def agent_wp Let_def w1_def)
  qed
qed

lemma wp_claiming_keeps:
  assumes stable: "\<And>tr ok. I (Claimed k op ok # tr) = I tr" "\<And>tr. I (Released k # tr) = I tr"
    and "I (aw_trace w)"
    and "\<And>w'. I (aw_trace w') \<Longrightarrow> under_claim env k op (aw_trace w') \<Longrightarrow> wp body (\<lambda>_ w''. I (aw_trace w'')) w'"
  shows "wp (claiming env k op refused body) (\<lambda>_ w'. I (aw_trace w')) w"
proof (cases "has_coordinator env")
  case True
  let ?ok = "ae_TryClaim env (aw_trace w) k op"
  show ?thesis
  proof (cases ?ok)
    case False
    with True stable assms(3) show ?thesis by (simp add: claiming_def agent_wp Let_def)
  next
    case ok: True
    have "wp body (\<lambda>_ w''. I (aw_trace w'')) (logged (Claimed k op ?ok) w)"
      by (rule assms(4)) (use stable assms(3) ok in \<open>simp_all add: under_claim_def\<close>)
    then have "wp body (\<lambda>_. wp (release_claim env k) (\<lambda>_ w''. I (aw_trace w''))) (logged (Claimed k op ?ok) w)"
      by (rule wp_mono) (simp add: True wp_release stable)
    then show ?thesis using True ok by (simp add: claiming_def agent_wp Let_def)
  qed
next
  case False
  have "wp body (\<lambda>_ w''. I (aw_trace w'')) w"
    by (rule assms(4)) (use assms(3) False in \<open>simp_all add: under_claim_def\<close>)
  then have "wp body (\<lambda>_. wp (release_claim env k) (\<lambda>_ w''. I (aw_trace w''))) w"
    by (rule wp_mono) (simp add: False wp_release)
  then show ?thesis using False by (simp add: claiming_def agent_wp Let_def)
qed

lemma wp_claiming:
  assumes "justified env (aw_trace w)"
    and "\<And>w'. justified env (aw_trace w') \<Longrightarrow> under_claim env k op (aw_trace w') \<Longrightarrow> wp body (\<lambda>a w''. justified env (aw_trace w'')) w'"
  shows "wp (claiming env k op refused body) (\<lambda>a w'. justified env (aw_trace w')) w"
  by (rule wp_claiming_keeps [where I = "justified env"]) (use assms in simp_all)

lemma wp_get_project:
  assumes "justified env (aw_trace w)" "under_claim env (key_of p) op (aw_trace w)"
    and "\<And>e w'. justified env (aw_trace w') \<Longrightarrow> Q (Inl e) w'"
    and "\<And>cur w'. reread env p op cur (aw_trace w') \<Longrightarrow> Q (Inr cur) w'"
  shows "wp (get_project env n) Q w"
proof (cases "ae_GetProject env (aw_trace w) n")
  case (Inl e)
  with assms(1,3) show ?thesis by (simp add: wp_queries Let_def)
next
  case (Inr cur)
  then have "reread env p op cur (aw_trace (logged (GotProject n (Inr cur)) w))" using assms(1,2) by (simp add: reread_def under_claim_def)
  with Inr assms(4) show ?thesis by (simp add: wp_queries Let_def)
qed

lemma keeps_recoverLocally [keeps_intros]: "keeps env (recoverLocally env p bad)"
proof (rule keeps_wp)
  fix w :: agent_world
  assume "justified env (aw_trace w)"
  then show "wp (recoverLocally env p bad) (\<lambda>a w'. justified env (aw_trace w')) w"
    unfolding recoverLocally_def
  proof (rule wp_claiming)
    fix w' :: agent_world
    assume "justified env (aw_trace w')" "under_claim env (key_of p) OpRecovery (aw_trace w')"
    then show "wp (State_Monad.bind (get_project env (meta_Name (prj_Meta p))) (\<lambda>r. case r of Inl e \<Rightarrow> skip
        | Inr current \<Rightarrow> recover_current env p current bad)) (\<lambda>a w''. justified env (aw_trace w'')) w'"
      unfolding wp_bind by (rule wp_get_project) (simp_all add: wp_skip wp_recover_current)
  qed
qed

lemma quiet_note_update_failed [quiet_intros]: "quiet_op (note_update_failed env p revision b)"
  by (auto simp: note_update_failed_def intro!: quiet_intros)

lemma quiet_update_failed [quiet_intros]: "quiet_op (update_failed env p cur e)"
  by (auto simp: update_failed_def intro!: quiet_intros)

lemma wp_update_services:
  assumes "fresh env cur OpUpdate (GotDrift cur (Inr d)) (aw_trace w)" "same_assignment r cur"
  shows "wp (update_services env p cur r d) (\<lambda>a w'. justified env (aw_trace w')) w"
proof -
  let ?x = "ae_do env (aw_trace w) (UpdateServices r d)"
  have j: "justified env (aw_trace (logged (Did (UpdateServices r d) ?x) w))"
    using assms by (auto simp: fresh_def update_justified_def)
  have "keeps env (case ?x of
      Some e \<Rightarrow> State_Monad.bind (update_failed env p cur e) (\<lambda>_. State_Monad.return (True, False))
    | None \<Rightarrow> State_Monad.bind (on_recovery (specUpdateSucceeded (keyForProject p))) (\<lambda>_.
        State_Monad.bind (report_spec env cur True '''' '''') (\<lambda>_.
        State_Monad.bind (updateProxyRoutes env cur) (\<lambda>_. State_Monad.return (True, True)))))"
    by (auto intro!: keeps_intros keeps_quiet [OF quiet_update_failed])
  from keepsD [OF this j] show ?thesis by (simp add: update_services_def wp_bind wp_perform Let_def)
qed

lemma wp_update_drift:
  assumes "fresh env cur OpUpdate (GotDrift cur (Inr d)) (aw_trace w)"
  shows "wp (update_drift env p cur d) (\<lambda>a w'. justified env (aw_trace w')) w"
  unfolding update_drift_def resolveSecrets_def wp_bind
proof (rule wp_quiet_post [OF quiet_resolveSecretsFor(1) resolveSecretsFor_same])
  fix a :: "agent_error + Project" and w' :: agent_world and evs
  assume tr: "aw_trace w' = evs @ aw_trace w" "list_all quiet_event evs" and same: "\<forall>r. a = Inr r \<longrightarrow> same_assignment r cur"
  have f: "fresh env cur OpUpdate (GotDrift cur (Inr d)) (aw_trace w')"
    using fresh_quiet [OF assms tr(2)] tr(1) by simp
  show "wp (case a of Inl e \<Rightarrow> (case secretBlocked e of
        None \<Rightarrow> State_Monad.return (True, False)
      | Some (reason, message) \<Rightarrow> State_Monad.bind (note_update_failed env p (meta_SpecRevision (prj_Meta cur)) False) (\<lambda>_.
          State_Monad.bind (report_spec env cur False reason message) (\<lambda>_. State_Monad.return (True, False))))
      | Inr resolved \<Rightarrow> update_services env p cur resolved d)
    (\<lambda>a w'. justified env (aw_trace w')) w'"
  proof (cases a)
    case (Inl e)
    have "keeps env (case secretBlocked e of
        None \<Rightarrow> State_Monad.return (True, False)
      | Some (reason, message) \<Rightarrow> State_Monad.bind (note_update_failed env p (meta_SpecRevision (prj_Meta cur)) False) (\<lambda>_.
          State_Monad.bind (report_spec env cur False reason message) (\<lambda>_. State_Monad.return (True, False))))"
      by (auto intro!: keeps_intros keeps_quiet [OF quiet_note_update_failed])
    from keepsD [OF this fresh_J [OF f]] Inl show ?thesis by simp
  next
    case (Inr r)
    with same wp_update_services [OF f] show ?thesis by simp
  qed
qed

lemma wp_update_current:
  assumes "reread env p OpUpdate cur (aw_trace w)"
  shows "wp (update_current env p cur) (\<lambda>a w'. justified env (aw_trace w')) w"
proof -
  let ?x = "ae_SpecDrift env (aw_trace w) cur"
  have j: "justified env (aw_trace w)" using assms by (simp add: reread_def)
  have "wp (update_drift env p cur d) (\<lambda>a w'. justified env (aw_trace w')) (logged (GotDrift cur ?x) w)"
    if "?x = Inr d" "checkRecoveryFence p cur (ae_NodeName env) = None" for d
    by (rule wp_update_drift) (use reread_fresh [OF assms that(2), of "GotDrift cur ?x"] that(1) in simp)
  with j show ?thesis by (auto simp: update_current_def agent_wp Let_def split: sum.split)
qed

lemma keeps_applySpecUpdate [keeps_intros]: "keeps env (applySpecUpdate env p)"
proof -
  have claimed: "keeps env (claiming env (key_of p) OpUpdate (True, False) (State_Monad.bind (get_project env n) (\<lambda>r.
      case r of Inl e \<Rightarrow> State_Monad.return (True, False) | Inr current \<Rightarrow> update_current env p current)))" for n
  proof (rule keeps_wp, rule wp_claiming)
    fix w' :: agent_world
    assume "justified env (aw_trace w')" "under_claim env (key_of p) OpUpdate (aw_trace w')"
    then show "wp (State_Monad.bind (get_project env n) (\<lambda>r. case r of Inl e \<Rightarrow> State_Monad.return (True, False)
        | Inr current \<Rightarrow> update_current env p current)) (\<lambda>a w''. justified env (aw_trace w'')) w'"
      unfolding wp_bind by (rule wp_get_project) (simp_all add: wp_return wp_update_current)
  qed
  show ?thesis
    unfolding applySpecUpdate_def by (intro claimed keeps_if keeps_bind keeps_case_sum quiet_steps [THEN keeps_quiet])
qed

lemma keeps_healthCheckOne [keeps_intros]: "keeps env (healthCheckOne env p)"
  by (auto simp: healthCheckOne_def checkStaleContainers_def judge_states_def judge_unhealthy_def judge_transient_def report_unhealthy_def Let_def
      intro!: keeps_intros split: option.split prod.split list.split)

subsection \<open>Cleanup and teardown\<close>

text \<open>Steps that only remove, look and report keep a claim and what was found empty.\<close>

definition harmless :: "agent_event \<Rightarrow> bool" where
  "harmless e \<longleftrightarrow> \<not> starts e \<and> (\<forall>k. e \<noteq> Released k) \<and> (\<forall>k op ok. e \<noteq> Claimed k op ok)"

definition swept :: "agent_env \<Rightarrow> ResourceKey \<Rightarrow> Operation \<Rightarrow> string list \<Rightarrow> Assignment \<Rightarrow> trace \<Rightarrow> bool" where
  "swept env key op kinds a tr \<longleftrightarrow> justified env tr \<and> ae_kinds env = Some kinds \<and> under_claim env key op tr \<and> emptied kinds a tr"

lemma harmless_keeps:
  assumes "harmless e"
  shows "held k (e # tr) = held k tr" "since_start (e # tr) = insert e (since_start tr)"
  using assms by (cases e; auto simp: harmless_def since_start_def)+

lemma harmless_swept: "swept env key op kinds a tr \<Longrightarrow> harmless e \<Longrightarrow> justified env (e # tr) \<Longrightarrow> swept env key op kinds a (e # tr)"
  by (auto simp: swept_def under_claim_def emptied_def harmless_keeps)

lemma quiet_swept: "swept env key op kinds a tr \<Longrightarrow> list_all quiet_event evs \<Longrightarrow> swept env key op kinds a (evs @ tr)"
  by (auto simp: swept_def under_claim_def emptied_def quiet_list)

lemma swept_J: "swept env key op kinds a tr \<Longrightarrow> justified env tr"
  by (simp add: swept_def)

lemma quiet_remove_kinds [quiet_intros]: "quiet_op (remove_kinds env a ks)"
  by (induction ks) (auto intro!: quiet_intros)

lemma quiet_removeAll [quiet_intros]: "quiet_op (removeAll env ks a)"
  by (auto simp: removeAll_def intro!: quiet_intros)

lemma quiet_remaining [quiet_intros]: "quiet_op (remaining env a ks)"
  by (induction ks) (auto intro!: quiet_intros)

text \<open>Nothing remains exactly when every kind was asked and had nothing.\<close>

lemma remaining_none:
  "wp (remaining env a ks) (\<lambda>r w'. r = Inr [] \<longrightarrow> emptied ks a (aw_trace w')) w"
proof (induction ks arbitrary: w)
  case (Cons k ks)
  show ?case
  proof (cases "ae_Remaining env (aw_trace w) k a")
    case (Inr items)
    let ?e = "GotRemaining k a (Inr items)"
    have "wp (remaining env a ks) (\<lambda>r w'. (r = Inr [] \<longrightarrow> emptied ks a (aw_trace w')) \<and> ?e \<in> since_start (aw_trace w')) (logged ?e w)"
    proof (rule wp_conj [OF Cons.IH], rule wp_quiet [OF quiet_remaining])
      fix w' :: agent_world and evs
      assume "aw_trace w' = evs @ aw_trace (logged ?e w)" "list_all quiet_event evs"
      then show "?e \<in> since_start (aw_trace w')" by (simp add: quiet_list quiet_reads)
    qed
    then have "wp (remaining env a ks) (\<lambda>r. wp (State_Monad.return (case r of Inl e \<Rightarrow> Inl e | Inr left \<Rightarrow> Inr (items @ left)))
        (\<lambda>r w'. r = Inr [] \<longrightarrow> emptied (k # ks) a (aw_trace w'))) (logged ?e w)"
      by (rule wp_mono) (auto simp: wp_return emptied_def split: sum.splits)
    with Inr show ?thesis by (simp add: agent_wp Let_def)
  qed (simp add: agent_wp Let_def)
qed (simp add: agent_wp emptied_def)

definition keeps_swept :: "agent_env \<Rightarrow> ResourceKey \<Rightarrow> Operation \<Rightarrow> string list \<Rightarrow> Assignment \<Rightarrow> 'a agent \<Rightarrow> bool" where
  "keeps_swept env key op kinds a m \<longleftrightarrow> (\<forall>w. swept env key op kinds a (aw_trace w) \<longrightarrow> swept env key op kinds a (aw_trace (snd (run_state m w))))"

named_theorems swept_intros

lemma swept_wp: "(\<And>w. swept env key op kinds a (aw_trace w) \<Longrightarrow> wp m (\<lambda>_ w'. swept env key op kinds a (aw_trace w')) w)
    \<Longrightarrow> keeps_swept env key op kinds a m"
  by (simp add: keeps_swept_def wp_run)

lemma keeps_sweptD: "keeps_swept env key op kinds a m \<Longrightarrow> swept env key op kinds a (aw_trace w)
    \<Longrightarrow> wp m (\<lambda>_ w'. swept env key op kinds a (aw_trace w')) w"
  by (simp add: keeps_swept_def wp_run)

lemma swept_quiet: "quiet_op m \<Longrightarrow> keeps_swept env key op kinds a m"
  by (auto intro!: swept_wp elim!: wp_quiet simp: quiet_swept)

lemmas [swept_intros] = quiet_steps [THEN swept_quiet]

lemma swept_bind [swept_intros]:
  "keeps_swept env key op kinds a m \<Longrightarrow> (\<And>x. keeps_swept env key op kinds a (f x)) \<Longrightarrow> keeps_swept env key op kinds a (State_Monad.bind m f)"
  by (auto simp: keeps_swept_def split_beta)

lemma swept_cases [swept_intros]:
  "keeps_swept env key op kinds a m \<Longrightarrow> keeps_swept env key op kinds a n \<Longrightarrow> keeps_swept env key op kinds a (if b then m else n)"
  "(\<And>e. keeps_swept env key op kinds a (f e)) \<Longrightarrow> (\<And>x. keeps_swept env key op kinds a (g x)) \<Longrightarrow>
     keeps_swept env key op kinds a (case s of Inl e \<Rightarrow> f e | Inr x \<Rightarrow> g x)"
  "keeps_swept env key op kinds a h \<Longrightarrow> (\<And>x. keeps_swept env key op kinds a (l x)) \<Longrightarrow>
     keeps_swept env key op kinds a (case y of None \<Rightarrow> h | Some x \<Rightarrow> l x)"
  by (simp_all split: sum.split option.split)

lemma swept_get_project [swept_intros]: "keeps_swept env key op kinds a (get_project env n)"
  by (auto intro!: swept_wp harmless_swept simp: wp_queries Let_def harmless_def swept_J)

lemma swept_obligationStands [swept_intros]: "keeps_swept env key op kinds a (obligationStands env n i)"
  by (auto simp: obligationStands_def intro!: swept_intros)

lemma swept_report_removed:
  assumes "rsk_Name key = n" "op = OpTerminate \<or> op = OpOrphanCleanup" "covers a n i"
  shows "keeps_swept env key op kinds a (perform env (ReportResourcesRemoved n i))"
    and "keeps_swept env key op kinds a (perform env (ReportManagedDataQuarantined n i))"
proof -
  have "removal_justified env tr n i" if "swept env key op kinds a tr" for tr
    using assms that unfolding removal_justified_def swept_def by blast
  then show "keeps_swept env key op kinds a (perform env (ReportResourcesRemoved n i))"
    "keeps_swept env key op kinds a (perform env (ReportManagedDataQuarantined n i))"
    by (auto intro!: swept_wp harmless_swept simp: wp_perform Let_def harmless_def swept_J)
qed

text \<open>Removing every kind and finding none left, under the claim.\<close>

definition claimed :: "agent_env \<Rightarrow> ResourceKey \<Rightarrow> Operation \<Rightarrow> trace \<Rightarrow> bool" where
  "claimed env key op tr \<longleftrightarrow> justified env tr \<and> under_claim env key op tr"

lemma claimed_quiet: "claimed env key op tr \<Longrightarrow> list_all quiet_event evs \<Longrightarrow> claimed env key op (evs @ tr)"
  by (simp add: claimed_def under_claim_def quiet_list)

lemma claimed_J: "claimed env key op tr \<Longrightarrow> justified env tr"
  by (simp add: claimed_def)

lemma wp_claimed_quiet: "quiet_op m \<Longrightarrow> claimed env key op (aw_trace w) \<Longrightarrow> wp m (\<lambda>_ w'. claimed env key op (aw_trace w')) w"
  by (erule wp_quiet) (simp add: claimed_quiet)

lemma wp_remaining:
  assumes "claimed env key op (aw_trace w)" "ae_kinds env = Some kinds"
  shows "wp (remaining env a kinds) (\<lambda>r w'. claimed env key op (aw_trace w') \<and> (r = Inr [] \<longrightarrow> swept env key op kinds a (aw_trace w'))) w"
  using wp_conj [OF wp_claimed_quiet [OF quiet_remaining assms(1)] remaining_none]
  by (rule wp_mono) (use assms(2) in \<open>auto simp: swept_def claimed_def\<close>)

text \<open>The shape teardown and cleanup share: remove, look again, report only when nothing is left.\<close>

lemma wp_remove_and_look:
  assumes c: "claimed env key op (aw_trace w)" and kinds: "ae_kinds env = Some kinds"
    and failed: "\<And>e. keeps env (failed e)" and unclear: "\<And>e. keeps env (unclear e)" and left: "\<And>items. keeps env (some_left items)"
    and clean: "keeps_swept env key op kinds a clean"
  shows "wp (State_Monad.bind (removeAll env kinds a) (\<lambda>err. case err of
      Some e \<Rightarrow> failed e
    | None \<Rightarrow> State_Monad.bind (remaining env a kinds) (\<lambda>r. case r of
        Inl e \<Rightarrow> unclear e
      | Inr items \<Rightarrow> if length items > 0 then some_left items else clean))) (\<lambda>_ w'. justified env (aw_trace w')) w"
  unfolding wp_bind
proof (rule wp_mono [OF wp_claimed_quiet [OF quiet_removeAll c]])
  fix err and w' :: agent_world
  assume c': "claimed env key op (aw_trace w')"
  have "wp (State_Monad.bind (remaining env a kinds) (\<lambda>r. case r of
        Inl e \<Rightarrow> unclear e
      | Inr items \<Rightarrow> if length items > 0 then some_left items else clean)) (\<lambda>_ w'. justified env (aw_trace w')) w'"
    unfolding wp_bind
  proof (rule wp_mono [OF wp_remaining [OF c' kinds]])
    fix r :: "agent_error + string list" and w'' :: agent_world
    assume r: "claimed env key op (aw_trace w'') \<and> (r = Inr [] \<longrightarrow> swept env key op kinds a (aw_trace w''))"
    then have j: "justified env (aw_trace w'')" by (blast intro: claimed_J)
    have "wp clean (\<lambda>_ w'. justified env (aw_trace w')) w''" if "r = Inr []"
      using keeps_sweptD [OF clean] r that by (blast intro: wp_mono swept_J)
    with j unclear left show "wp (case r of Inl e \<Rightarrow> unclear e | Inr items \<Rightarrow> if length items > 0 then some_left items else clean)
        (\<lambda>_ w'. justified env (aw_trace w')) w''"
      by (auto simp: keepsD split: sum.split)
  qed
  then show "wp (case err of Some e \<Rightarrow> failed e | None \<Rightarrow> State_Monad.bind (remaining env a kinds) (\<lambda>r. case r of
        Inl e \<Rightarrow> unclear e
      | Inr items \<Rightarrow> if length items > 0 then some_left items else clean)) (\<lambda>_ w'. justified env (aw_trace w')) w'"
    using failed claimed_J [OF c'] by (auto simp: keepsD split: option.split)
qed

lemma swept_reportResourcesRemoved:
  assumes "rsk_Name key = ct_ProjectName task" "op = OpTerminate \<or> op = OpOrphanCleanup" "covers a (ct_ProjectName task) (ct_Assignment task)"
  shows "keeps_swept env key op kinds a (reportResourcesRemoved env task)" "keeps_swept env key op kinds a (quarantineManagedData env b task)"
  by (auto simp: reportResourcesRemoved_def quarantineManagedData_def intro!: swept_intros swept_report_removed [OF assms])

lemma keeps_runCleanupTask [keeps_intros]:
  assumes "ae_kinds env = Some kinds"
  shows "keeps env (runCleanupTask env kinds task)"
  unfolding runCleanupTask_def Let_def
proof (rule keeps_wp, rule wp_claiming)
  fix w :: agent_world
  let ?a = "assignmentOf (ct_Namespace task) (ct_ProjectName task) (ct_Assignment task)"
  let ?key = "\<lparr>rsk_Namespace = as_Namespace ?a, rsk_Name = as_Project ?a\<rparr>"
  assume "justified env (aw_trace w)" "under_claim env ?key OpOrphanCleanup (aw_trace w)"
  then have "wp (revalidateCleanup env task) (\<lambda>_ w'. claimed env ?key OpOrphanCleanup (aw_trace w')) w"
    by (simp add: revalidateCleanup_def agent_wp Let_def claimed_def under_claim_def)
  moreover have "wp (clean_obligation env kinds task o') (\<lambda>_ w''. justified env (aw_trace w'')) w'"
    if "claimed env ?key OpOrphanCleanup (aw_trace w')" for w' o'
    unfolding clean_obligation_def Let_def
    by (intro wp_remove_and_look [OF that assms] swept_intros swept_reportResourcesRemoved quiet_skip [THEN keeps_quiet])
      (simp_all add: assignmentOf_def covers_def)
  ultimately show "wp (State_Monad.bind (revalidateCleanup env task) (\<lambda>v. case v of Inl reason \<Rightarrow> skip
      | Inr obligation \<Rightarrow> clean_obligation env kinds task obligation)) (\<lambda>_ w'. justified env (aw_trace w')) w"
    unfolding wp_bind by (elim wp_mono) (auto simp: wp_skip claimed_J split: sum.split)
qed

lemma keeps_runCleanupTasks [keeps_intros]: "keeps env (runCleanupTasks env)"
  by (cases "ae_kinds env") (auto simp: runCleanupTasks_def intro!: keeps_intros)

lemma swept_report_all_removed:
  assumes "rsk_Name key = n" "op = OpTerminate \<or> op = OpOrphanCleanup" "\<forall>i \<in> set is. covers a n i"
  shows "keeps_swept env key op kinds a (report_all_removed env n is)"
  using assms(3)
proof (induction "is")
  case (Cons i "is")
  then show ?case by (auto simp: reportRemoved_def intro!: swept_intros swept_report_removed [OF assms(1,2)])
qed (simp add: swept_intros)

lemma own_obligations_covered: "i \<in> set (own_obligations p) \<Longrightarrow> covers (lifetime_of p) (meta_Name (prj_Meta p)) i"
  by (auto simp: own_obligations_def covers_def lifetime_of_def Let_def fenceForProject_def split: option.splits)

text \<open>Tearing down claims, removes and reports in the shape above.\<close>

lemma keeps_terminateOne [keeps_intros]: "keeps env (terminateOne env p)"
  unfolding terminateOne_def
proof (rule keeps_wp, rule wp_claiming)
  fix w :: agent_world
  let ?k = "\<lambda>kinds. keeps_swept env (key_of p) OpTerminate kinds (lifetime_of p)"
  assume c: "justified env (aw_trace w)" "under_claim env (key_of p) OpTerminate (aw_trace w)"
  have name: "rsk_Name (key_of p) = meta_Name (prj_Meta p)" by (simp add: key_of_def)
  have phase: "?k kinds (report_phase env p ProjectPhaseTerminated reason msg)" for kinds reason msg
  proof -
    have "terminated_justified env tr (meta_Name (prj_Meta p)) (fenceForProject p)"
      if "swept env (key_of p) OpTerminate kinds (lifetime_of p) tr" for tr
      using that unfolding terminated_justified_def swept_def by blast
    then show ?thesis by (auto intro!: swept_wp harmless_swept simp: report_phase_def wp_perform Let_def harmless_def swept_J)
  qed
  have rest: "?k kinds (resolveOwnObligations env p)" for kinds
    unfolding resolveOwnObligations_def by (rule swept_report_all_removed [OF name]) (auto dest: own_obligations_covered)
  have "wp (teardown env kinds p) (\<lambda>_ w'. justified env (aw_trace w')) w" if "ae_kinds env = Some kinds" for kinds
    unfolding teardown_def
    by (intro wp_remove_and_look [where key = "key_of p" and op = OpTerminate] that phase rest swept_intros quiet_reports [THEN keeps_quiet])
      (simp add: claimed_def c)
  moreover have "wp (reportTeardownBlocked env p reason msg) (\<lambda>_ w'. justified env (aw_trace w')) w" for reason msg
    by (rule keepsD [OF keeps_quiet [OF quiet_reports(5)] c(1)])
  ultimately show "wp (case ae_kinds env of
       None \<Rightarrow> reportTeardownBlocked env p ''CleanerUnavailable'' ''this agent cannot remove resources by Project lifetime''
     | Some kinds \<Rightarrow> teardown env kinds p) (\<lambda>_ w'. justified env (aw_trace w')) w" by (simp split: option.split)
qed

subsection \<open>The orphan sweep\<close>

lemma wp_assigned:
  assumes "quiet_op m" "justified env (aw_trace w)" "last_assigned (aw_trace w) = Some ps"
  shows "wp m (\<lambda>_ w'. justified env (aw_trace w') \<and> last_assigned (aw_trace w') = Some ps) w"
  using assms(1) by (rule wp_quiet) (simp add: assms quiet_list)

definition keeps_assigned :: "agent_env \<Rightarrow> Project list \<Rightarrow> 'a agent \<Rightarrow> bool" where
  "keeps_assigned env ps m \<longleftrightarrow> (\<forall>w. justified env (aw_trace w) \<and> last_assigned (aw_trace w) = Some ps \<longrightarrow>
     justified env (aw_trace (snd (run_state m w))) \<and> last_assigned (aw_trace (snd (run_state m w))) = Some ps)"

named_theorems assigned_intros

lemma assigned_wp: "(\<And>w. justified env (aw_trace w) \<Longrightarrow> last_assigned (aw_trace w) = Some ps \<Longrightarrow>
    wp m (\<lambda>_ w'. justified env (aw_trace w') \<and> last_assigned (aw_trace w') = Some ps) w) \<Longrightarrow> keeps_assigned env ps m"
  by (simp add: keeps_assigned_def wp_run)

lemma assigned_quiet: "quiet_op m \<Longrightarrow> keeps_assigned env ps m"
  by (intro assigned_wp wp_assigned)

lemmas [assigned_intros] = quiet_steps [THEN assigned_quiet]

lemma assigned_orphans [assigned_intros]: "keeps_assigned env ps (on_orphans f)"
  by (simp add: keeps_assigned_def on_orphans_def)

lemma assigned_bind [assigned_intros]: "keeps_assigned env ps m \<Longrightarrow> (\<And>a. keeps_assigned env ps (f a)) \<Longrightarrow> keeps_assigned env ps (State_Monad.bind m f)"
  by (auto simp: keeps_assigned_def split_beta)

lemma assigned_cases [assigned_intros]:
  "keeps_assigned env ps m \<Longrightarrow> keeps_assigned env ps n \<Longrightarrow> keeps_assigned env ps (if b then m else n)"
  "keeps_assigned env ps k \<Longrightarrow> (\<And>a. keeps_assigned env ps (l a)) \<Longrightarrow> keeps_assigned env ps (case x of None \<Rightarrow> k | Some a \<Rightarrow> l a)"
  by (simp_all split: option.split)

lemma assigned_note [assigned_intros]: "keeps_assigned env ps (note_event (RoutesRemoved n))"
  by (rule assigned_quiet) (simp add: quiet_note)

lemma assigned_calls [assigned_intros]:
  "keeps_assigned env ps (perform env (ReconcileProject r))" "keeps_assigned env ps (try_claim env k op)" "keeps_assigned env ps (release_claim env k)"
  by (auto intro!: assigned_wp simp: wp_perform wp_try_claim wp_release Let_def)

lemma assigned_each [assigned_intros]: "(\<And>x. x \<in> set xs \<Longrightarrow> keeps_assigned env ps (f x)) \<Longrightarrow> keeps_assigned env ps (each f xs)"
  by (induction xs) (auto intro!: assigned_intros)

lemma assigned_claiming: "keeps_assigned env ps body \<Longrightarrow> keeps_assigned env ps (claiming env k op refused body)"
  by (auto simp: claiming_def intro!: assigned_intros)

text \<open>An orphan operation runs under its claim on a project the server does not assign.\<close>

lemma assigned_orphan:
  assumes "i \<notin> projectIdentity ` set ps" "r = StopOrphanProject i \<or> r = RemoveOrphanProject i" "\<And>x. keeps_assigned env ps (f x)"
  shows "keeps_assigned env ps (claiming env (orphan_key i) OpOrphanCleanup refused (State_Monad.bind (perform env r) f))"
proof (rule assigned_wp)
  fix w :: agent_world
  let ?I = "\<lambda>_ w'. justified env (aw_trace w') \<and> last_assigned (aw_trace w') = Some ps"
  assume w: "justified env (aw_trace w)" "last_assigned (aw_trace w) = Some ps"
  have act: "wp (State_Monad.bind (perform env r) f) ?I w'"
    if "justified env (aw_trace w')" "last_assigned (aw_trace w') = Some ps" "under_claim env (orphan_key i) OpOrphanCleanup (aw_trace w')" for w'
  proof -
    have "orphan_justified env (aw_trace w') i" using that assms(1) by (simp add: orphan_justified_def)
    then have "wp (perform env r) ?I w'" using that assms(2) by (auto simp: wp_perform Let_def)
    then show ?thesis unfolding wp_bind using assms(3) by (elim wp_mono) (simp add: keeps_assigned_def wp_run)
  qed
  show "wp (claiming env (orphan_key i) OpOrphanCleanup refused (State_Monad.bind (perform env r) f)) ?I w"
    by (rule wp_claiming_keeps [where I = "\<lambda>tr. justified env tr \<and> last_assigned tr = Some ps"]) (use w act in simp_all)
qed

definition leaves_assigned :: "(ProjectIdentity \<Rightarrow> bool) \<Rightarrow> orphanTracker \<times> orphanObservation \<Rightarrow> bool" where
  "leaves_assigned assigned to \<longleftrightarrow> (\<forall>i. i \<in> set (ob_toStop (snd to)) \<union> set (ob_toRemove (snd to)) \<longrightarrow> \<not> assigned i)"

lemma leaves_lost: "leaves_assigned assigned to \<Longrightarrow> \<not> assigned i \<Longrightarrow> leaves_assigned assigned (observe_lost now i s to)"
  by (cases to) (simp add: observe_lost_def leaves_assigned_def)

lemma leaves_local: "leaves_assigned assigned to \<Longrightarrow> leaves_assigned assigned (observe_local now assigned i to)"
  by (cases to; cases "assigned i"; cases "map_of (fst to) i")
    (simp_all add: observe_local_def leaves_lost, simp_all add: leaves_assigned_def)

lemma leaves_tracked: "leaves_assigned assigned to \<Longrightarrow> leaves_assigned assigned (observe_tracked now l assigned x to)"
  by (cases to; cases x) (simp add: observe_tracked_def leaves_lost, simp add: leaves_assigned_def)

lemma leaves_folds:
  "leaves_assigned assigned to \<Longrightarrow> leaves_assigned assigned (fold (observe_local now assigned) is to)"
  "leaves_assigned assigned to \<Longrightarrow> leaves_assigned assigned (fold (observe_tracked now l assigned) xs to)"
  by (induction "is" arbitrary: to, simp_all add: leaves_local, induction xs arbitrary: to, simp_all add: leaves_tracked)

lemma observe_unassigned: "leaves_assigned assigned (orphan_observe now loc assigned t)"
proof -
  have "leaves_assigned assigned (t, no_observation)" by (simp add: leaves_assigned_def no_observation_def)
  from leaves_folds(2) [OF leaves_folds(1) [OF this]] show ?thesis by (simp add: orphan_observe_def split_beta Let_def)
qed

lemma assigned_map_None: "assigned_map ps i = None \<longleftrightarrow> i \<notin> projectIdentity ` set ps"
  by (auto simp: assigned_map_def map_of_eq_None_iff image_iff)

lemma assigned_sweeps:
  assumes "i \<notin> projectIdentity ` set ps"
  shows "keeps_assigned env ps (sweep_stop env i)" "keeps_assigned env ps (sweep_remove env i)"
  unfolding sweep_stop_def sweep_remove_def by (intro assigned_intros assigned_orphan assms disjI1 disjI2 refl)+

lemma assigned_reappeared [assigned_intros]: "keeps_assigned env ps (sweep_reappeared env m i)"
  unfolding sweep_reappeared_def by (intro assigned_intros assigned_claiming)

lemma wp_on_orphans: "wp (on_orphans f) Q w = Q () (w\<lparr>aw_orphans := f (aw_orphans w)\<rparr>)"
  by (simp add: wp_def on_orphans_def)

lemma wp_sweepOrphans:
  assumes "justified env (aw_trace w)" "last_assigned (aw_trace w) = Some ps"
  shows "wp (sweepOrphans env ps) (\<lambda>_ w'. justified env (aw_trace w') \<and> last_assigned (aw_trace w') = Some ps) w"
proof -
  let ?I = "\<lambda>_ w'. justified env (aw_trace w') \<and> last_assigned (aw_trace w') = Some ps"
  have "wp (observe_orphans env ps loc) (\<lambda>ob. wp (sweep_observed env ps ob) ?I) w'" if I: "?I () w'" for w' loc
  proof -
    let ?r = "orphan_observe (ae_Now env (aw_trace w')) loc (\<lambda>i. \<not> Option.is_none (assigned_map ps i)) (aw_orphans w')"
    obtain t ob where r: "?r = (t, ob)" by (cases ?r)
    have "i \<notin> projectIdentity ` set ps" if "i \<in> set (ob_toStop ob) \<union> set (ob_toRemove ob)" for i
      using observe_unassigned [of "\<lambda>i. \<not> Option.is_none (assigned_map ps i)" "ae_Now env (aw_trace w')" loc "aw_orphans w'"] that
      unfolding r leaves_assigned_def by (auto simp: assigned_map_None Option.is_none_def)
    then have "keeps_assigned env ps (sweep_observed env ps ob)"
      unfolding sweep_observed_def by (intro assigned_intros assigned_sweeps) simp_all
    then have "wp (sweep_observed env ps ob) ?I (w'\<lparr>aw_orphans := t\<rparr>)" using I by (simp add: keeps_assigned_def wp_run)
    then show ?thesis unfolding observe_orphans_def wp_def [of "State f" for f] using r by simp
  qed
  with assms show ?thesis
    by (simp add: sweepOrphans_def wp_bind wp_ask Let_def wp_on_orphans wp_case_sum split: sum.split)
qed

lemma keeps_sync [keeps_intros]: "keeps env (note_event (SupervisorSynced ps))"
  by (rule keeps_quiet) (simp add: quiet_note)

lemma keeps_orphans [keeps_intros]: "keeps env (on_orphans f)"
  by (simp add: keeps_def on_orphans_def)

lemma keeps_dispatch [keeps_intros]: "keeps env (dispatch env p)"
  by (cases "ps_Phase (prj_Status p)") (auto simp: dispatch_def intro!: keeps_intros)

text \<open>One poll, and the pass over Running Projects at startup, keep every call justified.\<close>

lemma keeps_reconcile_assigned [keeps_intros]: "keeps env (reconcile_assigned env ps)"
  unfolding reconcile_assigned_def by (intro keeps_intros)

lemma keeps_reconcileProjects [keeps_intros]: "keeps env (reconcileProjects env)"
proof (rule keeps_wp)
  fix w :: agent_world
  assume j: "justified env (aw_trace w)"
  have "wp (sweepOrphans env ps) (\<lambda>_. wp (reconcile_assigned env ps) (\<lambda>_ w'. justified env (aw_trace w'))) (logged (GotAssigned (Inr ps)) w)" for ps
    by (rule wp_mono [OF wp_sweepOrphans]) (simp_all add: j keepsD [OF keeps_reconcile_assigned])
  with j show "wp (reconcileProjects env) (\<lambda>_ w'. justified env (aw_trace w')) w"
    by (simp add: reconcileProjects_def wp_bind wp_ask Let_def wp_on_orphans split: sum.split)
qed

lemma keeps_bootstrap [keeps_intros]: "keeps env (bootstrapRunningProjects env)"
  unfolding bootstrapRunningProjects_def by (intro keeps_intros agent_event.distinct)

end
