(* ===== verification/Agent_Run.thy ===== *)
theory Agent_Run
  imports Agent_Safety Node_Handlers
begin

text \<open>
  \<open>Run\<close> of \<open>loop.go\<close>: registration with retries, the pass over Running Projects at startup, and the two
  tickers, whose order is a list of ticks. Waiting is an event with whether the context ended during it.
  The retry loops have fuel; running out of it is a run that is still registering.
\<close>

definition wait_for :: "agent_env \<Rightarrow> duration \<Rightarrow> bool agent" where
  "wait_for env d = ask (ae_Cancelled env) (Waited d)"

datatype registration = Registered | RegistrationCancelled | StillRegistering

fun register_loop :: "agent_env \<Rightarrow> NodeSpec \<Rightarrow> nat \<Rightarrow> registration agent" where
  "register_loop env spec 0 = State_Monad.return StillRegistering"
| "register_loop env spec (Suc n) = do {
     r \<leftarrow> perform env (RegisterNode spec);
     case r of
       None \<Rightarrow> State_Monad.return Registered
     | Some e \<Rightarrow> do {
         cancelled \<leftarrow> wait_for env (5 * time_Second);
         if cancelled then State_Monad.return RegistrationCancelled else register_loop env spec n } }"

definition initialBackoff :: duration where "initialBackoff = 5 * time_Second"
definition maxBackoff :: duration where "maxBackoff = 60 * time_Second"

fun reRegister_from :: "agent_env \<Rightarrow> NodeSpec \<Rightarrow> duration \<Rightarrow> nat \<Rightarrow> registration agent" where
  "reRegister_from env spec backoff 0 = State_Monad.return StillRegistering"
| "reRegister_from env spec backoff (Suc n) = do {
     r \<leftarrow> perform env (RegisterNode spec);
     case r of
       None \<Rightarrow> State_Monad.return Registered
     | Some e \<Rightarrow> do {
         cancelled \<leftarrow> wait_for env backoff;
         if cancelled then State_Monad.return RegistrationCancelled
         else reRegister_from env spec (if backoff * 2 > maxBackoff then maxBackoff else backoff * 2) n } }"

definition reRegister :: "agent_env \<Rightarrow> NodeSpec \<Rightarrow> nat \<Rightarrow> registration agent" where
  "reRegister env spec = reRegister_from env spec initialBackoff"

record run_config =
  rc_AgentPort :: int
  rc_AdvertiseIP :: string
  rc_SystemReserved :: SystemReserved
  rc_RepoHost :: bool

definition heartbeatNetworkStatus :: "string \<Rightarrow> int \<Rightarrow> string \<Rightarrow> NodeNetworkStatus" where
  "heartbeatNetworkStatus overlayIP agentPort advertiseIP = zero_network
     \<lparr>nn_OverlayIP := (if overlayIP = '''' then advertiseIP else overlayIP), nn_AgentPort := agentPort\<rparr>"

definition heartbeat_status :: "agent_env \<Rightarrow> run_config \<Rightarrow> trace \<Rightarrow> NodeStatus" where
  "heartbeat_status env cfg tr =
     (let caps = probeNodeCapacity (ae_Probe env tr) (rc_SystemReserved cfg) in
      \<lparr>ns_State = NodeStateReady, ns_Network = heartbeatNetworkStatus (ae_OverlayIP env tr) (rc_AgentPort cfg) (rc_AdvertiseIP cfg),
       ns_Capacity = (case caps of None \<Rightarrow> Map.empty | Some (c, a) \<Rightarrow> c),
       ns_Allocatable = (case caps of None \<Rightarrow> Map.empty | Some (c, a) \<Rightarrow> a),
       ns_Info = \<lparr>ni_KernelVersion = '''', ni_OSImage = '''', ni_AgentVersion = ''''\<rparr>,
       ns_LastHeartbeat = time_zero, ns_Conditions = []\<rparr>)"

text \<open>\<open>False\<close> is the return of \<open>Run\<close>.\<close>

definition heartbeat_tick :: "agent_env \<Rightarrow> run_config \<Rightarrow> NodeSpec \<Rightarrow> nat \<Rightarrow> bool agent" where
  "heartbeat_tick env cfg spec fuel = do {
     status \<leftarrow> State (\<lambda>w. (heartbeat_status env cfg (aw_trace w), w));
     r \<leftarrow> perform env (HeartbeatNode status);
     case r of
       None \<Rightarrow> State_Monad.return True
     | Some e \<Rightarrow>
         if error_is ErrNodeNotFound e then do {
           reg \<leftarrow> reRegister env spec fuel;
           State_Monad.return (reg = Registered) }
         else State_Monad.return True }"

datatype tick = HeartbeatTick nat | PollTick

fun run_ticks :: "agent_env \<Rightarrow> run_config \<Rightarrow> NodeSpec \<Rightarrow> tick list \<Rightarrow> unit agent" where
  "run_ticks env cfg spec [] = skip"
| "run_ticks env cfg spec (HeartbeatTick fuel # ts) = do {
     go \<leftarrow> heartbeat_tick env cfg spec fuel;
     if go then run_ticks env cfg spec ts else skip }"
| "run_ticks env cfg spec (PollTick # ts) = do { reconcileProjects env; run_ticks env cfg spec ts }"

definition clean_leftovers :: "agent_env \<Rightarrow> unit agent" where
  "clean_leftovers env = (case ae_backups env of
       None \<Rightarrow> skip
     | Some b \<Rightarrow> if bs_ObjectStore b then do { _ \<leftarrow> on_host (CleanDisplaced (bs_DataRoot b)); skip } else skip)"

definition agent_Run :: "agent_env \<Rightarrow> run_config \<Rightarrow> nat \<Rightarrow> tick list \<Rightarrow> unit agent" where
  "agent_Run env cfg fuel ticks = (let spec = \<lparr>nsp_Hostname = ae_NodeName env, nsp_Unschedulable = False\<rparr> in do {
     clean_leftovers env;
     reg \<leftarrow> register_loop env spec fuel;
     if reg \<noteq> Registered then skip
     else do {
       on_recovery (\<lambda>_. newRecoveryTracker);
       bootstrapRunningProjects env;
       on_orphans (\<lambda>_. []);
       (if rc_RepoHost cfg then do { _ \<leftarrow> perform env ReconcileRepoHost; skip } else skip);
       run_ticks env cfg spec ticks } })"

text \<open>The world an Agent process starts in: nothing done, the host as it was left.\<close>

definition agent_start :: "host \<Rightarrow> agent_world" where
  "agent_start h = \<lparr>aw_trace = [], aw_recovery = Some newRecoveryTracker, aw_orphans = [], aw_host = h\<rparr>"

definition agent_trace :: "agent_env \<Rightarrow> run_config \<Rightarrow> nat \<Rightarrow> tick list \<Rightarrow> host \<Rightarrow> trace" where
  "agent_trace env cfg fuel ticks h = aw_trace (snd (run_state (agent_Run env cfg fuel ticks) (agent_start h)))"

subsection \<open>Every run is justified\<close>

lemma quiet_register_loop [quiet_intros]: "quiet_op (register_loop env spec n)" "quiet_op (reRegister_from env spec d n)"
  by (induction n arbitrary: d) (auto simp: wait_for_def intro!: quiet_intros)

lemma keeps_heartbeat [keeps_intros]: "keeps env (heartbeat_tick env cfg spec fuel)"
  by (rule keeps_quiet) (auto simp: heartbeat_tick_def reRegister_def intro!: quiet_intros)

lemma keeps_run_ticks [keeps_intros]: "keeps env (run_ticks env cfg spec ts)"
  by (induction ts rule: run_ticks.induct) (auto intro!: keeps_intros)

lemma keeps_agent_Run: "keeps env (agent_Run env cfg fuel ticks)"
  unfolding agent_Run_def Let_def clean_leftovers_def
  by (intro keeps_intros quiet_register_loop(1) [THEN keeps_quiet] quiet_perform [THEN keeps_quiet]) simp

lemma agent_trace_justified: "justified env (agent_trace env cfg fuel ticks h)"
  using keeps_agent_Run [of env cfg fuel ticks] by (simp add: keeps_def agent_trace_def agent_start_def)

lemma agent_call_justified: "agent_trace env cfg fuel ticks h = post @ Did r x # pre \<Longrightarrow> call_justified env pre r"
  using agent_trace_justified [of env cfg fuel ticks h] by (metis justified_split)

end
