(* ===== verification/Agent_Guarantees.thy ===== *)
theory Agent_Guarantees
  imports Agent_Run Restore_Guarantees
begin

text \<open>
  What the calls of an Agent process rest on, over any run of its loop, and runs in which they happen.
\<close>

subsection \<open>Small runs\<close>

definition demo_assigned :: "string \<Rightarrow> ProjectPhase \<Rightarrow> Project" where
  "demo_assigned name phase = demo_volume_project\<lparr>prj_Meta := (prj_Meta demo_volume_project)\<lparr>meta_Name := name, meta_SpecRevision := 0\<rparr>,
     prj_Spec := (prj_Spec demo_volume_project)\<lparr>spec_Volumes := [],
       spec_Services := [\<lparr>svc_Name = ''web'', svc_Image = ''img'', svc_Command = [], svc_Env = [], svc_VolumeMounts = []\<rparr>]\<rparr>,
     prj_Status := InitialProjectStatus\<lparr>ps_Phase := phase, ps_NodeRef := ''node-b'', ps_AssignmentGeneration := 2\<rparr>\<rparr>"

definition demo_identity :: AssignmentIdentity where
  "demo_identity = \<lparr>ai_ProjectUID = ''u1'', ai_NodeName = ''node-b'', ai_AssignmentGeneration = 1\<rparr>"

text \<open>A Project that left this Node and still owes the cleanup of its first assignment.\<close>

definition demo_departed :: Project where
  "demo_departed = (demo_assigned ''m'' ProjectPhaseRunning)\<lparr>prj_Status := InitialProjectStatus\<lparr>ps_Phase := ProjectPhaseRunning,
     ps_NodeRef := ''node-c'', ps_AssignmentGeneration := 2,
     ps_Recovery := Some (recovery_zero\<lparr>rec_CleanupObligations := [\<lparr>ob_Assignment = demo_identity, ob_ReleasedAt = 0,
       ob_ReleaseAuthorization = ReleaseByWorkloadStopped, ob_ResourcesRemoved = None, ob_ManagedDataOwed = False,
       ob_ManagedDataQuarantined = None\<rparr>]\<rparr>)\<rparr>\<rparr>"

definition demo_task :: CleanupTask where
  "demo_task = \<lparr>ct_Namespace = ''n'', ct_ProjectName = ''m'', ct_Assignment = demo_identity,
     ct_ReleaseAuthorization = ReleaseByWorkloadStopped\<rparr>"

definition demo_orphan :: ProjectIdentity where
  "demo_orphan = \<lparr>pi_Namespace = ''n'', pi_Name = ''o'', pi_UID = ''u9''\<rparr>"

text \<open>A Node where every call succeeds, each event takes a minute and the one container has exited.\<close>

definition demo_agent :: "Project list \<Rightarrow> ProjectIdentity list \<Rightarrow> CleanupTask list \<Rightarrow> agent_env" where
  "demo_agent ps loc tasks = \<lparr>ae_NodeName = ''node-b'', ae_hasRoutes = False, ae_backups = None, ae_kinds = Some [''containers''],
     ae_cleanerRoot = '''', ae_pgRuntime = False, ae_do = (\<lambda>_ _. None), ae_Now = (\<lambda>tr. int (length tr + 1) * time_Minute),
     ae_ListAssigned = (\<lambda>_. Inr ps), ae_ListCleanupTasks = (\<lambda>_. Inr tasks),
     ae_GetProject = (\<lambda>_ n. case find (\<lambda>p. meta_Name (prj_Meta p) = n) (demo_departed # ps) of None \<Rightarrow> Inl (Sentinel ErrProjectNotFound) | Some p \<Rightarrow> Inr p),
     ae_GetSecret = (\<lambda>_ _. Inl (Sentinel ErrSecretNotFound)), ae_StaleContainers = (\<lambda>_ _. Inr []),
     ae_InspectProject = (\<lambda>_ p. Inr (if ps_Phase (prj_Status p) = ProjectPhaseRunning
        then [\<lparr>cs_ServiceName = ''web'', cs_ContainerID = ''c1'', cs_Status = ''exited'', cs_ExitCode = 0, cs_NotOwned = None\<rparr>] else [])),
     ae_SpecDrift = (\<lambda>_ _. Inl (ErrText ''unused'')), ae_GetContainerIPs = (\<lambda>_ _. Inr []), ae_ListLocalProjects = (\<lambda>_. Inr loc),
     ae_Remaining = (\<lambda>_ _ _. Inr []), ae_RepoVersion = (\<lambda>_. Inr ''''), ae_Exec = (\<lambda>_ _ _. Inr (0, '''', '''')),
     ae_IsBusy = (\<lambda>_ _. False), ae_TryClaim = (\<lambda>_ _ _. True), ae_Cancelled = (\<lambda>_. False), ae_Probe = (\<lambda>_. None),
     ae_OverlayIP = (\<lambda>_. ''''), ae_pgRestoreBegin = (\<lambda>_ _. (None, True)), ae_restore = (\<lambda>_. demo_restore_env)\<rparr>"

definition demo_run_config :: run_config where
  "demo_run_config = \<lparr>rc_AgentPort = 0, rc_AdvertiseIP = '''', rc_SystemReserved = \<lparr>sr_CPUMilli = 0, sr_MemoryBytes = 0\<rparr>, rc_RepoHost = False\<rparr>"

definition demo_run :: "Project list \<Rightarrow> ProjectIdentity list \<Rightarrow> CleanupTask list \<Rightarrow> nat \<Rightarrow> trace" where
  "demo_run ps loc tasks n = agent_trace (demo_agent ps loc tasks) demo_run_config 1 (replicate n PollTick) (demo_host [])"

fun is_call :: "(agent_request \<Rightarrow> bool) \<Rightarrow> agent_event \<Rightarrow> bool" where
  "is_call P (Did r x) = P r"
| "is_call P _ = False"

lemma call_in_trace: "list_ex (is_call P) tr \<Longrightarrow> \<exists>post r x pre. tr = post @ Did r x # pre \<and> P r"
proof (induction tr)
  case (Cons e tr)
  show ?case
  proof (cases "is_call P e")
    case True
    then obtain r x where "e = Did r x" "P r" by (cases e) auto
    then show ?thesis by (metis append_Nil)
  next
    case False
    with Cons obtain post r x pre where "tr = post @ Did r x # pre" "P r" by auto
    then show ?thesis by (metis append_Cons)
  qed
qed simp

fun is_recover :: "agent_request \<Rightarrow> bool" where
  "is_recover (RecoverServices r names) = True"
| "is_recover _ = False"

fun is_update :: "agent_request \<Rightarrow> bool" where
  "is_update (UpdateServices r d) = True"
| "is_update _ = False"

fun is_removed_report :: "agent_request \<Rightarrow> bool" where
  "is_removed_report (ReportResourcesRemoved name i) = True"
| "is_removed_report _ = False"

fun is_phase_report :: "ProjectPhase \<Rightarrow> agent_request \<Rightarrow> bool" where
  "is_phase_report ph (UpdateProjectStatus name f ph' reason msg) = (ph' = ph)"
| "is_phase_report ph _ = False"

fun_cases is_recoverE: "is_recover r" and is_updateE: "is_update r" and is_removed_reportE: "is_removed_report r"
  and is_phase_reportE: "is_phase_report ph r"

subsection \<open>Recovery and updates\<close>



text \<open>An update replaces containers under the same conditions, for the drift found since that read.\<close>

lemma update_on_fresh_assignment:
  assumes "agent_trace env cfg fuel ticks h = post @ Did (UpdateServices r d) x # pre"
  shows "\<exists>cur. last_read pre = Some cur \<and> prj_Meta r = prj_Meta cur \<and> prj_Status r = prj_Status cur
    \<and> ps_NodeRef (prj_Status cur) = ae_NodeName env \<and> ps_Phase (prj_Status cur) = ProjectPhaseRunning
    \<and> (has_coordinator env \<longrightarrow> held (key_of cur) pre = Some OpUpdate) \<and> GotDrift cur (Inr d) \<in> since_read pre"
  using agent_call_justified [OF assms]
  by (simp add: update_justified_def same_assignment_def ours_running_def under_claim_def)

subsection \<open>Cleanup\<close>

text \<open>
  C11: Whenever an Agent process tells the server that the resources of an assignment are removed, it has a cleaner; it holds
  the Project's termination or cleanup claim, if it coordinates at all; and it has found nothing left of any resource kind of
  that assignment, or of the Project's whole lifetime, since it last started a container of any Project.
\<close>

theorem cleanup_reported_only_when_empty:
  assumes "agent_trace env cfg fuel ticks h = post @ Did (ReportResourcesRemoved name i) x # pre"
  shows "\<exists>kinds a key op. ae_kinds env = Some kinds \<and> as_Project a = name \<and> as_UID a = ai_ProjectUID i
    \<and> (as_AllGenerations a \<or> as_Generation a = ai_AssignmentGeneration i)
    \<and> (\<forall>k \<in> set kinds. GotRemaining k a (Inr []) \<in> since_start pre)
    \<and> rsk_Name key = name \<and> op \<in> {OpTerminate, OpOrphanCleanup} \<and> (has_coordinator env \<longrightarrow> held key pre = Some op)"
  using agent_call_justified [OF assms]
  unfolding call_justified.simps removal_justified_def covers_def emptied_def under_claim_def by blast

theorem cleanup_reported_only_when_empty_witness:
  "\<exists>post name i x pre. demo_run [] [] [demo_task] 1 = post @ Did (ReportResourcesRemoved name i) x # pre
    \<and> (\<exists>a. as_Project a = name \<and> as_UID a = ai_ProjectUID i \<and> GotRemaining ''containers'' a (Inr []) \<in> since_start pre)"
proof -
  have "list_ex (is_call is_removed_report) (demo_run [] [] [demo_task] 1)" by code_simp
  from call_in_trace [OF this] obtain post name i x pre
    where run: "demo_run [] [] [demo_task] 1 = post @ Did (ReportResourcesRemoved name i) x # pre"
    by (auto elim: is_removed_reportE)
  from cleanup_reported_only_when_empty [OF run [unfolded demo_run_def]]
  have "\<exists>a. as_Project a = name \<and> as_UID a = ai_ProjectUID i \<and> GotRemaining ''containers'' a (Inr []) \<in> since_start pre"
    by (auto simp: demo_agent_def)
  with run show ?thesis by blast
qed

text \<open>The same for a Project reported Terminated, over every assignment it ever had.\<close>

lemma terminated_only_when_empty:
  assumes "agent_trace env cfg fuel ticks h = post @ Did (UpdateProjectStatus name f ProjectPhaseTerminated reason msg) x # pre"
  shows "\<exists>p kinds. ae_kinds env = Some kinds \<and> name = meta_Name (prj_Meta p) \<and> f = fenceForProject p
    \<and> (\<forall>k \<in> set kinds. GotRemaining k (lifetime_of p) (Inr []) \<in> since_start pre)
    \<and> (has_coordinator env \<longrightarrow> held (key_of p) pre = Some OpTerminate)"
  using agent_call_justified [OF assms] by (simp add: terminated_justified_def emptied_def under_claim_def)

subsection \<open>Running\<close>

text \<open>
  C13: Whenever an Agent process reports a Project Running, the last check for containers of another assignment was of that
  Project and found none, and the report carries the fence of that same snapshot.
\<close>

theorem running_reported_without_stale:
  assumes "agent_trace env cfg fuel ticks h = post @ Did (UpdateProjectStatus name f ProjectPhaseRunning reason msg) x # pre"
  shows "\<exists>p. name = meta_Name (prj_Meta p) \<and> f = fenceForProject p \<and> last_stale pre = Some (p, Inr [])"
  using agent_call_justified [OF assms] by (simp add: running_justified_def)

theorem running_reported_without_stale_witness:
  "\<exists>post name f reason msg x pre. demo_run [demo_assigned ''p'' ProjectPhaseScheduled] [] [] 1
      = post @ Did (UpdateProjectStatus name f ProjectPhaseRunning reason msg) x # pre
    \<and> (\<exists>p. f = fenceForProject p \<and> last_stale pre = Some (p, Inr []))"
proof -
  have "list_ex (is_call (is_phase_report ProjectPhaseRunning)) (demo_run [demo_assigned ''p'' ProjectPhaseScheduled] [] [] 1)" by code_simp
  from call_in_trace [OF this] obtain post name f reason msg x pre
    where run: "demo_run [demo_assigned ''p'' ProjectPhaseScheduled] [] [] 1
      = post @ Did (UpdateProjectStatus name f ProjectPhaseRunning reason msg) x # pre"
    by (auto elim!: is_phase_reportE)
  from running_reported_without_stale [OF run [unfolded demo_run_def]]
  have "\<exists>p. f = fenceForProject p \<and> last_stale pre = Some (p, Inr [])" by blast
  with run show ?thesis by blast
qed

end
