(* ===== verification/Agent_Orphans.thy ===== *)
theory Agent_Orphans
  imports Agent_Guarantees
begin

text \<open>
  When an orphan may be removed: its containers were stopped, and three minutes passed in which no
  listing failed. The tracker's states say so of the trace, and only an observation lets one through.
\<close>

fun steady :: "agent_event \<Rightarrow> bool" where
  "steady (GotAssigned (Inl e)) = False"
| "steady (GotLocal (Inl e)) = False"
| "steady _ = True"

text \<open>Time \<open>t\<close> was read at a point of the trace after which no listing failed.\<close>

definition lost_since :: "agent_env \<Rightarrow> time \<Rightarrow> trace \<Rightarrow> bool" where
  "lost_since env t tr \<longleftrightarrow> (\<exists>evs tr0. tr = evs @ tr0 \<and> list_all steady evs \<and> ae_Now env tr0 = t)"

definition waited_out :: "agent_env \<Rightarrow> ProjectIdentity \<Rightarrow> trace \<Rightarrow> bool" where
  "waited_out env i tr \<longleftrightarrow> Did (StopOrphanProject i) None \<in> set tr
     \<and> (\<exists>later evs tr0. tr = later @ evs @ tr0 \<and> list_all steady (later @ evs)
          \<and> ae_Now env (evs @ tr0) - ae_Now env tr0 \<ge> orphanGracePeriod)"

fun aged :: "agent_env \<Rightarrow> trace \<Rightarrow> bool" where
  "aged env [] = True"
| "aged env (Did (RemoveOrphanProject i) x # tr) = (waited_out env i tr \<and> aged env tr)"
| "aged env (e # tr) = aged env tr"

definition state_ok :: "agent_env \<Rightarrow> trace \<Rightarrow> ProjectIdentity \<times> orphanState \<Rightarrow> bool" where
  "state_ok env tr = (\<lambda>(i, s). (os_stopped s \<longrightarrow> Did (StopOrphanProject i) None \<in> set tr)
     \<and> (os_lostSince s \<noteq> time_zero \<longrightarrow> lost_since env (os_lostSince s) tr))"

definition graced :: "agent_env \<Rightarrow> agent_world \<Rightarrow> bool" where
  "graced env w \<longleftrightarrow> aged env (aw_trace w) \<and> list_all (state_ok env (aw_trace w)) (aw_orphans w)"

subsection \<open>What keeps it\<close>

definition calm :: "agent_event \<Rightarrow> bool" where
  "calm e \<longleftrightarrow> steady e \<and> (\<forall>i x. e \<noteq> Did (RemoveOrphanProject i) x)"

lemma quiet_calm: "quiet_event e \<Longrightarrow> calm e"
  by (cases e rule: steady.cases) (auto simp: calm_def)

lemma lost_since_more: "lost_since env t tr \<Longrightarrow> list_all steady evs \<Longrightarrow> lost_since env t (evs @ tr)"
  unfolding lost_since_def by (metis append.assoc list_all_append)

lemma waited_out_more: "waited_out env i tr \<Longrightarrow> list_all steady evs \<Longrightarrow> waited_out env i (evs @ tr)"
  unfolding waited_out_def by (metis append.assoc list_all_append Un_iff set_append)

lemma state_ok_more: "state_ok env tr x \<Longrightarrow> list_all steady evs \<Longrightarrow> state_ok env (evs @ tr) x"
  by (auto simp: state_ok_def intro: lost_since_more)

lemma states_ok_more: "list_all (state_ok env tr) xs \<Longrightarrow> list_all steady evs \<Longrightarrow> list_all (state_ok env (evs @ tr)) xs"
  by (auto simp: list_all_iff intro: state_ok_more [unfolded list_all_iff])

lemma aged_calm: "calm e \<Longrightarrow> aged env (e # tr) = aged env tr"
  by (cases "(env, e # tr)" rule: aged.cases) (auto simp: calm_def)

lemma calm_list: "list_all calm evs \<Longrightarrow> list_all steady evs \<and> aged env (evs @ tr) = aged env tr"
  by (induction evs) (auto simp: aged_calm calm_def)

definition keeps_graced :: "agent_env \<Rightarrow> 'a agent \<Rightarrow> bool" where
  "keeps_graced env m \<longleftrightarrow> (\<forall>w. graced env w \<longrightarrow> graced env (snd (run_state m w)))"

named_theorems graced_intros

lemma graced_wp: "(\<And>w. graced env w \<Longrightarrow> wp m (\<lambda>_. graced env) w) \<Longrightarrow> keeps_graced env m"
  by (simp add: keeps_graced_def wp_run)

lemma gracedD: "keeps_graced env m \<Longrightarrow> graced env w \<Longrightarrow> wp m (\<lambda>_. graced env) w"
  by (simp add: keeps_graced_def wp_run)

lemma graced_quiet: "quiet_op m \<Longrightarrow> keeps_graced env m"
proof (rule graced_wp)
  fix w :: agent_world
  assume "quiet_op m" and g: "graced env w"
  then show "wp m (\<lambda>_. graced env) w"
  proof (elim wp_quiet)
    fix w' :: agent_world and evs
    assume w': "aw_trace w' = evs @ aw_trace w" "list_all quiet_event evs" "aw_orphans w' = aw_orphans w"
    then have "list_all calm evs" by (auto simp: list_all_iff quiet_calm)
    from calm_list [OF this] w' g show "graced env w'" by (simp add: graced_def states_ok_more)
  qed
qed

lemmas [graced_intros] = quiet_steps [THEN graced_quiet] quiet_placing [THEN graced_quiet]

lemma graced_bind [graced_intros]: "keeps_graced env m \<Longrightarrow> (\<And>a. keeps_graced env (f a)) \<Longrightarrow> keeps_graced env (State_Monad.bind m f)"
  by (auto simp: keeps_graced_def split_beta)

lemma graced_cases [graced_intros]:
  "keeps_graced env m \<Longrightarrow> keeps_graced env n \<Longrightarrow> keeps_graced env (if b then m else n)"
  "(\<And>e. keeps_graced env (f e)) \<Longrightarrow> (\<And>a. keeps_graced env (g a)) \<Longrightarrow> keeps_graced env (case s of Inl e \<Rightarrow> f e | Inr a \<Rightarrow> g a)"
  "keeps_graced env k \<Longrightarrow> (\<And>a. keeps_graced env (l a)) \<Longrightarrow> keeps_graced env (case x of None \<Rightarrow> k | Some a \<Rightarrow> l a)"
  "(\<And>a b. keeps_graced env (h a b)) \<Longrightarrow> keeps_graced env (case y of (a, b) \<Rightarrow> h a b)"
  "(\<And>x. keeps_graced env (i x)) \<Longrightarrow> keeps_graced env (let x = a in i x)"
  by (simp_all add: Let_def split: sum.split option.split prod.split)

lemma graced_ask [graced_intros]: "(\<And>a. calm (ev a)) \<Longrightarrow> keeps_graced env (ask answer ev)"
proof (rule graced_wp)
  fix w :: agent_world
  assume c: "\<And>a. calm (ev a)" and g: "graced env w"
  have "graced env (logged (ev a) w)" for a
    using calm_list [of "[ev a]" env "aw_trace w"] states_ok_more [of env "aw_trace w" "aw_orphans w" "[ev a]"] c [of a] g
    by (simp add: graced_def)
  then show "wp (ask answer ev) (\<lambda>_. graced env) w" by (simp add: wp_ask Let_def)
qed

lemma graced_perform [graced_intros]: "(\<And>i. r \<noteq> RemoveOrphanProject i) \<Longrightarrow> keeps_graced env (perform env r)"
  by (simp add: perform_def graced_ask calm_def)

lemma graced_queries [graced_intros]:
  "keeps_graced env (get_project env n)" "keeps_graced env (get_stale env p)" "keeps_graced env (is_busy env k)"
  "keeps_graced env (try_claim env k op)" "keeps_graced env (release_claim env k)"
  by (auto simp: get_project_def get_stale_def is_busy_def try_claim_def release_claim_def note_event_def calm_def intro!: graced_intros)

lemma graced_each [graced_intros]: "(\<And>x. x \<in> set xs \<Longrightarrow> keeps_graced env (f x)) \<Longrightarrow> keeps_graced env (each f xs)"
  by (induction xs) (auto intro!: graced_intros)

lemma graced_claiming [graced_intros]: "keeps_graced env body \<Longrightarrow> keeps_graced env (claiming env k op refused body)"
  by (auto simp: claiming_def intro!: graced_intros)

subsection \<open>The poll outside the sweep\<close>

lemma graced_phase [graced_intros]: "keeps_graced env (report_phase env p ph reason msg)" "keeps_graced env (report_running env p)"
  by (auto simp: report_phase_def report_running_def intro!: graced_intros)

lemma graced_reconcileOne [graced_intros]: "keeps_graced env (reconcileOne env p)"
  by (auto simp: reconcileOne_def checkStaleContainers_def reconcile_states_def reconcile_missing_def place_and_start_def start_containers_def
      outdatedWhilePlacing_def ensureVolumeData_def placePostgres_def place_steps_def reconcileContainers_def Let_def
      intro!: graced_intros split: option.split list.split)

lemma graced_recoverLocally [graced_intros]: "keeps_graced env (recoverLocally env p bad)"
  by (auto simp: recoverLocally_def recover_current_def recover_resolved_def attempt_recovery_def Let_def
      intro!: graced_intros split: recoveryDecision.split)

lemma graced_applySpecUpdate [graced_intros]: "keeps_graced env (applySpecUpdate env p)"
  by (auto simp: applySpecUpdate_def update_current_def update_drift_def update_services_def Let_def
      intro!: graced_intros quiet_update_failed [THEN graced_quiet] quiet_note_update_failed [THEN graced_quiet])

lemma graced_healthCheckOne [graced_intros]: "keeps_graced env (healthCheckOne env p)"
  by (auto simp: healthCheckOne_def checkStaleContainers_def judge_states_def judge_unhealthy_def judge_transient_def report_unhealthy_def Let_def
      intro!: graced_intros split: option.split prod.split list.split)

lemma graced_obligations [graced_intros]:
  "keeps_graced env (obligationStands env n i)" "keeps_graced env (reportRemoved env n i)" "keeps_graced env (report_all_removed env n is)"
proof -
  show o: "keeps_graced env (obligationStands env n i)" for i by (auto simp: obligationStands_def intro!: graced_intros)
  show r: "keeps_graced env (reportRemoved env n i)" for i by (auto simp: reportRemoved_def intro!: graced_intros o)
  show "keeps_graced env (report_all_removed env n is)" by (induction "is") (auto intro!: graced_intros r)
qed

lemmas [graced_intros] = quiet_removeAll [THEN graced_quiet] quiet_remaining [THEN graced_quiet]

lemma graced_terminateOne [graced_intros]: "keeps_graced env (terminateOne env p)"
  by (auto simp: terminateOne_def teardown_def resolveOwnObligations_def intro!: graced_intros)

lemma graced_runCleanupTasks [graced_intros]: "keeps_graced env (runCleanupTasks env)"
  by (auto simp: runCleanupTasks_def runCleanupTask_def revalidateCleanup_def clean_obligation_def reportResourcesRemoved_def
      quarantineManagedData_def Let_def calm_def intro!: graced_intros)

lemma graced_dispatch [graced_intros]: "keeps_graced env (dispatch env p)"
  by (cases "ps_Phase (prj_Status p)") (auto simp: dispatch_def intro!: graced_intros)

lemma graced_reconcile_assigned [graced_intros]: "keeps_graced env (reconcile_assigned env ps)"
  by (auto simp: reconcile_assigned_def intro!: graced_intros quiet_note [THEN graced_quiet])

subsection \<open>The sweep\<close>

text \<open>What an observation lets through, and what it leaves in the tracker.\<close>

definition observed_ok :: "agent_env \<Rightarrow> trace \<Rightarrow> orphanTracker \<times> orphanObservation \<Rightarrow> bool" where
  "observed_ok env tr to \<longleftrightarrow> list_all (state_ok env tr) (fst to) \<and> (\<forall>i \<in> set (ob_toRemove (snd to)). waited_out env i tr)"

lemma states_update: "list_all P t \<Longrightarrow> P (i, s) \<Longrightarrow> list_all P (AList.update i s t)"
  by (induction t) auto

lemma states_delete: "list_all P t \<Longrightarrow> list_all P (AList.delete i t)"
  by (simp add: AList.delete_eq list_all_iff)

lemma lost_now: "lost_since env (ae_Now env tr) tr"
  unfolding lost_since_def by (rule exI [of _ "[]"]) simp

lemma grace_over:
  assumes "lost_since env t tr" "ae_Now env tr - t \<ge> orphanGracePeriod" "Did (StopOrphanProject i) None \<in> set tr"
  shows "waited_out env i tr"
  using assms unfolding waited_out_def lost_since_def by (metis append_Nil)

lemma observed_lost:
  assumes "observed_ok env tr to" "state_ok env tr (i, s)" "os_stopped s"
  shows "observed_ok env tr (observe_lost (ae_Now env tr) i s to)"
proof -
  obtain t ob where to: "to = (t, ob)" by (cases to)
  have stop: "Did (StopOrphanProject i) None \<in> set tr" using assms(2,3) by (simp add: state_ok_def)
  have "state_ok env tr (i, s\<lparr>os_lostSince := ae_Now env tr\<rparr>)" using stop by (simp add: state_ok_def lost_now)
  then have "list_all (state_ok env tr) (AList.update i (s\<lparr>os_lostSince := ae_Now env tr\<rparr>) t)"
    using assms(1) by (intro states_update) (simp_all add: observed_ok_def to)
  moreover have "waited_out env i tr" if "os_lostSince s \<noteq> time_zero" "ae_Now env tr - os_lostSince s \<ge> orphanGracePeriod"
    using that assms(2) stop by (intro grace_over [of env "os_lostSince s"]) (simp_all add: state_ok_def)
  ultimately show ?thesis using assms(1) by (auto simp: observe_lost_def to observed_ok_def)
qed

lemma observed_local:
  assumes "observed_ok env tr to"
  shows "observed_ok env tr (observe_local (ae_Now env tr) assigned i to)"
proof -
  obtain t ob where to: "to = (t, ob)" by (cases to)
  have ok: "list_all (state_ok env tr) t" using assms by (simp add: observed_ok_def to)
  then have tracked: "state_ok env tr (i, s)" if "map_of t i = Some s" for s using map_of_SomeD [OF that] by (auto simp: list_all_iff)
  have new: "state_ok env tr (i, \<lparr>os_stopped = False, os_lostSince = time_zero\<rparr>)" by (simp add: state_ok_def)
  show ?thesis
  proof (cases "map_of t i")
    case None
    with assms ok new show ?thesis by (simp add: observe_local_def to observed_ok_def states_update states_delete)
  next
    case (Some s)
    with observed_lost [OF assms tracked] have "os_stopped s \<Longrightarrow> observed_ok env tr (observe_lost (ae_Now env tr) i s (t, ob))"
      by (simp add: to)
    with Some assms ok show ?thesis by (auto simp: observe_local_def to observed_ok_def states_delete)
  qed
qed

lemma observed_tracked:
  assumes "observed_ok env tr to" "state_ok env tr x"
  shows "observed_ok env tr (observe_tracked (ae_Now env tr) l assigned x to)"
proof -
  obtain t ob i s where to: "to = (t, ob)" "x = (i, s)" by (cases to; cases x)
  have "os_stopped s \<Longrightarrow> observed_ok env tr (observe_lost (ae_Now env tr) i s (t, ob))"
    using observed_lost [OF assms(1)] assms(2) by (simp add: to)
  with assms(1) show ?thesis by (auto simp: observe_tracked_def to observed_ok_def states_delete)
qed

lemma observed_folds:
  "observed_ok env tr to \<Longrightarrow> observed_ok env tr (fold (observe_local (ae_Now env tr) assigned) is to)"
  "observed_ok env tr to \<Longrightarrow> list_all (state_ok env tr) xs \<Longrightarrow> observed_ok env tr (fold (observe_tracked (ae_Now env tr) l assigned) xs to)"
  by (induction "is" arbitrary: to, simp_all add: observed_local, induction xs arbitrary: to, simp_all add: observed_tracked)

lemma observed_observe:
  assumes "list_all (state_ok env tr) t"
  shows "observed_ok env tr (orphan_observe (ae_Now env tr) loc assigned t)"
proof -
  have "observed_ok env tr (t, no_observation)" using assms by (simp add: observed_ok_def no_observation_def)
  from observed_folds(1) [OF this] have "observed_ok env tr (fold (observe_local (ae_Now env tr) assigned) (remdups loc) (t, no_observation))" .
  with observed_folds(2) [OF this] show ?thesis by (auto simp: orphan_observe_def observed_ok_def [of _ _ "(_, _)"] Let_def split: prod.split)
qed

lemma graced_forget: "graced env w \<Longrightarrow> wp (on_orphans (orphan_forget i)) (\<lambda>_. graced env) w"
  by (simp add: wp_on_orphans graced_def orphan_forget_def states_delete)

lemma graced_sweep_reappeared [graced_intros]: "keeps_graced env (sweep_reappeared env m i)"
  unfolding sweep_reappeared_def by (auto intro!: graced_intros graced_wp [OF graced_forget])

lemma graced_sweep_stop [graced_intros]: "keeps_graced env (sweep_stop env i)"
proof -
  let ?body = "State_Monad.bind (perform env (StopOrphanProject i)) (\<lambda>r. case r of
       Some e \<Rightarrow> skip
     | None \<Rightarrow> State_Monad.bind (if ae_hasRoutes env then note_event (RoutesRemoved (pi_Name i)) else skip) (\<lambda>_.
         State_Monad.bind (now_of env) (\<lambda>now. on_orphans (markStopped now i))))"
  have "keeps_graced env ?body"
  proof (rule graced_wp)
    fix w :: agent_world
    assume g: "graced env w"
    let ?x = "ae_do env (aw_trace w) (StopOrphanProject i)"
    have g1: "graced env (logged (Did (StopOrphanProject i) ?x) w)"
      using gracedD [OF graced_perform g, of "StopOrphanProject i"] by (simp add: wp_perform Let_def)
    have mark: "graced env (w'\<lparr>aw_orphans := markStopped (ae_Now env (aw_trace w')) i (aw_orphans w')\<rparr>)"
      if "graced env w'" "Did (StopOrphanProject i) None \<in> set (aw_trace w')" for w'
      using that by (simp add: graced_def markStopped_def states_update state_ok_def lost_now)
    have routes: "graced env (logged (RoutesRemoved n) w')" if "graced env w'" for n w'
      using gracedD [OF graced_quiet [OF quiet_note] that, of "RoutesRemoved n"] by (simp add: wp_note)
    show "wp ?body (\<lambda>_. graced env) w"
    proof (cases ?x)
      case None
      with mark [OF g1] mark [OF routes [OF g1]] show ?thesis by (simp add: agent_wp wp_on_orphans Let_def)
    next
      case (Some e)
      with g1 show ?thesis by (simp add: agent_wp Let_def)
    qed
  qed
  then show ?thesis unfolding sweep_stop_def by (rule graced_claiming)
qed

text \<open>Until the removals, what was waited out stays so: no listing happens in a sweep after its own.\<close>

definition keeps_waited :: "agent_env \<Rightarrow> ProjectIdentity list \<Rightarrow> 'a agent \<Rightarrow> bool" where
  "keeps_waited env is m \<longleftrightarrow> (\<forall>w. graced env w \<and> (\<forall>i \<in> set is. waited_out env i (aw_trace w)) \<longrightarrow>
     graced env (snd (run_state m w)) \<and> (\<forall>i \<in> set is. waited_out env i (aw_trace (snd (run_state m w)))))"

definition steady_op :: "'a agent \<Rightarrow> bool" where
  "steady_op m \<longleftrightarrow> (\<forall>w. adds (list_all steady) w (snd (run_state m w)))"

named_theorems steady_intros

lemma quiet_steady: "quiet_op m \<Longrightarrow> steady_op m"
  unfolding quiet_op_def steady_op_def adds_def by (metis (no_types, lifting) calm_def list.pred_mono_strong quiet_calm)

lemma steady_cases [steady_intros]:
  "steady_op m \<Longrightarrow> steady_op n \<Longrightarrow> steady_op (if b then m else n)"
  "steady_op k \<Longrightarrow> (\<And>a. steady_op (l a)) \<Longrightarrow> steady_op (case x of None \<Rightarrow> k | Some a \<Rightarrow> l a)"
  by (simp_all split: option.split)

lemmas [steady_intros] = quiet_steps [THEN quiet_steady]

lemma steady_bind [steady_intros]: "steady_op m \<Longrightarrow> (\<And>a. steady_op (f a)) \<Longrightarrow> steady_op (State_Monad.bind m f)"
  unfolding steady_op_def by (auto simp: split_beta intro: adds_trans)

lemma steady_ask [steady_intros]: "(\<And>a. steady (ev a)) \<Longrightarrow> steady_op (ask answer ev)"
  by (auto simp: steady_op_def ask_def adds_def Let_def)

lemma steady_orphans [steady_intros]: "steady_op (on_orphans f)"
  by (simp add: steady_op_def on_orphans_def adds_def)

lemma steady_calls [steady_intros]: "steady_op (perform env r)" "steady_op (try_claim env k op)" "steady_op (release_claim env k)"
  by (auto simp: perform_def try_claim_def release_claim_def note_event_def intro!: steady_intros)

lemma steady_claiming [steady_intros]: "steady_op body \<Longrightarrow> steady_op (claiming env k op refused body)"
  by (auto simp: claiming_def intro!: steady_intros)

lemma steady_sweeps [steady_intros]:
  "steady_op (sweep_reappeared env m i)" "steady_op (sweep_stop env i)" "steady_op (sweep_remove env i)"
  by (auto simp: sweep_reappeared_def sweep_stop_def sweep_remove_def note_event_def intro!: steady_intros)

lemma steady_each [steady_intros]: "(\<And>x. steady_op (f x)) \<Longrightarrow> steady_op (each f xs)"
  by (induction xs) (auto intro!: steady_intros)

lemma waited_steady: "keeps_graced env m \<Longrightarrow> steady_op m \<Longrightarrow> keeps_waited env is m"
  unfolding keeps_waited_def keeps_graced_def steady_op_def adds_def by (metis waited_out_more)

lemma waited_bind: "keeps_waited env is m \<Longrightarrow> (\<And>a. keeps_waited env is (f a)) \<Longrightarrow> keeps_waited env is (State_Monad.bind m f)"
  by (auto simp: keeps_waited_def split_beta)

lemma waited_each: "(\<And>x. x \<in> set xs \<Longrightarrow> keeps_waited env is (f x)) \<Longrightarrow> keeps_waited env is (each f xs)"
  by (induction xs) (auto intro!: waited_bind waited_steady [OF graced_quiet [OF quiet_skip] quiet_steady [OF quiet_skip]])

lemma waited_if: "keeps_waited env is m \<Longrightarrow> keeps_waited env is n \<Longrightarrow> keeps_waited env is (if b then m else n)"
  by simp

lemma waited_quiet: "quiet_op m \<Longrightarrow> keeps_waited env is m"
  by (intro waited_steady graced_quiet quiet_steady)

text \<open>A removal needs the wait.\<close>

lemma waited_sweep_remove:
  assumes "i \<in> set is"
  shows "keeps_waited env is (sweep_remove env i)"
proof -
  let ?I = "\<lambda>w. graced env w \<and> (\<forall>i \<in> set is. waited_out env i (aw_trace w))"
  have act: "keeps_waited env is (perform env (RemoveOrphanProject i))"
    unfolding keeps_waited_def
  proof (intro allI impI)
    fix w :: agent_world
    assume I: "?I w"
    let ?e = "Did (RemoveOrphanProject i) (ae_do env (aw_trace w) (RemoveOrphanProject i))"
    have "waited_out env j (?e # aw_trace w)" if "j \<in> set is" for j
      using waited_out_more [of env j "aw_trace w" "[?e]"] I that by simp
    moreover have "graced env (logged ?e w)"
      using I assms states_ok_more [of env "aw_trace w" "aw_orphans w" "[?e]"] by (simp add: graced_def)
    ultimately show "?I (snd (run_state (perform env (RemoveOrphanProject i)) w))" by (simp add: perform_def ask_def Let_def)
  qed
  have claim: "keeps_waited env is (try_claim env k op)" "keeps_waited env is (release_claim env k)" for k op
    by (intro waited_steady graced_intros steady_intros)+
  have forget: "keeps_waited env is (on_orphans (orphan_forget i))"
    by (intro waited_steady graced_wp [OF graced_forget] steady_intros)
  show ?thesis
    unfolding sweep_remove_def claiming_def
    by (intro waited_bind waited_if act claim forget waited_quiet [OF quiet_return] waited_quiet [OF quiet_skip])
qed

lemma graced_sweep_observed:
  assumes "graced env w" "\<And>i. i \<in> set (ob_toRemove ob) \<Longrightarrow> waited_out env i (aw_trace w)"
  shows "wp (sweep_observed env ps ob) (\<lambda>_. graced env) w"
proof -
  have "keeps_waited env (ob_toRemove ob) (sweep_observed env ps ob)"
    unfolding sweep_observed_def
    by (intro waited_bind waited_each waited_sweep_remove waited_steady graced_intros steady_intros)
  with assms show ?thesis by (simp add: keeps_waited_def wp_run)
qed

lemma graced_resetGrace: "aged env (aw_trace w) \<Longrightarrow> list_all (\<lambda>(i, s). os_stopped s \<longrightarrow> Did (StopOrphanProject i) None \<in> set (aw_trace w)) (aw_orphans w)
    \<Longrightarrow> wp (on_orphans resetGrace) (\<lambda>_. graced env) w"
  by (auto simp: wp_on_orphans graced_def resetGrace_def state_ok_def list_all_iff)

lemma graced_failed_listing:
  assumes "graced env w" "e = GotAssigned (Inl x) \<or> e = GotLocal (Inl y)"
  shows "wp (on_orphans resetGrace) (\<lambda>_. graced env) (logged e w)"
  using assms by (intro graced_resetGrace) (auto simp: graced_def state_ok_def list_all_iff)

lemma graced_sweepOrphans [graced_intros]: "keeps_graced env (sweepOrphans env ps)"
proof (rule graced_wp)
  fix w :: agent_world
  assume g: "graced env w"
  show "wp (sweepOrphans env ps) (\<lambda>_. graced env) w"
  proof (cases "ae_ListLocalProjects env (aw_trace w)")
    case (Inl e)
    with graced_failed_listing [OF g] show ?thesis by (simp add: sweepOrphans_def wp_bind wp_ask Let_def)
  next
    case (Inr loc)
    define w1 where "w1 = logged (GotLocal (Inr loc)) w"
    let ?r = "orphan_observe (ae_Now env (aw_trace w1)) loc (\<lambda>i. \<not> Option.is_none (assigned_map ps i)) (aw_orphans w1)"
    obtain t ob where r: "?r = (t, ob)" by (cases ?r)
    have "graced env w1"
      using gracedD [OF graced_ask g, of "\<lambda>_. GotLocal (Inr loc)" "\<lambda>_. ()"] by (simp add: wp_ask w1_def calm_def Let_def)
    then have a: "aged env (aw_trace w1)" and "observed_ok env (aw_trace w1) ?r" by (auto simp: graced_def intro: observed_observe)
    then have "graced env (w1\<lparr>aw_orphans := t\<rparr>)" "\<And>i. i \<in> set (ob_toRemove ob) \<Longrightarrow> waited_out env i (aw_trace (w1\<lparr>aw_orphans := t\<rparr>))"
      by (simp_all add: r observed_ok_def graced_def)
    then have "wp (sweep_observed env ps ob) (\<lambda>_. graced env) (w1\<lparr>aw_orphans := t\<rparr>)" by (rule graced_sweep_observed)
    then have "wp (observe_orphans env ps loc) (\<lambda>ob. wp (sweep_observed env ps ob) (\<lambda>_. graced env)) w1"
      unfolding observe_orphans_def wp_def [of "State f" for f] using r by simp
    with Inr show ?thesis by (simp add: sweepOrphans_def wp_bind wp_ask Let_def w1_def)
  qed
qed

lemma graced_reconcileProjects [graced_intros]: "keeps_graced env (reconcileProjects env)"
proof (rule graced_wp)
  fix w :: agent_world
  assume g: "graced env w"
  have rest: "keeps_graced env (State_Monad.bind (sweepOrphans env ps) (\<lambda>_. reconcile_assigned env ps))" for ps
    by (intro graced_intros)
  show "wp (reconcileProjects env) (\<lambda>_. graced env) w"
  proof (cases "ae_ListAssigned env (aw_trace w)")
    case (Inl e)
    with graced_failed_listing [OF g] show ?thesis by (simp add: reconcileProjects_def wp_bind wp_ask Let_def)
  next
    case (Inr ps)
    have "graced env (logged (GotAssigned (Inr ps)) w)"
      using gracedD [OF graced_ask g, of "\<lambda>_. GotAssigned (Inr ps)" "\<lambda>_. ()"] by (simp add: wp_ask calm_def Let_def)
    from gracedD [OF rest this] Inr show ?thesis by (simp add: reconcileProjects_def wp_bind wp_ask Let_def)
  qed
qed

lemma graced_run_ticks [graced_intros]: "keeps_graced env (run_ticks env cfg spec ts)"
  by (induction ts rule: run_ticks.induct)
    (auto simp: heartbeat_tick_def reRegister_def intro!: graced_intros quiet_register_loop [THEN graced_quiet])

text \<open>At startup the tracker is empty, so a failed listing resets nothing.\<close>

lemma graced_bootstrap:
  assumes "graced env w" "aw_orphans w = []"
  shows "wp (bootstrapRunningProjects env) (\<lambda>_ w'. aged env (aw_trace w')) w"
proof (cases "ae_ListAssigned env (aw_trace w)")
  case (Inl e)
  with assms show ?thesis by (simp add: bootstrapRunningProjects_def agent_wp wp_ask Let_def graced_def)
next
  case (Inr ps)
  have "graced env (logged (GotAssigned (Inr ps)) w)" using assms by (simp add: graced_def)
  from gracedD [OF graced_each [OF graced_healthCheckOne] this]
  have "wp (each (healthCheckOne env) (filter (\<lambda>p. ps_Phase (prj_Status p) = ProjectPhaseRunning) ps)) (\<lambda>_ w'. aged env (aw_trace w'))
      (logged (GotAssigned (Inr ps)) w)" by (rule wp_mono) (simp add: graced_def)
  with Inr show ?thesis by (simp add: bootstrapRunningProjects_def wp_bind wp_ask Let_def)
qed

lemma untracked_quiet:
  assumes "quiet_op m" "graced env w" "aw_orphans w = []"
  shows "wp m (\<lambda>_ w'. graced env w' \<and> aw_orphans w' = []) w"
  by (rule wp_conj [OF gracedD [OF graced_quiet [OF assms(1)] assms(2)]]) (rule wp_quiet [OF assms(1)], simp add: assms(3))

lemma graced_agent_Run:
  assumes "graced env w" "aw_orphans w = []"
  shows "wp (agent_Run env cfg fuel ticks) (\<lambda>_ w'. aged env (aw_trace w')) w"
proof -
  let ?spec = "\<lparr>nsp_Hostname = ae_NodeName env, nsp_Unschedulable = False\<rparr>"
  let ?A = "\<lambda>_ w'. aged env (aw_trace w')"
  let ?I = "\<lambda>_ w'. graced env w' \<and> aw_orphans w' = []"
  define later where "later = State_Monad.bind (on_orphans (\<lambda>_. [])) (\<lambda>_. State_Monad.bind
      (if rc_RepoHost cfg then State_Monad.bind (perform env ReconcileRepoHost) (\<lambda>_. skip) else skip) (\<lambda>_. run_ticks env cfg ?spec ticks))"
  have "wp later ?A w'" if "aged env (aw_trace w')" for w'
  proof -
    have "keeps_graced env (State_Monad.bind (if rc_RepoHost cfg then State_Monad.bind (perform env ReconcileRepoHost) (\<lambda>_. skip) else skip)
        (\<lambda>_. run_ticks env cfg ?spec ticks))" by (intro graced_intros agent_request.distinct)
    moreover have "graced env (w'\<lparr>aw_orphans := []\<rparr>)" using that by (simp add: graced_def)
    ultimately show ?thesis
      unfolding later_def wp_bind [of "on_orphans f" for f] wp_on_orphans by (rule wp_mono [OF gracedD]) (simp add: graced_def)
  qed
  then have "wp (bootstrapRunningProjects env) (\<lambda>_. wp later ?A) w'" if "?I () w'" for w'
    using graced_bootstrap [of env w'] that by (auto elim: wp_mono)
  then have start: "wp (State_Monad.bind (on_recovery (\<lambda>_. newRecoveryTracker)) (\<lambda>_. State_Monad.bind (bootstrapRunningProjects env) (\<lambda>_. later))) ?A w'"
    if "?I () w'" for w' using that by (simp add: wp_bind wp_on_recovery graced_def)
  have reg: "wp (register_loop env ?spec fuel) (\<lambda>reg. wp (if reg \<noteq> Registered then skip
      else State_Monad.bind (on_recovery (\<lambda>_. newRecoveryTracker)) (\<lambda>_. State_Monad.bind (bootstrapRunningProjects env) (\<lambda>_. later))) ?A) w'"
    if "?I () w'" for w'
  proof (rule wp_mono [OF untracked_quiet [OF quiet_register_loop(1), of env w']])
    fix a and w'' :: agent_world
    assume I: "graced env w'' \<and> aw_orphans w'' = []"
    then have "aged env (aw_trace w'')" by (simp add: graced_def)
    with start [OF I] show "wp (if a \<noteq> Registered then skip
      else State_Monad.bind (on_recovery (\<lambda>_. newRecoveryTracker)) (\<lambda>_. State_Monad.bind (bootstrapRunningProjects env) (\<lambda>_. later))) ?A w''"
      by (simp add: wp_skip)
  qed (use that in simp_all)
  have "quiet_op (clean_leftovers env)" by (auto simp: clean_leftovers_def intro!: quiet_intros)
  from untracked_quiet [OF this assms] have "wp (clean_leftovers env) ?I w" .
  then show ?thesis unfolding agent_Run_def Let_def wp_bind [of "clean_leftovers env"] wp_bind [of "register_loop env s n" for s n] later_def [symmetric]
    by (rule wp_mono) (use reg in blast)
qed

lemma agent_trace_aged: "aged env (agent_trace env cfg fuel ticks h)"
  using graced_agent_Run [of env "agent_start h" cfg fuel ticks] by (simp add: graced_def agent_start_def agent_trace_def wp_run)

lemma aged_tail: "aged env (e # tr) \<Longrightarrow> aged env tr"
  by (cases "(env, e # tr)" rule: aged.cases) auto

lemma aged_split: "aged env (post @ Did (RemoveOrphanProject i) x # pre) \<Longrightarrow> waited_out env i pre"
proof (induction post)
  case (Cons e post)
  then show ?case using aged_tail [of env e "post @ Did (RemoveOrphanProject i) x # pre"] by (simp del: aged.simps)
qed simp

subsection \<open>Removal\<close>

fun is_orphan_removal :: "agent_request \<Rightarrow> bool" where
  "is_orphan_removal (RemoveOrphanProject i) = True"
| "is_orphan_removal _ = False"

fun_cases is_orphan_removalE: "is_orphan_removal r"



text \<open>
  The loss need not be continuous: a project that comes back while its containers cannot be started keeps the
  time of its first loss, so when it is lost again the next poll removes it.
\<close>

lemma grace_not_restarted:
  assumes "os_stopped s" "os_lostSince s \<noteq> time_zero" "aw_orphans w = [(i, s)]"
    and "assigned i = Some p" "ps_Phase (prj_Status p) = ProjectPhaseScheduled" "\<And>tr. ae_do env tr (ReconcileProject p) = Some e"
  shows "orphan_observe now [i] (\<lambda>j. \<not> Option.is_none (assigned j)) (aw_orphans w)
      = (aw_orphans w, \<lparr>ob_toStop = [], ob_toRemove = [], ob_reappeared = [i]\<rparr>)"
    and "aw_orphans (snd (run_state (sweep_reappeared env assigned i) w)) = [(i, s)]"
    and "now' - os_lostSince s \<ge> orphanGracePeriod \<Longrightarrow> ob_toRemove (snd (orphan_observe now' [i] (\<lambda>_. False) [(i, s)])) = [i]"
proof -
  show "orphan_observe now [i] (\<lambda>j. \<not> Option.is_none (assigned j)) (aw_orphans w)
      = (aw_orphans w, \<lparr>ob_toStop = [], ob_toRemove = [], ob_reappeared = [i]\<rparr>)"
    using assms by (simp add: orphan_observe_def observe_local_def observe_tracked_def no_observation_def)
  have "wp (sweep_reappeared env assigned i) (\<lambda>_ w'. aw_orphans w' = aw_orphans w) w"
    using assms(4-6) by (simp add: sweep_reappeared_def claiming_def agent_wp Let_def)
  with assms(3) show "aw_orphans (snd (run_state (sweep_reappeared env assigned i) w)) = [(i, s)]" by (simp add: wp_run)
  show "ob_toRemove (snd (orphan_observe now' [i] (\<lambda>_. False) [(i, s)])) = [i]" if "now' - os_lostSince s \<ge> orphanGracePeriod"
    using assms(1,2) that by (simp add: orphan_observe_def observe_local_def observe_lost_def observe_tracked_def no_observation_def)
qed

end
