(* ===== verification/Backup_Run.thy ===== *)
theory Backup_Run
  imports Backup_Coordinator Backup_Layout Archive_Extract
begin

text \<open>
  \<open>backup/runner.go\<close> and \<open>backup/retention.go\<close>: one backup generation of a Project and the removal of old
  ones. The object store is a list of objects; a call to it may fail, and an upload that fails may have
  stored anything under its key. Calls to the server and the container engine are answered by the
  environment from the log of the calls before, the latest first. What a container writes into a volume while it
  stops is not modelled: the files change only by the calls of this code. Deferred functions run in reverse order of
  their registration, so each is the end of the operation that registers it.
\<close>

datatype backup_call =
    StopProject Project
  | StartProject Project
  | SetMaintenance ResourceKey string string int string
  | ClearMaintenance ResourceKey string string int
  | CommitBackup ResourceKey string string int string
  | RefreshRoutes Project
  | ReadOwner string
  | PutObject string
  | HeadObject string
  | GetObject string
  | ListObjects string
  | DeleteObject string

record backup_world =
  bw_host :: host
  bw_objects :: "(string \<times> string) list"
  bw_coordinator :: Coordinator
  bw_log :: "(backup_call \<times> agent_error option) list"

text \<open>\<open>be_stored\<close> is what a failed upload left under its key.\<close>

record backup_env =
  be_do :: "(backup_call \<times> agent_error option) list \<Rightarrow> backup_call \<Rightarrow> agent_error option"
  be_stored :: "(backup_call \<times> agent_error option) list \<Rightarrow> string option"
  be_GetProject :: "(backup_call \<times> agent_error option) list \<Rightarrow> string \<Rightarrow> agent_error + Project"
  be_ctxErr :: "(backup_call \<times> agent_error option) list \<Rightarrow> agent_error option"
  be_now :: "(backup_call \<times> agent_error option) list \<Rightarrow> time"
  be_random :: "agent_error + string"
  be_freeBytes :: "agent_error + int"
  be_pack :: "tar_entry list \<Rightarrow> string"
  be_sha256 :: "string \<Rightarrow> string"
  be_manifest :: manifest_json
  be_hasStore :: bool
  be_hasRoutes :: bool

record backup_Config =
  bcf_DataRoot :: string
  bcf_StagingDir :: string
  bcf_NodeName :: string
  bcf_CaraVersion :: string
  bcf_MinFreeBytes :: int

definition DefaultStagingDir :: "string \<Rightarrow> string" where
  "DefaultStagingDir dataRoot = filepath_Join [dataRoot, ''staging'']"

definition NewRunner :: "backup_Config \<Rightarrow> backup_Config" where
  "NewRunner cfg = (if bcf_StagingDir cfg = '''' then cfg\<lparr>bcf_StagingDir := DefaultStagingDir (bcf_DataRoot cfg)\<rparr> else cfg)"

fun clean_entries :: "string \<Rightarrow> string list \<Rightarrow> agent_error option \<Rightarrow> (host, unit) op" where
  "clean_entries dir [] firstErr h = (case firstErr of None \<Rightarrow> Inr () | Some e \<Rightarrow> Inl e, h)"
| "clean_entries dir (n # ns) firstErr h = (let path = filepath_Join [dir, n] in case os_RemoveAll path h of
       (Inl e, h1) \<Rightarrow> clean_entries dir ns (case firstErr of Some fe \<Rightarrow> Some fe
           | None \<Rightarrow> Some (ErrWrap (''backup: remove stale staging '' @ go_quote path) e)) h1
     | (Inr _, h1) \<Rightarrow> clean_entries dir ns firstErr h1)"

definition CleanStaging :: "string \<Rightarrow> (host, unit) op" where
  "CleanStaging stagingDir h = (case os_ReadDir stagingDir h of
       (Inl e, h1) \<Rightarrow> if is_not_exist e then (Inr (), h1)
         else (Inl (ErrWrap (''backup: read staging dir '' @ go_quote stagingDir) e), h1)
     | (Inr names, h1) \<Rightarrow> clean_entries stagingDir names None h1)"

subsection \<open>Calls\<close>

definition on_files :: "(host, 'a) op \<Rightarrow> (backup_world, 'a) op" where
  "on_files f w = (case f (bw_host w) of (r, h) \<Rightarrow> (r, w\<lparr>bw_host := h\<rparr>))"

definition backup_call_of :: "backup_env \<Rightarrow> backup_call \<Rightarrow> (backup_world, unit) op" where
  "backup_call_of env c w = (let e = be_do env (bw_log w) c in
     (case e of None \<Rightarrow> Inr () | Some x \<Rightarrow> Inl x, w\<lparr>bw_log := (c, e) # bw_log w\<rparr>))"

definition store_Put :: "backup_env \<Rightarrow> string \<Rightarrow> string \<Rightarrow> (backup_world, unit) op" where
  "store_Put env key body w = (let e = be_do env (bw_log w) (PutObject key);
       w' = w\<lparr>bw_log := (PutObject key, e) # bw_log w\<rparr>
     in case e of
       None \<Rightarrow> (Inr (), w'\<lparr>bw_objects := AList.update key body (bw_objects w)\<rparr>)
     | Some x \<Rightarrow> (Inl x, case be_stored env (bw_log w) of
           None \<Rightarrow> w' | Some b \<Rightarrow> w'\<lparr>bw_objects := AList.update key b (bw_objects w)\<rparr>))"

definition store_Get :: "backup_env \<Rightarrow> string \<Rightarrow> (backup_world, string) op" where
  "store_Get env key = andThen (backup_call_of env (GetObject key)) (\<lambda>e. e) (\<lambda>_ w.
     (case map_of (bw_objects w) key of None \<Rightarrow> Inl (Sentinel objectstore_ErrNotFound) | Some b \<Rightarrow> Inr b, w))"

definition store_Head :: "backup_env \<Rightarrow> string \<Rightarrow> (backup_world, int) op" where
  "store_Head env key = andThen (backup_call_of env (HeadObject key)) (\<lambda>e. e) (\<lambda>_ w.
     (case map_of (bw_objects w) key of None \<Rightarrow> Inl (Sentinel objectstore_ErrNotFound) | Some b \<Rightarrow> Inr (int (length b)), w))"

definition store_List :: "backup_env \<Rightarrow> string \<Rightarrow> (backup_world, string list) op" where
  "store_List env pre = andThen (backup_call_of env (ListObjects pre)) (\<lambda>e. e) (\<lambda>_ w.
     (Inr (filter (prefix pre) (remdups (map fst (bw_objects w)))), w))"

definition store_Delete :: "backup_env \<Rightarrow> string \<Rightarrow> (backup_world, unit) op" where
  "store_Delete env key = andThen (backup_call_of env (DeleteObject key)) (\<lambda>e. e) (\<lambda>_ w.
     (Inr (), w\<lparr>bw_objects := AList.delete key (bw_objects w)\<rparr>))"

text \<open>What a deferred step does, its own error only logged.\<close>

definition finally_do :: "('w, 'a) op \<Rightarrow> ('w, 'b) op \<Rightarrow> ('w, 'a) op" where
  "finally_do m f w = (case m w of (r, w1) \<Rightarrow> (case f w1 of (_, w2) \<Rightarrow> (r, w2)))"

subsection \<open>runner.go\<close>

definition managedVolumes :: "ProjectSpec \<Rightarrow> VolumeDef list" where
  "managedVolumes spec = filter (\<lambda>v. vol_Type v = VolumeTypeManaged \<and> BackupStrategyFor spec (vol_Name v) = BackupStrategyOffline)
     (spec_Volumes spec)"

definition classifyExit :: "agent_error option \<Rightarrow> agent_error option \<Rightarrow> ExitReason" where
  "classifyExit ctxErr err = (let is_err = (\<lambda>s x. case x of None \<Rightarrow> False | Some e \<Rightarrow> error_is s e) in
     if err = None then ExitSuccess
     else if is_err context_DeadlineExceeded err \<or> is_err context_DeadlineExceeded ctxErr then ExitTimeout
     else if is_err context_Canceled err \<or> is_err context_Canceled ctxErr then ExitCancelled
     else ExitFailure)"

definition checkDiskSpace :: "backup_env \<Rightarrow> backup_Config \<Rightarrow> (backup_world, unit) op" where
  "checkDiskSpace env cfg =
     (if bcf_MinFreeBytes cfg = 0 then op_return ()
      else andThen (on_files (os_MkdirAll (bcf_StagingDir cfg)))
        (ErrWrap (''backup: create staging dir '' @ go_quote (bcf_StagingDir cfg))) (\<lambda>_.
      andThen (op_lift (be_freeBytes env)) (ErrWrap ''backup: check free space'') (\<lambda>free.
      if free < bcf_MinFreeBytes cfg
      then op_fail (ErrMore (Sentinel backup_ErrInsufficientDiskSpace)
             (FormatInt free @ '' bytes free, '' @ FormatInt (bcf_MinFreeBytes cfg) @ '' required''))
      else op_return ())))"

definition restoreService :: "backup_env \<Rightarrow> backup_Config \<Rightarrow> Project \<Rightarrow> agent_error option \<Rightarrow> (backup_world, unit) op" where
  "restoreService env cfg project runErr w =
     (let reason = classifyExit (be_ctxErr env (bw_log w)) runErr;
          answer = be_GetProject env (bw_log w) (meta_Name (prj_Meta project));
          w1 = w\<lparr>bw_log := (ReadOwner (meta_Name (prj_Meta project)), case answer of Inl e \<Rightarrow> Some e | Inr _ \<Rightarrow> None) # bw_log w\<rparr>;
          ownership = Resolve (bcf_NodeName cfg) answer (meta_UID (prj_Meta project)) (ps_AssignmentGeneration (prj_Status project))
      in if \<not> ShouldRestartContainers reason ownership then (Inr (), w1)
         else case backup_call_of env (StartProject project) w1 of
           (Inl e, w2) \<Rightarrow> (Inr (), w2)
         | (Inr _, w2) \<Rightarrow> if be_hasRoutes env then (Inr (), snd (backup_call_of env (RefreshRoutes project) w2)) else (Inr (), w2))"

definition uploadAndVerify :: "backup_env \<Rightarrow> string \<Rightarrow> string \<Rightarrow> ArchiveResult \<Rightarrow> (backup_world, unit) op" where
  "uploadAndVerify env archivePath key result =
     andThen (on_files (os_ReadFile archivePath)) (ErrWrap ''backup: open archive'') (\<lambda>body.
     andThen (store_Put env key body) (ErrWrap ''backup: upload'') (\<lambda>_.
     andThen (store_Head env key) (ErrWrap ''backup: verify upload'') (\<lambda>size_of.
     if size_of \<noteq> ar_SizeBytes result
     then op_fail (ErrText (''backup: verify upload: stored size '' @ FormatInt size_of @ '' does not match archive size ''
            @ FormatInt (ar_SizeBytes result)))
     else op_return ())))"

definition captureVolume :: "backup_env \<Rightarrow> backup_Config \<Rightarrow> ResourceKey \<Rightarrow> string \<Rightarrow> string \<Rightarrow> VolumeDef \<Rightarrow> (backup_world, VolumeManifestEntry) op" where
  "captureVolume env cfg key backupID stagingDir vol =
     andThen (op_lift (HostPath (bcf_DataRoot cfg) (rsk_Namespace key) (rsk_Name key) (vol_Name vol)))
       (ErrWrap (''backup: resolve volume '' @ go_quote (vol_Name vol))) (\<lambda>hostPath.
     let archivePath = filepath_Join [stagingDir, vol_Name vol @ ''.tar.gz''] in
     andThen (on_files (Archive (be_pack env) (be_sha256 env) hostPath archivePath))
       (ErrWrap (''backup: archive volume '' @ go_quote (vol_Name vol))) (\<lambda>result.
     andThen (op_lift (ArchiveKey (rsk_Namespace key) (rsk_Name key) backupID (vol_Name vol))) (\<lambda>e. e) (\<lambda>archiveKey.
     andThen (uploadAndVerify env archivePath archiveKey result) (ErrWrap (''backup: volume '' @ go_quote (vol_Name vol))) (\<lambda>_.
     op_return \<lparr>ve_Name = vol_Name vol, ve_ArchiveKey = archiveKey, ve_SizeBytes = ar_SizeBytes result, ve_SHA256 = ar_SHA256 result\<rparr>))))"

fun captureVolumes :: "backup_env \<Rightarrow> backup_Config \<Rightarrow> ResourceKey \<Rightarrow> string \<Rightarrow> string \<Rightarrow> VolumeDef list \<Rightarrow> (backup_world, VolumeManifestEntry list) op" where
  "captureVolumes env cfg key backupID stagingDir [] = op_return []"
| "captureVolumes env cfg key backupID stagingDir (vol # vols) =
     andThen (captureVolume env cfg key backupID stagingDir vol) (\<lambda>e. e) (\<lambda>entry.
     andThen (captureVolumes env cfg key backupID stagingDir vols) (\<lambda>e. e) (\<lambda>entries.
     op_return (entry # entries)))"

definition manifest_for :: "backup_Config \<Rightarrow> ResourceKey \<Rightarrow> string \<Rightarrow> Project \<Rightarrow> VolumeManifestEntry list \<Rightarrow> time \<Rightarrow> Manifest" where
  "manifest_for cfg key backupID project entries now =
     (BuildManifest backupID (rsk_Namespace key) (rsk_Name key) (bcf_NodeName cfg) (bcf_CaraVersion cfg)
        (meta_SpecRevision (prj_Meta project)) now entries)\<lparr>mf_ProjectUID := meta_UID (prj_Meta project)\<rparr>"

definition writeManifest :: "backup_env \<Rightarrow> backup_Config \<Rightarrow> ResourceKey \<Rightarrow> string \<Rightarrow> Project \<Rightarrow> VolumeManifestEntry list \<Rightarrow> (backup_world, unit) op" where
  "writeManifest env cfg key backupID project entries w =
     andThen (op_lift (ManifestKey (rsk_Namespace key) (rsk_Name key) backupID)) (\<lambda>e. e) (\<lambda>manifestKey.
     andThen (op_lift (Manifest_Marshal (be_manifest env) (manifest_for cfg key backupID project entries (be_now env (bw_log w))))) (\<lambda>e. e) (\<lambda>body.
     andThen (store_Put env manifestKey body) (ErrWrap ''backup: write manifest'') op_return)) w"

definition capture_and_commit :: "backup_env \<Rightarrow> backup_Config \<Rightarrow> Project \<Rightarrow> string \<Rightarrow> string \<Rightarrow> (backup_world, unit) op" where
  "capture_and_commit env cfg project backupID stagingDir = (let key = key_of project in
     andThen (captureVolumes env cfg key backupID stagingDir (managedVolumes (prj_Spec project))) (\<lambda>e. e) (\<lambda>entries.
     andThen (writeManifest env cfg key backupID project entries) (\<lambda>e. e) (\<lambda>_.
     andThen (backup_call_of env (CommitBackup key (meta_UID (prj_Meta project)) (ps_NodeRef (prj_Status project))
         (ps_AssignmentGeneration (prj_Status project)) backupID)) (ErrWrap ''backup: commit generation'') op_return)))"

definition run_stopped :: "backup_env \<Rightarrow> backup_Config \<Rightarrow> Project \<Rightarrow> string \<Rightarrow> (backup_world, unit) op" where
  "run_stopped env cfg project backupID =
     (let stagingDir = filepath_Join [bcf_StagingDir cfg, backupID] in
      andThen (backup_call_of env (StopProject project)) (ErrWrap ''backup: stop containers'') (\<lambda>_.
      andThen (on_files (os_MkdirAll stagingDir)) (ErrWrap (''backup: create staging dir '' @ go_quote stagingDir)) (\<lambda>_.
      finally_do (capture_and_commit env cfg project backupID stagingDir) (on_files (os_RemoveAll stagingDir)))))"

definition with_restart :: "backup_env \<Rightarrow> backup_Config \<Rightarrow> Project \<Rightarrow> (backup_world, unit) op \<Rightarrow> (backup_world, unit) op" where
  "with_restart env cfg project m w = (case m w of
     (r, w1) \<Rightarrow> (r, snd (restoreService env cfg project (case r of Inl e \<Rightarrow> Some e | Inr _ \<Rightarrow> None) w1)))"

definition run_maintained :: "backup_env \<Rightarrow> backup_Config \<Rightarrow> Project \<Rightarrow> string \<Rightarrow> (backup_world, unit) op" where
  "run_maintained env cfg project backupID =
     (let key = key_of project; uid = meta_UID (prj_Meta project); nodeRef = ps_NodeRef (prj_Status project);
          generation = ps_AssignmentGeneration (prj_Status project)
      in andThen (backup_call_of env (SetMaintenance key uid nodeRef generation ''BackingUp''))
           (ErrWrap ''backup: set Maintenance condition'') (\<lambda>_.
         finally_do (with_restart env cfg project (run_stopped env cfg project backupID))
           (backup_call_of env (ClearMaintenance key uid nodeRef generation))))"

subsection \<open>retention.go\<close>

definition RetainGenerations :: nat where "RetainGenerations = 7"

text \<open>The generation a key of the listing belongs to: \<open>strings.Cut\<close> of what follows the prefix.\<close>

definition generation_id :: "string \<Rightarrow> string \<Rightarrow> string option" where
  "generation_id pre key = (let rest = drop (length pre) key in
     if CHR ''/'' \<in> set rest then Some (takeWhile (\<lambda>c. c \<noteq> CHR ''/'') rest) else None)"

record generationObjects =
  go_id :: string
  go_keys :: "string list"

text \<open>The generations in the order of the listing; the code's map has no order of its own.\<close>

definition by_id :: "string \<Rightarrow> string list \<Rightarrow> generationObjects list" where
  "by_id pre keys = map (\<lambda>i. \<lparr>go_id = i, go_keys = filter (\<lambda>k. generation_id pre k = Some i) keys\<rparr>)
     (remdups (List.map_filter (generation_id pre) keys))"

definition manifest_key :: "generationObjects \<Rightarrow> string option" where
  "manifest_key g = find (\<lambda>k. path_Base k = manifestFileName) (go_keys g)"

definition manifestUID :: "backup_env \<Rightarrow> string \<Rightarrow> backup_world \<Rightarrow> string \<times> backup_world" where
  "manifestUID env key w = (case store_Get env key w of
       (Inl e, w1) \<Rightarrow> ('''', w1)
     | (Inr body, w1) \<Rightarrow> (case UnmarshalManifest (be_manifest env) body of Inl e \<Rightarrow> '''' | Inr m \<Rightarrow> mf_ProjectUID m, w1))"

fun sort_out :: "backup_env \<Rightarrow> string \<Rightarrow> generationObjects list \<Rightarrow> backup_world \<Rightarrow> generationObjects list \<times> generationObjects list \<times> backup_world" where
  "sort_out env uid [] w = ([], [], w)"
| "sort_out env uid (g # gs) w = (case manifest_key g of
       None \<Rightarrow> (case sort_out env uid gs w of (ours, abandoned, w1) \<Rightarrow> (ours, g # abandoned, w1))
     | Some k \<Rightarrow> (case manifestUID env k w of (u, w1) \<Rightarrow>
         (case sort_out env uid gs w1 of (ours, abandoned, w2) \<Rightarrow> (if u = uid then g # ours else ours, abandoned, w2))))"

fun delete_keys :: "backup_env \<Rightarrow> string list \<Rightarrow> backup_world \<Rightarrow> backup_world" where
  "delete_keys env [] w = w"
| "delete_keys env (k # ks) w = (case store_Delete env k w of (Inl e, w1) \<Rightarrow> w1 | (Inr _, w1) \<Rightarrow> delete_keys env ks w1)"

definition deleteGeneration :: "backup_env \<Rightarrow> generationObjects \<Rightarrow> backup_world \<Rightarrow> backup_world" where
  "deleteGeneration env g = delete_keys env
     (filter (\<lambda>k. path_Base k = manifestFileName) (go_keys g) @ filter (\<lambda>k. path_Base k \<noteq> manifestFileName) (go_keys g))"

definition prune_sorted :: "backup_env \<Rightarrow> Project \<Rightarrow> string \<Rightarrow> generationObjects list \<Rightarrow> generationObjects list \<Rightarrow> backup_world \<Rightarrow> backup_world" where
  "prune_sorted env project backupID ours abandoned w =
     (if length ours < RetainGenerations then w
      else let protected = {backupID, CommittedBackupID (ps_Recovery (prj_Status project))};
               w1 = fold (deleteGeneration env) (filter (\<lambda>g. go_id g \<notin> protected) (drop RetainGenerations ours)) w;
               oldestKept = go_id (ours ! (RetainGenerations - 1))
           in fold (deleteGeneration env) (filter (\<lambda>g. go_id g < oldestKept) abandoned) w1)"

definition pruneGenerations :: "backup_env \<Rightarrow> Project \<Rightarrow> string \<Rightarrow> backup_world \<Rightarrow> backup_world" where
  "pruneGenerations env project backupID w =
     (let uid = meta_UID (prj_Meta project); key = key_of project in
      if uid = '''' then w
      else case ProjectPrefix (rsk_Namespace key) (rsk_Name key) of
        Inl e \<Rightarrow> w
      | Inr pre \<Rightarrow> (case store_List env (pre @ ''/snapshots/'') w of
            (Inl e, w1) \<Rightarrow> w1
          | (Inr keys, w1) \<Rightarrow> (case sort_out env uid (by_id (pre @ ''/snapshots/'') keys) w1 of
              (ours, abandoned, w2) \<Rightarrow> prune_sorted env project backupID (rev (sort_key go_id ours)) abandoned w2)))"

subsection \<open>Run\<close>

definition with_prune :: "backup_env \<Rightarrow> Project \<Rightarrow> string \<Rightarrow> (backup_world, unit) op \<Rightarrow> (backup_world, unit) op" where
  "with_prune env project backupID m w = (case m w of
       (Inl e, w1) \<Rightarrow> (Inl e, w1)
     | (Inr u, w1) \<Rightarrow> (Inr u, pruneGenerations env project backupID w1))"

definition run_claimed :: "backup_env \<Rightarrow> backup_Config \<Rightarrow> Project \<Rightarrow> (backup_world, unit) op" where
  "run_claimed env cfg project w =
     (if \<not> be_hasStore env
      then (Inl (ErrText (''backup: project '' @ rsk_Namespace (key_of project) @ ''/'' @ rsk_Name (key_of project)
             @ '' declares Managed volumes but this agent has no object store configured'')), w)
      else andThen (checkDiskSpace env cfg) (\<lambda>e. e) (\<lambda>_ w1.
        andThen (op_lift (NewBackupID (be_now env (bw_log w1)) (be_random env))) (\<lambda>e. e) (\<lambda>backupID.
        with_prune env project backupID (run_maintained env cfg project backupID)) w1) w)"

definition backup_Run :: "backup_env \<Rightarrow> backup_Config \<Rightarrow> Project \<Rightarrow> (backup_world, unit) op" where
  "backup_Run env cfg project w =
     (if managedVolumes (prj_Spec project) = [] then (Inl (Sentinel ErrNoManagedVolumes), w)
      else case TryClaim (bw_coordinator w) (key_of project) OpBackup of
        None \<Rightarrow> (Inr (), w)
      | Some (t, c) \<Rightarrow> (case run_claimed env cfg project (w\<lparr>bw_coordinator := c\<rparr>) of
          (r, w1) \<Rightarrow> (r, w1\<lparr>bw_coordinator := fire_release t (bw_coordinator w1)\<rparr>)))"

end
