(* ===== verification/Backup_Properties.thy ===== *)
theory Backup_Properties
  imports Backup_Run Restore_Guarantees
begin

text \<open>
  What a backup run guarantees: the service comes back, the claim is given up, only generations beyond the
  retention are removed, and a run that succeeded can be restored.
\<close>

subsection \<open>The calls an operation makes\<close>

definition makes :: "backup_call set \<Rightarrow> (backup_world \<Rightarrow> backup_world) \<Rightarrow> bool" where
  "makes S f \<longleftrightarrow> (\<forall>w. bw_coordinator (f w) = bw_coordinator w \<and> (\<exists>evs. bw_log (f w) = evs @ bw_log w \<and> fst ` set evs \<subseteq> S))"

abbreviation logs :: "backup_call set \<Rightarrow> (backup_world, 'a) op \<Rightarrow> bool" where
  "logs S m \<equiv> makes S (\<lambda>w. snd (m w))"

named_theorems logs_intros

lemma makesD: "makes S f \<Longrightarrow> bw_coordinator (f w) = bw_coordinator w \<and> (\<exists>evs. bw_log (f w) = evs @ bw_log w \<and> fst ` set evs \<subseteq> S)"
  by (simp add: makes_def)

lemma makes_mono: "makes S f \<Longrightarrow> S \<subseteq> T \<Longrightarrow> makes T f"
  unfolding makes_def by (meson subset_trans)

lemma makes_id [logs_intros]: "makes S (\<lambda>w. w)"
  by (simp add: makes_def)

lemma makes_comp:
  assumes "makes S f" "\<And>w. makes S (g w)"
  shows "makes S (\<lambda>w. g w (f w))"
  unfolding makes_def
proof (intro allI conjI)
  fix w
  from makesD [OF assms(1), of w] obtain evs where f: "bw_coordinator (f w) = bw_coordinator w"
    "bw_log (f w) = evs @ bw_log w" "fst ` set evs \<subseteq> S" by blast
  from makesD [OF assms(2), of w "f w"] obtain evs' where g: "bw_coordinator (g w (f w)) = bw_coordinator (f w)"
    "bw_log (g w (f w)) = evs' @ bw_log (f w)" "fst ` set evs' \<subseteq> S" by blast
  show "bw_coordinator (g w (f w)) = bw_coordinator w" using f g by simp
  show "\<exists>evs. bw_log (g w (f w)) = evs @ bw_log w \<and> fst ` set evs \<subseteq> S"
    by (rule exI [of _ "evs' @ evs"]) (use f g in auto)
qed

lemma logs_andThen [logs_intros]:
  assumes "logs S m" "\<And>a. logs S (f a)"
  shows "logs S (andThen m wrap f)"
proof -
  have "makes S (\<lambda>w. (\<lambda>w'. case fst (m w) of Inl e \<Rightarrow> w' | Inr a \<Rightarrow> snd (f a w')) (snd (m w)))"
  proof (rule makes_comp [OF assms(1)])
    fix w
    show "makes S (\<lambda>w'. case fst (m w) of Inl e \<Rightarrow> w' | Inr a \<Rightarrow> snd (f a w'))"
      by (cases "fst (m w)") (simp_all add: makes_id assms(2))
  qed
  moreover have "snd (andThen m wrap f w) = (case fst (m w) of Inl e \<Rightarrow> snd (m w) | Inr a \<Rightarrow> snd (f a (snd (m w))))" for w
    by (simp add: andThen_def split: prod.split sum.split)
  ultimately show ?thesis by (simp add: makes_def)
qed

lemma logs_return [logs_intros]: "logs S (op_return a)" "logs S (op_fail e)" "logs S (op_lift r)"
  by (simp_all add: op_return_def op_fail_def op_lift_def makes_id)

lemma logs_if [logs_intros]: "logs S m \<Longrightarrow> logs S n \<Longrightarrow> logs S (if b then m else n)"
  by simp

lemma logs_files [logs_intros]: "logs S (on_files f)"
  by (simp add: makes_def on_files_def split: prod.split)

lemma logs_call [logs_intros]: "c \<in> S \<Longrightarrow> logs S (backup_call_of env c)"
  by (auto simp: makes_def backup_call_of_def Let_def)

lemma logs_finally [logs_intros]: "logs S m \<Longrightarrow> logs S f \<Longrightarrow> logs S (finally_do m f)"
  using makes_comp [of S "\<lambda>w. snd (m w)" "\<lambda>_ w. snd (f w)"] by (simp add: finally_do_def split_beta)

lemma logs_Put [logs_intros]: "PutObject key \<in> S \<Longrightarrow> logs S (store_Put env key body)"
  by (auto simp: makes_def store_Put_def Let_def split: option.split)

lemma makes_log_free: "(\<And>w. bw_log (f w) = bw_log w \<and> bw_coordinator (f w) = bw_coordinator w) \<Longrightarrow> makes S f"
  by (simp add: makes_def)

lemma logs_reads [logs_intros]:
  "HeadObject key \<in> S \<Longrightarrow> logs S (store_Head env key)" "GetObject key \<in> S \<Longrightarrow> logs S (store_Get env key)"
  "ListObjects pre \<in> S \<Longrightarrow> logs S (store_List env pre)" "DeleteObject key \<in> S \<Longrightarrow> logs S (store_Delete env key)"
  unfolding store_Head_def store_Get_def store_List_def store_Delete_def
  by (rule logs_andThen [OF logs_call], assumption, rule makes_log_free, simp)+

definition storage_calls :: "backup_call set" where
  "storage_calls = range PutObject \<union> range HeadObject \<union> range GetObject \<union> range ListObjects \<union> range DeleteObject"

lemma storage_simps [simp]:
  "PutObject k \<in> storage_calls" "HeadObject k \<in> storage_calls" "GetObject k \<in> storage_calls" "ListObjects k \<in> storage_calls"
  "DeleteObject k \<in> storage_calls" "StartProject p \<notin> storage_calls" "StopProject p \<notin> storage_calls"
  "ReadOwner n \<notin> storage_calls" "ClearMaintenance key u n g \<notin> storage_calls"
  by (auto simp: storage_calls_def)

lemma logs_captureVolumes [logs_intros]: "storage_calls \<subseteq> S \<Longrightarrow> logs S (captureVolumes env cfg key backupID dir vols)"
proof (induction vols)
  case (Cons v vols)
  then show ?case
    by (auto simp: captureVolume_def uploadAndVerify_def Let_def intro!: logs_intros dest: subsetD [OF _ storage_simps(1)] subsetD [OF _ storage_simps(2)])
qed (simp add: logs_intros)

lemma logs_writeManifest [logs_intros]: "storage_calls \<subseteq> S \<Longrightarrow> logs S (writeManifest env cfg key backupID p entries)"
proof -
  assume "storage_calls \<subseteq> S"
  then have "logs S (\<lambda>w. andThen (op_lift (ManifestKey (rsk_Namespace key) (rsk_Name key) backupID)) (\<lambda>e. e) (\<lambda>manifestKey.
     andThen (op_lift (Manifest_Marshal (be_manifest env) (manifest_for cfg key backupID p entries t))) (\<lambda>e. e) (\<lambda>body.
     andThen (store_Put env manifestKey body) (ErrWrap ''backup: write manifest'') op_return)) w)" for t
    by (auto intro!: logs_intros dest: subsetD [OF _ storage_simps(1)])
  then show ?thesis by (simp add: makes_def writeManifest_def)
qed

definition work_calls :: "Project \<Rightarrow> backup_call set" where
  "work_calls p = storage_calls \<union> {StopProject p} \<union> range (CommitBackup (key_of p) (meta_UID (prj_Meta p)) (ps_NodeRef (prj_Status p))
     (ps_AssignmentGeneration (prj_Status p)))"

lemma logs_run_stopped: "logs (work_calls p) (run_stopped env cfg p backupID)"
  by (auto simp: run_stopped_def capture_and_commit_def Let_def work_calls_def intro!: logs_intros)

lemma makes_delete_keys: "makes storage_calls (delete_keys env ks)"
proof (induction ks)
  case (Cons k ks)
  have "logs storage_calls (store_Delete env k)" by (intro logs_intros) simp
  moreover have "makes storage_calls (\<lambda>w'. case fst (store_Delete env k w) of Inl e \<Rightarrow> w' | Inr _ \<Rightarrow> delete_keys env ks w')" for w
    by (cases "fst (store_Delete env k w)") (simp_all add: makes_id Cons.IH)
  ultimately have "makes storage_calls (\<lambda>w. case fst (store_Delete env k w) of Inl e \<Rightarrow> snd (store_Delete env k w)
      | Inr _ \<Rightarrow> delete_keys env ks (snd (store_Delete env k w)))" by (rule makes_comp)
  moreover have "delete_keys env (k # ks) = (\<lambda>w. case fst (store_Delete env k w) of Inl e \<Rightarrow> snd (store_Delete env k w)
      | Inr _ \<Rightarrow> delete_keys env ks (snd (store_Delete env k w)))" by (rule ext) (simp split: prod.split sum.split)
  ultimately show ?case by simp
qed (simp add: makes_id)

lemma makes_fold: "(\<And>x. makes S (f x)) \<Longrightarrow> makes S (fold f xs)"
proof (induction xs)
  case (Cons x xs)
  have "makes S (\<lambda>w. fold f xs (f x w))" by (rule makes_comp) (use Cons in simp_all)
  then show ?case by (simp add: comp_def)
qed (simp add: makes_def)

lemma makes_manifestUID: "makes storage_calls (\<lambda>w. snd (manifestUID env k w))"
proof -
  have "snd (manifestUID env k w) = snd (store_Get env k w)" for w by (simp add: manifestUID_def split: prod.split sum.split)
  moreover have "logs storage_calls (store_Get env k)" by (intro logs_intros) simp
  ultimately show ?thesis by simp
qed

lemma makes_sort_out: "makes storage_calls (\<lambda>w. snd (snd (sort_out env uid gs w)))"
proof (induction gs)
  case (Cons g gs)
  show ?case
  proof (cases "manifest_key g")
    case None
    then have "snd (snd (sort_out env uid (g # gs) w)) = snd (snd (sort_out env uid gs w))" for w by (simp split: prod.split)
    with Cons.IH show ?thesis by simp
  next
    case (Some k)
    then have "snd (snd (sort_out env uid (g # gs) w)) = snd (snd (sort_out env uid gs (snd (manifestUID env k w))))" for w
      by (simp split: prod.split)
    moreover have "makes storage_calls (\<lambda>w. snd (snd (sort_out env uid gs (snd (manifestUID env k w)))))"
      by (rule makes_comp [OF makes_manifestUID]) (rule Cons.IH)
    ultimately show ?thesis by simp
  qed
qed (simp add: makes_id)

lemma makes_pruneGenerations: "makes storage_calls (pruneGenerations env p backupID)"
proof -
  have gone: "makes storage_calls (prune_sorted env p backupID ours ab)" for ours ab
  proof -
    have d: "makes storage_calls (fold (deleteGeneration env) gs)" for gs
      by (rule makes_fold) (simp add: deleteGeneration_def makes_delete_keys)
    have "makes storage_calls (\<lambda>w. fold (deleteGeneration env) gs (fold (deleteGeneration env) gs' w))" for gs gs'
      by (rule makes_comp) (rule d)+
    then show ?thesis unfolding prune_sorted_def Let_def by (cases "length ours < RetainGenerations") (simp_all add: makes_id)
  qed
  let ?sorted = "\<lambda>gs w. prune_sorted env p backupID (rev (sort_key go_id (fst (sort_out env (meta_UID (prj_Meta p)) gs w))))
      (fst (snd (sort_out env (meta_UID (prj_Meta p)) gs w))) (snd (snd (sort_out env (meta_UID (prj_Meta p)) gs w)))"
  have sorted: "makes storage_calls (?sorted gs)" for gs
    by (rule makes_comp [OF makes_sort_out]) (rule gone)
  show ?thesis
  proof (cases "meta_UID (prj_Meta p) = '''' \<or> isl (ProjectPrefix (rsk_Namespace (key_of p)) (rsk_Name (key_of p)))")
    case True
    then have "pruneGenerations env p backupID = (\<lambda>w. w)" by (auto simp: pruneGenerations_def Let_def fun_eq_iff split: sum.split)
    then show ?thesis by (simp add: makes_id)
  next
    case False
    then obtain pre where pre: "ProjectPrefix (rsk_Namespace (key_of p)) (rsk_Name (key_of p)) = Inr pre" "meta_UID (prj_Meta p) \<noteq> ''''"
      by (cases "ProjectPrefix (rsk_Namespace (key_of p)) (rsk_Name (key_of p))") auto
    let ?list = "store_List env (pre @ ''/snapshots/'')"
    have "makes storage_calls (\<lambda>w. case fst (?list w) of Inl e \<Rightarrow> snd (?list w) | Inr keys \<Rightarrow> ?sorted (by_id (pre @ ''/snapshots/'') keys) (snd (?list w)))"
    proof (rule makes_comp [of storage_calls "\<lambda>w. snd (?list w)"
          "\<lambda>w w'. case fst (?list w) of Inl e \<Rightarrow> w' | Inr keys \<Rightarrow> ?sorted (by_id (pre @ ''/snapshots/'') keys) w'"])
      show "makes storage_calls (\<lambda>w. snd (?list w))" by (intro logs_intros) simp
      show "makes storage_calls (\<lambda>w'. case fst (?list w) of Inl e \<Rightarrow> w' | Inr keys \<Rightarrow> ?sorted (by_id (pre @ ''/snapshots/'') keys) w')" for w
        by (cases "fst (?list w)") (simp_all add: makes_id sorted)
    qed
    moreover have "pruneGenerations env p backupID w = (case fst (?list w) of Inl e \<Rightarrow> snd (?list w)
        | Inr keys \<Rightarrow> ?sorted (by_id (pre @ ''/snapshots/'') keys) (snd (?list w)))" for w
      using pre by (simp add: pruneGenerations_def Let_def split: prod.split sum.split)
    ultimately show ?thesis by (simp add: makes_def)
  qed
qed

subsection \<open>The service comes back\<close>

definition restarts :: "backup_env \<Rightarrow> backup_Config \<Rightarrow> Project \<Rightarrow> (backup_call \<times> agent_error option) list \<Rightarrow> bool" where
  "restarts env cfg p past \<longleftrightarrow> Resolve (bcf_NodeName cfg) (be_GetProject env past (meta_Name (prj_Meta p))) (meta_UID (prj_Meta p))
     (ps_AssignmentGeneration (prj_Status p)) \<in> {OwnershipRetained, OwnershipUnknown}"

lemma restoreService_log:
  "\<exists>evs x. bw_log (snd (restoreService env cfg p err w)) = evs @ (ReadOwner (meta_Name (prj_Meta p)), x) # bw_log w
     \<and> fst ` set evs \<subseteq> {StartProject p, RefreshRoutes p} \<and> (StartProject p \<in> fst ` set evs \<longleftrightarrow> restarts env cfg p (bw_log w))
     \<and> bw_coordinator (snd (restoreService env cfg p err w)) = bw_coordinator w"
proof -
  have "ShouldRestartContainers reason ow \<longleftrightarrow> ow \<in> {OwnershipRetained, OwnershipUnknown}" for reason ow
    by (cases ow; cases reason) (simp_all add: ShouldRestartContainers_def)
  then show ?thesis
    by (cases "be_do env ((ReadOwner (meta_Name (prj_Meta p)), case be_GetProject env (bw_log w) (meta_Name (prj_Meta p)) of Inl e \<Rightarrow> Some e | Inr _ \<Rightarrow> None) # bw_log w) (StartProject p)")
      (auto simp: restoreService_def restarts_def backup_call_of_def Let_def)
qed

definition service_back :: "backup_env \<Rightarrow> backup_Config \<Rightarrow> Project \<Rightarrow> (backup_call \<times> agent_error option) list
    \<Rightarrow> (backup_call \<times> agent_error option) list \<Rightarrow> bool" where
  "service_back env cfg p past evs \<longleftrightarrow> (\<exists>post x pre. evs = post @ (ReadOwner (meta_Name (prj_Meta p)), x) # pre
     \<and> StopProject p \<notin> fst ` set post \<and> StartProject p \<notin> fst ` set pre
     \<and> (StartProject p \<in> fst ` set post \<longleftrightarrow> restarts env cfg p (pre @ past))
     \<and> ClearMaintenance (key_of p) (meta_UID (prj_Meta p)) (ps_NodeRef (prj_Status p)) (ps_AssignmentGeneration (prj_Status p)) \<in> fst ` set post)"

lemma service_back_more:
  "service_back env cfg p past evs \<Longrightarrow> fst ` set new \<subseteq> storage_calls \<Longrightarrow> service_back env cfg p past (new @ evs)"
proof -
  assume "service_back env cfg p past evs" and new: "fst ` set new \<subseteq> storage_calls"
  then obtain post x pre where s: "evs = post @ (ReadOwner (meta_Name (prj_Meta p)), x) # pre" "StopProject p \<notin> fst ` set post"
    "StartProject p \<notin> fst ` set pre" "StartProject p \<in> fst ` set post \<longleftrightarrow> restarts env cfg p (pre @ past)"
    "ClearMaintenance (key_of p) (meta_UID (prj_Meta p)) (ps_NodeRef (prj_Status p)) (ps_AssignmentGeneration (prj_Status p)) \<in> fst ` set post"
    unfolding service_back_def by blast
  have "StopProject p \<notin> fst ` set new" "StartProject p \<notin> fst ` set new" using new by (auto dest!: subsetD)
  with s show ?thesis
    unfolding service_back_def by (intro exI [of _ "new @ post"] exI [of _ x] exI [of _ pre]) (simp add: image_Un)
qed

lemma run_maintained_log:
  assumes "run_maintained env cfg p backupID w = (r, w')"
  shows "bw_coordinator w' = bw_coordinator w \<and> (\<exists>evs. bw_log w' = evs @ bw_log w
    \<and> (StopProject p \<in> fst ` set evs \<longrightarrow> service_back env cfg p (bw_log w) evs))"
proof -
  let ?set = "SetMaintenance (key_of p) (meta_UID (prj_Meta p)) (ps_NodeRef (prj_Status p)) (ps_AssignmentGeneration (prj_Status p)) ''BackingUp''"
  let ?clear = "ClearMaintenance (key_of p) (meta_UID (prj_Meta p)) (ps_NodeRef (prj_Status p)) (ps_AssignmentGeneration (prj_Status p))"
  let ?e = "be_do env (bw_log w) ?set"
  define w1 where "w1 = w\<lparr>bw_log := (?set, ?e) # bw_log w\<rparr>"
  show ?thesis
  proof (cases ?e)
    case (Some e)
    with assms show ?thesis
      by (auto simp: run_maintained_def Let_def andThen_def backup_call_of_def intro!: exI [of _ "[(?set, ?e)]"])
  next
    case None
    obtain r2 w2 where run: "run_stopped env cfg p backupID w1 = (r2, w2)" by (cases "run_stopped env cfg p backupID w1")
    define w3 where "w3 = snd (restoreService env cfg p (case r2 of Inl e \<Rightarrow> Some e | Inr _ \<Rightarrow> None) w2)"
    have w': "w' = w3\<lparr>bw_log := (?clear, be_do env (bw_log w3) ?clear) # bw_log w3\<rparr>"
    proof -
      have "run_maintained env cfg p backupID w = finally_do (with_restart env cfg p (run_stopped env cfg p backupID)) (backup_call_of env ?clear) w1"
        using None by (simp add: run_maintained_def Let_def andThen_def backup_call_of_def [of _ ?set] w1_def)
      also have "\<dots> = (r2, snd (backup_call_of env ?clear w3))"
        using run by (simp add: finally_do_def with_restart_def w3_def split: prod.split)
      finally show ?thesis using assms by (simp add: backup_call_of_def Let_def)
    qed
    from makesD [OF logs_run_stopped [of p env cfg backupID], of w1] run obtain evs where evs: "bw_log w2 = evs @ bw_log w1"
      "fst ` set evs \<subseteq> work_calls p" "bw_coordinator w2 = bw_coordinator w" by (auto simp: w1_def)
    from restoreService_log [of env cfg p "case r2 of Inl e \<Rightarrow> Some e | Inr _ \<Rightarrow> None" w2] obtain again x where
      again: "bw_log w3 = again @ (ReadOwner (meta_Name (prj_Meta p)), x) # bw_log w2" "fst ` set again \<subseteq> {StartProject p, RefreshRoutes p}"
      "StartProject p \<in> fst ` set again \<longleftrightarrow> restarts env cfg p (bw_log w2)" "bw_coordinator w3 = bw_coordinator w2"
      by (auto simp: w3_def)
    let ?all = "((?clear, be_do env (bw_log w3) ?clear) # again) @ (ReadOwner (meta_Name (prj_Meta p)), x) # evs @ [(?set, ?e)]"
    have "service_back env cfg p (bw_log w) ?all"
      unfolding service_back_def
    proof (intro exI conjI)
      show "?all = ((?clear, be_do env (bw_log w3) ?clear) # again) @ (ReadOwner (meta_Name (prj_Meta p)), x) # evs @ [(?set, ?e)]" ..
      show "StopProject p \<notin> fst ` set ((?clear, be_do env (bw_log w3) ?clear) # again)" using again(2) by auto
      show "StartProject p \<notin> fst ` set (evs @ [(?set, ?e)])" using evs(2) subsetD [OF evs(2), of "StartProject p"] by (auto simp: work_calls_def)
      show "(StartProject p \<in> fst ` set ((?clear, be_do env (bw_log w3) ?clear) # again)) = restarts env cfg p ((evs @ [(?set, ?e)]) @ bw_log w)"
        using again(3) evs(1) by (auto simp: w1_def)
    qed simp
    then show ?thesis using w' again(1,4) evs(1,3) by (intro conjI exI [of _ ?all]) (simp_all add: w1_def)
  qed
qed

text \<open>
  C16: The service comes back after every backup. Once a backup run has stopped a Project's containers, whatever fails
  afterwards, it asks the server who owns the Project, and starts the containers again exactly when the answer is this
  Node under the assignment the run began with, or no answer; it does so after the last stop, clears the maintenance
  mark, and gives up its claim, so the claims are what they were.
\<close>

theorem backup_brings_service_back:
  assumes "backup_Run env cfg p w = (r, w')" "bw_log w' = evs @ bw_log w" "StopProject p \<in> fst ` set evs"
    and "coordinator_ok (bw_coordinator w)"
  shows "service_back env cfg p (bw_log w) evs \<and> co_claims (bw_coordinator w') = co_claims (bw_coordinator w)"
proof -
  have "managedVolumes (prj_Spec p) \<noteq> []" using assms(1-3) by (auto simp: backup_Run_def)
  moreover have "TryClaim (bw_coordinator w) (key_of p) OpBackup \<noteq> None"
    using assms(1-3) calculation by (cases "TryClaim (bw_coordinator w) (key_of p) OpBackup") (auto simp: backup_Run_def)
  ultimately obtain t c w1 where claim: "TryClaim (bw_coordinator w) (key_of p) OpBackup = Some (t, c)"
    and run: "run_claimed env cfg p (w\<lparr>bw_coordinator := c\<rparr>) = (r, w1)" and w': "w' = w1\<lparr>bw_coordinator := fire_release t (bw_coordinator w1)\<rparr>"
    using assms(1) by (auto simp: backup_Run_def split: prod.splits)
  have disk: "logs {} (checkDiskSpace env cfg)" by (auto simp: checkDiskSpace_def intro!: logs_intros)
  have log1: "bw_log w1 = evs @ bw_log w" using assms(2) w' by simp
  obtain ok w2 where d: "checkDiskSpace env cfg (w\<lparr>bw_coordinator := c\<rparr>) = (ok, w2)" by fastforce
  with makesD [OF disk, of "w\<lparr>bw_coordinator := c\<rparr>"] have w2: "bw_log w2 = bw_log w" "bw_coordinator w2 = c" by auto
  have "evs \<noteq> []" using assms(3) by auto
  then obtain backupID where id: "NewBackupID (be_now env (bw_log w2)) (be_random env) = Inr backupID"
    and go: "with_prune env p backupID (run_maintained env cfg p backupID) w2 = (r, w1)"
    using run d log1 w2(1) by (auto simp: run_claimed_def andThen_def op_lift_def split: if_splits sum.splits)
  obtain r3 w3 where m: "run_maintained env cfg p backupID w2 = (r3, w3)" by (cases "run_maintained env cfg p backupID w2")
  from run_maintained_log [OF m] w2 obtain evs3 where evs3: "bw_log w3 = evs3 @ bw_log w" "bw_coordinator w3 = c"
    "StopProject p \<in> fst ` set evs3 \<Longrightarrow> service_back env cfg p (bw_log w) evs3" by auto
  have "\<exists>new. bw_log w1 = new @ bw_log w3 \<and> fst ` set new \<subseteq> storage_calls \<and> bw_coordinator w1 = bw_coordinator w3"
    using go m makesD [OF makes_pruneGenerations, of env p backupID w3]
    by (cases r3) (auto simp: with_prune_def)
  then obtain new where new: "bw_log w1 = new @ bw_log w3" "fst ` set new \<subseteq> storage_calls" "bw_coordinator w1 = c"
    using evs3(2) by auto
  have evs: "evs = new @ evs3" using new(1) evs3(1) log1 by simp
  have "StopProject p \<notin> fst ` set new" using new(2) storage_simps(7) by blast
  with assms(3) evs have "StopProject p \<in> fst ` set evs3" by auto
  from service_back_more [OF evs3(3) [OF this] new(2)] evs have "service_back env cfg p (bw_log w) evs" by simp
  moreover have "co_claims (fire_release t c) = co_claims (bw_coordinator w)"
    using coordinator.claim_Some [OF assms(4) claim] coordinator.claim_None [OF assms(4), of "key_of p" OpBackup] claim
      coordinator.rel [of c t] by (auto simp: fun_upd_idem)
  ultimately show ?thesis using w' new(3) by simp
qed

subsection \<open>What the retention may remove\<close>

definition generation_in :: "string \<Rightarrow> (string \<times> string) list \<Rightarrow> string \<Rightarrow> generationObjects" where
  "generation_in pre objs i =
     \<lparr>go_id = i, go_keys = filter (\<lambda>k. generation_id pre k = Some i) (filter (prefix pre) (remdups (map fst objs)))\<rparr>"

definition own_generation :: "manifest_json \<Rightarrow> string \<Rightarrow> string \<Rightarrow> (string \<times> string) list \<Rightarrow> string \<Rightarrow> bool" where
  "own_generation mj uid pre objs i \<longleftrightarrow> (\<exists>k body m. manifest_key (generation_in pre objs i) = Some k \<and> map_of objs k = Some body
     \<and> UnmarshalManifest mj body = Inr m \<and> mf_ProjectUID m = uid)"

lemma delete_keys_only:
  "map_of (bw_objects (delete_keys env ks w)) k \<noteq> map_of (bw_objects w) k \<Longrightarrow> k \<in> set ks"
proof (induction ks arbitrary: w)
  case (Cons x ks)
  let ?e = "be_do env (bw_log w) (DeleteObject x)"
  show ?case
  proof (cases "?e")
    case None
    let ?w = "w\<lparr>bw_log := (DeleteObject x, None) # bw_log w, bw_objects := AList.delete x (bw_objects w)\<rparr>"
    have gone: "delete_keys env (x # ks) w = delete_keys env ks ?w"
      using None by (simp add: store_Delete_def andThen_def backup_call_of_def Let_def)
    show ?thesis
    proof (cases "k = x")
      case False
      then have "map_of (bw_objects ?w) k = map_of (bw_objects w) k" by (simp add: delete_conv)
      with Cons.prems gone have "map_of (bw_objects (delete_keys env ks ?w)) k \<noteq> map_of (bw_objects ?w) k" by (simp only: not_False_eq_True)
      then show ?thesis using Cons.IH [of ?w] by simp
    qed simp
  next
    case (Some e)
    with Cons.prems show ?thesis by (simp add: store_Delete_def andThen_def backup_call_of_def Let_def)
  qed
qed simp

lemma delete_generations_only:
  "map_of (bw_objects (fold (deleteGeneration env) gs w)) k \<noteq> map_of (bw_objects w) k \<Longrightarrow> \<exists>g\<in>set gs. k \<in> set (go_keys g)"
proof (induction gs arbitrary: w)
  case (Cons g gs)
  show ?case
  proof (cases "map_of (bw_objects (deleteGeneration env g w)) k = map_of (bw_objects w) k")
    case True
    then show ?thesis using Cons.IH [of "deleteGeneration env g w"] Cons.prems by auto
  next
    case False
    then have "k \<in> set (go_keys g)" unfolding deleteGeneration_def using delete_keys_only by fastforce
    then show ?thesis by simp
  qed
qed simp

lemma manifestUID_reads:
  assumes "manifestUID env key w = (u, w')"
  shows "bw_objects w' = bw_objects w \<and> (u \<noteq> '''' \<longrightarrow> (\<exists>body m. map_of (bw_objects w) key = Some body
    \<and> UnmarshalManifest (be_manifest env) body = Inr m \<and> mf_ProjectUID m = u))"
  using assms by (auto simp: manifestUID_def store_Get_def andThen_def backup_call_of_def Let_def split: option.splits sum.splits)

lemma sort_out_sorts:
  assumes "sort_out env uid gs w = (ours, ab, w')" "uid \<noteq> ''''"
  shows "bw_objects w' = bw_objects w \<and> set ab \<subseteq> {g \<in> set gs. manifest_key g = None} \<and> set ours \<subseteq> set gs
    \<and> (\<forall>g\<in>set ours. \<exists>k body m. manifest_key g = Some k \<and> map_of (bw_objects w) k = Some body
        \<and> UnmarshalManifest (be_manifest env) body = Inr m \<and> mf_ProjectUID m = uid)
    \<and> (distinct (map go_id gs) \<longrightarrow> distinct (map go_id ours))"
  using assms(1)
proof (induction gs arbitrary: w ours ab)
  case (Cons g gs)
  show ?case
  proof (cases "manifest_key g")
    case None
    with Cons.prems obtain ab1 where s: "sort_out env uid gs w = (ours, ab1, w')" "ab = g # ab1" by (auto split: prod.splits)
    with Cons.IH [OF s(1)] None show ?thesis by auto
  next
    case (Some k)
    obtain u w1 where u: "manifestUID env k w = (u, w1)" by fastforce
    with Cons.prems Some obtain o1 where s: "sort_out env uid gs w1 = (o1, ab, w')" "ours = (if u = uid then g # o1 else o1)"
      by (auto split: prod.splits)
    note m = manifestUID_reads [OF u]
    note ih = Cons.IH [OF s(1)]
    have "distinct (map go_id (g # gs)) \<longrightarrow> distinct (map go_id ours)" using ih s(2) by (auto simp: image_iff)
    moreover have "\<forall>g\<in>set ours. \<exists>k body m. manifest_key g = Some k \<and> map_of (bw_objects w) k = Some body
        \<and> UnmarshalManifest (be_manifest env) body = Inr m \<and> mf_ProjectUID m = uid"
      using ih m s(2) Some assms(2) by (cases "u = uid") auto
    moreover have "bw_objects w' = bw_objects w \<and> set ab \<subseteq> {h \<in> set (g # gs). manifest_key h = None} \<and> set ours \<subseteq> set (g # gs)"
      using ih m s(2) by auto
    ultimately show ?thesis by blast
  qed
qed simp

lemma newest_first:
  fixes gs :: "generationObjects list"
  assumes "distinct (map go_id gs)" "xs = rev (sort_key go_id gs)" "n < length xs"
  shows "card (go_id ` set (take (Suc n) xs)) = Suc n" "g \<in> set (take (Suc n) xs) \<Longrightarrow> go_id (xs ! n) \<le> go_id g"
    "h \<in> set (drop (Suc n) xs) \<Longrightarrow> g \<in> set (take (Suc n) xs) \<Longrightarrow> go_id h < go_id g"
proof -
  have d: "distinct (map go_id xs)" using assms(1,2) by (simp add: rev_map distinct_map)
  then have "distinct (map go_id (take (Suc n) xs))" by (metis distinct_take take_map)
  then show "card (go_id ` set (take (Suc n) xs)) = Suc n"
    using assms(3) distinct_card [of "map go_id (take (Suc n) xs)"] by simp
  have s: "sorted_wrt (\<lambda>a b. go_id b \<le> go_id a) xs"
    using sorted_sort_key [of go_id gs] assms(2) by (simp add: sorted_wrt_rev sorted_map)
  have cutting: "xs = take (Suc n) xs @ drop (Suc n) xs" by simp
  show "go_id h < go_id g" if "h \<in> set (drop (Suc n) xs)" "g \<in> set (take (Suc n) xs)"
  proof -
    have "go_id h \<le> go_id g" using s that cutting by (metis sorted_wrt_append)
    moreover have "go_id h \<noteq> go_id g" using d that cutting by (metis (no_types, lifting) IntI distinct_append empty_iff image_eqI map_append set_map)
    ultimately show ?thesis by simp
  qed
  show "go_id (xs ! n) \<le> go_id g" if "g \<in> set (take (Suc n) xs)"
  proof -
    from that obtain i where i: "i \<le> n" "g = xs ! i" using assms(3) by (auto simp: in_set_conv_nth less_Suc_eq_le)
    show ?thesis
    proof (cases "i = n")
      case False
      with i have "i < n" by simp
      with sorted_wrt_nth_less [OF s, of i n] i assms(3) show ?thesis by simp
    qed (simp add: i)
  qed
qed

lemma by_id_listing:
  "by_id pre (filter (prefix pre) (remdups (map fst objs)))
     = map (generation_in pre objs) (remdups (List.map_filter (generation_id pre) (filter (prefix pre) (remdups (map fst objs)))))"
  by (simp add: by_id_def generation_in_def)

lemma prune_sorted_removes:
  assumes "map_of (bw_objects (prune_sorted env p backupID xs ab w)) k \<noteq> map_of (bw_objects w) k"
    and xs: "xs = rev (sort_key go_id ours)" "distinct (map go_id ours)"
  shows "\<exists>g newer. k \<in> set (go_keys g) \<and> card newer = RetainGenerations \<and> newer \<subseteq> go_id ` set ours \<and> (\<forall>j\<in>newer. go_id g < j)
    \<and> (g \<in> set ours \<and> go_id g \<notin> {backupID, CommittedBackupID (ps_Recovery (prj_Status p))} \<or> g \<in> set ab)"
proof -
  let ?newer = "go_id ` set (take RetainGenerations xs)"
  let ?old = "filter (\<lambda>g. go_id g \<notin> {backupID, CommittedBackupID (ps_Recovery (prj_Status p))}) (drop RetainGenerations xs)"
  let ?left = "filter (\<lambda>g. go_id g < go_id (xs ! (RetainGenerations - 1))) ab"
  have long: "\<not> length xs < RetainGenerations" using assms(1) by (auto simp only: prune_sorted_def if_True)
  then have len: "RetainGenerations - 1 < length xs" "Suc (RetainGenerations - 1) = RetainGenerations"
    by (simp_all add: RetainGenerations_def)
  have run: "prune_sorted env p backupID xs ab w = fold (deleteGeneration env) ?left (fold (deleteGeneration env) ?old w)"
    using long by (simp only: prune_sorted_def Let_def if_False)
  note newest = newest_first [OF xs(2,1) len(1), unfolded len(2)]
  have sub: "?newer \<subseteq> go_id ` set ours" using xs(1) by (auto dest: in_set_takeD)
  from assms(1) run consider "map_of (bw_objects (fold (deleteGeneration env) ?old w)) k \<noteq> map_of (bw_objects w) k"
    | "map_of (bw_objects (fold (deleteGeneration env) ?left (fold (deleteGeneration env) ?old w))) k
        \<noteq> map_of (bw_objects (fold (deleteGeneration env) ?old w)) k" by force
  then show ?thesis
  proof cases
    case 1
    from delete_generations_only [OF 1] obtain g where g: "g \<in> set ?old" "k \<in> set (go_keys g)" by blast
    then have "g \<in> set ours" using xs(1) by (auto dest: in_set_dropD)
    moreover have "\<forall>j\<in>?newer. go_id g < j" using newest(3) g(1) by auto
    ultimately show ?thesis using g newest(1) sub by (intro exI [of _ g] exI [of _ ?newer]) auto
  next
    case 2
    from delete_generations_only [OF 2] obtain g where g: "g \<in> set ?left" "k \<in> set (go_keys g)" by blast
    moreover have "\<forall>j\<in>?newer. go_id g < j" using newest(2) g(1) by fastforce
    ultimately show ?thesis using newest(1) sub by (intro exI [of _ g] exI [of _ ?newer]) auto
  qed
qed

lemma pruneGenerations_removes:
  assumes "ProjectPrefix (rsk_Namespace (key_of p)) (rsk_Name (key_of p)) = Inr pre"
    and "map_of (bw_objects (pruneGenerations env p backupID w)) k \<noteq> map_of (bw_objects w) k"
  shows "\<exists>i newer. k \<in> set (go_keys (generation_in (pre @ ''/snapshots/'') (bw_objects w) i))
    \<and> card newer = 7 \<and> (\<forall>j\<in>newer. i < j \<and> own_generation (be_manifest env) (meta_UID (prj_Meta p)) (pre @ ''/snapshots/'') (bw_objects w) j)
    \<and> (own_generation (be_manifest env) (meta_UID (prj_Meta p)) (pre @ ''/snapshots/'') (bw_objects w) i
         \<and> i \<noteq> backupID \<and> i \<noteq> CommittedBackupID (ps_Recovery (prj_Status p))
       \<or> manifest_key (generation_in (pre @ ''/snapshots/'') (bw_objects w) i) = None)"
proof -
  let ?b = "pre @ ''/snapshots/''" and ?uid = "meta_UID (prj_Meta p)"
  let ?keys = "filter (prefix ?b) (remdups (map fst (bw_objects w)))"
  define w1 where "w1 = w\<lparr>bw_log := (ListObjects ?b, None) # bw_log w\<rparr>"
  have uid: "?uid \<noteq> ''''" and listed: "be_do env (bw_log w) (ListObjects ?b) = None"
    using assms by (auto simp: pruneGenerations_def store_List_def andThen_def backup_call_of_def Let_def split: if_splits option.splits)
  obtain ours ab w2 where s: "sort_out env ?uid (by_id ?b ?keys) w1 = (ours, ab, w2)" by (cases "sort_out env ?uid (by_id ?b ?keys) w1")
  have run: "pruneGenerations env p backupID w = prune_sorted env p backupID (rev (sort_key go_id ours)) ab w2"
    using uid listed s assms(1)
    by (simp add: pruneGenerations_def store_List_def andThen_def backup_call_of_def Let_def w1_def del: sort_out.simps)
  let ?gs = "map (generation_in ?b (bw_objects w)) (remdups (List.map_filter (generation_id ?b) ?keys))"
  note sorted = sort_out_sorts [OF s uid, unfolded by_id_listing]
  have d: "distinct (map go_id ours)" using sorted by (simp add: o_def generation_in_def)
  have objs: "bw_objects w2 = bw_objects w" using sorted by (simp add: w1_def)
  have own: "own_generation (be_manifest env) ?uid ?b (bw_objects w) (go_id g)" if "g \<in> set ours" for g
  proof -
    from that sorted obtain i where "g = generation_in ?b (bw_objects w) i" by auto
    with that sorted show ?thesis by (auto simp: own_generation_def generation_in_def w1_def)
  qed
  from prune_sorted_removes [OF _ refl d, of env p backupID ab w2 k] assms(2) run objs obtain g newer where
    g: "k \<in> set (go_keys g)" "card newer = RetainGenerations" "newer \<subseteq> go_id ` set ours" "\<forall>j\<in>newer. go_id g < j"
    "g \<in> set ours \<and> go_id g \<notin> {backupID, CommittedBackupID (ps_Recovery (prj_Status p))} \<or> g \<in> set ab" by auto
  have "g \<in> set ?gs" using g(5) sorted by blast
  then have gi: "generation_in ?b (bw_objects w) (go_id g) = g" by (auto simp: generation_in_def)
  show ?thesis
  proof (intro exI [of _ "go_id g"] exI [of _ newer] conjI)
    show "k \<in> set (go_keys (generation_in ?b (bw_objects w) (go_id g)))" using g(1) gi by simp
    show "card newer = 7" using g(2) by (simp add: RetainGenerations_def)
    show "\<forall>j\<in>newer. go_id g < j \<and> own_generation (be_manifest env) ?uid ?b (bw_objects w) j" using g(3,4) own by blast
    show "own_generation (be_manifest env) ?uid ?b (bw_objects w) (go_id g) \<and> go_id g \<noteq> backupID
         \<and> go_id g \<noteq> CommittedBackupID (ps_Recovery (prj_Status p))
       \<or> manifest_key (generation_in ?b (bw_objects w) (go_id g)) = None"
      using g(5) own sorted gi by auto
  qed
qed

text \<open>
  C17: Retention keeps the restore points. An object the pruning of old backups removes lies in a generation of this
  Project's prefix older than seven generations whose manifest names this Project's UID; and that generation either names
  this UID itself and is neither the one just taken nor the committed one, or holds no manifest. In particular nothing
  whose manifest names another lifetime of the name, or cannot be read, is removed.
\<close>

theorem retention_keeps_restore_points:
  assumes "ProjectPrefix (rsk_Namespace (key_of p)) (rsk_Name (key_of p)) = Inr pre"
    and "map_of (bw_objects (pruneGenerations env p backupID w)) k \<noteq> map_of (bw_objects w) k"
  shows "\<exists>i newer. k \<in> set (go_keys (generation_in (pre @ ''/snapshots/'') (bw_objects w) i))
    \<and> card newer = 7 \<and> (\<forall>j\<in>newer. i < j \<and> own_generation (be_manifest env) (meta_UID (prj_Meta p)) (pre @ ''/snapshots/'') (bw_objects w) j)
    \<and> (own_generation (be_manifest env) (meta_UID (prj_Meta p)) (pre @ ''/snapshots/'') (bw_objects w) i
         \<and> i \<noteq> backupID \<and> i \<noteq> CommittedBackupID (ps_Recovery (prj_Status p))
       \<or> manifest_key (generation_in (pre @ ''/snapshots/'') (bw_objects w) i) = None)"
  using pruneGenerations_removes [OF assms] .

subsection \<open>The calls of a whole run\<close>

definition run_calls :: "Project \<Rightarrow> backup_call set" where
  "run_calls p = work_calls p \<union> {StartProject p, RefreshRoutes p, ReadOwner (meta_Name (prj_Meta p))} \<union> {c. \<exists>k u n g r. c = SetMaintenance k u n g r \<or> c = ClearMaintenance k u n g}"

lemma logs_run_claimed: "logs (run_calls p) (run_claimed env cfg p)"
proof -
  have S: "storage_calls \<subseteq> run_calls p" "work_calls p \<subseteq> run_calls p" by (auto simp: run_calls_def work_calls_def)
  have restart: "logs (run_calls p) (with_restart env cfg p (run_stopped env cfg p i))" for i
  proof -
    have "makes (run_calls p) (\<lambda>w. snd (restoreService env cfg p (case fst (run_stopped env cfg p i w) of Inl e \<Rightarrow> Some e | Inr _ \<Rightarrow> None)
        (snd (run_stopped env cfg p i w))))"
    proof (rule makes_comp [OF makes_mono [OF logs_run_stopped S(2)]])
      show "logs (run_calls p) (restoreService env cfg p err)" for err
      proof (unfold makes_def, intro allI conjI)
        fix w
        from restoreService_log [of env cfg p err w] obtain evs x where
          r: "bw_log (snd (restoreService env cfg p err w)) = evs @ (ReadOwner (meta_Name (prj_Meta p)), x) # bw_log w"
          "fst ` set evs \<subseteq> {StartProject p, RefreshRoutes p}" "bw_coordinator (snd (restoreService env cfg p err w)) = bw_coordinator w" by blast
        then show "\<exists>evs. bw_log (snd (restoreService env cfg p err w)) = evs @ bw_log w \<and> fst ` set evs \<subseteq> run_calls p"
          by (intro exI [of _ "evs @ [(ReadOwner (meta_Name (prj_Meta p)), x)]"]) (auto simp: run_calls_def)
        show "bw_coordinator (snd (restoreService env cfg p err w)) = bw_coordinator w" by (rule r(3))
      qed
    qed
    then show ?thesis by (simp add: with_restart_def split_beta)
  qed
  have maintained: "logs (run_calls p) (run_maintained env cfg p i)" for i
    unfolding run_maintained_def Let_def by (intro logs_intros restart) (auto simp: run_calls_def)
  have pruned: "logs (run_calls p) (with_prune env p i (run_maintained env cfg p i))" for i
  proof -
    have "makes (run_calls p) (\<lambda>w. (\<lambda>w'. case fst (run_maintained env cfg p i w) of Inl _ \<Rightarrow> w' | Inr _ \<Rightarrow> pruneGenerations env p i w')
        (snd (run_maintained env cfg p i w)))"
    proof (rule makes_comp [OF maintained])
      show "makes (run_calls p) (\<lambda>w'. case fst (run_maintained env cfg p i w) of Inl _ \<Rightarrow> w' | Inr _ \<Rightarrow> pruneGenerations env p i w')" for w
        by (cases "fst (run_maintained env cfg p i w)") (simp_all add: makes_id makes_mono [OF makes_pruneGenerations S(1)])
    qed
    moreover have "snd (with_prune env p i (run_maintained env cfg p i) w)
        = (case fst (run_maintained env cfg p i w) of Inl _ \<Rightarrow> snd (run_maintained env cfg p i w) | Inr _ \<Rightarrow> pruneGenerations env p i (snd (run_maintained env cfg p i w)))" for w
      by (simp add: with_prune_def split: prod.split sum.split)
    ultimately show ?thesis by (simp add: makes_def)
  qed
  have rest: "logs (run_calls p) (andThen (checkDiskSpace env cfg) (\<lambda>e. e) (\<lambda>_ w1.
        andThen (op_lift (NewBackupID (be_now env (bw_log w1)) (be_random env))) (\<lambda>e. e) (\<lambda>i. with_prune env p i (run_maintained env cfg p i)) w1))"
  proof (rule logs_andThen)
    show "logs (run_calls p) (checkDiskSpace env cfg)" by (auto simp: checkDiskSpace_def intro!: logs_intros)
    show "logs (run_calls p) (\<lambda>w1. andThen (op_lift (NewBackupID (be_now env (bw_log w1)) (be_random env))) (\<lambda>e. e)
        (\<lambda>i. with_prune env p i (run_maintained env cfg p i)) w1)"
      using pruned by (auto simp: makes_def andThen_def op_lift_def split: sum.split)
  qed
  then show ?thesis by (cases "be_hasStore env") (simp_all add: run_claimed_def makes_id)
qed

lemma backup_Run_stops_own:
  assumes "backup_Run env cfg p w = (r, w')" "StopProject q \<in> fst ` set (bw_log w')" "StopProject q \<notin> fst ` set (bw_log w)"
  shows "q = p"
proof -
  from assms obtain c where "bw_log w' = bw_log (snd (run_claimed env cfg p (w\<lparr>bw_coordinator := c\<rparr>)))"
    by (auto simp: backup_Run_def split: if_splits option.splits prod.splits) (metis snd_conv)
  moreover from makesD [OF logs_run_claimed, of env cfg p "w\<lparr>bw_coordinator := c\<rparr>"] obtain evs where
    "bw_log (snd (run_claimed env cfg p (w\<lparr>bw_coordinator := c\<rparr>))) = evs @ bw_log w" and evs: "fst ` set evs \<subseteq> run_calls p" by auto
  ultimately have "StopProject q \<in> fst ` set evs" using assms(2,3) by (simp add: image_Un)
  with evs have "StopProject q \<in> run_calls p" by blast
  then show ?thesis by (auto simp: run_calls_def work_calls_def)
qed

subsection \<open>A run whose upload fails, and a prefix with ten generations\<close>

definition demo_backup_project :: Project where
  "demo_backup_project = demo_volume_project\<lparr>prj_Status := InitialProjectStatus\<lparr>ps_Phase := ProjectPhaseRunning,
     ps_NodeRef := ''node-a'', ps_AssignmentGeneration := 2\<rparr>\<rparr>"

definition demo_backup_env :: "manifest_json \<Rightarrow> bool \<Rightarrow> backup_env" where
  "demo_backup_env mj down = \<lparr>be_do = (\<lambda>_ c. case c of PutObject k \<Rightarrow> (if down then Some (ErrText ''down'') else None) | _ \<Rightarrow> None),
     be_stored = (\<lambda>_. None), be_GetProject = (\<lambda>_ _. Inr demo_backup_project), be_ctxErr = (\<lambda>_. None), be_now = (\<lambda>_. 0),
     be_random = Inr ''0a'', be_freeBytes = Inr 100, be_pack = (\<lambda>_. ''tgz''), be_sha256 = (\<lambda>_. ''sum''), be_manifest = mj,
     be_hasStore = True, be_hasRoutes = False\<rparr>"

definition demo_backup_cfg :: backup_Config where
  "demo_backup_cfg = NewRunner \<lparr>bcf_DataRoot = ''/d'', bcf_StagingDir = '''', bcf_NodeName = ''node-a'', bcf_CaraVersion = ''v1'', bcf_MinFreeBytes = 0\<rparr>"

definition demo_backup_world :: "(string \<times> string) list \<Rightarrow> backup_world" where
  "demo_backup_world objs = \<lparr>bw_host = demo_host [], bw_objects = objs, bw_coordinator = NewCoordinator, bw_log = []\<rparr>"

text \<open>A manifest that is the UID it names.\<close>

definition demo_uid_json :: manifest_json where
  "demo_uid_json = \<lparr>mfj_Marshal = (\<lambda>m. Inr (mf_ProjectUID m)),
     mfj_Unmarshal = (\<lambda>b. Inr ((BuildManifest '''' '''' '''' '''' '''' 0 0 [])\<lparr>mf_ProjectUID := b\<rparr>))\<rparr>"

definition demo_failed_backup :: "(agent_error + unit) \<times> backup_world" where
  "demo_failed_backup = backup_Run (demo_backup_env demo_uid_json True) demo_backup_cfg demo_backup_project (demo_backup_world [])"

definition demo_snapshot :: "string \<Rightarrow> string" where
  "demo_snapshot name = ''cara/v1/projects/n/p/snapshots/'' @ name"

definition demo_bucket :: "(string \<times> string) list" where
  "demo_bucket = (demo_snapshot ''0/v.tar.gz'', ''tgz'') # (demo_snapshot ''1/manifest.json'', ''u0'')
     # map (\<lambda>c. (demo_snapshot (c # ''/manifest.json''), ''u1'')) ''23456789''"

definition demo_pruned :: backup_world where
  "demo_pruned = pruneGenerations (demo_backup_env demo_uid_json False) demo_backup_project ''9'' (demo_backup_world demo_bucket)"

lemma demo_failed_backup_runs:
  "fst demo_failed_backup = Inl (ErrWrap (''backup: volume '' @ go_quote ''v'') (ErrWrap ''backup: upload'' (ErrText ''down'')))"
  by code_simp

lemma demo_failed_backup_log:
  "list_ex (\<lambda>(c, e). case c of StopProject q \<Rightarrow> meta_UID (prj_Meta q) = ''u1'' | _ \<Rightarrow> False) (bw_log (snd demo_failed_backup))"
  by code_simp

lemma demo_prune_runs:
  "map fst (bw_objects demo_pruned) = map demo_snapshot (''1/manifest.json'' # map (\<lambda>c. c # ''/manifest.json'') ''3456789'')"
  by code_simp

lemma demo_claims_ok: "coordinator_ok (bw_coordinator (demo_backup_world objs))"
  by (simp add: demo_backup_world_def coordinator_ok_New)

text \<open>The upload failed; the containers were started again after the stop.\<close>

theorem backup_brings_service_back_witness:
  "fst demo_failed_backup \<noteq> Inr () \<and> StartProject demo_backup_project \<in> fst ` set (bw_log (snd demo_failed_backup))
   \<and> co_claims (bw_coordinator (snd demo_failed_backup)) = Map.empty"
proof -
  let ?env = "demo_backup_env demo_uid_json True"
  have run: "backup_Run ?env demo_backup_cfg demo_backup_project (demo_backup_world []) = (fst demo_failed_backup, snd demo_failed_backup)"
    by (simp add: demo_failed_backup_def)
  have empty: "bw_log (demo_backup_world []) = []" by (simp add: demo_backup_world_def)
  from demo_failed_backup_log obtain q e where q: "(StopProject q, e) \<in> set (bw_log (snd demo_failed_backup))"
    by (auto simp: list_ex_iff split: backup_call.splits)
  then have "q = demo_backup_project"
    using backup_Run_stops_own [OF run, of q] empty by force
  with q have stop: "StopProject demo_backup_project \<in> fst ` set (bw_log (snd demo_failed_backup))" by force
  have "service_back ?env demo_backup_cfg demo_backup_project (bw_log (demo_backup_world [])) (bw_log (snd demo_failed_backup))
      \<and> co_claims (bw_coordinator (snd demo_failed_backup)) = co_claims (bw_coordinator (demo_backup_world []))"
    by (rule backup_brings_service_back [OF run _ stop demo_claims_ok]) (simp add: empty)
  moreover have "restarts ?env demo_backup_cfg demo_backup_project past" for past
    by (simp add: restarts_def Resolve_def demo_backup_env_def demo_backup_project_def demo_backup_cfg_def NewRunner_def Let_def InitialProjectStatus_def)
  ultimately show ?thesis using demo_failed_backup_runs
    by (auto simp: service_back_def demo_backup_world_def NewCoordinator_def)
qed

text \<open>Eight own generations: the oldest and the upload without a manifest go, the backup of another lifetime stays.\<close>

theorem retention_keeps_restore_points_witness:
  "map_of demo_bucket (demo_snapshot ''2/manifest.json'') \<noteq> None \<and> map_of (bw_objects demo_pruned) (demo_snapshot ''2/manifest.json'') = None
   \<and> map_of (bw_objects demo_pruned) (demo_snapshot ''1/manifest.json'') \<noteq> None
   \<and> (\<exists>i newer. demo_snapshot ''2/manifest.json'' \<in> set (go_keys (generation_in (demo_snapshot '''') demo_bucket i))
      \<and> card newer = 7 \<and> (\<forall>j\<in>newer. i < j \<and> own_generation demo_uid_json ''u1'' (demo_snapshot '''') demo_bucket j))"
proof -
  let ?k = "demo_snapshot ''2/manifest.json''" and ?w = "demo_backup_world demo_bucket"
  have pre: "ProjectPrefix (rsk_Namespace (key_of demo_backup_project)) (rsk_Name (key_of demo_backup_project)) = Inr ''cara/v1/projects/n/p''"
    and there: "map_of demo_bucket ?k = Some ''u1''" and uid: "meta_UID (prj_Meta demo_backup_project) = ''u1''" by code_simp+
  have gone: "map_of (bw_objects demo_pruned) ?k = None" and stays: "map_of (bw_objects demo_pruned) (demo_snapshot ''1/manifest.json'') \<noteq> None"
    using demo_prune_runs by (auto simp: map_of_eq_None_iff demo_snapshot_def simp flip: set_map)
  have base: "''cara/v1/projects/n/p'' @ ''/snapshots/'' = demo_snapshot ''''" by (simp add: demo_snapshot_def)
  have objs: "bw_objects ?w = demo_bucket" "be_manifest (demo_backup_env demo_uid_json False) = demo_uid_json"
    by (simp_all add: demo_backup_world_def demo_backup_env_def)
  have "map_of (bw_objects (pruneGenerations (demo_backup_env demo_uid_json False) demo_backup_project ''9'' ?w)) ?k \<noteq> map_of (bw_objects ?w) ?k"
    using gone there by (simp add: demo_pruned_def [symmetric] objs)
  from retention_keeps_restore_points [OF pre this, unfolded base objs uid] gone there stays show ?thesis by (auto simp del: split_paired_Ex)
qed

end
