(* ===== verification/Backup_Restore.thy ===== *)
theory Backup_Restore
  imports Backup_Properties
begin

text \<open>
  A backup and the restore that reads it, composed: what a run that succeeded left in the object store is
  enough to put every volume back as it was, after the pruning of old generations too.
\<close>

subsection \<open>The name of a generation\<close>

lemma FormatInt_no_slash: "CHR ''/'' \<notin> set (FormatInt i)"
proof
  assume "CHR ''/'' \<in> set (FormatInt i)"
  then obtain d where d: "d < 10" "CHR ''/'' = digit_char d" using set_show_nat by (force simp: FormatInt_def split: if_splits)
  then have "(of_char (CHR ''/'') :: nat) = 48 + d" by simp
  then show False by simp
qed

lemma compact_time_no_slash: "CHR ''/'' \<notin> set (compact_time t)"
  by (auto simp: compact_time_def pad0_def Let_def FormatInt_no_slash split: prod.splits)

lemma NewBackupID_plain:
  assumes "NewBackupID now (Inr x) = Inr i" "CHR ''/'' \<notin> set x"
  shows "plain_seg i" "i \<noteq> ''''"
  using assms compact_time_no_slash by (auto simp: NewBackupID_def plain_seg_def append_eq_Cons_conv)

subsection \<open>What a capture leaves in the object store\<close>

lemma Archive_untouched:
  "Archive pack sha src f h = (r, h') \<Longrightarrow> \<not> P (path_elems f) \<Longrightarrow> untouched P h h'"
proof -
  have walk: "archiveDir src g = (d, g') \<Longrightarrow> untouched P g g'" for d g g'
    unfolding archiveDir_def Let_def
    by (erule os_call_cases) (auto split: sum.splits intro: untouched_files)
  show "Archive pack sha src f h = (r, h') \<Longrightarrow> \<not> P (path_elems f) \<Longrightarrow> untouched P h h'"
    unfolding Archive_def Let_def
    by (auto elim!: andThen_untouched simp: op_return_def dest: walk os_WriteFile_untouched)
qed

lemma store_Put_Inr:
  "store_Put env key body w = (Inr u, w') \<Longrightarrow> map_of (bw_objects w') = (map_of (bw_objects w))(key \<mapsto> body) \<and> bw_host w' = bw_host w"
  by (auto simp: store_Put_def Let_def update_conv' split: option.splits)

lemma backup_call_Inr:
  "backup_call_of env c w = (r, w') \<Longrightarrow> bw_objects w' = bw_objects w \<and> bw_host w' = bw_host w"
  by (auto simp: backup_call_of_def Let_def)

lemma store_Head_same: "store_Head env key w = (r, w') \<Longrightarrow> bw_objects w' = bw_objects w \<and> bw_host w' = bw_host w"
  by (auto simp: store_Head_def andThen_def backup_call_of_def Let_def split: option.splits)

lemma on_files_Inr:
  "on_files f w = (Inr a, w') \<longleftrightarrow> (\<exists>h. f (bw_host w) = (Inr a, h) \<and> w' = w\<lparr>bw_host := h\<rparr>)"
  by (auto simp: on_files_def split: prod.splits)

lemma os_ReadFile_Inr:
  "os_ReadFile f h = (Inr d, h') \<Longrightarrow> node_at h (path_elems f) = Some (FFile b) \<Longrightarrow> d = b \<and> h_files h' = h_files h"
  using os_ReadFile_files [of f h "Inr d" h'] unfolding os_ReadFile_def
  by (auto elim!: os_call_cases simp: fs_stat_def fs_get_def split: option.splits fnode.splits if_splits sum.splits)

lemma captureVolume_stored:
  assumes "captureVolume env cfg key i dir v w = (Inr e, w')" "\<not> P (path_elems (filepath_Join [dir, vol_Name v @ ''.tar.gz'']))"
    and src: "src = host_elems (bcf_DataRoot cfg) (rsk_Namespace key) (rsk_Name key) (vol_Name v)"
    and "\<And>q. prefix src q \<Longrightarrow> P q"
  shows "ve_Name e = vol_Name v \<and> ArchiveKey (rsk_Namespace key) (rsk_Name key) i (vol_Name v) = Inr (ve_ArchiveKey e)
    \<and> map_of (bw_objects w') = (map_of (bw_objects w))(ve_ArchiveKey e \<mapsto> be_pack env (volume_entries (bw_host w) src))
    \<and> untouched P (bw_host w) (bw_host w')"
proof -
  let ?f = "filepath_Join [dir, vol_Name v @ ''.tar.gz'']"
  from assms(1) obtain hp ar h1 k w2 w3 w4 body h2 sz where
    hp: "HostPath (bcf_DataRoot cfg) (rsk_Namespace key) (rsk_Name key) (vol_Name v) = Inr hp"
    and ar: "Archive (be_pack env) (be_sha256 env) hp ?f (bw_host w) = (Inr ar, h1)"
    and k: "ArchiveKey (rsk_Namespace key) (rsk_Name key) i (vol_Name v) = Inr k"
    and rd: "os_ReadFile ?f h1 = (Inr body, h2)" "w2 = w\<lparr>bw_host := h2\<rparr>"
    and put: "store_Put env k body w2 = (Inr (), w3)" "store_Head env k w3 = (Inr sz, w4)" "w' = w4"
    and e: "ve_Name e = vol_Name v" "ve_ArchiveKey e = k"
    by (auto simp: captureVolume_def uploadAndVerify_def Let_def andThen_Inr_iff on_files_Inr op_lift_def op_return_def op_fail_def
             split: if_splits)
  from HostPath_eq [THEN iffD1, OF hp] have pl: "path_elems hp = src"
    using path_elems_abs_path [OF plain_host_elems [OF hp]] src by simp
  have apart: "\<not> prefix (path_elems hp) (path_elems ?f)" using assms(2,4) pl by auto
  from os_ReadFile_Inr [OF rd(1) Archive_Inr [OF ar apart]] have body: "body = be_pack env (volume_entries (bw_host w) src)" "h_files h2 = h_files h1"
    using pl by auto
  have "untouched P (bw_host w) (bw_host w')"
    using Archive_untouched [where P = P, OF ar assms(2)] body(2) rd(2) store_Put_Inr [OF put(1)] store_Head_same [OF put(2)] put(3)
    by (simp add: untouched_def)
  then show ?thesis
    using e k body(1) store_Put_Inr [OF put(1)] store_Head_same [OF put(2)] put(3) rd(2) by simp
qed

definition entry_stored :: "backup_env \<Rightarrow> string \<Rightarrow> ResourceKey \<Rightarrow> string \<Rightarrow> host \<Rightarrow> (string \<rightharpoonup> string) \<Rightarrow> VolumeManifestEntry \<Rightarrow> bool" where
  "entry_stored env dataRoot key i h0 objs e \<longleftrightarrow>
     ArchiveKey (rsk_Namespace key) (rsk_Name key) i (ve_Name e) = Inr (ve_ArchiveKey e)
     \<and> objs (ve_ArchiveKey e) = Some (be_pack env (volume_entries h0 (host_elems dataRoot (rsk_Namespace key) (rsk_Name key) (ve_Name e))))"

lemma volume_entries_untouched:
  assumes "untouched P h0 h" "\<And>q. prefix src q \<Longrightarrow> P q"
  shows "volume_entries h src = volume_entries h0 src"
proof -
  have "node_at h (src @ q) = node_at h0 (src @ q)" for q using assms by (simp add: untouched_def)
  moreover from this have "walk_paths (h_files h) src = walk_paths (h_files h0) src" by (rule walk_paths_cong)
  ultimately have "walk_paths (h_files h) src = walk_paths (h_files h0) src" "tree_at h src = tree_at h0 src"
    by (simp_all add: tree_at_def fun_eq_iff)
  then show ?thesis by (simp only: volume_entries_def)
qed

lemma captureVolumes_stored:
  assumes "captureVolumes env cfg key i dir vs w = (Inr es, w')" "distinct (map vol_Name vs)" "CHR ''/'' \<notin> set i"
    and "\<And>v. v \<in> set vs \<Longrightarrow> \<not> P (path_elems (filepath_Join [dir, vol_Name v @ ''.tar.gz'']))"
    and P: "\<And>v q. prefix (host_elems (bcf_DataRoot cfg) (rsk_Namespace key) (rsk_Name key) v) q \<Longrightarrow> P q"
    and "untouched P h0 (bw_host w)"
  shows "map ve_Name es = map vol_Name vs \<and> (\<forall>e\<in>set es. entry_stored env (bcf_DataRoot cfg) key i h0 (map_of (bw_objects w')) e)
    \<and> (\<forall>k. (\<forall>v\<in>set vs. ArchiveKey (rsk_Namespace key) (rsk_Name key) i (vol_Name v) \<noteq> Inr k) \<longrightarrow> map_of (bw_objects w') k = map_of (bw_objects w) k)"
  using assms(1,2,4,6)
proof (induction vs arbitrary: es w)
  case Nil
  then show ?case by (simp add: op_return_def)
next
  case (Cons v vs)
  from Cons.prems(1) obtain e w1 es1 where c: "captureVolume env cfg key i dir v w = (Inr e, w1)"
    "captureVolumes env cfg key i dir vs w1 = (Inr es1, w')" "es = e # es1"
    by (auto simp: andThen_Inr_iff op_return_def)
  from captureVolume_stored [where P = P, OF c(1) Cons.prems(3) refl P] have
    e: "ve_Name e = vol_Name v" "ArchiveKey (rsk_Namespace key) (rsk_Name key) i (vol_Name v) = Inr (ve_ArchiveKey e)"
    "map_of (bw_objects w1) = (map_of (bw_objects w))(ve_ArchiveKey e \<mapsto> be_pack env (volume_entries (bw_host w)
        (host_elems (bcf_DataRoot cfg) (rsk_Namespace key) (rsk_Name key) (vol_Name v))))"
    "untouched P (bw_host w) (bw_host w1)" by simp_all
  have "untouched P h0 (bw_host w1)" using Cons.prems(4) e(4) by (rule untouched_trans)
  from Cons.IH [OF c(2) _ _ this] Cons.prems(2,3) have ih: "map ve_Name es1 = map vol_Name vs"
    "\<forall>e\<in>set es1. entry_stored env (bcf_DataRoot cfg) key i h0 (map_of (bw_objects w')) e"
    "\<forall>k. (\<forall>v\<in>set vs. ArchiveKey (rsk_Namespace key) (rsk_Name key) i (vol_Name v) \<noteq> Inr k) \<longrightarrow> map_of (bw_objects w') k = map_of (bw_objects w1) k"
    by auto
  have "ArchiveKey (rsk_Namespace key) (rsk_Name key) i (vol_Name v') \<noteq> Inr (ve_ArchiveKey e)" if "v' \<in> set vs" for v'
  proof
    assume "ArchiveKey (rsk_Namespace key) (rsk_Name key) i (vol_Name v') = Inr (ve_ArchiveKey e)"
    from ArchiveKey_inj [OF e(2) this assms(3,3)] have "vol_Name v = vol_Name v'" by simp
    with Cons.prems(2) that show False by (metis distinct.simps(2) image_eqI list.simps(9) set_map)
  qed
  with ih(3) e(3) have "map_of (bw_objects w') (ve_ArchiveKey e) = Some (be_pack env (volume_entries (bw_host w)
        (host_elems (bcf_DataRoot cfg) (rsk_Namespace key) (rsk_Name key) (vol_Name v))))" by simp
  moreover have "volume_entries (bw_host w) (host_elems (bcf_DataRoot cfg) (rsk_Namespace key) (rsk_Name key) (vol_Name v))
      = volume_entries h0 (host_elems (bcf_DataRoot cfg) (rsk_Namespace key) (rsk_Name key) (vol_Name v))"
    by (rule volume_entries_untouched [OF Cons.prems(4) P])
  ultimately have "entry_stored env (bcf_DataRoot cfg) key i h0 (map_of (bw_objects w')) e" using e(1,2) by (simp add: entry_stored_def)
  then show ?case using ih e(1,2,3) c(3) by auto
qed

lemma ManifestKey_not_ArchiveKey:
  assumes "ManifestKey ns p i = Inr k" "CHR ''/'' \<notin> set i"
  shows "ArchiveKey ns p i v \<noteq> Inr k"
proof
  assume a: "ArchiveKey ns p i v = Inr k"
  note k = ManifestKey_eq [THEN iffD1, OF assms(1)] ArchiveKey_eq [THEN iffD1, OF a]
  have pl: "plain_seg ns" "plain_seg p" "plain_seg v" using k by (blast intro: ValidateName_plain)+
  from k have eq: "strings_Join [''cara'', ''v1'', ''projects'', ns, p, ''snapshots'', i, manifestFileName] ''/''
      = strings_Join [''cara'', ''v1'', ''projects'', ns, p, ''snapshots'', i, v @ ''.tar.gz''] ''/''" by metis
  from pl assms(2) have "[''cara'', ''v1'', ''projects'', ns, p, ''snapshots'', i, manifestFileName]
      = [''cara'', ''v1'', ''projects'', ns, p, ''snapshots'', i, v @ ''.tar.gz'']"
    by (intro key_elems_inj [OF _ _ _ _ eq]) (auto simp: plain_seg_def manifestFileName_def)
  then have "rev manifestFileName = rev (v @ ''.tar.gz'')" by simp
  then show False by (simp add: manifestFileName_def)
qed

subsection \<open>What the pruning leaves of the new generation\<close>

lemma generation_id_under: "CHR ''/'' \<notin> set i \<Longrightarrow> generation_id pre (pre @ i @ CHR ''/'' # rest) = Some i"
  by (simp add: generation_id_def Let_def takeWhile_append)

lemma path_Base_under:
  assumes "CHR ''/'' \<notin> set s" "s \<noteq> ''''"
  shows "path_Base (pre @ CHR ''/'' # s) = s"
proof -
  have "dropWhile (\<lambda>c. c = CHR ''/'') (rev (pre @ CHR ''/'' # s)) = rev (pre @ CHR ''/'' # s)"
    using assms by (cases s rule: rev_cases) auto
  moreover have "takeWhile (\<lambda>c. c \<noteq> CHR ''/'') (rev s @ CHR ''/'' # rev pre) = rev s"
    using assms(1) by (subst takeWhile_append2) auto
  ultimately show ?thesis using assms(2) by (simp add: path_Base_def Let_def)
qed

lemma new_generation_kept:
  assumes pre: "ProjectPrefix (rsk_Namespace (key_of p)) (rsk_Name (key_of p)) = Inr pre" and i: "CHR ''/'' \<notin> set i"
    and "map_of (bw_objects w) (pre @ ''/snapshots/'' @ i @ CHR ''/'' # manifestFileName) \<noteq> None"
  shows "map_of (bw_objects (pruneGenerations env p i w)) (pre @ ''/snapshots/'' @ i @ CHR ''/'' # rest)
    = map_of (bw_objects w) (pre @ ''/snapshots/'' @ i @ CHR ''/'' # rest)"
proof (rule ccontr)
  let ?b = "pre @ ''/snapshots/''" and ?m = "pre @ ''/snapshots/'' @ i @ CHR ''/'' # manifestFileName"
  assume "\<not> ?thesis"
  from pruneGenerations_removes [OF pre this] obtain j where
    j: "(pre @ ''/snapshots/'' @ i @ CHR ''/'' # rest) \<in> set (go_keys (generation_in ?b (bw_objects w) j))"
    "j \<noteq> i \<or> manifest_key (generation_in ?b (bw_objects w) j) = None" by blast
  have "j = i" using j(1) generation_id_under [OF i, of ?b rest] by (simp add: generation_in_def)
  have "?m \<in> fst ` set (bw_objects w)" using assms(3) by (simp add: map_of_eq_None_iff)
  then have "?m \<in> set (go_keys (generation_in ?b (bw_objects w) i))"
    using generation_id_under [OF i, of ?b manifestFileName] by (simp add: generation_in_def)
  moreover have "path_Base ?m = manifestFileName"
    using path_Base_under [of manifestFileName "pre @ ''/snapshots/'' @ i"] by (simp add: manifestFileName_def)
  ultimately have "manifest_key (generation_in ?b (bw_objects w) i) \<noteq> None" unfolding manifest_key_def find_None_iff by blast
  with j(2) \<open>j = i\<close> show False by simp
qed

subsection \<open>What a run that succeeded leaves behind\<close>

definition generation_stored :: "backup_env \<Rightarrow> backup_Config \<Rightarrow> Project \<Rightarrow> string \<Rightarrow> host \<Rightarrow> (string \<rightharpoonup> string) \<Rightarrow> bool" where
  "generation_stored env cfg p i h0 objs \<longleftrightarrow> (\<exists>es now mk b.
     ManifestKey (rsk_Namespace (key_of p)) (rsk_Name (key_of p)) i = Inr mk \<and> objs mk = Some b
     \<and> mfj_Marshal (be_manifest env) (manifest_for cfg (key_of p) i p es now) = Inr b
     \<and> map ve_Name es = map vol_Name (managedVolumes (prj_Spec p))
     \<and> (\<forall>e\<in>set es. entry_stored env (bcf_DataRoot cfg) (key_of p) i h0 objs e))"

lemma generation_stored_cong:
  assumes "generation_stored env cfg p i h0 objs" "i \<noteq> ''''"
    and "\<And>pre rest. ProjectPrefix (rsk_Namespace (key_of p)) (rsk_Name (key_of p)) = Inr pre \<Longrightarrow>
      objs' (pre @ ''/snapshots/'' @ i @ CHR ''/'' # rest) = objs (pre @ ''/snapshots/'' @ i @ CHR ''/'' # rest)"
  shows "generation_stored env cfg p i h0 objs'"
proof -
  have arch: "objs' k = objs k" if "ArchiveKey (rsk_Namespace (key_of p)) (rsk_Name (key_of p)) i v = Inr k" for k v
    using that assms(2,3) by (auto simp: ArchiveKey_def GenerationPrefix_def split: sum.splits option.splits)
  have man: "objs' k = objs k" if "ManifestKey (rsk_Namespace (key_of p)) (rsk_Name (key_of p)) i = Inr k" for k
    using that assms(2,3) by (auto simp: ManifestKey_def GenerationPrefix_def split: sum.splits)
  have es: "entry_stored env (bcf_DataRoot cfg) (key_of p) i h0 objs e \<Longrightarrow> entry_stored env (bcf_DataRoot cfg) (key_of p) i h0 objs' e" for e
    using arch [of "ve_Name e" "ve_ArchiveKey e"] by (simp add: entry_stored_def)
  from assms(1) obtain es now mk b where g: "ManifestKey (rsk_Namespace (key_of p)) (rsk_Name (key_of p)) i = Inr mk" "objs mk = Some b"
     "mfj_Marshal (be_manifest env) (manifest_for cfg (key_of p) i p es now) = Inr b"
     "map ve_Name es = map vol_Name (managedVolumes (prj_Spec p))"
     "\<forall>e\<in>set es. entry_stored env (bcf_DataRoot cfg) (key_of p) i h0 objs e" unfolding generation_stored_def by blast
  show ?thesis unfolding generation_stored_def
    by (intro exI [of _ es] exI [of _ now] exI [of _ mk] exI [of _ b]) (use g man es in auto)
qed

lemma capture_and_commit_stored:
  assumes "capture_and_commit env cfg p i dir w = (Inr u, w')" "distinct (map vol_Name (managedVolumes (prj_Spec p)))" "CHR ''/'' \<notin> set i"
    and "\<And>v. v \<in> set (managedVolumes (prj_Spec p)) \<Longrightarrow> \<not> P (path_elems (filepath_Join [dir, vol_Name v @ ''.tar.gz'']))"
    and P: "\<And>n q. prefix (host_elems (bcf_DataRoot cfg) (rsk_Namespace (key_of p)) (rsk_Name (key_of p)) n) q \<Longrightarrow> P q"
    and "untouched P h0 (bw_host w)"
  shows "generation_stored env cfg p i h0 (map_of (bw_objects w'))"
proof -
  from assms(1) obtain es w1 mk b w2 where run: "captureVolumes env cfg (key_of p) i dir (managedVolumes (prj_Spec p)) w = (Inr es, w1)"
    "ManifestKey (rsk_Namespace (key_of p)) (rsk_Name (key_of p)) i = Inr mk"
    "Manifest_Marshal (be_manifest env) (manifest_for cfg (key_of p) i p es (be_now env (bw_log w1))) = Inr b"
    "store_Put env mk b w1 = (Inr (), w2)" and c: "bw_objects w' = bw_objects w2"
    by (auto simp: capture_and_commit_def writeManifest_def Let_def andThen_Inr_iff op_lift_def op_return_def dest!: backup_call_Inr)
  have m: "mfj_Marshal (be_manifest env) (manifest_for cfg (key_of p) i p es (be_now env (bw_log w1))) = Inr b"
    using run(3) by (simp add: Manifest_Marshal_def split: sum.splits)
  have s: "map ve_Name es = map vol_Name (managedVolumes (prj_Spec p))"
    "\<forall>e\<in>set es. entry_stored env (bcf_DataRoot cfg) (key_of p) i h0 (map_of (bw_objects w1)) e"
    using captureVolumes_stored [where P = P, OF run(1) assms(2,3) _ _ assms(6)] assms(4) P by blast+
  have o: "map_of (bw_objects w') = (map_of (bw_objects w1))(mk \<mapsto> b)" using store_Put_Inr [OF run(4)] c by simp
  have "entry_stored env (bcf_DataRoot cfg) (key_of p) i h0 (map_of (bw_objects w')) e" if "e \<in> set es" for e
  proof -
    from s that have e: "entry_stored env (bcf_DataRoot cfg) (key_of p) i h0 (map_of (bw_objects w1)) e" by blast
    then have "ve_ArchiveKey e \<noteq> mk" using ManifestKey_not_ArchiveKey [OF run(2) assms(3)] by (auto simp: entry_stored_def)
    with e o show ?thesis by (simp add: entry_stored_def)
  qed
  then show ?thesis unfolding generation_stored_def
    by (intro exI [of _ es] exI [of _ "be_now env (bw_log w1)"] exI [of _ mk] exI [of _ b]) (use run(2) m s o in auto)
qed

lemma restoreService_same: "bw_objects (snd (restoreService env cfg p err w)) = bw_objects w"
  by (auto simp: restoreService_def backup_call_of_def Let_def split: option.split)

lemma staging_apart:
  assumes "list_all plain_seg R" "plain_seg i" "bcf_DataRoot cfg = abs_path R" "bcf_StagingDir cfg = DefaultStagingDir (bcf_DataRoot cfg)"
  shows "path_elems (bcf_StagingDir cfg) = R @ [''staging'']" "path_elems (filepath_Join [bcf_StagingDir cfg, i]) = R @ [''staging'', i]"
    "ValidateName v = None \<Longrightarrow> path_elems (filepath_Join [filepath_Join [bcf_StagingDir cfg, i], v @ ''.tar.gz'']) = R @ [''staging'', i, v @ ''.tar.gz'']"
proof -
  have pl: "plain_seg ''staging''" by (simp add: plain_seg_def)
  have d: "bcf_StagingDir cfg = abs_path (R @ [''staging''])"
    using assms(1,3,4) pl filepath_Join_abs [of R "[''staging'']"] by (simp add: DefaultStagingDir_def)
  then show "path_elems (bcf_StagingDir cfg) = R @ [''staging'']" using assms(1) pl by (simp add: path_elems_abs_path)
  have d2: "filepath_Join [bcf_StagingDir cfg, i] = abs_path (R @ [''staging'', i])"
    using assms(1,2) pl d filepath_Join_abs [of "R @ [''staging'']" "[i]"] by simp
  then show "path_elems (filepath_Join [bcf_StagingDir cfg, i]) = R @ [''staging'', i]" using assms(1,2) pl by (simp add: path_elems_abs_path)
  assume "ValidateName v = None"
  then have "plain_seg (v @ ''.tar.gz'')" by (rule plain_suffixed) auto
  then show "path_elems (filepath_Join [filepath_Join [bcf_StagingDir cfg, i], v @ ''.tar.gz'']) = R @ [''staging'', i, v @ ''.tar.gz'']"
    using assms(1,2) pl d2 filepath_Join_abs [of "R @ [''staging'', i]" "[v @ ''.tar.gz'']"] by (simp add: path_elems_abs_path)
qed

lemma checkDiskSpace_same:
  assumes "checkDiskSpace env cfg w = (Inr u, w')" "\<And>q. prefix q (path_elems (bcf_StagingDir cfg)) \<Longrightarrow> \<not> P q"
  shows "bw_objects w' = bw_objects w \<and> bw_log w' = bw_log w \<and> untouched P (bw_host w) (bw_host w')"
proof -
  have "bw_objects w' = bw_objects w \<and> bw_log w' = bw_log w \<and> (w' = w \<or> (\<exists>h. os_MkdirAll (bcf_StagingDir cfg) (bw_host w) = (Inr (), h) \<and> bw_host w' = h))"
    using assms(1) by (auto simp: checkDiskSpace_def andThen_Inr_iff on_files_Inr op_lift_def op_return_def op_fail_def split: if_splits)
  then show ?thesis using os_MkdirAll_untouched [of "bcf_StagingDir cfg" "bw_host w" _ _ P] assms(2) by auto
qed

lemma staging_way: "prefix q (R @ ''staging'' # xs) \<Longrightarrow> \<not> prefix (R @ [volumesDir]) q"
  using prefix_order.trans [of "R @ [volumesDir]" q "R @ ''staging'' # xs"] by (auto simp: volumesDir_def)

lemma finally_do_iff: "finally_do m f w = (r, w') \<longleftrightarrow> (\<exists>w1 x. m w = (r, w1) \<and> f w1 = (x, w'))"
  by (auto simp: finally_do_def split: prod.split)

lemma with_restart_iff: "with_restart env cfg p m w = (r, w') \<longleftrightarrow>
    (\<exists>w1 x. m w = (r, w1) \<and> restoreService env cfg p (case r of Inl e \<Rightarrow> Some e | Inr _ \<Rightarrow> None) w1 = (x, w'))"
  by (auto simp: with_restart_def prod_eq_iff split: prod.split)

lemma on_files_same: "on_files f w = (r, w') \<Longrightarrow> bw_objects w' = bw_objects w"
  by (auto simp: on_files_def split: prod.splits)

lemma run_maintained_stored:
  assumes run: "run_maintained env cfg p i w = (Inr u, w')" and "distinct (map vol_Name (managedVolumes (prj_Spec p)))"
    and i: "plain_seg i" and R: "bcf_DataRoot cfg = abs_path R" "list_all plain_seg R"
    and dir: "bcf_StagingDir cfg = DefaultStagingDir (bcf_DataRoot cfg)"
    and valid: "\<forall>v \<in> set (managedVolumes (prj_Spec p)). ValidateName (vol_Name v) = None"
    and before: "untouched (prefix (R @ [volumesDir])) h0 (bw_host w)"
  shows "generation_stored env cfg p i h0 (map_of (bw_objects w'))"
proof -
  let ?P = "prefix (R @ [volumesDir])" and ?dir = "filepath_Join [bcf_StagingDir cfg, i]"
  note paths = staging_apart [OF R(2) i R(1) dir]
  have root: "path_elems (bcf_DataRoot cfg) = R" using R by (simp add: path_elems_abs_path)
  from run obtain w1 r w2 where w1: "bw_host w1 = bw_host w" and stopped: "run_stopped env cfg p i w1 = (r, w2)" "r = Inr u"
    and w': "bw_objects w' = bw_objects w2"
    using restoreService_same [of env cfg p]
    by (auto simp: run_maintained_def Let_def andThen_Inr_iff finally_do_iff with_restart_iff dest!: backup_call_Inr) (metis snd_conv)
  from stopped obtain w3 h w5 where h: "os_MkdirAll ?dir (bw_host w3) = (Inr (), h)" "bw_host w3 = bw_host w1"
    and cc: "capture_and_commit env cfg p i ?dir (w3\<lparr>bw_host := h\<rparr>) = (Inr u, w5)" and w2: "bw_objects w2 = bw_objects w5"
    by (auto simp: run_stopped_def Let_def andThen_Inr_iff finally_do_iff on_files_Inr dest!: backup_call_Inr on_files_same)
  have "untouched ?P (bw_host w3) h"
    by (rule os_MkdirAll_untouched [OF h(1)]) (simp add: paths(2), blast dest: staging_way)
  with before h(2) w1 have unt: "untouched ?P h0 (bw_host (w3\<lparr>bw_host := h\<rparr>))" by (auto intro: untouched_trans)
  have "generation_stored env cfg p i h0 (map_of (bw_objects w5))"
  proof (rule capture_and_commit_stored [where P = ?P, OF cc assms(2)])
    show "CHR ''/'' \<notin> set i" using i by (simp add: plain_seg_def)
    show "\<not> ?P (path_elems (filepath_Join [?dir, vol_Name v @ ''.tar.gz'']))" if "v \<in> set (managedVolumes (prj_Spec p))" for v
      using valid that paths(3) by (simp add: volumesDir_def)
    show "?P q" if "prefix (host_elems (bcf_DataRoot cfg) (rsk_Namespace (key_of p)) (rsk_Name (key_of p)) n) q" for n q
      using that by (auto simp: host_elems_def root prefix_def)
  qed (rule unt)
  with w2 w' show ?thesis by simp
qed

lemma backup_Run_stored:
  assumes run: "backup_Run env cfg p w = (Inr u, w')" and free: "co_claims (bw_coordinator w) (key_of p) = None"
    and i: "NewBackupID (be_now env (bw_log w)) (be_random env) = Inr i" "plain_seg i"
    and R: "bcf_DataRoot cfg = abs_path R" "list_all plain_seg R" and dir: "bcf_StagingDir cfg = DefaultStagingDir (bcf_DataRoot cfg)"
    and names: "distinct (map vol_Name (managedVolumes (prj_Spec p)))" "\<forall>v \<in> set (managedVolumes (prj_Spec p)). ValidateName (vol_Name v) = None"
  shows "generation_stored env cfg p i (bw_host w) (map_of (bw_objects w'))"
proof -
  let ?P = "prefix (R @ [volumesDir])"
  from run free obtain t c w1 where claimed: "run_claimed env cfg p (w\<lparr>bw_coordinator := c\<rparr>) = (Inr u, w1)"
    and w': "bw_objects w' = bw_objects w1"
    by (auto simp: backup_Run_def TryClaim_def split: if_splits prod.splits)
  from claimed obtain w2 where disk: "checkDiskSpace env cfg (w\<lparr>bw_coordinator := c\<rparr>) = (Inr (), w2)"
    and go: "(case NewBackupID (be_now env (bw_log w2)) (be_random env) of Inl e \<Rightarrow> (Inl e, w2)
        | Inr j \<Rightarrow> with_prune env p j (run_maintained env cfg p j) w2) = (Inr u, w1)"
    by (cases "be_hasStore env") (auto simp: run_claimed_def andThen_def op_lift_def split: prod.splits sum.splits)
  have off: "\<not> ?P q" if "prefix q (path_elems (bcf_StagingDir cfg))" for q
    using that staging_apart(1) [OF R(2) i(2) R(1) dir] staging_way [of q R "[]"] by simp
  from checkDiskSpace_same [where P = ?P, OF disk off] have w2: "bw_log w2 = bw_log w" "untouched ?P (bw_host w) (bw_host w2)" by simp_all
  with go i(1) obtain w3 where m: "run_maintained env cfg p i w2 = (Inr u, w3)" and w1: "w1 = pruneGenerations env p i w3"
    by (auto simp: with_prune_def split: prod.splits sum.splits)
  have s: "generation_stored env cfg p i (bw_host w) (map_of (bw_objects w3))"
    by (rule run_maintained_stored [OF m names(1) i(2) R dir names(2) w2(2)])
  have slash: "CHR ''/'' \<notin> set i" "i \<noteq> ''''" using i(2) by (auto simp: plain_seg_def)
  have kept: "map_of (bw_objects w1) (pre @ ''/snapshots/'' @ i @ CHR ''/'' # rest) = map_of (bw_objects w3) (pre @ ''/snapshots/'' @ i @ CHR ''/'' # rest)"
    if pre: "ProjectPrefix (rsk_Namespace (key_of p)) (rsk_Name (key_of p)) = Inr pre" for pre rest
    unfolding w1
  proof (rule new_generation_kept [OF pre slash(1)])
    show "map_of (bw_objects w3) (pre @ ''/snapshots/'' @ i @ CHR ''/'' # manifestFileName) \<noteq> None"
      using s pre slash(2) by (auto simp: generation_stored_def ManifestKey_def GenerationPrefix_def)
  qed
  from generation_stored_cong [OF s slash(2) kept] w' show ?thesis by simp
qed

subsection \<open>A backup and the restore that reads it\<close>

text \<open>The object store as \<open>RestoreGeneration\<close> reads it on another Node, its connection sound.\<close>

definition reads_store :: "(string \<times> string) list \<Rightarrow> string \<Rightarrow> agent_error + string \<times> agent_error option" where
  "reads_store objs k = (case map_of objs k of None \<Rightarrow> Inl (Sentinel objectstore_ErrNotFound) | Some b \<Rightarrow> Inr (b, None))"

lemma inGeneration_entry:
  assumes "map ve_Name es = map vol_Name vs" "distinct (map vol_Name vs)" "v \<in> set vs"
  shows "\<exists>e\<in>set es. ve_Name e = vol_Name v \<and> inGeneration (manifest_for cfg key i p es now) (vol_Name v) = Some e"
proof -
  from assms(1,3) obtain e where e: "e \<in> set es" "ve_Name e = vol_Name v" by (metis image_iff list.set_map)
  have "distinct (map ve_Name es)" using assms(1,2) by simp
  then have "map_of (rev (map (\<lambda>e. (ve_Name e, e)) es)) (ve_Name e) = Some e"
    using e(1) by (intro map_of_is_SomeI) (auto simp: rev_map [symmetric] o_def)
  with e show ?thesis by (intro bexI [of _ e]) (auto simp: inGeneration_def manifest_for_def BuildManifest_def)
qed

lemma FetchManifest_stored:
  assumes "generation_stored benv cfg p i h0 (map_of objs)"
    and "re_Get renv = reads_store objs" "re_manifest renv = be_manifest benv"
    and "\<And>m b. mfj_Marshal (be_manifest benv) m = Inr b \<Longrightarrow> mfj_Unmarshal (be_manifest benv) b = Inr m"
  obtains es now where "FetchManifest renv (rsk_Namespace (key_of p)) (rsk_Name (key_of p)) i = Inr (manifest_for cfg (key_of p) i p es now)"
    "map ve_Name es = map vol_Name (managedVolumes (prj_Spec p))"
    "\<forall>e\<in>set es. entry_stored benv (bcf_DataRoot cfg) (key_of p) i h0 (map_of objs) e"
proof -
  from assms(1) obtain es now mk b where g: "ManifestKey (rsk_Namespace (key_of p)) (rsk_Name (key_of p)) i = Inr mk" "map_of objs mk = Some b"
     "mfj_Marshal (be_manifest benv) (manifest_for cfg (key_of p) i p es now) = Inr b"
     "map ve_Name es = map vol_Name (managedVolumes (prj_Spec p))"
     "\<forall>e\<in>set es. entry_stored benv (bcf_DataRoot cfg) (key_of p) i h0 (map_of objs) e" unfolding generation_stored_def by blast
  have "FetchManifest renv (rsk_Namespace (key_of p)) (rsk_Name (key_of p)) i = Inr (manifest_for cfg (key_of p) i p es now)"
    using g(1,2) assms(2,3) assms(4) [OF g(3)] by (simp add: FetchManifest_def reads_store_def UnmarshalManifest_def)
  then show thesis using g(4,5) by (rule that)
qed

text \<open>
  C15: A backup that succeeded can be restored. Let a backup run of a Project that nothing else holds return without an
  error under the backup ID it drew, old generations pruned. A Node that reads the object store as the run left it and
  whose \<open>RestoreGeneration\<close> of that ID returns without an error, whatever was on that Node before, has in every
  Managed volume the run backed up exactly the tree the volume had on the first Node. \<open>encoding/json\<close> and the tar and
  gzip packages are asked to read back what they wrote.
\<close>

theorem backup_then_restore:
  assumes "backup_Run benv cfg p w = (Inr u, w')" "co_claims (bw_coordinator w) (key_of p) = None"
    and "NewBackupID (be_now benv (bw_log w)) (be_random benv) = Inr i" "plain_seg i"
    and "bcf_DataRoot cfg = abs_path R" "list_all plain_seg R" "bcf_StagingDir cfg = DefaultStagingDir (bcf_DataRoot cfg)"
    and "distinct (map vol_Name (managed (spec_Volumes (prj_Spec p))))"
    and "\<forall>v \<in> set (managed (spec_Volumes (prj_Spec p))). ValidateName (vol_Name v) = None"
    and "re_Get renv = reads_store (bw_objects w')" "re_manifest renv = be_manifest benv"
    and "\<And>m b. mfj_Marshal (be_manifest benv) m = Inr b \<Longrightarrow> mfj_Unmarshal (be_manifest benv) b = Inr m"
    and "RestoreGeneration renv rcfg p' i h = (Inr u', h')"
    and "prj_Meta p' = prj_Meta p" "spec_Volumes (prj_Spec p') = spec_Volumes (prj_Spec p)"
    and "v \<in> set (managedVolumes (prj_Spec p))"
    and "src = host_elems (bcf_DataRoot cfg) (rsk_Namespace (key_of p)) (rsk_Name (key_of p)) (vol_Name v)"
    and "volume_tree (tree_at (bw_host w) src)"
    and "es = volume_entries (bw_host w) src" "re_unpack renv (be_pack benv es) = Inr (es, None)" "q \<noteq> []"
  shows "tree_at h' (host_elems (rc_DataRoot rcfg) (rsk_Namespace (key_of p)) (rsk_Name (key_of p)) (vol_Name v)) q
    = tree_at (bw_host w) src q"
proof -
  have m: "managedVolumes (prj_Spec p) = filter (\<lambda>v. BackupStrategyFor (prj_Spec p) (vol_Name v) = BackupStrategyOffline) (managed (spec_Volumes (prj_Spec p)))"
    by (auto simp: managedVolumes_def managed_def intro: filter_cong)
  have names: "distinct (map vol_Name (managedVolumes (prj_Spec p)))" "\<forall>v \<in> set (managedVolumes (prj_Spec p)). ValidateName (vol_Name v) = None"
    using assms(8,9) by (simp_all add: m distinct_map_filter)
  from backup_Run_stored [OF assms(1-7) names]
  have s: "generation_stored benv cfg p i (bw_host w) (map_of (bw_objects w'))" .
  from FetchManifest_stored [OF s assms(10-12)] obtain es' now where
    f: "FetchManifest renv (rsk_Namespace (key_of p)) (rsk_Name (key_of p)) i = Inr (manifest_for cfg (key_of p) i p es' now)"
    "map ve_Name es' = map vol_Name (managedVolumes (prj_Spec p))"
    "\<forall>e\<in>set es'. entry_stored benv (bcf_DataRoot cfg) (key_of p) i (bw_host w) (map_of (bw_objects w')) e" by blast
  from inGeneration_entry [OF f(2) names(1) assms(16)] f(3) obtain e where
    e: "inGeneration (manifest_for cfg (key_of p) i p es' now) (vol_Name v) = Some e"
    "entry_stored benv (bcf_DataRoot cfg) (key_of p) i (bw_host w) (map_of (bw_objects w')) e" "ve_Name e = vol_Name v" by blast
  have get: "re_Get renv (ve_ArchiveKey e) = Inr (be_pack benv es, None)"
    using e(2,3) assms(10,17,19) by (simp add: reads_store_def entry_stored_def)
  have v: "v \<in> set (managed (spec_Volumes (prj_Spec p')))" using assms(15,16) by (simp add: m)
  have "(\<forall>q. q \<noteq> [] \<longrightarrow> tree_at h' (project_elems (rc_DataRoot rcfg) (meta_Namespace (prj_Meta p')) (meta_Name (prj_Meta p')) @ [vol_Name v, dataDir]) q
      = tree_at (bw_host w) src q)"
    by (rule RestoreGeneration_tree [where pack = "be_pack benv" and es = es, OF assms(13) _ _ v _ e(1) get assms(19,18,20) refl, THEN conjunct1])
      (use assms(8,9,14,15) f(1) in \<open>simp_all add: key_of_def\<close>)
  with assms(14,21) show ?thesis by (simp add: key_of_def host_elems_def project_elems_def)
qed

subsection \<open>A volume backed up on one Node and restored on another\<close>

definition demo_backup_id :: string where "demo_backup_id = ''19700101T000000Z-0a''"

definition demo_manifest :: Manifest where
  "demo_manifest = manifest_for demo_backup_cfg (key_of demo_backup_project) demo_backup_id demo_backup_project
     [\<lparr>ve_Name = ''v'', ve_ArchiveKey = demo_snapshot (demo_backup_id @ ''/v.tar.gz''), ve_SizeBytes = 3, ve_SHA256 = ''sum''\<rparr>] 0"

definition demo_record_json :: manifest_json where
  "demo_record_json = \<lparr>mfj_Marshal = (\<lambda>m. if m = demo_manifest then Inr ''m'' else Inl (ErrText ''other'')), mfj_Unmarshal = (\<lambda>b. Inr demo_manifest)\<rparr>"

definition demo_backup :: "(agent_error + unit) \<times> backup_world" where
  "demo_backup = backup_Run (demo_backup_env demo_record_json False) demo_backup_cfg demo_backup_project (demo_backup_world [])"

definition demo_data :: "string list" where "demo_data = [''d'', ''volumes'', ''n'', ''p'', ''v'', ''data'']"

definition demo_second_env :: restore_env where
  "demo_second_env = demo_restore_env\<lparr>re_Get := reads_store (bw_objects (snd demo_backup)), re_manifest := demo_record_json,
     re_unpack := (\<lambda>b. Inr (volume_entries (demo_host []) demo_data, None))\<rparr>"

definition demo_second :: "(agent_error + unit) \<times> host" where
  "demo_second = RestoreGeneration demo_second_env demo_restore_cfg demo_backup_project demo_backup_id \<lparr>h_files = [([''d''], FDir)], h_faults = []\<rparr>"

lemma demo_backup_runs:
  "fst demo_backup = Inr ()" "bw_objects (snd demo_backup) = [(demo_snapshot (demo_backup_id @ ''/v.tar.gz''), ''tgz''), (demo_snapshot (demo_backup_id @ ''/manifest.json''), ''m'')]"
  by code_simp+

lemma demo_second_runs: "fst demo_second = Inr ()"
  by code_simp

lemma demo_round_trip: "mfj_Marshal demo_record_json m = Inr b \<Longrightarrow> mfj_Unmarshal demo_record_json b = Inr m"
  by (simp add: demo_record_json_def split: if_splits)

lemma demo_data_tree: "volume_tree (tree_at (demo_host []) demo_data)"
  by (auto simp: volume_tree_def tree_at_def demo_host_def demo_data_def plain_seg_def split: if_splits)

lemma demo_places:
  "bcf_DataRoot demo_backup_cfg = abs_path [''d'']" "bcf_StagingDir demo_backup_cfg = DefaultStagingDir (bcf_DataRoot demo_backup_cfg)"
  "NewBackupID 0 (Inr ''0a'') = Inr demo_backup_id" "host_elems ''/d'' ''n'' ''p'' ''v'' = demo_data"
  "map vol_Name (managed (spec_Volumes (prj_Spec demo_backup_project))) = [''v'']" "ValidateName ''v'' = None"
  by code_simp+

text \<open>The second Node held nothing; it holds the file of the first one's volume now.\<close>

theorem backup_then_restore_witness:
  "fst demo_backup = Inr () \<and> fst demo_second = Inr () \<and> tree_at (snd demo_second) demo_data [''old''] = Some (FFile ''y'')"
proof -
  let ?benv = "demo_backup_env demo_record_json False" and ?v = "\<lparr>vol_Name = ''v'', vol_Type = VolumeTypeManaged\<rparr>"
  have backup: "backup_Run ?benv demo_backup_cfg demo_backup_project (demo_backup_world []) = (Inr (), snd demo_backup)"
    using demo_backup_runs(1) by (simp add: demo_backup_def prod_eq_iff)
  have restore: "RestoreGeneration demo_second_env demo_restore_cfg demo_backup_project demo_backup_id \<lparr>h_files = [([''d''], FDir)], h_faults = []\<rparr>
      = (Inr (), snd demo_second)"
    using demo_second_runs by (simp add: demo_second_def prod_eq_iff)
  have key: "rsk_Namespace (key_of demo_backup_project) = ''n''" "rsk_Name (key_of demo_backup_project) = ''p''"
    and vols: "managed (spec_Volumes (prj_Spec demo_backup_project)) = [?v]" "managedVolumes (prj_Spec demo_backup_project) = [?v]"
    and rootp: "rc_DataRoot demo_restore_cfg = ''/d''" "bcf_DataRoot demo_backup_cfg = ''/d''" by code_simp+
  have benv: "be_manifest ?benv = demo_record_json" "be_now ?benv past = 0" "be_random ?benv = Inr ''0a''" for past
    by (simp_all add: demo_backup_env_def)
  have renv: "re_Get demo_second_env = reads_store (bw_objects (snd demo_backup))" "re_manifest demo_second_env = be_manifest ?benv"
    "re_unpack demo_second_env b = Inr (volume_entries (demo_host []) demo_data, None)" for b
    by (simp_all add: demo_second_env_def benv)
  have w: "bw_host (demo_backup_world []) = demo_host []" "co_claims (bw_coordinator (demo_backup_world [])) k = None" for k
    by (simp_all add: demo_backup_world_def NewCoordinator_def)
  have ID: "plain_seg demo_backup_id" by (simp add: demo_backup_id_def plain_seg_def)
  have "tree_at (snd demo_second) (host_elems (rc_DataRoot demo_restore_cfg) (rsk_Namespace (key_of demo_backup_project))
        (rsk_Name (key_of demo_backup_project)) (vol_Name ?v)) [''old''] = tree_at (bw_host (demo_backup_world [])) demo_data [''old'']"
  proof (rule backup_then_restore [where R = "[''d'']", OF backup w(2) _ ID demo_places(1) _ demo_places(2) _ _ renv(1,2) _ restore refl refl])
    show "mfj_Unmarshal (be_manifest ?benv) b = Inr m" if "mfj_Marshal (be_manifest ?benv) m = Inr b" for m b
      using that demo_round_trip by (simp add: benv)
  qed (simp_all add: benv vols key rootp w renv demo_places(3,4,6) demo_data_tree, simp add: plain_seg_def)
  then show ?thesis using demo_backup_runs(1) demo_second_runs
    by (simp add: key rootp demo_places(4) w tree_at_def demo_host_def demo_data_def)
qed

end
