(* ===== verification/Backup_Supervisor.thy ===== *)
theory Backup_Supervisor
  imports Backup_Run
begin

text \<open>
  \<open>backup/supervisor.go\<close>: which Projects have a backup goroutine, and what one does between two backups. A
  goroutine is a number; \<open>sv_live\<close> holds those started and not cancelled. \<open>parse\<close> is \<open>time.ParseDuration\<close>.
\<close>

record supervisorEntry =
  se_loop :: nat
  se_interval :: duration
  se_uid :: string
  se_generation :: int
  se_project :: Project

record Supervisor =
  sv_entries :: "(ResourceKey \<times> supervisorEntry) list"
  sv_live :: "nat list"
  sv_next :: nat

definition NewSupervisor :: Supervisor where
  "NewSupervisor = \<lparr>sv_entries = [], sv_live = [], sv_next = 0\<rparr>"

definition shouldSupervise :: "Project \<Rightarrow> bool" where
  "shouldSupervise p = (if ps_Phase (prj_Status p) \<noteq> ProjectPhaseRunning then False
     else if spec_Backup (prj_Spec p) = None then False
     else managedVolumes (prj_Spec p) \<noteq> [] \<or> HasPostgresDifferential (prj_Spec p))"

definition backupInterval :: "(string \<Rightarrow> duration option) \<Rightarrow> Project \<Rightarrow> duration option" where
  "backupInterval parse p = (case spec_Backup (prj_Spec p) of
       None \<Rightarrow> None
     | Some b \<Rightarrow> (case parse (pbc_Interval b) of None \<Rightarrow> None | Some d \<Rightarrow> if d \<le> 0 then None else Some d))"

definition cancel_entry :: "ResourceKey \<Rightarrow> Supervisor \<Rightarrow> Supervisor" where
  "cancel_entry key s = (case map_of (sv_entries s) key of
       None \<Rightarrow> s
     | Some e \<Rightarrow> s\<lparr>sv_entries := AList.delete key (sv_entries s), sv_live := removeAll (se_loop e) (sv_live s)\<rparr>)"

definition start_entry :: "ResourceKey \<Rightarrow> Project \<Rightarrow> duration \<Rightarrow> Supervisor \<Rightarrow> Supervisor" where
  "start_entry key project interval s = s\<lparr>sv_entries := AList.update key
       \<lparr>se_loop = sv_next s, se_interval = interval, se_uid = meta_UID (prj_Meta project),
        se_generation = ps_AssignmentGeneration (prj_Status project), se_project = project\<rparr> (sv_entries s),
     sv_live := sv_next s # sv_live s, sv_next := sv_next s + 1\<rparr>"

definition desired_projects :: "Project list \<Rightarrow> (ResourceKey \<times> Project) list" where
  "desired_projects projects = fold (\<lambda>p m. if shouldSupervise p then AList.update (key_of p) p m else m) projects []"

definition sync_one :: "(string \<Rightarrow> duration option) \<Rightarrow> ResourceKey \<times> Project \<Rightarrow> Supervisor \<Rightarrow> Supervisor" where
  "sync_one parse kp s = (case kp of (key, project) \<Rightarrow> (case backupInterval parse project of
       None \<Rightarrow> s
     | Some interval \<Rightarrow> (case map_of (sv_entries s) key of
         Some e \<Rightarrow>
           if se_interval e = interval \<and> se_uid e = meta_UID (prj_Meta project)
              \<and> se_generation e = ps_AssignmentGeneration (prj_Status project)
           then s\<lparr>sv_entries := AList.update key (e\<lparr>se_project := project\<rparr>) (sv_entries s)\<rparr>
           else start_entry key project interval (cancel_entry key s)
       | None \<Rightarrow> start_entry key project interval s)))"

definition supervisor_Sync :: "(string \<Rightarrow> duration option) \<Rightarrow> Project list \<Rightarrow> Supervisor \<Rightarrow> Supervisor" where
  "supervisor_Sync parse projects s = (let desired = desired_projects projects;
       s1 = fold cancel_entry (filter (\<lambda>k. map_of desired k = None) (map fst (sv_entries s))) s
     in fold (sync_one parse) desired s1)"

definition supervisor_Stop :: "Supervisor \<Rightarrow> Supervisor" where
  "supervisor_Stop s = fold cancel_entry (map fst (sv_entries s)) s"

definition Count :: "Supervisor \<Rightarrow> nat" where
  "Count s = length (sv_entries s)"

subsection \<open>The loop of one Project\<close>

datatype health_call = SetBackupFailing Project | ClearBackupFailing Project

definition backupFailingOn :: "Project \<Rightarrow> bool" where
  "backupFailingOn project \<longleftrightarrow> list_ex (\<lambda>c. cond_Type c = ConditionTypeBackupFailing \<and> cond_Status c = ConditionTrue)
     (ps_Conditions (prj_Status project))"

text \<open>The call it makes, if any, and the new flag; \<open>health\<close> is absent when no reporter is set.\<close>

definition reportHealth ::
  "(health_call \<Rightarrow> agent_error option) option \<Rightarrow> Project \<Rightarrow> bool \<Rightarrow> bool \<Rightarrow> health_call option \<times> bool" where
  "reportHealth health project failed reported = (case health of
       None \<Rightarrow> (None, reported)
     | Some answer \<Rightarrow>
         if failed then
           if reported then (None, True)
           else (Some (SetBackupFailing project), answer (SetBackupFailing project) = None)
         else if \<not> reported \<and> \<not> backupFailingOn project then (None, False)
         else (Some (ClearBackupFailing project), answer (ClearBackupFailing project) \<noteq> None))"

text \<open>
  One turn after the timer: the snapshot of the Project, the result of the run, whether the context is still
  alive, and how the server answers the report.
\<close>

record backup_turn =
  bt_project :: Project
  bt_result :: "agent_error option"
  bt_alive :: bool
  bt_health :: "(health_call \<Rightarrow> agent_error option) option"

definition turn_failed :: "backup_turn \<Rightarrow> bool" where
  "turn_failed t = (case bt_result t of None \<Rightarrow> False | Some e \<Rightarrow> \<not> error_is ErrNoManagedVolumes e)"

fun supervisor_loop :: "backup_turn list \<Rightarrow> bool \<Rightarrow> health_call list \<times> bool" where
  "supervisor_loop [] reported = ([], reported)"
| "supervisor_loop (t # ts) reported =
     (case (if bt_alive t then reportHealth (bt_health t) (bt_project t) (turn_failed t) reported else (None, reported)) of
        (call, reported') \<Rightarrow> (case supervisor_loop ts reported' of
          (calls, last_reported) \<Rightarrow> ((case call of None \<Rightarrow> [] | Some c \<Rightarrow> [c]) @ calls, last_reported)))"

subsection \<open>One goroutine for every assignment supervised\<close>

definition supervisor_ok :: "Supervisor \<Rightarrow> bool" where
  "supervisor_ok s \<longleftrightarrow> distinct (map fst (sv_entries s)) \<and> distinct (sv_live s)
     \<and> (\<forall>k k' e e'. map_of (sv_entries s) k = Some e \<longrightarrow> map_of (sv_entries s) k' = Some e' \<longrightarrow> se_loop e = se_loop e' \<longrightarrow> k = k')
     \<and> (\<forall>i. i \<in> set (sv_live s) \<longleftrightarrow> (\<exists>k e. map_of (sv_entries s) k = Some e \<and> se_loop e = i))
     \<and> (\<forall>i \<in> set (sv_live s). i < sv_next s)"

lemma supervisor_okI:
  assumes "map_of (sv_entries s) = m" "distinct (map fst (sv_entries s))" "distinct (sv_live s)"
    and "\<forall>k k' e e'. m k = Some e \<longrightarrow> m k' = Some e' \<longrightarrow> se_loop e = se_loop e' \<longrightarrow> k = k'"
    and "\<And>i. i \<in> set (sv_live s) \<longleftrightarrow> (\<exists>k e. m k = Some e \<and> se_loop e = i)" "\<forall>i \<in> set (sv_live s). i < sv_next s"
  shows "supervisor_ok s"
  using assms(2-6) unfolding supervisor_ok_def assms(1) by blast

lemma supervisor_ok_New: "supervisor_ok NewSupervisor"
  by (simp add: supervisor_ok_def NewSupervisor_def)

lemma cancel_entry_entries: "map_of (sv_entries (cancel_entry key s)) = (map_of (sv_entries s))(key := None)"
  by (auto simp: cancel_entry_def delete_conv' fun_upd_idem split: option.split)

lemma cancel_entry_ok:
  assumes "supervisor_ok s"
  shows "supervisor_ok (cancel_entry key s)"
proof (cases "map_of (sv_entries s) key")
  case None
  then show ?thesis using assms by (simp add: cancel_entry_def)
next
  case (Some e)
  note ok = assms [unfolded supervisor_ok_def]
  have live: "i \<in> set (removeAll (se_loop e) (sv_live s)) \<longleftrightarrow> (\<exists>k e'. ((map_of (sv_entries s))(key := None)) k = Some e' \<and> se_loop e' = i)" for i
  proof -
    have "i \<in> set (sv_live s) \<longleftrightarrow> (\<exists>k e. map_of (sv_entries s) k = Some e \<and> se_loop e = i)" using ok by blast
    moreover have "map_of (sv_entries s) k = Some e' \<Longrightarrow> se_loop e' = se_loop e \<longleftrightarrow> k = key" for k e'
      using ok Some by (metis option.inject)
    ultimately show ?thesis using Some by (auto split: if_splits)
  qed
  have inj: "\<forall>k k' e1 e2. ((map_of (sv_entries s))(key := None)) k = Some e1 \<longrightarrow> ((map_of (sv_entries s))(key := None)) k' = Some e2
      \<longrightarrow> se_loop e1 = se_loop e2 \<longrightarrow> k = k'" using ok by (auto split: if_splits)
  have c: "cancel_entry key s = s\<lparr>sv_entries := AList.delete key (sv_entries s), sv_live := removeAll (se_loop e) (sv_live s)\<rparr>"
    using Some by (simp add: cancel_entry_def)
  have base: "distinct (map fst (sv_entries s))" "distinct (sv_live s)" "\<forall>i \<in> set (sv_live s) - {se_loop e}. i < sv_next s" using ok by blast+
  show ?thesis
    by (rule supervisor_okI [OF cancel_entry_entries])
      (use base live inj in \<open>simp_all add: c distinct_delete distinct_removeAll del: fun_upd_apply\<close>)
qed

lemma start_entry_ok:
  assumes "supervisor_ok s" "map_of (sv_entries s) key = None"
  shows "supervisor_ok (start_entry key p d s)"
proof -
  note ok = assms(1) [unfolded supervisor_ok_def]
  let ?n = "sv_next s" and ?e = "\<lparr>se_loop = sv_next s, se_interval = d, se_uid = meta_UID (prj_Meta p), se_generation = ps_AssignmentGeneration (prj_Status p), se_project = p\<rparr>"
  have fresh: "map_of (sv_entries s) k = Some e \<Longrightarrow> se_loop e \<noteq> ?n" for k e using ok by (metis less_irrefl)
  have entries: "map_of (sv_entries (start_entry key p d s)) = (map_of (sv_entries s))(key \<mapsto> ?e)"
    by (simp add: start_entry_def update_conv')
  have inj: "\<forall>k k' e1 e2. ((map_of (sv_entries s))(key \<mapsto> ?e)) k = Some e1 \<longrightarrow> ((map_of (sv_entries s))(key \<mapsto> ?e)) k' = Some e2
      \<longrightarrow> se_loop e1 = se_loop e2 \<longrightarrow> k = k'" using ok fresh by (auto split: if_splits) metis
  have live: "i \<in> set (?n # sv_live s) \<longleftrightarrow> (\<exists>k e. ((map_of (sv_entries s))(key \<mapsto> ?e)) k = Some e \<and> se_loop e = i)" for i
  proof -
    have "i \<in> set (sv_live s) \<longleftrightarrow> (\<exists>k e. map_of (sv_entries s) k = Some e \<and> se_loop e = i)" using ok by blast
    then show ?thesis using assms(2) by (auto split: if_splits) (metis option.distinct(1))
  qed
  have base: "distinct (map fst (sv_entries s))" "distinct (sv_live s)" "\<forall>i \<in> set (sv_live s). i < sv_next s" using ok by blast+
  then have "?n \<notin> set (sv_live s)" by blast
  with base inj live show ?thesis
    by (intro supervisor_okI [OF entries]) (auto simp: start_entry_def distinct_update less_Suc_eq simp del: fun_upd_apply)
qed

lemma sync_one_step:
  assumes "supervisor_ok s"
  shows "supervisor_ok (sync_one parse (key, p) s) \<and> (\<forall>k. k \<noteq> key \<longrightarrow> map_of (sv_entries (sync_one parse (key, p) s)) k = map_of (sv_entries s) k)
    \<and> (case backupInterval parse p of None \<Rightarrow> map_of (sv_entries (sync_one parse (key, p) s)) key = map_of (sv_entries s) key
       | Some d \<Rightarrow> \<exists>e. map_of (sv_entries (sync_one parse (key, p) s)) key = Some e \<and> se_project e = p \<and> se_interval e = d
           \<and> se_uid e = meta_UID (prj_Meta p) \<and> se_generation e = ps_AssignmentGeneration (prj_Status p))"
proof (cases "backupInterval parse p")
  case None
  with assms show ?thesis by (simp add: sync_one_def)
next
  case (Some d)
  let ?s1 = "case map_of (sv_entries s) key of None \<Rightarrow> s | Some e \<Rightarrow> cancel_entry key s"
  have s1: "supervisor_ok ?s1" "map_of (sv_entries ?s1) = (map_of (sv_entries s))(key := None)"
    using assms cancel_entry_ok by (auto simp: cancel_entry_entries fun_upd_idem split: option.split)
  have restart: ?thesis if "sync_one parse (key, p) s = start_entry key p d ?s1"
    using that start_entry_ok [OF s1(1), of key p d] s1(2) Some by (simp add: start_entry_def update_conv')
  show ?thesis
  proof (cases "map_of (sv_entries s) key")
    case None
    with restart show ?thesis using Some by (simp add: sync_one_def)
  next
    case e: (Some e)
    show ?thesis
    proof (cases "se_interval e = d \<and> se_uid e = meta_UID (prj_Meta p) \<and> se_generation e = ps_AssignmentGeneration (prj_Status p)")
      case False
      then have "sync_one parse (key, p) s = start_entry key p d ?s1" using Some e by (auto simp: sync_one_def)
      then show ?thesis by (rule restart)
    next
      case True
      then have r: "sync_one parse (key, p) s = s\<lparr>sv_entries := AList.update key (e\<lparr>se_project := p\<rparr>) (sv_entries s)\<rparr>"
        using Some e by (simp add: sync_one_def)
      note ok = assms [unfolded supervisor_ok_def]
      have loops: "(\<exists>k x. ((map_of (sv_entries s))(key \<mapsto> e\<lparr>se_project := p\<rparr>)) k = Some x \<and> se_loop x = i)
          \<longleftrightarrow> (\<exists>k x. map_of (sv_entries s) k = Some x \<and> se_loop x = i)" for i
        using e by (auto split: if_splits) (metis option.inject)+
      have inj: "\<forall>k k' e1 e2. ((map_of (sv_entries s))(key \<mapsto> e\<lparr>se_project := p\<rparr>)) k = Some e1
          \<longrightarrow> ((map_of (sv_entries s))(key \<mapsto> e\<lparr>se_project := p\<rparr>)) k' = Some e2 \<longrightarrow> se_loop e1 = se_loop e2 \<longrightarrow> k = k'"
        using ok e by (auto split: if_splits)
      have base: "distinct (map fst (sv_entries s))" "distinct (sv_live s)" "\<forall>i \<in> set (sv_live s). i < sv_next s"
        "\<And>i. i \<in> set (sv_live s) \<longleftrightarrow> (\<exists>k e. map_of (sv_entries s) k = Some e \<and> se_loop e = i)" using ok by blast+
      have entries: "map_of (sv_entries (sync_one parse (key, p) s)) = (map_of (sv_entries s))(key \<mapsto> e\<lparr>se_project := p\<rparr>)"
        by (simp add: r update_conv')
      have "supervisor_ok (sync_one parse (key, p) s)"
      proof (rule supervisor_okI [OF entries _ _ inj])
        show "i \<in> set (sv_live (sync_one parse (key, p) s)) \<longleftrightarrow> (\<exists>k x. ((map_of (sv_entries s))(key \<mapsto> e\<lparr>se_project := p\<rparr>)) k = Some x \<and> se_loop x = i)" for i
          unfolding loops using base(4) by (simp add: r)
      qed (use base(1-3) in \<open>simp_all add: r distinct_update\<close>)
      then show ?thesis using True Some by (simp add: r update_conv')
    qed
  qed
qed

lemma cancel_entries:
  assumes "supervisor_ok s"
  shows "supervisor_ok (fold cancel_entry ks s) \<and> map_of (sv_entries (fold cancel_entry ks s)) = (map_of (sv_entries s)) |` (- set ks)"
  using assms
proof (induction ks arbitrary: s)
  case (Cons k ks)
  from Cons.IH [OF cancel_entry_ok [OF Cons.prems, of k]] show ?case
    by (simp add: cancel_entry_entries restrict_map_def fun_eq_iff)
qed (simp add: restrict_map_def fun_eq_iff)

definition supervised_as :: "Project \<Rightarrow> duration \<Rightarrow> supervisorEntry option \<Rightarrow> bool" where
  "supervised_as p d x \<longleftrightarrow> (\<exists>e. x = Some e \<and> se_project e = p \<and> se_interval e = d
     \<and> se_uid e = meta_UID (prj_Meta p) \<and> se_generation e = ps_AssignmentGeneration (prj_Status p))"

lemma sync_all:
  assumes "supervisor_ok s" "distinct (map fst ds)"
  shows "supervisor_ok (fold (sync_one parse) ds s) \<and> (\<forall>k. case map_of ds k of
       None \<Rightarrow> map_of (sv_entries (fold (sync_one parse) ds s)) k = map_of (sv_entries s) k
     | Some p \<Rightarrow> (case backupInterval parse p of
         None \<Rightarrow> map_of (sv_entries (fold (sync_one parse) ds s)) k = map_of (sv_entries s) k
       | Some d \<Rightarrow> supervised_as p d (map_of (sv_entries (fold (sync_one parse) ds s)) k)))"
  using assms
proof (induction ds arbitrary: s)
  case (Cons kp ds)
  obtain key p where kp: "kp = (key, p)" by (cases kp)
  let ?s1 = "sync_one parse (key, p) s"
  from sync_one_step [OF Cons.prems(1), of parse key p]
  have s1: "supervisor_ok ?s1" "\<And>k. k \<noteq> key \<Longrightarrow> map_of (sv_entries ?s1) k = map_of (sv_entries s) k"
    "case backupInterval parse p of None \<Rightarrow> map_of (sv_entries ?s1) key = map_of (sv_entries s) key
       | Some d \<Rightarrow> supervised_as p d (map_of (sv_entries ?s1) key)" unfolding supervised_as_def by blast+
  have d: "distinct (map fst ds)" "map_of ds key = None" using Cons.prems(2) kp by (simp_all add: map_of_eq_None_iff)
  let ?s2 = "fold (sync_one parse) ds ?s1"
  from Cons.IH [OF s1(1) d(1)] have s2: "supervisor_ok ?s2" and ih: "\<And>k. case map_of ds k of
       None \<Rightarrow> map_of (sv_entries ?s2) k = map_of (sv_entries ?s1) k
     | Some p \<Rightarrow> (case backupInterval parse p of
         None \<Rightarrow> map_of (sv_entries ?s2) k = map_of (sv_entries ?s1) k
       | Some d \<Rightarrow> supervised_as p d (map_of (sv_entries ?s2) k))" by blast+
  have "case map_of ((key, p) # ds) k of
       None \<Rightarrow> map_of (sv_entries ?s2) k = map_of (sv_entries s) k
     | Some p \<Rightarrow> (case backupInterval parse p of
         None \<Rightarrow> map_of (sv_entries ?s2) k = map_of (sv_entries s) k
       | Some d \<Rightarrow> supervised_as p d (map_of (sv_entries ?s2) k))" for k
  proof (cases "k = key")
    case True
    have "map_of (sv_entries ?s2) key = map_of (sv_entries ?s1) key" using ih [of key] d(2) by simp
    with True s1(3) show ?thesis by (cases "backupInterval parse p") simp_all
  next
    case False
    then have "map_of ((key, p) # ds) k = map_of ds k" by simp
    then show ?thesis using ih [of k] unfolding s1(2) [OF False] by (simp only:)
  qed
  with s2 show ?case unfolding kp fold_Cons o_apply by blast
qed simp

lemma desired_distinct: "distinct (map fst (desired_projects projects))"
proof -
  have "distinct (map fst m) \<Longrightarrow> distinct (map fst (fold (\<lambda>p m. if shouldSupervise p then AList.update (key_of p) p m else m) projects m))" for m
    by (induction projects arbitrary: m) (simp_all add: distinct_update)
  then show ?thesis by (simp add: desired_projects_def)
qed

lemma Sync_entries:
  assumes "supervisor_ok s"
  shows "supervisor_ok (supervisor_Sync parse projects s) \<and> (case map_of (desired_projects projects) k of
       None \<Rightarrow> map_of (sv_entries (supervisor_Sync parse projects s)) k = None
     | Some p \<Rightarrow> (case backupInterval parse p of
         None \<Rightarrow> map_of (sv_entries (supervisor_Sync parse projects s)) k = map_of (sv_entries s) k
       | Some d \<Rightarrow> supervised_as p d (map_of (sv_entries (supervisor_Sync parse projects s)) k)))"
proof -
  let ?gone = "filter (\<lambda>k. map_of (desired_projects projects) k = None) (map fst (sv_entries s))"
  define s1 where "s1 = fold cancel_entry ?gone s"
  have ok: "supervisor_ok s1" and "map_of (sv_entries s1) = (map_of (sv_entries s)) |` (- set ?gone)"
    using cancel_entries [OF assms, of ?gone] by (simp_all add: s1_def)
  then have e: "map_of (sv_entries s1) k = (if map_of (desired_projects projects) k = None then None else map_of (sv_entries s) k)"
    by (auto simp: restrict_map_def map_of_eq_None_iff)
  have run: "supervisor_Sync parse projects s = fold (sync_one parse) (desired_projects projects) s1"
    by (simp add: supervisor_Sync_def Let_def s1_def)
  from sync_all [OF ok desired_distinct, of parse projects] show ?thesis unfolding run
    by (cases "map_of (desired_projects projects) k"; cases "backupInterval parse (the (map_of (desired_projects projects) k))")
      (use e in \<open>auto dest: spec [of _ k]\<close>)
qed

lemma Syncs_ok: "supervisor_ok s \<Longrightarrow> supervisor_ok (fold (supervisor_Sync parse) polls s)"
  by (induction polls arbitrary: s) (use Sync_entries in auto)

lemma ok_Count:
  assumes "supervisor_ok s"
  shows "length (sv_live s) = Count s"
proof -
  note ok = assms [unfolded supervisor_ok_def]
  have d: "distinct (map fst (sv_entries s))" and l: "distinct (sv_live s)"
    and inj: "\<And>k k' e e'. map_of (sv_entries s) k = Some e \<Longrightarrow> map_of (sv_entries s) k' = Some e' \<Longrightarrow> se_loop e = se_loop e' \<Longrightarrow> k = k'"
    and live: "\<And>i. i \<in> set (sv_live s) \<longleftrightarrow> (\<exists>k e. map_of (sv_entries s) k = Some e \<and> se_loop e = i)" using ok by blast+
  have "inj_on (se_loop \<circ> snd) (set (sv_entries s))"
  proof (rule inj_onI)
    fix x y
    assume x: "x \<in> set (sv_entries s)" and y: "y \<in> set (sv_entries s)" and eq: "(se_loop \<circ> snd) x = (se_loop \<circ> snd) y"
    have mx: "map_of (sv_entries s) (fst x) = Some (snd x)" and my: "map_of (sv_entries s) (fst y) = Some (snd y)"
      using x y map_of_is_SomeI [OF d, of "fst x" "snd x"] map_of_is_SomeI [OF d, of "fst y" "snd y"] by simp_all
    from inj [OF mx my] eq have "fst x = fst y" by simp
    with mx my show "x = y" by (simp add: prod_eq_iff)
  qed
  moreover have "set (sv_live s) = (se_loop \<circ> snd) ` set (sv_entries s)"
  proof (rule set_eqI)
    fix i
    have "i \<in> set (sv_live s) \<longleftrightarrow> (\<exists>k e. (k, e) \<in> set (sv_entries s) \<and> se_loop e = i)"
      unfolding live using map_of_eq_Some_iff [OF d] by simp
    then show "i \<in> set (sv_live s) \<longleftrightarrow> i \<in> (se_loop \<circ> snd) ` set (sv_entries s)" by force
  qed
  ultimately have "card (set (sv_live s)) = card (set (sv_entries s))" by (simp only: card_image)
  then show ?thesis using l d distinct_card [OF l] distinct_card [of "sv_entries s"] by (simp add: Count_def distinct_map)
qed


subsection \<open>What the server is told about the backups\<close>

text \<open>
  When the answers to the reports are those of a server that stores what it accepts, the flag of the loop says, after
  every turn that was reported, what the server shows: failing exactly when the last run failed.
\<close>

lemma reportHealth_tells:
  assumes "health = Some answer" "answer (SetBackupFailing p) = None" "answer (ClearBackupFailing p) = None"
  shows "snd (reportHealth health p failed reported) = failed"
    and "fst (reportHealth health p failed reported) = None \<longleftrightarrow> (if failed then reported else \<not> reported \<and> \<not> backupFailingOn p)"
  using assms by (auto simp: reportHealth_def)

lemma supervisor_loop_append:
  "supervisor_loop (ts @ us) b = (fst (supervisor_loop ts b) @ fst (supervisor_loop us (snd (supervisor_loop ts b))),
     snd (supervisor_loop us (snd (supervisor_loop ts b))))"
  by (induction ts arbitrary: b) (simp_all add: split_beta)

text \<open>A turn whose context is gone says nothing, and a report that was lost is made again by the next failed run.\<close>

lemma cancelled_turn_silent: "\<not> bt_alive t \<Longrightarrow> supervisor_loop [t] b = ([], b)"
  by simp

lemma failing_report_retried:
  assumes "bt_alive t" "turn_failed t" "bt_health t = Some answer" "answer (SetBackupFailing (bt_project t)) = Some e"
  shows "supervisor_loop [t] False = ([SetBackupFailing (bt_project t)], False)"
  using assms by (simp add: reportHealth_def)

text \<open>
  A listing of a Project under a new assignment, with an interval that does not parse, leaves the goroutine of the
  old assignment running on the old snapshot.
\<close>

lemma unusable_interval_keeps_stale_loop:
  assumes "map_of (sv_entries s) key = Some e" "backupInterval parse p = None" "supervisor_ok s"
    and "desired_projects [p] = [(key, p)]"
  shows "map_of (sv_entries (supervisor_Sync parse [p] s)) key = Some e"
  using Sync_entries [OF assms(3), of parse "[p]" key] assms(1,2,4) by simp

subsection \<open>Three polls\<close>

definition demo_policy :: "string \<Rightarrow> int \<Rightarrow> Project" where
  "demo_policy uid gen = \<lparr>prj_TypeMeta = \<lparr>tm_APIVersion = APIVersion, tm_Kind = kindProject\<rparr>,
     prj_Meta = \<lparr>meta_Name = ''p'', meta_UID = uid, meta_Namespace = ''n'', meta_ResourceVersion = 3,
       meta_SpecRevision = 1, meta_Labels = (\<lambda>_. None), meta_Annotations = (\<lambda>_. None), meta_CreatedAt = 0, meta_UpdatedAt = 0\<rparr>,
     prj_Spec = \<lparr>spec_Size = ProjectSizeSmall, spec_Services = [], spec_Volumes = [\<lparr>vol_Name = ''v'', vol_Type = VolumeTypeManaged\<rparr>],
       spec_Backup = Some \<lparr>pbc_Interval = ''1h'', pbc_OnMissing = VolumeOnMissingInitializeEmpty, pbc_Items = []\<rparr>, spec_Ingress = [], spec_ExpireAt = None, spec_RestartedAt = None\<rparr>,
     prj_Status = InitialProjectStatus\<lparr>ps_Phase := ProjectPhaseRunning, ps_AssignmentGeneration := gen\<rparr>\<rparr>"

definition demo_parse :: "string \<Rightarrow> duration option" where
  "demo_parse s = (if s = ''1h'' then Some time_Hour else None)"

definition demo_supervisor :: Supervisor where
  "demo_supervisor = fold (supervisor_Sync demo_parse) [[demo_policy ''u1'' 1], [demo_policy ''u1'' 1]] NewSupervisor"

text \<open>The second poll started nothing; the third, with a new assignment, replaced the goroutine.\<close>

lemma demo_polls:
  "sv_live demo_supervisor = [0]" "sv_live (supervisor_Sync demo_parse [demo_policy ''u1'' 2] demo_supervisor) = [1]"
  "backupInterval demo_parse (demo_policy ''u1'' 2) = Some time_Hour"
  by code_simp+


end
