(* ===== verification/Spec2Isabelle.thy ===== *)
theory Spec2Isabelle
  imports Ownership_Properties Api_Properties Controller_System Seeding Token_Properties Secrets Overlay Restore_Aside
    Agent_Orphans Backup_Restore Backup_Supervisor
begin

text \<open>
  Caravanserai places Projects (groups of containers with volumes) on Nodes. A server keeps Projects in
  a Postgres table and serves an HTTP API; controllers inside the server assign Pending Projects to Nodes,
  release them when a Node is lost, and remove the records of deleted ones; an Agent on every Node runs
  the assigned Projects and reports back. A report is fenced: it names the lifetime (UID), the Node and
  the assignment generation, and is refused when the stored assignment is another one. A Node that lost
  an assignment owes its cleanup, recorded as an obligation of the Project until evidence resolves it.

  The theories, from the bottom:

  \<^item> \<open>Cara_Prelude\<close>: 64-bit wrap-around, times and durations, number and string formatting, the sentinel
    errors of \<open>internal/store/interface.go\<close> with \<open>errors.Is\<close>, and list lemmas.
  \<^item> \<open>Conditions\<close>: \<open>api/v1/condition.go\<close>; the condition list as a map (locale \<open>condition_map\<close>).
  \<^item> \<open>Api_Types\<close>, \<open>Recovery\<close>: the records of \<open>api/v1\<close> (Projects, Nodes, tiers, sizes, backups, cleanup
    obligations) and every pure method on them; the obligation list as a ledger of assignments (locale
    \<open>obligation_ledger\<close>).
  \<^item> \<open>Lifecycle\<close>: the phase transition table, the blockers of finalization and immediate deletion, the spec
    changes an assigned Project refuses, name and namespace validation.
  \<^item> \<open>Project_Store\<close>: the Project half of \<open>internal/store/postgres/store.go\<close> as operations on a table of
    rows, with its three compare-and-swap loops; \<open>Store_CAS\<close>: what those loops guarantee under
    interference (locales \<open>status_cas\<close> and \<open>pinned_cas\<close>, interpreted on the three loops);
    \<open>Store_Ops\<close>: evidence and backup reports, spec changes, takeover.
  \<^item> \<open>Adapter\<close>: the Project writes of the controllers, \<open>internal/server/adapter/project.go\<close>.
  \<^item> \<open>Spec_Validation\<close>, \<open>Project_Handlers\<close>: the Project routes of \<open>internal/server/handler/project\<close>, with
    the authorization rules and the mapping of errors to status codes.
  \<^item> \<open>Ownership\<close>: the abstract specification, a state machine over phase, Node, generation and
    obligations, with its invariant. \<open>Closure_Refinement\<close>: every status mutation of the server refines
    it. \<open>Server_System\<close>: the server as a transition system, one rule per write, and the invariant of
    every reachable state. \<open>Demo_Trace\<close>: one Project's life, for the witnesses.
  \<^item> \<open>Ownership_Properties\<close>, \<open>Concurrency\<close> and \<open>Api_Properties\<close> hold the properties of the Project records.
  \<^item> \<open>Node_Store\<close>, \<open>Node_Handlers\<close>, \<open>Node_Properties\<close>: Nodes and pre-auth keys of the store, the Node adapter,
    the health controller (\<open>controller/node_health.go\<close>) and the Node routes (\<open>handler/node\<close>), on a state
    \<open>cluster\<close> of their own; their tables under every interleaving, heartbeats and health passes.
  \<^item> \<open>Quantity\<close>: \<open>internal/quantity\<close> with the \<open>float64\<close> arithmetic it uses. \<open>Scheduler\<close>,
    \<open>Scheduler_Properties\<close>: the capacity ledger, filter, score and pass of \<open>project_scheduler.go\<close>; no
    over-commit, the best candidate, and that a schedulable Project is scheduled.
  \<^item> \<open>Controllers\<close>, \<open>Controller_Properties\<close>: the outage rescheduler, the failure rescheduler and the
    finalizer; grace periods, bounded moves, that an outage frees its Projects. \<open>Controller_System\<close>: a pass
    of any controller is a run of the server's writes, so the ownership invariant covers the controllers.
  \<^item> \<open>Work_Queue\<close>: the queue and the workers of \<open>workqueue.go\<close> and \<open>manager.go\<close> as a step relation, with no
    lost wake-up. \<open>Seeding\<close>: the event bus, the options and the \<open>Seed\<close> loops; what a resync promises is
    the locale \<open>seeder\<close>, interpreted on the five controllers.
  \<^item> \<open>Tokens\<close>, \<open>Token_Properties\<close>: API and join tokens of the store, \<open>auth.go\<close>, the allow-list of \<open>authz.go\<close> and
    the token routes; single use, revocation and what a Node's token opens.
  \<^item> \<open>Secrets\<close>: Secrets of the store and their routes. \<open>Overlay\<close>: the overlay routes over Headscale.
  \<^item> \<open>Agent_Prelude\<close>: the Agent's errors, operations on a state that may fail, lexical paths, host paths of
    \<open>agent/volume\<close>. \<open>Host_Files\<close>: the calls of \<open>os\<close> on a file system in which any call may fail and leave its
    work half done. \<open>Backup_Layout\<close>: keys and manifests of \<open>agent/backup\<close>.
  \<^item> \<open>Backup_Coordinator\<close>: the claims of \<open>backup/coordinator.go\<close> (locale \<open>claim_table\<close>, interpreted on them) and the
    ownership question of \<open>agent/ownership.go\<close>. \<open>Backup_Run\<close>: \<open>backup/runner.go\<close> and \<open>backup/retention.go\<close> over an
    object store. \<open>Backup_Properties\<close>: the service comes back, and what pruning may remove; \<open>Backup_Restore\<close>: a
    backup and the restore that reads it, composed. \<open>Backup_Supervisor\<close>: \<open>backup/supervisor.go\<close>, one loop per
    assignment.
  \<^item> \<open>Archive_Extract\<close>: \<open>backup/archive.go\<close> and \<open>restore/extract.go\<close> on tar entries, with \<open>os.Root\<close>;
    \<open>Archive_Roundtrip\<close>: an archived volume comes back as it was.
  \<^item> \<open>Restore_Decision\<close>, \<open>Restore_Run\<close>: marker, decision, restore, empty start, quarantine and cleanup of
    \<open>agent/restore\<close>; \<open>Restore_Properties\<close>, \<open>Restore_Guarantees\<close>, \<open>Restore_Aside\<close>: when local data is used, that
    a restore puts back the backup or is never served, and that data is set aside whole.
  \<^item> \<open>Agent_Trackers\<close>: the classification of \<open>health.go\<close> and the trackers of \<open>recovery.go\<close>, \<open>spec_update.go\<close> and
    \<open>orphan.go\<close>. \<open>Agent_World\<close>: the Agent as a state monad over the trace of what it asked, did and was told,
    with a calculus of weakest preconditions. \<open>Agent_Postgres\<close>, \<open>Agent_Loop\<close>, \<open>Agent_Health\<close>, \<open>Agent_Poll\<close>,
    \<open>Agent_Run\<close>: placement, health check, recovery, updates, cleanup, teardown, the orphan sweep and \<open>Run\<close>.
  \<^item> \<open>Agent_Discipline\<close>: what justifies each call that acts on containers or reports their removal;
    \<open>Agent_Safety\<close>: every run of the loop keeps its calls justified; \<open>Agent_Guarantees\<close>, \<open>Agent_Orphans\<close>: what
    follows for recovery, cleanup reports, Running reports and orphans.

  The state is \<open>db\<close>: the rows of the Project table, the takeover audit, the published events and, as a
  ghost, the UIDs issued so far. A statement or a transaction that locks its row is one step; the
  instants between the statements of one operation are explicit, as an \<open>interference\<close> per attempt of a
  loop and as \<open>gap\<close> arguments of the handlers, and stand for arbitrary writes of other sessions.
  \<open>reachable\<close> runs the operations one at a time; that this is enough for the fenced and the
  lifetime-pinned operations is what the linearizability theorems say, and \<open>schedule_crosses_lifetimes\<close>
  shows where it is not, the write by version only.

  Bounds: the loops make \<open>maxStatusUpdateAttempts\<close> attempts as in the code, so they are structural
  recursions on the list of attempts and always end. The assignment generation is an \<open>int64\<close> and wraps;
  the system runs keep it below the maximum, which a grant per nanosecond would take centuries to
  reach. Resource versions are unbounded.

  A controller pass takes the schedule of each of its writes; \<open>quiet\<close> schedules are those nobody disturbs.
  The queue's workers interleave at every point at which another goroutine may run, and the bound on their
  steps, \<open>queue_work\<close>, is three steps per waiting name, two for the signal and one per woken worker. The
  scheduler's sums are exact below \<open>2^30\<close> rows; scores are rounded as \<open>float64\<close> rounds.

  The Agent's state is its trackers, its files and the trace of its calls. Every answer of the server, the
  container engine, the clock and the Coordinator is a function of the trace before it, so any behaviour of
  theirs over a run is covered, other goroutines' included. The retry loops of registration take fuel: a run
  that uses it up is a run that is still registering. The order of the two tickers is a list of ticks.

  Not modelled: the database engine and its failures (but where a retry loop meets them, as arguments),
  JSON encoding (but for the presence of the conditions key, which the no-op tests of the statements
  see), logging and tracing. Arguments stand for \<open>time.ParseDuration\<close>, SHA-256, the random source of new
  tokens, the router's match of a request to a pattern, the Headscale service, the HTTP round trip of a probe,
  what a conversion of an out-of-range float gives, the tar and gzip packages, the object store and the JSON of
  manifests and markers. The Docker daemon's client, the pgBackRest repo host, the command line client,
  configuration and program wiring are I/O against services outside the repository and are not modelled.
\<close>

end
